(* ===== verification/Prelude.thy ===== *)
theory Prelude
  imports Complex_Main "HOL-Library.List_Lexorder" "HOL-Library.Char_ord"
begin

text \<open>
  What every component shares: the development's collections of rules, the pieces of the
  JavaScript standard library the sources use on strings and lists, and the scheme by which the
  state machines of the later theories are proved safe.

  A JavaScript string is a list of code units. Here it is a HOL \<open>string\<close>, whose characters are
  the code units below 256; everything the sources compare, split or replace is in that range.
  \<open>of_char\<close> reads a unit as a number, and the order on strings is the order of their code
  units, which is the order \<open><\<close> has on JavaScript strings.
\<close>

named_theorems gw_defs "definitions the component proofs unfold"
named_theorems inv_intros "introduction rules for the invariants of the components"

section \<open>Character classes\<close>

definition code :: "char \<Rightarrow> nat" where
  "code c = of_char c"

definition is_digit :: "char \<Rightarrow> bool" where
  "is_digit c \<longleftrightarrow> 48 \<le> code c \<and> code c \<le> 57"

definition is_lower :: "char \<Rightarrow> bool" where
  "is_lower c \<longleftrightarrow> 97 \<le> code c \<and> code c \<le> 122"

definition is_upper :: "char \<Rightarrow> bool" where
  "is_upper c \<longleftrightarrow> 65 \<le> code c \<and> code c \<le> 90"

definition is_lower_alnum :: "char \<Rightarrow> bool" where
  "is_lower_alnum c \<longleftrightarrow> is_lower c \<or> is_digit c"

definition is_alnum :: "char \<Rightarrow> bool" where
  "is_alnum c \<longleftrightarrow> is_lower c \<or> is_upper c \<or> is_digit c"

text \<open>The white space of the \<open>\s\<close> class among the code units below 256.\<close>

definition is_space :: "char \<Rightarrow> bool" where
  "is_space c \<longleftrightarrow> code c \<in> {9, 10, 11, 12, 13, 32, 160}"

text \<open>\<open>toLowerCase\<close>: the capital letters of ASCII and of Latin-1, the multiplication sign apart.\<close>

definition to_lower_char :: "char \<Rightarrow> char" where
  "to_lower_char c =
     (if is_upper c \<or> 192 \<le> code c \<and> code c \<le> 222 \<and> code c \<noteq> 215
      then char_of (code c + 32) else c)"

definition to_lower :: "string \<Rightarrow> string" where
  "to_lower s = map to_lower_char s"

lemmas char_class_defs =
  code_def is_digit_def is_lower_def is_upper_def is_lower_alnum_def is_alnum_def is_space_def

lemma length_to_lower [simp]: "length (to_lower s) = length s"
  by (simp add: to_lower_def)

lemma to_lower_Nil [simp]: "to_lower [] = []"
  by (simp add: to_lower_def)

lemma to_lower_Cons [simp]: "to_lower (c # s) = to_lower_char c # to_lower s"
  by (simp add: to_lower_def)

lemma to_lower_append [simp]: "to_lower (s @ t) = to_lower s @ to_lower t"
  by (simp add: to_lower_def)

lemma code_less: "code c < 256"
  by (simp add: code_def)

lemma code_char_of [simp]: "code (char_of n) = n mod 256"
  by (simp add: code_def)

lemma to_lower_char_idem [simp]: "to_lower_char (to_lower_char c) = to_lower_char c"
proof (cases "is_upper c \<or> 192 \<le> code c \<and> code c \<le> 222 \<and> code c \<noteq> 215")
  case True
  then have "code (to_lower_char c) = code c + 32" and "code c + 32 \<le> 254"
    by (auto simp: to_lower_char_def is_upper_def)
  with True have "\<not> is_upper (to_lower_char c) \<and>
      \<not> (192 \<le> code (to_lower_char c) \<and> code (to_lower_char c) \<le> 222
         \<and> code (to_lower_char c) \<noteq> 215)"
    by (auto simp: is_upper_def)
  then show ?thesis by (auto simp: to_lower_char_def [of "to_lower_char c"])
next
  case False
  then have "to_lower_char c = c" by (auto simp: to_lower_char_def)
  then show ?thesis by simp
qed

lemma to_lower_idem [simp]: "to_lower (to_lower s) = to_lower s"
  by (simp add: to_lower_def)

section \<open>Strings\<close>

definition starts_with :: "string \<Rightarrow> string \<Rightarrow> bool" where
  "starts_with p s \<longleftrightarrow> take (length p) s = p"

definition ends_with :: "string \<Rightarrow> string \<Rightarrow> bool" where
  "ends_with p s \<longleftrightarrow> starts_with (rev p) (rev s)"

fun contains :: "string \<Rightarrow> string \<Rightarrow> bool" where
  "contains p [] = (p = [])"
| "contains p (c # s) = (starts_with p (c # s) \<or> contains p s)"

text \<open>\<open>indexOf\<close> of a single character; \<open>None\<close> where JavaScript answers \<open>-1\<close>.\<close>

fun index_of :: "char \<Rightarrow> string \<Rightarrow> nat option" where
  "index_of c [] = None"
| "index_of c (d # s) = (if d = c then Some 0 else map_option Suc (index_of c s))"

text \<open>\<open>split\<close> on a single character.\<close>

lemma dropWhile_less [termination_simp]: "length (dropWhile P s) < Suc (length s)"
  using length_dropWhile_le [of P s] by simp

fun split_on :: "char \<Rightarrow> string \<Rightarrow> string list" where
  "split_on c [] = [[]]"
| "split_on c (d # s) =
     (if d = c then [] # split_on c s
      else (case split_on c s of [] \<Rightarrow> [[d]] | w # ws \<Rightarrow> (d # w) # ws))"

text \<open>\<open>split\<close> on a regular expression \<open>[P]+\<close>: the pieces between the maximal runs.\<close>

fun split_runs :: "(char \<Rightarrow> bool) \<Rightarrow> string \<Rightarrow> string list" where
  "split_runs P [] = [[]]"
| "split_runs P (c # s) =
     (if P c then [] # split_runs P (dropWhile P s)
      else (case split_runs P s of [] \<Rightarrow> [[c]] | w # ws \<Rightarrow> (c # w) # ws))"

text \<open>\<open>replace(/[P]+/g, r)\<close>.\<close>

fun replace_runs :: "(char \<Rightarrow> bool) \<Rightarrow> string \<Rightarrow> string \<Rightarrow> string" where
  "replace_runs P r [] = []"
| "replace_runs P r (c # s) =
     (if P c then r @ replace_runs P r (dropWhile P s) else c # replace_runs P r s)"

text \<open>\<open>replace(/[P]+$/, "")\<close>.\<close>

definition strip_trailing :: "(char \<Rightarrow> bool) \<Rightarrow> string \<Rightarrow> string" where
  "strip_trailing P s = rev (dropWhile P (rev s))"

fun join :: "string \<Rightarrow> string list \<Rightarrow> string" where
  "join sep [] = []"
| "join sep [w] = w"
| "join sep (w # ws) = w @ sep @ join sep ws"

text \<open>\<open>v ?? ""\<close>.\<close>

definition or_empty :: "string option \<Rightarrow> string" where
  "or_empty v = (case v of None \<Rightarrow> [] | Some s \<Rightarrow> s)"

text \<open>The decimal digits of a natural number.\<close>

fun show_nat :: "nat \<Rightarrow> string" where
  "show_nat n =
     (if n < 10 then [char_of (48 + n)] else show_nat (n div 10) @ [char_of (48 + n mod 10)])"

declare show_nat.simps [simp del]

lemma starts_with_append [simp]: "starts_with p (p @ s)"
  by (simp add: starts_with_def)

lemma starts_with_iff: "starts_with p s \<longleftrightarrow> (\<exists>t. s = p @ t)"
  by (auto simp: starts_with_def) (metis append_take_drop_id)

lemma ends_with_iff: "ends_with p s \<longleftrightarrow> (\<exists>t. s = t @ p)"
  by (auto simp: ends_with_def starts_with_iff rev_eq_append_conv) (metis rev_rev_ident)

lemma index_of_Some: "index_of c s = Some n \<Longrightarrow> n < length s \<and> s ! n = c \<and> c \<notin> set (take n s)"
  by (induction s arbitrary: n) (auto split: if_splits)

lemma index_of_None: "index_of c s = None \<longleftrightarrow> c \<notin> set s"
  by (induction s) auto

lemma index_of_append:
  "c \<notin> set s \<Longrightarrow> index_of c (s @ t) = map_option ((+) (length s)) (index_of c t)"
  by (cases "index_of c t"; induction s) auto

lemma strip_trailing_Nil [simp]: "strip_trailing P [] = []"
  by (simp add: strip_trailing_def)

lemma strip_trailing_snoc:
  "strip_trailing P (s @ [c]) = (if P c then strip_trailing P s else s @ [c])"
  by (simp add: strip_trailing_def)

lemma strip_trailing_last: "strip_trailing P s \<noteq> [] \<Longrightarrow> \<not> P (last (strip_trailing P s))"
  by (induction s rule: rev_induct) (auto simp: strip_trailing_snoc split: if_splits)

lemma strip_trailing_prefix: "\<exists>t. s = strip_trailing P s @ t \<and> (\<forall>c \<in> set t. P c)"
proof (induction s rule: rev_induct)
  case (snoc c s)
  then obtain t where t: "s = strip_trailing P s @ t" "\<forall>d \<in> set t. P d" by blast
  show ?case
  proof (cases "P c")
    case True
    with t have "s @ [c] = strip_trailing P (s @ [c]) @ t @ [c]" by (simp add: strip_trailing_snoc)
    with t(2) True show ?thesis by (intro exI [of _ "t @ [c]"]) auto
  qed (simp add: strip_trailing_snoc)
qed simp

lemma strip_trailing_idem [simp]: "strip_trailing P (strip_trailing P s) = strip_trailing P s"
  by (induction s rule: rev_induct) (auto simp: strip_trailing_snoc)

lemma strip_trailing_id: "s = [] \<or> \<not> P (last s) \<Longrightarrow> strip_trailing P s = s"
  by (cases s rule: rev_cases) (auto simp: strip_trailing_snoc)

lemma length_strip_trailing: "length (strip_trailing P s) \<le> length s"
  by (simp add: strip_trailing_def) (metis length_dropWhile_le length_rev)

lemma set_strip_trailing: "set (strip_trailing P s) \<subseteq> set s"
  by (auto simp: strip_trailing_def dest: set_dropWhileD)

lemma hd_strip_trailing: "strip_trailing P s \<noteq> [] \<Longrightarrow> hd (strip_trailing P s) = hd s"
  by (induction s rule: rev_induct) (auto simp: strip_trailing_snoc hd_append split: if_splits)

lemma replace_runs_set:
  "c \<in> set (replace_runs P r s) \<Longrightarrow> c \<in> set r \<or> (c \<in> set s \<and> \<not> P c)"
  by (induction P r s rule: replace_runs.induct)
    (auto split: if_splits dest: set_dropWhileD)

lemma replace_runs_id: "\<forall>c \<in> set s. \<not> P c \<Longrightarrow> replace_runs P r s = s"
  by (induction s) auto

lemma show_nat_not_Nil [simp]: "show_nat n \<noteq> []"
  by (subst show_nat.simps) simp

lemma split_on_single: "c \<notin> set w \<Longrightarrow> split_on c w = [w]"
  by (induction w) auto

lemma split_on_word: "c \<notin> set w \<Longrightarrow> split_on c (w @ c # s) = w # split_on c s"
  by (induction w) auto

lemma split_on_join:
  "ws \<noteq> [] \<Longrightarrow> \<forall>w \<in> set ws. c \<notin> set w \<Longrightarrow> split_on c (join [c] ws) = ws"
  by (induction ws rule: induct_list012) (auto simp: split_on_single split_on_word)

lemma is_digit_char_of: "n < 10 \<Longrightarrow> is_digit (char_of (48 + n :: nat))"
  by (simp add: is_digit_def)

lemma show_nat_digits: "\<forall>c \<in> set (show_nat n). is_digit c"
proof (induction n rule: show_nat.induct)
  case (1 n)
  then show ?case by (subst show_nat.simps) (auto simp: is_digit_char_of)
qed

lemma length_show_nat: "n < 10 ^ k \<Longrightarrow> 0 < k \<Longrightarrow> length (show_nat n) \<le> k"
proof (induction n arbitrary: k rule: show_nat.induct)
  case (1 n)
  show ?case
  proof (cases "n < 10")
    case True
    with "1.prems" show ?thesis by (subst show_nat.simps) simp
  next
    case False
    with "1.prems" have k: "1 < k" by (cases k; cases "k - 1") auto
    have "n div 10 < 10 ^ (k - 1)"
      using "1.prems" k by (cases k) (auto simp: less_mult_imp_div_less mult.commute)
    then have "length (show_nat (n div 10)) \<le> k - 1"
      using False k by (intro "1.IH") auto
    with False k show ?thesis by (subst show_nat.simps) simp
  qed
qed

lemma show_nat_inj: "show_nat m = show_nat n \<Longrightarrow> m = n"
proof (induction m arbitrary: n rule: show_nat.induct)
  case (1 m)
  have code_eq: "char_of (48 + a :: nat) = char_of (48 + b :: nat) \<Longrightarrow> a < 10 \<Longrightarrow> b < 10 \<Longrightarrow> a = b"
    for a b :: nat
    by (drule arg_cong [of _ _ code]) simp
  have split: "show_nat k = (if k < 10 then [] else show_nat (k div 10)) @ [char_of (48 + k mod 10)]"
    for k
    by (subst show_nat.simps) simp
  from "1.prems" have m10: "m mod 10 = n mod 10"
    and pre: "(if m < 10 then [] else show_nat (m div 10)) = (if n < 10 then [] else show_nat (n div 10))"
    by (auto simp: split [of m] split [of n] intro: code_eq)
  show ?case
  proof (cases "m < 10 \<or> n < 10")
    case True
    with pre show_nat_not_Nil [of "m div 10"] show_nat_not_Nil [of "n div 10"]
    have "m < 10" "n < 10" by (metis (full_types))+
    with m10 show ?thesis by simp
  next
    case False
    with pre have "m div 10 = n div 10" by (intro "1.IH") auto
    with m10 show ?thesis by (metis div_mult_mod_eq)
  qed
qed

section \<open>Deduplication that keeps the first occurrence\<close>

text \<open>\<open>[...new Set(xs)]\<close>: a JavaScript set keeps the order in which its members were added.\<close>

fun unique :: "'a list \<Rightarrow> 'a list" where
  "unique [] = []"
| "unique (x # xs) = x # filter (\<lambda>y. y \<noteq> x) (unique xs)"

lemma set_unique [simp]: "set (unique xs) = set xs"
  by (induction xs) auto

lemma distinct_unique [simp]: "distinct (unique xs)"
  by (induction xs) auto

lemma unique_id: "distinct xs \<Longrightarrow> unique xs = xs"
  by (induction xs) (auto simp: filter_id_conv)

section \<open>Keyed collections\<close>

text \<open>
  A JavaScript \<open>Map\<close>, and the properties of an object: the entries in the order in which their
  keys were first set. Setting a key that is present keeps its place.
\<close>

fun map_set :: "('k \<times> 'v) list \<Rightarrow> 'k \<Rightarrow> 'v \<Rightarrow> ('k \<times> 'v) list" where
  "map_set [] k v = [(k, v)]"
| "map_set ((k', v') # es) k v =
     (if k' = k then (k, v) # es else (k', v') # map_set es k v)"

definition map_delete :: "('k \<times> 'v) list \<Rightarrow> 'k \<Rightarrow> ('k \<times> 'v) list" where
  "map_delete es k = filter (\<lambda>e. fst e \<noteq> k) es"

text \<open>The contract of such a collection, and what follows from it for every client.\<close>

locale keyed_collection =
  fixes get :: "'m \<Rightarrow> 'k \<Rightarrow> 'v option" and put :: "'m \<Rightarrow> 'k \<Rightarrow> 'v \<Rightarrow> 'm"
    and del :: "'m \<Rightarrow> 'k \<Rightarrow> 'm"
  assumes get_put: "get (put m k v) j = (if j = k then Some v else get m j)"
    and get_del: "get (del m k) j = (if j = k then None else get m j)"
begin

lemma get_put_same: "get (put m k v) k = Some v"
  by (simp add: get_put)

lemma get_put_other: "j \<noteq> k \<Longrightarrow> get (put m k v) j = get m j"
  by (simp add: get_put)

lemma get_put_put: "get (put (put m k v) k w) j = get (put m k w) j"
  by (simp add: get_put)

lemma get_del_put: "get (del (put m k v) k) j = get (del m k) j"
  by (simp add: get_put get_del)

lemma forall_put:
  "\<forall>j w. get m j = Some w \<longrightarrow> P j w \<Longrightarrow> P k v \<Longrightarrow> \<forall>j w. get (put m k v) j = Some w \<longrightarrow> P j w"
  by (simp add: get_put)

lemma forall_del:
  "\<forall>j w. get m j = Some w \<longrightarrow> P j w \<Longrightarrow> \<forall>j w. get (del m k) j = Some w \<longrightarrow> P j w"
  by (simp add: get_del)

end

lemma map_of_map_set [simp]: "map_of (map_set es k v) j = (if j = k then Some v else map_of es j)"
  by (induction es k v rule: map_set.induct) auto

lemma map_of_map_delete [simp]: "map_of (map_delete es k) j = (if j = k then None else map_of es j)"
  by (induction es) (auto simp: map_delete_def)

interpretation js_map: keyed_collection map_of map_set map_delete
  by unfold_locales simp_all

lemma fst_map_set: "fst ` set (map_set es k v) = insert k (fst ` set es)"
  by (induction es k v rule: map_set.induct) auto

lemma distinct_map_set: "distinct (map fst es) \<Longrightarrow> distinct (map fst (map_set es k v))"
proof (induction es k v rule: map_set.induct)
  case (2 k' v' es k v)
  then have "k' \<noteq> k \<Longrightarrow> k' \<notin> fst ` set (map_set es k v)"
    by (auto simp: fst_map_set)
  with 2 show ?case by auto
qed simp

lemma distinct_map_delete: "distinct (map fst es) \<Longrightarrow> distinct (map fst (map_delete es k))"
  by (simp add: map_delete_def distinct_map_filter)

lemma map_of_filter_fst:
  "distinct (map fst es) \<Longrightarrow>
     map_of (filter P es) k = (case map_of es k of None \<Rightarrow> None
       | Some v \<Rightarrow> if P (k, v) then Some v else None)"
proof (induction es)
  case (Cons e es)
  obtain j w where e: "e = (j, w)" by (cases e)
  have "k = j \<Longrightarrow> map_of es k = None" using Cons.prems by (simp add: e map_of_eq_None_iff)
  with Cons show ?case by (auto simp: e split: option.splits)
qed simp

section \<open>Reachable states\<close>

text \<open>
  A component whose steps interleave is a predicate on initial states and a relation of steps.
  Its safety is an invariant; the locale is the proof obligation each such component discharges.
\<close>

inductive reach :: "('s \<Rightarrow> bool) \<Rightarrow> ('s \<Rightarrow> 's \<Rightarrow> bool) \<Rightarrow> 's \<Rightarrow> bool"
  for init :: "'s \<Rightarrow> bool" and step :: "'s \<Rightarrow> 's \<Rightarrow> bool" where
  reach_init: "init s \<Longrightarrow> reach init step s"
| reach_step: "reach init step s \<Longrightarrow> step s t \<Longrightarrow> reach init step t"

locale safe_system =
  fixes init :: "'s \<Rightarrow> bool" and step :: "'s \<Rightarrow> 's \<Rightarrow> bool" and inv :: "'s \<Rightarrow> bool"
  assumes inv_init: "init s \<Longrightarrow> inv s"
    and inv_step: "inv s \<Longrightarrow> step s t \<Longrightarrow> inv t"
begin

lemma reach_inv: "reach init step s \<Longrightarrow> inv s"
  by (induction rule: reach.induct) (auto intro: inv_init inv_step)

lemma reach_inv_mono: "reach init step s \<Longrightarrow> (\<And>s. inv s \<Longrightarrow> Q s) \<Longrightarrow> Q s"
  by (blast dest: reach_inv)

end

section \<open>One winner\<close>

text \<open>
  Compare-and-swap and single-use rows make the same promise: however attempts and other operations
  interleave, at most one attempt succeeds. \<open>wins\<close> counts the attempts that succeed in a sequence
  of attempts and other operations.
\<close>

fun wins :: "('a \<Rightarrow> 's \<Rightarrow> bool \<times> 's) \<Rightarrow> ('o \<Rightarrow> 's \<Rightarrow> 's) \<Rightarrow> ('a + 'o) list \<Rightarrow> 's \<Rightarrow> nat" where
  "wins attempt other [] s = 0"
| "wins attempt other (Inl a # es) s =
     (let (won, s') = attempt a s
      in (if won then Suc (wins attempt other es s') else wins attempt other es s'))"
| "wins attempt other (Inr x # es) s = wins attempt other es (other x s)"

locale single_winner =
  fixes attempt :: "'a \<Rightarrow> 's \<Rightarrow> bool \<times> 's" and other :: "'o \<Rightarrow> 's \<Rightarrow> 's"
    and admitted :: "'a + 'o \<Rightarrow> bool" and ok :: "'s \<Rightarrow> bool" and spent :: "'s \<Rightarrow> bool"
  assumes ok_attempt: "ok s \<Longrightarrow> admitted (Inl a) \<Longrightarrow> ok (snd (attempt a s))"
    and ok_other: "ok s \<Longrightarrow> admitted (Inr x) \<Longrightarrow> ok (other x s)"
    and win_spends: "ok s \<Longrightarrow> admitted (Inl a) \<Longrightarrow> fst (attempt a s) \<Longrightarrow> spent (snd (attempt a s))"
    and spent_loses: "ok s \<Longrightarrow> admitted (Inl a) \<Longrightarrow> spent s \<Longrightarrow> \<not> fst (attempt a s)"
    and spent_attempt: "ok s \<Longrightarrow> admitted (Inl a) \<Longrightarrow> spent s \<Longrightarrow> spent (snd (attempt a s))"
    and spent_other: "ok s \<Longrightarrow> admitted (Inr x) \<Longrightarrow> spent s \<Longrightarrow> spent (other x s)"
begin

lemma wins_spent: "ok s \<Longrightarrow> spent s \<Longrightarrow> \<forall>e \<in> set es. admitted e \<Longrightarrow> wins attempt other es s = 0"
proof (induction es arbitrary: s)
  case (Cons e es)
  then show ?case
    by (cases e) (auto simp: case_prod_beta ok_attempt ok_other spent_loses spent_attempt spent_other)
qed simp

lemma one_winner: "ok s \<Longrightarrow> \<forall>e \<in> set es. admitted e \<Longrightarrow> wins attempt other es s \<le> 1"
proof (induction es arbitrary: s)
  case (Cons e es)
  then show ?case
    by (cases e) (auto simp: case_prod_beta ok_attempt ok_other wins_spent win_spends)
qed simp

end

end
