(* ===== verification/Core.thy ===== *)
theory Core
  imports Prelude
begin

text \<open>
  \<^verbatim>\<open>packages/core\<close>: JSON values and the JSON-RPC envelopes (\<^verbatim>\<open>json-rpc.ts\<close>,
  \<^verbatim>\<open>json.ts\<close>), the error taxonomy (\<^verbatim>\<open>errors.ts\<close>), scope strings and clamping
  (\<^verbatim>\<open>text.ts\<close>), the retry delay (\<^verbatim>\<open>time.ts\<close>) and the protocol negotiation and log
  severities of \<^verbatim>\<open>mcp.ts\<close>. A JavaScript number is a rational here, so the rounding of a
  double is not modelled; an object is the list of its entries in insertion order.
\<close>

section \<open>JSON values\<close>

datatype json =
    JStr string
  | JNum rat
  | JBool bool
  | JNull
  | JArr "json list"
  | JObj "(string \<times> json) list"

text \<open>\<open>value[key]\<close> on a parsed value: \<open>None\<close> is \<open>undefined\<close>.\<close>

fun jget :: "json \<Rightarrow> string \<Rightarrow> json option" where
  "jget (JObj es) k = map_of es k"
| "jget _ k = None"

fun is_record :: "json \<Rightarrow> bool" where
  "is_record (JObj es) = True"
| "is_record _ = False"

fun is_array :: "json \<Rightarrow> bool" where
  "is_array (JArr xs) = True"
| "is_array _ = False"

fun is_string :: "json \<Rightarrow> bool" where
  "is_string (JStr s) = True"
| "is_string _ = False"

section \<open>JSON-RPC envelopes\<close>

definition jsonrpc_version :: string where
  "jsonrpc_version = ''2.0''"

fun is_request_id :: "json option \<Rightarrow> bool" where
  "is_request_id (Some (JStr s)) = True"
| "is_request_id (Some (JNum n)) = True"
| "is_request_id _ = False"

definition is_envelope :: "json \<Rightarrow> bool" where
  "is_envelope v \<longleftrightarrow> jget v ''jsonrpc'' = Some (JStr jsonrpc_version)"

definition has_method :: "json \<Rightarrow> bool" where
  "has_method v \<longleftrightarrow> (case jget v ''method'' of Some (JStr m) \<Rightarrow> True | _ \<Rightarrow> False)"

definition is_request :: "json \<Rightarrow> bool" where
  "is_request v \<longleftrightarrow> is_envelope v \<and> has_method v \<and> is_request_id (jget v ''id'')"

definition is_notification :: "json \<Rightarrow> bool" where
  "is_notification v \<longleftrightarrow> is_envelope v \<and> has_method v \<and> jget v ''id'' = None"

definition is_response :: "json \<Rightarrow> bool" where
  "is_response v \<longleftrightarrow>
     is_envelope v \<and> (jget v ''result'' \<noteq> None \<or> jget v ''error'' \<noteq> None) \<and>
     (is_request_id (jget v ''id'') \<or> jget v ''error'' \<noteq> None \<and> jget v ''id'' = Some JNull)"

definition is_failure :: "json \<Rightarrow> bool" where
  "is_failure v \<longleftrightarrow> is_response v \<and> jget v ''error'' \<noteq> None"

definition json_rpc_success :: "json \<Rightarrow> (string \<times> json) list \<Rightarrow> json" where
  "json_rpc_success i r =
     JObj [(''jsonrpc'', JStr jsonrpc_version), (''id'', i), (''result'', JObj r)]"

definition json_rpc_failure :: "json \<Rightarrow> int \<Rightarrow> string \<Rightarrow> json option \<Rightarrow> json" where
  "json_rpc_failure i c m d =
     JObj [(''jsonrpc'', JStr jsonrpc_version), (''id'', i),
           (''error'', JObj ([(''code'', JNum (of_int c)), (''message'', JStr m)] @
              (case d of None \<Rightarrow> [] | Some x \<Rightarrow> [(''data'', x)])))]"

lemmas envelope_defs =
  is_envelope_def has_method_def is_request_def is_notification_def is_response_def
  is_failure_def json_rpc_success_def json_rpc_failure_def

lemma request_not_notification: "is_request v \<Longrightarrow> \<not> is_notification v"
  by (cases "jget v ''id''") (auto simp: is_request_def is_notification_def)

lemma is_request_id_cases:
  "is_request_id i \<longleftrightarrow> (\<exists>s. i = Some (JStr s)) \<or> (\<exists>n. i = Some (JNum n))"
  by (cases i rule: is_request_id.cases) auto

lemma success_is_response: "is_request_id (Some i) \<Longrightarrow> is_response (json_rpc_success i r)"
  by (simp add: envelope_defs)

lemma failure_is_failure:
  "is_request_id (Some i) \<or> i = JNull \<Longrightarrow> is_failure (json_rpc_failure i c m d)"
  by (auto simp: envelope_defs)

section \<open>The error taxonomy\<close>

datatype gateway_error_code =
    INVALID_REQUEST | NOT_FOUND | UNAUTHENTICATED | FORBIDDEN | TENANT_MISMATCH | CONFLICT
  | AUTHORIZATION_REQUIRED | CLIENT_CREDENTIALS_REQUIRED | POLICY_DENIED | SSRF_BLOCKED
  | DISCOVERY_FAILED | ISSUER_MISMATCH | RESOURCE_MISMATCH | REGISTRATION_FAILED
  | TOKEN_EXCHANGE_FAILED | TOKEN_REFRESH_FAILED | UPSTREAM_UNAVAILABLE
  | UPSTREAM_PROTOCOL_ERROR | NOT_AN_MCP_SERVER | PAYLOAD_TOO_LARGE | RATE_LIMITED | INTERNAL

record gateway_error =
  ge_code :: gateway_error_code
  ge_message :: string
  ge_data :: "json option"
  ge_httpStatus :: nat
  ge_retryable :: bool

definition default_http_status :: "gateway_error_code \<Rightarrow> nat" where
  "default_http_status c =
     (case c of
        INVALID_REQUEST \<Rightarrow> 400 | SSRF_BLOCKED \<Rightarrow> 400 | ISSUER_MISMATCH \<Rightarrow> 400
      | RESOURCE_MISMATCH \<Rightarrow> 400
      | UNAUTHENTICATED \<Rightarrow> 401
      | FORBIDDEN \<Rightarrow> 403 | TENANT_MISMATCH \<Rightarrow> 403 | POLICY_DENIED \<Rightarrow> 403
      | NOT_FOUND \<Rightarrow> 404
      | CONFLICT \<Rightarrow> 409
      | PAYLOAD_TOO_LARGE \<Rightarrow> 413
      | RATE_LIMITED \<Rightarrow> 429
      | AUTHORIZATION_REQUIRED \<Rightarrow> 428 | CLIENT_CREDENTIALS_REQUIRED \<Rightarrow> 428
      | UPSTREAM_UNAVAILABLE \<Rightarrow> 502
      | DISCOVERY_FAILED \<Rightarrow> 502 | REGISTRATION_FAILED \<Rightarrow> 502 | TOKEN_EXCHANGE_FAILED \<Rightarrow> 502
      | TOKEN_REFRESH_FAILED \<Rightarrow> 502 | UPSTREAM_PROTOCOL_ERROR \<Rightarrow> 502 | NOT_AN_MCP_SERVER \<Rightarrow> 502
      | INTERNAL \<Rightarrow> 500)"

text \<open>The constructor; its options default to no payload, the status of the code, not retryable.\<close>

definition gateway_error ::
  "gateway_error_code \<Rightarrow> string \<Rightarrow> json option \<Rightarrow> nat option \<Rightarrow> bool option \<Rightarrow> gateway_error" where
  "gateway_error c m d st r =
     \<lparr>ge_code = c, ge_message = m, ge_data = d,
      ge_httpStatus = (case st of None \<Rightarrow> default_http_status c | Some n \<Rightarrow> n),
      ge_retryable = (case r of None \<Rightarrow> False | Some b \<Rightarrow> b)\<rparr>"

abbreviation gerr :: "gateway_error_code \<Rightarrow> string \<Rightarrow> gateway_error" where
  "gerr c m \<equiv> gateway_error c m None None None"

abbreviation gerr_data :: "gateway_error_code \<Rightarrow> string \<Rightarrow> json \<Rightarrow> gateway_error" where
  "gerr_data c m d \<equiv> gateway_error c m (Some d) None None"

abbreviation gerr_retry :: "gateway_error_code \<Rightarrow> string \<Rightarrow> gateway_error" where
  "gerr_retry c m \<equiv> gateway_error c m None None (Some True)"

lemma gateway_error_sel [simp]:
  "ge_code (gateway_error c m d st r) = c"
  "ge_message (gateway_error c m d st r) = m"
  "ge_data (gateway_error c m d st r) = d"
  "ge_retryable (gateway_error c m d st r) = (r = Some True)"
  by (auto simp: gateway_error_def split: option.splits)

text \<open>\<open>JsonRpcErrorCode\<close>, and the code an error becomes on the wire.\<close>

definition json_rpc_code :: "gateway_error_code \<Rightarrow> int" where
  "json_rpc_code c =
     (case c of
        AUTHORIZATION_REQUIRED \<Rightarrow> -32001 | CLIENT_CREDENTIALS_REQUIRED \<Rightarrow> -32001
      | POLICY_DENIED \<Rightarrow> -32003 | FORBIDDEN \<Rightarrow> -32003 | TENANT_MISMATCH \<Rightarrow> -32003
      | UPSTREAM_UNAVAILABLE \<Rightarrow> -32004 | UPSTREAM_PROTOCOL_ERROR \<Rightarrow> -32004
      | NOT_FOUND \<Rightarrow> -32002
      | INVALID_REQUEST \<Rightarrow> -32602 | PAYLOAD_TOO_LARGE \<Rightarrow> -32602
      | RATE_LIMITED \<Rightarrow> -32005
      | _ \<Rightarrow> -32603)"

text \<open>What is thrown: an error of the gateway's own, another \<open>Error\<close>, or anything else.\<close>

datatype thrown = GatewayThrown gateway_error | OtherError string | NotAnError

fun to_gateway_error :: "thrown \<Rightarrow> gateway_error" where
  "to_gateway_error (GatewayThrown e) = e"
| "to_gateway_error (OtherError m) = gerr INTERNAL m"
| "to_gateway_error NotAnError = gerr INTERNAL ''Unknown error''"

lemma default_http_status_range: "400 \<le> default_http_status c \<and> default_http_status c \<le> 502"
  by (cases c) (simp_all add: default_http_status_def)

text \<open>The results of operations that may throw.\<close>

type_synonym 'a result = "gateway_error + 'a"

definition bind_result :: "'a result \<Rightarrow> ('a \<Rightarrow> 'b result) \<Rightarrow> 'b result" where
  "bind_result r f = (case r of Inl e \<Rightarrow> Inl e | Inr x \<Rightarrow> f x)"

lemma bind_result_simps [simp]:
  "bind_result (Inl e) f = Inl e"
  "bind_result (Inr x) f = f x"
  by (simp_all add: bind_result_def)

lemma bind_result_Inr: "bind_result r f = Inr y \<longleftrightarrow> (\<exists>x. r = Inr x \<and> f x = Inr y)"
  by (cases r) auto

section \<open>Scopes and text\<close>

definition is_scope_separator :: "char \<Rightarrow> bool" where
  "is_scope_separator c \<longleftrightarrow> is_space c \<or> c = CHR '',''"

fun parse_scopes :: "string option \<Rightarrow> string list" where
  "parse_scopes None = []"
| "parse_scopes (Some v) = filter (\<lambda>s. s \<noteq> []) (split_runs is_scope_separator v)"

definition format_scopes :: "string list \<Rightarrow> string" where
  "format_scopes ss = join '' '' ss"

text \<open>The character U+2026 that \<open>clampText\<close> appends, as its three bytes of UTF-8.\<close>

definition ellipsis :: string where
  "ellipsis = [char_of (226 :: nat), char_of (128 :: nat), char_of (166 :: nat)]"

definition clamp_text :: "string \<Rightarrow> nat \<Rightarrow> string" where
  "clamp_text v n = (if length v \<le> n then v else take n v @ ellipsis)"

lemma clamp_text_prefix: "take n (clamp_text v n) = take n v"
  by (simp add: clamp_text_def)

lemma split_runs_word:
  "\<forall>c \<in> set w. \<not> P c \<Longrightarrow> P d \<Longrightarrow> split_runs P (w @ d # s) = w # split_runs P (dropWhile P s)"
  by (induction w) auto

lemma split_runs_last: "\<forall>c \<in> set w. \<not> P c \<Longrightarrow> split_runs P w = [w]"
  by (induction w) auto

definition is_scope_token :: "string \<Rightarrow> bool" where
  "is_scope_token s \<longleftrightarrow> s \<noteq> [] \<and> (\<forall>c \<in> set s. \<not> is_scope_separator c)"

lemma dropWhile_scope_token:
  assumes "is_scope_token w"
  shows "dropWhile is_scope_separator (w @ s) = w @ s"
  using assms by (cases w) (auto simp: is_scope_token_def)

lemma join_scope_token:
  "ss \<noteq> [] \<Longrightarrow> \<forall>s \<in> set ss. is_scope_token s \<Longrightarrow>
     dropWhile is_scope_separator (join sep ss) = join sep ss"
  by (induction ss rule: induct_list012)
    (auto simp: dropWhile_scope_token dropWhile_scope_token [where s = "[]", simplified])

lemma parse_format_scopes:
  "\<forall>s \<in> set ss. is_scope_token s \<Longrightarrow> parse_scopes (Some (format_scopes ss)) = ss"
proof (induction ss rule: induct_list012)
  case (3 w v ws)
  have sp: "is_scope_separator (CHR '' '')"
    by (simp add: is_scope_separator_def is_space_def code_def)
  from 3 show ?case
    using split_runs_word [of w is_scope_separator "CHR '' ''" "join '' '' (v # ws)"]
    by (auto simp: format_scopes_def sp join_scope_token is_scope_token_def)
qed (auto simp: format_scopes_def is_scope_token_def split_runs_last)

end
