(* ===== verification/Canonical_Json.thy ===== *)
theory Canonical_Json
  imports Core "HOL-Library.Multiset"
begin

text \<open>
  The canonical serialisation of \<^verbatim>\<open>packages/core/src/json.ts\<close>, by which tool schemas are
  compared, the retry delay of \<^verbatim>\<open>time.ts\<close>, and the protocol negotiation and log severities of
  \<^verbatim>\<open>mcp.ts\<close>. How a number prints is the engine's; it is the parameter \<open>num\<close>.
\<close>

section \<open>Quoted strings\<close>

definition hex_digit :: "nat \<Rightarrow> char" where
  "hex_digit n = (if n < 10 then char_of (48 + n) else char_of (87 + n))"

text \<open>\<open>JSON.stringify\<close> on one code unit of a string.\<close>

definition json_escape :: "char \<Rightarrow> string" where
  "json_escape c =
     (if code c = 34 then [CHR 0x5C, CHR 0x22]
      else if code c = 92 then [CHR 0x5C, CHR 0x5C]
      else if code c = 8 then [CHR 0x5C, CHR ''b'']
      else if code c = 9 then [CHR 0x5C, CHR ''t'']
      else if code c = 10 then [CHR 0x5C, CHR ''n'']
      else if code c = 12 then [CHR 0x5C, CHR ''f'']
      else if code c = 13 then [CHR 0x5C, CHR ''r'']
      else if code c < 32
        then [CHR 0x5C, CHR ''u'', CHR ''0'', CHR ''0'', hex_digit (code c div 16),
              hex_digit (code c mod 16)]
      else [c])"

definition json_quote :: "string \<Rightarrow> string" where
  "json_quote s = CHR 0x22 # concat (map json_escape s) @ [CHR 0x22]"

section \<open>The serialisation\<close>

lemma json_size_entry [termination_simp]:
  "(k, v) \<in> set es \<Longrightarrow> size v < Suc (size_list (size_prod (\<lambda>_. 0) size) es)"
  by (induction es) auto

fun stable_stringify :: "(rat \<Rightarrow> string) \<Rightarrow> json \<Rightarrow> string" where
  "stable_stringify num (JStr s) = json_quote s"
| "stable_stringify num (JNum n) = num n"
| "stable_stringify num (JBool b) = (if b then ''true'' else ''false'')"
| "stable_stringify num JNull = ''null''"
| "stable_stringify num (JArr xs) = ''['' @ join '','' (map (stable_stringify num) xs) @ '']''"
| "stable_stringify num (JObj es) =
     ''{'' @
       join '',''
         (map (\<lambda>(k, v). json_quote k @ '':'' @ v)
           (sort_key fst (map (\<lambda>(k, v). (k, stable_stringify num v)) es))) @
     ''}''"

text \<open>The hash of a schema; \<open>sha256Hex\<close> is the parameter \<open>h\<close>.\<close>

definition schema_hash :: "(string \<Rightarrow> string) \<Rightarrow> (rat \<Rightarrow> string) \<Rightarrow> json \<Rightarrow> string" where
  "schema_hash h num v = h (stable_stringify num v)"

text \<open>Two values that differ in the order of their properties only, at any depth.\<close>

inductive same_json :: "json \<Rightarrow> json \<Rightarrow> bool" where
  same_refl: "same_json v v"
| same_arr: "list_all2 same_json xs ys \<Longrightarrow> same_json (JArr xs) (JArr ys)"
| same_obj: "distinct (map fst es) \<Longrightarrow> mset (map fst es) = mset (map fst fs) \<Longrightarrow>
     (\<And>k v w. map_of es k = Some v \<Longrightarrow> map_of fs k = Some w \<Longrightarrow> same_json v w) \<Longrightarrow>
     same_json (JObj es) (JObj fs)"

lemma sort_key_map_fst:
  "sort_key fst (map (\<lambda>(k, v). (k, g v)) es) = map (\<lambda>(k, v). (k, g v)) (sort_key fst es)"
proof -
  have ins: "insort_key fst (k, g v) (map (\<lambda>(k, v). (k, g v)) xs) =
      map (\<lambda>(k, v). (k, g v)) (insort_key fst (k, v) xs)" for k :: "'a::linorder" and v xs
    by (induction xs) auto
  show ?thesis by (induction es) (auto simp: ins [symmetric])
qed

text \<open>An association list with distinct keys is determined by its keys in order and its map.\<close>

lemma alist_eqI:
  "map fst xs = map fst ys \<Longrightarrow> distinct (map fst xs) \<Longrightarrow>
     (\<And>k. k \<in> fst ` set xs \<Longrightarrow> map_of xs k = map_of ys k) \<Longrightarrow> xs = ys"
proof (induction xs arbitrary: ys)
  case (Cons x xs)
  then obtain y zs where ys: "ys = y # zs" by (cases ys) auto
  obtain k v where x: "x = (k, v)" by (cases x)
  obtain k' w where y: "y = (k', w)" by (cases y)
  have kk: "k' = k" using Cons.prems(1) by (simp add: ys x y)
  have "v = w" using Cons.prems(3) [of k] by (simp add: ys x y kk)
  moreover have "xs = zs"
  proof (rule Cons.IH)
    fix j assume j: "j \<in> fst ` set xs"
    with Cons.prems(2) have "j \<noteq> k" by (auto simp: x)
    with j Cons.prems(3) [of j] show "map_of xs j = map_of zs j" by (auto simp: ys x y kk)
  qed (use Cons.prems in \<open>simp_all add: ys\<close>)
  ultimately show ?case by (simp add: ys x y kk)
qed auto

lemma map_of_sort_key:
  assumes "distinct (map fst xs)"
  shows "map_of (sort_key fst xs) = map_of xs"
proof -
  have "distinct (map fst (sort_key fst xs))"
    using assms by (simp add: distinct_map inj_on_def)
  then show ?thesis using assms by (intro map_of_inject_set [THEN iffD2]) auto
qed

lemma sorted_entries_eq:
  assumes d: "distinct (map fst xs)" and k: "mset (map fst xs) = mset (map fst ys)"
    and m: "map_of xs = map_of ys"
  shows "sort_key fst xs = sort_key fst ys"
proof (rule alist_eqI)
  have dy: "distinct (map fst ys)" using d k by (metis mset_eq_imp_distinct_iff)
  have "map fst (sort_key fst zs) = sort (map fst zs)" for zs :: "('a::linorder \<times> 'b) list"
    by (rule properties_for_sort [symmetric]) simp_all
  with k show "map fst (sort_key fst xs) = map fst (sort_key fst ys)"
    by (metis sorted_list_of_multiset_mset)
  show "distinct (map fst (sort_key fst xs))"
    using d by (simp add: distinct_map inj_on_def)
  show "map_of (sort_key fst xs) j = map_of (sort_key fst ys) j" for j
    using d dy m by (simp add: map_of_sort_key)
qed

lemma map_of_map_snd: "map_of (map (\<lambda>(k, v). (k, g v)) es) k = map_option g (map_of es k)"
  by (induction es) auto

lemma stable_stringify_same:
  "same_json v w \<Longrightarrow> stable_stringify num v = stable_stringify num w"
proof (induction rule: same_json.induct)
  case (same_arr xs ys)
  then have "map (stable_stringify num) xs = map (stable_stringify num) ys"
    by (induction rule: list_all2_induct) auto
  then show ?case by simp
next
  case (same_obj es fs)
  let ?g = "\<lambda>(k, v). (k, stable_stringify num v)"
  have keys: "map fst (map ?g xs) = map fst xs" for xs :: "(string \<times> json) list"
    by (simp add: comp_def case_prod_beta)
  have dom: "map_of es k = None \<longleftrightarrow> map_of fs k = None" for k
    using same_obj.hyps(2) by (metis map_of_eq_None_iff set_map set_mset_mset)
  have "map_of (map ?g es) = map_of (map ?g fs)"
  proof
    fix k
    show "map_of (map ?g es) k = map_of (map ?g fs) k"
    proof (cases "map_of es k")
      case None
      then show ?thesis using dom [of k] by (simp add: map_of_map_snd)
    next
      case (Some v)
      then obtain w where w: "map_of fs k = Some w" using dom [of k] by auto
      from same_obj.IH [OF Some w] show ?thesis by (simp add: map_of_map_snd Some w)
    qed
  qed
  then have "sort_key fst (map ?g es) = sort_key fst (map ?g fs)"
    using same_obj.hyps(1,2)
    by (intro sorted_entries_eq [of "map ?g es" "map ?g fs"]) (simp_all only: keys)
  then show ?case by simp
qed simp

section \<open>Retry delay\<close>

text \<open>\<open>Math.random()\<close> is the argument \<open>u\<close>, between 0 and 1.\<close>

definition jittered_backoff :: "nat \<Rightarrow> rat \<Rightarrow> rat \<Rightarrow> rat \<Rightarrow> int" where
  "jittered_backoff attempt base_ms max_ms u =
     (let exponential = min max_ms (base_ms * 2 ^ attempt)
      in \<lfloor>exponential / 2 + u * (exponential / 2)\<rfloor>)"

lemma jittered_backoff_bounds:
  assumes "0 \<le> u" and "u \<le> 1" and "0 \<le> base_ms" and "0 \<le> max_ms"
  shows "\<lfloor>min max_ms (base_ms * 2 ^ attempt) / 2\<rfloor> \<le> jittered_backoff attempt base_ms max_ms u"
    and "of_int (jittered_backoff attempt base_ms max_ms u) \<le> max_ms"
    and "0 \<le> jittered_backoff attempt base_ms max_ms u"
proof -
  define e where "e = min max_ms (base_ms * 2 ^ attempt)"
  have r: "jittered_backoff attempt base_ms max_ms u = \<lfloor>e / 2 + u * (e / 2)\<rfloor>"
    by (simp only: jittered_backoff_def e_def Let_def)
  have e: "0 \<le> e" and em: "e \<le> max_ms" using assms by (auto simp: e_def)
  have lo: "e / 2 \<le> e / 2 + u * (e / 2)" using e assms by simp
  have "u * (e / 2) \<le> 1 * (e / 2)" using e assms by (intro mult_right_mono) auto
  then have hi: "e / 2 + u * (e / 2) \<le> e" by linarith
  show "\<lfloor>min max_ms (base_ms * 2 ^ attempt) / 2\<rfloor> \<le> jittered_backoff attempt base_ms max_ms u"
    unfolding r e_def [symmetric] using lo by (rule floor_mono)
  show "of_int (jittered_backoff attempt base_ms max_ms u) \<le> max_ms"
    unfolding r using hi em of_int_floor_le [of "e / 2 + u * (e / 2)"] by linarith
  have "0 \<le> e / 2 + u * (e / 2)" using lo e by linarith
  then show "0 \<le> jittered_backoff attempt base_ms max_ms u" unfolding r by simp
qed

section \<open>Protocol versions and log levels\<close>

definition supported_protocol_versions :: "string list" where
  "supported_protocol_versions = [''2025-11-25'', ''2025-06-18'', ''2025-03-26'', ''2024-11-05'']"

definition latest_protocol_version :: string where
  "latest_protocol_version = hd supported_protocol_versions"

definition negotiate_protocol_version :: "string \<Rightarrow> string" where
  "negotiate_protocol_version requested =
     (if requested \<in> set supported_protocol_versions then requested
      else latest_protocol_version)"

lemma negotiate_supported: "negotiate_protocol_version v \<in> set supported_protocol_versions"
  by (simp add: negotiate_protocol_version_def latest_protocol_version_def
      supported_protocol_versions_def)

lemma negotiate_idem [simp]:
  "negotiate_protocol_version (negotiate_protocol_version v) = negotiate_protocol_version v"
  using negotiate_supported [of v] by (simp add: negotiate_protocol_version_def)

text \<open>Least to most severe; \<open>indexOf\<close> compares their places in this list.\<close>

definition mcp_log_levels :: "string list" where
  "mcp_log_levels = [''debug'', ''info'', ''notice'', ''warning'', ''error'', ''critical'',
     ''alert'', ''emergency'']"

fun position :: "'a \<Rightarrow> 'a list \<Rightarrow> nat" where
  "position x [] = 0"
| "position x (y # ys) = (if x = y then 0 else Suc (position x ys))"

fun is_mcp_log_level :: "json \<Rightarrow> bool" where
  "is_mcp_log_level (JStr s) = (s \<in> set mcp_log_levels)"
| "is_mcp_log_level _ = False"

fun meets_log_level :: "json option \<Rightarrow> string \<Rightarrow> bool" where
  "meets_log_level (Some (JStr s)) minimum =
     (if is_mcp_log_level (JStr s)
      then position minimum mcp_log_levels \<le> position s mcp_log_levels else True)"
| "meets_log_level _ minimum = True"

lemma meets_log_level_trans:
  "a \<in> set mcp_log_levels \<Longrightarrow> b \<in> set mcp_log_levels \<Longrightarrow>
     meets_log_level (Some (JStr a)) b \<Longrightarrow> meets_log_level (Some (JStr b)) c \<Longrightarrow>
     meets_log_level (Some (JStr a)) c"
  by simp

end
