(* ===== verification/Domain.thy ===== *)
theory Domain
  imports Core
begin

text \<open>
  The records of \<^verbatim>\<open>packages/core/src/domain.ts\<close> and the wire types of
  \<^verbatim>\<open>packages/core/src/oauth.ts\<close>, field by field and in the order of the source. A nullable
  field is an \<open>option\<close>, a time in milliseconds an \<open>int\<close>, a JSON object a list of entries.
  The initials before a field's name are those of its record, because HOL's field names are global.
\<close>

type_synonym json_object = "(string \<times> json) list"

section \<open>Enumerations\<close>

datatype owner_type = USER | WORKSPACE

datatype connection_status =
    PENDING | AUTHORIZATION_NEEDED | CREDENTIALS_NEEDED | CONNECTED
  | CONNECTED_NON_REFRESHABLE | REAUTH_REQUIRED | DEGRADED | DISABLED

datatype registration_type = CIMD | DYNAMIC | PRECONFIGURED | USER_SUPPLIED

datatype transport_type = STREAMABLE_HTTP | HTTP_SSE | UNKNOWN_TRANSPORT

datatype tool_risk_level =
    READ_ONLY | WRITE | DESTRUCTIVE | EXTERNAL_COMMUNICATION | FINANCIAL | ADMINISTRATIVE | UNKNOWN

datatype auth_method = NONE_METHOD | CLIENT_SECRET_BASIC | CLIENT_SECRET_POST | PRIVATE_KEY_JWT

datatype activity = ACTIVE | CLOSED | SUSPENDED

fun auth_method_of_string :: "string \<Rightarrow> auth_method option" where
  "auth_method_of_string s =
     (if s = ''none'' then Some NONE_METHOD
      else if s = ''client_secret_basic'' then Some CLIENT_SECRET_BASIC
      else if s = ''client_secret_post'' then Some CLIENT_SECRET_POST
      else if s = ''private_key_jwt'' then Some PRIVATE_KEY_JWT
      else None)"

fun string_of_auth_method :: "auth_method \<Rightarrow> string" where
  "string_of_auth_method NONE_METHOD = ''none''"
| "string_of_auth_method CLIENT_SECRET_BASIC = ''client_secret_basic''"
| "string_of_auth_method CLIENT_SECRET_POST = ''client_secret_post''"
| "string_of_auth_method PRIVATE_KEY_JWT = ''private_key_jwt''"

lemma auth_method_of_string_of [simp]: "auth_method_of_string (string_of_auth_method m) = Some m"
  by (cases m) simp_all

fun risk_level_name :: "tool_risk_level \<Rightarrow> string" where
  "risk_level_name READ_ONLY = ''READ_ONLY''"
| "risk_level_name WRITE = ''WRITE''"
| "risk_level_name DESTRUCTIVE = ''DESTRUCTIVE''"
| "risk_level_name EXTERNAL_COMMUNICATION = ''EXTERNAL_COMMUNICATION''"
| "risk_level_name FINANCIAL = ''FINANCIAL''"
| "risk_level_name ADMINISTRATIVE = ''ADMINISTRATIVE''"
| "risk_level_name UNKNOWN = ''UNKNOWN''"

section \<open>Tenants and members\<close>

record tenant =
  tn_id :: string
  tn_name :: string
  tn_status :: activity
  tn_createdAt :: int

record user =
  us_id :: string
  us_tenantId :: string
  us_externalIdentity :: string
  us_email :: string
  us_status :: activity
  us_createdAt :: int

record tenant_membership =
  tm_tenantId :: string
  tm_userId :: string
  tm_role :: string
  tm_createdAt :: int

record dpop_key_record =
  dk_id :: string
  dk_tenantId :: string
  dk_privateKeyEncrypted :: string
  dk_publicJwkJson :: json_object
  dk_createdAt :: int

section \<open>Servers, issuers and registrations\<close>

datatype server_status = SERVER_ACTIVE | UNREACHABLE | NOT_MCP

record mcp_server_record =
  ms_id :: string
  ms_tenantId :: string
  ms_canonicalUrl :: string
  ms_originalUrl :: string
  ms_displayName :: string
  ms_authorizationRequired :: bool
  ms_protectedResourceMetadataUrl :: "string option"
  ms_canonicalResource :: "string option"
  ms_selectedAuthorizationServer :: "string option"
  ms_transportType :: transport_type
  ms_protocolVersion :: "string option"
  ms_capabilitiesJson :: "json_object option"
  ms_metadataJson :: "json_object option"
  ms_status :: server_status
  ms_createdAt :: int
  ms_updatedAt :: int

text \<open>The fields of \<open>AuthorizationServerMetadata\<close> the gateway reads; the others it ignores.\<close>

record as_metadata =
  am_issuer :: string
  am_authorization_endpoint :: "string option"
  am_token_endpoint :: "string option"
  am_registration_endpoint :: "string option"
  am_revocation_endpoint :: "string option"
  am_scopes_supported :: "string list option"
  am_code_challenge_methods_supported :: "string list option"
  am_token_endpoint_auth_methods_supported :: "string list option"
  am_dpop_signing_alg_values_supported :: "string list option"
  am_client_id_metadata_document_supported :: bool
  am_authorization_response_iss_parameter_supported :: bool
  am_jwks_uri :: "string option"

record oauth_issuer_record =
  oi_id :: string
  oi_issuer :: string
  oi_authorizationEndpoint :: "string option"
  oi_tokenEndpoint :: "string option"
  oi_registrationEndpoint :: "string option"
  oi_revocationEndpoint :: "string option"
  oi_metadataJson :: as_metadata
  oi_metadataEtag :: "string option"
  oi_metadataExpiresAt :: int
  oi_supportsCimd :: bool
  oi_supportsDcr :: bool
  oi_supportedAuthMethods :: "string list"
  oi_status :: server_status

datatype registration_status = REG_ACTIVE | INVALID | REFUSED

record client_registration =
  cr_id :: string
  cr_tenantId :: string
  cr_issuerId :: string
  cr_registrationType :: registration_type
  cr_clientId :: string
  cr_encryptedClientSecret :: "string option"
  cr_tokenEndpointAuthMethod :: auth_method
  cr_redirectUris :: "string list"
  cr_registrationAccessTokenEncrypted :: "string option"
  cr_registrationClientUri :: "string option"
  cr_issuedAt :: int
  cr_secretExpiresAt :: "int option"
  cr_metadataJson :: json_object
  cr_status :: registration_status

record preconfigured_client =
  pc_id :: string
  pc_tenantId :: string
  pc_issuer :: string
  pc_clientId :: string
  pc_clientSecretEncrypted :: "string option"
  pc_initialAccessTokenEncrypted :: "string option"
  pc_redirectUri :: string
  pc_tokenEndpointAuthMethod :: auth_method
  pc_scopes :: "string list option"
  pc_createdAt :: int

section \<open>Connections and transactions\<close>

record connection =
  uc_id :: string
  uc_tenantId :: string
  uc_ownerType :: owner_type
  uc_ownerId :: string
  uc_mcpServerId :: string
  uc_oauthIssuerId :: "string option"
  uc_oauthClientRegistrationId :: "string option"
  uc_alias :: string
  uc_grantedScopes :: "string list"
  uc_requestedScopes :: "string list"
  uc_accessTokenEncrypted :: "string option"
  uc_refreshTokenEncrypted :: "string option"
  uc_staticHeadersEncrypted :: "string option"
  uc_tokenType :: "string option"
  uc_accessTokenExpiresAt :: "int option"
  uc_refreshTokenExpiresAt :: "int option"
  uc_tokenVersion :: nat
  uc_dpopKeyReference :: "string option"
  uc_status :: connection_status
  uc_lastRefreshAt :: "int option"
  uc_lastSuccessAt :: "int option"
  uc_lastErrorCode :: "string option"
  uc_lastErrorMessageRedacted :: "string option"
  uc_createdAt :: int
  uc_updatedAt :: int

datatype transaction_status = TXN_PENDING | CONSUMED | EXPIRED | FAILED

record oauth_transaction =
  ot_id :: string
  ot_tenantId :: string
  ot_userId :: string
  ot_connectionId :: string
  ot_issuer :: string
  ot_stateHash :: string
  ot_pkceVerifierEncrypted :: string
  ot_redirectUri :: string
  ot_requestedScopes :: "string list"
  ot_resource :: "string option"
  ot_expiresAt :: int
  ot_consumedAt :: "int option"
  ot_status :: transaction_status
  ot_returnTo :: "string option"

section \<open>Catalogue\<close>

record discovered_tool =
  dt_id :: string
  dt_tenantId :: string
  dt_connectionId :: string
  dt_upstreamName :: string
  dt_gatewayName :: string
  dt_description :: "string option"
  dt_inputSchemaJson :: json
  dt_outputSchemaJson :: "json option"
  dt_annotationsJson :: "json option"
  dt_schemaHash :: string
  dt_enabled :: bool
  dt_riskLevel :: tool_risk_level
  dt_discoveredAt :: int
  dt_lastSeenAt :: int

record discovered_resource =
  dr_id :: string
  dr_tenantId :: string
  dr_connectionId :: string
  dr_upstreamUri :: string
  dr_gatewayUri :: string
  dr_name :: string
  dr_description :: "string option"
  dr_mimeType :: "string option"
  dr_isTemplate :: bool
  dr_lastSeenAt :: int

record discovered_prompt =
  dp_id :: string
  dp_tenantId :: string
  dp_connectionId :: string
  dp_upstreamName :: string
  dp_gatewayName :: string
  dp_description :: "string option"
  dp_argumentsJson :: "json option"
  dp_lastSeenAt :: int

section \<open>Sessions and audit\<close>

record downstream_session_record =
  dn_id :: string
  dn_tenantId :: string
  dn_userId :: string
  dn_clientLabel :: string
  dn_protocolVersion :: string
  dn_capabilitiesJson :: json_object
  dn_createdAt :: int
  dn_lastSeenAt :: int
  dn_status :: activity

record upstream_session_record =
  ur_id :: string
  ur_tenantId :: string
  ur_connectionId :: string
  ur_downstreamSessionId :: string
  ur_protocolVersion :: string
  ur_capabilitiesJson :: json_object
  ur_status :: activity
  ur_createdAt :: int
  ur_lastSeenAt :: int

datatype result_status = RS_OK | RS_ERROR | RS_DENIED

record audit_event =
  ae_id :: string
  ae_tenantId :: string
  ae_userId :: "string option"
  ae_downstreamSessionId :: "string option"
  ae_connectionId :: "string option"
  ae_toolId :: "string option"
  ae_operation :: string
  ae_inputHash :: "string option"
  ae_resultStatus :: result_status
  ae_durationMs :: "int option"
  ae_providerRequestId :: "string option"
  ae_detailJson :: "json_object option"
  ae_createdAt :: int

end
