(* ===== verification/Ip_Rules.thy ===== *)
theory Ip_Rules
  imports Prelude "HOL-Library.Word"
begin

unbundle bit_operations_syntax

text \<open>
  \<^verbatim>\<open>packages/security/src/ip-rules.ts\<close>: what an address is before the gateway connects to it.
  An IPv4 address is a \<open>32 word\<close>, a group of an IPv6 address a \<open>16 word\<close>; masks and shifts are
  those of the source. \<open>is_ip\<close> is \<open>isIP\<close> of \<^verbatim>\<open>node:net\<close>, written out from its grammar.
\<close>

section \<open>IPv4\<close>

datatype ip_disposition = PUBLIC | LOOPBACK | PRIVATE | LINK_LOCAL | CLOUD_METADATA | RESERVED

definition metadata_addresses :: "string list" where
  "metadata_addresses =
     [''169.254.169.254'', ''169.254.170.2'', ''100.100.100.200'', ''fd00:ec2::254'']"

definition digit_value :: "char \<Rightarrow> nat" where
  "digit_value c = code c - 48"

definition parse_decimal :: "string \<Rightarrow> nat" where
  "parse_decimal s = foldl (\<lambda>n c. 10 * n + digit_value c) 0 s"

text \<open>One part of a dotted quad: one to three digits, at most 255.\<close>

definition octet_of :: "string \<Rightarrow> nat option" where
  "octet_of p =
     (if 1 \<le> length p \<and> length p \<le> 3 \<and> list_all is_digit p \<and> parse_decimal p \<le> 255
      then Some (parse_decimal p) else None)"

fun octets_of :: "string list \<Rightarrow> nat list option" where
  "octets_of [] = Some []"
| "octets_of (p # ps) =
     (case octet_of p of
        None \<Rightarrow> None
      | Some n \<Rightarrow> (case octets_of ps of None \<Rightarrow> None | Some ns \<Rightarrow> Some (n # ns)))"

definition ipv4_to_int :: "string \<Rightarrow> 32 word option" where
  "ipv4_to_int a =
     (let parts = split_on (CHR ''.'') a
      in if length parts \<noteq> 4 then None
         else (case octets_of parts of
                 None \<Rightarrow> None
               | Some ns \<Rightarrow> Some (of_int (foldl (\<lambda>v n. v * 256 + int n) 0 ns))))"

definition in_cidr :: "32 word \<Rightarrow> string \<Rightarrow> nat \<Rightarrow> bool" where
  "in_cidr address prefix bits =
     (case ipv4_to_int prefix of
        None \<Rightarrow> False
      | Some base \<Rightarrow>
          (let mask = (if bits = 0 then 0 else push_bit (32 - bits) (0xffffffff :: 32 word))
           in address AND mask = base AND mask))"

definition classify_ipv4 :: "string \<Rightarrow> ip_disposition" where
  "classify_ipv4 a =
     (if a \<in> set metadata_addresses then CLOUD_METADATA
      else (case ipv4_to_int a of
        None \<Rightarrow> RESERVED
      | Some v \<Rightarrow>
          if in_cidr v ''127.0.0.0'' 8 then LOOPBACK
          else if in_cidr v ''169.254.0.0'' 16 then LINK_LOCAL
          else if in_cidr v ''10.0.0.0'' 8 \<or> in_cidr v ''172.16.0.0'' 12 \<or>
                  in_cidr v ''192.168.0.0'' 16 \<or> in_cidr v ''100.64.0.0'' 10
            then PRIVATE
          else if in_cidr v ''0.0.0.0'' 8 \<or> in_cidr v ''192.0.0.0'' 24 \<or>
                  in_cidr v ''192.0.2.0'' 24 \<or> in_cidr v ''192.88.99.0'' 24 \<or>
                  in_cidr v ''198.18.0.0'' 15 \<or> in_cidr v ''198.51.100.0'' 24 \<or>
                  in_cidr v ''203.0.113.0'' 24 \<or> in_cidr v ''224.0.0.0'' 4 \<or>
                  in_cidr v ''240.0.0.0'' 4
            then RESERVED
          else PUBLIC))"

section \<open>IPv6\<close>

definition is_hex :: "char \<Rightarrow> bool" where
  "is_hex c \<longleftrightarrow> is_digit c \<or> 97 \<le> code c \<and> code c \<le> 102 \<or> 65 \<le> code c \<and> code c \<le> 70"

definition hex_value :: "char \<Rightarrow> nat" where
  "hex_value c =
     (if is_digit c then code c - 48 else if 97 \<le> code c then code c - 87 else code c - 55)"

definition hex_digit_of :: "nat \<Rightarrow> char" where
  "hex_digit_of n = (if n < 10 then char_of (48 + n) else char_of (87 + n))"

text \<open>\<open>toString(16)\<close>.\<close>

function show_hex :: "int \<Rightarrow> string" where
  "show_hex n =
     (if n < 16 then [hex_digit_of (nat n)]
      else show_hex (n div 16) @ [hex_digit_of (nat (n mod 16))])"
  by pat_completeness auto
termination by (relation "measure nat") auto

declare show_hex.simps [simp del]

text \<open>
  \<open>Number.parseInt(s, 16)\<close>: white space, a sign, an optional \<open>0x\<close>, then the longest run of
  hexadecimal digits; \<open>None\<close> is \<open>NaN\<close>.
\<close>

definition parse_hex_digits :: "string \<Rightarrow> int option" where
  "parse_hex_digits s =
     (let ds = takeWhile is_hex s
      in if ds = [] then None else Some (foldl (\<lambda>n c. 16 * n + int (hex_value c)) 0 ds))"

definition strip_0x :: "string \<Rightarrow> string" where
  "strip_0x s = (if starts_with ''0x'' s \<or> starts_with ''0X'' s then drop 2 s else s)"

fun parse_int_16 :: "string \<Rightarrow> int option" where
  "parse_int_16 s =
     (case dropWhile is_space s of
        [] \<Rightarrow> None
      | c # t \<Rightarrow>
          if c = CHR ''-'' then map_option uminus (parse_hex_digits (strip_0x t))
          else if c = CHR ''+'' then parse_hex_digits (strip_0x t)
          else parse_hex_digits (strip_0x (c # t)))"

text \<open>\<open>split("::")\<close>.\<close>

fun split_double_colon :: "string \<Rightarrow> string list" where
  "split_double_colon [] = [[]]"
| "split_double_colon [c] = [[c]]"
| "split_double_colon (c # d # s) =
     (if c = CHR '':'' \<and> d = CHR '':'' then [] # split_double_colon s
      else (case split_double_colon (d # s) of [] \<Rightarrow> [[c]] | w # ws \<Rightarrow> (c # w) # ws))"

definition before_zone :: "string \<Rightarrow> string" where
  "before_zone a = hd (split_on (CHR ''%'') a)"

definition colon_groups :: "string \<Rightarrow> string list" where
  "colon_groups s = (if s = [] then [] else split_on (CHR '':'') s)"

definition expand_ipv6 :: "string \<Rightarrow> string list option" where
  "expand_ipv6 a =
     (let pieces = split_double_colon (before_zone a);
          head_groups = colon_groups (hd pieces);
          groups =
            (case tl pieces of
               [] \<Rightarrow> head_groups
             | tail # _ \<Rightarrow>
                 let tail_groups = colon_groups tail
                 in head_groups @
                    replicate (8 - length head_groups - length tail_groups) ''0'' @ tail_groups)
      in if length groups \<noteq> 8 then None else Some (map to_lower groups))"

text \<open>The dotted IPv4 held in two groups.\<close>

definition embedded_ipv4 :: "16 word list \<Rightarrow> nat \<Rightarrow> string" where
  "embedded_ipv4 gs i =
     (let high = gs ! i; low = gs ! Suc i
      in join ''.'' (map (\<lambda>w. show_nat (unat w))
           [drop_bit 8 high, high AND 0xff, drop_bit 8 low, low AND 0xff]))"

definition zero_through :: "16 word list \<Rightarrow> nat \<Rightarrow> bool" where
  "zero_through gs n \<longleftrightarrow> list_all (\<lambda>g. g = 0) (take n gs)"

text \<open>The judgement on eight parsed groups.\<close>

definition classify_groups :: "16 word list \<Rightarrow> ip_disposition" where
  "classify_groups gs =
     (let first = gs ! 0; second = gs ! 1 in
      if zero_through gs 5 \<and> gs ! 5 = 0xffff then classify_ipv4 (embedded_ipv4 gs 6)
      else if first = 0x0064 \<and> second = 0xff9b \<and> zero_through (drop 2 gs) 4
        then classify_ipv4 (embedded_ipv4 gs 6)
      else if first = 0x2002 then classify_ipv4 (embedded_ipv4 gs 1)
      else if zero_through gs 6
        then (if gs ! 6 = 0 \<and> gs ! 7 = 1 then LOOPBACK
              else if gs ! 6 = 0 \<and> gs ! 7 = 0 then RESERVED
              else classify_ipv4 (embedded_ipv4 gs 6))
      else if first AND 0xfe00 = 0xfc00 then PRIVATE
      else if first AND 0xffc0 = 0xfe80 then LINK_LOCAL
      else if first AND 0xffc0 = 0xfec0 then PRIVATE
      else if first AND 0xff00 = 0xff00 then RESERVED
      else if first = 0x0100 \<and> zero_through (drop 1 gs) 3 then RESERVED
      else if first = 0x2001 \<and> second = 0x0000 then RESERVED
      else if first = 0x2001 \<and> second AND 0xfff0 = 0x0010 then RESERVED
      else if first = 0x2001 \<and> second AND 0xfff0 = 0x0020 then RESERVED
      else if first = 0x2001 \<and> second = 0x0db8 then RESERVED
      else if first AND 0xfff0 = 0x3ff0 then RESERVED
      else if first = 0x5f00 then RESERVED
      else PUBLIC)"

text \<open>
  A trailing dotted quad: the text up to the last colon, and what follows it when that is four
  runs of one to three digits.
\<close>

definition after_last_colon :: "string \<Rightarrow> string" where
  "after_last_colon s = rev (takeWhile (\<lambda>c. c \<noteq> CHR '':'') (rev s))"

definition up_to_last_colon :: "string \<Rightarrow> string" where
  "up_to_last_colon s = rev (dropWhile (\<lambda>c. c \<noteq> CHR '':'') (rev s))"

definition is_quad :: "string \<Rightarrow> bool" where
  "is_quad s \<longleftrightarrow>
     (let ps = split_on (CHR ''.'') s
      in length ps = 4 \<and> list_all (\<lambda>p. 1 \<le> length p \<and> length p \<le> 3 \<and> list_all is_digit p) ps)"

definition no_line_break :: "string \<Rightarrow> bool" where
  "no_line_break s \<longleftrightarrow> list_all (\<lambda>c. code c \<noteq> 10 \<and> code c \<noteq> 13) s"

definition fold_dotted :: "string \<Rightarrow> string" where
  "fold_dotted s =
     (let pre = up_to_last_colon s; quad = after_last_colon s
      in if pre \<noteq> [] \<and> no_line_break pre \<and> is_quad quad
         then (case ipv4_to_int quad of
                 None \<Rightarrow> s
               | Some v \<Rightarrow> pre @ show_hex (uint (drop_bit 16 v)) @ '':'' @
                   show_hex (uint (v AND 0xffff)))
         else s)"

definition group_word :: "string \<Rightarrow> 16 word option" where
  "group_word g =
     (case parse_int_16 g of
        None \<Rightarrow> None
      | Some n \<Rightarrow> if n < 0 \<or> n > 0xffff then None else Some (of_int n))"

fun group_words :: "string list \<Rightarrow> 16 word list option" where
  "group_words [] = Some []"
| "group_words (g # gs) =
     (case group_word g of
        None \<Rightarrow> None
      | Some w \<Rightarrow> (case group_words gs of None \<Rightarrow> None | Some ws \<Rightarrow> Some (w # ws)))"

definition classify_ipv6 :: "string \<Rightarrow> ip_disposition" where
  "classify_ipv6 a =
     (let normalized = to_lower (before_zone a)
      in if normalized \<in> set metadata_addresses then CLOUD_METADATA
         else (case expand_ipv6 (fold_dotted normalized) of
                 None \<Rightarrow> RESERVED
               | Some expanded \<Rightarrow>
                   (case group_words expanded of
                      None \<Rightarrow> RESERVED
                    | Some groups \<Rightarrow> classify_groups groups)))"

section \<open>Address families and hosts\<close>

text \<open>\<open>isIP\<close>: a dotted quad without leading zeros, or the IPv6 grammar with an optional zone.\<close>

definition is_ipv4 :: "string \<Rightarrow> bool" where
  "is_ipv4 s \<longleftrightarrow>
     (let ps = split_on (CHR ''.'') s
      in length ps = 4 \<and>
         list_all (\<lambda>p. octet_of p \<noteq> None \<and> (length p = 1 \<or> hd p \<noteq> CHR ''0'')) ps)"

definition is_hex_group :: "string \<Rightarrow> bool" where
  "is_hex_group g \<longleftrightarrow> 1 \<le> length g \<and> length g \<le> 4 \<and> list_all is_hex g"

text \<open>The number of 16-bit groups a part of the address fills; a final quad fills two.\<close>

definition groups_filled :: "bool \<Rightarrow> string list \<Rightarrow> nat option" where
  "groups_filled quad_allowed gs =
     (if list_all is_hex_group gs then Some (length gs)
      else if quad_allowed \<and> gs \<noteq> [] \<and> list_all is_hex_group (butlast gs) \<and> is_ipv4 (last gs)
        then Some (Suc (length gs))
      else None)"

definition is_ipv6_plain :: "string \<Rightarrow> bool" where
  "is_ipv6_plain s =
     (case split_double_colon s of
        [whole] \<Rightarrow> groups_filled True (colon_groups whole) = Some 8
      | [h, t] \<Rightarrow>
          (case (groups_filled False (colon_groups h), groups_filled True (colon_groups t)) of
             (Some m, Some n) \<Rightarrow> m + n \<le> 7
           | _ \<Rightarrow> False)
      | _ \<Rightarrow> False)"

definition is_zone_char :: "char \<Rightarrow> bool" where
  "is_zone_char c \<longleftrightarrow> is_alnum c \<or> c \<in> {CHR ''-'', CHR ''.'', CHR '':''}"

definition is_ipv6 :: "string \<Rightarrow> bool" where
  "is_ipv6 s =
     (case index_of (CHR ''%'') s of
        None \<Rightarrow> is_ipv6_plain s
      | Some n \<Rightarrow> is_ipv6_plain (take n s) \<and> drop (Suc n) s \<noteq> [] \<and>
                  list_all is_zone_char (drop (Suc n) s))"

definition is_ip :: "string \<Rightarrow> nat" where
  "is_ip s = (if is_ipv4 s then 4 else if is_ipv6 s then 6 else 0)"

definition classify_address :: "string \<Rightarrow> ip_disposition" where
  "classify_address a =
     (if is_ip a = 4 then classify_ipv4 a
      else if is_ip a = 6 then classify_ipv6 a
      else RESERVED)"

definition literal_address_of :: "string \<Rightarrow> string option" where
  "literal_address_of hostname =
     (let bare = (if starts_with ''['' hostname \<and> ends_with '']'' hostname
                  then butlast (tl hostname) else hostname)
      in if is_ip bare = 0 then None else Some bare)"

definition local_suffixes :: "string list" where
  "local_suffixes = [''.localhost'', ''.local'', ''.internal'', ''.home.arpa'']"

definition is_publicly_reachable_host :: "string \<Rightarrow> bool" where
  "is_publicly_reachable_host hostname =
     (case literal_address_of hostname of
        Some literal \<Rightarrow> classify_address literal = PUBLIC
      | None \<Rightarrow>
          let lowered0 = to_lower hostname;
              lowered = (if lowered0 \<noteq> [] \<and> last lowered0 = CHR ''.'' then butlast lowered0
                         else lowered0)
          in lowered \<noteq> ''localhost'' \<and> \<not> list_ex (\<lambda>x. ends_with x lowered) local_suffixes)"

section \<open>Blocks as intervals\<close>

text \<open>Masking with a prefix of \<open>32 - k\<close> bits compares what is left after dropping \<open>k\<close> bits.\<close>

lemma and_prefix_mask: "a AND push_bit k (-1) = push_bit k (drop_bit k (a :: 32 word))"
  by (rule bit_word_eqI) (auto simp: bit_simps)

lemma drop_bit_and_prefix_mask: "drop_bit k (a AND push_bit k (-1)) = drop_bit k (a :: 32 word)"
  by (rule bit_word_eqI) (auto simp: bit_simps dest: bit_imp_le_length)

lemma and_prefix_mask_eq:
  "(a AND push_bit k (-1) = b AND push_bit k (-1 :: 32 word)) \<longleftrightarrow> drop_bit k a = drop_bit k b"
  by (metis and_prefix_mask drop_bit_and_prefix_mask)

lemma uint_drop_bit_div: "uint (drop_bit k (a :: 'a::len word)) = uint a div 2 ^ k"
proof -
  have "uint (drop_bit k a) = drop_bit k (take_bit LENGTH('a) (uint a))"
    by (rule unsigned_drop_bit_eq)
  also have "\<dots> = uint a div 2 ^ k" by (simp add: drop_bit_eq_div take_bit_int_eq_self)
  finally show ?thesis .
qed

lemma div_pow_eq_iff: "x div 2 ^ k = c \<longleftrightarrow> c * 2 ^ k \<le> x \<and> x < c * 2 ^ k + 2 ^ k" for x c :: int
proof
  assume c: "x div 2 ^ k = c"
  have "0 \<le> x mod 2 ^ k" and "x mod 2 ^ k < 2 ^ k" by simp_all
  with div_mult_mod_eq [of x "2 ^ k"] show "c * 2 ^ k \<le> x \<and> x < c * 2 ^ k + 2 ^ k"
    unfolding c by linarith
next
  assume "c * 2 ^ k \<le> x \<and> x < c * 2 ^ k + 2 ^ k"
  then show "x div 2 ^ k = c"
    by (intro int_div_pos_eq [of _ _ _ "x - c * 2 ^ k"]) (auto simp: mult.commute)
qed

lemma in_cidr_iff:
  assumes p: "ipv4_to_int p = Some base" and bits: "0 < bits" "bits \<le> 32"
    and aligned: "uint base = c * 2 ^ (32 - bits)"
  shows "in_cidr v p bits \<longleftrightarrow> uint base \<le> uint v \<and> uint v < uint base + 2 ^ (32 - bits)"
proof -
  let ?k = "32 - bits"
  have ff: "(0xffffffff :: 32 word) = -1" by simp
  have "in_cidr v p bits \<longleftrightarrow> v AND push_bit ?k (-1) = base AND push_bit ?k (-1)"
    using bits by (simp add: in_cidr_def p Let_def ff)
  also have "\<dots> \<longleftrightarrow> drop_bit ?k v = drop_bit ?k base"
    by (rule and_prefix_mask_eq)
  also have "\<dots> \<longleftrightarrow> uint v div 2 ^ ?k = c"
    by (simp only: word_uint_eq_iff uint_drop_bit_div aligned) simp
  also have "\<dots> \<longleftrightarrow> c * 2 ^ ?k \<le> uint v \<and> uint v < c * 2 ^ ?k + 2 ^ ?k"
    by (rule div_pow_eq_iff)
  finally show ?thesis by (simp add: aligned)
qed

text \<open>The blocks the classifier names: the prefix, its length, and its leading bits as a number.\<close>

definition cidr_table :: "(string \<times> nat \<times> int) list" where
  "cidr_table =
     [(''127.0.0.0'', 8, 127),
      (''169.254.0.0'', 16, 43518),
      (''10.0.0.0'', 8, 10),
      (''172.16.0.0'', 12, 2753),
      (''192.168.0.0'', 16, 49320),
      (''100.64.0.0'', 10, 401),
      (''0.0.0.0'', 8, 0),
      (''192.0.0.0'', 24, 12582912),
      (''192.0.2.0'', 24, 12582914),
      (''192.88.99.0'', 24, 12605539),
      (''198.18.0.0'', 15, 25353),
      (''198.51.100.0'', 24, 12989284),
      (''203.0.113.0'', 24, 13303921),
      (''224.0.0.0'', 4, 14),
      (''240.0.0.0'', 4, 15)]"

lemma cidr_table_ok:
  "list_all (\<lambda>(p, bits, c). ipv4_to_int p = Some (word_of_int (c * 2 ^ (32 - bits))) \<and>
      uint (word_of_int (c * 2 ^ (32 - bits)) :: 32 word) = c * 2 ^ (32 - bits) \<and>
      0 < bits \<and> bits \<le> 32) cidr_table"
  by code_simp

lemma in_cidr_table:
  assumes "(p, bits, c) \<in> set cidr_table"
  shows "in_cidr v p bits \<longleftrightarrow>
    c * 2 ^ (32 - bits) \<le> uint v \<and> uint v < c * 2 ^ (32 - bits) + 2 ^ (32 - bits)"
proof -
  have "ipv4_to_int p = Some (word_of_int (c * 2 ^ (32 - bits))) \<and>
      uint (word_of_int (c * 2 ^ (32 - bits)) :: 32 word) = c * 2 ^ (32 - bits) \<and>
      0 < bits \<and> bits \<le> 32"
    using cidr_table_ok assms by (auto simp only: list_all_iff case_prod_conv dest: bspec)
  then show ?thesis using in_cidr_iff [of p _ bits c v] by metis
qed

lemma cidr_ranges:
  "in_cidr v ''127.0.0.0'' 8 \<longleftrightarrow> 0x7f000000 \<le> uint v \<and> uint v < 0x80000000"
  "in_cidr v ''169.254.0.0'' 16 \<longleftrightarrow> 0xa9fe0000 \<le> uint v \<and> uint v < 0xa9ff0000"
  "in_cidr v ''10.0.0.0'' 8 \<longleftrightarrow> 0xa000000 \<le> uint v \<and> uint v < 0xb000000"
  "in_cidr v ''172.16.0.0'' 12 \<longleftrightarrow> 0xac100000 \<le> uint v \<and> uint v < 0xac200000"
  "in_cidr v ''192.168.0.0'' 16 \<longleftrightarrow> 0xc0a80000 \<le> uint v \<and> uint v < 0xc0a90000"
  "in_cidr v ''100.64.0.0'' 10 \<longleftrightarrow> 0x64400000 \<le> uint v \<and> uint v < 0x64800000"
  "in_cidr v ''0.0.0.0'' 8 \<longleftrightarrow> 0x0 \<le> uint v \<and> uint v < 0x1000000"
  "in_cidr v ''192.0.0.0'' 24 \<longleftrightarrow> 0xc0000000 \<le> uint v \<and> uint v < 0xc0000100"
  "in_cidr v ''192.0.2.0'' 24 \<longleftrightarrow> 0xc0000200 \<le> uint v \<and> uint v < 0xc0000300"
  "in_cidr v ''192.88.99.0'' 24 \<longleftrightarrow> 0xc0586300 \<le> uint v \<and> uint v < 0xc0586400"
  "in_cidr v ''198.18.0.0'' 15 \<longleftrightarrow> 0xc6120000 \<le> uint v \<and> uint v < 0xc6140000"
  "in_cidr v ''198.51.100.0'' 24 \<longleftrightarrow> 0xc6336400 \<le> uint v \<and> uint v < 0xc6336500"
  "in_cidr v ''203.0.113.0'' 24 \<longleftrightarrow> 0xcb007100 \<le> uint v \<and> uint v < 0xcb007200"
  "in_cidr v ''224.0.0.0'' 4 \<longleftrightarrow> 0xe0000000 \<le> uint v \<and> uint v < 0xf0000000"
  "in_cidr v ''240.0.0.0'' 4 \<longleftrightarrow> 0xf0000000 \<le> uint v \<and> uint v < 0x100000000"
  using in_cidr_table [of _ _ _ v] by (simp_all add: cidr_table_def)

text \<open>The specification: the first interval of the table that holds the address names its class.\<close>

definition ipv4_blocks :: "(int \<times> int \<times> ip_disposition) list" where
  "ipv4_blocks =
     [(0x7f000000, 0x80000000, LOOPBACK),
      (0xa9fe0000, 0xa9ff0000, LINK_LOCAL),
      (0x0a000000, 0x0b000000, PRIVATE),
      (0xac100000, 0xac200000, PRIVATE),
      (0xc0a80000, 0xc0a90000, PRIVATE),
      (0x64400000, 0x64800000, PRIVATE),
      (0x00000000, 0x01000000, RESERVED),
      (0xc0000000, 0xc0000100, RESERVED),
      (0xc0000200, 0xc0000300, RESERVED),
      (0xc0586300, 0xc0586400, RESERVED),
      (0xc6120000, 0xc6140000, RESERVED),
      (0xc6336400, 0xc6336500, RESERVED),
      (0xcb007100, 0xcb007200, RESERVED),
      (0xe0000000, 0xf0000000, RESERVED),
      (0xf0000000, 0x100000000, RESERVED)]"

fun block_of :: "(int \<times> int \<times> ip_disposition) list \<Rightarrow> int \<Rightarrow> ip_disposition" where
  "block_of [] n = PUBLIC"
| "block_of ((lo, hi, d) # bs) n = (if lo \<le> n \<and> n < hi then d else block_of bs n)"

lemma classify_ipv4_blocks:
  "classify_ipv4 a =
     (if a \<in> set metadata_addresses then CLOUD_METADATA
      else case ipv4_to_int a of None \<Rightarrow> RESERVED | Some v \<Rightarrow> block_of ipv4_blocks (uint v))"
  unfolding classify_ipv4_def ipv4_blocks_def block_of.simps cidr_ranges
  by (simp split: option.split)

end
