(* ===== verification/Ip_Embedding.thy ===== *)
theory Ip_Embedding
  imports Ip_Rules
begin

text \<open>
  An IPv4 address spelt inside an IPv6 one is judged as that IPv4 address
  (\<^verbatim>\<open>packages/security/src/ip-rules.ts\<close>, the embeddings of \<open>classifyIpv6\<close>). The lemmas follow
  the text through the classifier: the dotted quad is folded to two hexadecimal groups, the
  groups are expanded and parsed, and the quad is printed again from them.
\<close>

section \<open>Dotted quads\<close>

definition quad :: "nat \<Rightarrow> nat \<Rightarrow> nat \<Rightarrow> nat \<Rightarrow> string" where
  "quad a b c d = join ''.'' (map show_nat [a, b, c, d])"

lemma parse_decimal_snoc: "parse_decimal (s @ [c]) = 10 * parse_decimal s + digit_value c"
  by (simp add: parse_decimal_def)

lemma parse_show_nat: "parse_decimal (show_nat n) = n"
proof (induction n rule: show_nat.induct)
  case (1 n)
  have dv: "k < 10 \<Longrightarrow> digit_value (char_of (48 + k)) = k" for k
    by (simp add: digit_value_def)
  show ?case
  proof (cases "n < 10")
    case True
    then show ?thesis by (subst show_nat.simps) (simp add: parse_decimal_def dv)
  next
    case False
    with 1 have "parse_decimal (show_nat (n div 10)) = n div 10" by simp
    with False show ?thesis
      by (subst show_nat.simps) (simp add: parse_decimal_snoc dv)
  qed
qed

lemma octet_of_show_nat: "n < 256 \<Longrightarrow> octet_of (show_nat n) = Some n"
  using show_nat_digits [of n] length_show_nat [of n 3]
  by (auto simp: octet_of_def parse_show_nat list_all_iff Suc_le_eq)

lemma show_nat_no_dot: "CHR ''.'' \<notin> set (show_nat n)"
  using show_nat_digits [of n] by (auto simp: is_digit_def code_def)

lemma split_quad: "split_on (CHR ''.'') (quad a b c d) = map show_nat [a, b, c, d]"
  unfolding quad_def by (rule split_on_join) (auto simp: show_nat_no_dot)

lemma octets_of_show: "\<forall>n \<in> set ns. n < 256 \<Longrightarrow> octets_of (map show_nat ns) = Some ns"
  by (induction ns) (auto simp: octet_of_show_nat)

lemma ipv4_to_int_quad:
  assumes "a < 256" "b < 256" "c < 256" "d < 256"
  shows "ipv4_to_int (quad a b c d) =
    Some (word_of_int (((int a * 256 + int b) * 256 + int c) * 256 + int d))"
  using octets_of_show [of "[a, b, c, d]"] assms by (simp add: ipv4_to_int_def split_quad)

lemma quad_chars: "x \<in> set (quad a b c d) \<Longrightarrow> is_digit x \<or> x = CHR ''.''"
  using show_nat_digits by (auto simp: quad_def)

lemma quad_has_dot: "CHR ''.'' \<in> set (quad a b c d)"
  by (simp add: quad_def)

lemma is_quad_quad: "a < 256 \<Longrightarrow> b < 256 \<Longrightarrow> c < 256 \<Longrightarrow> d < 256 \<Longrightarrow> is_quad (quad a b c d)"
  using show_nat_digits length_show_nat [where k = 3]
  by (auto simp: is_quad_def split_quad list_all_iff Suc_le_eq)

section \<open>Hexadecimal groups\<close>

lemma hex_digit_of_props:
  "n < 16 \<Longrightarrow> is_hex (hex_digit_of n) \<and> hex_value (hex_digit_of n) = n \<and>
     to_lower_char (hex_digit_of n) = hex_digit_of n"
  by (auto simp: hex_digit_of_def is_hex_def hex_value_def is_digit_def to_lower_char_def is_upper_def)

lemma show_hex_chars:
  "0 \<le> n \<Longrightarrow> \<forall>c \<in> set (show_hex n). is_hex c \<and> to_lower_char c = c"
proof (induction n rule: show_hex.induct)
  case (1 n)
  have "n < 16 \<Longrightarrow> nat n < 16" and "nat (n mod 16) < 16" by (simp_all add: nat_less_iff)
  with 1 show ?case
    by (subst show_hex.simps) (auto simp: hex_digit_of_props nat_less_iff)
qed

lemma show_hex_not_Nil [simp]: "show_hex n \<noteq> []"
  by (subst show_hex.simps) simp

lemma parse_show_hex:
  "0 \<le> n \<Longrightarrow> foldl (\<lambda>m c. 16 * m + int (hex_value c)) 0 (show_hex n) = n"
proof (induction n rule: show_hex.induct)
  case (1 n)
  show ?case
  proof (cases "n < 16")
    case True
    with 1 show ?thesis
      by (subst show_hex.simps) (simp add: hex_digit_of_props nat_less_iff)
  next
    case False
    with 1 have "foldl (\<lambda>m c. 16 * m + int (hex_value c)) 0 (show_hex (n div 16)) = n div 16"
      by simp
    with False show ?thesis
      by (subst show_hex.simps) (simp add: hex_digit_of_props nat_less_iff)
  qed
qed

lemma is_hex_not_special:
  "is_hex c \<Longrightarrow> c \<noteq> CHR '':'' \<and> c \<noteq> CHR ''%'' \<and> \<not> is_space c \<and> c \<noteq> CHR ''-'' \<and> c \<noteq> CHR ''+''
     \<and> c \<noteq> CHR ''x'' \<and> c \<noteq> CHR ''X''"
  by (auto simp: is_hex_def is_digit_def is_space_def code_def)

lemma parse_hex_run:
  assumes "g \<noteq> []" and h: "\<forall>c \<in> set g. is_hex c"
  shows "parse_int_16 g = Some (foldl (\<lambda>m c. 16 * m + int (hex_value c)) 0 g)"
proof -
  obtain c t where g: "g = c # t" using assms(1) by (cases g) auto
  have "takeWhile is_hex g = g" using h by (simp add: takeWhile_eq_all_conv)
  moreover have "strip_0x g = g"
    using h is_hex_not_special by (cases t) (auto simp: strip_0x_def starts_with_def g)
  moreover have "dropWhile is_space g = g" using h is_hex_not_special [of c] by (simp add: g)
  moreover have "c \<noteq> CHR ''-''" "c \<noteq> CHR ''+''" using h is_hex_not_special [of c] by (auto simp: g)
  ultimately show ?thesis
    using assms(1) by (simp add: g parse_hex_digits_def del: foldl_Cons)
qed

lemma group_word_show_hex:
  "0 \<le> n \<Longrightarrow> n < 65536 \<Longrightarrow> group_word (show_hex n) = Some (word_of_int n)"
  using parse_hex_run [of "show_hex n"] show_hex_chars [of n] parse_show_hex [of n]
  by (auto simp: group_word_def)

section \<open>The text of the embedding\<close>

lemma split_double_colon_plain:
  "CHR '':'' \<notin> set w \<Longrightarrow> split_double_colon (w @ s) =
     (case split_double_colon s of [] \<Rightarrow> [w] | v # vs \<Rightarrow> (w @ v) # vs)"
proof (induction w)
  case Nil
  then show ?case by (cases s rule: split_double_colon.cases) (auto split: list.splits)
next
  case (Cons c w)
  then show ?case
    by (cases "w @ s"; cases s rule: split_double_colon.cases) (auto split: list.splits)
qed

lemma split_double_colon_single:
  "CHR '':'' \<notin> set w \<Longrightarrow> split_double_colon w = [w]"
  using split_double_colon_plain [of w "[]"] by simp

lemma split_double_colon_sep:
  "w \<noteq> [] \<Longrightarrow> hd w \<noteq> CHR '':'' \<Longrightarrow>
     split_double_colon (CHR '':'' # w) =
       (case split_double_colon w of [] \<Rightarrow> [[CHR '':'']] | v # vs \<Rightarrow> (CHR '':'' # v) # vs)"
  by (cases w) auto

lemma split_two_groups:
  assumes "CHR '':'' \<notin> set g" "g \<noteq> []" "CHR '':'' \<notin> set h" "h \<noteq> []"
  shows "split_double_colon (g @ CHR '':'' # h) = [g @ CHR '':'' # h]"
  using assms by (cases h)
    (auto simp: split_double_colon_plain split_double_colon_sep split_double_colon_single)

lemma after_last_colon_append:
  "CHR '':'' \<notin> set q \<Longrightarrow> after_last_colon (p @ CHR '':'' # q) = q"
  by (simp add: after_last_colon_def takeWhile_append)

lemma up_to_last_colon_append:
  "CHR '':'' \<notin> set q \<Longrightarrow> up_to_last_colon (p @ CHR '':'' # q) = p @ [CHR '':'']"
  by (simp add: up_to_last_colon_def dropWhile_append)

lemma fold_dotted_quad:
  assumes "a < 256" "b < 256" "c < 256" "d < 256" and "no_line_break p"
  shows "fold_dotted (p @ CHR '':'' # quad a b c d) =
    p @ CHR '':'' # show_hex (int a * 256 + int b) @ CHR '':'' # show_hex (int c * 256 + int d)"
proof -
  let ?n = "((int a * 256 + int b) * 256 + int c) * 256 + int d"
  define v where "v = (word_of_int ?n :: 32 word)"
  have n: "uint v = ?n" unfolding v_def uint_word_of_int using assms by simp
  have hi: "uint (drop_bit 16 v) = int a * 256 + int b"
    using assms by (simp add: uint_drop_bit_div n)
  have "v AND 0xffff = take_bit 16 v" by (simp add: take_bit_eq_mask mask_numeral)
  then have "uint (v AND 0xffff) = uint v mod 2 ^ 16"
    by (simp only: unsigned_take_bit_eq) (simp only: take_bit_eq_mod)
  also have "\<dots> = ((int a * 256 + int b) * 2 ^ 16 + (int c * 256 + int d)) mod 2 ^ 16"
    by (simp only: n) (simp add: algebra_simps)
  also have "\<dots> = int c * 256 + int d"
    unfolding mod_mult_self3 using assms by (intro mod_pos_pos_trivial) auto
  finally have lo: "uint (v AND 0xffff) = int c * 256 + int d" .
  have q: "ipv4_to_int (quad a b c d) = Some v"
    unfolding v_def using assms(1-4) by (rule ipv4_to_int_quad)
  have nc: "CHR '':'' \<notin> set (quad a b c d)"
    using quad_chars [of "CHR '':''" a b c d] by (auto simp: is_digit_def code_def)
  have lb: "no_line_break (p @ [CHR '':''])"
    using assms by (simp add: no_line_break_def code_def)
  show ?thesis
    unfolding fold_dotted_def Let_def up_to_last_colon_append [OF nc] after_last_colon_append [OF nc]
    using lb assms by (simp add: is_quad_quad q hi lo)
qed

text \<open>The two groups print the quad they were folded from.\<close>

lemma unat_high_byte: "h < 256 \<Longrightarrow> l < 256 \<Longrightarrow>
    unat (drop_bit 8 (word_of_int (int h * 256 + int l) :: 16 word)) = h"
  by (simp only: unat_eq_nat_uint uint_drop_bit_div uint_word_of_int) simp

lemma unat_low_byte:
  assumes "h < 256" "l < 256"
  shows "unat ((word_of_int (int h * 256 + int l) :: 16 word) AND 0xff) = l"
proof -
  define w where "w = (word_of_int (int h * 256 + int l) :: 16 word)"
  have u: "uint w = int h * 256 + int l" unfolding w_def uint_word_of_int using assms by simp
  have "w AND 0xff = take_bit 8 w" by (simp add: take_bit_eq_mask mask_numeral)
  then have "uint (w AND 0xff) = uint w mod 2 ^ 8"
    by (simp only: unsigned_take_bit_eq) (simp only: take_bit_eq_mod)
  also have "\<dots> = (int h * 2 ^ 8 + int l) mod 2 ^ 8" by (simp only: u) simp
  also have "\<dots> = int l"
    unfolding mod_mult_self3 using assms by (intro mod_pos_pos_trivial) auto
  finally have "uint (w AND 0xff) = int l" .
  then show ?thesis unfolding unat_eq_nat_uint w_def by (simp only: nat_int)
qed

lemma embedded_ipv4_quad:
  assumes "a < 256" "b < 256" "c < 256" "d < 256"
    and "gs ! i = word_of_int (int a * 256 + int b)" and "gs ! Suc i = word_of_int (int c * 256 + int d)"
  shows "embedded_ipv4 gs i = quad a b c d"
  unfolding embedded_ipv4_def Let_def quad_def assms(5,6)
  by (simp only: list.map unat_high_byte unat_low_byte assms(1-4))

lemma colon_groups_three:
  assumes "CHR '':'' \<notin> set p" "p \<noteq> []" "CHR '':'' \<notin> set g" "CHR '':'' \<notin> set h"
  shows "colon_groups (p @ CHR '':'' # g @ CHR '':'' # h) = [p, g, h]"
  using assms by (simp add: colon_groups_def split_on_word split_on_single)

lemma split_double_colon_hex:
  assumes "CHR '':'' \<notin> set p" "p \<noteq> []" "CHR '':'' \<notin> set g" "g \<noteq> []" "CHR '':'' \<notin> set h" "h \<noteq> []"
  shows "split_double_colon (p @ CHR '':'' # g @ CHR '':'' # h) = [p @ CHR '':'' # g @ CHR '':'' # h]"
proof -
  have "hd (g @ CHR '':'' # h) \<noteq> CHR '':''" using assms by (cases g) auto
  with assms show ?thesis
    by (simp add: split_double_colon_plain [of p] split_double_colon_sep split_two_groups)
qed

lemma before_zone_id: "CHR ''%'' \<notin> set s \<Longrightarrow> before_zone s = s"
  by (simp add: before_zone_def split_on_single)

lemma to_lower_fixed: "\<forall>c \<in> set s. to_lower_char c = c \<Longrightarrow> to_lower s = s"
  by (simp add: to_lower_def map_idI)

lemma to_lower_quad: "to_lower (quad a b c d) = quad a b c d"
  by (rule to_lower_fixed)
    (auto dest!: quad_chars simp: to_lower_char_def is_digit_def is_upper_def code_def)

text \<open>
  The classifier on a text \<open>prefix:a.b.c.d\<close> whose prefix is in canonical form: the groups are
  those of the prefix followed by the two of the quad.
\<close>

lemma classify_ipv6_dotted:
  assumes "a < 256" "b < 256" "c < 256" "d < 256"
    and p: "no_line_break p" "CHR ''%'' \<notin> set p" "to_lower p = p" "CHR '':'' \<in> set p"
    and e: "\<And>g h. \<forall>x \<in> set g. is_hex x \<Longrightarrow> g \<noteq> [] \<Longrightarrow> \<forall>x \<in> set h. is_hex x \<Longrightarrow> h \<noteq> [] \<Longrightarrow>
      expand_ipv6 (p @ CHR '':'' # g @ CHR '':'' # h) = Some (gs @ [to_lower g, to_lower h])"
    and w: "group_words gs = Some ws"
  shows "classify_ipv6 (p @ CHR '':'' # quad a b c d) =
    classify_groups (ws @ [word_of_int (int a * 256 + int b), word_of_int (int c * 256 + int d)])"
proof -
  let ?hi = "int a * 256 + int b" and ?lo = "int c * 256 + int d"
  let ?s = "p @ CHR '':'' # quad a b c d"
  have "CHR ''%'' \<notin> set ?s" using p by (auto dest!: quad_chars simp: is_digit_def code_def)
  then have n: "to_lower (before_zone ?s) = ?s"
    using p by (simp add: before_zone_id to_lower_quad) (simp add: to_lower_char_def is_upper_def code_def)
  have "\<forall>x \<in> set metadata_addresses. \<not> (CHR ''.'' \<in> set x \<and> CHR '':'' \<in> set x)"
    by (simp add: metadata_addresses_def)
  moreover have "CHR ''.'' \<in> set ?s" "CHR '':'' \<in> set ?s" using quad_has_dot by auto
  ultimately have m: "?s \<notin> set metadata_addresses" by blast
  have lower: "to_lower (show_hex k) = show_hex k" if "0 \<le> k" for k
    using show_hex_chars [OF that] by (intro to_lower_fixed) auto
  have gw: "group_words (xs @ ys) = (case group_words xs of None \<Rightarrow> None
      | Some us \<Rightarrow> map_option ((@) us) (group_words ys))" for xs ys
    by (induction xs; cases "group_words ys") (auto split: option.splits)
  have "expand_ipv6 (fold_dotted ?s) = Some (gs @ [show_hex ?hi, show_hex ?lo])"
    unfolding fold_dotted_quad [OF assms(1-4) p(1)]
    using show_hex_chars [of ?hi] show_hex_chars [of ?lo] by (subst e) (auto simp: lower)
  moreover have "group_words (gs @ [show_hex ?hi, show_hex ?lo]) =
      Some (ws @ [word_of_int ?hi, word_of_int ?lo])"
    using assms(1-4) by (simp only: gw w) (simp del: of_int_add of_int_mult add: group_word_show_hex)
  ultimately show ?thesis
    by (simp only: classify_ipv6_def Let_def n m option.case if_False)
qed

text \<open>The two prefixes, expanded.\<close>

lemma expand_mapped:
  assumes "\<forall>x \<in> set g. is_hex x" "g \<noteq> []" "\<forall>x \<in> set h. is_hex x" "h \<noteq> []"
  shows "expand_ipv6 (''::ffff'' @ CHR '':'' # g @ CHR '':'' # h) =
    Some ((replicate 5 ''0'' @ [''ffff'']) @ [to_lower g, to_lower h])"
proof -
  have nc: "CHR '':'' \<notin> set g" "CHR '':'' \<notin> set h" and np: "CHR ''%'' \<notin> set g" "CHR ''%'' \<notin> set h"
    using assms is_hex_not_special by blast+
  have "split_double_colon (''::ffff'' @ CHR '':'' # g @ CHR '':'' # h) =
      [[], ''ffff'' @ CHR '':'' # g @ CHR '':'' # h]"
    using split_double_colon_hex [of "''ffff''" g h] nc assms by simp
  moreover have "colon_groups (''ffff'' @ CHR '':'' # g @ CHR '':'' # h) = [''ffff'', g, h]"
    using colon_groups_three [of "''ffff''" g h] nc by simp
  moreover have "before_zone (''::ffff'' @ CHR '':'' # g @ CHR '':'' # h) =
      ''::ffff'' @ CHR '':'' # g @ CHR '':'' # h"
    using np by (intro before_zone_id) auto
  ultimately show ?thesis
    by (simp add: expand_ipv6_def colon_groups_def [of "[]"] numeral_eq_Suc to_lower_char_def
        is_upper_def code_def)
qed

lemma expand_nat64:
  assumes "\<forall>x \<in> set g. is_hex x" "g \<noteq> []" "\<forall>x \<in> set h. is_hex x" "h \<noteq> []"
  shows "expand_ipv6 (''64:ff9b:'' @ CHR '':'' # g @ CHR '':'' # h) =
    Some (([''64'', ''ff9b''] @ replicate 4 ''0'') @ [to_lower g, to_lower h])"
proof -
  have nc: "CHR '':'' \<notin> set g" "CHR '':'' \<notin> set h" and np: "CHR ''%'' \<notin> set g" "CHR ''%'' \<notin> set h"
    using assms is_hex_not_special by blast+
  have "split_double_colon (''64:ff9b:'' @ CHR '':'' # g @ CHR '':'' # h) =
      [''64:ff9b'', g @ CHR '':'' # h]"
    using split_two_groups [of g h] nc assms by simp
  moreover have "colon_groups (g @ CHR '':'' # h) = [g, h]"
    using nc assms by (simp add: colon_groups_def split_on_word split_on_single)
  moreover have "before_zone (''64:ff9b:'' @ CHR '':'' # g @ CHR '':'' # h) =
      ''64:ff9b:'' @ CHR '':'' # g @ CHR '':'' # h"
    using np by (intro before_zone_id) auto
  ultimately show ?thesis
    by (simp add: expand_ipv6_def colon_groups_def [of "''64:ff9b''"] numeral_eq_Suc
        to_lower_char_def is_upper_def code_def)
qed

lemma group_words_mapped: "group_words (replicate 5 ''0'' @ [''ffff'']) = Some [0, 0, 0, 0, 0, 0xffff]"
  by code_simp

lemma group_words_nat64:
  "group_words ([''64'', ''ff9b''] @ replicate 4 ''0'') = Some [0x64, 0xff9b, 0, 0, 0, 0]"
  by code_simp

lemma prefix_texts:
  "no_line_break ''::ffff''" "to_lower ''::ffff'' = ''::ffff''"
  "no_line_break ''64:ff9b:''" "to_lower ''64:ff9b:'' = ''64:ff9b:''"
  by code_simp+

lemma lower_chars:
  "to_lower_char CHR ''6'' = CHR ''6''" "to_lower_char CHR ''4'' = CHR ''4''"
  "to_lower_char CHR '':'' = CHR '':''" "to_lower_char CHR ''f'' = CHR ''f''"
  "to_lower_char CHR ''9'' = CHR ''9''" "to_lower_char CHR ''b'' = CHR ''b''"
  by code_simp+

lemma classify_mapped_quad:
  assumes "a < 256" "b < 256" "c < 256" "d < 256"
  shows "classify_ipv6 (''::ffff'' @ CHR '':'' # quad a b c d) = classify_ipv4 (quad a b c d)"
proof -
  have "embedded_ipv4 ([0, 0, 0, 0, 0, 0xffff] @ [word_of_int (int a * 256 + int b),
      word_of_int (int c * 256 + int d)]) 6 = quad a b c d"
    by (rule embedded_ipv4_quad [OF assms]) simp_all
  then show ?thesis
    by (subst classify_ipv6_dotted [OF assms _ _ _ _ expand_mapped group_words_mapped])
      (simp_all add: prefix_texts lower_chars classify_groups_def zero_through_def del: of_int_add of_int_mult)
qed

lemma classify_nat64_quad:
  assumes "a < 256" "b < 256" "c < 256" "d < 256"
  shows "classify_ipv6 (''64:ff9b:'' @ CHR '':'' # quad a b c d) = classify_ipv4 (quad a b c d)"
proof -
  have "embedded_ipv4 ([0x64, 0xff9b, 0, 0, 0, 0] @ [word_of_int (int a * 256 + int b),
      word_of_int (int c * 256 + int d)]) 6 = quad a b c d"
    by (rule embedded_ipv4_quad [OF assms]) simp_all
  then show ?thesis
    by (subst classify_ipv6_dotted [OF assms _ _ _ _ expand_nat64 group_words_nat64])
      (simp_all add: prefix_texts lower_chars classify_groups_def zero_through_def del: of_int_add of_int_mult)
qed

section \<open>Properties\<close>

text \<open>
  C40: The judgement of an IPv4 text is that of a table of disjoint intervals of addresses: a
  well-known metadata address first, then the first block that holds the address, and a text that
  is no dotted quad is never public.
\<close>

theorem ipv4_judged_by_blocks:
  "classify_ipv4 a =
     (if a \<in> set metadata_addresses then CLOUD_METADATA
      else case ipv4_to_int a of None \<Rightarrow> RESERVED | Some v \<Rightarrow> block_of ipv4_blocks (uint v))"
  by (rule classify_ipv4_blocks)

text \<open>
  An IPv4 address spelt as an IPv4-mapped or a NAT64 IPv6 address is judged exactly as the
  IPv4 address: the address family is no way to spell a blocked destination.
\<close>

theorem embedded_judged_as_ipv4:
  assumes "a < 256" "b < 256" "c < 256" "d < 256"
  shows "classify_ipv6 (''::ffff:'' @ quad a b c d) = classify_ipv4 (quad a b c d) \<and>
    classify_ipv6 (''64:ff9b::'' @ quad a b c d) = classify_ipv4 (quad a b c d)"
  using classify_mapped_quad [OF assms] classify_nat64_quad [OF assms] by simp

lemma embedded_judged_as_ipv4_witness:
  "classify_ipv6 (''::ffff:'' @ quad 169 254 169 254) = CLOUD_METADATA"
proof -
  have "classify_ipv4 (quad 169 254 169 254) = CLOUD_METADATA" by code_simp
  then show ?thesis using embedded_judged_as_ipv4 [of 169 254 169 254] by simp
qed

end
