(* ===== verification/Rate_Limit.thy ===== *)
theory Rate_Limit
  imports Core
begin

text \<open>
  \<^verbatim>\<open>packages/security/src/rate-limit.ts\<close>: a token bucket per key. The arithmetic is exact: a
  JavaScript number is a rational. \<open>now\<close> is the clock, read once by each operation.
\<close>

section \<open>The limiter\<close>

record rate_limit_rule =
  rl_limit :: rat
  rl_intervalMs :: rat
  rl_burst :: "rat option"

text \<open>\<open>rd_remaining\<close> is \<open>None\<close> for the infinity a disabled limiter reports.\<close>

record rate_limit_decision =
  rd_allowed :: bool
  rd_retryAfterSeconds :: int
  rd_remaining :: "int option"

record bucket =
  bk_tokens :: rat
  bk_updatedAt :: rat

type_synonym buckets = "(string \<times> bucket) list"

definition rl_enabled :: "rate_limit_rule \<Rightarrow> bool" where
  "rl_enabled r \<longleftrightarrow> rl_limit r > 0"

definition rl_capacity :: "rate_limit_rule \<Rightarrow> rat" where
  "rl_capacity r = (case rl_burst r of None \<Rightarrow> rl_limit r | Some b \<Rightarrow> b)"

definition bucket_of :: "rate_limit_rule \<Rightarrow> buckets \<Rightarrow> string \<Rightarrow> rat \<Rightarrow> bucket" where
  "bucket_of r bs key now =
     (case map_of bs key of
        None \<Rightarrow> \<lparr>bk_tokens = rl_capacity r, bk_updatedAt = now\<rparr>
      | Some b \<Rightarrow> b)"

definition refill :: "rate_limit_rule \<Rightarrow> bucket \<Rightarrow> rat \<Rightarrow> rat" where
  "refill r b now = (now - bk_updatedAt b) / rl_intervalMs r * rl_limit r"

definition tokens_at :: "rate_limit_rule \<Rightarrow> bucket \<Rightarrow> rat \<Rightarrow> rat" where
  "tokens_at r b now = min (rl_capacity r) (bk_tokens b + max 0 (refill r b now))"

definition check :: "rate_limit_rule \<Rightarrow> rat \<Rightarrow> string \<Rightarrow> buckets \<Rightarrow> rate_limit_decision \<times> buckets" where
  "check r now key bs =
     (if \<not> rl_enabled r
      then (\<lparr>rd_allowed = True, rd_retryAfterSeconds = 0, rd_remaining = None\<rparr>, bs)
      else
        let tokens = tokens_at r (bucket_of r bs key now) now in
        if tokens < 1 then
          let waitMs = (1 - tokens) / rl_limit r * rl_intervalMs r
          in (\<lparr>rd_allowed = False, rd_retryAfterSeconds = max 1 \<lceil>waitMs / 1000\<rceil>,
               rd_remaining = Some 0\<rparr>,
              map_set bs key \<lparr>bk_tokens = tokens, bk_updatedAt = now\<rparr>)
        else
          (\<lparr>rd_allowed = True, rd_retryAfterSeconds = 0, rd_remaining = Some \<lfloor>tokens - 1\<rfloor>\<rparr>,
           map_set bs key \<lparr>bk_tokens = tokens - 1, bk_updatedAt = now\<rparr>))"

definition rate_limited_error :: "string \<Rightarrow> int \<Rightarrow> gateway_error" where
  "rate_limited_error what secs =
     gateway_error RATE_LIMITED (''Too many '' @ what @ ''; retry shortly'')
       (Some (JObj [(''retry_after_seconds'', JNum (of_int secs))])) None (Some True)"

definition require :: "rate_limit_rule \<Rightarrow> rat \<Rightarrow> string \<Rightarrow> string \<Rightarrow> buckets \<Rightarrow> unit result \<times> buckets" where
  "require r now key what bs =
     (let (d, bs') = check r now key bs
      in (if rd_allowed d then Inr ()
          else Inl (rate_limited_error what (rd_retryAfterSeconds d)), bs'))"

definition keeps_bucket :: "rate_limit_rule \<Rightarrow> rat \<Rightarrow> bucket \<Rightarrow> bool" where
  "keeps_bucket r now b \<longleftrightarrow> bk_tokens b + refill r b now < rl_capacity r"

definition sweep :: "rate_limit_rule \<Rightarrow> rat \<Rightarrow> buckets \<Rightarrow> nat \<times> buckets" where
  "sweep r now bs =
     (length (filter (\<lambda>e. \<not> keeps_bucket r now (snd e)) bs),
      filter (\<lambda>e. keeps_bucket r now (snd e)) bs)"

section \<open>Well-formed limiters\<close>

definition rule_ok :: "rate_limit_rule \<Rightarrow> bool" where
  "rule_ok r \<longleftrightarrow> 0 < rl_limit r \<and> 0 < rl_intervalMs r \<and> 1 \<le> rl_capacity r"

definition bucket_ok :: "rate_limit_rule \<Rightarrow> bucket \<Rightarrow> bool" where
  "bucket_ok r b \<longleftrightarrow> 0 \<le> bk_tokens b \<and> bk_tokens b \<le> rl_capacity r"

definition buckets_ok :: "rate_limit_rule \<Rightarrow> buckets \<Rightarrow> bool" where
  "buckets_ok r bs \<longleftrightarrow> distinct (map fst bs) \<and> (\<forall>k b. map_of bs k = Some b \<longrightarrow> bucket_ok r b)"

lemma bucket_of_ok: "rule_ok r \<Longrightarrow> buckets_ok r bs \<Longrightarrow> bucket_ok r (bucket_of r bs key now)"
  by (auto simp: bucket_of_def buckets_ok_def bucket_ok_def rule_ok_def split: option.splits)

lemma tokens_at_bounds:
  "rule_ok r \<Longrightarrow> bucket_ok r b \<Longrightarrow> 0 \<le> tokens_at r b now \<and> tokens_at r b now \<le> rl_capacity r"
  by (auto simp: tokens_at_def bucket_ok_def rule_ok_def)

lemma check_ok:
  assumes "rule_ok r" "buckets_ok r bs"
  shows "buckets_ok r (snd (check r now key bs))"
proof -
  have "0 \<le> tokens_at r (bucket_of r bs key now) now \<and>
      tokens_at r (bucket_of r bs key now) now \<le> rl_capacity r"
    using assms by (intro tokens_at_bounds bucket_of_ok)
  then show ?thesis using assms(2)
    by (auto simp: check_def Let_def buckets_ok_def bucket_ok_def intro: distinct_map_set)
qed

lemma sweep_ok: "buckets_ok r bs \<Longrightarrow> buckets_ok r (snd (sweep r now bs))"
  by (auto simp: sweep_def buckets_ok_def map_of_filter_fst distinct_map_filter
      split: option.splits if_splits)

section \<open>Waiting\<close>

lemma refill_mono:
  assumes "rule_ok r" "t \<le> u"
  shows "refill r b u = refill r b t + (u - t) / rl_intervalMs r * rl_limit r"
    and "0 \<le> (u - t) / rl_intervalMs r * rl_limit r"
  using assms by (auto simp: refill_def rule_ok_def field_simps)

text \<open>Waiting for \<open>n\<close> whole tokens and asking again, with nothing in between.\<close>

lemma tokens_after_wait:
  assumes r: "rule_ok r" and b: "bk_updatedAt b = now"
    and w: "(1 - bk_tokens b) / rl_limit r * rl_intervalMs r \<le> later - now"
  shows "1 \<le> bk_tokens b + max 0 (refill r b later)"
proof -
  have "1 - bk_tokens b \<le> (later - now) / rl_intervalMs r * rl_limit r"
    using r w by (simp add: rule_ok_def field_simps)
  then show ?thesis by (simp add: refill_def b)
qed

lemma check_denied:
  assumes "\<not> rd_allowed (fst (check r now key bs))"
  shows "rl_enabled r" and "tokens_at r (bucket_of r bs key now) now < 1"
    and "map_of (snd (check r now key bs)) key =
      Some \<lparr>bk_tokens = tokens_at r (bucket_of r bs key now) now, bk_updatedAt = now\<rparr>"
    and "rd_retryAfterSeconds (fst (check r now key bs)) =
      max 1 \<lceil>(1 - tokens_at r (bucket_of r bs key now) now) / rl_limit r * rl_intervalMs r / 1000\<rceil>"
  using assms by (auto simp: check_def Let_def split: if_splits)

lemma retry_after_sufficient:
  assumes r: "rule_ok r" and d: "\<not> rd_allowed (fst (check r now key bs))"
    and later: "now + 1000 * of_int (rd_retryAfterSeconds (fst (check r now key bs))) \<le> later"
  shows "rd_allowed (fst (check r later key (snd (check r now key bs))))"
proof -
  let ?t = "tokens_at r (bucket_of r bs key now) now"
  let ?w = "(1 - ?t) / rl_limit r * rl_intervalMs r"
  have "?w / 1000 \<le> of_int \<lceil>?w / 1000\<rceil>" by (rule le_of_int_ceiling)
  also have "\<dots> \<le> of_int (rd_retryAfterSeconds (fst (check r now key bs)))"
    unfolding check_denied(4) [OF d] by simp
  finally have "?w \<le> later - now" using later by simp
  then have "1 \<le> ?t + max 0 (refill r \<lparr>bk_tokens = ?t, bk_updatedAt = now\<rparr> later)"
    using tokens_after_wait [OF r, of "\<lparr>bk_tokens = ?t, bk_updatedAt = now\<rparr>" now later] by simp
  then have "1 \<le> tokens_at r \<lparr>bk_tokens = ?t, bk_updatedAt = now\<rparr> later"
    using r by (simp add: tokens_at_def rule_ok_def)
  then show ?thesis
    using check_denied(3) [OF d]
    by (simp add: check_def [of r later] Let_def bucket_of_def [of _ "snd _"])
qed

section \<open>The number of calls let through\<close>

text \<open>The times at which one caller is answered, in order; the count of those let through.\<close>

fun checks :: "rate_limit_rule \<Rightarrow> string \<Rightarrow> rat list \<Rightarrow> buckets \<Rightarrow> nat \<times> buckets" where
  "checks r key [] bs = (0, bs)"
| "checks r key (t # ts) bs =
     (let (d, bs1) = check r t key bs; (n, bs2) = checks r key ts bs1
      in ((if rd_allowed d then Suc n else n), bs2))"

lemma check_spends:
  assumes "rule_ok r" "buckets_ok r bs"
  shows "map_of (snd (check r t key bs)) key = Some
    \<lparr>bk_tokens = tokens_at r (bucket_of r bs key t) t - of_bool (rd_allowed (fst (check r t key bs))),
     bk_updatedAt = t\<rparr>"
  using assms by (auto simp: check_def Let_def rule_ok_def rl_enabled_def)

lemma checks_budget:
  assumes r: "rule_ok r" and ok: "buckets_ok r bs" and b: "map_of bs key = Some b"
    and ts: "sorted (bk_updatedAt b # ts)"
  shows "of_nat (fst (checks r key ts bs)) \<le>
    bk_tokens b + (last (bk_updatedAt b # ts) - bk_updatedAt b) / rl_intervalMs r * rl_limit r"
  using ok b ts
proof (induction ts arbitrary: bs b)
  case Nil
  then have "bucket_ok r b" by (auto simp: buckets_ok_def)
  then show ?case by (simp add: bucket_ok_def)
next
  case (Cons t ts)
  let ?c = "check r t key bs"
  let ?T = "tokens_at r b t"
  let ?b = "\<lparr>bk_tokens = ?T - of_bool (rd_allowed (fst ?c)), bk_updatedAt = t\<rparr>"
  have bo: "bucket_of r bs key t = b" using Cons.prems(2) by (simp add: bucket_of_def)
  have look: "map_of (snd ?c) key = Some ?b"
    using check_spends [OF r Cons.prems(1)] by (simp add: bo)
  have IH: "of_nat (fst (checks r key ts (snd ?c))) \<le>
      bk_tokens ?b + (last (t # ts) - t) / rl_intervalMs r * rl_limit r"
    using Cons.IH [OF check_ok [OF r Cons.prems(1)] look] Cons.prems(3) by simp
  have "bk_updatedAt b \<le> t" using Cons.prems(3) by simp
  then have "0 \<le> refill r b t" using refill_mono(2) [OF r] by (simp add: refill_def)
  then have "?T \<le> bk_tokens b + refill r b t" by (simp add: tokens_at_def)
  then have le: "bk_tokens ?b + of_bool (rd_allowed (fst ?c)) \<le> bk_tokens b + refill r b t" by simp
  have "of_nat (fst (checks r key (t # ts) bs)) =
      of_nat (fst (checks r key ts (snd ?c))) + (of_bool (rd_allowed (fst ?c)) :: rat)"
    by (simp add: case_prod_beta Let_def)
  also have "\<dots> \<le> bk_tokens b + refill r b t + (last (t # ts) - t) / rl_intervalMs r * rl_limit r"
    using IH le by linarith
  also have "\<dots> = bk_tokens b +
      (last (bk_updatedAt b # t # ts) - bk_updatedAt b) / rl_intervalMs r * rl_limit r"
    using r by (simp add: refill_def rule_ok_def field_simps)
  finally show ?case .
qed

section \<open>Sweeping\<close>

lemma sweep_same_tokens:
  assumes r: "rule_ok r" and ok: "buckets_ok r bs" and t: "now \<le> later"
  shows "tokens_at r (bucket_of r (snd (sweep r now bs)) key later) later =
    tokens_at r (bucket_of r bs key later) later"
proof (cases "map_of bs key")
  case None
  then show ?thesis
    using ok by (simp add: sweep_def bucket_of_def map_of_filter_fst buckets_ok_def)
next
  case (Some b)
  show ?thesis
  proof (cases "keeps_bucket r now b")
    case True
    then show ?thesis
      using ok Some by (simp add: sweep_def bucket_of_def map_of_filter_fst buckets_ok_def)
  next
    case False
    then have "rl_capacity r \<le> bk_tokens b + refill r b later"
      using refill_mono(1) [OF r t, where b = b] refill_mono(2) [OF r t] by (simp add: keeps_bucket_def)
    then have "tokens_at r b later = rl_capacity r" by (auto simp: tokens_at_def)
    moreover have "tokens_at r \<lparr>bk_tokens = rl_capacity r, bk_updatedAt = later\<rparr> later = rl_capacity r"
      by (simp add: tokens_at_def refill_def)
    ultimately show ?thesis
      using ok Some False by (simp add: sweep_def bucket_of_def map_of_filter_fst buckets_ok_def)
  qed
qed

section \<open>Properties\<close>

text \<open>
  C37: Whatever state the limiter is in, the calls of one caller at the times \<open>t # ts\<close>, taken in
  order, are let through at most capacity plus refill many times: the burst and the sustained
  rate bound every window, and no state the limiter reached before can raise that bound.
\<close>

theorem rate_limit_budget:
  assumes r: "rule_ok r" and ok: "buckets_ok r bs" and ts: "sorted (t # ts)"
  shows "of_nat (fst (checks r key (t # ts) bs)) \<le>
    rl_capacity r + (last (t # ts) - t) / rl_intervalMs r * rl_limit r"
proof -
  let ?a = "of_bool (rd_allowed (fst (check r t key bs))) :: rat"
  let ?T = "tokens_at r (bucket_of r bs key t) t"
  have "of_nat (fst (checks r key ts (snd (check r t key bs)))) \<le>
      (?T - ?a) + (last (t # ts) - t) / rl_intervalMs r * rl_limit r"
    using checks_budget [OF r check_ok [OF r ok] check_spends [OF r ok], where ts = ts] ts by simp
  moreover have "?T \<le> rl_capacity r" by (simp add: tokens_at_def)
  moreover have "of_nat (fst (checks r key (t # ts) bs)) =
      of_nat (fst (checks r key ts (snd (check r t key bs)))) + ?a"
    by (simp add: case_prod_beta Let_def)
  ultimately show ?thesis by linarith
qed

definition demo_rule :: rate_limit_rule where
  "demo_rule = \<lparr>rl_limit = 2, rl_intervalMs = 1000, rl_burst = Some 3\<rparr>"

lemma demo_rule_ok: "rule_ok demo_rule"
  by (simp add: rule_ok_def demo_rule_def rl_capacity_def)

lemma buckets_ok_Nil: "buckets_ok r []"
  by (simp add: buckets_ok_def)

lemma rate_limit_budget_witness:
  "of_nat (fst (checks demo_rule ''k'' [0, 0, 0, 0, 1000] [])) \<le> (5 :: rat) \<and>
   fst (checks demo_rule ''k'' [0, 0, 0, 0, 1000] []) = 4"
proof -
  have "of_nat (fst (checks demo_rule ''k'' [0, 0, 0, 0, 1000] [])) \<le>
      rl_capacity demo_rule + (last [0, 0, 0, 0, 1000] - 0) / rl_intervalMs demo_rule * rl_limit demo_rule"
    by (rule rate_limit_budget [OF demo_rule_ok buckets_ok_Nil]) simp
  then have "of_nat (fst (checks demo_rule ''k'' [0, 0, 0, 0, 1000] [])) \<le> (5 :: rat)"
    by (simp add: demo_rule_def rl_capacity_def)
  moreover have "fst (checks demo_rule ''k'' [0, 0, 0, 0, 1000] []) = 4" by code_simp
  ultimately show ?thesis by blast
qed

text \<open>
  A caller that is refused and waits the seconds it was told to is let through when it asks
  again, if nobody spent from its bucket in between.
\<close>

theorem retry_after_honoured:
  assumes "rule_ok r" and "\<not> rd_allowed (fst (check r now key bs))"
    and "now + 1000 * of_int (rd_retryAfterSeconds (fst (check r now key bs))) \<le> later"
  shows "rd_allowed (fst (check r later key (snd (check r now key bs))))"
  using assms by (rule retry_after_sufficient)

lemma retry_after_honoured_witness:
  "rd_allowed (fst (check demo_rule 1000 ''k''
     (snd (check demo_rule 0 ''k'' [(''k'', \<lparr>bk_tokens = 0, bk_updatedAt = 0\<rparr>)]))))"
proof (rule retry_after_honoured [OF demo_rule_ok])
  show "\<not> rd_allowed (fst (check demo_rule 0 ''k'' [(''k'', \<lparr>bk_tokens = 0, bk_updatedAt = 0\<rparr>)]))"
    by code_simp
  show "0 + 1000 * of_int (rd_retryAfterSeconds
      (fst (check demo_rule 0 ''k'' [(''k'', \<lparr>bk_tokens = 0, bk_updatedAt = 0\<rparr>)]))) \<le> (1000 :: rat)"
    by code_simp
qed

text \<open>
  Sweeping idle buckets is invisible: every decision taken later, and the bucket it leaves, are
  those the limiter would have reached without the sweep.
\<close>

theorem sweep_invisible:
  assumes "rule_ok r" and "buckets_ok r bs" and "now \<le> later"
  shows "fst (check r later key (snd (sweep r now bs))) = fst (check r later key bs) \<and>
    map_of (snd (check r later key (snd (sweep r now bs)))) key =
      map_of (snd (check r later key bs)) key"
  using sweep_same_tokens [OF assms, of key] assms(1)
  by (simp add: check_def Let_def rule_ok_def rl_enabled_def)

lemma sweep_invisible_witness:
  "let bs = [(''k'', \<lparr>bk_tokens = 1, bk_updatedAt = 0\<rparr>)] in
     fst (sweep demo_rule 1000 bs) = 1 \<and>
     fst (check demo_rule 1000 ''k'' (snd (sweep demo_rule 1000 bs))) = fst (check demo_rule 1000 ''k'' bs)"
proof -
  let ?bs = "[(''k'', \<lparr>bk_tokens = 1, bk_updatedAt = 0\<rparr>)]"
  have "buckets_ok demo_rule ?bs"
    by (simp add: buckets_ok_def bucket_ok_def demo_rule_def rl_capacity_def)
  from sweep_invisible [OF demo_rule_ok this, of 1000 1000 "''k''"]
  have "fst (check demo_rule 1000 ''k'' (snd (sweep demo_rule 1000 ?bs))) =
      fst (check demo_rule 1000 ''k'' ?bs)"
    by simp
  moreover have "fst (sweep demo_rule 1000 ?bs) = 1" by code_simp
  ultimately show ?thesis by (simp add: Let_def)
qed

end
