(* ===== verification/Store.thy ===== *)
theory Store
  imports Domain
begin

text \<open>
  \<^verbatim>\<open>packages/storage/src\<close>: the repositories of \<^verbatim>\<open>sql-store.ts\<close>. A table is the list
  of its rows in the order they were inserted, a row is the record its mapper reads. The statements
  are read as SQL defines them: \<open>WHERE\<close> is a filter, \<open>UPDATE\<close> answers the number of rows it changed,
  a \<open>UNIQUE\<close> or \<open>PRIMARY KEY\<close> constraint refuses a row (\<open>None\<close>). Each statement is atomic, which
  is what compare-and-swap and single use rest on. Rows that compare equal under an \<open>ORDER BY\<close> come
  in the order of their insertion; nothing proved here depends on that.
\<close>

section \<open>Statements\<close>

text \<open>\<open>INSERT\<close>: refused when a stored row clashes with the new one on a unique key.\<close>

definition insert_row :: "('r \<Rightarrow> 'r \<Rightarrow> bool) \<Rightarrow> 'r \<Rightarrow> 'r list \<Rightarrow> 'r list option" where
  "insert_row clash r rows = (if \<exists>q \<in> set rows. clash q r then None else Some (rows @ [r]))"

text \<open>\<open>SELECT ... LIMIT 1\<close>: the first row that matches, or none.\<close>

definition find_one :: "('r \<Rightarrow> bool) \<Rightarrow> 'r list \<Rightarrow> 'r option" where
  "find_one P rows = find P rows"

text \<open>\<open>UPDATE\<close>: the number of rows changed, and the table.\<close>

definition update_rows :: "('r \<Rightarrow> bool) \<Rightarrow> ('r \<Rightarrow> 'r) \<Rightarrow> 'r list \<Rightarrow> nat \<times> 'r list" where
  "update_rows P f rows = (length (filter P rows), map (\<lambda>r. if P r then f r else r) rows)"

definition delete_rows :: "('r \<Rightarrow> bool) \<Rightarrow> 'r list \<Rightarrow> nat \<times> 'r list" where
  "delete_rows P rows = (length (filter P rows), filter (\<lambda>r. \<not> P r) rows)"

text \<open>
  \<open>INSERT ... ON CONFLICT (key) DO UPDATE ... RETURNING *\<close>: \<open>merge old new\<close> is the stored row with
  every column overwritten but the key, \<open>id\<close> and \<open>created_at\<close>. A row that clashes only on its
  primary key is refused.
\<close>

fun upsert_row ::
  "('r \<Rightarrow> 'r \<Rightarrow> bool) \<Rightarrow> ('r \<Rightarrow> 'r \<Rightarrow> bool) \<Rightarrow> ('r \<Rightarrow> 'r \<Rightarrow> 'r) \<Rightarrow> 'r \<Rightarrow> 'r list
     \<Rightarrow> ('r \<times> 'r list) option" where
  "upsert_row same_key clash merge r rows =
     (case find_one (\<lambda>q. same_key q r) rows of
        Some q \<Rightarrow> Some (merge q r, snd (update_rows (\<lambda>q. same_key q r) (\<lambda>q. merge q r) rows))
      | None \<Rightarrow> map_option (\<lambda>rows'. (r, rows')) (insert_row clash r rows))"

lemma find_one_Some:
  "find_one P rows = Some r \<Longrightarrow> r \<in> set rows \<and> P r"
  by (auto simp: find_one_def find_Some_iff)

lemma find_one_None: "find_one P rows = None \<longleftrightarrow> (\<forall>r \<in> set rows. \<not> P r)"
  by (auto simp: find_one_def find_None_iff)

lemma find_one_map:
  "(\<And>r. P (f r) = P r) \<Longrightarrow> find_one P (map f rows) = map_option f (find_one P rows)"
  unfolding find_one_def by (induction rows) auto

lemma find_one_append:
  "find_one P (xs @ ys) = (case find_one P xs of None \<Rightarrow> find_one P ys | Some r \<Rightarrow> Some r)"
  unfolding find_one_def by (induction xs) auto

lemma find_one_filter:
  "find_one P (filter Q rows) = find_one (\<lambda>r. Q r \<and> P r) rows"
  unfolding find_one_def by (induction rows) auto

lemma find_one_cong: "(\<And>r. r \<in> set rows \<Longrightarrow> P r = Q r) \<Longrightarrow> find_one P rows = find_one Q rows"
  unfolding find_one_def by (induction rows) auto

text \<open>Rows whose key is unique are found by it.\<close>

lemma find_one_key:
  "distinct (map k rows) \<Longrightarrow> r \<in> set rows \<Longrightarrow> find_one (\<lambda>q. k q = k r) rows = Some r"
  unfolding find_one_def by (induction rows) (auto simp: rev_image_eqI)

lemma filter_key:
  "distinct (map k rows) \<Longrightarrow> length (filter (\<lambda>q. k q = i \<and> P q) rows) =
     (case find_one (\<lambda>q. k q = i) rows of Some r \<Rightarrow> of_bool (P r) | None \<Rightarrow> 0)"
proof (induction rows)
  case (Cons r rows)
  have "k r = i \<Longrightarrow> filter (\<lambda>q. k q = i \<and> P q) rows = []"
    using Cons.prems by (auto simp: filter_empty_conv) (metis image_eqI)
  with Cons show ?case by (auto simp: find_one_def)
qed (simp add: find_one_def)

lemma set_update_rows: "set (snd (update_rows P f rows)) = (\<lambda>r. if P r then f r else r) ` set rows"
  by (simp add: update_rows_def)

section \<open>Connections\<close>

definition is_visible_to :: "connection \<Rightarrow> string \<Rightarrow> bool" where
  "is_visible_to c user \<longleftrightarrow> uc_ownerType c = WORKSPACE \<or> uc_ownerId c = user"

definition connection_clash :: "connection \<Rightarrow> connection \<Rightarrow> bool" where
  "connection_clash a b \<longleftrightarrow>
     uc_id a = uc_id b \<or> uc_tenantId a = uc_tenantId b \<and> uc_alias a = uc_alias b"

definition connections_create :: "connection \<Rightarrow> connection list \<Rightarrow> connection list option" where
  "connections_create c rows = insert_row connection_clash c rows"

definition connections_get :: "string \<Rightarrow> string \<Rightarrow> connection list \<Rightarrow> connection option" where
  "connections_get tenant i rows = find_one (\<lambda>c. uc_id c = i \<and> uc_tenantId c = tenant) rows"

definition connections_get_unscoped :: "string \<Rightarrow> connection list \<Rightarrow> connection option" where
  "connections_get_unscoped i rows = find_one (\<lambda>c. uc_id c = i) rows"

definition connections_list_by_tenant :: "string \<Rightarrow> connection list \<Rightarrow> connection list" where
  "connections_list_by_tenant tenant rows =
     sort_key uc_createdAt (filter (\<lambda>c. uc_tenantId c = tenant) rows)"

definition connections_list_visible :: "string \<Rightarrow> string \<Rightarrow> connection list \<Rightarrow> connection list" where
  "connections_list_visible tenant user rows =
     filter (\<lambda>c. is_visible_to c user) (connections_list_by_tenant tenant rows)"

definition connections_find_visible ::
  "string \<Rightarrow> string \<Rightarrow> string \<Rightarrow> connection list \<Rightarrow> connection option" where
  "connections_find_visible tenant user i rows =
     (case connections_get tenant i rows of
        None \<Rightarrow> None
      | Some c \<Rightarrow> if is_visible_to c user then Some c else None)"

definition connections_list_all :: "connection list \<Rightarrow> connection list" where
  "connections_list_all rows = sort_key uc_createdAt rows"

definition connections_find_by_alias :: "string \<Rightarrow> string \<Rightarrow> connection list \<Rightarrow> connection option" where
  "connections_find_by_alias tenant alias rows =
     find_one (\<lambda>c. uc_tenantId c = tenant \<and> uc_alias c = alias) rows"

definition not_found :: "string \<Rightarrow> gateway_error" where
  "not_found what = gerr NOT_FOUND (what @ '' not found'')"

definition require_found :: "'a option \<Rightarrow> string \<Rightarrow> 'a result" where
  "require_found v what = (case v of None \<Rightarrow> Inl (not_found what) | Some x \<Rightarrow> Inr x)"

text \<open>A patch is the function that writes its fields; \<open>updatedAt\<close> is written after them.\<close>

definition connections_update ::
  "int \<Rightarrow> string \<Rightarrow> (connection \<Rightarrow> connection) \<Rightarrow> connection list
     \<Rightarrow> connection result \<times> connection list" where
  "connections_update now i patch rows =
     (let rows' = snd (update_rows (\<lambda>c. uc_id c = i) (\<lambda>c. (patch c)\<lparr>uc_updatedAt := now\<rparr>) rows)
      in (require_found (find_one (\<lambda>c. uc_id c = i) rows') ''Connection'', rows'))"

record token_update =
  tu_connectionId :: string
  tu_expectedTokenVersion :: nat
  tu_accessTokenEncrypted :: "string option"
  tu_refreshTokenEncrypted :: "string option"
  tu_tokenType :: "string option"
  tu_accessTokenExpiresAt :: "int option"
  tu_refreshTokenExpiresAt :: "int option"
  tu_grantedScopes :: "string list"
  tu_status :: connection_status
  tu_lastRefreshAt :: int

definition write_tokens :: "int \<Rightarrow> token_update \<Rightarrow> connection \<Rightarrow> connection" where
  "write_tokens now u c = c\<lparr>
     uc_accessTokenEncrypted := tu_accessTokenEncrypted u,
     uc_refreshTokenEncrypted := tu_refreshTokenEncrypted u,
     uc_tokenType := tu_tokenType u,
     uc_accessTokenExpiresAt := tu_accessTokenExpiresAt u,
     uc_refreshTokenExpiresAt := tu_refreshTokenExpiresAt u,
     uc_grantedScopes := tu_grantedScopes u,
     uc_status := tu_status u,
     uc_tokenVersion := tu_expectedTokenVersion u + 1,
     uc_lastRefreshAt := Some (tu_lastRefreshAt u),
     uc_lastErrorCode := None,
     uc_lastErrorMessageRedacted := None,
     uc_updatedAt := now\<rparr>"

definition connections_update_tokens ::
  "int \<Rightarrow> token_update \<Rightarrow> connection list \<Rightarrow> bool \<times> connection list" where
  "connections_update_tokens now u rows =
     (let (n, rows') = update_rows
            (\<lambda>c. uc_id c = tu_connectionId u \<and> uc_tokenVersion c = tu_expectedTokenVersion u)
            (write_tokens now u) rows
      in (n = 1, rows'))"

definition connections_delete :: "string \<Rightarrow> string \<Rightarrow> connection list \<Rightarrow> bool \<times> connection list" where
  "connections_delete tenant i rows =
     (let (n, rows') = delete_rows (\<lambda>c. uc_id c = i \<and> uc_tenantId c = tenant) rows in (n > 0, rows'))"

section \<open>Authorization transactions\<close>

definition transaction_clash :: "oauth_transaction \<Rightarrow> oauth_transaction \<Rightarrow> bool" where
  "transaction_clash a b \<longleftrightarrow> ot_id a = ot_id b \<or> ot_stateHash a = ot_stateHash b"

definition transactions_create ::
  "oauth_transaction \<Rightarrow> oauth_transaction list \<Rightarrow> oauth_transaction list option" where
  "transactions_create t rows = insert_row transaction_clash t rows"

definition transactions_find_by_state_hash ::
  "string \<Rightarrow> oauth_transaction list \<Rightarrow> oauth_transaction option" where
  "transactions_find_by_state_hash h rows = find_one (\<lambda>t. ot_stateHash t = h) rows"

definition consumable :: "string \<Rightarrow> oauth_transaction \<Rightarrow> bool" where
  "consumable i t \<longleftrightarrow> ot_id t = i \<and> ot_consumedAt t = None \<and> ot_status t = TXN_PENDING"

definition transactions_consume ::
  "string \<Rightarrow> int \<Rightarrow> oauth_transaction list \<Rightarrow> bool \<times> oauth_transaction list" where
  "transactions_consume i t rows =
     (let (n, rows') = update_rows (consumable i)
            (\<lambda>r. r\<lparr>ot_consumedAt := Some t, ot_status := CONSUMED\<rparr>) rows
      in (n = 1, rows'))"

definition transactions_fail :: "string \<Rightarrow> oauth_transaction list \<Rightarrow> oauth_transaction list" where
  "transactions_fail i rows =
     snd (update_rows (\<lambda>t. ot_id t = i) (\<lambda>t. t\<lparr>ot_status := FAILED\<rparr>) rows)"

text \<open>The loop of \<open>purgeExpired\<close>: one \<open>DELETE\<close> by id for each expired row that was read.\<close>

fun purge_loop ::
  "int \<Rightarrow> oauth_transaction list \<Rightarrow> nat \<Rightarrow> oauth_transaction list \<Rightarrow> nat \<times> oauth_transaction list" where
  "purge_loop now [] removed rows = (removed, rows)"
| "purge_loop now (t # ts) removed rows =
     (if ot_expiresAt t < now
      then (let (n, rows') = delete_rows (\<lambda>r. ot_id r = ot_id t) rows
            in purge_loop now ts (removed + n) rows')
      else purge_loop now ts removed rows)"

definition transactions_purge_expired ::
  "int \<Rightarrow> oauth_transaction list \<Rightarrow> nat \<times> oauth_transaction list" where
  "transactions_purge_expired now rows = purge_loop now rows 0 rows"

section \<open>Client registrations and issuers\<close>

definition registrations_create ::
  "client_registration \<Rightarrow> client_registration list \<Rightarrow> client_registration list option" where
  "registrations_create r rows = insert_row (\<lambda>a b. cr_id a = cr_id b) r rows"

definition registrations_get :: "string \<Rightarrow> client_registration list \<Rightarrow> client_registration option" where
  "registrations_get i rows = find_one (\<lambda>r. cr_id r = i) rows"

definition registrations_find_active ::
  "string \<Rightarrow> string \<Rightarrow> client_registration list \<Rightarrow> client_registration option" where
  "registrations_find_active tenant issuer rows =
     find_one (\<lambda>r. cr_tenantId r = tenant \<and> cr_issuerId r = issuer \<and> cr_status r = REG_ACTIVE) rows"

definition registrations_list ::
  "string \<Rightarrow> string \<Rightarrow> client_registration list \<Rightarrow> client_registration list" where
  "registrations_list tenant issuer rows =
     sort_key cr_issuedAt (filter (\<lambda>r. cr_tenantId r = tenant \<and> cr_issuerId r = issuer) rows)"

definition registrations_update ::
  "string \<Rightarrow> (client_registration \<Rightarrow> client_registration) \<Rightarrow> client_registration list
     \<Rightarrow> client_registration result \<times> client_registration list" where
  "registrations_update i patch rows =
     (let rows' = snd (update_rows (\<lambda>r. cr_id r = i) patch rows)
      in (require_found (find_one (\<lambda>r. cr_id r = i) rows') ''Client registration'', rows'))"

definition issuers_upsert ::
  "oauth_issuer_record \<Rightarrow> oauth_issuer_record list
     \<Rightarrow> (oauth_issuer_record \<times> oauth_issuer_record list) option" where
  "issuers_upsert r rows =
     upsert_row (\<lambda>a b. oi_issuer a = oi_issuer b)
       (\<lambda>a b. oi_id a = oi_id b \<or> oi_issuer a = oi_issuer b)
       (\<lambda>old new. new\<lparr>oi_id := oi_id old, oi_issuer := oi_issuer old\<rparr>) r rows"

definition issuers_get :: "string \<Rightarrow> oauth_issuer_record list \<Rightarrow> oauth_issuer_record option" where
  "issuers_get i rows = find_one (\<lambda>r. oi_id r = i) rows"

definition issuers_find_by_issuer ::
  "string \<Rightarrow> oauth_issuer_record list \<Rightarrow> oauth_issuer_record option" where
  "issuers_find_by_issuer issuer rows = find_one (\<lambda>r. oi_issuer r = issuer) rows"

definition preconfigured_upsert ::
  "preconfigured_client \<Rightarrow> preconfigured_client list
     \<Rightarrow> (preconfigured_client \<times> preconfigured_client list) option" where
  "preconfigured_upsert r rows =
     upsert_row (\<lambda>a b. pc_tenantId a = pc_tenantId b \<and> pc_issuer a = pc_issuer b)
       (\<lambda>a b. pc_id a = pc_id b \<or> pc_tenantId a = pc_tenantId b \<and> pc_issuer a = pc_issuer b)
       (\<lambda>old new. new\<lparr>pc_id := pc_id old, pc_tenantId := pc_tenantId old, pc_issuer := pc_issuer old,
                      pc_createdAt := pc_createdAt old\<rparr>) r rows"

definition preconfigured_find_by_issuer ::
  "string \<Rightarrow> string \<Rightarrow> preconfigured_client list \<Rightarrow> preconfigured_client option" where
  "preconfigured_find_by_issuer tenant issuer rows =
     find_one (\<lambda>r. pc_tenantId r = tenant \<and> pc_issuer r = issuer) rows"

definition preconfigured_delete ::
  "string \<Rightarrow> string \<Rightarrow> preconfigured_client list \<Rightarrow> bool \<times> preconfigured_client list" where
  "preconfigured_delete tenant i rows =
     (let (n, rows') = delete_rows (\<lambda>r. pc_id r = i \<and> pc_tenantId r = tenant) rows in (n > 0, rows'))"

section \<open>Servers, keys and sessions\<close>

definition servers_create ::
  "mcp_server_record \<Rightarrow> mcp_server_record list \<Rightarrow> mcp_server_record list option" where
  "servers_create r rows =
     insert_row (\<lambda>a b. ms_id a = ms_id b \<or>
       ms_tenantId a = ms_tenantId b \<and> ms_canonicalUrl a = ms_canonicalUrl b) r rows"

definition servers_get :: "string \<Rightarrow> string \<Rightarrow> mcp_server_record list \<Rightarrow> mcp_server_record option" where
  "servers_get tenant i rows = find_one (\<lambda>r. ms_id r = i \<and> ms_tenantId r = tenant) rows"

definition servers_find_by_canonical_url ::
  "string \<Rightarrow> string \<Rightarrow> mcp_server_record list \<Rightarrow> mcp_server_record option" where
  "servers_find_by_canonical_url tenant u rows =
     find_one (\<lambda>r. ms_tenantId r = tenant \<and> ms_canonicalUrl r = u) rows"

definition servers_update ::
  "string \<Rightarrow> string \<Rightarrow> (mcp_server_record \<Rightarrow> mcp_server_record) \<Rightarrow> mcp_server_record list
     \<Rightarrow> mcp_server_record result \<times> mcp_server_record list" where
  "servers_update tenant i patch rows =
     (let mine = (\<lambda>r. ms_id r = i \<and> ms_tenantId r = tenant);
          rows' = snd (update_rows mine patch rows)
      in (require_found (find_one mine rows') ''MCP server'', rows'))"

definition dpop_keys_create ::
  "dpop_key_record \<Rightarrow> dpop_key_record list \<Rightarrow> dpop_key_record list option" where
  "dpop_keys_create r rows = insert_row (\<lambda>a b. dk_id a = dk_id b) r rows"

definition dpop_keys_get :: "string \<Rightarrow> dpop_key_record list \<Rightarrow> dpop_key_record option" where
  "dpop_keys_get i rows = find_one (\<lambda>r. dk_id r = i) rows"

definition dpop_keys_delete :: "string \<Rightarrow> dpop_key_record list \<Rightarrow> dpop_key_record list" where
  "dpop_keys_delete i rows = snd (delete_rows (\<lambda>r. dk_id r = i) rows)"

definition downstream_sessions_create ::
  "downstream_session_record \<Rightarrow> downstream_session_record list \<Rightarrow> downstream_session_record list option" where
  "downstream_sessions_create r rows = insert_row (\<lambda>a b. dn_id a = dn_id b) r rows"

definition downstream_sessions_get ::
  "string \<Rightarrow> downstream_session_record list \<Rightarrow> downstream_session_record option" where
  "downstream_sessions_get i rows = find_one (\<lambda>r. dn_id r = i) rows"

definition downstream_sessions_close ::
  "string \<Rightarrow> downstream_session_record list \<Rightarrow> downstream_session_record list" where
  "downstream_sessions_close i rows = snd (update_rows (\<lambda>r. dn_id r = i) (\<lambda>r. r\<lparr>dn_status := CLOSED\<rparr>) rows)"

definition upstream_sessions_upsert ::
  "upstream_session_record \<Rightarrow> upstream_session_record list
     \<Rightarrow> (upstream_session_record \<times> upstream_session_record list) option" where
  "upstream_sessions_upsert r rows =
     (let same = (\<lambda>a b. ur_connectionId a = ur_connectionId b \<and>
                        ur_downstreamSessionId a = ur_downstreamSessionId b)
      in upsert_row same (\<lambda>a b. ur_id a = ur_id b \<or> same a b)
           (\<lambda>old new. new\<lparr>ur_id := ur_id old, ur_connectionId := ur_connectionId old,
                          ur_downstreamSessionId := ur_downstreamSessionId old,
                          ur_createdAt := ur_createdAt old\<rparr>) r rows)"

definition upstream_sessions_find ::
  "string \<Rightarrow> string \<Rightarrow> upstream_session_record list \<Rightarrow> upstream_session_record option" where
  "upstream_sessions_find conn ds rows =
     find_one (\<lambda>r. ur_connectionId r = conn \<and> ur_downstreamSessionId r = ds \<and> ur_status r = ACTIVE) rows"

definition upstream_sessions_close_by_downstream ::
  "string \<Rightarrow> upstream_session_record list \<Rightarrow> upstream_session_record list" where
  "upstream_sessions_close_by_downstream ds rows =
     snd (delete_rows (\<lambda>r. ur_downstreamSessionId r = ds) rows)"

definition upstream_sessions_close_by_connection ::
  "string \<Rightarrow> upstream_session_record list \<Rightarrow> upstream_session_record list" where
  "upstream_sessions_close_by_connection conn rows =
     snd (delete_rows (\<lambda>r. ur_connectionId r = conn) rows)"

definition audit_append :: "audit_event \<Rightarrow> audit_event list \<Rightarrow> audit_event list option" where
  "audit_append e rows = insert_row (\<lambda>a b. ae_id a = ae_id b) e rows"

definition audit_list :: "string \<Rightarrow> nat \<Rightarrow> audit_event list \<Rightarrow> audit_event list" where
  "audit_list tenant limit rows =
     take limit (sort_key (\<lambda>e. - ae_createdAt e) (filter (\<lambda>e. ae_tenantId e = tenant) rows))"

end
