(* ===== verification/Store_Facts.thy ===== *)
theory Store_Facts
  imports Store
begin

text \<open>
  What the repositories of \<^verbatim>\<open>sql-store.ts\<close> promise their clients: a transaction is consumed
  at most once, of the writers of one token version at most one succeeds, a member sees the
  connections of the tenant and nobody else's personal ones, an upsert keeps the surrogate key.
\<close>

section \<open>Statements and keys\<close>

lemma insert_row_distinct:
  "insert_row clash r rows = Some rows' \<Longrightarrow> (\<And>q. k q = k r \<Longrightarrow> clash q r) \<Longrightarrow>
     distinct (map k rows) \<Longrightarrow> distinct (map k rows')"
  by (auto simp: insert_row_def split: if_splits) blast

lemma update_rows_keys: "(\<And>r. k (f r) = k r) \<Longrightarrow> map k (snd (update_rows P f rows)) = map k rows"
  by (simp add: update_rows_def)

lemma delete_rows_distinct:
  "distinct (map k rows) \<Longrightarrow> distinct (map k (snd (delete_rows P rows)))"
  by (simp add: delete_rows_def distinct_map_filter)

lemma set_delete_rows: "set (snd (delete_rows P rows)) = {r \<in> set rows. \<not> P r}"
  by (auto simp: delete_rows_def)

lemmas statement_sets = set_update_rows set_delete_rows

section \<open>Transactions\<close>

datatype transaction_op =
    Create_Transaction oauth_transaction
  | Consume_Transaction string int
  | Fail_Transaction string
  | Purge_Transactions int

fun transaction_exec :: "transaction_op \<Rightarrow> oauth_transaction list \<Rightarrow> oauth_transaction list" where
  "transaction_exec (Create_Transaction t) rows =
     (case transactions_create t rows of None \<Rightarrow> rows | Some rows' \<Rightarrow> rows')"
| "transaction_exec (Consume_Transaction i at_ms) rows = snd (transactions_consume i at_ms rows)"
| "transaction_exec (Fail_Transaction i) rows = transactions_fail i rows"
| "transaction_exec (Purge_Transactions now) rows = snd (transactions_purge_expired now rows)"

text \<open>An id is minted once: no operation of the sequence creates the transaction again.\<close>

fun does_not_create :: "string \<Rightarrow> int + transaction_op \<Rightarrow> bool" where
  "does_not_create i (Inr (Create_Transaction t)) = (ot_id t \<noteq> i)"
| "does_not_create i _ = True"

definition transaction_ids_ok :: "oauth_transaction list \<Rightarrow> bool" where
  "transaction_ids_ok rows \<longleftrightarrow> distinct (map ot_id rows)"

definition transaction_spent :: "string \<Rightarrow> oauth_transaction list \<Rightarrow> bool" where
  "transaction_spent i rows \<longleftrightarrow> (\<forall>t \<in> set rows. \<not> consumable i t)"

lemma purge_loop_rows:
  "snd (purge_loop now ts n rows) =
     filter (\<lambda>r. \<forall>t \<in> set ts. ot_expiresAt t < now \<longrightarrow> ot_id r \<noteq> ot_id t) rows"
proof (induction now ts n rows rule: purge_loop.induct)
  case (2 now t ts n rows)
  then show ?case
    by (cases "ot_expiresAt t < now")
      (auto simp: delete_rows_def case_prod_beta Let_def intro!: filter_cong)
qed simp

lemma consume_success:
  assumes "transaction_ids_ok rows"
  shows "fst (transactions_consume i t rows) \<longleftrightarrow> \<not> transaction_spent i rows"
proof -
  have "length (filter (consumable i) rows) =
      (case find_one (\<lambda>q. ot_id q = i) rows of
         Some r \<Rightarrow> of_bool (ot_consumedAt r = None \<and> ot_status r = TXN_PENDING) | None \<Rightarrow> 0)"
    using filter_key [of ot_id rows i "\<lambda>q. ot_consumedAt q = None \<and> ot_status q = TXN_PENDING"] assms
    by (simp add: consumable_def [abs_def] transaction_ids_ok_def)
  then have "length (filter (consumable i) rows) \<le> 1" by (simp split: option.splits)
  moreover have "transaction_spent i rows \<longleftrightarrow> filter (consumable i) rows = []"
    by (simp add: transaction_spent_def filter_empty_conv)
  ultimately show ?thesis
    by (simp add: transactions_consume_def update_rows_def)
      (metis One_nat_def Suc_leI le_antisym length_greater_0_conv length_0_conv zero_neq_one)
qed

lemma consumed_not_consumable [simp]:
  "\<not> consumable i (r\<lparr>ot_consumedAt := Some t, ot_status := CONSUMED\<rparr>)"
  by (simp add: consumable_def)

lemma consume_spends: "transaction_spent i (snd (transactions_consume i t rows))"
  by (auto simp: transactions_consume_def transaction_spent_def case_prod_beta Let_def set_update_rows)

lemma transaction_exec_ids:
  "transaction_ids_ok rows \<Longrightarrow> transaction_ids_ok (transaction_exec op rows)"
  by (cases op)
    (auto simp: transaction_ids_ok_def transactions_create_def transactions_consume_def
      transactions_fail_def transactions_purge_expired_def purge_loop_rows case_prod_beta Let_def
      update_rows_keys distinct_map_filter transaction_clash_def split: option.splits
      intro: insert_row_distinct)

lemma transaction_exec_spent:
  "transaction_spent i rows \<Longrightarrow> does_not_create i (Inr op) \<Longrightarrow>
     transaction_spent i (transaction_exec op rows)"
  by (cases op)
    (auto simp: transaction_spent_def transactions_create_def insert_row_def transactions_consume_def
      transactions_fail_def transactions_purge_expired_def purge_loop_rows case_prod_beta Let_def
      set_update_rows consumable_def split: option.splits if_splits)

interpretation transaction_use: single_winner
  "transactions_consume i" transaction_exec "does_not_create i" transaction_ids_ok "transaction_spent i"
  for i
proof unfold_locales
  show "transaction_ids_ok s \<Longrightarrow> does_not_create i (Inl a) \<Longrightarrow>
      transaction_ids_ok (snd (transactions_consume i a s))" for s a
    using transaction_exec_ids [of s "Consume_Transaction i a"] by simp
qed (auto simp: consume_success consume_spends transaction_exec_ids transaction_exec_spent)

section \<open>Token versions\<close>

datatype connection_op =
    Create_Connection connection
  | Update_Connection int string "connection \<Rightarrow> connection"
  | Update_Tokens int token_update
  | Delete_Connection string string

fun connection_exec :: "connection_op \<Rightarrow> connection list \<Rightarrow> connection list" where
  "connection_exec (Create_Connection c) rows =
     (case connections_create c rows of None \<Rightarrow> rows | Some rows' \<Rightarrow> rows')"
| "connection_exec (Update_Connection now i patch) rows = snd (connections_update now i patch rows)"
| "connection_exec (Update_Tokens now u) rows = snd (connections_update_tokens now u rows)"
| "connection_exec (Delete_Connection tenant i) rows = snd (connections_delete tenant i rows)"

definition patch_keeps_version :: "(connection \<Rightarrow> connection) \<Rightarrow> bool" where
  "patch_keeps_version patch \<longleftrightarrow>
     (\<forall>c. uc_id (patch c) = uc_id c \<and> uc_tokenVersion c \<le> uc_tokenVersion (patch c))"

text \<open>
  The attempts are those of the writers that read version \<open>v\<close> of connection \<open>i\<close>. The rest may be
  anything but the creation of that id again or a patch that rewrites an id or lowers a version.
\<close>

fun version_safe :: "string \<Rightarrow> nat \<Rightarrow> (int \<times> token_update) + connection_op \<Rightarrow> bool" where
  "version_safe i v (Inl (now, u)) = (tu_connectionId u = i \<and> tu_expectedTokenVersion u = v)"
| "version_safe i v (Inr (Create_Connection c)) = (uc_id c \<noteq> i)"
| "version_safe i v (Inr (Update_Connection now j patch)) = patch_keeps_version patch"
| "version_safe i v (Inr _) = True"

definition connection_ids_ok :: "connection list \<Rightarrow> bool" where
  "connection_ids_ok rows \<longleftrightarrow> distinct (map uc_id rows)"

definition version_passed :: "string \<Rightarrow> nat \<Rightarrow> connection list \<Rightarrow> bool" where
  "version_passed i v rows \<longleftrightarrow> (\<forall>c \<in> set rows. uc_id c = i \<longrightarrow> v < uc_tokenVersion c)"

lemma write_tokens_sel [simp]:
  "uc_id (write_tokens now u c) = uc_id c"
  "uc_tenantId (write_tokens now u c) = uc_tenantId c"
  "uc_ownerType (write_tokens now u c) = uc_ownerType c"
  "uc_ownerId (write_tokens now u c) = uc_ownerId c"
  "uc_tokenVersion (write_tokens now u c) = Suc (tu_expectedTokenVersion u)"
  by (simp_all add: write_tokens_def)

lemma update_tokens_success:
  assumes "connection_ids_ok rows"
  shows "fst (connections_update_tokens now u rows) \<longleftrightarrow>
    (\<exists>c. connections_get_unscoped (tu_connectionId u) rows = Some c \<and>
         uc_tokenVersion c = tu_expectedTokenVersion u)"
  using filter_key [of uc_id rows "tu_connectionId u" "\<lambda>c. uc_tokenVersion c = tu_expectedTokenVersion u"]
    assms
  by (auto simp: connection_ids_ok_def connections_update_tokens_def connections_get_unscoped_def
      update_rows_def split: option.splits)

lemma connection_exec_ids:
  "connection_ids_ok rows \<Longrightarrow> version_safe i v (Inr op) \<Longrightarrow> connection_ids_ok (connection_exec op rows)"
  by (cases op)
    (auto simp: connection_ids_ok_def connections_create_def connections_update_def
      connections_update_tokens_def connections_delete_def case_prod_beta Let_def update_rows_keys
      delete_rows_distinct connection_clash_def patch_keeps_version_def split: option.splits
      intro: insert_row_distinct)

lemma connection_exec_passed:
  "version_passed i v rows \<Longrightarrow> version_safe i v (Inr op) \<Longrightarrow>
     version_passed i v (connection_exec op rows)"
proof (cases op)
  case (Update_Connection now j patch)
  moreover assume "version_passed i v rows" "version_safe i v (Inr op)"
  ultimately show ?thesis
    by (auto simp: version_passed_def connections_update_def Let_def set_update_rows
        patch_keeps_version_def) (metis order_less_le_trans)+
qed (auto simp: version_passed_def connections_create_def insert_row_def
      connections_update_tokens_def connections_delete_def case_prod_beta Let_def statement_sets
      less_SucI split: option.splits if_splits)

lemma update_tokens_passes:
  "connection_ids_ok rows \<Longrightarrow> fst (connections_update_tokens now u rows) \<Longrightarrow>
     version_passed (tu_connectionId u) (tu_expectedTokenVersion u) (snd (connections_update_tokens now u rows))"
proof -
  assume ok: "connection_ids_ok rows" and win: "fst (connections_update_tokens now u rows)"
  then obtain c where c: "find_one (\<lambda>q. uc_id q = tu_connectionId u) rows = Some c"
      "uc_tokenVersion c = tu_expectedTokenVersion u"
    by (auto simp: update_tokens_success connections_get_unscoped_def)
  have "d = c" if "d \<in> set rows" "uc_id d = tu_connectionId u" for d
    using find_one_key [of uc_id rows d] ok that c(1) by (simp add: connection_ids_ok_def)
  with c(2) show "version_passed (tu_connectionId u) (tu_expectedTokenVersion u)
      (snd (connections_update_tokens now u rows))"
    by (auto simp: connections_update_tokens_def version_passed_def case_prod_beta Let_def set_update_rows)
qed

interpretation token_swap: single_winner
  "\<lambda>(now, u). connections_update_tokens now u" connection_exec "version_safe i v" connection_ids_ok
  "version_passed i v" for i v
proof unfold_locales
  fix s and a :: "int \<times> token_update"
  assume ok: "connection_ids_ok s" and adm: "version_safe i v (Inl a)"
  obtain now u where a: "a = (now, u)" by (cases a)
  have u: "tu_connectionId u = i" "tu_expectedTokenVersion u = v" using adm by (auto simp: a)
  show "connection_ids_ok (snd ((case a of (now, u) \<Rightarrow> connections_update_tokens now u) s))"
    using connection_exec_ids [OF ok, of i v "Update_Tokens now u"] by (simp add: a)
  show "fst ((case a of (now, u) \<Rightarrow> connections_update_tokens now u) s) \<Longrightarrow>
      version_passed i v (snd ((case a of (now, u) \<Rightarrow> connections_update_tokens now u) s))"
    using update_tokens_passes [OF ok, of now u] by (simp add: a u)
  assume "version_passed i v s"
  then show "\<not> fst ((case a of (now, u) \<Rightarrow> connections_update_tokens now u) s)"
    by (auto simp: a u update_tokens_success [OF ok] connections_get_unscoped_def version_passed_def
        dest!: find_one_Some)
next
  fix s and a :: "int \<times> token_update"
  assume "version_safe i v (Inl a)" "version_passed i v s"
  then show "version_passed i v (snd ((case a of (now, u) \<Rightarrow> connections_update_tokens now u) s))"
    using connection_exec_passed [of i v s "Update_Tokens (fst a) (snd a)"] by (cases a) simp
qed (auto simp: connection_exec_ids connection_exec_passed)

section \<open>Upserts\<close>

lemma issuers_upsert_Some:
  assumes "issuers_find_by_issuer (oi_issuer r) rows = Some q"
  shows "issuers_upsert r rows = Some (r\<lparr>oi_id := oi_id q\<rparr>,
    map (\<lambda>p. if oi_issuer p = oi_issuer r then r\<lparr>oi_id := oi_id p\<rparr> else p) rows)"
proof -
  have "oi_issuer q = oi_issuer r" using assms by (auto simp: issuers_find_by_issuer_def dest: find_one_Some)
  then have "r\<lparr>oi_id := oi_id q, oi_issuer := oi_issuer q\<rparr> = r\<lparr>oi_id := oi_id q\<rparr>" by (cases r) simp
  moreover have "(\<lambda>p. if oi_issuer p = oi_issuer r then r\<lparr>oi_id := oi_id p, oi_issuer := oi_issuer p\<rparr> else p) =
      (\<lambda>p. if oi_issuer p = oi_issuer r then r\<lparr>oi_id := oi_id p\<rparr> else p)"
    by (rule ext) (cases r, auto)
  ultimately show ?thesis
    using assms by (simp add: issuers_upsert_def issuers_find_by_issuer_def update_rows_def)
qed

section \<open>Properties\<close>

text \<open>
  C17: However consuming a transaction interleaves with any other operations on the table (creating
  others, failing, purging, consuming again at other times), at most one attempt to consume it
  succeeds, so an authorization response is honoured at most once.
\<close>

theorem transaction_consumed_once:
  assumes "distinct (map ot_id rows)" and "\<forall>e \<in> set es. does_not_create i e"
  shows "wins (transactions_consume i) transaction_exec es rows \<le> 1"
  using assms by (intro transaction_use.one_winner) (simp_all add: transaction_ids_ok_def)

definition demo_transaction :: oauth_transaction where
  "demo_transaction = \<lparr>ot_id = ''t1'', ot_tenantId = ''a'', ot_userId = ''u'', ot_connectionId = ''c1'',
     ot_issuer = ''https://as'', ot_stateHash = ''h1'', ot_pkceVerifierEncrypted = ''v'',
     ot_redirectUri = ''https://gw/cb'', ot_requestedScopes = [], ot_resource = None,
     ot_expiresAt = 100, ot_consumedAt = None, ot_status = TXN_PENDING, ot_returnTo = None\<rparr>"

lemma transaction_consumed_once_witness:
  "wins (transactions_consume ''t1'') transaction_exec
     [Inl 5, Inr (Purge_Transactions 50), Inl 6, Inr (Fail_Transaction ''t1''), Inl 7] [demo_transaction] = 1"
proof -
  let ?es = "[Inl 5, Inr (Purge_Transactions 50), Inl 6, Inr (Fail_Transaction ''t1''), Inl 7]"
  have "wins (transactions_consume ''t1'') transaction_exec ?es [demo_transaction] \<le> 1"
    by (rule transaction_consumed_once) simp_all
  moreover have "wins (transactions_consume ''t1'') transaction_exec ?es [demo_transaction] \<noteq> 0"
    by code_simp
  ultimately show ?thesis by linarith
qed

text \<open>
  C18: Of all the writers that read the same token version of a connection, at most one gets its
  credentials stored, whatever other operations on connections run in between, as long as no patch
  lowers a version: a refresh race never leaves two refresh tokens live. (The patch of
  \<open>revokeConnection\<close> can lower one, when a refresh commits while it waits for the network.)
\<close>

theorem token_version_won_once:
  assumes "distinct (map uc_id rows)" and "\<forall>e \<in> set es. version_safe i v e"
  shows "wins (\<lambda>(now, u). connections_update_tokens now u) connection_exec es rows \<le> 1"
  using assms by (intro token_swap.one_winner) (simp_all add: connection_ids_ok_def)

definition demo_connection :: connection where
  "demo_connection = \<lparr>uc_id = ''c1'', uc_tenantId = ''a'', uc_ownerType = USER, uc_ownerId = ''u'',
     uc_mcpServerId = ''s1'', uc_oauthIssuerId = Some ''i1'', uc_oauthClientRegistrationId = Some ''r1'',
     uc_alias = ''x'', uc_grantedScopes = [], uc_requestedScopes = [],
     uc_accessTokenEncrypted = Some ''at'', uc_refreshTokenEncrypted = Some ''rt'',
     uc_staticHeadersEncrypted = None, uc_tokenType = Some ''Bearer'',
     uc_accessTokenExpiresAt = Some 1000, uc_refreshTokenExpiresAt = None, uc_tokenVersion = 0,
     uc_dpopKeyReference = None, uc_status = CONNECTED, uc_lastRefreshAt = None,
     uc_lastSuccessAt = None, uc_lastErrorCode = None, uc_lastErrorMessageRedacted = None,
     uc_createdAt = 0, uc_updatedAt = 0\<rparr>"

definition demo_update :: "string \<Rightarrow> token_update" where
  "demo_update tok = \<lparr>tu_connectionId = ''c1'', tu_expectedTokenVersion = 0,
     tu_accessTokenEncrypted = Some tok, tu_refreshTokenEncrypted = None, tu_tokenType = None,
     tu_accessTokenExpiresAt = None, tu_refreshTokenExpiresAt = None, tu_grantedScopes = [],
     tu_status = CONNECTED, tu_lastRefreshAt = 0\<rparr>"

lemma token_version_won_once_witness:
  "wins (\<lambda>(now, u). connections_update_tokens now u) connection_exec
     [Inl (1, demo_update ''p''), Inr (Delete_Connection ''b'' ''c1''), Inl (2, demo_update ''q'')]
     [demo_connection] = 1"
proof -
  let ?w = "wins (\<lambda>(now, u). connections_update_tokens now u) connection_exec
     [Inl (1, demo_update ''p''), Inr (Delete_Connection ''b'' ''c1''), Inl (2, demo_update ''q'')]
     [demo_connection]"
  have "?w \<le> 1"
    by (rule token_version_won_once [where i = "''c1''" and v = 0]) (simp_all add: demo_update_def)
  moreover have "?w \<noteq> 0" by code_simp
  ultimately show ?thesis by linarith
qed

text \<open>
  A member finds and lists exactly the connections of the tenant that are shared with the
  workspace or are the member's own; the single lookup and the listing agree.
\<close>

theorem visible_connections:
  assumes ids: "distinct (map uc_id rows)"
  shows "(c \<in> set (connections_list_visible tenant user rows) \<longleftrightarrow>
        c \<in> set rows \<and> uc_tenantId c = tenant \<and> (uc_ownerType c = WORKSPACE \<or> uc_ownerId c = user)) \<and>
    (connections_find_visible tenant user i rows = Some c \<longleftrightarrow>
        c \<in> set (connections_list_visible tenant user rows) \<and> uc_id c = i)"
proof -
  have lv: "c \<in> set (connections_list_visible tenant user rows) \<longleftrightarrow>
      c \<in> set rows \<and> uc_tenantId c = tenant \<and> (uc_ownerType c = WORKSPACE \<or> uc_ownerId c = user)" for c
    by (auto simp: connections_list_visible_def connections_list_by_tenant_def is_visible_to_def)
  have "c = d" if "c \<in> set rows" "d \<in> set rows" "uc_id c = uc_id d" for c d
    using ids that by (metis find_one_key option.inject)
  then show ?thesis
    unfolding lv
    by (auto simp: connections_find_visible_def connections_get_def is_visible_to_def find_one_None
        split: option.splits if_splits dest!: find_one_Some)
qed

lemma visible_connections_witness:
  "demo_connection \<in> set (connections_list_visible ''a'' ''u'' [demo_connection]) \<and>
   connections_find_visible ''a'' ''v'' ''c1'' [demo_connection] \<noteq> Some demo_connection"
proof -
  have d: "distinct (map uc_id [demo_connection])" by simp
  show ?thesis
    using visible_connections [OF d, of demo_connection "''a''" "''u''" "''c1''"]
      visible_connections [OF d, of demo_connection "''a''" "''v''" "''c1''"]
    by (simp add: demo_connection_def)
qed

text \<open>
  Storing an issuer's metadata again keeps the id under which registrations and connections
  refer to it, and touches no other issuer.
\<close>

theorem issuer_upsert_keeps_id:
  assumes "distinct (map oi_issuer rows)" and "issuers_upsert r rows = Some (q, rows')"
  shows "issuers_find_by_issuer (oi_issuer r) rows' = Some q \<and> q = r\<lparr>oi_id := oi_id q\<rparr> \<and>
    (\<forall>p. issuers_find_by_issuer (oi_issuer r) rows = Some p \<longrightarrow>
       oi_id q = oi_id p \<and> map oi_id rows' = map oi_id rows) \<and>
    (\<forall>issuer. issuer \<noteq> oi_issuer r \<longrightarrow>
       issuers_find_by_issuer issuer rows' = issuers_find_by_issuer issuer rows)"
proof (cases "issuers_find_by_issuer (oi_issuer r) rows")
  case None
  then have "rows' = rows @ [r]" "q = r"
    using assms(2)
    by (auto simp: issuers_upsert_def issuers_find_by_issuer_def insert_row_def split: if_splits)
  with None show ?thesis
    by (auto simp: issuers_find_by_issuer_def find_one_append split: option.splits)
      (auto simp: find_one_def)
next
  case (Some p)
  have q: "q = r\<lparr>oi_id := oi_id p\<rparr>"
    and rows': "rows' = map (\<lambda>p. if oi_issuer p = oi_issuer r then r\<lparr>oi_id := oi_id p\<rparr> else p) rows"
    using assms(2) issuers_upsert_Some [OF Some] by simp_all
  have key: "find_one (\<lambda>s. oi_issuer s = j) rows' =
      map_option (\<lambda>p. if oi_issuer p = oi_issuer r then r\<lparr>oi_id := oi_id p\<rparr> else p)
        (find_one (\<lambda>s. oi_issuer s = j) rows)" for j
    unfolding rows' by (rule find_one_map) simp
  have "map oi_id rows' = map oi_id rows" by (simp add: rows')
  with Some q show ?thesis
    by (auto simp: issuers_find_by_issuer_def key dest: find_one_Some
        intro!: option.map_ident_strong split: if_splits)
qed

definition demo_issuer :: "string \<Rightarrow> string \<Rightarrow> oauth_issuer_record" where
  "demo_issuer i tok = \<lparr>oi_id = i, oi_issuer = ''https://as'', oi_authorizationEndpoint = None,
     oi_tokenEndpoint = Some tok, oi_registrationEndpoint = None, oi_revocationEndpoint = None,
     oi_metadataJson = \<lparr>am_issuer = ''https://as'', am_authorization_endpoint = None,
       am_token_endpoint = Some tok, am_registration_endpoint = None, am_revocation_endpoint = None,
       am_scopes_supported = None, am_code_challenge_methods_supported = None,
       am_token_endpoint_auth_methods_supported = None, am_dpop_signing_alg_values_supported = None,
       am_client_id_metadata_document_supported = False,
       am_authorization_response_iss_parameter_supported = False, am_jwks_uri = None\<rparr>,
     oi_metadataEtag = None, oi_metadataExpiresAt = 0, oi_supportsCimd = False, oi_supportsDcr = False,
     oi_supportedAuthMethods = [], oi_status = SERVER_ACTIVE\<rparr>"

lemma issuer_upsert_keeps_id_witness:
  "map_option fst (issuers_upsert (demo_issuer ''new'' ''t2'') [demo_issuer ''old'' ''t1'']) =
     Some (demo_issuer ''old'' ''t2'')"
proof -
  obtain q rows' where up: "issuers_upsert (demo_issuer ''new'' ''t2'') [demo_issuer ''old'' ''t1''] = Some (q, rows')"
    by (simp add: issuers_upsert_def find_one_def demo_issuer_def)
  from issuer_upsert_keeps_id [OF _ up]
  have "q = (demo_issuer ''new'' ''t2'')\<lparr>oi_id := oi_id q\<rparr>" by simp
  moreover from issuer_upsert_keeps_id [OF _ up]
  have "oi_id q = ''old''" by (simp add: issuers_find_by_issuer_def find_one_def demo_issuer_def)
  moreover have "(demo_issuer i tok)\<lparr>oi_id := j\<rparr> = demo_issuer j tok" for i j tok
    by (simp add: demo_issuer_def)
  ultimately have "q = demo_issuer ''old'' ''t2''" by metis
  with up show ?thesis by simp
qed

end
