(* ===== verification/Catalogue_Store.thy ===== *)
theory Catalogue_Store
  imports Store_Facts "HOL-Library.Multiset"
begin

text \<open>
  The catalogue tables of \<^verbatim>\<open>packages/storage/src/sql-store.ts\<close>: \<open>syncTools\<close>, which reconciles
  the stored tools of a connection with what the upstream lists, and the replacing \<open>sync\<close> of
  resources and prompts with its change detection.
\<close>

section \<open>Tools\<close>

record sync_result =
  sr_added :: "string list"
  sr_removed :: "string list"
  sr_changed :: "string list"
  sr_unchanged :: "string list"

definition tool_clash :: "discovered_tool \<Rightarrow> discovered_tool \<Rightarrow> bool" where
  "tool_clash a b \<longleftrightarrow> dt_id a = dt_id b \<or>
     dt_connectionId a = dt_connectionId b \<and> dt_upstreamName a = dt_upstreamName b"

definition tool_changed :: "discovered_tool \<Rightarrow> discovered_tool \<Rightarrow> bool" where
  "tool_changed previous tool \<longleftrightarrow>
     dt_schemaHash previous \<noteq> dt_schemaHash tool \<or> dt_gatewayName previous \<noteq> dt_gatewayName tool"

definition overwrite_tool :: "int \<Rightarrow> discovered_tool \<Rightarrow> discovered_tool \<Rightarrow> discovered_tool" where
  "overwrite_tool seenAt tool r = r\<lparr>
     dt_gatewayName := dt_gatewayName tool,
     dt_description := dt_description tool,
     dt_inputSchemaJson := dt_inputSchemaJson tool,
     dt_outputSchemaJson := dt_outputSchemaJson tool,
     dt_annotationsJson := dt_annotationsJson tool,
     dt_schemaHash := dt_schemaHash tool,
     dt_riskLevel := dt_riskLevel tool,
     dt_lastSeenAt := seenAt\<rparr>"

text \<open>
  The loop over the listed tools. \<open>None\<close> is an insert the database refused; the rows written before
  it stay, because there is no transaction around the loop.
\<close>

fun sync_loop ::
  "int \<Rightarrow> discovered_tool list \<Rightarrow> (string \<times> discovered_tool) list \<Rightarrow> sync_result
     \<Rightarrow> discovered_tool list
     \<Rightarrow> (sync_result \<times> (string \<times> discovered_tool) list) option \<times> discovered_tool list" where
  "sync_loop seenAt [] by res rows = (Some (res, by), rows)"
| "sync_loop seenAt (tool # tools) by res rows =
     (case map_of by (dt_upstreamName tool) of
        None \<Rightarrow>
          (case insert_row tool_clash (tool\<lparr>dt_discoveredAt := seenAt, dt_lastSeenAt := seenAt\<rparr>) rows of
             None \<Rightarrow> (None, rows)
           | Some rows' \<Rightarrow>
               sync_loop seenAt tools by (res\<lparr>sr_added := sr_added res @ [dt_gatewayName tool]\<rparr>) rows')
      | Some previous \<Rightarrow>
          let by' = map_delete by (dt_upstreamName tool) in
          if tool_changed previous tool then
            sync_loop seenAt tools by' (res\<lparr>sr_changed := sr_changed res @ [dt_gatewayName tool]\<rparr>)
              (snd (update_rows (\<lambda>r. dt_id r = dt_id previous) (overwrite_tool seenAt tool) rows))
          else
            sync_loop seenAt tools by' (res\<lparr>sr_unchanged := sr_unchanged res @ [dt_gatewayName tool]\<rparr>)
              (snd (update_rows (\<lambda>r. dt_id r = dt_id previous) (\<lambda>r. r\<lparr>dt_lastSeenAt := seenAt\<rparr>) rows)))"

fun stale_loop ::
  "discovered_tool list \<Rightarrow> sync_result \<Rightarrow> discovered_tool list \<Rightarrow> sync_result \<times> discovered_tool list" where
  "stale_loop [] res rows = (res, rows)"
| "stale_loop (stale # ts) res rows =
     stale_loop ts (res\<lparr>sr_removed := sr_removed res @ [dt_gatewayName stale]\<rparr>)
       (snd (delete_rows (\<lambda>r. dt_id r = dt_id stale) rows))"

definition empty_sync :: sync_result where
  "empty_sync = \<lparr>sr_added = [], sr_removed = [], sr_changed = [], sr_unchanged = []\<rparr>"

definition by_upstream_name :: "discovered_tool list \<Rightarrow> (string \<times> discovered_tool) list" where
  "by_upstream_name existing = foldl (\<lambda>m t. map_set m (dt_upstreamName t) t) [] existing"

definition sync_tools ::
  "string \<Rightarrow> discovered_tool list \<Rightarrow> int \<Rightarrow> discovered_tool list
     \<Rightarrow> sync_result option \<times> discovered_tool list" where
  "sync_tools connectionId tools seenAt rows =
     (let existing = filter (\<lambda>t. dt_connectionId t = connectionId) rows in
      case sync_loop seenAt tools (by_upstream_name existing) empty_sync rows of
        (None, rows') \<Rightarrow> (None, rows')
      | (Some (res, by), rows') \<Rightarrow>
          (let (res', rows'') = stale_loop (map snd by) res rows' in (Some res', rows'')))"

definition tools_list_by_tenant :: "string \<Rightarrow> discovered_tool list \<Rightarrow> discovered_tool list" where
  "tools_list_by_tenant tenant rows = sort_key dt_gatewayName (filter (\<lambda>t. dt_tenantId t = tenant) rows)"

definition tools_list_by_connection :: "string \<Rightarrow> discovered_tool list \<Rightarrow> discovered_tool list" where
  "tools_list_by_connection conn rows = sort_key dt_gatewayName (filter (\<lambda>t. dt_connectionId t = conn) rows)"

definition tools_find_by_gateway_name ::
  "string \<Rightarrow> string \<Rightarrow> discovered_tool list \<Rightarrow> discovered_tool option" where
  "tools_find_by_gateway_name tenant nm rows =
     find_one (\<lambda>t. dt_tenantId t = tenant \<and> dt_gatewayName t = nm) rows"

definition tools_set_enabled ::
  "string \<Rightarrow> string \<Rightarrow> bool \<Rightarrow> discovered_tool list \<Rightarrow> discovered_tool list" where
  "tools_set_enabled tenant i enabled rows =
     snd (update_rows (\<lambda>t. dt_id t = i \<and> dt_tenantId t = tenant) (\<lambda>t. t\<lparr>dt_enabled := enabled\<rparr>) rows)"

definition tools_delete_by_connection :: "string \<Rightarrow> discovered_tool list \<Rightarrow> discovered_tool list" where
  "tools_delete_by_connection conn rows = snd (delete_rows (\<lambda>t. dt_connectionId t = conn) rows)"

section \<open>Resources and prompts\<close>

definition nul_separator :: string where
  "nul_separator = [char_of (0 :: nat)]"

definition resource_identity :: "discovered_resource \<Rightarrow> string" where
  "resource_identity r =
     join nul_separator [dr_gatewayUri r, dr_name r, or_empty (dr_description r), or_empty (dr_mimeType r)]"

text \<open>\<open>JSON.stringify\<close> is the engine's: the parameter \<open>stringify\<close>.\<close>

definition prompt_identity :: "(json \<Rightarrow> string) \<Rightarrow> discovered_prompt \<Rightarrow> string" where
  "prompt_identity stringify p =
     join nul_separator [dp_gatewayName p, or_empty (dp_description p),
       stringify (case dp_argumentsJson p of None \<Rightarrow> JNull | Some a \<Rightarrow> a)]"

definition differs :: "string list \<Rightarrow> string list \<Rightarrow> bool" where
  "differs before after \<longleftrightarrow>
     length before \<noteq> length after \<or> list_ex (\<lambda>(a, b). a \<noteq> b) (zip (sort before) (sort after))"

text \<open>The inserts of a replacing sync; a refused insert ends it with the rows written so far.\<close>

fun insert_all :: "('r \<Rightarrow> 'r \<Rightarrow> bool) \<Rightarrow> 'r list \<Rightarrow> 'r list \<Rightarrow> bool \<times> 'r list" where
  "insert_all clash [] rows = (True, rows)"
| "insert_all clash (r # rs) rows =
     (case insert_row clash r rows of
        None \<Rightarrow> (False, rows) | Some rows' \<Rightarrow> insert_all clash rs rows')"

definition resources_sync ::
  "string \<Rightarrow> discovered_resource list \<Rightarrow> discovered_resource list
     \<Rightarrow> bool option \<times> discovered_resource list" where
  "resources_sync conn resources rows =
     (let before = sort_key dr_gatewayUri (filter (\<lambda>r. dr_connectionId r = conn) rows);
          kept = snd (delete_rows (\<lambda>r. dr_connectionId r = conn) rows);
          (ok, rows') = insert_all (\<lambda>a b. dr_id a = dr_id b \<or>
             dr_connectionId a = dr_connectionId b \<and> dr_upstreamUri a = dr_upstreamUri b) resources kept
      in (if ok then Some (differs (map resource_identity before) (map resource_identity resources))
          else None, rows'))"

definition prompts_sync ::
  "(json \<Rightarrow> string) \<Rightarrow> string \<Rightarrow> discovered_prompt list \<Rightarrow> discovered_prompt list
     \<Rightarrow> bool option \<times> discovered_prompt list" where
  "prompts_sync stringify conn prompts rows =
     (let before = sort_key dp_gatewayName (filter (\<lambda>r. dp_connectionId r = conn) rows);
          kept = snd (delete_rows (\<lambda>r. dp_connectionId r = conn) rows);
          (ok, rows') = insert_all (\<lambda>a b. dp_id a = dp_id b \<or>
             dp_connectionId a = dp_connectionId b \<and> dp_upstreamName a = dp_upstreamName b) prompts kept
      in (if ok then Some (differs (map (prompt_identity stringify) before)
                             (map (prompt_identity stringify) prompts))
          else None, rows'))"

definition resources_list_by_tenant :: "string \<Rightarrow> discovered_resource list \<Rightarrow> discovered_resource list" where
  "resources_list_by_tenant tenant rows = sort_key dr_gatewayUri (filter (\<lambda>r. dr_tenantId r = tenant) rows)"

definition resources_find_by_gateway_uri ::
  "string \<Rightarrow> string \<Rightarrow> discovered_resource list \<Rightarrow> discovered_resource option" where
  "resources_find_by_gateway_uri tenant u rows =
     find_one (\<lambda>r. dr_tenantId r = tenant \<and> dr_gatewayUri r = u) rows"

definition resources_delete_by_connection ::
  "string \<Rightarrow> discovered_resource list \<Rightarrow> discovered_resource list" where
  "resources_delete_by_connection conn rows = snd (delete_rows (\<lambda>r. dr_connectionId r = conn) rows)"

definition prompts_list_by_tenant :: "string \<Rightarrow> discovered_prompt list \<Rightarrow> discovered_prompt list" where
  "prompts_list_by_tenant tenant rows = sort_key dp_gatewayName (filter (\<lambda>r. dp_tenantId r = tenant) rows)"

definition prompts_find_by_gateway_name ::
  "string \<Rightarrow> string \<Rightarrow> discovered_prompt list \<Rightarrow> discovered_prompt option" where
  "prompts_find_by_gateway_name tenant nm rows =
     find_one (\<lambda>r. dp_tenantId r = tenant \<and> dp_gatewayName r = nm) rows"

definition prompts_delete_by_connection ::
  "string \<Rightarrow> discovered_prompt list \<Rightarrow> discovered_prompt list" where
  "prompts_delete_by_connection conn rows = snd (delete_rows (\<lambda>r. dp_connectionId r = conn) rows)"

section \<open>Change detection\<close>

lemma differs_iff_mset: "differs xs ys \<longleftrightarrow> mset xs \<noteq> mset ys"
proof (cases "length xs = length ys")
  case True
  have "list_ex (\<lambda>(a, b). a \<noteq> b) (zip us vs) \<longleftrightarrow> us \<noteq> vs" if "length us = length vs" for us vs :: "string list"
    using that by (induction us vs rule: list_induct2) auto
  then have "differs xs ys \<longleftrightarrow> sort xs \<noteq> sort ys" using True by (simp add: differs_def)
  then show ?thesis by (metis mset_sort properties_for_sort sorted_sort)
next
  case False
  then show ?thesis using mset_eq_length by (auto simp: differs_def)
qed

section \<open>What the loops of the tool sync compute\<close>

text \<open>The row a listed tool leaves for a stored one.\<close>

definition synced :: "int \<Rightarrow> discovered_tool \<Rightarrow> discovered_tool \<Rightarrow> discovered_tool" where
  "synced seenAt tool r =
     (if tool_changed r tool then overwrite_tool seenAt tool r else r\<lparr>dt_lastSeenAt := seenAt\<rparr>)"

definition fresh_tool :: "int \<Rightarrow> discovered_tool \<Rightarrow> discovered_tool" where
  "fresh_tool seenAt tool = tool\<lparr>dt_discoveredAt := seenAt, dt_lastSeenAt := seenAt\<rparr>"

fun sync_row :: "string \<Rightarrow> int \<Rightarrow> discovered_tool list \<Rightarrow> discovered_tool \<Rightarrow> discovered_tool" where
  "sync_row conn seenAt [] r = r"
| "sync_row conn seenAt (t # ts) r =
     sync_row conn seenAt ts
       (if dt_connectionId r = conn \<and> dt_upstreamName r = dt_upstreamName t then synced seenAt t r else r)"

lemma synced_sel [simp]:
  "dt_id (synced s t r) = dt_id r" "dt_connectionId (synced s t r) = dt_connectionId r"
  "dt_upstreamName (synced s t r) = dt_upstreamName r" "dt_enabled (synced s t r) = dt_enabled r"
  "dt_discoveredAt (synced s t r) = dt_discoveredAt r" "dt_tenantId (synced s t r) = dt_tenantId r"
  "dt_gatewayName (synced s t r) = dt_gatewayName t" "dt_schemaHash (synced s t r) = dt_schemaHash t"
  "dt_lastSeenAt (synced s t r) = s"
  by (auto simp: synced_def overwrite_tool_def tool_changed_def)

lemma fresh_tool_sel [simp]:
  "dt_id (fresh_tool s t) = dt_id t" "dt_connectionId (fresh_tool s t) = dt_connectionId t"
  "dt_upstreamName (fresh_tool s t) = dt_upstreamName t" "dt_enabled (fresh_tool s t) = dt_enabled t"
  "dt_gatewayName (fresh_tool s t) = dt_gatewayName t" "dt_schemaHash (fresh_tool s t) = dt_schemaHash t"
  "dt_lastSeenAt (fresh_tool s t) = s"
  by (simp_all add: fresh_tool_def)

lemma sync_row_sel [simp]:
  "dt_id (sync_row conn s ts r) = dt_id r"
  "dt_connectionId (sync_row conn s ts r) = dt_connectionId r"
  "dt_upstreamName (sync_row conn s ts r) = dt_upstreamName r"
  "dt_enabled (sync_row conn s ts r) = dt_enabled r"
  "dt_discoveredAt (sync_row conn s ts r) = dt_discoveredAt r"
  by (induction ts arbitrary: r) auto

lemma sync_row_other:
  "dt_connectionId r \<noteq> conn \<or> dt_upstreamName r \<notin> dt_upstreamName ` set ts \<Longrightarrow> sync_row conn s ts r = r"
  by (induction ts arbitrary: r) auto

lemma sync_row_listed:
  "distinct (map dt_upstreamName ts) \<Longrightarrow> t \<in> set ts \<Longrightarrow> dt_connectionId r = conn \<Longrightarrow>
     dt_upstreamName r = dt_upstreamName t \<Longrightarrow> sync_row conn s ts r = synced s t r"
proof (induction ts arbitrary: r)
  case (Cons u ts)
  show ?case
  proof (cases "u = t")
    case True
    with Cons.prems show ?thesis by (simp add: sync_row_other)
  next
    case False
    with Cons.prems have "dt_upstreamName u \<noteq> dt_upstreamName r" by (auto simp: image_iff)
    with Cons False show ?thesis by auto
  qed
qed simp

text \<open>The state the loop is in: what is left to reconcile is stored as it was read.\<close>

definition loop_ok ::
  "string \<Rightarrow> discovered_tool list \<Rightarrow> (string \<times> discovered_tool) list \<Rightarrow> discovered_tool list \<Rightarrow> bool" where
  "loop_ok conn tools by rows \<longleftrightarrow>
     distinct (map fst by) \<and>
     (\<forall>n p. map_of by n = Some p \<longrightarrow> p \<in> set rows \<and> dt_connectionId p = conn \<and> dt_upstreamName p = n) \<and>
     (\<forall>t \<in> set tools. map_of by (dt_upstreamName t) = None \<longrightarrow>
        (\<forall>r \<in> set rows. dt_connectionId r = conn \<longrightarrow> dt_upstreamName r \<noteq> dt_upstreamName t)) \<and>
     distinct (map dt_id rows) \<and> distinct (map (\<lambda>r. (dt_connectionId r, dt_upstreamName r)) rows)"

text \<open>What an upstream's listing is expected to be: one entry per name, freshly minted ids.\<close>

definition listing_ok :: "string \<Rightarrow> discovered_tool list \<Rightarrow> discovered_tool list \<Rightarrow> bool" where
  "listing_ok conn tools rows \<longleftrightarrow>
     distinct (map dt_upstreamName tools) \<and> distinct (map dt_id tools) \<and>
     (\<forall>t \<in> set tools. dt_connectionId t = conn \<and> dt_id t \<notin> dt_id ` set rows)"

definition names_where ::
  "(discovered_tool \<Rightarrow> discovered_tool option \<Rightarrow> bool) \<Rightarrow> (string \<times> discovered_tool) list
     \<Rightarrow> discovered_tool list \<Rightarrow> string list" where
  "names_where P by tools =
     map dt_gatewayName (filter (\<lambda>t. P t (map_of by (dt_upstreamName t))) tools)"

definition is_added :: "discovered_tool \<Rightarrow> discovered_tool option \<Rightarrow> bool" where
  "is_added t q \<longleftrightarrow> q = None"

definition is_changed :: "discovered_tool \<Rightarrow> discovered_tool option \<Rightarrow> bool" where
  "is_changed t q \<longleftrightarrow> (case q of None \<Rightarrow> False | Some p \<Rightarrow> tool_changed p t)"

definition is_unchanged :: "discovered_tool \<Rightarrow> discovered_tool option \<Rightarrow> bool" where
  "is_unchanged t q \<longleftrightarrow> (case q of None \<Rightarrow> False | Some p \<Rightarrow> \<not> tool_changed p t)"

definition loop_report ::
  "(string \<times> discovered_tool) list \<Rightarrow> discovered_tool list \<Rightarrow> sync_result \<Rightarrow> sync_result" where
  "loop_report by tools res =
     res\<lparr>sr_added := sr_added res @ names_where is_added by tools,
         sr_changed := sr_changed res @ names_where is_changed by tools,
         sr_unchanged := sr_unchanged res @ names_where is_unchanged by tools\<rparr>"

lemma update_by_id:
  assumes "distinct (map dt_id rows)" "distinct (map (\<lambda>r. (dt_connectionId r, dt_upstreamName r)) rows)"
    and "p \<in> set rows" "dt_connectionId p = conn" "dt_upstreamName p = n"
  shows "snd (update_rows (\<lambda>r. dt_id r = dt_id p) f rows) =
    map (\<lambda>r. if dt_connectionId r = conn \<and> dt_upstreamName r = n then f r else r) rows"
proof -
  have "dt_id r = dt_id p \<longleftrightarrow> r = p" if "r \<in> set rows" for r
    using assms(1,3) that by (auto simp: distinct_map dest: inj_onD)
  moreover have "dt_connectionId r = conn \<and> dt_upstreamName r = n \<longleftrightarrow> r = p" if "r \<in> set rows" for r
    using assms(2-5) that by (auto simp: distinct_map dest: inj_onD)
  ultimately show ?thesis by (simp add: update_rows_def)
qed

lemma map_of_delete_other:
  "n \<notin> dt_upstreamName ` set ts \<Longrightarrow> t \<in> set ts \<Longrightarrow>
     map_of (map_delete by n) (dt_upstreamName t) = map_of by (dt_upstreamName t)"
  by auto

lemma names_where_delete:
  "n \<notin> dt_upstreamName ` set ts \<Longrightarrow> names_where P (map_delete by n) ts = names_where P by ts"
  unfolding names_where_def by (intro arg_cong [where f = "map _"] filter_cong) auto

lemma loop_report_delete:
  "n \<notin> dt_upstreamName ` set ts \<Longrightarrow> loop_report (map_delete by n) ts res = loop_report by ts res"
  by (simp add: loop_report_def names_where_delete)

lemma sync_loop_result:
  "loop_ok conn tools by rows \<Longrightarrow> listing_ok conn tools rows \<Longrightarrow>
   sync_loop s tools by res rows =
     (Some (loop_report by tools res, filter (\<lambda>e. fst e \<notin> dt_upstreamName ` set tools) by),
      map (sync_row conn s tools) rows @
        map (fresh_tool s) (filter (\<lambda>t. map_of by (dt_upstreamName t) = None) tools))"
proof (induction tools arbitrary: "by" res rows)
  case Nil
  then show ?case by (simp add: loop_report_def names_where_def)
next
  case (Cons t ts)
  let ?n = "dt_upstreamName t"
  have lt: "dt_connectionId t = conn" "dt_id t \<notin> dt_id ` set rows" "?n \<notin> dt_upstreamName ` set ts"
    using Cons.prems(2) by (auto simp: listing_ok_def)
  show ?case
  proof (cases "map_of by ?n")
    case None
    let ?rows = "rows @ [fresh_tool s t]"
    have no: "\<forall>r \<in> set rows. dt_connectionId r = conn \<longrightarrow> dt_upstreamName r \<noteq> ?n"
      using Cons.prems(1) None by (auto simp: loop_ok_def)
    have ins: "insert_row tool_clash (fresh_tool s t) rows = Some ?rows"
      using lt no by (auto simp: insert_row_def tool_clash_def) (metis image_eqI)
    have ok: "loop_ok conn ts by ?rows"
      unfolding loop_ok_def
    proof (intro conjI)
      show "\<forall>u \<in> set ts. map_of by (dt_upstreamName u) = None \<longrightarrow>
          (\<forall>r \<in> set ?rows. dt_connectionId r = conn \<longrightarrow> dt_upstreamName r \<noteq> dt_upstreamName u)"
        using Cons.prems(1) lt(3) by (auto simp: loop_ok_def)
      show "distinct (map (\<lambda>r. (dt_connectionId r, dt_upstreamName r)) ?rows)"
      proof -
        have "distinct (map (\<lambda>r. (dt_connectionId r, dt_upstreamName r)) rows)"
          using Cons.prems(1) by (simp add: loop_ok_def)
        then show ?thesis using lt(1) no by auto
      qed
    qed (use Cons.prems(1) lt(2) in \<open>auto simp: loop_ok_def\<close>)
    have li: "listing_ok conn ts ?rows"
      using Cons.prems(2) by (simp add: listing_ok_def) (metis image_eqI)
    have "filter (\<lambda>e. fst e \<notin> dt_upstreamName ` set ts) by =
        filter (\<lambda>e. fst e \<notin> dt_upstreamName ` set (t # ts)) by"
      using None by (intro filter_cong) (auto simp: map_of_eq_None_iff image_iff)
    moreover have "map (sync_row conn s ts) rows = map (sync_row conn s (t # ts)) rows"
      using no by (intro map_cong) auto
    moreover have "sync_row conn s ts (fresh_tool s t) = fresh_tool s t"
      using lt by (intro sync_row_other) simp
    ultimately show ?thesis
      using Cons.IH [OF ok li] None ins
      by (simp add: fresh_tool_def [symmetric] loop_report_def names_where_def is_added_def
          is_changed_def is_unchanged_def)
  next
    case (Some p)
    let ?rows = "map (\<lambda>r. if dt_connectionId r = conn \<and> dt_upstreamName r = ?n then synced s t r else r) rows"
    let ?by = "map_delete by ?n"
    have p: "p \<in> set rows" "dt_connectionId p = conn" "dt_upstreamName p = ?n"
      using Cons.prems(1) Some by (auto simp: loop_ok_def)
    have only: "r = p" if "r \<in> set rows" "dt_connectionId r = conn" "dt_upstreamName r = ?n" for r
      using Cons.prems(1) p that by (auto simp: loop_ok_def distinct_map dest: inj_onD)
    have upd: "snd (update_rows (\<lambda>r. dt_id r = dt_id p) f rows) =
        map (\<lambda>r. if dt_connectionId r = conn \<and> dt_upstreamName r = ?n then f r else r) rows" for f
      using Cons.prems(1) by (intro update_by_id p) (auto simp: loop_ok_def)
    have changed: "snd (update_rows (\<lambda>r. dt_id r = dt_id p)
        (if tool_changed p t then overwrite_tool s t else (\<lambda>r. r\<lparr>dt_lastSeenAt := s\<rparr>)) rows) = ?rows"
      unfolding upd by (intro map_cong) (auto simp: synced_def dest: only)
    have keys: "map dt_id ?rows = map dt_id rows"
      "map (\<lambda>r. (dt_connectionId r, dt_upstreamName r)) ?rows =
       map (\<lambda>r. (dt_connectionId r, dt_upstreamName r)) rows"
      by auto
    have ok: "loop_ok conn ts ?by ?rows"
      unfolding loop_ok_def keys
      using Cons.prems(1) lt by (auto simp: loop_ok_def distinct_map_delete) (metis image_eqI)
    have ids: "dt_id ` set ?rows = dt_id ` set rows"
      using keys(1) by (metis list.set_map)
    have li: "listing_ok conn ts ?rows"
      unfolding listing_ok_def ids using Cons.prems(2) by (simp add: listing_ok_def)
    have "filter (\<lambda>e. fst e \<notin> dt_upstreamName ` set ts) ?by =
        filter (\<lambda>e. fst e \<notin> dt_upstreamName ` set (t # ts)) by"
      by (auto simp: map_delete_def intro!: filter_cong)
    moreover have "filter (\<lambda>u. map_of ?by (dt_upstreamName u) = None) ts =
        filter (\<lambda>u. map_of by (dt_upstreamName u) = None) ts"
      by (intro filter_cong refl) (simp add: map_of_delete_other [OF lt(3)] del: map_of_map_delete)
    moreover have "map (sync_row conn s ts) ?rows = map (sync_row conn s (t # ts)) rows"
      by simp
    ultimately show ?thesis
      using Cons.IH [OF ok li] Some changed lt(3)
      by (cases "tool_changed p t")
        (simp_all add: Let_def loop_report_delete, simp_all add: loop_report_def names_where_def
          is_added_def is_changed_def is_unchanged_def)
  qed
qed

lemma map_set_fresh: "k \<notin> fst ` set es \<Longrightarrow> map_set es k v = es @ [(k, v)]"
  by (induction es k v rule: map_set.induct) auto

lemma by_upstream_name_distinct:
  "distinct (map dt_upstreamName existing) \<Longrightarrow>
     by_upstream_name existing = map (\<lambda>t. (dt_upstreamName t, t)) existing"
proof -
  have "distinct (map fst acc @ map dt_upstreamName ts) \<Longrightarrow>
      foldl (\<lambda>m t. map_set m (dt_upstreamName t) t) acc ts = acc @ map (\<lambda>t. (dt_upstreamName t, t)) ts" for acc ts
    by (induction ts arbitrary: acc) (auto simp: map_set_fresh)
  from this [of "[]"] show "distinct (map dt_upstreamName existing) \<Longrightarrow> ?thesis"
    by (simp add: by_upstream_name_def)
qed

lemma stale_loop_result:
  "stale_loop ts res rows =
     (res\<lparr>sr_removed := sr_removed res @ map dt_gatewayName ts\<rparr>,
      filter (\<lambda>r. dt_id r \<notin> dt_id ` set ts) rows)"
  by (induction ts arbitrary: res rows) (auto simp: delete_rows_def intro!: filter_cong)

definition tools_ok :: "discovered_tool list \<Rightarrow> bool" where
  "tools_ok rows \<longleftrightarrow> distinct (map dt_id rows) \<and>
     distinct (map (\<lambda>r. (dt_connectionId r, dt_upstreamName r)) rows)"

definition stored_tool :: "string \<Rightarrow> discovered_tool list \<Rightarrow> string \<Rightarrow> discovered_tool option" where
  "stored_tool conn rows n = find_one (\<lambda>r. dt_connectionId r = conn \<and> dt_upstreamName r = n) rows"

lemma map_of_existing:
  "map_of (map (\<lambda>t. (dt_upstreamName t, t)) (filter (\<lambda>t. dt_connectionId t = conn) rows)) n =
     stored_tool conn rows n"
  unfolding stored_tool_def find_one_def by (induction rows) auto

definition sync_report ::
  "string \<Rightarrow> discovered_tool list \<Rightarrow> discovered_tool list \<Rightarrow> sync_result" where
  "sync_report conn tools rows =
     (let named = (\<lambda>P. map dt_gatewayName
            (filter (\<lambda>t. P t (stored_tool conn rows (dt_upstreamName t))) tools)) in
      \<lparr>sr_added = named is_added,
       sr_removed = map dt_gatewayName (filter (\<lambda>r. dt_connectionId r = conn \<and>
         dt_upstreamName r \<notin> dt_upstreamName ` set tools) rows),
       sr_changed = named is_changed, sr_unchanged = named is_unchanged\<rparr>)"

lemma sync_tools_result:
  assumes ok: "tools_ok rows" and li: "listing_ok conn tools rows"
  shows "sync_tools conn tools s rows =
    (Some (sync_report conn tools rows),
     map (sync_row conn s tools)
         (filter (\<lambda>r. dt_connectionId r \<noteq> conn \<or> dt_upstreamName r \<in> dt_upstreamName ` set tools) rows) @
       map (fresh_tool s) (filter (\<lambda>t. stored_tool conn rows (dt_upstreamName t) = None) tools))"
proof -
  let ?ex = "filter (\<lambda>t. dt_connectionId t = conn) rows"
  let ?names = "dt_upstreamName ` set tools"
  have dn: "distinct (map dt_upstreamName ?ex)"
    using ok by (auto simp: tools_ok_def distinct_map filter_id_conv inj_on_def)
  note bu = by_upstream_name_distinct [OF dn]
  have lo: "loop_ok conn tools (by_upstream_name ?ex) rows"
    using ok dn
    by (auto simp: loop_ok_def bu map_of_existing stored_tool_def find_one_None tools_ok_def
        comp_def dest: find_one_Some)
  let ?stale = "filter (\<lambda>r. dt_connectionId r = conn \<and> dt_upstreamName r \<notin> ?names) rows"
  have st: "map snd (filter (\<lambda>e. fst e \<notin> ?names) (map (\<lambda>t. (dt_upstreamName t, t)) ?ex)) = ?stale"
    by (induction rows) auto
  have ids: "dt_id r \<in> dt_id ` set ?stale \<longleftrightarrow> r \<in> set ?stale" if "r \<in> set rows" for r
    using ok that by (auto simp: tools_ok_def distinct_map dest: inj_onD)
  have rows': "filter (\<lambda>r. dt_id r \<notin> dt_id ` set ?stale) (map (sync_row conn s tools) rows) =
      map (sync_row conn s tools) (filter (\<lambda>r. dt_connectionId r \<noteq> conn \<or> dt_upstreamName r \<in> ?names) rows)"
    unfolding filter_map comp_def sync_row_sel
    by (intro arg_cong [where f = "map _"] filter_cong refl, simp only: ids) auto
  have new: "filter (\<lambda>r. dt_id r \<notin> dt_id ` set ?stale) (map (fresh_tool s) ts) = map (fresh_tool s) ts"
    if "set ts \<subseteq> set tools" for ts
    using li that by (auto simp: listing_ok_def filter_id_conv)
  show ?thesis
    unfolding sync_tools_def Let_def sync_loop_result [OF lo li] option.case prod.case
    unfolding bu st stale_loop_result filter_append rows' new [OF filter_is_subset] option.case prod.case
    by (simp add: loop_report_def names_where_def sync_report_def empty_sync_def map_of_existing)
qed

lemma resources_insert_all:
  "insert_all clash rs rows = (True, rows') \<Longrightarrow> rows' = rows @ rs"
proof (induction rs arbitrary: rows)
  case (Cons r rs)
  then have "insert_all clash rs (rows @ [r]) = (True, rows')"
    by (auto simp: insert_row_def split: if_splits)
  from Cons.IH [OF this] show ?case by simp
qed simp

section \<open>Properties\<close>

text \<open>
  C36: Reconciling a listing leaves exactly the listed tools stored for the connection, each under
  the listed gateway name and schema hash; a tool that was stored keeps its id, its discovery time
  and whether it is enabled, a new one is stored as listed; no other connection's row changes, and
  the report names the tools that are gone.
\<close>

theorem tool_sync_matches_listing:
  assumes ok: "tools_ok rows" and li: "listing_ok conn tools rows"
  shows "\<exists>report rows'. sync_tools conn tools s rows = (Some report, rows') \<and>
    filter (\<lambda>r. dt_connectionId r \<noteq> conn) rows' = filter (\<lambda>r. dt_connectionId r \<noteq> conn) rows \<and>
    dt_upstreamName ` {r \<in> set rows'. dt_connectionId r = conn} = dt_upstreamName ` set tools \<and>
    (\<forall>t \<in> set tools. \<exists>r \<in> set rows'. dt_connectionId r = conn \<and>
       dt_upstreamName r = dt_upstreamName t \<and> dt_gatewayName r = dt_gatewayName t \<and>
       dt_schemaHash r = dt_schemaHash t \<and> dt_lastSeenAt r = s \<and>
       (case stored_tool conn rows (dt_upstreamName t) of
          None \<Rightarrow> r = t\<lparr>dt_discoveredAt := s, dt_lastSeenAt := s\<rparr>
        | Some p \<Rightarrow> dt_id r = dt_id p \<and> dt_enabled r = dt_enabled p \<and>
            dt_discoveredAt r = dt_discoveredAt p)) \<and>
    sr_removed report = map dt_gatewayName (filter (\<lambda>r. dt_connectionId r = conn \<and>
       dt_upstreamName r \<notin> dt_upstreamName ` set tools) rows)"
proof -
  let ?names = "dt_upstreamName ` set tools"
  let ?old = "filter (\<lambda>r. dt_connectionId r \<noteq> conn \<or> dt_upstreamName r \<in> ?names) rows"
  let ?new = "filter (\<lambda>t. stored_tool conn rows (dt_upstreamName t) = None) tools"
  let ?rows = "map (sync_row conn s tools) ?old @ map (fresh_tool s) ?new"
  have conns: "dt_connectionId t = conn" if "t \<in> set tools" for t
    using li that by (simp add: listing_ok_def)
  have d: "distinct (map dt_upstreamName tools)" using li by (simp add: listing_ok_def)
  have same: "map (sync_row conn s tools) (filter (\<lambda>r. dt_connectionId r \<noteq> conn) rows) =
      filter (\<lambda>r. dt_connectionId r \<noteq> conn) rows"
    by (rule map_idI) (simp add: sync_row_other)
  have other: "filter (\<lambda>r. dt_connectionId r \<noteq> conn) ?rows = filter (\<lambda>r. dt_connectionId r \<noteq> conn) rows"
  proof -
    have "filter (\<lambda>r. dt_connectionId r \<noteq> conn) ?old = filter (\<lambda>r. dt_connectionId r \<noteq> conn) rows"
      unfolding filter_filter by (intro filter_cong) auto
    with same show ?thesis
      by (simp add: filter_map comp_def conns filter_empty_conv del: filter_filter)
  qed
  have listed: "\<exists>r \<in> set ?rows. dt_connectionId r = conn \<and>
       dt_upstreamName r = dt_upstreamName t \<and> dt_gatewayName r = dt_gatewayName t \<and>
       dt_schemaHash r = dt_schemaHash t \<and> dt_lastSeenAt r = s \<and>
       (case stored_tool conn rows (dt_upstreamName t) of
          None \<Rightarrow> r = t\<lparr>dt_discoveredAt := s, dt_lastSeenAt := s\<rparr>
        | Some p \<Rightarrow> dt_id r = dt_id p \<and> dt_enabled r = dt_enabled p \<and>
            dt_discoveredAt r = dt_discoveredAt p)" if t: "t \<in> set tools" for t
  proof (cases "stored_tool conn rows (dt_upstreamName t)")
    case None
    with t show ?thesis by (intro bexI [of _ "fresh_tool s t"]) (auto simp: conns, simp add: fresh_tool_def)
  next
    case (Some p)
    then have p: "p \<in> set rows" "dt_connectionId p = conn" "dt_upstreamName p = dt_upstreamName t"
      by (auto simp: stored_tool_def dest: find_one_Some)
    have row: "sync_row conn s tools p = synced s t p" by (rule sync_row_listed [OF d t p(2,3)])
    have "p \<in> set ?old" using p imageI [OF t, of dt_upstreamName] by simp
    then have "sync_row conn s tools p \<in> set ?rows" unfolding set_append set_map by (intro UnI1 imageI)
    then have "synced s t p \<in> set ?rows" unfolding row .
    with Some p show ?thesis by (intro bexI [of _ "synced s t p"]) simp_all
  qed
  have "\<forall>r \<in> set ?rows. dt_connectionId r = conn \<longrightarrow> dt_upstreamName r \<in> ?names"
    unfolding set_append set_map ball_Un ball_simps by simp
  then have sub: "dt_upstreamName ` {r \<in> set ?rows. dt_connectionId r = conn} \<subseteq> ?names" by blast
  have sup: "?names \<subseteq> dt_upstreamName ` {r \<in> set ?rows. dt_connectionId r = conn}"
  proof
    fix n assume "n \<in> ?names"
    then obtain t where n: "n = dt_upstreamName t" and t: "t \<in> set tools" by (rule imageE)
    from listed [OF t] obtain r where "r \<in> set ?rows" "dt_connectionId r = conn"
      "dt_upstreamName r = dt_upstreamName t" by blast
    then show "n \<in> dt_upstreamName ` {r \<in> set ?rows. dt_connectionId r = conn}"
      unfolding n by (intro image_eqI [of _ _ r] CollectI conjI) (simp_all only:)
  qed
  note names = equalityI [OF sub sup]
  have "sr_removed (sync_report conn tools rows) = map dt_gatewayName
      (filter (\<lambda>r. dt_connectionId r = conn \<and> dt_upstreamName r \<notin> ?names) rows)"
    by (simp add: sync_report_def)
  with other listed names sync_tools_result [OF ok li, of s] show ?thesis by blast
qed

definition demo_tool :: "string \<Rightarrow> string \<Rightarrow> string \<Rightarrow> discovered_tool" where
  "demo_tool i n h = \<lparr>dt_id = i, dt_tenantId = ''a'', dt_connectionId = ''c1'', dt_upstreamName = n,
     dt_gatewayName = ''x_'' @ n, dt_description = None, dt_inputSchemaJson = JNull,
     dt_outputSchemaJson = None, dt_annotationsJson = None, dt_schemaHash = h, dt_enabled = True,
     dt_riskLevel = UNKNOWN, dt_discoveredAt = 0, dt_lastSeenAt = 0\<rparr>"

lemma tool_sync_matches_listing_witness:
  "map_option sr_removed (fst (sync_tools ''c1'' [demo_tool ''3'' ''q'' ''h2''] 7
     [demo_tool ''1'' ''p'' ''h'', demo_tool ''2'' ''q'' ''h''])) = Some [''x_p''] \<and>
   map dt_id (snd (sync_tools ''c1'' [demo_tool ''3'' ''q'' ''h2''] 7
     [demo_tool ''1'' ''p'' ''h'', demo_tool ''2'' ''q'' ''h''])) = [''2'']"
proof -
  let ?rows = "[demo_tool ''1'' ''p'' ''h'', demo_tool ''2'' ''q'' ''h'']"
  have ok: "tools_ok ?rows" by (simp add: tools_ok_def demo_tool_def)
  have li: "listing_ok ''c1'' [demo_tool ''3'' ''q'' ''h2''] ?rows"
    by (simp add: listing_ok_def demo_tool_def)
  have "map_option sr_removed (fst (sync_tools ''c1'' [demo_tool ''3'' ''q'' ''h2''] 7 ?rows)) = Some [''x_p'']"
  proof -
    obtain report rows' where r: "sync_tools ''c1'' [demo_tool ''3'' ''q'' ''h2''] 7 ?rows = (Some report, rows')"
        "sr_removed report = map dt_gatewayName (filter (\<lambda>r. dt_connectionId r = ''c1'' \<and>
           dt_upstreamName r \<notin> dt_upstreamName ` set [demo_tool ''3'' ''q'' ''h2'']) ?rows)"
      using tool_sync_matches_listing [OF ok li, of 7] by blast
    have "sr_removed report = [''x_p'']" unfolding r(2) by (simp add: demo_tool_def)
    with r(1) show ?thesis by simp
  qed
  moreover have "map dt_id (snd (sync_tools ''c1'' [demo_tool ''3'' ''q'' ''h2''] 7 ?rows)) = [''2'']"
    by code_simp
  ultimately show ?thesis by blast
qed

text \<open>
  Replacing the resources of a connection reports a change exactly when the collection of what
  a client would notice differs, whatever the order of either listing, and leaves the listing
  stored after the untouched rows of the other connections.
\<close>

theorem resource_change_detected:
  assumes "resources_sync conn resources rows = (Some changed, rows')"
  shows "changed = (mset (map resource_identity (filter (\<lambda>r. dr_connectionId r = conn) rows)) \<noteq>
      mset (map resource_identity resources)) \<and>
    rows' = filter (\<lambda>r. dr_connectionId r \<noteq> conn) rows @ resources"
proof -
  have mm: "mset (map f (sort_key k zs)) = mset (map f zs)" for f :: "discovered_resource \<Rightarrow> string"
    and k :: "discovered_resource \<Rightarrow> string" and zs
    by simp
  show ?thesis
    using assms unfolding resources_sync_def Let_def
    by (auto simp: differs_iff_mset mm delete_rows_def dest: resources_insert_all
        split: prod.splits if_splits simp del: mset_map)
qed

definition demo_resource :: "string \<Rightarrow> string \<Rightarrow> discovered_resource" where
  "demo_resource i u = \<lparr>dr_id = i, dr_tenantId = ''a'', dr_connectionId = ''c1'', dr_upstreamUri = u,
     dr_gatewayUri = u, dr_name = u, dr_description = None, dr_mimeType = None,
     dr_isTemplate = False, dr_lastSeenAt = 0\<rparr>"

lemma resource_change_detected_witness:
  "resources_sync ''c1'' [demo_resource ''3'' ''q'', demo_resource ''4'' ''p'']
     [demo_resource ''1'' ''p'', demo_resource ''2'' ''q''] =
   (Some False, [demo_resource ''3'' ''q'', demo_resource ''4'' ''p''])"
proof -
  let ?new = "[demo_resource ''3'' ''q'', demo_resource ''4'' ''p'']"
  let ?rows = "[demo_resource ''1'' ''p'', demo_resource ''2'' ''q'']"
  have "fst (resources_sync ''c1'' ?new ?rows) \<noteq> None" by code_simp
  then obtain b rows' where r: "resources_sync ''c1'' ?new ?rows = (Some b, rows')"
    by (cases "resources_sync ''c1'' ?new ?rows") auto
  have same: "resource_identity (demo_resource i u) = resource_identity (demo_resource [] u)" for i u
    by (simp add: resource_identity_def demo_resource_def)
  have conn: "dr_connectionId (demo_resource i u) = ''c1''" for i u
    by (simp add: demo_resource_def)
  have "b = False \<and> rows' = ?new"
    using resource_change_detected [OF r] by (simp add: conn same [of "_ # _"] add_mset_commute)
  with r show ?thesis by simp
qed

end
