(* ===== verification/Locks.thy ===== *)
theory Locks
  imports Core
begin

text \<open>
  \<^verbatim>\<open>packages/security/src/locks.ts\<close>: the in-process lock, as the steps of the calls that queue
  for one key, and the circuit breaker; and the lease row of \<^verbatim>\<open>SqlLeaseLock\<close> in
  \<^verbatim>\<open>packages/storage/src/sql-store.ts\<close>, as the statements of several replicas against one
  table.
\<close>

section \<open>The in-process lock\<close>

text \<open>
  Keys do not share state, so the model is of one key. A call is identified by its place in the order
  of arrival. \<open>lc_prev\<close> is the call whose tail it waits for, none where it found no tail.
\<close>

datatype stage = Waiting | Running | Lease_Expired | Finished | Gave_Up

record lock_call =
  lc_prev :: "nat option"
  lc_stage :: stage

text \<open>\<open>lk_tail\<close> is \<open>tails.get(key)\<close>, \<open>lk_cleanup\<close> the microtasks queued by \<open>finish\<close>.\<close>

record lock_state =
  lk_calls :: "lock_call list"
  lk_tail :: "nat option"
  lk_cleanup :: "nat list"

definition lock_idle :: lock_state where
  "lock_idle = \<lparr>lk_calls = [], lk_tail = None, lk_cleanup = []\<rparr>"

text \<open>\<open>release\<close> has been called, which settles the promise \<open>held\<close>.\<close>

definition released :: "stage \<Rightarrow> bool" where
  "released st \<longleftrightarrow> st = Finished \<or> st = Gave_Up"

text \<open>The work of the call is running; an expired lease does not stop it.\<close>

definition in_section :: "lock_call \<Rightarrow> bool" where
  "in_section c \<longleftrightarrow> lc_stage c = Running \<or> lc_stage c = Lease_Expired"

text \<open>A tail settles once the tail before it has and its own call has released.\<close>

function tail_settled :: "lock_call list \<Rightarrow> nat \<Rightarrow> bool" where
  "tail_settled calls i =
     (i < length calls \<and> released (lc_stage (calls ! i)) \<and>
      (case lc_prev (calls ! i) of
         None \<Rightarrow> True
       | Some j \<Rightarrow> if j < i then tail_settled calls j else False))"
  by pat_completeness auto
termination by (relation "measure snd") auto

declare tail_settled.simps [simp del]

definition turn_came :: "lock_call list \<Rightarrow> nat \<Rightarrow> bool" where
  "turn_came calls i =
     (case lc_prev (calls ! i) of None \<Rightarrow> True | Some j \<Rightarrow> tail_settled calls j)"

datatype lock_event = Arrive | Enter nat | Wait_Timeout nat | Lease_Timeout nat | Work_Ends nat | Cleanup nat

definition set_stage :: "nat \<Rightarrow> stage \<Rightarrow> lock_state \<Rightarrow> lock_state" where
  "set_stage i st s =
     s\<lparr>lk_calls := (lk_calls s)[i := (lk_calls s ! i)\<lparr>lc_stage := st\<rparr>]\<rparr>"

definition stage_is :: "lock_state \<Rightarrow> nat \<Rightarrow> stage \<Rightarrow> bool" where
  "stage_is s i st \<longleftrightarrow> i < length (lk_calls s) \<and> lc_stage (lk_calls s ! i) = st"

text \<open>
  One event at a time: \<open>withLock\<close> up to its first \<open>await\<close>; the turn coming; the timer of \<open>waitMs\<close>; the
  timer of \<open>leaseMs\<close>; the promise of the work settling, either way; a queued microtask. \<open>None\<close> is an
  event that cannot happen in that state.
\<close>

fun lock_next :: "lock_event \<Rightarrow> lock_state \<Rightarrow> lock_state option" where
  "lock_next Arrive s =
     Some (s\<lparr>lk_calls := lk_calls s @ [\<lparr>lc_prev = lk_tail s, lc_stage = Waiting\<rparr>],
             lk_tail := Some (length (lk_calls s))\<rparr>)"
| "lock_next (Enter i) s =
     (if stage_is s i Waiting \<and> turn_came (lk_calls s) i then Some (set_stage i Running s) else None)"
| "lock_next (Wait_Timeout i) s =
     (if stage_is s i Waiting
      then Some ((set_stage i Gave_Up s)\<lparr>lk_cleanup := lk_cleanup s @ [i]\<rparr>) else None)"
| "lock_next (Lease_Timeout i) s =
     (if stage_is s i Running then Some (set_stage i Lease_Expired s) else None)"
| "lock_next (Work_Ends i) s =
     (if stage_is s i Running \<or> stage_is s i Lease_Expired
      then Some ((set_stage i Finished s)\<lparr>lk_cleanup := lk_cleanup s @ [i]\<rparr>) else None)"
| "lock_next (Cleanup i) s =
     (if i \<in> set (lk_cleanup s)
      then Some (s\<lparr>lk_cleanup := remove1 i (lk_cleanup s),
                   lk_tail := (if lk_tail s = Some i then None else lk_tail s)\<rparr>) else None)"

fun lock_run :: "lock_event list \<Rightarrow> lock_state \<Rightarrow> lock_state option" where
  "lock_run [] s = Some s"
| "lock_run (e # es) s = (case lock_next e s of None \<Rightarrow> None | Some t \<Rightarrow> lock_run es t)"

definition sections :: "lock_state \<Rightarrow> nat list" where
  "sections s = filter (\<lambda>i. in_section (lk_calls s ! i)) [0..<length (lk_calls s)]"

text \<open>Steps where no wait is bounded by \<open>waitMs\<close>.\<close>

definition unbounded_step :: "lock_state \<Rightarrow> lock_state \<Rightarrow> bool" where
  "unbounded_step s t \<longleftrightarrow> (\<exists>e. (\<forall>i. e \<noteq> Wait_Timeout i) \<and> lock_next e s = Some t)"

text \<open>The queue is first in, first out: who has entered has nobody unfinished before it.\<close>

definition all_finished :: "lock_state \<Rightarrow> nat \<Rightarrow> bool" where
  "all_finished s n \<longleftrightarrow> (\<forall>j < n. lc_stage (lk_calls s ! j) = Finished)"

definition call_ok :: "lock_state \<Rightarrow> nat \<Rightarrow> bool" where
  "call_ok s i \<longleftrightarrow>
     lc_stage (lk_calls s ! i) \<noteq> Gave_Up \<and>
     (lc_stage (lk_calls s ! i) \<noteq> Waiting \<or> lc_prev (lk_calls s ! i) = None \<longrightarrow> all_finished s i) \<and>
     (lc_prev (lk_calls s ! i) = None \<or> 0 < i \<and> lc_prev (lk_calls s ! i) = Some (i - 1))"

definition tail_ok :: "lock_state \<Rightarrow> bool" where
  "tail_ok s \<longleftrightarrow>
     (case lk_tail s of None \<Rightarrow> all_finished s (length (lk_calls s)) | Some j \<Rightarrow> length (lk_calls s) = Suc j)"

definition fifo_inv :: "lock_state \<Rightarrow> bool" where
  "fifo_inv s \<longleftrightarrow> (\<forall>i < length (lk_calls s). call_ok s i) \<and> tail_ok s \<and>
     (\<forall>i \<in> set (lk_cleanup s). stage_is s i Finished)"

lemma fifo_inv_turn:
  assumes inv: "fifo_inv s" and i: "stage_is s i Waiting" and turn: "turn_came (lk_calls s) i"
  shows "all_finished s i"
proof (cases "lc_prev (lk_calls s ! i)")
  case None
  with inv i show ?thesis by (auto simp: fifo_inv_def stage_is_def call_ok_def)
next
  case (Some k)
  then have ik: "i = Suc k" and il: "i < length (lk_calls s)"
    using inv i by (auto simp: fifo_inv_def stage_is_def call_ok_def)
  have "tail_settled (lk_calls s) k" using turn Some by (simp add: turn_came_def)
  then have "released (lc_stage (lk_calls s ! k))" by (simp add: tail_settled.simps [of _ k])
  moreover have k: "call_ok s k" using inv ik il by (simp add: fifo_inv_def)
  ultimately have "lc_stage (lk_calls s ! k) = Finished" by (auto simp: released_def call_ok_def)
  moreover from this k have "all_finished s k" by (simp add: call_ok_def)
  ultimately show ?thesis by (auto simp: all_finished_def ik less_Suc_eq)
qed

lemma set_stage_sel [simp]:
  "length (lk_calls (set_stage i st s)) = length (lk_calls s)"
  "lk_tail (set_stage i st s) = lk_tail s" "lk_cleanup (set_stage i st s) = lk_cleanup s"
  by (simp_all add: set_stage_def)

lemma set_stage_nth [simp]:
  "i < length (lk_calls s) \<Longrightarrow> lc_stage (lk_calls (set_stage i st s) ! j) =
     (if j = i then st else lc_stage (lk_calls s ! j))"
  "i < length (lk_calls s) \<Longrightarrow> lc_prev (lk_calls (set_stage i st s) ! j) = lc_prev (lk_calls s ! j)"
  by (auto simp: set_stage_def nth_list_update)

lemma fifo_inv_set_stage:
  assumes inv: "fifo_inv s" and i: "i < length (lk_calls s)" and st: "st \<noteq> Gave_Up" "st \<noteq> Waiting"
    and before: "all_finished s i" and open_call: "lc_stage (lk_calls s ! i) \<noteq> Finished"
  shows "fifo_inv (set_stage i st s)"
proof -
  have fin: "all_finished s n \<Longrightarrow> all_finished (set_stage i st s) n" for n
    using i open_call by (auto simp: all_finished_def)
  have "call_ok (set_stage i st s) j" if "j < length (lk_calls s)" for j
  proof (cases "j = i")
    case True
    with inv i st before fin [of i] show ?thesis by (simp add: fifo_inv_def call_ok_def)
  next
    case False
    with inv i that fin [of j] show ?thesis by (auto simp: fifo_inv_def call_ok_def)
  qed
  moreover have "tail_ok (set_stage i st s)"
    using inv fin by (auto simp: fifo_inv_def tail_ok_def split: option.splits)
  moreover have "stage_is (set_stage i st s) j Finished" if "j \<in> set (lk_cleanup s)" for j
    using inv i open_call that by (auto simp: fifo_inv_def stage_is_def)
  ultimately show ?thesis by (simp add: fifo_inv_def)
qed

lemma running_before:
  "fifo_inv s \<Longrightarrow> stage_is s i st \<Longrightarrow> st \<noteq> Waiting \<Longrightarrow> all_finished s i"
  by (auto simp: fifo_inv_def stage_is_def call_ok_def)

lemma fifo_inv_arrive:
  assumes inv: "fifo_inv s"
  shows "fifo_inv (s\<lparr>lk_calls := lk_calls s @ [\<lparr>lc_prev = lk_tail s, lc_stage = Waiting\<rparr>],
    lk_tail := Some (length (lk_calls s))\<rparr>)" (is "fifo_inv ?t")
proof -
  have fin: "all_finished ?t n \<longleftrightarrow> all_finished s n" if "n \<le> length (lk_calls s)" for n
    using that by (auto simp: all_finished_def nth_append)
  have "call_ok ?t i" if "i < length (lk_calls s)" for i
    using inv that fin [of i] by (auto simp: fifo_inv_def call_ok_def nth_append)
  moreover have "call_ok ?t (length (lk_calls s))"
    using inv fin [of "length (lk_calls s)"]
    by (auto simp: fifo_inv_def call_ok_def tail_ok_def split: option.splits)
  moreover have "stage_is ?t i Finished" if "i \<in> set (lk_cleanup s)" for i
    using inv that by (auto simp: fifo_inv_def stage_is_def nth_append)
  ultimately show ?thesis by (simp add: fifo_inv_def tail_ok_def less_Suc_eq)
qed

lemma fifo_inv_cleanup:
  assumes inv: "fifo_inv s" and i: "i \<in> set (lk_cleanup s)"
  shows "fifo_inv (s\<lparr>lk_cleanup := remove1 i (lk_cleanup s),
    lk_tail := (if lk_tail s = Some i then None else lk_tail s)\<rparr>)" (is "fifo_inv ?t")
proof -
  have fin: "all_finished ?t n \<longleftrightarrow> all_finished s n" for n
    by (simp add: all_finished_def)
  have done_i: "stage_is s i Finished" using inv i by (simp add: fifo_inv_def)
  have "all_finished s (length (lk_calls s))" if "lk_tail s = Some i"
  proof -
    have "length (lk_calls s) = Suc i" using inv that by (simp add: fifo_inv_def tail_ok_def)
    moreover have "all_finished s i" by (rule running_before [OF inv done_i]) simp
    ultimately show ?thesis using done_i by (auto simp: all_finished_def stage_is_def less_Suc_eq)
  qed
  then have "tail_ok ?t"
    using inv by (cases "lk_tail s") (auto simp: fifo_inv_def tail_ok_def all_finished_def)
  moreover have "call_ok ?t j \<longleftrightarrow> call_ok s j" "stage_is ?t j st = stage_is s j st" for j st
    by (simp_all add: call_ok_def fin stage_is_def)
  ultimately show ?thesis using inv by (auto simp: fifo_inv_def dest: notin_set_remove1)
qed

lemma fifo_inv_step:
  assumes inv: "fifo_inv s" and e: "\<forall>i. e \<noteq> Wait_Timeout i" and step: "lock_next e s = Some t"
  shows "fifo_inv t"
proof (cases e)
  case Arrive
  with step fifo_inv_arrive [OF inv] show ?thesis by simp
next
  case (Enter i)
  with step have i: "stage_is s i Waiting" "turn_came (lk_calls s) i" and t: "t = set_stage i Running s"
    by (auto split: if_splits)
  show ?thesis
    unfolding t using i fifo_inv_turn [OF inv i] by (intro fifo_inv_set_stage inv) (auto simp: stage_is_def)
next
  case (Lease_Timeout i)
  with step have i: "stage_is s i Running" and t: "t = set_stage i Lease_Expired s"
    by (auto split: if_splits)
  show ?thesis
    unfolding t using i running_before [OF inv i]
    by (intro fifo_inv_set_stage inv) (auto simp: stage_is_def)
next
  case (Work_Ends i)
  with step have i: "stage_is s i Running \<or> stage_is s i Lease_Expired"
    and t: "t = (set_stage i Finished s)\<lparr>lk_cleanup := lk_cleanup s @ [i]\<rparr>"
    by (auto split: if_splits)
  have "fifo_inv (set_stage i Finished s)"
    using i by (intro fifo_inv_set_stage inv) (auto simp: stage_is_def intro: running_before [OF inv])
  then show ?thesis
    unfolding t using i
    by (auto simp: fifo_inv_def stage_is_def call_ok_def tail_ok_def all_finished_def cong: option.case_cong)
next
  case (Cleanup i)
  with step fifo_inv_cleanup [OF inv, of i] show ?thesis by (auto split: if_splits)
qed (use e in auto)

interpretation unbounded_lock: safe_system "\<lambda>s. s = lock_idle" unbounded_step fifo_inv
proof unfold_locales
  show "s = lock_idle \<Longrightarrow> fifo_inv s" for s
    by (simp add: fifo_inv_def tail_ok_def all_finished_def lock_idle_def)
  show "fifo_inv s \<Longrightarrow> unbounded_step s t \<Longrightarrow> fifo_inv t" for s t
    by (auto simp: unbounded_step_def intro: fifo_inv_step)
qed

lemma fifo_inv_order:
  assumes "fifo_inv s" "i \<in> set (sections s)" "j < i"
  shows "lc_stage (lk_calls s ! j) = Finished"
proof -
  have "call_ok s i" "lc_stage (lk_calls s ! i) \<noteq> Waiting"
    using assms(1,2) by (auto simp: fifo_inv_def sections_def in_section_def)
  then show ?thesis using assms(3) by (simp add: call_ok_def all_finished_def)
qed

lemma fifo_inv_exclusive: "fifo_inv s \<Longrightarrow> length (sections s) \<le> 1"
proof (rule ccontr)
  assume inv: "fifo_inv s" and "\<not> length (sections s) \<le> 1"
  then obtain i j zs where "sections s = i # j # zs"
    by (cases "sections s"; cases "tl (sections s)") auto
  moreover have "sorted_wrt (<) (sections s)"
    unfolding sections_def by (intro sorted_wrt_filter) simp
  ultimately have "i < j" and "i \<in> set (sections s)" and "j \<in> set (sections s)" by auto
  then have j: "j < length (lk_calls s)" "in_section (lk_calls s ! j)" "in_section (lk_calls s ! i)"
    by (auto simp: sections_def)
  with inv \<open>i < j\<close> have "lc_stage (lk_calls s ! i) = Finished"
    by (auto simp: fifo_inv_def in_section_def call_ok_def all_finished_def)
  with j(3) show False by (simp add: in_section_def)
qed

lemma lock_run_reach:
  "lock_run es s = Some t \<Longrightarrow> \<forall>e \<in> set es. \<forall>i. e \<noteq> Wait_Timeout i \<Longrightarrow>
     reach (\<lambda>s. s = lock_idle) unbounded_step s \<Longrightarrow> reach (\<lambda>s. s = lock_idle) unbounded_step t"
proof (induction es arbitrary: s)
  case (Cons e es)
  then obtain u where u: "lock_next e s = Some u" "lock_run es u = Some t" by (auto split: option.splits)
  with Cons.prems have "reach (\<lambda>s. s = lock_idle) unbounded_step u"
    by (intro reach_step [OF Cons.prems(3)]) (auto simp: unbounded_step_def)
  with Cons.IH [OF u(2)] Cons.prems(2) show ?case by simp
qed simp

section \<open>The circuit breaker\<close>

record breaker =
  cb_failures :: nat
  cb_openedAt :: "int option"

record breaker_rule =
  cb_threshold :: nat
  cb_cooldownMs :: int

definition breaker_default :: breaker_rule where
  "breaker_default = \<lparr>cb_threshold = 5, cb_cooldownMs = 30000\<rparr>"

definition breaker_new :: breaker where
  "breaker_new = \<lparr>cb_failures = 0, cb_openedAt = None\<rparr>"

definition breaker_is_open :: "breaker_rule \<Rightarrow> int \<Rightarrow> breaker \<Rightarrow> bool \<times> breaker" where
  "breaker_is_open r now b =
     (case cb_openedAt b of
        None \<Rightarrow> (False, b)
      | Some t \<Rightarrow>
          if now - t \<ge> cb_cooldownMs r then (False, b\<lparr>cb_openedAt := None, cb_failures := 0\<rparr>)
          else (True, b))"

definition breaker_success :: "breaker \<Rightarrow> breaker" where
  "breaker_success b = b\<lparr>cb_failures := 0, cb_openedAt := None\<rparr>"

definition breaker_failure :: "breaker_rule \<Rightarrow> int \<Rightarrow> breaker \<Rightarrow> breaker" where
  "breaker_failure r now b =
     (let n = cb_failures b + 1 in
      b\<lparr>cb_failures := n, cb_openedAt := (if n \<ge> cb_threshold r then Some now else cb_openedAt b)\<rparr>)"

lemma breaker_failures:
  "foldl (\<lambda>b t. breaker_failure r t b) b ts =
     \<lparr>cb_failures = cb_failures b + length ts,
      cb_openedAt = (if ts \<noteq> [] \<and> cb_threshold r \<le> cb_failures b + length ts then Some (last ts)
                     else cb_openedAt b)\<rparr>"
  by (induction ts rule: rev_induct) (auto simp: breaker_failure_def Let_def)

section \<open>The lease row\<close>

type_synonym lease_table = "(string \<times> string \<times> int) list"

text \<open>The upsert whose update is guarded by the expiry of the stored row.\<close>

definition try_acquire :: "string \<Rightarrow> string \<Rightarrow> int \<Rightarrow> int \<Rightarrow> lease_table \<Rightarrow> bool \<times> lease_table" where
  "try_acquire owner key leaseMs now rows =
     (case map_of rows key of
        None \<Rightarrow> (True, map_set rows key (owner, now + leaseMs))
      | Some (holder, expires) \<Rightarrow>
          if expires \<le> now then (True, map_set rows key (owner, now + leaseMs)) else (False, rows))"

definition renew :: "string \<Rightarrow> string \<Rightarrow> int \<Rightarrow> int \<Rightarrow> lease_table \<Rightarrow> bool \<times> lease_table" where
  "renew owner key leaseMs now rows =
     (case map_of rows key of
        None \<Rightarrow> (False, rows)
      | Some (holder, expires) \<Rightarrow>
          if holder = owner then (True, map_set rows key (owner, now + leaseMs)) else (False, rows))"

definition release_lease :: "string \<Rightarrow> string \<Rightarrow> lease_table \<Rightarrow> lease_table" where
  "release_lease owner key rows =
     (case map_of rows key of
        None \<Rightarrow> rows
      | Some (holder, expires) \<Rightarrow> if holder = owner then map_delete rows key else rows)"

text \<open>
  The replicas against one table. \<open>ls_held\<close> is what each owner was last told: until when it holds the
  key. An owner whose renewal fails aborts its work, an owner that is done releases.
\<close>

record lease_system =
  ls_rows :: lease_table
  ls_now :: int
  ls_held :: "((string \<times> string) \<times> int) list"

datatype lease_event =
    Lease_Tick nat
  | Lease_Acquire string string nat
  | Lease_Renew string string nat
  | Lease_Release string string

fun lease_next :: "lease_event \<Rightarrow> lease_system \<Rightarrow> lease_system" where
  "lease_next (Lease_Tick d) s = s\<lparr>ls_now := ls_now s + int d\<rparr>"
| "lease_next (Lease_Acquire owner key ms) s =
     (let (ok, rows) = try_acquire owner key (int ms) (ls_now s) (ls_rows s) in
      if ok then s\<lparr>ls_rows := rows, ls_held := map_set (ls_held s) (owner, key) (ls_now s + int ms)\<rparr>
      else s\<lparr>ls_rows := rows\<rparr>)"
| "lease_next (Lease_Renew owner key ms) s =
     (case map_of (ls_held s) (owner, key) of
        None \<Rightarrow> s
      | Some u \<Rightarrow>
         (let (ok, rows) = renew owner key (int ms) (ls_now s) (ls_rows s) in
          if ok then s\<lparr>ls_rows := rows, ls_held := map_set (ls_held s) (owner, key) (ls_now s + int ms)\<rparr>
          else s\<lparr>ls_rows := rows, ls_held := map_delete (ls_held s) (owner, key)\<rparr>))"
| "lease_next (Lease_Release owner key) s =
     s\<lparr>ls_rows := release_lease owner key (ls_rows s), ls_held := map_delete (ls_held s) (owner, key)\<rparr>"

definition lease_init :: "lease_system \<Rightarrow> bool" where
  "lease_init s \<longleftrightarrow> ls_held s = []"

definition lease_step :: "lease_system \<Rightarrow> lease_system \<Rightarrow> bool" where
  "lease_step s t \<longleftrightarrow> (\<exists>e. t = lease_next e s)"

definition lease_inv :: "lease_system \<Rightarrow> bool" where
  "lease_inv s \<longleftrightarrow>
     (\<forall>owner key u. map_of (ls_held s) (owner, key) = Some u \<longrightarrow> ls_now s < u \<longrightarrow>
        map_of (ls_rows s) key = Some (owner, u))"

lemma lease_inv_next: "lease_inv s \<Longrightarrow> lease_inv (lease_next e s)"
  by (cases e)
    (auto simp: lease_inv_def try_acquire_def renew_def release_lease_def Let_def
      split: option.splits if_splits prod.splits)

interpretation lease_replicas: safe_system lease_init lease_step lease_inv
proof unfold_locales
  show "lease_init s \<Longrightarrow> lease_inv s" for s by (simp add: lease_init_def lease_inv_def)
  show "lease_inv s \<Longrightarrow> lease_step s t \<Longrightarrow> lease_inv t" for s t
    by (auto simp: lease_step_def lease_inv_next)
qed

lemma lease_next_reach:
  "reach lease_init lease_step s \<Longrightarrow> reach lease_init lease_step (lease_next e s)"
  by (erule reach_step) (auto simp: lease_step_def)

section \<open>Properties\<close>

text \<open>
  While no wait is bounded by a timer, at most one call runs its critical section for a key at
  any time, an expired lease included, and nobody enters before everybody who came earlier is done.
\<close>

theorem lock_excludes:
  assumes "reach (\<lambda>s. s = lock_idle) unbounded_step s"
  shows "length (sections s) \<le> 1 \<and>
    (\<forall>i \<in> set (sections s). \<forall>j < i. lc_stage (lk_calls s ! j) = Finished)"
  using unbounded_lock.reach_inv [OF assms] fifo_inv_exclusive fifo_inv_order by blast

lemma lock_excludes_witness:
  "\<exists>s. lock_run [Arrive, Arrive, Enter 0, Lease_Timeout 0, Work_Ends 0, Cleanup 0, Enter 1] lock_idle = Some s \<and>
     sections s = [1] \<and> lc_stage (lk_calls s ! 0) = Finished"
proof -
  let ?es = "[Arrive, Arrive, Enter 0, Lease_Timeout 0, Work_Ends 0, Cleanup 0, Enter 1]"
  have "map_option sections (lock_run ?es lock_idle) = Some [1]" by code_simp
  then obtain s where s: "lock_run ?es lock_idle = Some s" "sections s = [1]" by auto
  have "reach (\<lambda>s. s = lock_idle) unbounded_step s"
    using s(1) by (rule lock_run_reach) (auto intro: reach_init)
  from lock_excludes [OF this] s show ?thesis by auto
qed

text \<open>
  A wait that is bounded breaks the exclusion: when the last waiter gives up, the clean-up it
  queues forgets the tail although the holder before it is still at work, and the next call to
  arrive enters at once. Two critical sections then run for one key.
\<close>

theorem bounded_wait_breaks_exclusion:
  "map_option sections (lock_run
     [Arrive, Enter 0, Arrive, Wait_Timeout 1, Cleanup 1, Arrive, Enter 2] lock_idle) = Some [0, 2]"
  by code_simp

text \<open>
  After a run of failures from a fresh or recovered breaker it is open exactly when there were at
  least as many as the threshold and the cool-down since the last is not over; asking after the
  cool-down closes it with a clean count.
\<close>

theorem breaker_opens_after_threshold:
  assumes "ts \<noteq> []"
  shows "let b = foldl (\<lambda>b t. breaker_failure r t b) (breaker_success b0) ts in
    (fst (breaker_is_open r now b) \<longleftrightarrow> cb_threshold r \<le> length ts \<and> now < last ts + cb_cooldownMs r) \<and>
    (cb_threshold r \<le> length ts \<and> \<not> fst (breaker_is_open r now b) \<longrightarrow>
       snd (breaker_is_open r now b) = breaker_new)"
  using assms by (auto simp: breaker_failures breaker_success_def breaker_is_open_def breaker_new_def)

lemma breaker_opens_after_threshold_witness:
  "fst (breaker_is_open breaker_default 30004
     (foldl (\<lambda>b t. breaker_failure breaker_default t b) (breaker_success breaker_new) [1, 2, 3, 4, 5]))"
  using breaker_opens_after_threshold [of "[1, 2, 3, 4, 5]" breaker_default breaker_new 30004]
  by (simp add: Let_def breaker_default_def)

text \<open>
  C10: Of the replicas that share the table, at most one holds an unexpired lease of a key, whatever
  the order of their statements and however time passes between them.
\<close>

theorem lease_exclusive:
  assumes "reach lease_init lease_step s"
    and "map_of (ls_held s) (a, key) = Some u" "ls_now s < u"
    and "map_of (ls_held s) (b, key) = Some v" "ls_now s < v"
  shows "a = b"
  using lease_replicas.reach_inv [OF assms(1)] assms(2-5) unfolding lease_inv_def
  by (metis option.inject prod.inject)

definition demo_lease :: lease_system where
  "demo_lease = lease_next (Lease_Acquire ''q'' ''k'' 30) (lease_next (Lease_Tick 10)
     (lease_next (Lease_Acquire ''p'' ''k'' 30) \<lparr>ls_rows = [], ls_now = 0, ls_held = []\<rparr>))"

lemma lease_exclusive_witness: "map_of (ls_held demo_lease) (''q'', ''k'') = None"
proof (rule ccontr)
  assume "map_of (ls_held demo_lease) (''q'', ''k'') \<noteq> None"
  moreover have "map_of (ls_held demo_lease) (''q'', ''k'') \<in> {None, Some 40}" "ls_now demo_lease = 10"
    "map_of (ls_held demo_lease) (''p'', ''k'') = Some 30"
    by (auto simp: demo_lease_def try_acquire_def)
  moreover have "reach lease_init lease_step demo_lease"
    unfolding demo_lease_def
    by (intro lease_next_reach) (simp add: reach_init lease_init_def)
  ultimately have "''p'' = ''q''" using lease_exclusive [of demo_lease "''p''" "''k''" 30 "''q''" 40] by auto
  then show False by simp
qed

end
