(* ===== verification/Codec.thy ===== *)
theory Codec
  imports Prelude
begin

text \<open>
  The encodings the sources use from the JavaScript library: UTF-8 of the modelled code units,
  \<open>base64url\<close> and \<open>base64\<close> of \<open>Buffer\<close>, and the \<open>application/x-www-form-urlencoded\<close> serialiser of
  \<open>URLSearchParams\<close>. A buffer is a list of bytes, each a \<open>char\<close>.
\<close>

section \<open>UTF-8\<close>

definition utf8_char :: "char \<Rightarrow> string" where
  "utf8_char c =
     (if code c < 128 then [c] else [char_of (192 + code c div 64), char_of (128 + code c mod 64)])"

definition utf8 :: "string \<Rightarrow> string" where
  "utf8 s = concat (map utf8_char s)"

text \<open>\<open>toString("utf8")\<close>; \<open>None\<close> where the bytes are not a text of the modelled code units.\<close>

fun utf8_decode :: "string \<Rightarrow> string option" where
  "utf8_decode [] = Some []"
| "utf8_decode [b] = (if code b < 128 then Some [b] else None)"
| "utf8_decode (b # c # s) =
     (if code b < 128 then map_option ((#) b) (utf8_decode (c # s))
      else if (code b = 194 \<or> code b = 195) \<and> 128 \<le> code c \<and> code c < 192
        then map_option ((#) (char_of ((code b - 192) * 64 + (code c - 128)))) (utf8_decode s)
      else None)"

lemma char_of_code [simp]: "char_of (code c) = c"
  by (simp add: code_def)

lemma code_inject: "code c = code d \<longleftrightarrow> c = d"
  by (metis char_of_code)

lemma utf8_decode_char:
  "utf8_decode (utf8_char c @ s) = map_option ((#) c) (utf8_decode s)"
proof (cases "code c < 128")
  case True
  then show ?thesis by (cases s) (auto simp: utf8_char_def)
next
  case False
  define q r where "q = code c div 64" and "r = code c mod 64"
  have "q < 4" using code_less [of c] by (simp add: q_def less_mult_imp_div_less)
  moreover have "2 \<le> q" using False by (simp add: q_def less_eq_div_iff_mult_less_eq)
  ultimately have q: "q = 2 \<or> q = 3" by linarith
  have r: "r < 64" and eq: "q * 64 + r = code c" unfolding q_def r_def by simp_all
  have u: "utf8_char c = [char_of (192 + q), char_of (128 + r)]"
    using False by (simp add: utf8_char_def q_def r_def)
  have "char_of (q * 64 + r) = c" unfolding eq by simp
  moreover have "code (char_of (192 + q)) = 192 + q" "code (char_of (128 + r)) = 128 + r"
    using q r by auto
  ultimately show ?thesis
    unfolding u using q r by (simp only: append_Cons append_Nil utf8_decode.simps) simp
qed

lemma utf8_roundtrip [simp]: "utf8_decode (utf8 s) = Some s"
  by (induction s) (simp_all add: utf8_def utf8_decode_char)

lemma utf8_append [simp]: "utf8 (s @ t) = utf8 s @ utf8 t"
  by (simp add: utf8_def)

lemma utf8_inj: "utf8 s = utf8 t \<longleftrightarrow> s = t"
  by (metis option.inject utf8_roundtrip)

text \<open>A text has one encoding only.\<close>

lemma utf8_decode_unique: "utf8_decode bs = Some s \<Longrightarrow> bs = utf8 s"
proof (induction bs arbitrary: s rule: utf8_decode.induct)
  case 1
  then show ?case by (simp add: utf8_def)
next
  case (2 b)
  then show ?case by (auto simp: utf8_def utf8_char_def split: if_splits)
next
  case (3 b c bs)
  show ?case
  proof (cases "code b < 128")
    case True
    with 3(3) obtain t where "s = b # t" "utf8_decode (c # bs) = Some t" by auto
    with 3(1) True show ?thesis by (simp add: utf8_def utf8_char_def)
  next
    case False
    with 3(3) obtain t where b: "code b = 194 \<or> code b = 195" and c: "128 \<le> code c" "code c < 192"
      and s: "s = char_of ((code b - 192) * 64 + (code c - 128)) # t" "utf8_decode bs = Some t"
      by (auto split: if_splits)
    define n where "n = (code b - 192) * 64 + (code c - 128)"
    obtain m where m: "code c = 128 + m" using c(1) le_Suc_ex by blast
    with c(2) have "m < 64" by simp
    with b m have n: "n < 256" "128 \<le> n" "192 + n div 64 = code b" "128 + n mod 64 = code c"
      by (auto simp: n_def)
    have "utf8_char (char_of n) = [b, c]"
      using n by (simp add: utf8_char_def)
    moreover have "bs = utf8 t" using 3(2) [OF False _ s(2)] b c by simp
    ultimately show ?thesis by (simp add: s(1) utf8_def flip: n_def)
  qed
qed

section \<open>Base 64\<close>

definition b64_char :: "nat \<Rightarrow> char" where
  "b64_char n =
     (if n < 26 then char_of (65 + n) else if n < 52 then char_of (97 + (n - 26))
      else if n < 62 then char_of (48 + (n - 52)) else if n = 62 then CHR ''-'' else CHR ''_'')"

text \<open>The decoder of \<open>Buffer\<close> accepts both alphabets.\<close>

definition b64_value :: "char \<Rightarrow> nat option" where
  "b64_value c =
     (if is_upper c then Some (code c - 65) else if is_lower c then Some (code c - 97 + 26)
      else if is_digit c then Some (code c - 48 + 52)
      else if c = CHR ''-'' \<or> c = CHR ''+'' then Some 62
      else if c = CHR ''_'' \<or> c = CHR ''/'' then Some 63 else None)"

lemma b64_value_char [simp]: "n < 64 \<Longrightarrow> b64_value (b64_char n) = Some n"
proof -
  assume n: "n < 64"
  have "code (CHR ''-'') = 45" "code (CHR ''_'') = 95" by (simp_all add: code_def)
  with n show ?thesis
    by (auto simp: b64_char_def b64_value_def is_upper_def is_lower_def is_digit_def)
qed

fun b64_digits :: "nat list \<Rightarrow> nat list" where
  "b64_digits [] = []"
| "b64_digits [a] = [a div 4, (a mod 4) * 16]"
| "b64_digits [a, b] = [a div 4, (a mod 4) * 16 + b div 16, (b mod 16) * 4]"
| "b64_digits (a # b # c # s) =
     [a div 4, (a mod 4) * 16 + b div 16, (b mod 16) * 4 + c div 64, c mod 64] @ b64_digits s"

text \<open>What is left of an incomplete group is dropped.\<close>

fun b64_bytes :: "nat list \<Rightarrow> nat list" where
  "b64_bytes (p # q # r # s # ds) =
     [p * 4 + q div 16, (q mod 16) * 16 + r div 4, (r mod 4) * 64 + s] @ b64_bytes ds"
| "b64_bytes [p, q, r] = [p * 4 + q div 16, (q mod 16) * 16 + r div 4]"
| "b64_bytes [p, q] = [p * 4 + q div 16]"
| "b64_bytes _ = []"

lemma b64_digits_less: "\<forall>a \<in> set bs. a < 256 \<Longrightarrow> d \<in> set (b64_digits bs) \<Longrightarrow> d < 64"
  by (induction bs rule: b64_digits.induct) auto

lemma b64_bytes_digits: "\<forall>a \<in> set bs. a < 256 \<Longrightarrow> b64_bytes (b64_digits bs) = bs"
proof (induction bs rule: b64_digits.induct)
  case (4 a b c s)
  have "a div 4 * 4 + ((a mod 4) * 16 + b div 16) div 16 = a"
    "(((a mod 4) * 16 + b div 16) mod 16) * 16 + ((b mod 16) * 4 + c div 64) div 4 = b"
    "(((b mod 16) * 4 + c div 64) mod 4) * 64 + c mod 64 = c"
    using 4(2) by auto
  with 4 show ?case by simp
next
  case (3 a b)
  have "a div 4 * 4 + ((a mod 4) * 16 + b div 16) div 16 = a"
    "(((a mod 4) * 16 + b div 16) mod 16) * 16 + ((b mod 16) * 4) div 4 = b"
    using 3 by auto
  then show ?case by simp
next
  case (2 a)
  have "a div 4 * 4 + ((a mod 4) * 16) div 16 = a" using 2 by presburger
  then show ?case by simp
qed simp

text \<open>\<open>toString("base64url")\<close>, and \<open>Buffer.from(s, "base64url")\<close>, which skips what it does not know.\<close>

definition b64url :: "string \<Rightarrow> string" where
  "b64url bytes = map b64_char (b64_digits (map code bytes))"

definition b64_decode :: "string \<Rightarrow> string" where
  "b64_decode s =
     map char_of (b64_bytes (List.map_filter b64_value (takeWhile (\<lambda>c. c \<noteq> CHR ''='') s)))"

definition b64_std :: "string \<Rightarrow> string" where
  "b64_std bytes =
     map (\<lambda>c. if c = CHR ''-'' then CHR ''+'' else if c = CHR ''_'' then CHR ''/'' else c) (b64url bytes) @
     replicate ((3 - length bytes mod 3) mod 3) (CHR ''='')"

definition is_b64url :: "char \<Rightarrow> bool" where
  "is_b64url c \<longleftrightarrow> is_alnum c \<or> c = CHR ''-'' \<or> c = CHR ''_''"

lemma b64_char_class: "is_b64url (b64_char n)"
  by (auto simp: b64_char_def is_b64url_def is_alnum_def is_upper_def is_lower_def is_digit_def)

lemma b64url_class: "c \<in> set (b64url bytes) \<Longrightarrow> is_b64url c"
  by (auto simp: b64url_def b64_char_class)

lemma map_filter_b64: "\<forall>d \<in> set ds. d < 64 \<Longrightarrow> List.map_filter b64_value (map b64_char ds) = ds"
  by (induction ds) (simp_all add: List.map_filter_simps)

lemma b64_decode_b64url [simp]: "b64_decode (b64url bytes) = bytes"
proof -
  have "\<forall>a \<in> set (map code bytes). a < 256" by (simp add: code_less)
  then have d: "\<forall>d \<in> set (b64_digits (map code bytes)). d < 64" "b64_bytes (b64_digits (map code bytes)) = map code bytes"
    using b64_digits_less b64_bytes_digits by blast+
  have "\<not> is_b64url (CHR ''='')" by code_simp
  then have "takeWhile (\<lambda>c. c \<noteq> CHR ''='') (b64url bytes) = b64url bytes"
    using b64url_class [of _ bytes] by (auto simp: takeWhile_eq_all_conv)
  with d show ?thesis
    unfolding b64_decode_def by (simp only:) (simp add: b64url_def map_filter_b64 comp_def)
qed

lemma map_filter_map_eq: "(\<And>x. x \<in> set xs \<Longrightarrow> g (f x) = g x) \<Longrightarrow> List.map_filter g (map f xs) = List.map_filter g xs"
  by (induction xs) (auto simp: List.map_filter_simps split: option.splits)

lemma b64_decode_b64_std [simp]: "b64_decode (b64_std bytes) = bytes"
proof -
  define f where "f = (\<lambda>c. if c = CHR ''-'' then CHR ''+'' else if c = CHR ''_'' then CHR ''/'' else c)"
  have same: "b64_value (f c) = b64_value c" for c
  proof -
    have "b64_value (CHR ''+'') = b64_value (CHR ''-'')" "b64_value (CHR ''/'') = b64_value (CHR ''_'')"
      by code_simp+
    then show ?thesis by (simp add: f_def)
  qed
  have eq: "\<not> is_b64url (CHR ''='')" by code_simp
  then have "f c \<noteq> CHR ''=''" if "is_b64url c" for c using that by (auto simp: f_def)
  then have all: "\<And>c. c \<in> set (map f (b64url bytes)) \<Longrightarrow> c \<noteq> CHR ''=''"
    using b64url_class [of _ bytes] by auto
  have "takeWhile (\<lambda>c. c \<noteq> CHR ''='') (b64_std bytes) = map f (b64url bytes) @
      takeWhile (\<lambda>c. c \<noteq> CHR ''='') (replicate ((3 - length bytes mod 3) mod 3) (CHR ''=''))"
    unfolding b64_std_def f_def [symmetric] by (rule takeWhile_append2 [OF all])
  then have "takeWhile (\<lambda>c. c \<noteq> CHR ''='') (b64_std bytes) = map f (b64url bytes)"
    by (cases "(3 - length bytes mod 3) mod 3") simp_all
  moreover have "takeWhile (\<lambda>c. c \<noteq> CHR ''='') (b64url bytes) = b64url bytes"
    using b64url_class [of _ bytes] eq by (auto simp: takeWhile_eq_all_conv)
  ultimately have "b64_decode (b64_std bytes) = b64_decode (b64url bytes)"
    unfolding b64_decode_def by (simp only: map_filter_map_eq same)
  then show ?thesis by simp
qed

lemma b64url_inj: "b64url s = b64url t \<longleftrightarrow> s = t"
  by (metis b64_decode_b64url)

lemma b64url_no_dot: "CHR ''.'' \<notin> set (b64url bytes)"
proof -
  have "\<not> is_b64url (CHR ''.'')" by code_simp
  then show ?thesis using b64url_class [of "CHR ''.''" bytes] by blast
qed

lemma b64url_Nil [simp]: "b64url bytes = [] \<longleftrightarrow> bytes = []"
proof -
  have "b64_digits bs = [] \<longleftrightarrow> bs = []" for bs by (cases bs rule: b64_digits.cases) auto
  then show ?thesis by (simp add: b64url_def)
qed

section \<open>Form encoding\<close>

definition hex_digit :: "nat \<Rightarrow> char" where
  "hex_digit n = (if n < 10 then char_of (48 + n) else char_of (55 + n))"

definition hex_value :: "char \<Rightarrow> nat option" where
  "hex_value c =
     (if is_digit c then Some (code c - 48)
      else if 65 \<le> code c \<and> code c \<le> 70 then Some (code c - 55) else None)"

definition form_plain :: "char \<Rightarrow> bool" where
  "form_plain c \<longleftrightarrow> is_alnum c \<or> c \<in> {CHR ''*'', CHR ''-'', CHR ''.'', CHR ''_''}"

definition form_byte :: "char \<Rightarrow> string" where
  "form_byte c =
     (if form_plain c then [c] else if c = CHR '' '' then ''+''
      else [CHR ''%'', hex_digit (code c div 16), hex_digit (code c mod 16)])"

text \<open>The serialisation of one name or value.\<close>

definition form_url_encode :: "string \<Rightarrow> string" where
  "form_url_encode s = concat (map form_byte (utf8 s))"

text \<open>The decoder a server applies, for stating what it reads back.\<close>

fun form_bytes :: "string \<Rightarrow> string option" where
  "form_bytes [] = Some []"
| "form_bytes (c # s) =
     (if c = CHR ''+'' then map_option ((#) (CHR '' '')) (form_bytes s)
      else if c = CHR ''%'' then
        (case s of
           p # q # t \<Rightarrow>
             (case (hex_value p, hex_value q) of
                (Some m, Some n) \<Rightarrow> map_option ((#) (char_of (16 * m + n))) (form_bytes t)
              | _ \<Rightarrow> None)
         | _ \<Rightarrow> None)
      else map_option ((#) c) (form_bytes s))"

definition form_url_decode :: "string \<Rightarrow> string option" where
  "form_url_decode s = Option.bind (form_bytes s) utf8_decode"

lemma hex_value_digit: "n < 16 \<Longrightarrow> hex_value (hex_digit n) = Some n"
  by (auto simp: hex_value_def hex_digit_def is_digit_def)

lemma form_plain_special:
  "\<not> form_plain (CHR ''+'')" "\<not> form_plain (CHR ''%'')" "\<not> form_plain (CHR '':'')"
  by code_simp+

lemma form_byte_decode: "form_bytes (form_byte c @ s) = map_option ((#) c) (form_bytes s)"
proof (cases "form_plain c")
  case True
  with form_plain_special have "c \<noteq> CHR ''+''" "c \<noteq> CHR ''%''" by auto
  with True show ?thesis by (simp add: form_byte_def)
next
  case False
  have "code c div 16 < 16" using code_less [of c] by presburger
  moreover have "16 * (code c div 16) + code c mod 16 = code c" by presburger
  ultimately show ?thesis
    using False by (simp add: form_byte_def hex_value_digit)
qed

lemma form_roundtrip [simp]: "form_url_decode (form_url_encode s) = Some s"
proof -
  have "form_bytes (concat (map form_byte bs)) = Some bs" for bs
    by (induction bs) (simp_all add: form_byte_decode)
  then show ?thesis by (simp add: form_url_decode_def form_url_encode_def)
qed

text \<open>No delimiter survives the encoding.\<close>

lemma hex_digit_alnum: "n < 16 \<Longrightarrow> is_alnum (hex_digit n)"
  by (auto simp: hex_digit_def is_alnum_def is_digit_def is_upper_def)

lemma form_chars: "c \<in> set (form_url_encode s) \<Longrightarrow> form_plain c \<or> c = CHR ''+'' \<or> c = CHR ''%''"
proof -
  have "form_plain c \<or> c = CHR ''+'' \<or> c = CHR ''%''" if "c \<in> set (form_byte d)" for d
  proof -
    have "code d div 16 < 16" "code d mod 16 < 16" using code_less [of d] by presburger+
    then have "form_plain (hex_digit (code d div 16))" "form_plain (hex_digit (code d mod 16))"
      by (simp_all add: form_plain_def hex_digit_alnum)
    with that show ?thesis by (auto simp: form_byte_def split: if_splits)
  qed
  then show "c \<in> set (form_url_encode s) \<Longrightarrow> ?thesis" by (auto simp: form_url_encode_def)
qed

lemma form_no_delimiter:
  "CHR '':'' \<notin> set (form_url_encode s)" "CHR ''&'' \<notin> set (form_url_encode s)"
  "CHR ''='' \<notin> set (form_url_encode s)" "CHR ''?'' \<notin> set (form_url_encode s)"
proof -
  have "\<not> form_plain (CHR '':'')" "\<not> form_plain (CHR ''&'')" "\<not> form_plain (CHR ''='')" "\<not> form_plain (CHR ''?'')"
    by code_simp+
  then show "CHR '':'' \<notin> set (form_url_encode s)" "CHR ''&'' \<notin> set (form_url_encode s)"
    "CHR ''='' \<notin> set (form_url_encode s)" "CHR ''?'' \<notin> set (form_url_encode s)"
    by (auto dest: form_chars)
qed

lemmas form_no_colon = form_no_delimiter(1)

section \<open>Query strings\<close>

text \<open>
  \<open>URLSearchParams\<close>: the names and values in order. Serialising joins the encoded pairs; parsing
  splits at \<open>&\<close> and at the first \<open>=\<close>, and keeps as it stands what is not valid UTF-8.
\<close>

definition form_pair :: "string \<times> string \<Rightarrow> string" where
  "form_pair p = form_url_encode (fst p) @ ''='' @ form_url_encode (snd p)"

definition form_serialize :: "(string \<times> string) list \<Rightarrow> string" where
  "form_serialize kvs = join ''&'' (map form_pair kvs)"

definition form_piece :: "string \<Rightarrow> string" where
  "form_piece s = (case form_url_decode s of None \<Rightarrow> s | Some t \<Rightarrow> t)"

definition form_parse_pair :: "string \<Rightarrow> string \<times> string" where
  "form_parse_pair s =
     (case index_of (CHR ''='') s of
        None \<Rightarrow> (form_piece s, [])
      | Some i \<Rightarrow> (form_piece (take i s), form_piece (drop (Suc i) s)))"

definition form_parse :: "string \<Rightarrow> (string \<times> string) list" where
  "form_parse s = map form_parse_pair (filter (\<lambda>p. p \<noteq> []) (split_on (CHR ''&'') s))"

text \<open>\<open>set\<close>: the first value of the name is replaced and its others are removed, or the pair is appended.\<close>

fun params_set :: "(string \<times> string) list \<Rightarrow> string \<Rightarrow> string \<Rightarrow> (string \<times> string) list" where
  "params_set [] k v = [(k, v)]"
| "params_set (p # ps) k v =
     (if fst p = k then (k, v) # filter (\<lambda>q. fst q \<noteq> k) ps else p # params_set ps k v)"

lemma params_set_get: "map_of (params_set ps k v) j = (if j = k then Some v else map_of ps j)"
proof -
  have "j \<noteq> k \<Longrightarrow> map_of (filter (\<lambda>q. fst q \<noteq> k) qs) j = map_of qs j" for qs :: "(string \<times> string) list"
    by (induction qs) auto
  then show ?thesis by (induction ps k v rule: params_set.induct) auto
qed

lemma form_parse_form_pair: "form_parse_pair (form_pair p) = p"
proof -
  have "index_of (CHR ''='') (form_pair p) = Some (length (form_url_encode (fst p)))"
    using form_no_delimiter(3) [of "fst p"] by (simp add: form_pair_def index_of_append)
  then show ?thesis by (simp add: form_parse_pair_def form_pair_def form_piece_def)
qed

lemma form_parse_serialize [simp]: "form_parse (form_serialize ps) = ps"
proof (cases "ps = []")
  case False
  have "\<forall>w \<in> set (map form_pair ps). CHR ''&'' \<notin> set w"
    using form_no_delimiter(2) by (auto simp: form_pair_def)
  with False have "split_on (CHR ''&'') (form_serialize ps) = map form_pair ps"
    unfolding form_serialize_def by (intro split_on_join) auto
  moreover have "filter (\<lambda>p. p \<noteq> []) (map form_pair ps) = map form_pair ps"
    by (simp add: filter_id_conv form_pair_def)
  ultimately show ?thesis by (simp add: form_parse_def form_parse_form_pair o_def)
qed (simp add: form_parse_def form_serialize_def)

end
