(* ===== verification/Vault.thy ===== *)
theory Vault
  imports Core Codec
begin

text \<open>
  \<^verbatim>\<open>packages/security/src/envelope.ts\<close> and \<^verbatim>\<open>vault.ts\<close>: envelope encryption of
  stored credentials. AES-256-GCM is the platform's: the parameter \<open>aes\<close>, of which the theorems use
  that it opens what it sealed, that its tag has 16 bytes, and that it opens nothing it did not seal
  under the same key, nonce and associated data. Random bytes are arguments.
\<close>

section \<open>Contexts\<close>

datatype credential_purpose =
    Access_Token | Refresh_Token | Client_Secret | Registration_Access_Token
  | Pkce_Verifier | Static_Headers | Dpop_Key

fun purpose_name :: "credential_purpose \<Rightarrow> string" where
  "purpose_name Access_Token = ''access_token''"
| "purpose_name Refresh_Token = ''refresh_token''"
| "purpose_name Client_Secret = ''client_secret''"
| "purpose_name Registration_Access_Token = ''registration_access_token''"
| "purpose_name Pkce_Verifier = ''pkce_verifier''"
| "purpose_name Static_Headers = ''static_headers''"
| "purpose_name Dpop_Key = ''dpop_key''"

record encryption_context =
  ec_tenantId :: string
  ec_purpose :: credential_purpose

definition aad_for :: "encryption_context \<Rightarrow> string" where
  "aad_for c = utf8 (''uap:v1:'' @ ec_tenantId c @ '':'' @ purpose_name (ec_purpose c))"

section \<open>The cipher and the key ring\<close>

record aes =
  aes_seal :: "string \<Rightarrow> string \<Rightarrow> string \<Rightarrow> string \<Rightarrow> string \<times> string"
  aes_open :: "string \<Rightarrow> string \<Rightarrow> string \<Rightarrow> string \<Rightarrow> string \<Rightarrow> string option"

record keyring =
  kr_keys :: "(string \<times> string) list"
  kr_active :: string

definition local_keyring :: "(string \<times> string) list \<Rightarrow> string \<Rightarrow> keyring result" where
  "local_keyring keys active =
     (if map_of keys active = None then Inl (gerr INTERNAL (''Unknown active key id: '' @ active))
      else case find (\<lambda>e. length (snd e) \<noteq> 32) keys of
        Some e \<Rightarrow> Inl (gerr INTERNAL (''Key '' @ fst e @ '' must be 32 bytes''))
      | None \<Rightarrow> Inr \<lparr>kr_keys = keys, kr_active = active\<rparr>)"

definition trim :: "string \<Rightarrow> string" where
  "trim s = strip_trailing is_space (dropWhile is_space s)"

text \<open>The loop of \<open>fromSpec\<close> over the entries that are not empty.\<close>

fun spec_loop ::
  "string list \<Rightarrow> (string \<times> string) list \<Rightarrow> string option \<Rightarrow> ((string \<times> string) list \<times> string option) result" where
  "spec_loop [] keys active = Inr (keys, active)"
| "spec_loop (e # es) keys active =
     (case index_of (CHR '':'') e of
        None \<Rightarrow> Inl (gerr INTERNAL ''Malformed key ring entry'')
      | Some i \<Rightarrow>
          if i = 0 then Inl (gerr INTERNAL ''Malformed key ring entry'')
          else spec_loop es (map_set keys (take i e) (b64_decode (drop (Suc i) e)))
            (case active of None \<Rightarrow> Some (take i e) | Some a \<Rightarrow> Some a))"

definition keyring_from_spec :: "string \<Rightarrow> keyring result" where
  "keyring_from_spec spec =
     bind_result (spec_loop (filter (\<lambda>e. e \<noteq> []) (map trim (split_on (CHR '','') spec))) [] None)
       (\<lambda>(keys, active). case active of
          None \<Rightarrow> Inl (gerr INTERNAL ''Empty key ring'')
        | Some a \<Rightarrow> local_keyring keys a)"

definition with_rotated_key :: "keyring \<Rightarrow> string \<Rightarrow> string \<Rightarrow> keyring result" where
  "with_rotated_key kr keyId fresh = local_keyring (map_set (kr_keys kr) keyId fresh) keyId"

definition require_key :: "keyring \<Rightarrow> string \<Rightarrow> string result" where
  "require_key kr keyId =
     (case map_of (kr_keys kr) keyId of
        None \<Rightarrow> Inl (gerr INTERNAL (''Key '' @ keyId @ '' is not present in the key ring''))
      | Some k \<Rightarrow> Inr k)"

definition wrap_key :: "aes \<Rightarrow> keyring \<Rightarrow> string \<Rightarrow> string \<Rightarrow> string \<Rightarrow> string result" where
  "wrap_key a kr keyId iv dataKey =
     bind_result (require_key kr keyId)
       (\<lambda>kek. let (ct, tag) = aes_seal a kek iv [] dataKey in Inr (iv @ tag @ ct))"

text \<open>A failed \<open>final()\<close> throws an error of the platform's.\<close>

definition unsupported_state :: gateway_error where
  "unsupported_state = to_gateway_error (OtherError ''Unsupported state or unable to authenticate data'')"

definition unwrap_key :: "aes \<Rightarrow> keyring \<Rightarrow> string \<Rightarrow> string \<Rightarrow> string result" where
  "unwrap_key a kr keyId wrapped =
     bind_result (require_key kr keyId)
       (\<lambda>kek. case aes_open a kek (take 12 wrapped) [] (drop 28 wrapped) (take 16 (drop 12 wrapped)) of
          None \<Rightarrow> Inl unsupported_state
        | Some k \<Rightarrow> Inr k)"

section \<open>Envelopes\<close>

record envelope =
  en_version :: string
  en_keyId :: string
  en_wrappedKey :: string
  en_iv :: string
  en_tag :: string
  en_ciphertext :: string

definition encode_envelope :: "envelope \<Rightarrow> string" where
  "encode_envelope e =
     join ''.'' [en_version e, en_keyId e, b64url (en_wrappedKey e), b64url (en_iv e),
                 b64url (en_tag e), b64url (en_ciphertext e)]"

definition envelope_version :: string where
  "envelope_version = ''v1''"

fun decode_segments :: "string list \<Rightarrow> envelope result" where
  "decode_segments [v, k, w, i, t, c] =
     (if v \<noteq> envelope_version then Inl (gerr INTERNAL ''Malformed ciphertext envelope'')
      else Inr \<lparr>en_version = v, en_keyId = k, en_wrappedKey = b64_decode w, en_iv = b64_decode i,
                en_tag = b64_decode t, en_ciphertext = b64_decode c\<rparr>)"
| "decode_segments _ = Inl (gerr INTERNAL ''Malformed ciphertext envelope'')"

definition decode_envelope :: "string \<Rightarrow> envelope result" where
  "decode_envelope v = decode_segments (split_on (CHR ''.'') v)"

text \<open>The random bytes one encryption draws.\<close>

record seal_random =
  sl_dataKey :: string
  sl_iv :: string
  sl_wrapIv :: string

definition envelope_encrypt :: "aes \<Rightarrow> keyring \<Rightarrow> seal_random \<Rightarrow> string \<Rightarrow> string \<Rightarrow> string result" where
  "envelope_encrypt a kr r plaintext aad =
     (let (ct, tag) = aes_seal a (sl_dataKey r) (sl_iv r) aad (utf8 plaintext) in
      bind_result (wrap_key a kr (kr_active kr) (sl_wrapIv r) (sl_dataKey r))
        (\<lambda>wrapped. Inr (encode_envelope
           \<lparr>en_version = envelope_version, en_keyId = kr_active kr, en_wrappedKey = wrapped,
            en_iv = sl_iv r, en_tag = tag, en_ciphertext = ct\<rparr>)))"

definition envelope_decrypt :: "aes \<Rightarrow> keyring \<Rightarrow> string \<Rightarrow> string \<Rightarrow> string result" where
  "envelope_decrypt a kr v aad =
     bind_result (decode_envelope v) (\<lambda>e.
     bind_result (unwrap_key a kr (en_keyId e) (en_wrappedKey e)) (\<lambda>dataKey.
       case Option.bind (aes_open a dataKey (en_iv e) aad (en_ciphertext e) (en_tag e)) utf8_decode of
         None \<Rightarrow> Inl unsupported_state
       | Some p \<Rightarrow> Inr p))"

section \<open>The vault\<close>

definition vault_encrypt ::
  "aes \<Rightarrow> keyring \<Rightarrow> seal_random \<Rightarrow> encryption_context \<Rightarrow> string \<Rightarrow> string result" where
  "vault_encrypt a kr r c plaintext = envelope_encrypt a kr r plaintext (aad_for c)"

definition vault_decrypt :: "aes \<Rightarrow> keyring \<Rightarrow> encryption_context \<Rightarrow> string \<Rightarrow> string result" where
  "vault_decrypt a kr c ciphertext =
     (case envelope_decrypt a kr ciphertext (aad_for c) of
        Inl e \<Rightarrow> Inl (gerr INTERNAL
          (''Unable to decrypt '' @ purpose_name (ec_purpose c) @ '' for the requested tenant''))
      | Inr p \<Rightarrow> Inr p)"

definition vault_encrypt_optional ::
  "aes \<Rightarrow> keyring \<Rightarrow> seal_random \<Rightarrow> encryption_context \<Rightarrow> string option \<Rightarrow> string option result" where
  "vault_encrypt_optional a kr r c p =
     (case p of None \<Rightarrow> Inr None | Some q \<Rightarrow> map_sum id Some (vault_encrypt a kr r c q))"

definition vault_decrypt_optional ::
  "aes \<Rightarrow> keyring \<Rightarrow> encryption_context \<Rightarrow> string option \<Rightarrow> string option result" where
  "vault_decrypt_optional a kr c ct =
     (case ct of None \<Rightarrow> Inr None | Some q \<Rightarrow> map_sum id Some (vault_decrypt a kr c q))"

definition vault_rewrap ::
  "aes \<Rightarrow> keyring \<Rightarrow> seal_random \<Rightarrow> encryption_context \<Rightarrow> string \<Rightarrow> string result" where
  "vault_rewrap a kr r c ciphertext =
     bind_result (vault_decrypt a kr c ciphertext) (\<lambda>p. vault_encrypt a kr r c p)"

definition needs_rewrap :: "keyring \<Rightarrow> string \<Rightarrow> bool result" where
  "needs_rewrap kr ciphertext =
     bind_result (decode_envelope ciphertext) (\<lambda>e. Inr (en_keyId e \<noteq> kr_active kr))"

section \<open>What the platform's cipher does\<close>

text \<open>
  AES-256-GCM: what was sealed opens, and only what was sealed opens with a whole tag. (No length is set
  for tags, so the platform also takes one that was cut; of those nothing is said.)
\<close>

definition aes_ok :: "aes \<Rightarrow> bool" where
  "aes_ok a \<longleftrightarrow>
     (\<forall>k iv aad p. length (snd (aes_seal a k iv aad p)) = 16 \<and>
        aes_open a k iv aad (fst (aes_seal a k iv aad p)) (snd (aes_seal a k iv aad p)) = Some p) \<and>
     (\<forall>k iv aad c t p. length t = 16 \<longrightarrow> aes_open a k iv aad c t = Some p \<longrightarrow> aes_seal a k iv aad p = (c, t))"

definition ring_ok :: "keyring \<Rightarrow> bool" where
  "ring_ok kr \<longleftrightarrow> map_of (kr_keys kr) (kr_active kr) \<noteq> None"

definition id_ok :: "string \<Rightarrow> bool" where
  "id_ok k \<longleftrightarrow> CHR ''.'' \<notin> set k"

text \<open>A ring that still holds every key of another.\<close>

definition ring_extends :: "keyring \<Rightarrow> keyring \<Rightarrow> bool" where
  "ring_extends kr kr' \<longleftrightarrow>
     (\<forall>i k. map_of (kr_keys kr) i = Some k \<longrightarrow> map_of (kr_keys kr') i = Some k)"

lemma local_keyring_ok: "local_keyring keys active = Inr kr \<Longrightarrow> ring_ok kr"
  by (auto simp: local_keyring_def ring_ok_def split: if_splits option.splits)

lemma aad_for_inj: "aad_for c = aad_for d \<longleftrightarrow> c = d"
proof
  assume "aad_for c = aad_for d"
  then have "ec_tenantId c @ '':'' @ purpose_name (ec_purpose c) = ec_tenantId d @ '':'' @ purpose_name (ec_purpose d)"
    by (simp add: aad_for_def utf8_inj)
  then have "rev (purpose_name (ec_purpose c)) @ '':'' @ rev (ec_tenantId c) =
      rev (purpose_name (ec_purpose d)) @ '':'' @ rev (ec_tenantId d)"
    by (metis append.assoc rev_append rev_singleton_conv)
  then have "ec_purpose c = ec_purpose d \<and> ec_tenantId c = ec_tenantId d"
    by (cases "ec_purpose c"; cases "ec_purpose d") simp_all
  then show "c = d" by simp
qed simp

lemma decode_encode_envelope:
  assumes "id_ok (en_keyId e)" "en_version e = envelope_version"
  shows "decode_envelope (encode_envelope e) = Inr e"
proof -
  have "split_on (CHR ''.'') (encode_envelope e) =
      [en_version e, en_keyId e, b64url (en_wrappedKey e), b64url (en_iv e), b64url (en_tag e), b64url (en_ciphertext e)]"
    unfolding encode_envelope_def
    using assms by (intro split_on_join) (auto simp: id_ok_def b64url_no_dot envelope_version_def)
  with assms(2) show ?thesis by (simp add: decode_envelope_def)
qed

lemma unwrap_wrap:
  assumes "aes_ok a" "length iv = 12" "wrap_key a kr i iv k = Inr w" "ring_extends kr kr'"
  shows "unwrap_key a kr' i w = Inr k"
proof -
  obtain kek where kek: "map_of (kr_keys kr) i = Some kek"
    using assms(3) by (auto simp: wrap_key_def require_key_def split: option.splits)
  obtain ct tag where s: "aes_seal a kek iv [] k = (ct, tag)" by (cases "aes_seal a kek iv [] k")
  then have "length tag = 16" "aes_open a kek iv [] ct tag = Some k"
    using assms(1) by (auto simp: aes_ok_def) (metis fst_conv snd_conv)+
  moreover have "w = iv @ tag @ ct" using assms(3) kek s by (simp add: wrap_key_def require_key_def)
  moreover have "map_of (kr_keys kr') i = Some kek" using assms(4) kek by (simp add: ring_extends_def)
  ultimately show ?thesis using assms(2) by (simp add: unwrap_key_def require_key_def)
qed

text \<open>An envelope that was encoded decodes to its data key and to what the cipher makes of the rest.\<close>

lemma envelope_decrypt_encrypt:
  assumes "aes_ok a" "length (sl_wrapIv r) = 12" "id_ok (kr_active kr)" "ring_extends kr kr'"
    and "envelope_encrypt a kr r p aad = Inr v"
  shows "envelope_decrypt a kr' v aad' =
    (case Option.bind (aes_open a (sl_dataKey r) (sl_iv r) aad'
        (fst (aes_seal a (sl_dataKey r) (sl_iv r) aad (utf8 p)))
        (snd (aes_seal a (sl_dataKey r) (sl_iv r) aad (utf8 p)))) utf8_decode of
       None \<Rightarrow> Inl unsupported_state | Some q \<Rightarrow> Inr q)"
proof -
  obtain ct tag where s: "aes_seal a (sl_dataKey r) (sl_iv r) aad (utf8 p) = (ct, tag)"
    by (cases "aes_seal a (sl_dataKey r) (sl_iv r) aad (utf8 p)")
  with assms(5) obtain w where w: "wrap_key a kr (kr_active kr) (sl_wrapIv r) (sl_dataKey r) = Inr w"
    and v: "v = encode_envelope \<lparr>en_version = envelope_version, en_keyId = kr_active kr,
        en_wrappedKey = w, en_iv = sl_iv r, en_tag = tag, en_ciphertext = ct\<rparr>"
    by (auto simp: envelope_encrypt_def bind_result_Inr)
  show ?thesis
    using unwrap_wrap [OF assms(1,2) w assms(4)] assms(3)
    by (simp add: v envelope_decrypt_def decode_encode_envelope s)
qed

lemma envelope_encrypt_total: "ring_ok kr \<Longrightarrow> \<exists>v. envelope_encrypt a kr r p aad = Inr v"
  by (auto simp: envelope_encrypt_def wrap_key_def require_key_def ring_ok_def split: prod.splits)

lemma vault_encrypt_keyId:
  assumes "vault_encrypt a kr r c p = Inr v" "id_ok (kr_active kr)"
  shows "\<exists>e. decode_envelope v = Inr e \<and> en_keyId e = kr_active kr"
  using assms
  by (auto simp: vault_encrypt_def envelope_encrypt_def bind_result_Inr decode_encode_envelope
      split: prod.splits)

lemma split_on_length: "length (split_on c s) = Suc (length (filter (\<lambda>d. d = c) s))"
  by (induction s) (auto split: list.splits)

lemma decode_too_long: "CHR ''.'' \<in> set (en_keyId e) \<Longrightarrow> \<exists>g. decode_envelope (encode_envelope e) = Inl g"
proof -
  assume "CHR ''.'' \<in> set (en_keyId e)"
  then have "0 < length (filter (\<lambda>d. d = CHR ''.'') (en_keyId e))"
    by (simp add: filter_empty_conv)
  then have "6 < length (split_on (CHR ''.'') (encode_envelope e))"
    by (simp add: split_on_length encode_envelope_def)
  then show ?thesis
    unfolding decode_envelope_def by (cases "split_on (CHR ''.'') (encode_envelope e)" rule: decode_segments.cases) auto
qed

section \<open>Properties\<close>

text \<open>
  C35: What the vault seals under an active key whose id has no full stop it reads back, under the same
  context, with any later key ring that still holds the keys of the ring it was sealed under; rewrapping
  it moves it to the active key of that ring, whose id has no full stop either, and loses nothing.
\<close>

theorem vault_reads_back:
  assumes "aes_ok a" and "length (sl_wrapIv r) = 12" and "length (sl_wrapIv r2) = 12"
    and "ring_ok kr" and "ring_ok kr'" and "ring_extends kr kr'"
    and "id_ok (kr_active kr)" and "id_ok (kr_active kr')"
  shows "\<exists>v w. vault_encrypt a kr r c p = Inr v \<and> vault_decrypt a kr' c v = Inr p \<and>
    vault_rewrap a kr' r2 c v = Inr w \<and> needs_rewrap kr' w = Inr False \<and> vault_decrypt a kr' c w = Inr p"
proof -
  have opens: "vault_decrypt a k2 c v = Inr p"
    if "vault_encrypt a k1 s c p = Inr v" "length (sl_wrapIv s) = 12" "id_ok (kr_active k1)" "ring_extends k1 k2"
    for k1 k2 s v
    using assms(1) envelope_decrypt_encrypt [OF assms(1) that(2-4), of p "aad_for c" v] that(1)
    by (simp add: vault_decrypt_def vault_encrypt_def aes_ok_def)
  obtain v where v: "vault_encrypt a kr r c p = Inr v"
    using envelope_encrypt_total [OF assms(4)] unfolding vault_encrypt_def by blast
  obtain w where w: "vault_encrypt a kr' r2 c p = Inr w"
    using envelope_encrypt_total [OF assms(5)] unfolding vault_encrypt_def by blast
  have dv: "vault_decrypt a kr' c v = Inr p" using opens [OF v] assms by simp
  have "vault_decrypt a kr' c w = Inr p" using opens [OF w] assms by (simp add: ring_extends_def)
  moreover have "needs_rewrap kr' w = Inr False"
    using vault_encrypt_keyId [OF w assms(8)] by (auto simp: needs_rewrap_def)
  ultimately show ?thesis using v w dv by (simp add: vault_rewrap_def)
qed

definition toy_aes :: aes where
  "toy_aes = \<lparr>aes_seal = (\<lambda>k iv aad p. (p, replicate 16 (CHR ''t''))),
     aes_open = (\<lambda>k iv aad c t. if t = replicate 16 (CHR ''t'') then Some c else None)\<rparr>"

definition demo_ring :: "string \<Rightarrow> keyring" where
  "demo_ring i = \<lparr>kr_keys = [(''k1'', replicate 32 (CHR ''a'')), (''k2'', replicate 32 (CHR ''b'')),
     (''k.3'', replicate 32 (CHR ''c''))], kr_active = i\<rparr>"

definition demo_random :: seal_random where
  "demo_random = \<lparr>sl_dataKey = replicate 32 (CHR ''d''), sl_iv = replicate 12 (CHR ''i''),
     sl_wrapIv = replicate 12 (CHR ''w'')\<rparr>"

lemma demo_ring_ok: "ring_ok (demo_ring ''k1'')" "ring_ok (demo_ring ''k.3'')"
  by (simp_all add: ring_ok_def demo_ring_def)

lemma toy_aes_ok: "aes_ok toy_aes"
  by (auto simp: aes_ok_def toy_aes_def)

definition demo_context :: encryption_context where
  "demo_context = \<lparr>ec_tenantId = ''a:b'', ec_purpose = Refresh_Token\<rparr>"

lemma vault_reads_back_witness:
  "\<exists>v. vault_encrypt toy_aes (demo_ring ''k1'') demo_random demo_context ''rt'' = Inr v \<and>
     vault_decrypt toy_aes (demo_ring ''k2'') demo_context v = Inr ''rt''"
proof -
  have "ring_ok (demo_ring ''k1'')" "ring_ok (demo_ring ''k2'')"
    "id_ok (kr_active (demo_ring ''k1''))" "id_ok (kr_active (demo_ring ''k2''))"
    "ring_extends (demo_ring ''k1'') (demo_ring ''k2'')" "length (sl_wrapIv demo_random) = 12"
    by (simp_all add: ring_ok_def id_ok_def ring_extends_def demo_ring_def demo_random_def)
  then show ?thesis
    using vault_reads_back [OF toy_aes_ok, of demo_random demo_random "demo_ring ''k1''" "demo_ring ''k2''"
        demo_context "''rt''"]
    by blast
qed

text \<open>
  C11: A ciphertext that opens under another tenant or another purpose than it was sealed for is a
  forgery against the cipher: the same key, nonce and tag under two different associated data.
\<close>

theorem vault_binds_context:
  assumes "aes_ok a" and "length (sl_wrapIv r) = 12" and "id_ok (kr_active kr)" and "c \<noteq> d"
    and "vault_encrypt a kr r c p = Inr v" and "vault_decrypt a kr d v = Inr q"
  shows "aad_for c \<noteq> aad_for d \<and>
    aes_seal a (sl_dataKey r) (sl_iv r) (aad_for c) (utf8 p) =
    aes_seal a (sl_dataKey r) (sl_iv r) (aad_for d) (utf8 q)"
proof -
  have ext: "ring_extends kr kr" by (simp add: ring_extends_def)
  let ?s = "aes_seal a (sl_dataKey r) (sl_iv r) (aad_for c) (utf8 p)"
  obtain bytes where o: "aes_open a (sl_dataKey r) (sl_iv r) (aad_for d) (fst ?s) (snd ?s) = Some bytes"
    and q: "utf8_decode bytes = Some q"
    using assms(5,6) envelope_decrypt_encrypt [OF assms(1-3) ext, of p "aad_for c" v "aad_for d"]
    by (auto simp: vault_encrypt_def vault_decrypt_def bind_eq_Some_conv split: option.splits sum.splits)
  have "?s = aes_seal a (sl_dataKey r) (sl_iv r) (aad_for d) bytes"
    using assms(1) o unfolding aes_ok_def by (metis prod.collapse)
  moreover have "bytes = utf8 q" using q by (rule utf8_decode_unique)
  ultimately show ?thesis using assms(4) by (simp add: aad_for_inj)
qed

lemma vault_binds_context_witness:
  "aad_for demo_context \<noteq> aad_for (demo_context\<lparr>ec_tenantId := ''b''\<rparr>)"
proof -
  obtain v where v: "vault_encrypt toy_aes (demo_ring ''k1'') demo_random demo_context ''rt'' = Inr v"
    using envelope_encrypt_total [OF demo_ring_ok(1)] unfolding vault_encrypt_def by blast
  have ok: "length (sl_wrapIv demo_random) = 12" "id_ok (kr_active (demo_ring ''k1''))"
    by (simp_all add: demo_random_def id_ok_def demo_ring_def)
  have "vault_decrypt toy_aes (demo_ring ''k1'') (demo_context\<lparr>ec_tenantId := ''b''\<rparr>) v = Inr ''rt''"
    using envelope_decrypt_encrypt [OF toy_aes_ok ok, of "demo_ring ''k1''" "''rt''" "aad_for demo_context" v]
      v
    by (simp add: vault_encrypt_def vault_decrypt_def ring_extends_def toy_aes_def)
  from vault_binds_context [OF toy_aes_ok ok _ v this] show ?thesis by (simp add: demo_context_def)
qed

text \<open>
  A key id with a full stop, which \<open>fromSpec\<close> accepts, makes every credential sealed under it
  unreadable: the envelope's separator is not escaped.
\<close>

theorem dotted_key_id_unreadable:
  "keyring_from_spec (''k.3:'' @ b64url (replicate 32 (CHR ''c''))) =
     Inr \<lparr>kr_keys = [(''k.3'', replicate 32 (CHR ''c''))], kr_active = ''k.3''\<rparr> \<and>
   (\<forall>a kr r c p v. CHR ''.'' \<in> set (kr_active kr) \<longrightarrow> vault_encrypt a kr r c p = Inr v \<longrightarrow>
      (\<exists>e. vault_decrypt a kr c v = Inl e))"
proof (intro conjI allI impI)
  show "keyring_from_spec (''k.3:'' @ b64url (replicate 32 (CHR ''c''))) =
     Inr \<lparr>kr_keys = [(''k.3'', replicate 32 (CHR ''c''))], kr_active = ''k.3''\<rparr>"
    by code_simp
next
  fix a kr r c p v
  assume dot: "CHR ''.'' \<in> set (kr_active kr)" and v: "vault_encrypt a kr r c p = Inr v"
  then obtain e where "v = encode_envelope e" "en_keyId e = kr_active kr"
    by (auto simp: vault_encrypt_def envelope_encrypt_def bind_result_Inr split: prod.splits)
  then obtain g where "decode_envelope v = Inl g" using decode_too_long [of e] dot by auto
  then show "\<exists>e. vault_decrypt a kr c v = Inl e"
    by (simp add: vault_decrypt_def envelope_decrypt_def)
qed

lemma dotted_key_id_unreadable_witness:
  "\<exists>v e. vault_encrypt toy_aes (demo_ring ''k.3'') demo_random demo_context ''rt'' = Inr v \<and>
     vault_decrypt toy_aes (demo_ring ''k.3'') demo_context v = Inl e"
proof -
  obtain v where v: "vault_encrypt toy_aes (demo_ring ''k.3'') demo_random demo_context ''rt'' = Inr v"
    using envelope_encrypt_total [OF demo_ring_ok(2)] unfolding vault_encrypt_def by blast
  have "CHR ''.'' \<in> set (kr_active (demo_ring ''k.3''))" by (simp add: demo_ring_def)
  with v show ?thesis using dotted_key_id_unreadable by blast
qed

end
