(* ===== verification/Url_Policy.thy ===== *)
theory Url_Policy
  imports Core
begin

text \<open>
  \<^verbatim>\<open>packages/security/src/url.ts\<close> and \<^verbatim>\<open>origin.ts\<close>: canonical URLs, issuers, the
  well-known locations and the origin checks. The platform's URL parser is the parameter
  \<open>parse :: string \<Rightarrow> url option\<close> (\<open>None\<close> where \<open>new URL\<close> throws); serialisation is written out.
\<close>

section \<open>URLs\<close>

text \<open>
  \<open>ul_authority\<close> tells a URL that has a host, if an empty one, from one that has none, as \<open>mailto:\<close> or
  \<open>data:\<close>; every http URL has one.
\<close>

record url =
  ul_protocol :: string
  ul_authority :: bool
  ul_username :: string
  ul_password :: string
  ul_hostname :: string
  ul_port :: string
  ul_pathname :: string
  ul_search :: string
  ul_hash :: string

type_synonym url_parser = "string \<Rightarrow> url option"

definition url_host :: "url \<Rightarrow> string" where
  "url_host u = ul_hostname u @ (if ul_port u = [] then [] else '':'' @ ul_port u)"

definition is_http :: "url \<Rightarrow> bool" where
  "is_http u \<longleftrightarrow> ul_protocol u = ''http:'' \<or> ul_protocol u = ''https:''"

text \<open>\<open>url.origin\<close>; a scheme without an origin of its own serialises as \<open>null\<close>.\<close>

definition url_origin :: "url \<Rightarrow> string" where
  "url_origin u =
     (if ul_protocol u \<in> {''http:'', ''https:'', ''ftp:'', ''ws:'', ''wss:''}
      then ul_protocol u @ ''//'' @ url_host u else ''null'')"

definition url_href :: "url \<Rightarrow> string" where
  "url_href u =
     ul_protocol u @
     (if ul_authority u then
        ''//'' @
        (if ul_username u = [] \<and> ul_password u = [] then []
         else ul_username u @ (if ul_password u = [] then [] else '':'' @ ul_password u) @ ''@'') @
        url_host u
      else if starts_with ''//'' (ul_pathname u) then ''/.'' else []) @
     ul_pathname u @ ul_search u @ ul_hash u"

text \<open>The setter of \<open>pathname\<close>: the path of an http URL is never empty.\<close>

definition set_pathname :: "string \<Rightarrow> url \<Rightarrow> url" where
  "set_pathname p u = u\<lparr>ul_pathname := (if p = [] then ''/'' else p)\<rparr>"

record url_policy =
  up_allowHttp :: bool

definition parse_absolute_url :: "url_parser \<Rightarrow> string \<Rightarrow> url result" where
  "parse_absolute_url parse input =
     (case parse input of
        None \<Rightarrow> Inl (gerr INVALID_REQUEST (''Not an absolute URL: '' @ input))
      | Some u \<Rightarrow>
          if \<not> is_http u then Inl (gerr INVALID_REQUEST (''Unsupported URL scheme: '' @ ul_protocol u))
          else Inr u)"

section \<open>Canonical forms\<close>

definition default_port :: "string \<Rightarrow> string option" where
  "default_port protocol =
     (if protocol = ''http:'' then Some ''80'' else if protocol = ''https:'' then Some ''443'' else None)"

text \<open>The loop that drops trailing slashes but leaves one character.\<close>

function trim_path :: "string \<Rightarrow> string" where
  "trim_path p = (if length p > 1 \<and> last p = CHR ''/'' then trim_path (butlast p) else p)"
  by pat_completeness auto
termination by (relation "measure length") auto

declare trim_path.simps [simp del]

definition strip_one_slash :: "string \<Rightarrow> string" where
  "strip_one_slash s = (if s \<noteq> [] \<and> last s = CHR ''/'' then butlast s else s)"

definition canonical_url :: "url \<Rightarrow> url" where
  "canonical_url u =
     (let protocol = to_lower (ul_protocol u);
          port = (if default_port protocol = Some (ul_port u) then [] else ul_port u);
          path = trim_path (ul_pathname u)
      in set_pathname (if path = ''/'' then [] else path)
           (u\<lparr>ul_hash := [], ul_username := [], ul_password := [], ul_protocol := protocol,
              ul_hostname := to_lower (ul_hostname u), ul_port := port\<rparr>))"

definition canonicalize_url :: "url_parser \<Rightarrow> url_policy \<Rightarrow> string \<Rightarrow> string result" where
  "canonicalize_url parse policy input =
     bind_result (parse_absolute_url parse input) (\<lambda>u.
       if ul_protocol u = ''http:'' \<and> \<not> up_allowHttp policy
       then Inl (gerr INVALID_REQUEST ''Remote MCP servers must be reachable over HTTPS'')
       else Inr (strip_one_slash (url_href (canonical_url u))))"

definition is_slash :: "char \<Rightarrow> bool" where
  "is_slash c \<longleftrightarrow> c = CHR ''/''"

definition canonical_issuer :: "string \<Rightarrow> string" where
  "canonical_issuer issuer = strip_trailing is_slash issuer"

definition same_issuer :: "string \<Rightarrow> string \<Rightarrow> bool" where
  "same_issuer l r \<longleftrightarrow> canonical_issuer l = canonical_issuer r"

text \<open>\<open>new URL\<close> on a canonical URL may throw a \<open>TypeError\<close>, which is an error of no code of ours.\<close>

definition resource_identifier :: "url_parser \<Rightarrow> url_policy \<Rightarrow> string \<Rightarrow> string result" where
  "resource_identifier parse policy input =
     bind_result (canonicalize_url parse policy input) (\<lambda>c.
       case parse c of
         None \<Rightarrow> Inl (to_gateway_error (OtherError ''Invalid URL''))
       | Some u \<Rightarrow> Inr (strip_one_slash (url_href (u\<lparr>ul_search := []\<rparr>))))"

section \<open>Well-known locations\<close>

definition issuer_to_well_known :: "url_parser \<Rightarrow> string \<Rightarrow> string \<Rightarrow> string list result" where
  "issuer_to_well_known parse issuer suffix =
     bind_result (parse_absolute_url parse issuer) (\<lambda>u.
       let path = strip_trailing is_slash (ul_pathname u);
           origin = ul_protocol u @ ''//'' @ url_host u
       in if path = [] \<or> path = ''/'' then Inr [origin @ ''/.well-known/'' @ suffix]
          else Inr [origin @ ''/.well-known/'' @ suffix @ path, origin @ path @ ''/.well-known/'' @ suffix])"

definition resource_metadata_candidates :: "url_parser \<Rightarrow> string \<Rightarrow> string list result" where
  "resource_metadata_candidates parse resource =
     bind_result (parse_absolute_url parse resource) (\<lambda>u.
       let path = strip_trailing is_slash (ul_pathname u);
           origin = ul_protocol u @ ''//'' @ url_host u
       in Inr ((origin @ ''/.well-known/oauth-protected-resource'' @ path) #
               (if path \<noteq> [] then [origin @ ''/.well-known/oauth-protected-resource''] else [])))"

section \<open>Origins\<close>

definition normal_origin :: "string \<Rightarrow> string" where
  "normal_origin s = to_lower (strip_trailing is_slash s)"

definition is_origin_allowed :: "string option \<Rightarrow> string list \<Rightarrow> bool" where
  "is_origin_allowed origin allowed =
     (case origin of
        None \<Rightarrow> True
      | Some s \<Rightarrow>
          s = [] \<or> ''*'' \<in> set allowed \<or> list_ex (\<lambda>a. normal_origin a = normal_origin s) allowed)"

definition is_return_url_allowed :: "url_parser \<Rightarrow> string \<Rightarrow> string list \<Rightarrow> bool" where
  "is_return_url_allowed parse returnTo allowed =
     (case parse returnTo of
        None \<Rightarrow> False
      | Some u \<Rightarrow> is_http u \<and> is_origin_allowed (Some (url_origin u)) allowed)"

section \<open>Lemmas\<close>

lemma canonical_issuer_idem [simp]: "canonical_issuer (canonical_issuer i) = canonical_issuer i"
  by (simp add: canonical_issuer_def)

lemma same_issuer_equiv: "equivp same_issuer"
  by (intro equivpI) (auto simp: same_issuer_def reflp_def symp_def transp_def)

lemma same_issuer_canonical [simp]: "same_issuer (canonical_issuer i) j = same_issuer i j"
  by (simp add: same_issuer_def)

lemma trim_path_last: "trim_path p = [] \<or> trim_path p = ''/'' \<or> last (trim_path p) \<noteq> CHR ''/''"
proof (induction p rule: trim_path.induct)
  case (1 p)
  show ?case
  proof (cases "length p > 1 \<and> last p = CHR ''/''")
    case True
    with 1 show ?thesis by (simp add: trim_path.simps [of p])
  next
    case False
    then have tp: "trim_path p = p" by (auto simp: trim_path.simps [of p])
    show ?thesis unfolding tp using False by (cases p; cases "tl p") auto
  qed
qed

lemma trim_path_prefix: "\<exists>k. p = trim_path p @ replicate k (CHR ''/'')"
proof (induction p rule: trim_path.induct)
  case (1 p)
  show ?case
  proof (cases "length p > 1 \<and> last p = CHR ''/''")
    case True
    then obtain k where "butlast p = trim_path (butlast p) @ replicate k (CHR ''/'')"
      using "1.IH" by blast
    moreover have "p = butlast p @ [CHR ''/'']"
      using True by (metis append_butlast_last_id length_0_conv less_nat_zero_code)
    ultimately have "p = trim_path p @ replicate (Suc k) (CHR ''/'')"
      using True by (metis append.assoc replicate_append_same replicate_Suc trim_path.simps)
    then show ?thesis by blast
  next
    case False
    then have "p = trim_path p @ replicate 0 (CHR ''/'')" by (auto simp: trim_path.simps [of p])
    then show ?thesis by blast
  qed
qed

lemma trim_path_hd: "p \<noteq> [] \<Longrightarrow> trim_path p \<noteq> [] \<and> hd (trim_path p) = hd p"
proof (induction p rule: trim_path.induct)
  case (1 p)
  show ?case
  proof (cases "length p > 1 \<and> last p = CHR ''/''")
    case True
    then have "butlast p \<noteq> []" "hd (butlast p) = hd p" by (cases p; cases "tl p"; simp)+
    with 1 True show ?thesis by (simp add: trim_path.simps [of p])
  next
    case False
    with 1 show ?thesis by (auto simp: trim_path.simps [of p])
  qed
qed

lemma canonicalize_url_Inr:
  "canonicalize_url parse policy s = Inr c \<Longrightarrow>
     \<exists>u. parse s = Some u \<and> is_http u \<and> (ul_protocol u = ''https:'' \<or> up_allowHttp policy) \<and>
       c = strip_one_slash (url_href (canonical_url u))"
  by (auto simp: canonicalize_url_def parse_absolute_url_def bind_result_def is_http_def
      split: option.splits if_splits)

end
