(* ===== verification/Session.thy ===== *)
theory Session
  imports Core
begin

text \<open>
  \<^verbatim>\<open>packages/mcp-server/src/session.ts\<close>: the session of one downstream client. A session
  numbers every message it raises, keeps the latest ones for a client that reconnects, and writes
  each to one stream. Whether a stream is still open is not the session's to know: it is the
  predicate \<open>shut\<close> an operation is given. What an operation writes is the list it answers.
\<close>

section \<open>State\<close>

record history_entry =
  he_id :: nat
  he_message :: json
  he_delivered :: bool

text \<open>The streams are named; \<open>ds_inFlight\<close> maps a request to the name of its abort controller.\<close>

record dsession =
  ds_id :: string
  ds_tenantId :: string
  ds_userId :: string
  ds_clientLabel :: string
  ds_roles :: "string list"
  ds_protocolVersion :: string
  ds_capabilities :: "(string \<times> json) list"
  ds_logLevel :: "string option"
  ds_lastSeenAt :: int
  ds_streams :: "string list"
  ds_requestStreams :: "string list"
  ds_history :: "history_entry list"
  ds_nextEventId :: nat
  ds_pending :: "json list"
  ds_inFlight :: "(json \<times> string) list"
  ds_nextRequestId :: nat
  ds_closed :: bool

type_synonym stream_write = "string \<times> json \<times> nat option"

definition history_limit :: nat where
  "history_limit = 256"

definition new_dsession ::
  "string \<Rightarrow> string \<Rightarrow> string \<Rightarrow> string list \<Rightarrow> string \<Rightarrow> int \<Rightarrow> string \<Rightarrow> dsession" where
  "new_dsession tenantId userId clientLabel roles protocolVersion t i = \<lparr>
     ds_id = i, ds_tenantId = tenantId, ds_userId = userId, ds_clientLabel = clientLabel, ds_roles = roles,
     ds_protocolVersion = protocolVersion, ds_capabilities = [], ds_logLevel = None, ds_lastSeenAt = t,
     ds_streams = [], ds_requestStreams = [], ds_history = [], ds_nextEventId = 1, ds_pending = [],
     ds_inFlight = [], ds_nextRequestId = 1, ds_closed = False\<rparr>"

section \<open>Streams\<close>

text \<open>\<open>Set.add\<close> and \<open>Array.lastIndexOf\<close> with \<open>splice\<close>.\<close>

definition set_add :: "'a \<Rightarrow> 'a list \<Rightarrow> 'a list" where
  "set_add x xs = (if x \<in> set xs then xs else xs @ [x])"

fun remove_last :: "'a \<Rightarrow> 'a list \<Rightarrow> 'a list" where
  "remove_last x [] = []"
| "remove_last x (y # ys) = (if x \<in> set ys then y # remove_last x ys else if y = x then ys else y # ys)"

definition replayed :: "nat option \<Rightarrow> history_entry \<Rightarrow> bool" where
  "replayed lastEventId e \<longleftrightarrow> (case lastEventId of None \<Rightarrow> \<not> he_delivered e | Some n \<Rightarrow> he_id e > n)"

definition attach_stream :: "string \<Rightarrow> nat option \<Rightarrow> dsession \<Rightarrow> dsession \<times> stream_write list" where
  "attach_stream stream lastEventId s =
     (s\<lparr>ds_streams := set_add stream (ds_streams s),
        ds_history := map (\<lambda>e. if replayed lastEventId e then e\<lparr>he_delivered := True\<rparr> else e) (ds_history s)\<rparr>,
      map (\<lambda>e. (stream, he_message e, Some (he_id e))) (filter (replayed lastEventId) (ds_history s)))"

definition detach_stream :: "string \<Rightarrow> dsession \<Rightarrow> dsession" where
  "detach_stream stream s = s\<lparr>ds_streams := filter (\<lambda>x. x \<noteq> stream) (ds_streams s)\<rparr>"

definition begin_request_stream :: "string \<Rightarrow> dsession \<Rightarrow> dsession" where
  "begin_request_stream stream s = s\<lparr>ds_requestStreams := ds_requestStreams s @ [stream]\<rparr>"

definition end_request_stream :: "string \<Rightarrow> dsession \<Rightarrow> dsession" where
  "end_request_stream stream s = s\<lparr>ds_requestStreams := remove_last stream (ds_requestStreams s)\<rparr>"

text \<open>Both loops keep the last open stream in the order of opening.\<close>

definition newest_open :: "(string \<Rightarrow> bool) \<Rightarrow> string list \<Rightarrow> string option" where
  "newest_open shut streams = find (\<lambda>x. \<not> shut x) (rev streams)"

definition live_request_stream :: "(string \<Rightarrow> bool) \<Rightarrow> dsession \<Rightarrow> string option" where
  "live_request_stream shut s = newest_open shut (ds_requestStreams s)"

definition live_stream :: "(string \<Rightarrow> bool) \<Rightarrow> dsession \<Rightarrow> string option" where
  "live_stream shut s = newest_open shut (ds_streams s)"

definition has_stream :: "(string \<Rightarrow> bool) \<Rightarrow> dsession \<Rightarrow> bool" where
  "has_stream shut s \<longleftrightarrow> live_request_stream shut s \<noteq> None \<or> live_stream shut s \<noteq> None"

section \<open>Messages\<close>

definition push_history :: "history_entry \<Rightarrow> history_entry list \<Rightarrow> history_entry list" where
  "push_history e es = (let es' = es @ [e] in if length es' > history_limit then tl es' else es')"

definition deliver ::
  "(string \<Rightarrow> bool) \<Rightarrow> json \<Rightarrow> string option \<Rightarrow> dsession \<Rightarrow> dsession \<times> stream_write list" where
  "deliver shut message preferred s =
     (let i = ds_nextEventId s;
          target = (case preferred of
                      Some p \<Rightarrow> if \<not> shut p then Some p else live_stream shut s
                    | None \<Rightarrow> live_stream shut s);
          entry = \<lparr>he_id = i, he_message = message, he_delivered = target \<noteq> None\<rparr>
      in (s\<lparr>ds_nextEventId := i + 1, ds_history := push_history entry (ds_history s)\<rparr>,
          (case target of None \<Rightarrow> [] | Some x \<Rightarrow> [(x, message, Some i)])))"

definition send_notification :: "(string \<Rightarrow> bool) \<Rightarrow> json \<Rightarrow> dsession \<Rightarrow> dsession \<times> stream_write list" where
  "send_notification shut notification s = deliver shut notification None s"

definition json_rpc_request :: "json \<Rightarrow> string \<Rightarrow> (string \<times> json) list \<Rightarrow> json" where
  "json_rpc_request i m params =
     JObj [(''jsonrpc'', JStr jsonrpc_version), (''id'', i), (''method'', JStr m), (''params'', JObj params)]"

text \<open>
  \<open>sendRequest\<close> up to the promise it answers: \<open>None\<close> when no stream is open, otherwise the id under
  which the promise is pending.
\<close>

definition send_request ::
  "(string \<Rightarrow> bool) \<Rightarrow> string \<Rightarrow> (string \<times> json) list \<Rightarrow> dsession \<Rightarrow> json option \<times> dsession \<times> stream_write list" where
  "send_request shut m params s =
     (if \<not> has_stream shut s then (None, s, [])
      else
        let i = JStr (''srv-'' @ show_nat (ds_nextRequestId s));
            s1 = s\<lparr>ds_nextRequestId := ds_nextRequestId s + 1, ds_pending := ds_pending s @ [i]\<rparr>;
            (s2, ws) = deliver shut (json_rpc_request i m params) (live_request_stream shut s1) s1
        in (Some i, s2, ws))"

text \<open>The timer of a pending request, and an answer the client posts.\<close>

definition settle :: "json \<Rightarrow> dsession \<Rightarrow> dsession" where
  "settle i s = s\<lparr>ds_pending := filter (\<lambda>x. x \<noteq> i) (ds_pending s)\<rparr>"

definition response_outcome :: "json \<Rightarrow> gateway_error + (string \<times> json) list" where
  "response_outcome response =
     (if is_failure response
      then Inl (gerr UPSTREAM_PROTOCOL_ERROR (case Option.bind (jget response ''error'') (\<lambda>e. jget e ''message'') of
             Some (JStr m) \<Rightarrow> m | _ \<Rightarrow> []))
      else Inr (case jget response ''result'' of Some (JObj es) \<Rightarrow> es | _ \<Rightarrow> []))"

text \<open>What \<open>resolveResponse\<close> settles, if anything, and how.\<close>

definition resolve_response ::
  "json \<Rightarrow> dsession \<Rightarrow> (json \<times> (gateway_error + (string \<times> json) list)) option \<times> dsession" where
  "resolve_response response s =
     (case jget response ''id'' of
        None \<Rightarrow> (None, s)
      | Some i \<Rightarrow>
          if i = JNull \<or> i \<notin> set (ds_pending s) then (None, s)
          else (Some (i, response_outcome response), settle i s))"

section \<open>Requests of the client\<close>

definition begin_request :: "json \<Rightarrow> string \<Rightarrow> dsession \<Rightarrow> dsession" where
  "begin_request i controller s = s\<lparr>ds_inFlight := map_set (ds_inFlight s) i controller\<rparr>"

definition end_request :: "json \<Rightarrow> dsession \<Rightarrow> dsession" where
  "end_request i s = s\<lparr>ds_inFlight := map_delete (ds_inFlight s) i\<rparr>"

text \<open>The controller that is aborted, if the request is still running.\<close>

definition cancel_request :: "json \<Rightarrow> dsession \<Rightarrow> string option \<times> dsession" where
  "cancel_request i s =
     (case map_of (ds_inFlight s) i of
        None \<Rightarrow> (None, s)
      | Some c \<Rightarrow> (Some c, end_request i s))"

text \<open>\<open>close\<close>: the controllers aborted, the promises rejected, the streams ended.\<close>

definition close_session :: "dsession \<Rightarrow> (string list \<times> json list \<times> string list) \<times> dsession" where
  "close_session s =
     ((map snd (ds_inFlight s), ds_pending s, ds_streams s @ ds_requestStreams s),
      s\<lparr>ds_closed := True, ds_inFlight := [], ds_pending := [], ds_streams := [], ds_requestStreams := []\<rparr>)"

section \<open>Everything that happens to a session\<close>

datatype session_event =
    Attach string "nat option" | Detach string | Begin_Stream string | End_Stream string
  | Notify json | Ask string "(string \<times> json) list" | Answer json | Expire json
  | Begin_Request json string | End_Request json | Cancel json | Close

fun session_next :: "(string \<Rightarrow> bool) \<Rightarrow> session_event \<Rightarrow> dsession \<Rightarrow> dsession \<times> stream_write list" where
  "session_next shut (Attach x n) s = attach_stream x n s"
| "session_next shut (Detach x) s = (detach_stream x s, [])"
| "session_next shut (Begin_Stream x) s = (begin_request_stream x s, [])"
| "session_next shut (End_Stream x) s = (end_request_stream x s, [])"
| "session_next shut (Notify m) s = send_notification shut m s"
| "session_next shut (Ask m ps) s = snd (send_request shut m ps s)"
| "session_next shut (Answer r) s = (snd (resolve_response r s), [])"
| "session_next shut (Expire i) s = (settle i s, [])"
| "session_next shut (Begin_Request i c) s = (begin_request i c s, [])"
| "session_next shut (End_Request i) s = (end_request i s, [])"
| "session_next shut (Cancel i) s = (snd (cancel_request i s), [])"
| "session_next shut Close s = (snd (close_session s), [])"

fun session_run :: "((string \<Rightarrow> bool) \<times> session_event) list \<Rightarrow> dsession \<Rightarrow> dsession \<times> stream_write list" where
  "session_run [] s = (s, [])"
| "session_run ((shut, e) # es) s =
     (let (s1, ws) = session_next shut e s; (s2, vs) = session_run es s1 in (s2, ws @ vs))"

section \<open>Event ids\<close>

definition written_ids :: "stream_write list \<Rightarrow> nat list" where
  "written_ids ws = List.map_filter (\<lambda>(x, m, i). i) ws"

lemma written_ids_simps [simp]:
  "written_ids [] = []" "written_ids ((x, m, Some i) # ws) = i # written_ids ws"
  "written_ids (ws @ vs) = written_ids ws @ written_ids vs"
  by (simp_all add: written_ids_def List.map_filter_def)

lemma written_ids_replay: "written_ids (map (\<lambda>e. (x, he_message e, Some (he_id e))) es) = map he_id es"
  by (induction es) simp_all

text \<open>
  What holds of a session that has put the messages numbered \<open>used\<close> on the wire: the history is
  numbered in order and bounded, its undelivered part is not on the wire, and the requests it waits
  for are different ones it numbered itself.
\<close>

definition session_ok :: "nat list \<Rightarrow> dsession \<Rightarrow> bool" where
  "session_ok used s \<longleftrightarrow>
     sorted_wrt (<) (map he_id (ds_history s)) \<and> length (ds_history s) \<le> history_limit \<and>
     (\<forall>e \<in> set (ds_history s). he_id e < ds_nextEventId s \<and> (he_delivered e \<or> he_id e \<notin> set used)) \<and>
     (\<forall>i \<in> set used. i < ds_nextEventId s)"

lemma new_session_ok: "session_ok [] (new_dsession a b c d e t i)"
  by (simp add: session_ok_def new_dsession_def)

lemma sorted_wrt_map_id: "sorted_wrt (<) (map he_id es) \<Longrightarrow> distinct (map he_id es)"
  by (simp add: strict_sorted_iff)

lemma push_history_facts:
  "sorted_wrt (<) (map he_id es) \<Longrightarrow> length es \<le> history_limit \<Longrightarrow> \<forall>e \<in> set es. he_id e < he_id x \<Longrightarrow>
     sorted_wrt (<) (map he_id (push_history x es)) \<and> length (push_history x es) \<le> history_limit \<and>
     set (push_history x es) \<subseteq> insert x (set es)"
  by (cases es) (auto simp: push_history_def Let_def sorted_wrt_append history_limit_def)

lemma deliver_ok:
  assumes "session_ok used s" and "deliver shut m p s = (s', ws)"
  shows "session_ok (used @ written_ids ws) s' \<and> distinct (written_ids ws) \<and> set (written_ids ws) \<inter> set used = {}"
proof -
  define target where "target = (case p of Some p \<Rightarrow> if \<not> shut p then Some p else live_stream shut s
                    | None \<Rightarrow> live_stream shut s)"
  define x where "x = \<lparr>he_id = ds_nextEventId s, he_message = m, he_delivered = target \<noteq> None\<rparr>"
  have s': "s' = s\<lparr>ds_nextEventId := ds_nextEventId s + 1, ds_history := push_history x (ds_history s)\<rparr>"
    and ws: "written_ids ws = (if target = None then [] else [ds_nextEventId s])"
    using assms(2) by (auto simp: deliver_def target_def x_def Let_def split: option.splits)
  have h: "sorted_wrt (<) (map he_id (push_history x (ds_history s))) \<and>
      length (push_history x (ds_history s)) \<le> history_limit \<and>
      set (push_history x (ds_history s)) \<subseteq> insert x (set (ds_history s))"
    using assms(1) by (intro push_history_facts) (auto simp: session_ok_def x_def)
  have old: "i \<in> set used \<Longrightarrow> i < ds_nextEventId s" for i
    using assms(1) by (simp add: session_ok_def)
  have "he_id e < ds_nextEventId s + 1 \<and> (he_delivered e \<or> he_id e \<notin> set (used @ written_ids ws))"
    if "e \<in> set (ds_history s)" for e
    using assms(1) that by (auto simp: session_ok_def ws)
  moreover have "he_id x < ds_nextEventId s + 1 \<and> (he_delivered x \<or> he_id x \<notin> set (used @ written_ids ws))"
    using old by (auto simp: x_def ws)
  ultimately have "\<forall>e \<in> insert x (set (ds_history s)). he_id e < ds_nextEventId s + 1 \<and>
      (he_delivered e \<or> he_id e \<notin> set (used @ written_ids ws))"
    by blast
  with h have "\<forall>e \<in> set (push_history x (ds_history s)). he_id e < ds_nextEventId s + 1 \<and>
      (he_delivered e \<or> he_id e \<notin> set (used @ written_ids ws))"
    by blast
  moreover from old have "\<forall>i \<in> set (used @ written_ids ws). i < ds_nextEventId s + 1"
    by (auto simp: ws less_Suc_eq)
  ultimately have "session_ok (used @ written_ids ws) s'"
    using h by (simp add: session_ok_def s')
  moreover have "distinct (written_ids ws)" "set (written_ids ws) \<inter> set used = {}"
    using old by (auto simp: ws)
  ultimately show ?thesis by blast
qed

text \<open>A client that reconnects and names an event before the one numbered \<open>n\<close> as the last it saw.\<close>

fun resumes_before :: "nat \<Rightarrow> session_event \<Rightarrow> bool" where
  "resumes_before n (Attach x (Some k)) = (k < n)"
| "resumes_before n e = False"

text \<open>What is put on the wire in one step, and which of it was there before.\<close>

definition step_ok :: "nat list \<Rightarrow> session_event \<Rightarrow> dsession \<times> stream_write list \<Rightarrow> bool" where
  "step_ok used e r \<longleftrightarrow> session_ok (used @ written_ids (snd r)) (fst r) \<and> distinct (written_ids (snd r)) \<and>
     (\<forall>n \<in> set (written_ids (snd r)) \<inter> set used. resumes_before n e)"

lemma attach_ok:
  assumes "session_ok used s"
  shows "step_ok used (Attach x l) (attach_stream x l s)"
proof -
  let ?new = "filter (replayed l) (ds_history s)"
  let ?h = "map (\<lambda>e. if replayed l e then e\<lparr>he_delivered := True\<rparr> else e) (ds_history s)"
  let ?s = "s\<lparr>ds_streams := set_add x (ds_streams s), ds_history := ?h\<rparr>"
  have ids: "map he_id ?h = map he_id (ds_history s)" by simp
  have d: "distinct (map he_id (ds_history s))"
    using assms sorted_wrt_map_id by (auto simp: session_ok_def)
  have again: "n \<in> he_id ` set ?new \<Longrightarrow> n \<in> set used \<Longrightarrow> resumes_before n (Attach x l)" for n
    using assms by (cases l) (auto simp: session_ok_def replayed_def)
  have same: "e = f" if "e \<in> set (ds_history s)" "f \<in> set (ds_history s)" "he_id e = he_id f" for e f
    using d that by (auto simp: distinct_map inj_on_def)
  have "he_delivered e \<or> he_id e \<notin> set (used @ map he_id ?new)" if "e \<in> set ?h" for e
  proof -
    from that obtain f where f: "f \<in> set (ds_history s)" "e = (if replayed l f then f\<lparr>he_delivered := True\<rparr> else f)"
      by auto
    show ?thesis
    proof (cases "replayed l f")
      case False
      then have "he_id f \<notin> set (map he_id ?new)" using same [OF f(1)] by auto
      with False f assms show ?thesis by (auto simp: session_ok_def)
    qed (use f in simp)
  qed
  moreover have "he_id e < ds_nextEventId s" if "e \<in> set ?h" for e
  proof -
    have "he_id e \<in> set (map he_id ?h)" unfolding set_map [of he_id ?h] using that by (rule imageI)
    then show ?thesis using assms unfolding ids by (auto simp: session_ok_def)
  qed
  moreover have "sorted_wrt (<) (map he_id ?h)" using assms unfolding ids by (simp add: session_ok_def)
  moreover have "i < ds_nextEventId s" if "i \<in> set (used @ map he_id ?new)" for i
    using that assms by (auto simp: session_ok_def)
  moreover have "length ?h \<le> history_limit" using assms by (simp add: session_ok_def)
  ultimately have "session_ok (used @ map he_id ?new) ?s"
    unfolding session_ok_def by (simp del: map_map set_map)
  moreover have "distinct (map he_id ?new)" using d by (simp add: distinct_map_filter)
  ultimately show ?thesis
    using again by (auto simp: step_ok_def attach_stream_def written_ids_replay)
qed

lemma session_ok_cong:
  "session_ok used s \<Longrightarrow> ds_history s' = ds_history s \<Longrightarrow> ds_nextEventId s' = ds_nextEventId s \<Longrightarrow> session_ok used s'"
  by (simp add: session_ok_def)

lemma step_ok_apart:
  "session_ok (used @ written_ids ws) s \<and> distinct (written_ids ws) \<and> set (written_ids ws) \<inter> set used = {} \<Longrightarrow>
     step_ok used e (s, ws)"
  by (simp add: step_ok_def)

lemma send_request_ok:
  assumes "session_ok used s" and "snd (send_request shut m ps s) = (s', ws)"
  shows "session_ok (used @ written_ids ws) s' \<and> distinct (written_ids ws) \<and> set (written_ids ws) \<inter> set used = {}"
proof (cases "has_stream shut s")
  case True
  let ?i = "JStr (''srv-'' @ show_nat (ds_nextRequestId s))"
  let ?s1 = "s\<lparr>ds_nextRequestId := ds_nextRequestId s + 1, ds_pending := ds_pending s @ [?i]\<rparr>"
  have "session_ok used ?s1" by (rule session_ok_cong [OF assms(1)]) simp_all
  moreover have "deliver shut (json_rpc_request ?i m ps) (live_request_stream shut ?s1) ?s1 = (s', ws)"
    using assms(2) True by (simp add: send_request_def Let_def split: prod.splits)
  ultimately show ?thesis by (rule deliver_ok)
qed (use assms in \<open>simp add: send_request_def\<close>)

lemma session_next_ok: "session_ok used s \<Longrightarrow> step_ok used e (session_next shut e s)"
proof (cases e)
  case (Attach x n)
  assume "session_ok used s"
  with Attach show ?thesis using attach_ok by simp
next
  case (Notify m)
  assume "session_ok used s"
  with Notify show ?thesis
    using deliver_ok step_ok_apart by (cases "deliver shut m None s") (auto simp: send_notification_def)
next
  case (Ask m ps)
  assume "session_ok used s"
  with Ask show ?thesis
    using send_request_ok step_ok_apart by (cases "snd (send_request shut m ps s)") auto
qed (auto intro!: step_ok_apart intro: session_ok_cong simp: detach_stream_def begin_request_stream_def
      end_request_stream_def settle_def begin_request_def end_request_def close_session_def
      resolve_response_def cancel_request_def split: option.splits if_splits)

lemma count_distinct: "distinct xs \<Longrightarrow> count_list xs n = (if n \<in> set xs then 1 else 0)"
  by (induction xs) auto

lemma session_run_ok:
  "session_ok used s \<Longrightarrow> session_run es s = (s', ws) \<Longrightarrow>
     session_ok (used @ written_ids ws) s' \<and>
     count_list (written_ids ws) n \<le>
       (if n \<in> set used then 0 else 1) + length (filter (resumes_before n) (map snd es))"
proof (induction es arbitrary: s used ws)
  case (Cons x es s used ws)
  obtain shut e where x: "x = (shut, e)" by (cases x)
  obtain s1 us where 1: "session_next shut e s = (s1, us)" by fastforce
  obtain vs where 2: "session_run es s1 = (s', vs)" and ws: "ws = us @ vs"
    using Cons.prems(2) 1 by (auto simp: x split: prod.splits)
  from session_next_ok [OF Cons.prems(1), of e shut] 1
  have 3: "session_ok (used @ written_ids us) s1" "distinct (written_ids us)"
      "n \<in> set (written_ids us) \<Longrightarrow> n \<in> set used \<Longrightarrow> resumes_before n e"
    by (auto simp: step_ok_def)
  from Cons.IH [OF 3(1) 2] 3(3) show ?case
    by (auto simp: ws x count_distinct [OF 3(2)])
qed simp

text \<open>
  C20: Over any course of events of a session, with streams opening, breaking and being replaced in any
  order and clients reconnecting with or without the id of the last event they saw, each event id is
  put on a stream at most once, and once more for each reconnection that names an earlier event as
  the last one seen; and the history the session keeps is bounded and in order.
\<close>

theorem messages_written_once:
  assumes "session_run es (new_dsession tenantId userId clientLabel roles version t i) = (s, ws)"
  shows "count_list (written_ids ws) n \<le> 1 + length (filter (resumes_before n) (map snd es)) \<and>
    length (ds_history s) \<le> history_limit \<and>
    sorted_wrt (<) (map he_id (ds_history s)) \<and> list_all (\<lambda>n. n < ds_nextEventId s) (written_ids ws)"
  using session_run_ok [OF new_session_ok assms, of n] by (simp add: session_ok_def list_all_iff)

text \<open>Event 1 waits for a stream, event 2 goes to the second stream and again to the client that saw event 1 last.\<close>

lemma messages_written_once_witness:
  "count_list (written_ids (snd (session_run
     [(\<lambda>x. False, Notify JNull), (\<lambda>x. False, Attach ''a'' None), (\<lambda>x. x = ''a'', Attach ''b'' None),
      (\<lambda>x. x = ''a'', Ask ''ping'' []), (\<lambda>x. False, Attach ''c'' (Some 1))] (new_dsession [] [] [] [] [] 0 [])))) 1 = 1 \<and>
   count_list (written_ids (snd (session_run
     [(\<lambda>x. False, Notify JNull), (\<lambda>x. False, Attach ''a'' None), (\<lambda>x. x = ''a'', Attach ''b'' None),
      (\<lambda>x. x = ''a'', Ask ''ping'' []), (\<lambda>x. False, Attach ''c'' (Some 1))] (new_dsession [] [] [] [] [] 0 [])))) 2 = 2"
proof -
  let ?es = "[(\<lambda>x. False, Notify JNull), (\<lambda>x. False, Attach ''a'' None), (\<lambda>x. x = ''a'', Attach ''b'' None),
      (\<lambda>x. x = ''a'', Ask ''ping'' []), (\<lambda>x. False, Attach ''c'' (Some 1))]"
  let ?r = "session_run ?es (new_dsession [] [] [] [] [] 0 [])"
  have "?r = (fst ?r, snd ?r)" by simp
  then have "count_list (written_ids (snd ?r)) 1 \<le> 1" "count_list (written_ids (snd ?r)) 2 \<le> 2"
    using messages_written_once [of ?es "[]" "[]" "[]" "[]" "[]" 0 "[]" "fst ?r" "snd ?r" 1]
      messages_written_once [of ?es "[]" "[]" "[]" "[]" "[]" 0 "[]" "fst ?r" "snd ?r" 2]
    by (simp_all only: list.map snd_conv filter.simps resumes_before.simps list.size) simp_all
  moreover have "count_list (written_ids (snd ?r)) 1 \<ge> 1" "count_list (written_ids (snd ?r)) 2 \<ge> 2"
    by code_simp+
  ultimately show ?thesis by (simp only: order_antisym)
qed

end
