(* ===== verification/Effects.thy ===== *)
theory Effects
  imports Catalogue_Store Locks Vault Url_Policy Rate_Limit Session
begin

text \<open>
  What the services run against, and how their asynchronous methods are read. A service method is a
  function from the state of the process and its database to a result or a thrown error and the next
  state (\<open>'a io\<close>). The outside is an \<open>env\<close> of functions: name resolution, the peers the gateway
  connects to, random bytes, hashes, the cipher, the clock between requests. Other workers share the
  database: whenever a method waits for the network or for a lock, \<open>ev_others\<close> may change it in any
  way. Metrics and logs change nothing the model can observe and are left out.
\<close>

section \<open>The network\<close>

text \<open>
  A body is kept as what is serialised: the fields of a \<open>URLSearchParams\<close> or a JSON value.
\<close>

datatype body = No_Body | Form "(string \<times> string) list" | Json json

record wire_request =
  wq_url :: url
  wq_address :: string
  wq_method :: string
  wq_headers :: "(string \<times> string) list"
  wq_body :: body

record wire_response =
  ws_status :: nat
  ws_headers :: "(string \<times> string) list"
  ws_text :: string

section \<open>The database and the process\<close>

record tables =
  tb_tenants :: "tenant list"
  tb_users :: "user list"
  tb_memberships :: "tenant_membership list"
  tb_servers :: "mcp_server_record list"
  tb_issuers :: "oauth_issuer_record list"
  tb_registrations :: "client_registration list"
  tb_preconfigured :: "preconfigured_client list"
  tb_connections :: "connection list"
  tb_transactions :: "oauth_transaction list"
  tb_dpop_keys :: "dpop_key_record list"
  tb_tools :: "discovered_tool list"
  tb_resources :: "discovered_resource list"
  tb_prompts :: "discovered_prompt list"
  tb_downstream :: "downstream_session_record list"
  tb_upstream :: "upstream_session_record list"
  tb_audit :: "audit_event list"

text \<open>
  What the process holds of its sessions: \<open>lv_clients\<close> are the live upstream clients of
  \<^verbatim>\<open>upstream-sessions.ts\<close> with what they were told, \<open>lv_openings\<close> the attempts to open one with
  their tokens, \<open>lv_sessions\<close> the downstream sessions,
  \<open>lv_progress\<close> the sinks of running tool calls (the stream, or the session when there is none),
  \<open>lv_api\<close> and \<open>lv_tool_calls\<close> the buckets of the two limiters.
\<close>

record upstream_client =
  uk_capabilities :: json_object
  uk_protocolVersion :: string
  uk_lastUsed :: int
  uk_logLevel :: "string option"

text \<open>A cached key set of an issuer, and when an unknown key id last had it fetched early.\<close>

record key_set =
  ks_keys :: "json_object list"
  ks_expiresAt :: int
  ks_refetchedAt :: "int option"

text \<open>
  What an MCP client keeps of its upstream: the session id and the protocol version of its transport,
  the id of its next request, and what the upstream answered to \<open>initialize\<close>.
\<close>

record transport_state =
  ts_session :: "string option"
  ts_protocolVersion :: "string option"
  ts_nextId :: nat
  ts_initialized :: "json_object option"

record live =
  lv_clients :: "(string \<times> upstream_client) list"
  lv_openings :: "(string \<times> nat) list"
  lv_sessions :: "(string \<times> dsession) list"
  lv_progress :: "(string \<times> (string \<times> string option)) list"
  lv_api :: buckets
  lv_tool_calls :: buckets

text \<open>A message to an upstream, on the session a downstream session has with a connection.\<close>

record upstream_call =
  uq_connectionId :: string
  uq_downstream :: string
  uq_method :: string
  uq_params :: json_object

text \<open>
  \<open>wd_breakers\<close>, \<open>wd_dpop_cache\<close>, \<open>wd_resource_nonces\<close> are the maps of the token manager,
  \<open>wd_token_nonces\<close> that of the token client; a decrypted key is its PEM text. \<open>wd_waits\<close> counts the
  waits, \<open>wd_drawn\<close> the random values drawn, \<open>wd_sent\<close> is every request that left the process,
  \<open>wd_calls\<close> every message to an upstream, \<open>wd_written\<close> everything put on a client's stream.
\<close>

record world =
  wd_db :: tables
  wd_now :: int
  wd_waits :: nat
  wd_drawn :: nat
  wd_sent :: "wire_request list"
  wd_breakers :: "(string \<times> breaker) list"
  wd_dpop_cache :: "(string \<times> string) list"
  wd_resource_nonces :: "(string \<times> string) list"
  wd_token_nonces :: "(string \<times> string) list"
  wd_jwks :: "(string \<times> key_set) list"
  wd_transports :: "(string \<times> transport_state) list"
  wd_live :: live
  wd_calls :: "upstream_call list"
  wd_written :: "stream_write list"

text \<open>
  What a method throws: an error of the gateway's, one of the OAuth protocol, any other, or the
  refusal of an upstream that demands authorization, with its challenge.
\<close>

record oauth_error =
  oe_error :: string
  oe_status :: nat
  oe_description :: "string option"

datatype exn =
    Gateway_Exn gateway_error | OAuth_Exn oauth_error | Other_Exn string
  | Unauthorized_Exn string "string option"

type_synonym 'a io = "world \<Rightarrow> (exn + 'a) \<times> world"

record env =
  ev_resolve :: "nat \<Rightarrow> string \<Rightarrow> (string + string list)"
  ev_pick :: "nat \<Rightarrow> string list \<Rightarrow> string"
  ev_peer :: "nat \<Rightarrow> wire_request \<Rightarrow> (string + wire_response)"
  ev_elapsed :: "nat \<Rightarrow> nat"
  ev_others :: "nat \<Rightarrow> tables \<Rightarrow> tables"
  ev_granted :: "nat \<Rightarrow> bool"
  ev_random :: "nat \<Rightarrow> string"
  ev_jitter :: "nat \<Rightarrow> rat"
  ev_sha256_hex :: "string \<Rightarrow> string"
  ev_sha256_b64 :: "string \<Rightarrow> string"
  ev_aes :: aes
  ev_keys :: keyring
  ev_parse_url :: url_parser
  ev_resolve_url :: "string \<Rightarrow> string \<Rightarrow> url option"
  ev_parse_json :: "string \<Rightarrow> json option"
  ev_show_json :: "json \<Rightarrow> string"
  ev_public_jwk :: "string \<Rightarrow> json_object"
  ev_sign :: "string \<Rightarrow> string \<Rightarrow> string"
  ev_signing_kid :: string
  ev_signing_key :: string
  ev_verify_signature :: "string \<Rightarrow> json_object \<Rightarrow> string \<Rightarrow> string \<Rightarrow> string + bool"
  ev_upstream :: "nat \<Rightarrow> upstream_call \<Rightarrow> (exn + json_object)"
  ev_answer :: "nat \<Rightarrow> string \<Rightarrow> json_object \<Rightarrow> (exn + json_object)"
  ev_shut :: "nat \<Rightarrow> string \<Rightarrow> bool"
  ev_initialize :: "nat \<Rightarrow> string \<Rightarrow> transport_type \<Rightarrow> (exn + json_object)"
  ev_meanwhile :: "nat \<Rightarrow> live \<Rightarrow> live"

section \<open>Running\<close>

definition io_return :: "'a \<Rightarrow> 'a io" where
  "io_return x w = (Inr x, w)"

definition io_throw :: "exn \<Rightarrow> 'a io" where
  "io_throw e w = (Inl e, w)"

definition io_bind :: "'a io \<Rightarrow> ('a \<Rightarrow> 'b io) \<Rightarrow> 'b io" where
  "io_bind m f w = (case m w of (Inl e, w') \<Rightarrow> (Inl e, w') | (Inr x, w') \<Rightarrow> f x w')"

definition io_seq :: "'a io \<Rightarrow> 'b io \<Rightarrow> 'b io" where
  "io_seq m n = io_bind m (\<lambda>_. n)"

text \<open>\<open>try ... catch\<close>, and \<open>try ... finally\<close>.\<close>

definition io_catch :: "'a io \<Rightarrow> (exn \<Rightarrow> 'a io) \<Rightarrow> 'a io" where
  "io_catch m h w = (case m w of (Inl e, w') \<Rightarrow> h e w' | (Inr x, w') \<Rightarrow> (Inr x, w'))"

definition io_finally :: "'a io \<Rightarrow> unit io \<Rightarrow> 'a io" where
  "io_finally m n w =
     (case m w of (r, w') \<Rightarrow> (case n w' of (Inl e, w'') \<Rightarrow> (Inl e, w'') | (Inr _, w'') \<Rightarrow> (r, w'')))"

definition io_lift :: "'a result \<Rightarrow> 'a io" where
  "io_lift r = (case r of Inl e \<Rightarrow> io_throw (Gateway_Exn e) | Inr x \<Rightarrow> io_return x)"

abbreviation io_fail :: "gateway_error \<Rightarrow> 'a io" where
  "io_fail e \<equiv> io_throw (Gateway_Exn e)"

definition io_get :: "(world \<Rightarrow> 'a) \<Rightarrow> 'a io" where
  "io_get f w = (Inr (f w), w)"

definition io_modify :: "(world \<Rightarrow> world) \<Rightarrow> unit io" where
  "io_modify f w = (Inr (), f w)"

definition io_when :: "bool \<Rightarrow> unit io \<Rightarrow> unit io" where
  "io_when b m = (if b then m else io_return ())"

definition now :: "int io" where
  "now = io_get wd_now"

definition db :: "(tables \<Rightarrow> 'a) \<Rightarrow> 'a io" where
  "db f = io_get (\<lambda>w. f (wd_db w))"

definition db_modify :: "(tables \<Rightarrow> tables) \<Rightarrow> unit io" where
  "db_modify f = io_modify (\<lambda>w. w\<lparr>wd_db := f (wd_db w)\<rparr>)"

text \<open>A statement that answers and changes the tables.\<close>

definition db_run :: "(tables \<Rightarrow> 'a \<times> tables) \<Rightarrow> 'a io" where
  "db_run f w = (let (x, t) = f (wd_db w) in (Inr x, w\<lparr>wd_db := t\<rparr>))"

definition constraint_failed :: exn where
  "constraint_failed = Other_Exn ''UNIQUE constraint failed''"

definition db_insert :: "(tables \<Rightarrow> tables option) \<Rightarrow> unit io" where
  "db_insert f w =
     (case f (wd_db w) of None \<Rightarrow> (Inl constraint_failed, w) | Some t \<Rightarrow> (Inr (), w\<lparr>wd_db := t\<rparr>))"

definition draw :: "env \<Rightarrow> string io" where
  "draw ev w = (Inr (ev_random ev (wd_drawn w)), w\<lparr>wd_drawn := wd_drawn w + 1\<rparr>)"

text \<open>\<open>newId\<close>.\<close>

definition new_id :: "env \<Rightarrow> string \<Rightarrow> string io" where
  "new_id ev prefix = io_bind (draw ev) (\<lambda>r. io_return (prefix @ ''_'' @ r))"

definition draw_seal :: "env \<Rightarrow> seal_random io" where
  "draw_seal ev =
     io_bind (draw ev) (\<lambda>k. io_bind (draw ev) (\<lambda>i. io_bind (draw ev) (\<lambda>v.
       io_return \<lparr>sl_dataKey = k, sl_iv = i, sl_wrapIv = v\<rparr>)))"

text \<open>Waiting: time passes, and the other workers have run.\<close>

definition wait :: "env \<Rightarrow> unit io" where
  "wait ev w = (Inr (), w\<lparr>wd_now := wd_now w + int (ev_elapsed ev (wd_waits w)),
     wd_db := ev_others ev (wd_waits w) (wd_db w), wd_waits := wd_waits w + 1\<rparr>)"

definition encrypt :: "env \<Rightarrow> encryption_context \<Rightarrow> string \<Rightarrow> string io" where
  "encrypt ev c p = io_bind (draw_seal ev) (\<lambda>r. io_lift (vault_encrypt (ev_aes ev) (ev_keys ev) r c p))"

definition decrypt :: "env \<Rightarrow> encryption_context \<Rightarrow> string \<Rightarrow> string io" where
  "decrypt ev c p = io_lift (vault_decrypt (ev_aes ev) (ev_keys ev) c p)"

definition decrypt_optional :: "env \<Rightarrow> encryption_context \<Rightarrow> string option \<Rightarrow> string option io" where
  "decrypt_optional ev c p = io_lift (vault_decrypt_optional (ev_aes ev) (ev_keys ev) c p)"

definition encrypt_optional :: "env \<Rightarrow> encryption_context \<Rightarrow> string option \<Rightarrow> string option io" where
  "encrypt_optional ev c p =
     (case p of None \<Rightarrow> io_return None
      | Some q \<Rightarrow> io_bind (encrypt ev c q) (\<lambda>x. io_return (Some x)))"

lemmas io_defs =
  io_return_def io_throw_def io_bind_def io_seq_def io_catch_def io_finally_def io_lift_def io_get_def
  io_modify_def io_when_def now_def db_def db_modify_def db_run_def db_insert_def

section \<open>Invariants of a method\<close>

text \<open>A method keeps a predicate of the state on every path, thrown errors included.\<close>

definition keeps :: "(world \<Rightarrow> bool) \<Rightarrow> 'a io \<Rightarrow> bool" where
  "keeps P m \<longleftrightarrow> (\<forall>w. P w \<longrightarrow> P (snd (m w)))"

lemma keepsI: "(\<And>w. P w \<Longrightarrow> P (snd (m w))) \<Longrightarrow> keeps P m"
  by (simp add: keeps_def)

lemma keepsD: "keeps P m \<Longrightarrow> P w \<Longrightarrow> P (snd (m w))"
  by (simp add: keeps_def)

lemma keeps_return [inv_intros]: "keeps P (io_return x)"
  by (simp add: keeps_def io_return_def)

lemma keeps_throw [inv_intros]: "keeps P (io_throw e)"
  by (simp add: keeps_def io_throw_def)

lemma keeps_bind [inv_intros]: "keeps P m \<Longrightarrow> (\<And>x. keeps P (f x)) \<Longrightarrow> keeps P (io_bind m f)"
  by (auto simp: keeps_def io_bind_def split: prod.splits sum.splits)

lemma keeps_bind_result:
  "keeps P m \<Longrightarrow> (\<And>w x w'. m w = (Inr x, w') \<Longrightarrow> keeps P (f x)) \<Longrightarrow> keeps P (io_bind m f)"
  unfolding keeps_def io_bind_def by (auto split: prod.splits sum.splits)

lemma keeps_seq [inv_intros]: "keeps P m \<Longrightarrow> keeps P n \<Longrightarrow> keeps P (io_seq m n)"
  unfolding io_seq_def by (rule keeps_bind)

lemma keeps_catch [inv_intros]: "keeps P m \<Longrightarrow> (\<And>e. keeps P (h e)) \<Longrightarrow> keeps P (io_catch m h)"
  by (auto simp: keeps_def io_catch_def split: prod.splits sum.splits)

lemma keeps_finally [inv_intros]: "keeps P m \<Longrightarrow> keeps P n \<Longrightarrow> keeps P (io_finally m n)"
  by (auto simp: keeps_def io_finally_def split: prod.splits sum.splits)

lemma keeps_lift [inv_intros]: "keeps P (io_lift r)"
  by (cases r) (simp_all add: io_lift_def keeps_return keeps_throw)

lemma keeps_get [inv_intros]: "keeps P (io_get f)"
  by (simp add: keeps_def io_get_def)

lemma keeps_now [inv_intros]: "keeps P now"
  by (simp add: now_def keeps_get)

lemma keeps_db [inv_intros]: "keeps P (db f)"
  by (simp add: db_def keeps_get)

lemma keeps_when [inv_intros]: "(b \<Longrightarrow> keeps P m) \<Longrightarrow> keeps P (io_when b m)"
  by (simp add: io_when_def keeps_return)

lemma keeps_if [inv_intros]: "(b \<Longrightarrow> keeps P m) \<Longrightarrow> (\<not> b \<Longrightarrow> keeps P n) \<Longrightarrow> keeps P (if b then m else n)"
  by simp

lemma keeps_option [inv_intros]:
  "(v = None \<Longrightarrow> keeps P m) \<Longrightarrow> (\<And>x. v = Some x \<Longrightarrow> keeps P (n x)) \<Longrightarrow>
     keeps P (case v of None \<Rightarrow> m | Some x \<Rightarrow> n x)"
  by (cases v) simp_all

lemma keeps_sum [inv_intros]:
  "(\<And>x. v = Inl x \<Longrightarrow> keeps P (m x)) \<Longrightarrow> (\<And>x. v = Inr x \<Longrightarrow> keeps P (n x)) \<Longrightarrow>
     keeps P (case v of Inl x \<Rightarrow> m x | Inr x \<Rightarrow> n x)"
  by (cases v) simp_all

lemma keeps_let [inv_intros]: "(\<And>x. x = v \<Longrightarrow> keeps P (f x)) \<Longrightarrow> keeps P (let x = v in f x)"
  by simp

lemma keeps_prod [inv_intros]:
  "(\<And>x y. v = (x, y) \<Longrightarrow> keeps P (f x y)) \<Longrightarrow> keeps P (case v of (x, y) \<Rightarrow> f x y)"
  by (cases v) simp

text \<open>The methods that only draw random values or open ciphertexts.\<close>

definition blind_to_draws :: "(world \<Rightarrow> bool) \<Rightarrow> bool" where
  "blind_to_draws P \<longleftrightarrow> (\<forall>w n. P w \<longrightarrow> P (w\<lparr>wd_drawn := n\<rparr>))"

lemma keeps_draw: "blind_to_draws P \<Longrightarrow> keeps P (draw ev)"
  by (simp add: keeps_def draw_def blind_to_draws_def)

lemma keeps_draws [inv_intros]:
  assumes "blind_to_draws P"
  shows "keeps P (draw ev)" "keeps P (new_id ev p)" "keeps P (encrypt ev c s)"
    "keeps P (encrypt_optional ev c q)"
  unfolding new_id_def encrypt_def encrypt_optional_def draw_seal_def
  using keeps_draw [OF assms] by (auto intro!: inv_intros split: option.splits)

lemma keeps_decrypt [inv_intros]: "keeps P (decrypt ev c p)" "keeps P (decrypt_optional ev c q)"
  unfolding decrypt_def decrypt_optional_def by (rule keeps_lift)+

section \<open>Invariants of the tables\<close>

text \<open>What the other workers keep too.\<close>

definition others_keep :: "env \<Rightarrow> (tables \<Rightarrow> bool) \<Rightarrow> bool" where
  "others_keep ev I \<longleftrightarrow> (\<forall>k t. I t \<longrightarrow> I (ev_others ev k t))"

abbreviation keeps_tables :: "(tables \<Rightarrow> bool) \<Rightarrow> 'a io \<Rightarrow> bool" where
  "keeps_tables I m \<equiv> keeps (\<lambda>w. I (wd_db w)) m"

lemma keeps_tables_wait [inv_intros]: "others_keep ev I \<Longrightarrow> keeps_tables I (wait ev)"
  by (simp add: keeps_def wait_def others_keep_def)

lemma keeps_tables_draws [inv_intros]:
  "keeps_tables I (draw ev)" "keeps_tables I (new_id ev p)" "keeps_tables I (encrypt ev c s)"
  "keeps_tables I (encrypt_optional ev c q)"
  by (rule keeps_draw keeps_draws; simp add: blind_to_draws_def)+

lemma keeps_tables_modify [inv_intros]:
  "(\<And>w. wd_db (f w) = wd_db w) \<Longrightarrow> keeps_tables I (io_modify f)"
  by (simp add: keeps_def io_modify_def)

lemma keeps_tables_db_run [inv_intros]:
  "(\<And>t. I t \<Longrightarrow> I (snd (f t))) \<Longrightarrow> keeps_tables I (db_run f)"
  by (simp add: keeps_def db_run_def case_prod_beta Let_def)

lemma keeps_tables_db_modify [inv_intros]: "(\<And>t. I t \<Longrightarrow> I (f t)) \<Longrightarrow> keeps_tables I (db_modify f)"
  by (simp add: keeps_def db_modify_def io_modify_def)

lemma keeps_tables_db_insert [inv_intros]:
  "(\<And>t u. I t \<Longrightarrow> f t = Some u \<Longrightarrow> I u) \<Longrightarrow> keeps_tables I (db_insert f)"
  by (auto simp: keeps_def db_insert_def split: option.splits)

section \<open>What a method sends\<close>

text \<open>On every path, at most \<open>n\<close> requests leave the process, each satisfying \<open>Q\<close>.\<close>

definition emits :: "(wire_request \<Rightarrow> bool) \<Rightarrow> nat \<Rightarrow> 'a io \<Rightarrow> bool" where
  "emits Q n m \<longleftrightarrow>
     (\<forall>w. \<exists>rqs. wd_sent (snd (m w)) = wd_sent w @ rqs \<and> list_all Q rqs \<and> length rqs \<le> n)"

named_theorems emit_intros "rules for what a method sends"

lemma emitsI: "(\<And>w. wd_sent (snd (m w)) = wd_sent w) \<Longrightarrow> emits Q n m"
  by (auto simp: emits_def)

lemma emits_mono: "emits Q m a \<Longrightarrow> m \<le> n \<Longrightarrow> emits Q n a"
  unfolding emits_def by (meson le_trans)

lemma emits_weaken: "emits P n a \<Longrightarrow> (\<And>rq. P rq \<Longrightarrow> Q rq) \<Longrightarrow> emits Q n a"
  unfolding emits_def by (meson list.pred_mono_strong)

lemma emits_quiet [emit_intros]:
  "emits Q n (io_return x)" "emits Q n (io_throw e)" "emits Q n (io_lift r)" "emits Q n (io_get f)"
  "emits Q n now" "emits Q n (db l)" "emits Q n (db_modify g)" "emits Q n (db_run h)"
  "emits Q n (db_insert k)" "emits Q n (decrypt ev c p)" "emits Q n (decrypt_optional ev c q)"
  by (rule emitsI, simp add: io_defs decrypt_def decrypt_optional_def split: sum.splits option.splits prod.splits)+

lemma emits_bind_result:
  assumes "emits Q m a" and "\<And>w x w'. a w = (Inr x, w') \<Longrightarrow> emits Q n (f x)"
  shows "emits Q (m + n) (io_bind a f)"
  unfolding emits_def
proof
  fix w
  obtain r w1 where a: "a w = (r, w1)" by (cases "a w")
  with assms(1) obtain rqs where 1: "wd_sent w1 = wd_sent w @ rqs" "list_all Q rqs" "length rqs \<le> m"
    unfolding emits_def by (metis snd_conv)
  show "\<exists>rqs. wd_sent (snd (io_bind a f w)) = wd_sent w @ rqs \<and> list_all Q rqs \<and> length rqs \<le> m + n"
  proof (cases r)
    case (Inl e)
    with a 1 show ?thesis by (intro exI [of _ rqs]) (simp add: io_bind_def)
  next
    case (Inr x)
    from assms(2) [of w x w1] a Inr obtain rqs' where
      "wd_sent (snd (f x w1)) = wd_sent w1 @ rqs'" "list_all Q rqs'" "length rqs' \<le> n"
      unfolding emits_def by meson
    with a 1 Inr show ?thesis by (intro exI [of _ "rqs @ rqs'"]) (simp add: io_bind_def)
  qed
qed

lemma emits_bind [emit_intros]: "emits Q m a \<Longrightarrow> (\<And>x. emits Q n (f x)) \<Longrightarrow> emits Q (m + n) (io_bind a f)"
  by (rule emits_bind_result)

lemma emits_seq [emit_intros]: "emits Q m a \<Longrightarrow> emits Q n b \<Longrightarrow> emits Q (m + n) (io_seq a b)"
  unfolding io_seq_def by (rule emits_bind)

lemma emits_catch:
  assumes "emits Q m a" and "\<And>e. emits Q n (h e)"
  shows "emits Q (m + n) (io_catch a h)"
  unfolding emits_def
proof
  fix w
  obtain r w1 where a: "a w = (r, w1)" by (cases "a w")
  with assms(1) obtain rqs where 1: "wd_sent w1 = wd_sent w @ rqs" "list_all Q rqs" "length rqs \<le> m"
    unfolding emits_def by (metis snd_conv)
  show "\<exists>rqs. wd_sent (snd (io_catch a h w)) = wd_sent w @ rqs \<and> list_all Q rqs \<and> length rqs \<le> m + n"
  proof (cases r)
    case (Inr x)
    with a 1 show ?thesis by (intro exI [of _ rqs]) (simp add: io_catch_def)
  next
    case (Inl e)
    from assms(2) obtain rqs' where
      "wd_sent (snd (h e w1)) = wd_sent w1 @ rqs'" "list_all Q rqs'" "length rqs' \<le> n"
      unfolding emits_def by meson
    with a 1 Inl show ?thesis by (intro exI [of _ "rqs @ rqs'"]) (simp add: io_catch_def)
  qed
qed

text \<open>Without counting, the rules compose on either side.\<close>

definition quiet :: "'a io \<Rightarrow> bool" where
  "quiet m \<longleftrightarrow> emits (\<lambda>_. True) 0 m"

lemma emits_zero: "emits Q 0 m \<longleftrightarrow> (\<forall>w. wd_sent (snd (m w)) = wd_sent w)"
  by (auto simp: emits_def)

lemma quiet_emits: "quiet m \<Longrightarrow> emits Q n m"
  by (auto simp: quiet_def emits_zero intro: emitsI)

lemma quietD: "quiet m \<Longrightarrow> wd_sent (snd (m w)) = wd_sent w"
  by (simp add: quiet_def emits_zero)

lemma quiet_bind: "quiet m \<Longrightarrow> (\<And>x. quiet (f x)) \<Longrightarrow> quiet (io_bind m f)"
  unfolding quiet_def using emits_bind [of _ 0 m 0 f] by simp

lemma emits_quiet_bind: "quiet m \<Longrightarrow> (\<And>x. emits Q n (f x)) \<Longrightarrow> emits Q n (io_bind m f)"
  using emits_bind [of Q 0 m n f] quiet_emits by fastforce

lemma emits_quiet_bind_result:
  "quiet m \<Longrightarrow> (\<And>w x w'. m w = (Inr x, w') \<Longrightarrow> emits Q n (f x)) \<Longrightarrow> emits Q n (io_bind m f)"
  using emits_bind_result [of Q 0 m n f] quiet_emits by fastforce

lemma quiet_prod: "(\<And>x y. quiet (f x y)) \<Longrightarrow> quiet (case p of (x, y) \<Rightarrow> f x y)"
  by (cases p) simp

lemma emits_prod: "(\<And>x y. emits Q n (f x y)) \<Longrightarrow> emits Q n (case p of (x, y) \<Rightarrow> f x y)"
  by (cases p) simp

lemma emits_bind_quiet: "emits Q n m \<Longrightarrow> (\<And>x. quiet (f x)) \<Longrightarrow> emits Q n (io_bind m f)"
  using emits_bind [of Q n m 0 f] quiet_emits by fastforce

lemma quiet_draws: "quiet (draw ev)" "quiet (new_id ev p)" "quiet (encrypt ev c s)" "quiet (encrypt_optional ev c q)"
  by (auto simp: quiet_def emits_zero draw_def new_id_def encrypt_def encrypt_optional_def draw_seal_def
      io_bind_def io_return_def io_lift_def io_throw_def split: option.splits sum.splits)

lemma quiet_basic [emit_intros]:
  "quiet (io_return x)" "quiet (io_throw e)" "quiet (io_lift r)" "quiet (io_get f)" "quiet now" "quiet (db l)"
  "quiet (db_modify g)" "quiet (db_run h)" "quiet (db_insert k)" "quiet (decrypt ev c p)"
  "quiet (decrypt_optional ev c q)"
  unfolding quiet_def by (rule emits_quiet)+

lemma keeps_sent_quiet: "quiet m \<Longrightarrow> wd_sent w = s \<Longrightarrow> wd_sent (snd (m w)) = s"
  by (simp add: quietD)

section \<open>Which requests a method sends\<close>

text \<open>Without a bound on their number the rule composes by itself.\<close>

definition sends :: "(wire_request \<Rightarrow> bool) \<Rightarrow> 'a io \<Rightarrow> bool" where
  "sends Q m \<longleftrightarrow> (\<forall>w. \<exists>rqs. wd_sent (snd (m w)) = wd_sent w @ rqs \<and> list_all Q rqs)"

named_theorems sends_intros "rules for which requests a method sends"

lemma sendsD: "sends Q m \<Longrightarrow> \<exists>rqs. wd_sent (snd (m w)) = wd_sent w @ rqs \<and> list_all Q rqs"
  by (simp add: sends_def)

lemma emits_sends: "emits Q n m \<Longrightarrow> sends Q m"
  unfolding emits_def sends_def by meson

lemma sends_weaken: "sends P a \<Longrightarrow> (\<And>rq. P rq \<Longrightarrow> Q rq) \<Longrightarrow> sends Q a"
  unfolding sends_def by (meson list.pred_mono_strong)

lemma quiet_sends: "quiet m \<Longrightarrow> sends Q m"
  by (rule emits_sends [OF quiet_emits])

lemma sends_bind_result:
  assumes "sends Q a" and "\<And>w x w'. a w = (Inr x, w') \<Longrightarrow> sends Q (f x)"
  shows "sends Q (io_bind a f)"
  unfolding sends_def
proof
  fix w
  obtain r w1 where a: "a w = (r, w1)" by (cases "a w")
  with sendsD [OF assms(1), of w] obtain rqs where 1: "wd_sent w1 = wd_sent w @ rqs" "list_all Q rqs"
    by auto
  show "\<exists>rqs. wd_sent (snd (io_bind a f w)) = wd_sent w @ rqs \<and> list_all Q rqs"
  proof (cases r)
    case (Inr x)
    from a Inr have "sends Q (f x)" by (intro assms(2) [of w x w1]) simp
    from sendsD [OF this, of w1] obtain rqs' where
      "wd_sent (snd (f x w1)) = wd_sent w1 @ rqs'" "list_all Q rqs'" by blast
    with a 1 Inr show ?thesis by (intro exI [of _ "rqs @ rqs'"]) (simp add: io_bind_def)
  qed (use a 1 in \<open>simp add: io_bind_def\<close>)
qed

lemma sends_bind [sends_intros]: "sends Q a \<Longrightarrow> (\<And>x. sends Q (f x)) \<Longrightarrow> sends Q (io_bind a f)"
  by (rule sends_bind_result)

lemma sends_seq [sends_intros]: "sends Q a \<Longrightarrow> sends Q b \<Longrightarrow> sends Q (io_seq a b)"
  unfolding io_seq_def by (rule sends_bind)

lemma sends_catch [sends_intros]:
  assumes "sends Q a" and "\<And>e. sends Q (h e)"
  shows "sends Q (io_catch a h)"
  unfolding sends_def
proof
  fix w
  obtain r w1 where a: "a w = (r, w1)" by (cases "a w")
  with sendsD [OF assms(1), of w] obtain rqs where 1: "wd_sent w1 = wd_sent w @ rqs" "list_all Q rqs"
    by auto
  show "\<exists>rqs. wd_sent (snd (io_catch a h w)) = wd_sent w @ rqs \<and> list_all Q rqs"
  proof (cases r)
    case (Inl e)
    from sendsD [OF assms(2), of e w1] obtain rqs' where
      "wd_sent (snd (h e w1)) = wd_sent w1 @ rqs'" "list_all Q rqs'" by blast
    with a 1 Inl show ?thesis by (intro exI [of _ "rqs @ rqs'"]) (simp add: io_catch_def)
  qed (use a 1 in \<open>simp add: io_catch_def\<close>)
qed

lemma sends_control [sends_intros]:
  "(b \<Longrightarrow> sends Q m) \<Longrightarrow> (\<not> b \<Longrightarrow> sends Q n) \<Longrightarrow> sends Q (if b then m else n)"
  "(v = None \<Longrightarrow> sends Q m) \<Longrightarrow> (\<And>x. v = Some x \<Longrightarrow> sends Q (f x)) \<Longrightarrow>
     sends Q (case v of None \<Rightarrow> m | Some x \<Rightarrow> f x)"
  "(\<And>x y. p = (x, y) \<Longrightarrow> sends Q (g x y)) \<Longrightarrow> sends Q (case p of (x, y) \<Rightarrow> g x y)"
  "(\<And>x. x = z \<Longrightarrow> sends Q (h x)) \<Longrightarrow> sends Q (let x = z in h x)"
  "(b \<Longrightarrow> sends Q k) \<Longrightarrow> sends Q (io_when b k)"
  by (cases b; cases v; cases p; simp add: io_when_def quiet_sends [OF quiet_basic(1)])+

lemma sends_sum [sends_intros]:
  "(\<And>x. v = Inl x \<Longrightarrow> sends Q (m x)) \<Longrightarrow> (\<And>x. v = Inr x \<Longrightarrow> sends Q (n x)) \<Longrightarrow>
     sends Q (case v of Inl x \<Rightarrow> m x | Inr x \<Rightarrow> n x)"
  by (cases v) simp_all

lemma quiet_more: "quiet (wait ev)" "quiet (io_modify (\<lambda>w. w\<lparr>wd_breakers := f w\<rparr>))"
  "quiet (io_modify (\<lambda>w. w\<lparr>wd_dpop_cache := g w\<rparr>))" "quiet (io_modify (\<lambda>w. w\<lparr>wd_resource_nonces := g w\<rparr>))"
  "quiet (io_modify (\<lambda>w. w\<lparr>wd_token_nonces := g w\<rparr>))"
  by (simp_all add: quiet_def emits_zero wait_def io_modify_def)

lemmas sends_quiet [sends_intros] =
  quiet_basic [THEN quiet_sends] quiet_draws [THEN quiet_sends] quiet_more [THEN quiet_sends]

section \<open>Results\<close>

lemma io_bind_Inr:
  "io_bind m f w = (Inr y, w') \<longleftrightarrow> (\<exists>x w1. m w = (Inr x, w1) \<and> f x w1 = (Inr y, w'))"
  by (auto simp: io_bind_def split: prod.splits sum.splits)

lemma io_bind_eq: "m w = (Inr x, w1) \<Longrightarrow> io_bind m f w = f x w1"
  by (simp add: io_bind_def)

lemma io_bind_err: "m w = (Inl e, w1) \<Longrightarrow> io_bind m f w = (Inl e, w1)"
  by (simp add: io_bind_def)

lemma io_simps [simp]:
  "io_return x w = (Inr x, w)" "io_throw e w = (Inl e, w)" "io_get g w = (Inr (g w), w)"
  "io_modify h w = (Inr (), h w)" "io_lift (Inr x) = io_return x" "io_lift (Inl d) = io_fail d"
  "now w = (Inr (wd_now w), w)" "db k w = (Inr (k (wd_db w)), w)"
  "db_modify l w = (Inr (), w\<lparr>wd_db := l (wd_db w)\<rparr>)"
  "io_when True m = m" "io_when False m = io_return ()"
  by (simp_all add: io_defs)

lemma io_bind_return [simp]: "io_bind (io_return x) f = f x"
  by (simp add: io_defs fun_eq_iff)

lemma io_bind_throw [simp]: "io_bind (io_throw e) f = io_throw e"
  by (simp add: io_defs fun_eq_iff)

lemma io_bind_get [simp]: "io_bind (io_get g) f w = f (g w) w"
  by (simp add: io_defs)

lemma io_bind_db [simp]: "io_bind (db k) f w = f (k (wd_db w)) w"
  by (simp add: io_defs)

lemma io_bind_now [simp]: "io_bind now f w = f (wd_now w) w"
  by (simp add: io_defs)

lemma io_seq_modify [simp]: "io_seq (io_modify h) n w = n (h w)"
  by (simp add: io_defs)

lemma io_seq_return [simp]: "io_seq (io_return x) n = n"
  by (simp add: io_defs fun_eq_iff)

lemma io_seq_throw [simp]: "io_seq (io_throw e) n = io_throw e"
  by (simp add: io_defs fun_eq_iff)

lemma io_bind_assoc: "io_bind (io_bind m f) g = io_bind m (\<lambda>x. io_bind (f x) g)"
  by (auto simp: io_bind_def fun_eq_iff split: prod.splits sum.splits)

section \<open>What a method answers\<close>

text \<open>Whatever it answers satisfies \<open>R\<close>; it may also throw.\<close>

definition returns :: "('a \<Rightarrow> bool) \<Rightarrow> 'a io \<Rightarrow> bool" where
  "returns R m \<longleftrightarrow> (\<forall>w x w'. m w = (Inr x, w') \<longrightarrow> R x)"

named_theorems returns_intros "rules for what a method answers"

lemma returnsD: "returns R m \<Longrightarrow> m w = (Inr x, w') \<Longrightarrow> R x"
  by (auto simp: returns_def)

lemma returns_basic [returns_intros]:
  "R x \<Longrightarrow> returns R (io_return x)" "returns R (io_throw e)"
  by (simp_all add: returns_def)

lemma returns_bind [returns_intros]: "(\<And>x. returns R (f x)) \<Longrightarrow> returns R (io_bind m f)"
  by (auto simp: returns_def io_bind_Inr)

lemma returns_bind_result: "returns P m \<Longrightarrow> (\<And>x. P x \<Longrightarrow> returns R (f x)) \<Longrightarrow> returns R (io_bind m f)"
  by (fastforce simp: returns_def io_bind_Inr)

lemma returns_seq [returns_intros]: "returns R n \<Longrightarrow> returns R (io_seq m n)"
  unfolding io_seq_def by (rule returns_bind)

lemma returns_control [returns_intros]:
  "(b \<Longrightarrow> returns R m) \<Longrightarrow> (\<not> b \<Longrightarrow> returns R n) \<Longrightarrow> returns R (if b then m else n)"
  "(v = None \<Longrightarrow> returns R m) \<Longrightarrow> (\<And>x. v = Some x \<Longrightarrow> returns R (f x)) \<Longrightarrow>
     returns R (case v of None \<Rightarrow> m | Some x \<Rightarrow> f x)"
  "(\<And>x y. p = (x, y) \<Longrightarrow> returns R (g x y)) \<Longrightarrow> returns R (case p of (x, y) \<Rightarrow> g x y)"
  "(\<And>x. x = z \<Longrightarrow> returns R (h x)) \<Longrightarrow> returns R (let x = z in h x)"
  by (cases b; cases v; cases p; simp)+

lemma returns_catch [returns_intros]:
  "returns R m \<Longrightarrow> (\<And>e. returns R (h e)) \<Longrightarrow> returns R (io_catch m h)"
  unfolding returns_def io_catch_def by (auto split: prod.splits sum.splits)

section \<open>A concrete outside\<close>

text \<open>
  The outside the witnesses run against: names resolve to one public address, peers answer 404, the
  cipher is transparent, and URLs are of the form \<open>https://host/path\<close>.
\<close>

definition simple_parse :: url_parser where
  "simple_parse s =
     (if starts_with ''https://'' s then
        let rest = drop 8 s; host = takeWhile (\<lambda>c. c \<noteq> CHR ''/'') rest; path = dropWhile (\<lambda>c. c \<noteq> CHR ''/'') rest
        in if path = [] then None
           else Some \<lparr>ul_protocol = ''https:'', ul_authority = True, ul_username = [], ul_password = [], ul_hostname = host,
             ul_port = [], ul_pathname = path, ul_search = [], ul_hash = []\<rparr>
      else None)"

definition show_simple :: "json \<Rightarrow> string" where
  "show_simple v = (case v of JStr s \<Rightarrow> s | _ \<Rightarrow> [])"

definition demo_aes :: aes where
  "demo_aes = \<lparr>aes_seal = (\<lambda>k iv aad p. (p, replicate 16 (CHR ''t''))),
     aes_open = (\<lambda>k iv aad c t. if t = replicate 16 (CHR ''t'') then Some c else None)\<rparr>"

definition demo_env :: env where
  "demo_env = \<lparr>
     ev_resolve = (\<lambda>k host. Inr [''2606::1'']), ev_pick = (\<lambda>k xs. []),
     ev_peer = (\<lambda>k rq. Inr \<lparr>ws_status = 404, ws_headers = [], ws_text = []\<rparr>), ev_elapsed = (\<lambda>k. 1),
     ev_others = (\<lambda>k t. t), ev_granted = (\<lambda>k. True),
     ev_random = (\<lambda>k. replicate 12 (char_of (97 + k))), ev_jitter = (\<lambda>k. 0),
     ev_sha256_hex = (\<lambda>s. CHR ''#'' # s), ev_sha256_b64 = (\<lambda>s. CHR ''#'' # s),
     ev_aes = demo_aes, ev_keys = \<lparr>kr_keys = [(''k'', replicate 32 (CHR ''a''))], kr_active = ''k''\<rparr>,
     ev_parse_url = simple_parse, ev_resolve_url = (\<lambda>l c. simple_parse l),
     ev_parse_json = (\<lambda>s. None), ev_show_json = show_simple, ev_public_jwk = (\<lambda>s. []),
     ev_sign = (\<lambda>k s. ''sig''), ev_signing_kid = ''kid'', ev_signing_key = ''pem'',
     ev_verify_signature = (\<lambda>alg k input sig. Inr (sig = ''good'')),
     ev_upstream = (\<lambda>k q. Inr []), ev_answer = (\<lambda>k m ps. Inr []), ev_shut = (\<lambda>k x. False),
     ev_initialize = (\<lambda>k u t. Inl (Other_Exn ''down'')), ev_meanwhile = (\<lambda>k l. l)\<rparr>"

definition demo_tables :: tables where
  "demo_tables = \<lparr>tb_tenants = [], tb_users = [], tb_memberships = [],
     tb_servers = [], tb_issuers = [], tb_registrations = [], tb_preconfigured = [],
     tb_connections = [], tb_transactions = [], tb_dpop_keys = [], tb_tools = [], tb_resources = [],
     tb_prompts = [], tb_downstream = [], tb_upstream = [], tb_audit = []\<rparr>"

definition demo_live :: live where
  "demo_live = \<lparr>lv_clients = [], lv_openings = [], lv_sessions = [], lv_progress = [], lv_api = [], lv_tool_calls = []\<rparr>"

definition demo_world :: world where
  "demo_world = \<lparr>wd_db = demo_tables, wd_now = 0, wd_waits = 0, wd_drawn = 0, wd_sent = [],
     wd_breakers = [], wd_dpop_cache = [], wd_resource_nonces = [], wd_token_nonces = [], wd_jwks = [], wd_transports = [], wd_live = demo_live, wd_calls = [], wd_written = []\<rparr>"

lemma simple_parse_href: "simple_parse s = Some u \<Longrightarrow> simple_parse (url_href u) = Some u"
proof -
  assume a: "simple_parse s = Some u"
  define host path where "host = takeWhile (\<lambda>c. c \<noteq> CHR ''/'') (drop 8 s)"
    and "path = dropWhile (\<lambda>c. c \<noteq> CHR ''/'') (drop 8 s)"
  have u: "u = \<lparr>ul_protocol = ''https:'', ul_authority = True, ul_username = [], ul_password = [], ul_hostname = host,
      ul_port = [], ul_pathname = path, ul_search = [], ul_hash = []\<rparr>" and path: "path \<noteq> []"
    using a by (auto simp: simple_parse_def Let_def host_def path_def split: if_splits)
  have "hd path = CHR ''/''"
    using hd_dropWhile [of "\<lambda>c. c \<noteq> CHR ''/''" "drop 8 s"] path unfolding path_def by blast
  with path obtain tail where tail: "path = CHR ''/'' # tail" by (cases path) simp_all
  have host: "\<And>c. c \<in> set host \<Longrightarrow> c \<noteq> CHR ''/''"
    unfolding host_def by (rule conjunct2 [OF set_takeWhileD])
  have "takeWhile (\<lambda>c. c \<noteq> CHR ''/'') (host @ path) = host"
    "dropWhile (\<lambda>c. c \<noteq> CHR ''/'') (host @ path) = path"
    by (simp_all add: takeWhile_append2 [OF host] dropWhile_append2 [OF host] tail)
  then show ?thesis
    using path tail by (simp add: u simple_parse_def url_href_def url_host_def starts_with_def Let_def)
qed

end
