(* ===== verification/Safe_Fetch.thy ===== *)
theory Safe_Fetch
  imports Effects Ip_Embedding
begin

text \<open>
  \<^verbatim>\<open>packages/security/src/safe-fetch.ts\<close>: every outbound request of the gateway, with the
  address judged before the connection, redirects followed by hand, and credentials dropped at an
  origin boundary. Time-outs and aborts reach the model as errors of the peer; event streams, which
  leave the body unread, are not modelled.
\<close>

section \<open>Policies and options\<close>

record ssrf_policy =
  sp_allowHttp :: bool
  sp_allowLoopback :: bool
  sp_allowPrivateNetworks :: bool
  sp_allowedHosts :: "string list"
  sp_hostAllowlist :: "string list"
  sp_maxRedirects :: nat
  sp_maxResponseBytes :: nat

definition strict_ssrf_policy :: ssrf_policy where
  "strict_ssrf_policy = \<lparr>sp_allowHttp = False, sp_allowLoopback = False, sp_allowPrivateNetworks = False,
     sp_allowedHosts = [], sp_hostAllowlist = [], sp_maxRedirects = 3, sp_maxResponseBytes = 1000000\<rparr>"

record request_options =
  ro_url :: string
  ro_method :: "string option"
  ro_headers :: "(string \<times> string) list"
  ro_body :: body
  ro_maxResponseBytes :: "nat option"
  ro_followRedirects :: bool
  ro_expectedContentTypes :: "string list"

text \<open>The response: the URL it came from, the media type of \<open>content-type\<close>, the body still unread.\<close>

record safe_response =
  sr_url :: string
  sr_status :: nat
  sr_headers :: "(string \<times> string) list"
  sr_contentType :: "string option"
  sr_body :: string
  sr_maxBytes :: nat

fun disposition_allowed :: "ip_disposition \<Rightarrow> ssrf_policy \<Rightarrow> bool" where
  "disposition_allowed PUBLIC policy = True"
| "disposition_allowed LOOPBACK policy = sp_allowLoopback policy"
| "disposition_allowed PRIVATE policy = sp_allowPrivateNetworks policy"
| "disposition_allowed LINK_LOCAL policy = False"
| "disposition_allowed CLOUD_METADATA policy = False"
| "disposition_allowed RESERVED policy = False"

definition credential_headers :: "string list" where
  "credential_headers = [''authorization'', ''proxy-authorization'', ''cookie'', ''dpop'', ''mcp-session-id'']"

definition is_credential :: "string \<times> string \<Rightarrow> bool" where
  "is_credential h \<longleftrightarrow> to_lower (fst h) \<in> set credential_headers"

definition without_credentials :: "(string \<times> string) list \<Rightarrow> (string \<times> string) list" where
  "without_credentials hs = filter (\<lambda>h. \<not> is_credential h) hs"

definition to_upper_char :: "char \<Rightarrow> char" where
  "to_upper_char c = (if is_lower c then char_of (code c - 32) else c)"

definition to_upper :: "string \<Rightarrow> string" where
  "to_upper s = map to_upper_char s"

definition address_permitted :: "ssrf_policy \<Rightarrow> string \<Rightarrow> string \<Rightarrow> bool" where
  "address_permitted policy address host =
     (if host \<in> set (sp_allowedHosts policy) then classify_address address \<noteq> CLOUD_METADATA
      else disposition_allowed (classify_address address) policy)"

section \<open>One request\<close>

definition ssrf_blocked :: "string \<Rightarrow> exn" where
  "ssrf_blocked m = Gateway_Exn (gerr SSRF_BLOCKED m)"

definition unavailable :: "string \<Rightarrow> exn" where
  "unavailable m = Gateway_Exn (gerr_retry UPSTREAM_UNAVAILABLE (clamp_text m 200))"

text \<open>
  The lookup hook: the addresses a name resolves to that the policy permits, and the one the platform
  takes of them. For a literal the platform never calls the hook.
\<close>

definition connect_address :: "env \<Rightarrow> ssrf_policy \<Rightarrow> url \<Rightarrow> string \<Rightarrow> string io" where
  "connect_address ev policy u host =
     (case literal_address_of host of
        Some a \<Rightarrow> io_return a
      | None \<Rightarrow>
          io_bind (io_get wd_waits) (\<lambda>k.
          case ev_resolve ev k (ul_hostname u) of
            Inl m \<Rightarrow> io_throw (unavailable m)
          | Inr addresses \<Rightarrow>
              (let permitted = filter (\<lambda>a. address_permitted policy a host) addresses;
                   a = ev_pick ev k permitted
               in if permitted = [] then io_throw (ssrf_blocked (''Refusing to connect to '' @ ul_hostname u @
                      '': resolved address is not publicly routable''))
                  else io_return (if a \<in> set permitted then a else hd permitted))))"

definition media_type :: "(string \<times> string) list \<Rightarrow> string option" where
  "media_type hs = map_option (\<lambda>raw. trim (hd (split_on (CHR '';'') raw))) (map_of hs ''content-type'')"

text \<open>The text of a body, whose length the request declares.\<close>

definition body_text :: "env \<Rightarrow> body \<Rightarrow> string" where
  "body_text ev b =
     (case b of
        No_Body \<Rightarrow> []
      | Form kvs \<Rightarrow> form_serialize kvs
      | Json v \<Rightarrow> ev_show_json ev v)"

definition with_length :: "env \<Rightarrow> body \<Rightarrow> (string \<times> string) list \<Rightarrow> (string \<times> string) list" where
  "with_length ev b hs =
     (if b = No_Body then hs else map_set hs ''content-length'' (show_nat (length (utf8 (body_text ev b)))))"

definition send :: "env \<Rightarrow> wire_request \<Rightarrow> wire_response io" where
  "send ev rq =
     io_bind (io_get wd_waits) (\<lambda>k.
     io_seq (io_modify (\<lambda>w. w\<lparr>wd_sent := wd_sent w @ [rq]\<rparr>))
     (io_seq (wait ev)
       (case ev_peer ev k rq of Inl m \<Rightarrow> io_throw (unavailable m) | Inr rs \<Rightarrow> io_return rs)))"

definition request_once ::
  "env \<Rightarrow> ssrf_policy \<Rightarrow> string \<Rightarrow> request_options \<Rightarrow> (string \<times> string) list \<Rightarrow> safe_response io" where
  "request_once ev policy raw opts headers =
     io_bind (io_lift (parse_absolute_url (ev_parse_url ev) raw)) (\<lambda>u.
     if ul_protocol u = ''http:'' \<and> \<not> sp_allowHttp policy
     then io_throw (ssrf_blocked ''Plain HTTP requests are disabled'')
     else
       let host = to_lower (ul_hostname u) in
       if sp_hostAllowlist policy \<noteq> [] \<and> host \<notin> set (sp_hostAllowlist policy)
       then io_throw (ssrf_blocked (''Host is not allowlisted: '' @ host))
       else if (case literal_address_of host of None \<Rightarrow> False | Some a \<Rightarrow> \<not> address_permitted policy a host)
       then io_throw (ssrf_blocked (''Refusing to connect to '' @ host @ '': the address is not publicly routable''))
       else
         io_bind (connect_address ev policy u host) (\<lambda>address.
         io_bind (send ev \<lparr>wq_url = u, wq_address = address,
             wq_method = (case ro_method opts of None \<Rightarrow> ''GET'' | Some m \<Rightarrow> m),
             wq_headers = with_length ev (ro_body opts) headers, wq_body = ro_body opts\<rparr>) (\<lambda>rs.
         io_return \<lparr>sr_url = url_href u, sr_status = ws_status rs, sr_headers = ws_headers rs,
           sr_contentType = media_type (ws_headers rs), sr_body = ws_text rs,
           sr_maxBytes = (case ro_maxResponseBytes opts of None \<Rightarrow> sp_maxResponseBytes policy | Some n \<Rightarrow> n)\<rparr>)))"

section \<open>Redirects\<close>

definition assert_content_type :: "safe_response \<Rightarrow> request_options \<Rightarrow> unit result" where
  "assert_content_type rs opts =
     (let actual = (case sr_contentType rs of None \<Rightarrow> [] | Some t \<Rightarrow> t) in
      if ro_expectedContentTypes opts = [] \<or> sr_status rs \<ge> 400 then Inr ()
      else if list_ex (\<lambda>t. starts_with t actual) (ro_expectedContentTypes opts) then Inr ()
      else Inl (gerr_data DISCOVERY_FAILED (''Unexpected content type '' @ [CHR 0x22] @ clamp_text actual 80 @ [CHR 0x22])
             (JObj [(''expected'', JStr (join '', '' (ro_expectedContentTypes opts)))])))"

definition redirect_of :: "safe_response \<Rightarrow> string option" where
  "redirect_of rs =
     (if 300 \<le> sr_status rs \<and> sr_status rs < 400 then map_of (sr_headers rs) ''location'' else None)"

definition same_origin :: "env \<Rightarrow> url \<Rightarrow> string \<Rightarrow> bool" where
  "same_origin ev next current \<longleftrightarrow>
     (case ev_parse_url ev current of None \<Rightarrow> False | Some u \<Rightarrow> url_origin next = url_origin u)"

definition redirectable :: "request_options \<Rightarrow> bool" where
  "redirectable opts \<longleftrightarrow> ro_followRedirects opts \<and>
     to_upper (case ro_method opts of None \<Rightarrow> ''GET'' | Some m \<Rightarrow> m) \<in> {''GET'', ''HEAD''}"

text \<open>The loop of \<open>request\<close>; \<open>left\<close> is \<open>maxRedirects - hop\<close>.\<close>

fun request_loop ::
  "env \<Rightarrow> ssrf_policy \<Rightarrow> request_options \<Rightarrow> nat \<Rightarrow> string \<Rightarrow> (string \<times> string) list \<Rightarrow> safe_response io" where
  "request_loop ev policy opts left current headers =
     io_bind (request_once ev policy current opts headers) (\<lambda>rs.
       case redirect_of rs of
         None \<Rightarrow> io_seq (io_lift (assert_content_type rs opts)) (io_return rs)
       | Some location \<Rightarrow>
           if \<not> redirectable opts then io_seq (io_lift (assert_content_type rs opts)) (io_return rs)
           else case left of
             0 \<Rightarrow> io_fail (gerr DISCOVERY_FAILED (''Too many redirects from '' @ current))
           | Suc n \<Rightarrow>
               (case ev_resolve_url ev location current of
                  None \<Rightarrow> io_throw (Other_Exn ''Invalid URL'')
                | Some next \<Rightarrow>
                    request_loop ev policy opts n (url_href next)
                      (if same_origin ev next current then headers else without_credentials headers)))"

declare request_loop.simps [simp del]

definition fetch :: "env \<Rightarrow> ssrf_policy \<Rightarrow> request_options \<Rightarrow> safe_response io" where
  "fetch ev policy opts = request_loop ev policy opts (sp_maxRedirects policy) (ro_url opts) (ro_headers opts)"

section \<open>Reading a response\<close>

definition read_text :: "env \<Rightarrow> safe_response \<Rightarrow> string io" where
  "read_text ev rs =
     (if length (utf8 (sr_body rs)) > sr_maxBytes rs
      then io_fail (gerr PAYLOAD_TOO_LARGE (''Response from '' @
             (case ev_parse_url ev (sr_url rs) of None \<Rightarrow> [] | Some u \<Rightarrow> url_host u) @ '' exceeded '' @
             show_nat (sr_maxBytes rs) @ '' bytes''))
      else io_return (sr_body rs))"

definition read_json :: "env \<Rightarrow> safe_response \<Rightarrow> json io" where
  "read_json ev rs =
     io_bind (read_text ev rs) (\<lambda>t.
       case ev_parse_json ev t of
         None \<Rightarrow> io_fail (gerr DISCOVERY_FAILED (''Malformed JSON received from '' @
             (case ev_parse_url ev (sr_url rs) of None \<Rightarrow> [] | Some u \<Rightarrow> url_host u)))
       | Some v \<Rightarrow> io_return v)"

definition get_options :: "string \<Rightarrow> request_options" where
  "get_options url = \<lparr>ro_url = url, ro_method = Some ''GET'', ro_headers = [], ro_body = No_Body,
     ro_maxResponseBytes = None, ro_followRedirects = True, ro_expectedContentTypes = [''application/json'']\<rparr>"

definition get_json :: "env \<Rightarrow> ssrf_policy \<Rightarrow> string \<Rightarrow> json io" where
  "get_json ev policy url =
     io_bind (fetch ev policy (get_options url)) (\<lambda>rs.
       if sr_status rs \<noteq> 200
       then io_fail (gerr_data DISCOVERY_FAILED (''Metadata endpoint returned HTTP '' @ show_nat (sr_status rs))
              (JObj [(''url'', JStr url), (''status'', JNum (of_nat (sr_status rs)))]))
       else read_json ev rs)"

section \<open>What leaves the process\<close>

text \<open>What the policy demands of a request that is sent.\<close>

definition sent_permitted :: "ssrf_policy \<Rightarrow> wire_request \<Rightarrow> bool" where
  "sent_permitted policy rq \<longleftrightarrow>
     (let u = wq_url rq; host = to_lower (ul_hostname u) in
      (ul_protocol u = ''https:'' \<or> ul_protocol u = ''http:'' \<and> sp_allowHttp policy) \<and>
      (sp_hostAllowlist policy = [] \<or> host \<in> set (sp_hostAllowlist policy)) \<and>
      address_permitted policy (wq_address rq) host)"

lemma address_permitted_not_metadata:
  "address_permitted policy a host \<Longrightarrow> classify_address a \<noteq> CLOUD_METADATA"
  by (auto simp: address_permitted_def split: if_splits)

lemma quiet_connect_address: "quiet (connect_address ev policy u host)"
  by (auto simp: connect_address_def Let_def intro!: quiet_bind quiet_basic split: option.splits sum.splits)

lemma hd_filter: "filter P xs \<noteq> [] \<Longrightarrow> P (hd (filter P xs))"
  using hd_in_set [of "filter P xs"] by simp

lemma connect_address_permitted:
  "connect_address ev policy u host w = (Inr a, w') \<Longrightarrow>
   (case literal_address_of host of None \<Rightarrow> True | Some b \<Rightarrow> address_permitted policy b host) \<Longrightarrow>
     w' = w \<and> address_permitted policy a host"
  using hd_filter [of "\<lambda>a. address_permitted policy a host"]
  by (auto simp: connect_address_def Let_def split: option.splits sum.splits if_splits)

lemma send_sent: "wd_sent (snd (send ev rq w)) = wd_sent w @ [rq]"
  by (auto simp: send_def io_bind_def io_seq_def wait_def split: sum.splits)

lemma emits_send: "Q rq \<Longrightarrow> emits Q 1 (send ev rq)"
  by (simp add: emits_def send_sent)

text \<open>One request sends at most one, to a permitted address, with the headers it was given.\<close>

definition sent_for ::
  "env \<Rightarrow> ssrf_policy \<Rightarrow> request_options \<Rightarrow> string \<Rightarrow> (string \<times> string) list \<Rightarrow> wire_request \<Rightarrow> bool" where
  "sent_for ev policy opts raw headers rq \<longleftrightarrow>
     sent_permitted policy rq \<and> ev_parse_url ev raw = Some (wq_url rq) \<and>
     wq_headers rq = with_length ev (ro_body opts) headers \<and> wq_body rq = ro_body opts \<and>
     wq_method rq = (case ro_method opts of None \<Rightarrow> ''GET'' | Some m \<Rightarrow> m)"

lemma request_once_emits: "emits (sent_for ev policy opts raw headers) 1 (request_once ev policy raw opts headers)"
  unfolding emits_def
proof
  fix w
  let ?goal = "\<exists>rqs. wd_sent (snd (request_once ev policy raw opts headers w)) = wd_sent w @ rqs \<and>
      list_all (sent_for ev policy opts raw headers) rqs \<and> length rqs \<le> 1"
  show ?goal
  proof (cases "parse_absolute_url (ev_parse_url ev) raw")
    case (Inl e)
    then show ?thesis by (simp add: request_once_def)
  next
    case (Inr u)
    then have u: "ev_parse_url ev raw = Some u" "is_http u"
      by (auto simp: parse_absolute_url_def split: option.splits if_splits)
    let ?host = "to_lower (ul_hostname u)"
    show ?thesis
    proof (cases "(ul_protocol u = ''http:'' \<and> \<not> sp_allowHttp policy) \<or>
        (sp_hostAllowlist policy \<noteq> [] \<and> ?host \<notin> set (sp_hostAllowlist policy)) \<or>
        (case literal_address_of ?host of None \<Rightarrow> False | Some a \<Rightarrow> \<not> address_permitted policy a ?host)")
      case True
      with Inr show ?thesis by (auto simp: request_once_def Let_def)
    next
      case False
      obtain r w1 where c: "connect_address ev policy u ?host w = (r, w1)"
        by (cases "connect_address ev policy u ?host w")
      show ?thesis
      proof (cases r)
        case (Inl e)
        with Inr False c quietD [OF quiet_connect_address, of ev policy u ?host w] show ?thesis
          by (auto simp: request_once_def Let_def io_bind_err)
      next
        case (Inr a)
        with c have "connect_address ev policy u ?host w = (Inr a, w1)" by simp
        from connect_address_permitted [OF this] False
        have a: "w1 = w" "address_permitted policy a ?host" by (auto split: option.splits)
        define rq where "rq = \<lparr>wq_url = u, wq_address = a,
          wq_method = (case ro_method opts of None \<Rightarrow> ''GET'' | Some m \<Rightarrow> m),
          wq_headers = with_length ev (ro_body opts) headers, wq_body = ro_body opts\<rparr>"
        have "wd_sent (snd (request_once ev policy raw opts headers w)) = wd_sent w @ [rq]"
          using \<open>parse_absolute_url (ev_parse_url ev) raw = Inr u\<close> False c Inr a send_sent [of ev rq w]
          by (auto simp: request_once_def Let_def io_bind_eq rq_def io_bind_def split: prod.splits sum.splits)
        moreover have "sent_for ev policy opts raw headers rq"
          using u False a by (auto simp: sent_for_def sent_permitted_def Let_def rq_def is_http_def)
        ultimately show ?thesis by (intro exI [of _ "[rq]"]) simp
      qed
    qed
  qed
qed

text \<open>What a chain of redirects may send: to where the policy permits, credentials only to the first origin.\<close>

definition parses_own_urls :: "env \<Rightarrow> bool" where
  "parses_own_urls ev \<longleftrightarrow>
     (\<forall>l c u v. ev_resolve_url ev l c = Some u \<longrightarrow> ev_parse_url ev (url_href u) = Some v \<longrightarrow>
        ul_protocol v = ul_protocol u \<and> (is_http u \<longrightarrow> v = u))"

text \<open>
  What the WHATWG URL standard gives: a serialised URL parses to one of the same scheme, and an http
  one to itself.
\<close>

lemma same_origin_http: "url_origin u = url_origin v \<Longrightarrow> is_http u \<Longrightarrow> is_http v"
  by (auto simp: url_origin_def is_http_def split: if_splits)

definition hop_ok :: "string \<Rightarrow> ssrf_policy \<Rightarrow> wire_request \<Rightarrow> bool" where
  "hop_ok origin policy rq \<longleftrightarrow>
     sent_permitted policy rq \<and> (url_origin (wq_url rq) = origin \<or> (\<forall>h \<in> set (wq_headers rq). \<not> is_credential h))"

lemma sent_permitted_http: "sent_permitted policy rq \<Longrightarrow> is_http (wq_url rq)"
  by (auto simp: sent_permitted_def is_http_def Let_def)

lemma set_map_set: "h \<in> set (map_set es k v) \<Longrightarrow> h = (k, v) \<or> h \<in> set es"
  by (induction es k v rule: map_set.induct) (auto split: if_splits)

lemma with_length_plain:
  assumes "\<forall>h \<in> set hs. \<not> is_credential h"
  shows "\<forall>h \<in> set (with_length ev b hs). \<not> is_credential h"
proof -
  have "\<not> is_credential (''content-length'', v)" for v
    by (simp add: is_credential_def credential_headers_def to_lower_def)
  with assms show ?thesis by (auto simp: with_length_def dest!: set_map_set)
qed

lemma sent_for_hop:
  assumes "\<And>u. ev_parse_url ev raw = Some u \<Longrightarrow> is_http u \<Longrightarrow> url_origin u = origin \<or> (\<forall>h \<in> set hs. \<not> is_credential h)"
    and "sent_for ev policy opts raw hs rq"
  shows "hop_ok origin policy rq"
proof -
  have p: "sent_permitted policy rq" and u: "ev_parse_url ev raw = Some (wq_url rq)"
    and h: "wq_headers rq = with_length ev (ro_body opts) hs"
    using assms(2) by (simp_all add: sent_for_def)
  from assms(1) [OF u sent_permitted_http [OF p]] show ?thesis
  proof
    assume "url_origin (wq_url rq) = origin"
    with p show ?thesis by (simp add: hop_ok_def)
  next
    assume "\<forall>h \<in> set hs. \<not> is_credential h"
    from with_length_plain [OF this, of ev "ro_body opts"] p show ?thesis unfolding hop_ok_def h by blast
  qed
qed

lemma request_loop_emits:
  assumes "parses_own_urls ev"
    and "\<And>u. ev_parse_url ev current = Some u \<Longrightarrow> is_http u \<Longrightarrow> url_origin u = origin \<or> (\<forall>h \<in> set headers. \<not> is_credential h)"
  shows "emits (hop_ok origin policy) (Suc left) (request_loop ev policy opts left current headers)"
  using assms(2)
proof (induction left arbitrary: current headers)
  case 0
  have "emits (hop_ok origin policy) 1 (request_once ev policy current opts headers)"
    by (rule emits_weaken, rule request_once_emits, erule sent_for_hop [rotated]) (rule 0)
  then have "emits (hop_ok origin policy) (1 + 0) (request_loop ev policy opts 0 current headers)"
    unfolding request_loop.simps [of _ _ _ 0]
    by (rule emits_bind) (auto split: option.splits intro: emit_intros quiet_emits emits_seq [where m = 0 and n = 0, simplified])
  then show ?case by simp
next
  case (Suc n)
  have one: "emits (hop_ok origin policy) 1 (request_once ev policy current opts headers)"
    by (rule emits_weaken, rule request_once_emits, erule sent_for_hop [rotated]) (rule Suc.prems)
  have stop: "emits (hop_ok origin policy) (Suc n) (io_seq (io_lift (assert_content_type rs opts)) (io_return rs))" for rs
    by (rule emits_mono [OF emits_seq [where m = 0 and n = 0]]) (auto intro: emit_intros)
  have go: "emits (hop_ok origin policy) (Suc n) (request_loop ev policy opts n (url_href next)
      (if same_origin ev next current then headers else without_credentials headers))"
    if "ev_resolve_url ev l current = Some next" for l "next"
  proof (rule Suc.IH)
    fix u assume p: "ev_parse_url ev (url_href next) = Some u" and h: "is_http u"
    have "ul_protocol u = ul_protocol next \<and> (is_http next \<longrightarrow> u = next)"
      using assms(1) that p unfolding parses_own_urls_def by blast
    with h have u: "u = next" unfolding is_http_def by metis
    show "url_origin u = origin \<or>
      (\<forall>h \<in> set (if same_origin ev next current then headers else without_credentials headers). \<not> is_credential h)"
    proof (cases "same_origin ev next current")
      case True
      then obtain v where v: "ev_parse_url ev current = Some v" "url_origin next = url_origin v"
        by (auto simp: same_origin_def split: option.splits)
      have "is_http v" using v(2) h unfolding u by (rule same_origin_http)
      with Suc.prems [OF v(1)] v(2) True show ?thesis unfolding u by simp
    qed (simp add: without_credentials_def)
  qed
  have go_same: "ev_resolve_url ev l current = Some next \<Longrightarrow> same_origin ev next current \<Longrightarrow>
      emits (hop_ok origin policy) (Suc n) (request_loop ev policy opts n (url_href next) headers)" for l "next"
    using go [of l "next"] by simp
  have go_other: "ev_resolve_url ev l current = Some next \<Longrightarrow> \<not> same_origin ev next current \<Longrightarrow>
      emits (hop_ok origin policy) (Suc n)
        (request_loop ev policy opts n (url_href next) (without_credentials headers))" for l "next"
    using go [of l "next"] by simp
  have "emits (hop_ok origin policy) (1 + Suc n) (request_loop ev policy opts (Suc n) current headers)"
    unfolding request_loop.simps [of _ _ _ "Suc n"]
    using one by (rule emits_bind) (auto split: option.splits intro: stop go_same go_other emit_intros)
  then show ?case by simp
qed

lemma fetch_emits:
  assumes "parses_own_urls ev" and "ev_parse_url ev (ro_url opts) = Some u0"
  shows "emits (hop_ok (url_origin u0) policy) (Suc (sp_maxRedirects policy)) (fetch ev policy opts)"
  unfolding fetch_def using assms by (intro request_loop_emits) auto

text \<open>A request that may not be redirected is sent once.\<close>

lemma fetch_once:
  assumes "\<not> redirectable opts"
  shows "emits (sent_for ev policy opts (ro_url opts) (ro_headers opts)) 1 (fetch ev policy opts)"
proof -
  have "emits (sent_for ev policy opts (ro_url opts) (ro_headers opts)) (1 + 0) (fetch ev policy opts)"
    unfolding fetch_def request_loop.simps [of ev policy opts "sp_maxRedirects policy" "ro_url opts" "ro_headers opts"]
    by (rule emits_bind [OF request_once_emits])
      (use assms in \<open>auto split: option.splits intro: emits_seq [where m = 0 and n = 0, simplified] emit_intros\<close>)
  then show ?thesis by simp
qed

text \<open>A fetch changes the tables only as the other workers do.\<close>

lemma keeps_tables_send [inv_intros]: "others_keep ev I \<Longrightarrow> keeps_tables I (send ev rq)"
  unfolding send_def by (auto intro!: inv_intros split: sum.splits)

lemma keeps_tables_request_once [inv_intros]:
  "others_keep ev I \<Longrightarrow> keeps_tables I (request_once ev policy raw opts headers)"
  unfolding request_once_def connect_address_def Let_def
  by (auto intro!: inv_intros split: option.splits sum.splits)

lemma keeps_tables_request_loop [inv_intros]:
  "others_keep ev I \<Longrightarrow> keeps_tables I (request_loop ev policy opts left current headers)"
proof (induction left arbitrary: current headers)
  case 0
  then show ?case
    unfolding request_loop.simps [of ev policy opts 0 current headers]
    by (auto intro!: inv_intros split: option.splits)
next
  case (Suc n)
  then show ?case
    unfolding request_loop.simps [of ev policy opts "Suc n" current headers]
    by (auto intro!: inv_intros split: option.splits)
qed

lemma keeps_tables_fetch [inv_intros]: "others_keep ev I \<Longrightarrow> keeps_tables I (fetch ev policy opts)"
  unfolding fetch_def by (rule keeps_tables_request_loop)

lemma keeps_read [inv_intros]: "keeps P (read_text ev rs)" "keeps P (read_json ev rs)"
  unfolding read_json_def read_text_def by (auto intro!: inv_intros split: option.splits)

lemma keeps_tables_get_json [inv_intros]: "others_keep ev I \<Longrightarrow> keeps_tables I (get_json ev policy u)"
  unfolding get_json_def by (auto intro!: inv_intros)

section \<open>Properties\<close>

text \<open>
  C8: However the far end redirects, a fetch opens at most \<open>maxRedirects + 1\<close> connections, each to an
  address the policy permits for its host and never to a cloud metadata service, over an allowed
  scheme and to an allowlisted host; and a request to another origin than the first carries none of
  the credential headers.
\<close>

theorem fetch_contained:
  assumes "parses_own_urls ev" and "ev_parse_url ev (ro_url opts) = Some u0"
  shows "\<exists>rqs. wd_sent (snd (fetch ev policy opts w)) = wd_sent w @ rqs \<and>
    length rqs \<le> Suc (sp_maxRedirects policy) \<and>
    (\<forall>rq \<in> set rqs. sent_permitted policy rq \<and> classify_address (wq_address rq) \<noteq> CLOUD_METADATA \<and>
       (url_origin (wq_url rq) \<noteq> url_origin u0 \<longrightarrow> (\<forall>h \<in> set (wq_headers rq). \<not> is_credential h)))"
proof -
  obtain rqs where rqs: "wd_sent (snd (fetch ev policy opts w)) = wd_sent w @ rqs"
      "list_all (hop_ok (url_origin u0) policy) rqs" "length rqs \<le> Suc (sp_maxRedirects policy)"
    using fetch_emits [OF assms, of policy] unfolding emits_def by meson
  have "classify_address (wq_address rq) \<noteq> CLOUD_METADATA" if "sent_permitted policy rq" for rq
    using that by (auto simp: sent_permitted_def Let_def dest: address_permitted_not_metadata)
  with rqs show ?thesis by (intro exI [of _ rqs]) (auto simp: list_all_iff hop_ok_def)
qed

definition redirecting_env :: env where
  "redirecting_env = demo_env\<lparr>ev_peer := (\<lambda>k rq. Inr \<lparr>ws_status = (if k = 0 then 302 else 200),
     ws_headers = [(''location'', ''https://b.example/y'')], ws_text = []\<rparr>)\<rparr>"

definition demo_fetch :: request_options where
  "demo_fetch = \<lparr>ro_url = ''https://a.example/x'', ro_method = None,
     ro_headers = [(''Authorization'', ''Bearer t''), (''accept'', ''*'')], ro_body = No_Body,
     ro_maxResponseBytes = None, ro_followRedirects = True, ro_expectedContentTypes = []\<rparr>"

definition demo_policy :: ssrf_policy where
  "demo_policy = \<lparr>sp_allowHttp = False, sp_allowLoopback = False, sp_allowPrivateNetworks = False,
     sp_allowedHosts = [], sp_hostAllowlist = [], sp_maxRedirects = 2, sp_maxResponseBytes = 100\<rparr>"

lemma redirecting_env_parses: "parses_own_urls redirecting_env"
  by (auto simp: parses_own_urls_def redirecting_env_def demo_env_def dest: simple_parse_href)

lemma fetch_contained_witness:
  "map (map fst \<circ> wq_headers) (wd_sent (snd (fetch redirecting_env demo_policy demo_fetch demo_world))) =
     [[''Authorization'', ''accept''], [''accept'']] \<and>
   list_all (sent_permitted demo_policy)
     (wd_sent (snd (fetch redirecting_env demo_policy demo_fetch demo_world)))"
proof -
  have u0: "ev_parse_url redirecting_env (ro_url demo_fetch) = Some \<lparr>ul_protocol = ''https:'', ul_authority = True, ul_username = [],
      ul_password = [], ul_hostname = ''a.example'', ul_port = [], ul_pathname = ''/x'', ul_search = [], ul_hash = []\<rparr>"
    by code_simp
  have "map (map fst \<circ> wq_headers) (wd_sent (snd (fetch redirecting_env demo_policy demo_fetch demo_world))) =
     [[''Authorization'', ''accept''], [''accept'']]"
    by code_simp
  moreover have "wd_sent demo_world = []" by (simp add: demo_world_def)
  ultimately show ?thesis
    using fetch_contained [OF redirecting_env_parses u0, of demo_policy demo_world]
    by (auto simp: list_all_iff)
qed

text \<open>
  C28: A request that is not a \<open>GET\<close> or \<open>HEAD\<close>, or that asks not to be redirected, leaves the process
  at most once, with the body and headers it was given, whatever the far end answers.
\<close>

theorem post_never_replayed:
  assumes "\<not> redirectable opts"
  shows "\<exists>rqs. wd_sent (snd (fetch ev policy opts w)) = wd_sent w @ rqs \<and> length rqs \<le> 1 \<and>
    (\<forall>rq \<in> set rqs. ev_parse_url ev (ro_url opts) = Some (wq_url rq) \<and> sent_permitted policy rq \<and>
       wq_body rq = ro_body opts \<and> wq_headers rq = with_length ev (ro_body opts) (ro_headers opts))"
proof -
  obtain rqs where "wd_sent (snd (fetch ev policy opts w)) = wd_sent w @ rqs"
      "list_all (sent_for ev policy opts (ro_url opts) (ro_headers opts)) rqs" "length rqs \<le> 1"
    using fetch_once [OF assms, of ev policy] unfolding emits_def by meson
  then show ?thesis by (intro exI [of _ rqs]) (auto simp: list_all_iff sent_for_def)
qed

lemma post_never_replayed_witness:
  "length (wd_sent (snd (fetch redirecting_env demo_policy
     (demo_fetch\<lparr>ro_method := Some ''post'', ro_body := Form [(''a'', ''b c'')]\<rparr>) demo_world))) = 1"
proof -
  let ?opts = "demo_fetch\<lparr>ro_method := Some ''post'', ro_body := Form [(''a'', ''b c'')]\<rparr>"
  have "\<not> redirectable ?opts" by code_simp
  then have "length (wd_sent (snd (fetch redirecting_env demo_policy ?opts demo_world))) \<le> 1"
    using post_never_replayed [of ?opts redirecting_env demo_policy demo_world]
    by (auto simp: demo_world_def)
  moreover have "wd_sent (snd (fetch redirecting_env demo_policy ?opts demo_world)) \<noteq> []"
    by code_simp
  ultimately show ?thesis
    by (cases "wd_sent (snd (fetch redirecting_env demo_policy ?opts demo_world))") auto
qed

end
