(* ===== verification/Token_Client.thy ===== *)
theory Token_Client
  imports Safe_Fetch
begin

text \<open>
  \<^verbatim>\<open>packages/oauth/src/token-client.ts\<close>, with \<^verbatim>\<open>protocol-error.ts\<close>,
  \<^verbatim>\<open>client-assertion.ts\<close> and \<^verbatim>\<open>dpop.ts\<close>: the authorization URL, client
  authentication, the token and revocation endpoints with the DPoP nonce round trip, and the
  reading of their failures. A key is its PEM text; the signature over a JWT's signing input is
  the parameter \<open>ev_sign\<close>, the public part of a key \<open>ev_public_jwk\<close>.
\<close>

section \<open>Protocol errors\<close>

definition json_string :: "json option \<Rightarrow> string option" where
  "json_string v = (case v of Some (JStr s) \<Rightarrow> Some s | _ \<Rightarrow> None)"

definition json_number :: "json option \<Rightarrow> rat option" where
  "json_number v = (case v of Some (JNum n) \<Rightarrow> Some n | _ \<Rightarrow> None)"

definition field :: "json option \<Rightarrow> string \<Rightarrow> json option" where
  "field v k = Option.bind v (\<lambda>j. jget j k)"

text \<open>A value JavaScript takes for true: present, and not the empty string.\<close>

definition given :: "string option \<Rightarrow> string option" where
  "given v = (if v = Some [] then None else v)"

definition protocol_error_from_body :: "nat \<Rightarrow> json option \<Rightarrow> string \<Rightarrow> exn" where
  "protocol_error_from_body status body fallback =
     (case json_string (field body ''error'') of
        Some e \<Rightarrow> OAuth_Exn \<lparr>oe_error = e, oe_status = status,
          oe_description = json_string (field body ''error_description'')\<rparr>
      | None \<Rightarrow> OAuth_Exn \<lparr>oe_error = fallback, oe_status = status, oe_description = None\<rparr>)"

datatype refresh_failure_kind = NEEDS_REAUTH | CLIENT_INVALID | INSUFFICIENT_SCOPE | TRANSIENT

fun classify_token_failure :: "exn \<Rightarrow> refresh_failure_kind" where
  "classify_token_failure (OAuth_Exn e) =
     (if oe_error e \<in> {''invalid_grant'', ''unauthorized_client'', ''access_denied''} then NEEDS_REAUTH
      else if oe_error e = ''invalid_client'' then CLIENT_INVALID
      else if oe_error e \<in> {''insufficient_scope'', ''invalid_scope''} then INSUFFICIENT_SCOPE
      else if oe_error e \<in> {''server_error'', ''temporarily_unavailable''} then TRANSIENT
      else if oe_status e \<ge> 500 then TRANSIENT else NEEDS_REAUTH)"
| "classify_token_failure _ = TRANSIENT"

section \<open>Signed tokens\<close>

definition sign_jwt :: "env \<Rightarrow> string \<Rightarrow> json \<Rightarrow> json \<Rightarrow> string" where
  "sign_jwt ev key header payload =
     (let input = b64url (utf8 (ev_show_json ev header)) @ ''.'' @ b64url (utf8 (ev_show_json ev payload))
      in input @ ''.'' @ b64url (ev_sign ev key input))"

definition client_assertion_type :: string where
  "client_assertion_type = ''urn:ietf:params:oauth:client-assertion-type:jwt-bearer''"

text \<open>\<open>createClientAssertion\<close>, whose lifetime is never overridden; the key is its id and PEM.\<close>

definition create_client_assertion :: "env \<Rightarrow> string \<Rightarrow> string \<Rightarrow> string \<times> string \<Rightarrow> int \<Rightarrow> string io" where
  "create_client_assertion ev clientId audience key nowSeconds =
     (io_bind (draw ev) (\<lambda>jti.
      io_return (sign_jwt ev (snd key)
          (JObj [(''alg'', JStr ''ES256''), (''typ'', JStr ''JWT''), (''kid'', JStr (fst key))])
          (JObj [(''iss'', JStr clientId), (''sub'', JStr clientId), (''aud'', JStr audience),
            (''jti'', JStr jti), (''iat'', JNum (of_int nowSeconds)),
            (''exp'', JNum (of_int (nowSeconds + 300)))]))))"

definition dpop_alg :: string where
  "dpop_alg = ''ES256''"

definition access_token_hash :: "env \<Rightarrow> string \<Rightarrow> string" where
  "access_token_hash ev token = ev_sha256_b64 ev token"

text \<open>\<open>new URL(s)\<close>, which throws on what it cannot parse.\<close>

definition new_url :: "env \<Rightarrow> string \<Rightarrow> url io" where
  "new_url ev s = (case ev_parse_url ev s of None \<Rightarrow> io_throw (Other_Exn ''Invalid URL'') | Some u \<Rightarrow> io_return u)"

definition canonical_htu :: "env \<Rightarrow> string \<Rightarrow> string io" where
  "canonical_htu ev s = (io_bind (new_url ev s) (\<lambda>u.
    io_return (url_href (u\<lparr>ul_search := [], ul_hash := []\<rparr>))))"

definition create_dpop_proof ::
  "env \<Rightarrow> string \<Rightarrow> string \<Rightarrow> string \<Rightarrow> int \<Rightarrow> string option \<Rightarrow> string option \<Rightarrow> string io" where
  "create_dpop_proof ev key htm htu nowSeconds nonce accessToken =
     (io_bind (draw ev) (\<lambda>jti.
      io_bind (canonical_htu ev htu) (\<lambda>target.
      io_return (sign_jwt ev key
          (JObj [(''typ'', JStr ''dpop+jwt''), (''alg'', JStr dpop_alg), (''jwk'', JObj (ev_public_jwk ev key))])
          (JObj ([(''jti'', JStr jti), (''htm'', JStr (to_upper htm)), (''htu'', JStr target),
             (''iat'', JNum (of_int nowSeconds))] @
             (case given nonce of None \<Rightarrow> [] | Some n \<Rightarrow> [(''nonce'', JStr n)]) @
             (case given accessToken of None \<Rightarrow> []
              | Some t \<Rightarrow> [(''ath'', JStr (access_token_hash ev t))])))))))"

definition supports_dpop :: "as_metadata \<Rightarrow> bool" where
  "supports_dpop m \<longleftrightarrow>
     (case am_dpop_signing_alg_values_supported m of None \<Rightarrow> False | Some algs \<Rightarrow> dpop_alg \<in> set algs)"

section \<open>Client authentication\<close>

record client_credentials =
  cc_clientId :: string
  cc_clientSecret :: "string option"
  cc_tokenEndpointAuthMethod :: auth_method
  cc_signingKey :: "(string \<times> string) option"

definition assert_method_supported :: "as_metadata \<Rightarrow> auth_method \<Rightarrow> unit result" where
  "assert_method_supported m method =
     (case am_token_endpoint_auth_methods_supported m of
        None \<Rightarrow> Inr ()
      | Some supported \<Rightarrow>
          if supported = [] \<or> string_of_auth_method method \<in> set supported then Inr ()
          else Inl (gerr_data TOKEN_EXCHANGE_FAILED
                 (''Authorization server does not accept '' @ string_of_auth_method method @ '' at its token endpoint'')
                 (JObj [(''supported'', JArr (map JStr supported))])))"

definition secret_of :: "client_credentials \<Rightarrow> string" where
  "secret_of c = (case cc_clientSecret c of None \<Rightarrow> [] | Some s \<Rightarrow> s)"

definition basic_header :: "client_credentials \<Rightarrow> string" where
  "basic_header c =
     ''Basic '' @ b64_std (utf8 (form_url_encode (cc_clientId c) @ '':'' @ form_url_encode (secret_of c)))"

text \<open>\<open>applyClientAuthentication\<close>: the headers to add and the body as it leaves.\<close>

definition apply_client_authentication ::
  "env \<Rightarrow> as_metadata \<Rightarrow> client_credentials \<Rightarrow> (string \<times> string) list \<Rightarrow> string
     \<Rightarrow> ((string \<times> string) list \<times> (string \<times> string) list) io" where
  "apply_client_authentication ev m c body endpoint =
     (io_seq (io_lift (assert_method_supported m (cc_tokenEndpointAuthMethod c))) (
      (case cc_tokenEndpointAuthMethod c of
           NONE_METHOD \<Rightarrow> io_return ([], params_set body ''client_id'' (cc_clientId c))
         | CLIENT_SECRET_POST \<Rightarrow>
             io_return ([], params_set (params_set body ''client_id'' (cc_clientId c))
               ''client_secret'' (secret_of c))
         | CLIENT_SECRET_BASIC \<Rightarrow> io_return ([(''authorization'', basic_header c)], body)
         | PRIVATE_KEY_JWT \<Rightarrow>
             (case cc_signingKey c of
                None \<Rightarrow> io_fail (gerr INTERNAL ''private_key_jwt selected without a signing key'')
              | Some key \<Rightarrow>
                  (io_bind now (\<lambda>t.
                   io_bind (create_client_assertion ev (cc_clientId c) endpoint key (t div 1000)) (\<lambda>assertion.
                   io_return ([], params_set (params_set (params_set body ''client_id'' (cc_clientId c))
                       ''client_assertion_type'' client_assertion_type)
                       ''client_assertion'' assertion))))))))"

section \<open>The authorization URL\<close>

record authorization_url_params =
  au_metadata :: as_metadata
  au_credentials :: client_credentials
  au_redirectUri :: string
  au_state :: string
  au_codeChallenge :: string
  au_scopes :: "string list"
  au_resource :: "string option"
  au_extraParams :: "(string \<times> string) list"

definition set_optional ::
  "string \<Rightarrow> string option \<Rightarrow> (string \<times> string) list \<Rightarrow> (string \<times> string) list" where
  "set_optional k v ps = (case given v of None \<Rightarrow> ps | Some s \<Rightarrow> params_set ps k s)"

definition scope_param :: "string list \<Rightarrow> (string \<times> string) list \<Rightarrow> (string \<times> string) list" where
  "scope_param scopes ps = (if scopes = [] then ps else params_set ps ''scope'' (format_scopes scopes))"

definition authorization_params ::
  "authorization_url_params \<Rightarrow> (string \<times> string) list \<Rightarrow> (string \<times> string) list" where
  "authorization_params p query =
     (let own = foldl (\<lambda>ps (k, v). params_set ps k v) query
        [(''response_type'', ''code''), (''client_id'', cc_clientId (au_credentials p)),
         (''redirect_uri'', au_redirectUri p), (''state'', au_state p),
         (''code_challenge'', au_codeChallenge p), (''code_challenge_method'', ''S256'')]
      in foldl (\<lambda>ps (k, v). params_set ps k v)
           (set_optional ''resource'' (au_resource p) (scope_param (au_scopes p) own)) (au_extraParams p))"

definition url_search_params :: "url \<Rightarrow> (string \<times> string) list" where
  "url_search_params u = form_parse (case ul_search u of [] \<Rightarrow> [] | c # s \<Rightarrow> if c = CHR ''?'' then s else c # s)"

definition set_search_params :: "(string \<times> string) list \<Rightarrow> url \<Rightarrow> url" where
  "set_search_params ps u =
     u\<lparr>ul_search := (if form_serialize ps = [] then [] else CHR ''?'' # form_serialize ps)\<rparr>"

definition build_authorization_url :: "env \<Rightarrow> authorization_url_params \<Rightarrow> string io" where
  "build_authorization_url ev p =
     (case given (am_authorization_endpoint (au_metadata p)) of
        None \<Rightarrow> io_fail (gerr DISCOVERY_FAILED ''Authorization server has no authorization endpoint'')
      | Some endpoint \<Rightarrow>
          (io_bind (new_url ev endpoint) (\<lambda>u.
           io_return (url_href (set_search_params (authorization_params p (url_search_params u)) u)))))"

section \<open>The token endpoint\<close>

record token_set =
  nt_accessToken :: string
  nt_refreshToken :: "string option"
  nt_tokenType :: string
  nt_expiresAt :: "int option"
  nt_refreshTokenExpiresAt :: "int option"
  nt_scopes :: "string list"

text \<open>
  \<open>normalize\<close>; a fraction of a millisecond is dropped. The raw response is kept by no caller.
  A \<open>token_type\<close> that is not a string is read as absent.
\<close>

definition expiry :: "int \<Rightarrow> rat option \<Rightarrow> int option" where
  "expiry t seconds = map_option (\<lambda>s. t + floor (s * 1000)) seconds"

definition normalize :: "int \<Rightarrow> json \<Rightarrow> string \<Rightarrow> token_set" where
  "normalize t raw accessToken = \<lparr>
     nt_accessToken = accessToken,
     nt_refreshToken = json_string (jget raw ''refresh_token''),
     nt_tokenType = (case json_string (jget raw ''token_type'') of None \<Rightarrow> ''Bearer'' | Some s \<Rightarrow> s),
     nt_expiresAt = expiry t (json_number (jget raw ''expires_in'')),
     nt_refreshTokenExpiresAt = expiry t (json_number (jget raw ''refresh_token_expires_in'')),
     nt_scopes = parse_scopes (json_string (jget raw ''scope''))\<rparr>"

definition is_dpop_nonce_error :: "json option \<Rightarrow> bool" where
  "is_dpop_nonce_error payload \<longleftrightarrow> field payload ''error'' = Some (JStr ''use_dpop_nonce'')"

definition is_success :: "nat \<Rightarrow> bool" where
  "is_success status \<longleftrightarrow> 200 \<le> status \<and> status < 300"

definition form_post :: "string \<Rightarrow> (string \<times> string) list \<Rightarrow> (string \<times> string) list \<Rightarrow> request_options" where
  "form_post endpoint headers body = \<lparr>ro_url = endpoint, ro_method = Some ''POST'',
     ro_headers = [(''content-type'', ''application/x-www-form-urlencoded''), (''accept'', ''application/json'')] @ headers,
     ro_body = Form body, ro_maxResponseBytes = None, ro_followRedirects = False, ro_expectedContentTypes = []\<rparr>"

definition dpop_header :: "env \<Rightarrow> string option \<Rightarrow> string \<Rightarrow> string option \<Rightarrow> (string \<times> string) list io" where
  "dpop_header ev dpopKey endpoint nonce =
     (case dpopKey of
        None \<Rightarrow> io_return []
      | Some key \<Rightarrow>
          (io_bind now (\<lambda>t.
           io_bind (create_dpop_proof ev key ''POST'' endpoint (t div 1000) nonce None) (\<lambda>proof.
           io_return [(''dpop'', proof)]))))"

definition remember_token_nonce :: "string \<Rightarrow> string \<Rightarrow> unit io" where
  "remember_token_nonce endpoint nonce =
     io_modify (\<lambda>w. w\<lparr>wd_token_nonces := map_set (wd_token_nonces w) endpoint nonce\<rparr>)"

text \<open>The loop of \<open>postToken\<close>; \<open>retries\<close> is 1 at attempt 0 and 0 after.\<close>

fun post_token_loop ::
  "env \<Rightarrow> ssrf_policy \<Rightarrow> as_metadata \<Rightarrow> client_credentials \<Rightarrow> (string \<times> string) list \<Rightarrow> string option
     \<Rightarrow> string \<Rightarrow> nat \<Rightarrow> string option \<Rightarrow> token_set io" where
  "post_token_loop ev policy m c body dpopKey endpoint retries nonce =
     (io_bind (apply_client_authentication ev m c body endpoint) (\<lambda>(auth, attemptBody).
      io_bind (dpop_header ev dpopKey endpoint nonce) (\<lambda>dpop.
      io_bind (fetch ev policy (form_post endpoint (auth @ dpop) attemptBody)) (\<lambda>rs.
      io_bind (read_text ev rs) (\<lambda>text.
      (let payload = ev_parse_json ev text in
      (let issued = (if dpopKey = None then None else given (map_of (sr_headers rs) ''dpop-nonce'')) in
      (if is_success (sr_status rs) then
           (io_seq (case issued of None \<Rightarrow> io_return () | Some n \<Rightarrow> remember_token_nonce endpoint n) (
            (case (payload, json_string (field payload ''access_token'')) of
                 (Some raw, Some token) \<Rightarrow> io_bind now (\<lambda>t. io_return (normalize t raw token))
               | _ \<Rightarrow> io_fail (gerr TOKEN_EXCHANGE_FAILED
                       ''Token endpoint returned a response without an access token''))))
         else (case (retries, issued) of
           (Suc k, Some n) \<Rightarrow>
             if is_dpop_nonce_error payload
             then (io_seq (remember_token_nonce endpoint n) (
                post_token_loop ev policy m c body dpopKey endpoint k (Some n)))
             else io_throw (protocol_error_from_body (sr_status rs) payload ''invalid_request'')
         | _ \<Rightarrow> io_throw (protocol_error_from_body (sr_status rs) payload ''invalid_request''))))))))))"

declare post_token_loop.simps [simp del]

definition post_token ::
  "env \<Rightarrow> ssrf_policy \<Rightarrow> as_metadata \<Rightarrow> client_credentials \<Rightarrow> (string \<times> string) list \<Rightarrow> string option \<Rightarrow> token_set io" where
  "post_token ev policy m c body dpopKey =
     (case given (am_token_endpoint m) of
        None \<Rightarrow> io_fail (gerr DISCOVERY_FAILED ''Authorization server has no token endpoint'')
      | Some endpoint \<Rightarrow>
          (io_bind (io_get wd_token_nonces) (\<lambda>nonces.
           post_token_loop ev policy m c body dpopKey endpoint 1
               (if dpopKey = None then None else map_of nonces endpoint))))"

definition exchange_code_body :: "string \<Rightarrow> string \<Rightarrow> string \<Rightarrow> string option \<Rightarrow> (string \<times> string) list" where
  "exchange_code_body authCode verifier redirectUri resource =
     set_optional ''resource'' resource
       [(''grant_type'', ''authorization_code''), (''code'', authCode), (''code_verifier'', verifier),
        (''redirect_uri'', redirectUri)]"

definition client_exchange_code ::
  "env \<Rightarrow> ssrf_policy \<Rightarrow> as_metadata \<Rightarrow> client_credentials \<Rightarrow> string \<Rightarrow> string \<Rightarrow> string \<Rightarrow> string option
     \<Rightarrow> string option \<Rightarrow> token_set io" where
  "client_exchange_code ev policy m c authCode verifier redirectUri resource dpopKey =
     post_token ev policy m c (exchange_code_body authCode verifier redirectUri resource) dpopKey"

definition refresh_body :: "string \<Rightarrow> string list \<Rightarrow> string option \<Rightarrow> (string \<times> string) list" where
  "refresh_body token scopes resource =
     set_optional ''resource'' resource
       (scope_param scopes [(''grant_type'', ''refresh_token''), (''refresh_token'', token)])"

definition client_refresh ::
  "env \<Rightarrow> ssrf_policy \<Rightarrow> as_metadata \<Rightarrow> client_credentials \<Rightarrow> string \<Rightarrow> string list \<Rightarrow> string option
     \<Rightarrow> string option \<Rightarrow> token_set io" where
  "client_refresh ev policy m c token scopes resource dpopKey =
     post_token ev policy m c (refresh_body token scopes resource) dpopKey"

section \<open>The revocation endpoint\<close>

definition client_revoke ::
  "env \<Rightarrow> ssrf_policy \<Rightarrow> as_metadata \<Rightarrow> client_credentials \<Rightarrow> string \<Rightarrow> string option \<Rightarrow> unit io" where
  "client_revoke ev policy m c token hint =
     (case given (am_revocation_endpoint m) of
        None \<Rightarrow> io_return ()
      | Some endpoint \<Rightarrow>
          (io_bind (apply_client_authentication ev m c
                 (set_optional ''token_type_hint'' hint [(''token'', token)]) endpoint) (\<lambda>(auth, body).
           io_bind (fetch ev policy (form_post endpoint auth body)) (\<lambda>rs.
           (if is_success (sr_status rs) then io_return ()
              else (io_bind (read_text ev rs) (\<lambda>text.
                 io_throw (protocol_error_from_body (sr_status rs) (ev_parse_json ev text)
                        ''invalid_request''))))))))"

section \<open>Lemmas\<close>

lemma given_Some: "given v = Some s \<longleftrightarrow> v = Some s \<and> s \<noteq> []"
  by (auto simp: given_def)

lemma params_set_optional [simp]:
  "map_of (set_optional k v ps) j = (case given v of None \<Rightarrow> map_of ps j | Some s \<Rightarrow> if j = k then Some s else map_of ps j)"
  by (simp add: set_optional_def params_set_get split: option.splits)

lemma params_scope [simp]:
  "map_of (scope_param scopes ps) j =
     (if scopes \<noteq> [] \<and> j = ''scope'' then Some (format_scopes scopes) else map_of ps j)"
  by (simp add: scope_param_def params_set_get)

text \<open>Authentication sends nothing and leaves every other parameter as it was.\<close>

definition auth_params :: "string set" where
  "auth_params = {''client_id'', ''client_secret'', ''client_assertion_type'', ''client_assertion''}"

lemma quiet_assertion: "quiet (create_client_assertion ev i a k t)"
  unfolding create_client_assertion_def by (intro quiet_bind quiet_draws quiet_basic)

lemma quiet_authentication: "quiet (apply_client_authentication ev m c body endpoint)"
  unfolding apply_client_authentication_def io_seq_def
  by (auto split: auth_method.splits option.splits intro!: quiet_bind quiet_basic quiet_assertion)

lemma authentication_body:
  assumes "apply_client_authentication ev m c body endpoint w = (Inr (h, b), w')" and "k \<notin> auth_params"
  shows "map_of b k = map_of body k"
  using assms
  by (auto simp: apply_client_authentication_def io_seq_def io_bind_Inr params_set_get auth_params_def
      io_throw_def split: auth_method.splits option.splits)

lemma quiet_new_url: "quiet (new_url ev s)"
  by (simp add: new_url_def quiet_basic split: option.splits)

lemma quiet_dpop_header: "quiet (dpop_header ev k endpoint n)"
  unfolding dpop_header_def create_dpop_proof_def canonical_htu_def
  by (auto split: option.splits intro!: quiet_bind quiet_basic quiet_draws quiet_new_url)

lemma quiet_read_text: "quiet (read_text ev rs)"
  by (simp add: read_text_def quiet_basic)

lemma form_post_once: "\<not> redirectable (form_post endpoint headers body)"
  by (simp add: redirectable_def form_post_def)

text \<open>What a token request is: a permitted POST to the endpoint whose form satisfies \<open>B\<close>.\<close>

definition posted_form ::
  "env \<Rightarrow> ssrf_policy \<Rightarrow> string \<Rightarrow> ((string \<times> string) list \<Rightarrow> bool) \<Rightarrow> wire_request \<Rightarrow> bool" where
  "posted_form ev policy endpoint B rq \<longleftrightarrow>
     ev_parse_url ev endpoint = Some (wq_url rq) \<and> wq_method rq = ''POST'' \<and> sent_permitted policy rq \<and>
     (case wq_body rq of Form kvs \<Rightarrow> B kvs | _ \<Rightarrow> False)"

lemma emits_form_post:
  "B body \<Longrightarrow> emits (posted_form ev policy endpoint B) 1 (fetch ev policy (form_post endpoint headers body))"
  by (rule emits_weaken [OF fetch_once [OF form_post_once]]) (auto simp: sent_for_def posted_form_def form_post_def)

text \<open>The parameters that authentication leaves alone.\<close>

definition carries :: "(string \<times> string) list \<Rightarrow> (string \<times> string) list \<Rightarrow> bool" where
  "carries body kvs \<longleftrightarrow> list_all (\<lambda>(k, v). k \<in> auth_params \<or> map_of kvs k = map_of body k) body"

lemma authentication_carries:
  "apply_client_authentication ev m c body endpoint w = (Inr (h, b), w') \<Longrightarrow> carries body b"
  by (auto simp: carries_def list_all_iff dest: authentication_body)

lemma posted_formD:
  "posted_form ev policy endpoint B rq \<Longrightarrow> ev_parse_url ev endpoint = Some (wq_url rq) \<and>
     wq_method rq = ''POST'' \<and> sent_permitted policy rq \<and> (\<exists>kvs. wq_body rq = Form kvs \<and> B kvs)"
  by (auto simp: posted_form_def split: body.splits)

lemma quiet_remember: "quiet (remember_token_nonce endpoint n)"
  unfolding remember_token_nonce_def by (rule quiet_more)

text \<open>What follows a response, given what a further attempt sends.\<close>

lemma emits_bind_1: "emits Q 1 a \<Longrightarrow> (\<And>x. emits Q n (f x)) \<Longrightarrow> emits Q (Suc n) (io_bind a f)"
  using emits_bind [of Q 1 a n f] by simp

lemma post_token_loop_emits:
  "emits (posted_form ev policy endpoint (carries body)) (Suc retries)
     (post_token_loop ev policy m c body dpopKey endpoint retries nonce)"
proof (induction retries arbitrary: nonce dpopKey)
  case 0
  show ?case
    unfolding post_token_loop.simps [of _ _ _ _ _ _ _ 0] One_nat_def [symmetric]
    apply (rule emits_quiet_bind_result [OF quiet_authentication])
    apply (clarsimp split del: if_split)
    apply (rule emits_quiet_bind [OF quiet_dpop_header])
    apply (rule emits_bind_quiet [OF emits_form_post [unfolded One_nat_def]])
     apply (erule authentication_carries)
    apply (auto simp: Let_def io_seq_def split: option.splits intro!: quiet_bind quiet_basic quiet_read_text quiet_remember)
    done
next
  case (Suc retries)
  show ?case
    unfolding post_token_loop.simps [of _ _ _ _ _ _ _ "Suc retries"]
    apply (rule emits_quiet_bind_result [OF quiet_authentication])
    apply (clarsimp split del: if_split)
    apply (rule emits_quiet_bind [OF quiet_dpop_header])
    apply (rule emits_bind_1 [OF emits_form_post])
     apply (erule authentication_carries)
    apply (rule emits_quiet_bind [OF quiet_read_text])
    apply (auto simp: Let_def io_seq_def split: option.splits
        intro!: emits_quiet_bind quiet_basic quiet_remember emits_quiet Suc.IH)
    done
qed

lemma post_token_emits:
  "emits (\<lambda>rq. \<exists>endpoint. am_token_endpoint m = Some endpoint \<and>
       posted_form ev policy endpoint (carries body) rq) 2
     (post_token ev policy m c body dpopKey)"
proof (cases "given (am_token_endpoint m)")
  case (Some endpoint)
  then have e: "am_token_endpoint m = Some endpoint" by (simp add: given_Some)
  have "emits (posted_form ev policy endpoint (carries body)) 2
      (post_token_loop ev policy m c body dpopKey endpoint 1 nonce)" for nonce
    using post_token_loop_emits [of ev policy endpoint body 1] by (simp add: numeral_2_eq_2)
  then have "emits (posted_form ev policy endpoint (carries body)) 2 (post_token ev policy m c body dpopKey)"
    unfolding post_token_def Some option.case by (intro emits_quiet_bind quiet_basic)
  then show ?thesis by (rule emits_weaken) (use e in auto)
qed (simp add: post_token_def emits_quiet)

lemma post_token_sends: "sends (\<lambda>rq. \<exists>endpoint. am_token_endpoint m = Some endpoint \<and>
       posted_form ev policy endpoint (carries body) rq) (post_token ev policy m c body dpopKey)"
  by (rule emits_sends [OF post_token_emits])

section \<open>Properties\<close>

definition read_basic :: "string \<Rightarrow> (string \<times> string) option" where
  "read_basic header =
     (if starts_with ''Basic '' header then
        Option.bind (utf8_decode (b64_decode (drop 6 header))) (\<lambda>s.
        Option.bind (index_of (CHR '':'') s) (\<lambda>i.
        Option.bind (form_url_decode (take i s)) (\<lambda>user.
        map_option (\<lambda>secret. (user, secret)) (form_url_decode (drop (Suc i) s)))))
      else None)"

text \<open>
  An authorization server that takes the Basic header apart as RFC 6749 prescribes (base 64, the
  first colon, form decoding) reads back exactly the client id and the secret, whatever characters
  they hold, and the body the header accompanies is untouched.
\<close>

theorem basic_header_reads_back:
  assumes "cc_tokenEndpointAuthMethod c = CLIENT_SECRET_BASIC"
    and "apply_client_authentication ev m c body endpoint w = (Inr (headers, sent), w')"
  shows "(\<exists>h. headers = [(''authorization'', h)] \<and> read_basic h = Some (cc_clientId c, secret_of c)) \<and>
    sent = body \<and> w' = w"
proof -
  let ?i = "form_url_encode (cc_clientId c)" and ?s = "form_url_encode (secret_of c)"
  have "index_of (CHR '':'') (?i @ '':'' @ ?s) = Some (length ?i)"
    using form_no_delimiter(1) [of "cc_clientId c"] by (simp add: index_of_append)
  then have "read_basic (basic_header c) = Some (cc_clientId c, secret_of c)"
    by (simp add: read_basic_def basic_header_def starts_with_def del: utf8_append)
  with assms show ?thesis
    by (auto simp: apply_client_authentication_def assert_method_supported_def io_throw_def
        io_return_def split: option.splits if_splits)
qed

definition demo_metadata :: as_metadata where
  "demo_metadata = \<lparr>am_issuer = ''https://as.example'', am_authorization_endpoint = Some ''https://as.example/authorize'',
     am_token_endpoint = Some ''https://as.example/token'', am_registration_endpoint = Some ''https://as.example/register'',
     am_revocation_endpoint = Some ''https://as.example/revoke'', am_scopes_supported = None,
     am_code_challenge_methods_supported = Some [''S256''], am_token_endpoint_auth_methods_supported = None,
     am_dpop_signing_alg_values_supported = Some [''ES256''], am_client_id_metadata_document_supported = False,
     am_authorization_response_iss_parameter_supported = True,
     am_jwks_uri = None\<rparr>"

definition demo_credentials :: client_credentials where
  "demo_credentials = \<lparr>cc_clientId = ''a:b'', cc_clientSecret = Some ''p w'',
     cc_tokenEndpointAuthMethod = CLIENT_SECRET_BASIC, cc_signingKey = None\<rparr>"

lemma basic_header_reads_back_witness:
  "Option.bind (map_of (fst (projr (fst (apply_client_authentication demo_env demo_metadata demo_credentials
     [] [] demo_world)))) ''authorization'') read_basic = Some (''a:b'', ''p w'')"
proof -
  have m: "cc_tokenEndpointAuthMethod demo_credentials = CLIENT_SECRET_BASIC" by (simp add: demo_credentials_def)
  have a: "apply_client_authentication demo_env demo_metadata demo_credentials [] [] demo_world =
      (Inr ([(''authorization'', basic_header demo_credentials)], []), demo_world)"
    by (simp add: apply_client_authentication_def assert_method_supported_def m)
      (simp add: demo_metadata_def io_return_def)
  from basic_header_reads_back [OF m a] show ?thesis
    by (simp add: a) (simp add: demo_credentials_def secret_of_def)
qed

text \<open>
  C23: Exchanging a code puts at most two requests on the wire, the second only ever as the retry a
  DPoP nonce asks for. Each is a POST the policy permits, to the token endpoint of the issuer's
  metadata, and carries the code, the verifier and the redirect URI; none is replayed at a location
  the far end chose.
\<close>

theorem code_exchange_contained:
  "\<exists>rqs. wd_sent (snd (client_exchange_code ev policy m c authCode verifier redirectUri resource dpopKey w)) =
      wd_sent w @ rqs \<and> length rqs \<le> 2 \<and>
    (\<forall>rq \<in> set rqs. \<exists>endpoint kvs. am_token_endpoint m = Some endpoint \<and>
       ev_parse_url ev endpoint = Some (wq_url rq) \<and> wq_method rq = ''POST'' \<and> sent_permitted policy rq \<and>
       wq_body rq = Form kvs \<and> map_of kvs ''code'' = Some authCode \<and>
       map_of kvs ''code_verifier'' = Some verifier \<and> map_of kvs ''redirect_uri'' = Some redirectUri)"
proof -
  let ?b = "exchange_code_body authCode verifier redirectUri resource"
  obtain rqs where rqs: "wd_sent (snd (client_exchange_code ev policy m c authCode verifier redirectUri resource dpopKey w)) =
      wd_sent w @ rqs" "length rqs \<le> 2"
      "list_all (\<lambda>rq. \<exists>endpoint. am_token_endpoint m = Some endpoint \<and> posted_form ev policy endpoint (carries ?b) rq) rqs"
    using post_token_emits [of m ev policy ?b c dpopKey] unfolding emits_def client_exchange_code_def by meson
  have b: "(k, v) \<in> set ?b \<and> map_of ?b k = Some v"
    if "(k, v) \<in> {(''code'', authCode), (''code_verifier'', verifier), (''redirect_uri'', redirectUri)}" for k v
    using that by (auto simp: exchange_code_body_def set_optional_def split: option.splits)
  have "map_of kvs k = Some v"
    if "carries ?b kvs" "(k, v) \<in> {(''code'', authCode), (''code_verifier'', verifier), (''redirect_uri'', redirectUri)}" for kvs k v
    using that b [OF that(2)] by (auto simp: carries_def list_all_iff auth_params_def)
  then have "carries ?b kvs \<Longrightarrow> map_of kvs ''code'' = Some authCode \<and>
      map_of kvs ''code_verifier'' = Some verifier \<and> map_of kvs ''redirect_uri'' = Some redirectUri" for kvs
    by blast
  then have "\<exists>endpoint kvs. am_token_endpoint m = Some endpoint \<and>
       ev_parse_url ev endpoint = Some (wq_url rq) \<and> wq_method rq = ''POST'' \<and> sent_permitted policy rq \<and>
       wq_body rq = Form kvs \<and> map_of kvs ''code'' = Some authCode \<and>
       map_of kvs ''code_verifier'' = Some verifier \<and> map_of kvs ''redirect_uri'' = Some redirectUri"
    if "rq \<in> set rqs" for rq
    using rqs(3) that unfolding list_all_iff by (blast dest: posted_formD)
  with rqs(1,2) show ?thesis by blast
qed

definition nonce_env :: env where
  "nonce_env = demo_env\<lparr>ev_peer := (\<lambda>k rq. Inr (if k = 0
       then \<lparr>ws_status = 400, ws_headers = [(''dpop-nonce'', ''n1'')], ws_text = ''use_nonce''\<rparr>
       else \<lparr>ws_status = 200, ws_headers = [], ws_text = ''ok''\<rparr>)),
     ev_parse_json := (\<lambda>s. if s = ''ok'' then Some (JObj [(''access_token'', JStr ''at'')])
       else Some (JObj [(''error'', JStr ''use_dpop_nonce'')]))\<rparr>"

lemma code_exchange_contained_witness:
  "length (wd_sent (snd (client_exchange_code nonce_env demo_policy demo_metadata demo_credentials ''c'' ''v''
     ''r'' None (Some ''pem'') demo_world))) = 2"
proof -
  let ?run = "client_exchange_code nonce_env demo_policy demo_metadata demo_credentials ''c'' ''v'' ''r'' None (Some ''pem'') demo_world"
  have "length (wd_sent (snd ?run)) \<le> 2"
    using code_exchange_contained [of nonce_env demo_policy demo_metadata demo_credentials "''c''" "''v''" "''r''" None "Some ''pem''" demo_world]
    by (auto simp: demo_world_def)
  moreover have "2 \<le> length (wd_sent (snd ?run))" by code_simp
  ultimately show ?thesis by simp
qed

definition protocol_params :: "string list" where
  "protocol_params = [''response_type'', ''client_id'', ''redirect_uri'', ''state'', ''code_challenge'',
     ''code_challenge_method'']"

lemma map_of_foldl_params_other:
  "k \<notin> fst ` set kvs \<Longrightarrow> map_of (foldl (\<lambda>ps (k, v). params_set ps k v) ps kvs) k = map_of ps k"
  by (induction kvs arbitrary: ps) (auto simp: params_set_get)

text \<open>
  The authorization URL keeps the origin and path of the issuer's endpoint, and an authorization
  server that parses its query reads the client, the redirect URI, the state and the S256 challenge
  of the transaction, whatever the endpoint's own query says and whatever the values contain, as
  long as the extra parameters name none of them.
\<close>

theorem authorization_url_reads_back:
  assumes "am_authorization_endpoint (au_metadata p) = Some endpoint" and "endpoint \<noteq> []"
    and "ev_parse_url ev endpoint = Some u"
    and "list_all (\<lambda>(k, v). k \<notin> set protocol_params) (au_extraParams p)"
  shows "\<exists>v. build_authorization_url ev p w = (Inr (url_href v), w) \<and>
    url_origin v = url_origin u \<and> ul_pathname v = ul_pathname u \<and>
    map (map_of (url_search_params v)) protocol_params =
      map Some [''code'', cc_clientId (au_credentials p), au_redirectUri p, au_state p, au_codeChallenge p, ''S256'']"
proof -
  let ?ps = "authorization_params p (url_search_params u)"
  let ?v = "set_search_params ?ps u"
  have e: "fst ` set (au_extraParams p) \<inter> set protocol_params = {}"
    using assms(4) by (fastforce simp: list_all_iff)
  have get: "map_of ?ps k =
      map_of (foldl (\<lambda>ps (k, v). params_set ps k v) (url_search_params u)
        [(''response_type'', ''code''), (''client_id'', cc_clientId (au_credentials p)),
         (''redirect_uri'', au_redirectUri p), (''state'', au_state p),
         (''code_challenge'', au_codeChallenge p), (''code_challenge_method'', ''S256'')]) k"
    if "k \<in> set protocol_params" for k
  proof -
    have "k \<notin> fst ` set (au_extraParams p)" using e that by blast
    moreover have "k \<noteq> ''scope''" "k \<noteq> ''resource''" using that by (auto simp: protocol_params_def)
    ultimately show ?thesis
      by (simp add: authorization_params_def Let_def map_of_foldl_params_other split: option.splits)
  qed
  have "map (map_of ?ps) protocol_params =
      map Some [''code'', cc_clientId (au_credentials p), au_redirectUri p, au_state p, au_codeChallenge p, ''S256'']"
    using get by (simp add: protocol_params_def params_set_get)
  moreover have "url_search_params ?v = ?ps"
    by (simp add: url_search_params_def set_search_params_def)
      (metis form_parse_serialize)
  ultimately show ?thesis
    using assms(1-3)
    by (intro exI [of _ ?v])
      (simp add: build_authorization_url_def given_def new_url_def set_search_params_def url_origin_def url_host_def)
qed

definition demo_authorization :: authorization_url_params where
  "demo_authorization = \<lparr>au_metadata = demo_metadata, au_credentials = demo_credentials,
     au_redirectUri = ''https://gw.example/cb?x=1&y'', au_state = ''s&t=u'', au_codeChallenge = ''ch'',
     au_scopes = [''read''], au_resource = Some ''https://mcp.example/a'', au_extraParams = [(''prompt'', ''consent'')]\<rparr>"

lemma authorization_url_reads_back_witness:
  "\<exists>v. build_authorization_url demo_env demo_authorization demo_world = (Inr (url_href v), demo_world) \<and>
    map_of (url_search_params v) ''state'' = Some ''s&t=u''"
proof -
  have e: "am_authorization_endpoint (au_metadata demo_authorization) = Some ''https://as.example/authorize''"
    by (simp add: demo_authorization_def demo_metadata_def)
  have x: "list_all (\<lambda>(k, v). k \<notin> set protocol_params) (au_extraParams demo_authorization)" by code_simp
  have u: "ev_parse_url demo_env ''https://as.example/authorize'' = Some \<lparr>ul_protocol = ''https:'',
      ul_authority = True, ul_username = [], ul_password = [], ul_hostname = ''as.example'', ul_port = [],
      ul_pathname = ''/authorize'', ul_search = [], ul_hash = []\<rparr>"
    by code_simp
  from authorization_url_reads_back [OF e _ u x, of demo_world] show ?thesis
    by (auto simp: protocol_params_def demo_authorization_def)
qed

end
