(* ===== verification/Registration.thy ===== *)
theory Registration
  imports Token_Client
begin

text \<open>
  \<^verbatim>\<open>packages/oauth/src/registration.ts\<close> and \<^verbatim>\<open>client-metadata.ts\<close>: how the gateway
  comes by an OAuth client at an issuer. The four strategies are the four registration types; the
  interface they share in the code is \<open>supports\<close> and \<open>get_or_create_registration\<close> on a type.
\<close>

section \<open>The gateway's identity\<close>

record gateway_identity =
  gi_baseUrl :: string
  gi_clientName :: string
  gi_clientMetadataUrl :: string
  gi_redirectUri :: string
  gi_jwksUri :: string
  gi_logoUri :: "string option"
  gi_softwareId :: string
  gi_softwareVersion :: string
  gi_supportsPrivateKeyJwt :: bool

definition gateway_identity_from_base_url :: "string \<Rightarrow> gateway_identity" where
  "gateway_identity_from_base_url baseUrl =
     (let origin = strip_trailing is_slash baseUrl in
      \<lparr>gi_baseUrl = origin, gi_clientName = ''Universal Agent Protocol Gateway'',
       gi_clientMetadataUrl = origin @ ''/oauth/client-metadata.json'',
       gi_redirectUri = origin @ ''/oauth/callback'', gi_jwksUri = origin @ ''/.well-known/jwks.json'',
       gi_logoUri = None, gi_softwareId = ''uap-gateway'', gi_softwareVersion = ''0.1.0'',
       gi_supportsPrivateKeyJwt = True\<rparr>)"

definition jstrs :: "string list \<Rightarrow> json" where
  "jstrs ss = JArr (map JStr ss)"

definition optional_entry :: "string \<Rightarrow> string option \<Rightarrow> json_object" where
  "optional_entry k v = (case given v of None \<Rightarrow> [] | Some s \<Rightarrow> [(k, JStr s)])"

definition build_client_id_metadata_document :: "gateway_identity \<Rightarrow> json_object" where
  "build_client_id_metadata_document i =
     [(''client_id'', JStr (gi_clientMetadataUrl i)), (''client_name'', JStr (gi_clientName i)),
      (''client_uri'', JStr (gi_baseUrl i)), (''redirect_uris'', jstrs [gi_redirectUri i]),
      (''grant_types'', jstrs [''authorization_code'', ''refresh_token'']),
      (''response_types'', jstrs [''code'']),
      (''token_endpoint_auth_method'', JStr (if gi_supportsPrivateKeyJwt i then ''private_key_jwt'' else ''none'')),
      (''software_id'', JStr (gi_softwareId i)), (''software_version'', JStr (gi_softwareVersion i))] @
     (if gi_supportsPrivateKeyJwt i then [(''jwks_uri'', JStr (gi_jwksUri i))] else []) @
     optional_entry ''logo_uri'' (gi_logoUri i)"

definition nonempty_array :: "json option \<Rightarrow> bool" where
  "nonempty_array v = (case v of Some (JArr (x # xs)) \<Rightarrow> True | _ \<Rightarrow> False)"

definition assert_valid_client_id_metadata_url ::
  "url_parser \<Rightarrow> string \<Rightarrow> json_object \<Rightarrow> bool \<Rightarrow> unit result" where
  "assert_valid_client_id_metadata_url parse s document allowHttp =
     bind_result (parse_absolute_url parse s) (\<lambda>u.
       if ul_protocol u \<noteq> ''https:'' \<and> \<not> allowHttp
       then Inl (gerr INVALID_REQUEST ''A client ID metadata document URL must use HTTPS'')
       else if ul_pathname u = [] \<or> ul_pathname u = ''/''
       then Inl (gerr INVALID_REQUEST ''A client ID metadata document URL must contain a path'')
       else if map_of document ''client_id'' \<noteq> Some (JStr s)
       then Inl (gerr INVALID_REQUEST ''The client_id inside the metadata document must equal the document URL'')
       else if given (json_string (map_of document ''client_name'')) = None \<or>
               \<not> nonempty_array (map_of document ''redirect_uris'')
       then Inl (gerr INVALID_REQUEST ''A client ID metadata document requires client_name and redirect_uris'')
       else Inr ())"

section \<open>Contexts and results\<close>

record oauth_deps =
  od_policy :: ssrf_policy
  od_identity :: gateway_identity
  od_allowHttp :: bool

record registration_context =
  rx_tenantId :: string
  rx_issuerRecord :: oauth_issuer_record
  rx_metadata :: as_metadata
  rx_redirectUri :: string
  rx_requestedScopes :: "string list"
  rx_initialAccessToken :: "string option"
  rx_avoidAuthMethods :: "auth_method list"

record resolved_registration =
  rr_registrationId :: string
  rr_registrationType :: registration_type
  rr_clientId :: string
  rr_clientSecret :: "string option"
  rr_tokenEndpointAuthMethod :: auth_method

definition pick_auth_method :: "string list option \<Rightarrow> auth_method list \<Rightarrow> auth_method" where
  "pick_auth_method supported preference =
     (let advertised = (case supported of None \<Rightarrow> [] | Some ss \<Rightarrow> List.map_filter auth_method_of_string ss) in
      if advertised = [] then (case preference of [] \<Rightarrow> NONE_METHOD | p # ps \<Rightarrow> p)
      else (case find (\<lambda>p. p \<in> set advertised) preference of
              Some p \<Rightarrow> p
            | None \<Rightarrow> hd advertised))"

definition made_by_this_gateway :: "client_registration \<Rightarrow> string \<Rightarrow> bool" where
  "made_by_this_gateway r redirectUri \<longleftrightarrow> redirectUri \<in> set (cr_redirectUris r)"

definition to_resolved :: "env \<Rightarrow> client_registration \<Rightarrow> resolved_registration io" where
  "to_resolved ev r =
     (io_bind (decrypt_optional ev \<lparr>ec_tenantId = cr_tenantId r, ec_purpose = Client_Secret\<rparr>
                    (cr_encryptedClientSecret r)) (\<lambda>secret.
      io_return \<lparr>rr_registrationId = cr_id r, rr_registrationType = cr_registrationType r,
          rr_clientId = cr_clientId r, rr_clientSecret = secret,
          rr_tokenEndpointAuthMethod = cr_tokenEndpointAuthMethod r\<rparr>))"

section \<open>The table of registrations\<close>

definition find_configured :: "registration_context \<Rightarrow> preconfigured_client option io" where
  "find_configured c =
     db (\<lambda>t. preconfigured_find_by_issuer (rx_tenantId c) (oi_issuer (rx_issuerRecord c)) (tb_preconfigured t))"

definition find_active :: "registration_context \<Rightarrow> client_registration option io" where
  "find_active c =
     db (\<lambda>t. registrations_find_active (rx_tenantId c) (oi_id (rx_issuerRecord c)) (tb_registrations t))"

definition create_registration :: "client_registration \<Rightarrow> unit io" where
  "create_registration r =
     db_insert (\<lambda>t. map_option (\<lambda>rows. t\<lparr>tb_registrations := rows\<rparr>)
                      (registrations_create r (tb_registrations t)))"

definition set_registration_status :: "string \<Rightarrow> registration_status \<Rightarrow> unit io" where
  "set_registration_status i s =
     (io_bind (db_run (\<lambda>t. let (x, rows) = registrations_update i (\<lambda>r. r\<lparr>cr_status := s\<rparr>) (tb_registrations t)
                         in (x, t\<lparr>tb_registrations := rows\<rparr>))) (\<lambda>r.
      io_bind (io_lift r) (\<lambda>found.
      io_return ())))"

section \<open>Preconfigured clients\<close>

definition preconfigured_supports :: "registration_context \<Rightarrow> bool io" where
  "preconfigured_supports c =
     (io_bind (find_configured c) (\<lambda>r.
      io_return (case r of None \<Rightarrow> False | Some p \<Rightarrow> pc_clientId p \<noteq> [])))"

definition find_existing :: "registration_context \<Rightarrow> string \<Rightarrow> client_registration option io" where
  "find_existing c clientId =
     (io_bind (find_active c) (\<lambda>existing.
      (case existing of
           None \<Rightarrow> io_return None
         | Some r \<Rightarrow>
             if cr_registrationType r = PRECONFIGURED \<and> cr_clientId r \<noteq> clientId
             then (io_seq (set_registration_status (cr_id r) INVALID) (
                io_return None))
             else io_return (if cr_registrationType r = PRECONFIGURED then Some r else None))))"

definition preconfigured_record ::
  "registration_context \<Rightarrow> preconfigured_client \<Rightarrow> string \<Rightarrow> int \<Rightarrow> client_registration" where
  "preconfigured_record c p i t = \<lparr>
     cr_id = i, cr_tenantId = rx_tenantId c, cr_issuerId = oi_id (rx_issuerRecord c),
     cr_registrationType = PRECONFIGURED, cr_clientId = pc_clientId p,
     cr_encryptedClientSecret = pc_clientSecretEncrypted p,
     cr_tokenEndpointAuthMethod = pc_tokenEndpointAuthMethod p, cr_redirectUris = [pc_redirectUri p],
     cr_registrationAccessTokenEncrypted = None, cr_registrationClientUri = None, cr_issuedAt = t,
     cr_secretExpiresAt = None, cr_metadataJson = [], cr_status = REG_ACTIVE\<rparr>"

definition preconfigured_get_or_create :: "env \<Rightarrow> registration_context \<Rightarrow> resolved_registration io" where
  "preconfigured_get_or_create ev c =
     (io_bind (find_configured c) (\<lambda>configured.
      (case configured of
           None \<Rightarrow> io_fail (gerr CLIENT_CREDENTIALS_REQUIRED
                    ''No preconfigured OAuth client for this authorization server'')
         | Some p \<Rightarrow>
             (io_bind (find_existing c (pc_clientId p)) (\<lambda>existing.
              (case existing of
                   Some r \<Rightarrow> to_resolved ev r
                 | None \<Rightarrow>
                     (io_bind (new_id ev ''reg'') (\<lambda>i.
                      io_bind now (\<lambda>t.
                      io_seq (create_registration (preconfigured_record c p i t)) (
                      to_resolved ev (preconfigured_record c p i t)))))))))))"

section \<open>Client ID metadata documents\<close>

definition refused_before :: "registration_context \<Rightarrow> bool io" where
  "refused_before c =
     (io_bind (db (\<lambda>t. registrations_list (rx_tenantId c) (oi_id (rx_issuerRecord c)) (tb_registrations t))) (\<lambda>past.
      io_return (list_ex (\<lambda>r. cr_registrationType r = CIMD \<and> cr_status r = REFUSED) past)))"

definition reachable_from :: "env \<Rightarrow> oauth_deps \<Rightarrow> string \<Rightarrow> bool" where
  "reachable_from ev d issuer =
     (case ev_parse_url ev (gi_clientMetadataUrl (od_identity d)) of
        None \<Rightarrow> False
      | Some ours \<Rightarrow>
          is_publicly_reachable_host (ul_hostname ours) \<or>
          (case ev_parse_url ev issuer of
             None \<Rightarrow> False
           | Some u \<Rightarrow> \<not> is_publicly_reachable_host (ul_hostname u)))"

definition cimd_supports :: "env \<Rightarrow> oauth_deps \<Rightarrow> registration_context \<Rightarrow> bool io" where
  "cimd_supports ev d c =
     (if \<not> am_client_id_metadata_document_supported (rx_metadata c) then io_return False
      else
        (io_bind (refused_before c) (\<lambda>refused.
         io_return (\<not> refused \<and> reachable_from ev d (am_issuer (rx_metadata c)) \<and>
             (case assert_valid_client_id_metadata_url (ev_parse_url ev) (gi_clientMetadataUrl (od_identity d))
                     (build_client_id_metadata_document (od_identity d)) (od_allowHttp d) of
                Inl e \<Rightarrow> False | Inr x \<Rightarrow> True)))))"

definition cimd_record ::
  "oauth_deps \<Rightarrow> registration_context \<Rightarrow> string \<Rightarrow> int \<Rightarrow> client_registration" where
  "cimd_record d c i t =
     (let method = (if gi_supportsPrivateKeyJwt (od_identity d)
            then pick_auth_method (am_token_endpoint_auth_methods_supported (rx_metadata c)) [PRIVATE_KEY_JWT, NONE_METHOD]
            else NONE_METHOD) in
      \<lparr>cr_id = i, cr_tenantId = rx_tenantId c, cr_issuerId = oi_id (rx_issuerRecord c),
       cr_registrationType = CIMD, cr_clientId = gi_clientMetadataUrl (od_identity d),
       cr_encryptedClientSecret = None,
       cr_tokenEndpointAuthMethod = (if method = PRIVATE_KEY_JWT then PRIVATE_KEY_JWT else NONE_METHOD),
       cr_redirectUris = [rx_redirectUri c], cr_registrationAccessTokenEncrypted = None,
       cr_registrationClientUri = None, cr_issuedAt = t, cr_secretExpiresAt = None,
       cr_metadataJson = [(''source'', JStr ''client_id_metadata_document'')], cr_status = REG_ACTIVE\<rparr>)"

definition cimd_create :: "env \<Rightarrow> oauth_deps \<Rightarrow> registration_context \<Rightarrow> resolved_registration io" where
  "cimd_create ev d c =
     (io_bind (new_id ev ''reg'') (\<lambda>i.
      io_bind now (\<lambda>t.
      io_seq (create_registration (cimd_record d c i t)) (
      to_resolved ev (cimd_record d c i t)))))"

definition cimd_get_or_create :: "env \<Rightarrow> oauth_deps \<Rightarrow> registration_context \<Rightarrow> resolved_registration io" where
  "cimd_get_or_create ev d c =
     (io_bind (find_active c) (\<lambda>existing.
      (case existing of
           None \<Rightarrow> cimd_create ev d c
         | Some r \<Rightarrow>
             if cr_registrationType r \<noteq> CIMD then cimd_create ev d c
             else if cr_clientId r = gi_clientMetadataUrl (od_identity d) \<and> made_by_this_gateway r (rx_redirectUri c)
             then to_resolved ev r
             else (io_seq (set_registration_status (cr_id r) INVALID) (
                cimd_create ev d c)))))"

section \<open>Dynamic registration\<close>

definition is_registered :: "nat \<Rightarrow> bool" where
  "is_registered status \<longleftrightarrow> status = 200 \<or> status = 201"

definition text_or_empty :: "json option \<Rightarrow> string" where
  "text_or_empty v = (case json_string v of None \<Rightarrow> [] | Some s \<Rightarrow> s)"

definition blames_scope :: "json option \<Rightarrow> bool" where
  "blames_scope payload \<longleftrightarrow>
     (case payload of
        Some (JObj es) \<Rightarrow>
          contains ''scope'' (to_lower (text_or_empty (map_of es ''error'') @ '' '' @
            text_or_empty (map_of es ''error_description'')))
      | _ \<Rightarrow> False)"

definition is_expired :: "int \<Rightarrow> client_registration \<Rightarrow> bool" where
  "is_expired t r = (case cr_secretExpiresAt r of None \<Rightarrow> False | Some e \<Rightarrow> e \<noteq> 0 \<and> e \<le> t)"

definition registration_body ::
  "gateway_identity \<Rightarrow> registration_context \<Rightarrow> auth_method \<Rightarrow> string list \<Rightarrow> json_object" where
  "registration_body i c method scopes =
     [(''client_name'', JStr (gi_clientName i)), (''client_uri'', JStr (gi_baseUrl i)),
      (''redirect_uris'', jstrs [rx_redirectUri c]),
      (''grant_types'', jstrs [''authorization_code'', ''refresh_token'']),
      (''response_types'', jstrs [''code'']),
      (''token_endpoint_auth_method'', JStr (string_of_auth_method method)),
      (''application_type'', JStr ''web''), (''software_id'', JStr (gi_softwareId i)),
      (''software_version'', JStr (gi_softwareVersion i))] @
     (if scopes = [] then [] else [(''scope'', JStr (join '' '' scopes))]) @
     optional_entry ''logo_uri'' (gi_logoUri i) @
     (if method = PRIVATE_KEY_JWT then [(''jwks_uri'', JStr (gi_jwksUri i))] else [])"

definition json_post :: "string \<Rightarrow> string option \<Rightarrow> json_object \<Rightarrow> request_options" where
  "json_post endpoint token body = \<lparr>ro_url = endpoint, ro_method = Some ''POST'',
     ro_headers = [(''content-type'', ''application/json''), (''accept'', ''application/json'')] @
       (case given token of None \<Rightarrow> [] | Some t \<Rightarrow> [(''authorization'', ''Bearer '' @ t)]),
     ro_body = Json (JObj body), ro_maxResponseBytes = None, ro_followRedirects = False,
     ro_expectedContentTypes = []\<rparr>"

definition registration_attempt ::
  "env \<Rightarrow> oauth_deps \<Rightarrow> registration_context \<Rightarrow> string \<Rightarrow> auth_method \<Rightarrow> string list \<Rightarrow> (nat \<times> json option) io" where
  "registration_attempt ev d c endpoint method scopes =
     (io_bind (fetch ev (od_policy d) (json_post endpoint (rx_initialAccessToken c)
                (registration_body (od_identity d) c method scopes))) (\<lambda>rs.
      io_bind (read_text ev rs) (\<lambda>text.
      io_return (sr_status rs, ev_parse_json ev text))))"

definition auth_preference :: "oauth_deps \<Rightarrow> registration_context \<Rightarrow> auth_method list" where
  "auth_preference d c =
     filter (\<lambda>m. m \<notin> set (rx_avoidAuthMethods c))
       ((if gi_supportsPrivateKeyJwt (od_identity d) then [PRIVATE_KEY_JWT] else []) @
        [CLIENT_SECRET_BASIC, CLIENT_SECRET_POST, NONE_METHOD])"

definition requested_method :: "oauth_deps \<Rightarrow> registration_context \<Rightarrow> auth_method" where
  "requested_method d c =
     pick_auth_method
       (map_option (filter (\<lambda>s. s \<notin> string_of_auth_method ` set (rx_avoidAuthMethods c)))
          (am_token_endpoint_auth_methods_supported (rx_metadata c)))
       (auth_preference d c)"

definition registration_scopes :: "registration_context \<Rightarrow> string list" where
  "registration_scopes c =
     (let advertised = (case am_scopes_supported (rx_metadata c) of None \<Rightarrow> [] | Some ss \<Rightarrow> ss) in
      if advertised \<noteq> [] then filter (\<lambda>s. s \<in> set advertised) (rx_requestedScopes c)
      else rx_requestedScopes c)"

definition granted_method :: "json \<Rightarrow> auth_method \<Rightarrow> auth_method" where
  "granted_method registration requested =
     (let echoed = (case Option.bind (json_string (jget registration ''token_endpoint_auth_method'')) auth_method_of_string of
            Some m \<Rightarrow> m | None \<Rightarrow> requested);
          needsSecret = (echoed = CLIENT_SECRET_BASIC \<or> echoed = CLIENT_SECRET_POST)
      in if needsSecret \<and> given (json_string (jget registration ''client_secret'')) = None
         then NONE_METHOD else echoed)"

definition dynamic_record ::
  "registration_context \<Rightarrow> auth_method \<Rightarrow> json \<Rightarrow> string \<Rightarrow> string \<Rightarrow> string option \<Rightarrow> string option \<Rightarrow> int
     \<Rightarrow> client_registration" where
  "dynamic_record c requested registration clientId i secret accessToken t = \<lparr>
     cr_id = i, cr_tenantId = rx_tenantId c, cr_issuerId = oi_id (rx_issuerRecord c),
     cr_registrationType = DYNAMIC, cr_clientId = clientId, cr_encryptedClientSecret = secret,
     cr_tokenEndpointAuthMethod = granted_method registration requested,
     cr_redirectUris = [rx_redirectUri c], cr_registrationAccessTokenEncrypted = accessToken,
     cr_registrationClientUri = json_string (jget registration ''registration_client_uri''),
     cr_issuedAt = (case json_number (jget registration ''client_id_issued_at'') of
         None \<Rightarrow> t | Some n \<Rightarrow> if n = 0 then t else floor (n * 1000)),
     cr_secretExpiresAt = (case json_number (jget registration ''client_secret_expires_at'') of
         None \<Rightarrow> None | Some n \<Rightarrow> if n > 0 then Some (floor (n * 1000)) else None),
     cr_metadataJson = [(''requested_token_endpoint_auth_method'', JStr (string_of_auth_method requested))],
     cr_status = REG_ACTIVE\<rparr>"

text \<open>Storing what the endpoint answered.\<close>

definition store_dynamic ::
  "env \<Rightarrow> registration_context \<Rightarrow> auth_method \<Rightarrow> json \<Rightarrow> string \<Rightarrow> resolved_registration io" where
  "store_dynamic ev c requested registration clientId =
     (io_bind (new_id ev ''reg'') (\<lambda>i.
      io_bind (encrypt_optional ev \<lparr>ec_tenantId = rx_tenantId c, ec_purpose = Client_Secret\<rparr>
                    (json_string (jget registration ''client_secret''))) (\<lambda>secret.
      io_bind (encrypt_optional ev \<lparr>ec_tenantId = rx_tenantId c, ec_purpose = Registration_Access_Token\<rparr>
                    (json_string (jget registration ''registration_access_token''))) (\<lambda>accessToken.
      io_bind now (\<lambda>t.
      (let r = dynamic_record c requested registration clientId i secret accessToken t in
      io_seq (create_registration r) (
      to_resolved ev r)))))))"

definition register_client :: "env \<Rightarrow> oauth_deps \<Rightarrow> registration_context \<Rightarrow> resolved_registration io" where
  "register_client ev d c =
     (case given (am_registration_endpoint (rx_metadata c)) of
        None \<Rightarrow> io_fail (gerr REGISTRATION_FAILED ''Authorization server does not expose a registration endpoint'')
      | Some endpoint \<Rightarrow>
          if auth_preference d c = []
          then io_fail (gerr REGISTRATION_FAILED
                 ''Every client authentication method this server offers was refused'')
          else
            ((let method = requested_method d c in
             (let scopes = registration_scopes c in
             io_bind (registration_attempt ev d c endpoint method scopes) (\<lambda>(status1, payload1).
             io_bind (if \<not> is_registered status1 \<and> scopes \<noteq> [] \<and> blames_scope payload1
                  then registration_attempt ev d c endpoint method []
                  else io_return (status1, payload1)) (\<lambda>(status, payload).
             (if \<not> is_registered status
                then io_throw (protocol_error_from_body status payload ''invalid_client_metadata'')
                else (case (payload, json_string (field payload ''client_id'')) of
                   (Some registration, Some clientId) \<Rightarrow> store_dynamic ev c method registration clientId
                 | _ \<Rightarrow> io_fail (gerr REGISTRATION_FAILED ''Registration endpoint returned no client_id'')))))))))"

definition dynamic_get_or_create :: "env \<Rightarrow> oauth_deps \<Rightarrow> registration_context \<Rightarrow> resolved_registration io" where
  "dynamic_get_or_create ev d c =
     (io_bind (find_active c) (\<lambda>existing.
      io_bind now (\<lambda>t.
      (case existing of
           None \<Rightarrow> register_client ev d c
         | Some r \<Rightarrow>
             if cr_registrationType r \<noteq> DYNAMIC then register_client ev d c
             else if \<not> is_expired t r \<and> made_by_this_gateway r (rx_redirectUri c) then to_resolved ev r
             else (io_seq (set_registration_status (cr_id r) INVALID) (
                register_client ev d c))))))"

definition dynamic_reregister ::
  "env \<Rightarrow> oauth_deps \<Rightarrow> registration_context \<Rightarrow> string \<Rightarrow> resolved_registration io" where
  "dynamic_reregister ev d c previousId =
     (io_seq (set_registration_status previousId REFUSED) (
      register_client ev d c))"

section \<open>Clients an operator supplies\<close>

definition user_supplied_get_or_create :: "env \<Rightarrow> registration_context \<Rightarrow> resolved_registration io" where
  "user_supplied_get_or_create ev c =
     (io_bind (find_active c) (\<lambda>existing.
      (let missing = gerr_data CLIENT_CREDENTIALS_REQUIRED
          ''This authorization server requires an OAuth client ID. Enter the client ID and optional client secret.''
          (JObj [(''issuer'', JStr (oi_issuer (rx_issuerRecord c)))]) in
      (case existing of
           None \<Rightarrow> io_fail missing
         | Some r \<Rightarrow> if cr_registrationType r = USER_SUPPLIED then to_resolved ev r else io_fail missing))))"

section \<open>The selector\<close>

fun strategy_supports :: "env \<Rightarrow> oauth_deps \<Rightarrow> registration_type \<Rightarrow> registration_context \<Rightarrow> bool io" where
  "strategy_supports ev d PRECONFIGURED c = preconfigured_supports c"
| "strategy_supports ev d CIMD c = cimd_supports ev d c"
| "strategy_supports ev d DYNAMIC c = io_return (am_registration_endpoint (rx_metadata c) \<noteq> None)"
| "strategy_supports ev d USER_SUPPLIED c = io_return True"

fun get_or_create_registration ::
  "env \<Rightarrow> oauth_deps \<Rightarrow> registration_type \<Rightarrow> registration_context \<Rightarrow> resolved_registration io" where
  "get_or_create_registration ev d PRECONFIGURED c = preconfigured_get_or_create ev c"
| "get_or_create_registration ev d CIMD c = cimd_get_or_create ev d c"
| "get_or_create_registration ev d DYNAMIC c = dynamic_get_or_create ev d c"
| "get_or_create_registration ev d USER_SUPPLIED c = user_supplied_get_or_create ev c"

definition strategies :: "registration_type list" where
  "strategies = [PRECONFIGURED, CIMD, DYNAMIC, USER_SUPPLIED]"

definition initial_access_token :: "env \<Rightarrow> registration_context \<Rightarrow> string option io" where
  "initial_access_token ev c =
     (case given (rx_initialAccessToken c) of
        Some t \<Rightarrow> io_return (Some t)
      | None \<Rightarrow>
          (io_bind (find_configured c) (\<lambda>configured.
           (case given (Option.bind configured pc_initialAccessTokenEncrypted) of
                None \<Rightarrow> io_return None
              | Some sealed \<Rightarrow> io_bind (decrypt ev \<lparr>ec_tenantId = rx_tenantId c, ec_purpose = Client_Secret\<rparr> sealed)
                    (\<lambda>t. io_return (Some t))))))"

fun resolve_loop ::
  "env \<Rightarrow> oauth_deps \<Rightarrow> registration_type list \<Rightarrow> registration_context \<Rightarrow> resolved_registration io" where
  "resolve_loop ev d [] c = io_fail (gerr CLIENT_CREDENTIALS_REQUIRED ''No usable OAuth client registration mechanism'')"
| "resolve_loop ev d (s # ss) c =
     (io_bind (strategy_supports ev d s c) (\<lambda>supported.
      (if supported then get_or_create_registration ev d s c else resolve_loop ev d ss c)))"

definition resolve_registration :: "env \<Rightarrow> oauth_deps \<Rightarrow> registration_context \<Rightarrow> resolved_registration io" where
  "resolve_registration ev d c =
     (io_bind (initial_access_token ev c) (\<lambda>token.
      resolve_loop ev d strategies (c\<lparr>rx_initialAccessToken := token\<rparr>)))"

definition selector_reregister ::
  "env \<Rightarrow> oauth_deps \<Rightarrow> registration_context \<Rightarrow> string \<Rightarrow> resolved_registration io" where
  "selector_reregister ev d c previousId =
     (if am_registration_endpoint (rx_metadata c) = None
      then io_fail (gerr CLIENT_CREDENTIALS_REQUIRED
             ''This authorization server rejected our client and offers no way to take another'')
      else
        (io_bind (initial_access_token ev c) (\<lambda>token.
         dynamic_reregister ev d (c\<lparr>rx_initialAccessToken := token\<rparr>) previousId)))"

section \<open>Coherent registrations\<close>

text \<open>
  What every stored registration satisfies: a client known by its metadata document has no secret
  and never authenticates with one, a client registered dynamically that authenticates with a
  secret holds one.
\<close>

definition coherent :: "client_registration \<Rightarrow> bool" where
  "coherent r \<longleftrightarrow>
     (case cr_registrationType r of
        CIMD \<Rightarrow> cr_encryptedClientSecret r = None \<and> cr_tokenEndpointAuthMethod r \<in> {PRIVATE_KEY_JWT, NONE_METHOD}
      | DYNAMIC \<Rightarrow> cr_tokenEndpointAuthMethod r \<in> {CLIENT_SECRET_BASIC, CLIENT_SECRET_POST} \<longrightarrow>
          cr_encryptedClientSecret r \<noteq> None
      | _ \<Rightarrow> True)"

definition registrations_coherent :: "tables \<Rightarrow> bool" where
  "registrations_coherent t \<longleftrightarrow> list_all coherent (tb_registrations t)"

lemma coherent_records:
  "coherent (preconfigured_record c p i t)"
  "coherent (cimd_record d c i t)"
  by (simp_all add: coherent_def preconfigured_record_def cimd_record_def Let_def)

lemma granted_method_needs_secret:
  "granted_method registration m \<in> {CLIENT_SECRET_BASIC, CLIENT_SECRET_POST} \<Longrightarrow>
     \<exists>s. json_string (jget registration ''client_secret'') = Some s"
  by (auto simp: granted_method_def given_def Let_def split: if_splits option.splits)

lemma coherent_dynamic:
  "secret \<noteq> None \<or> json_string (jget registration ''client_secret'') = None \<Longrightarrow>
     coherent (dynamic_record c m registration clientId i secret accessToken t)"
  using granted_method_needs_secret [of registration m]
  by (auto simp: coherent_def dynamic_record_def)

lemma keeps_create [inv_intros]: "coherent r \<Longrightarrow> keeps_tables registrations_coherent (create_registration r)"
  unfolding create_registration_def
  by (rule keeps_tables_db_insert)
    (auto simp: registrations_coherent_def registrations_create_def insert_row_def split: if_splits)

lemma coherent_status: "coherent (r\<lparr>cr_status := s\<rparr>) = coherent r"
  by (cases "cr_registrationType r") (simp_all add: coherent_def)

lemma keeps_status [inv_intros]: "keeps_tables registrations_coherent (set_registration_status i s)"
  unfolding set_registration_status_def
  by (intro inv_intros)
    (auto simp: registrations_coherent_def registrations_update_def update_rows_def list_all_iff coherent_status
       Let_def)

lemma keeps_finds [inv_intros]:
  "keeps P (find_configured c)" "keeps P (find_active c)" "keeps P (preconfigured_supports c)"
  "keeps P (refused_before c)" "keeps P (cimd_supports ev d c)" "keeps P (to_resolved ev r)"
  "keeps P (initial_access_token ev c)"
  unfolding find_configured_def find_active_def preconfigured_supports_def refused_before_def cimd_supports_def
    to_resolved_def initial_access_token_def
  by (auto intro!: inv_intros split: option.splits)

lemma encrypt_optional_Some: "encrypt_optional ev c (Some s) w = (Inr x, w') \<Longrightarrow> x \<noteq> None"
  by (auto simp: encrypt_optional_def io_bind_Inr)

lemma keeps_store_dynamic [inv_intros]:
  "keeps_tables registrations_coherent (store_dynamic ev c m registration clientId)"
proof -
  have "keeps_tables registrations_coherent (io_bind (encrypt_optional ev x
          (json_string (jget registration ''registration_access_token''))) (\<lambda>accessToken. io_bind now (\<lambda>t.
        let r = dynamic_record c m registration clientId i secret accessToken t
        in io_seq (create_registration r) (to_resolved ev r))))"
    if "secret \<noteq> None \<or> json_string (jget registration ''client_secret'') = None" for i secret x
    using that by (auto intro!: inv_intros coherent_dynamic)
  note rest = this
  show ?thesis
    unfolding store_dynamic_def
    by (rule keeps_bind [OF keeps_tables_draws(2)], rule keeps_bind_result [OF keeps_tables_draws(4)], rule rest)
      (use encrypt_optional_Some in fastforce)
qed

lemma keeps_register_client [inv_intros]:
  "others_keep ev registrations_coherent \<Longrightarrow> keeps_tables registrations_coherent (register_client ev d c)"
  unfolding register_client_def registration_attempt_def
  by (auto simp: Let_def intro!: inv_intros split: option.splits prod.splits)

lemma keeps_get_or_create [inv_intros]:
  assumes "others_keep ev registrations_coherent"
  shows "keeps_tables registrations_coherent (get_or_create_registration ev d s c)"
  using assms
  by (cases s)
    (auto simp: preconfigured_get_or_create_def find_existing_def cimd_get_or_create_def cimd_create_def
       dynamic_get_or_create_def user_supplied_get_or_create_def Let_def
       intro!: inv_intros coherent_records split: option.splits)

lemma keeps_strategy_supports [inv_intros]: "keeps P (strategy_supports ev d s c)"
  by (cases s) (auto intro!: inv_intros)

lemma keeps_resolve_loop [inv_intros]:
  "others_keep ev registrations_coherent \<Longrightarrow> keeps_tables registrations_coherent (resolve_loop ev d ss c)"
  by (induction ss) (auto intro!: inv_intros)

section \<open>What is requested and who answers\<close>

lemma auth_method_of_string_Some: "auth_method_of_string s = Some m \<Longrightarrow> s = string_of_auth_method m"
  by (auto split: if_splits)

lemma pick_auth_method_in:
  "preference \<noteq> [] \<Longrightarrow> pick_auth_method supported preference \<in> set preference \<or>
     (\<exists>ss. supported = Some ss \<and> string_of_auth_method (pick_auth_method supported preference) \<in> set ss)"
proof -
  assume p: "preference \<noteq> []"
  define adv where "adv = (case supported of None \<Rightarrow> [] | Some ss \<Rightarrow> List.map_filter auth_method_of_string ss)"
  have adv: "m \<in> set adv \<Longrightarrow> \<exists>ss. supported = Some ss \<and> string_of_auth_method m \<in> set ss" for m
    by (auto simp: adv_def List.map_filter_def simp del: auth_method_of_string.simps
        split: option.splits dest!: auth_method_of_string_Some)
  consider "adv = []" | m where "adv \<noteq> []" "find (\<lambda>p. p \<in> set adv) preference = Some m"
    | "adv \<noteq> []" "find (\<lambda>p. p \<in> set adv) preference = None"
    by fastforce
  then show ?thesis
  proof cases
    case 1
    with p show ?thesis by (cases preference) (simp_all add: pick_auth_method_def adv_def [symmetric])
  next
    case 2
    from 2(2) have "m \<in> set preference" by (auto simp: find_Some_iff)
    with 2 show ?thesis by (simp add: pick_auth_method_def adv_def [symmetric])
  next
    case 3
    then show ?thesis using adv [of "hd adv"] by (simp add: pick_auth_method_def adv_def [symmetric])
  qed
qed

lemma requested_method_not_avoided:
  "auth_preference d c \<noteq> [] \<Longrightarrow> requested_method d c \<notin> set (rx_avoidAuthMethods c)"
  unfolding requested_method_def
  by (frule pick_auth_method_in [of _ "map_option (filter (\<lambda>s. s \<notin> string_of_auth_method ` set (rx_avoidAuthMethods c)))
          (am_token_endpoint_auth_methods_supported (rx_metadata c))"])
    (auto simp: auth_preference_def)

text \<open>A registration request: a permitted POST to the endpoint, for a method that was not refused.\<close>

definition posted_registration ::
  "env \<Rightarrow> oauth_deps \<Rightarrow> registration_context \<Rightarrow> string \<Rightarrow> wire_request \<Rightarrow> bool" where
  "posted_registration ev d c endpoint rq \<longleftrightarrow>
     ev_parse_url ev endpoint = Some (wq_url rq) \<and> wq_method rq = ''POST'' \<and> sent_permitted (od_policy d) rq \<and>
     (\<exists>body m. wq_body rq = Json (JObj body) \<and> m \<notin> set (rx_avoidAuthMethods c) \<and>
        map_of body ''token_endpoint_auth_method'' = Some (JStr (string_of_auth_method m)) \<and>
        map_of body ''redirect_uris'' = Some (jstrs [rx_redirectUri c]))"

lemma registration_attempt_emits:
  assumes "method \<notin> set (rx_avoidAuthMethods c)"
  shows "emits (posted_registration ev d c endpoint) 1 (registration_attempt ev d c endpoint method scopes)"
proof -
  let ?body = "registration_body (od_identity d) c method scopes"
  have "map_of ?body ''token_endpoint_auth_method'' = Some (JStr (string_of_auth_method method))"
    "map_of ?body ''redirect_uris'' = Some (jstrs [rx_redirectUri c])"
    by (simp_all add: registration_body_def)
  then have "emits (posted_registration ev d c endpoint) 1
      (fetch ev (od_policy d) (json_post endpoint (rx_initialAccessToken c) ?body))"
    using assms
    by (intro emits_weaken [OF fetch_once])
      (auto simp: redirectable_def json_post_def sent_for_def posted_registration_def)
  then show ?thesis
    unfolding registration_attempt_def
    by (rule emits_bind_quiet) (intro quiet_bind quiet_read_text quiet_basic)
qed

lemma quiet_create: "quiet (create_registration r)"
  unfolding create_registration_def by (rule quiet_basic)

lemma quiet_to_resolved: "quiet (to_resolved ev r)"
  unfolding to_resolved_def by (intro quiet_bind quiet_basic)

lemma quiet_store_dynamic: "quiet (store_dynamic ev c m registration clientId)"
  unfolding store_dynamic_def io_seq_def Let_def
  by (intro quiet_bind quiet_draws quiet_basic quiet_create quiet_to_resolved)

lemma to_resolved_type: "cr_registrationType r = s \<Longrightarrow> returns (\<lambda>rr. rr_registrationType rr = s) (to_resolved ev r)"
  unfolding to_resolved_def by (intro returns_intros) simp

lemma find_existing_type:
  "returns (\<lambda>r. r = None \<or> (\<exists>q. r = Some q \<and> cr_registrationType q = PRECONFIGURED)) (find_existing c i)"
  unfolding find_existing_def by (intro returns_intros) auto

lemma get_or_create_type:
  "returns (\<lambda>rr. rr_registrationType rr = s) (get_or_create_registration ev d s c)"
proof (cases s)
  case PRECONFIGURED
  show ?thesis
    unfolding PRECONFIGURED get_or_create_registration.simps preconfigured_get_or_create_def
    by (rule returns_bind, rule returns_control(2), rule returns_basic(2),
        rule returns_bind_result [OF find_existing_type], intro returns_intros to_resolved_type)
      (auto simp: preconfigured_record_def)
next
  case CIMD
  show ?thesis
    unfolding CIMD get_or_create_registration.simps cimd_get_or_create_def cimd_create_def
    by (intro returns_intros to_resolved_type) (auto simp: cimd_record_def Let_def)
next
  case DYNAMIC
  show ?thesis
    unfolding DYNAMIC get_or_create_registration.simps dynamic_get_or_create_def register_client_def
      store_dynamic_def
    by (intro returns_intros to_resolved_type) (auto simp: dynamic_record_def)
next
  case USER_SUPPLIED
  show ?thesis
    unfolding USER_SUPPLIED get_or_create_registration.simps user_supplied_get_or_create_def
    by (intro returns_intros to_resolved_type) auto
qed

lemma supports_reads: "snd (strategy_supports ev d s c w) = w"
  using keepsD [OF keeps_strategy_supports, of "\<lambda>v. v = w" w ev d s c] by simp

lemma supports_ignores_token:
  "strategy_supports ev d s (c\<lparr>rx_initialAccessToken := t\<rparr>) = strategy_supports ev d s c"
proof -
  have "find_configured (c\<lparr>rx_initialAccessToken := t\<rparr>) = find_configured c"
    "refused_before (c\<lparr>rx_initialAccessToken := t\<rparr>) = refused_before c"
    by (simp_all add: find_configured_def refused_before_def)
  then show ?thesis by (cases s) (simp_all add: preconfigured_supports_def cimd_supports_def)
qed

lemma resolve_loop_type:
  "resolve_loop ev d ss c w = (Inr rr, w') \<Longrightarrow>
     \<exists>earlier later. ss = earlier @ rr_registrationType rr # later \<and>
       list_all (\<lambda>s. fst (strategy_supports ev d s c w) = Inr False) earlier \<and>
       fst (strategy_supports ev d (rr_registrationType rr) c w) = Inr True"
proof (induction ss)
  case (Cons s ss)
  obtain r where r: "strategy_supports ev d s c w = (r, w)"
    using supports_reads [of ev d s c w] by (cases "strategy_supports ev d s c w") simp
  show ?case
  proof (cases "r = Inr True")
    case True
    with Cons.prems r have "rr_registrationType rr = s"
      by (auto simp: io_bind_eq dest: returnsD [OF get_or_create_type])
    with r True show ?thesis by (intro exI [of _ "[]"] exI [of _ ss]) simp
  next
    case False
    with Cons.prems r have rf: "r = Inr False" and "resolve_loop ev d ss c w = (Inr rr, w')"
      by (cases r; auto simp: io_bind_def)+
    from Cons.IH [OF this(2)] obtain earlier later where
      "ss = earlier @ rr_registrationType rr # later"
      "list_all (\<lambda>s. fst (strategy_supports ev d s c w) = Inr False) earlier"
      "fst (strategy_supports ev d (rr_registrationType rr) c w) = Inr True" by blast
    with r rf show ?thesis by (intro exI [of _ "s # earlier"] exI [of _ later]) simp
  qed
qed simp

section \<open>Properties\<close>

text \<open>
  The outside the witnesses run against: a server that first refuses the scopes and then grants a
  method that needs a secret without sending one.
\<close>

definition demo_issuer_record :: oauth_issuer_record where
  "demo_issuer_record = \<lparr>oi_id = ''iss'', oi_issuer = ''https://as.example'', oi_authorizationEndpoint = None,
     oi_tokenEndpoint = None, oi_registrationEndpoint = None, oi_revocationEndpoint = None,
     oi_metadataJson = demo_metadata, oi_metadataEtag = None, oi_metadataExpiresAt = 100,
     oi_supportsCimd = False, oi_supportsDcr = True, oi_supportedAuthMethods = [], oi_status = SERVER_ACTIVE\<rparr>"

definition demo_deps :: oauth_deps where
  "demo_deps = \<lparr>od_policy = demo_policy, od_identity = gateway_identity_from_base_url ''https://gw.example/'',
     od_allowHttp = False\<rparr>"

definition demo_client_context :: registration_context where
  "demo_client_context = \<lparr>rx_tenantId = ''t'', rx_issuerRecord = demo_issuer_record, rx_metadata = demo_metadata,
     rx_redirectUri = ''https://gw.example/oauth/callback'', rx_requestedScopes = [''repo''],
     rx_initialAccessToken = None, rx_avoidAuthMethods = [PRIVATE_KEY_JWT]\<rparr>"

definition registering_env :: env where
  "registering_env = demo_env\<lparr>
     ev_peer := (\<lambda>k rq. Inr \<lparr>ws_status = (if k = 0 then 400 else 201), ws_headers = [],
       ws_text = (if k = 0 then ''scope'' else ''ok'')\<rparr>),
     ev_parse_json := (\<lambda>s. if s = ''ok''
       then Some (JObj [(''client_id'', JStr ''abc''), (''token_endpoint_auth_method'', JStr ''client_secret_post'')])
       else Some (JObj [(''error'', JStr ''invalid_scope'')]))\<rparr>"

lemma others_keep_demo: "others_keep registering_env I"
  by (simp add: others_keep_def registering_env_def demo_env_def)

text \<open>
  C13: However clients are resolved and replaced, every stored registration stays coherent: a
  metadata document client has no secret and no method that needs one, and a dynamically registered
  client whose method needs a secret holds one, even where the server granted such a method and no
  secret.
\<close>

theorem registrations_stay_coherent:
  assumes "others_keep ev registrations_coherent" and "registrations_coherent (wd_db w)"
  shows "registrations_coherent (wd_db (snd (resolve_registration ev d c w))) \<and>
    registrations_coherent (wd_db (snd (selector_reregister ev d c previousId w)))"
proof -
  have "keeps_tables registrations_coherent (resolve_registration ev d c)"
    unfolding resolve_registration_def using assms(1) by (intro inv_intros)
  moreover have "keeps_tables registrations_coherent (selector_reregister ev d c previousId)"
    unfolding selector_reregister_def dynamic_reregister_def using assms(1) by (intro inv_intros)
  ultimately show ?thesis using keepsD assms(2) by blast
qed

lemma registrations_stay_coherent_witness:
  "let w = demo_world\<lparr>wd_db := demo_tables\<lparr>tb_registrations := [cimd_record demo_deps demo_client_context ''reg_0'' 5]\<rparr>\<rparr>
   in registrations_coherent (wd_db (snd (resolve_registration registering_env demo_deps demo_client_context w)))"
proof -
  define w where "w = demo_world\<lparr>wd_db := demo_tables\<lparr>tb_registrations := [cimd_record demo_deps demo_client_context ''reg_0'' 5]\<rparr>\<rparr>"
  have "registrations_coherent (wd_db w)" by (simp add: registrations_coherent_def w_def coherent_records)
  then show ?thesis
    using registrations_stay_coherent [OF others_keep_demo, of w demo_deps demo_client_context "[]"] by (simp add: Let_def w_def)
qed

text \<open>
  Registering puts at most two requests on the wire, the second only as the retry without scopes.
  Each is a POST the policy permits to the registration endpoint, names the redirect URI of the
  context and asks for an authentication method the server has not refused before.
\<close>

theorem registration_contained:
  "\<exists>rqs. wd_sent (snd (register_client ev d c w)) = wd_sent w @ rqs \<and> length rqs \<le> 2 \<and>
    (\<forall>rq \<in> set rqs. \<exists>endpoint. am_registration_endpoint (rx_metadata c) = Some endpoint \<and>
       posted_registration ev d c endpoint rq)"
proof (cases "given (am_registration_endpoint (rx_metadata c)) = None \<or> auth_preference d c = []")
  case True
  then show ?thesis by (auto simp: register_client_def split: option.splits)
next
  case False
  then obtain endpoint where e: "given (am_registration_endpoint (rx_metadata c)) = Some endpoint" by auto
  have nonempty: "\<not> auth_preference d c = []" using False by simp
  have m: "requested_method d c \<notin> set (rx_avoidAuthMethods c)"
    using False by (intro requested_method_not_avoided) simp
  have retry: "emits (posted_registration ev d c endpoint) 1
      (if b then registration_attempt ev d c endpoint (requested_method d c) [] else io_return x)" for b x
    using registration_attempt_emits [OF m] by (simp add: emits_quiet)
  have store: "quiet (if b then io_throw x else
      (case (payload, json_string (field payload ''client_id'')) of
         (Some registration, Some clientId) \<Rightarrow> store_dynamic ev c (requested_method d c) registration clientId
       | _ \<Rightarrow> io_fail y))" for b x y payload
    by (auto intro!: quiet_basic quiet_store_dynamic split: option.splits)
  have "emits (posted_registration ev d c endpoint) (Suc 1) (register_client ev d c)"
    unfolding register_client_def e option.case if_not_P [OF nonempty] Let_def
    by (rule emits_bind_1 [OF registration_attempt_emits [OF m]])
      (rule emits_prod, rule emits_bind_quiet [OF retry], rule quiet_prod, rule store)
  then show ?thesis
    using e unfolding emits_def by (fastforce simp: list_all_iff given_Some)
qed

lemma registration_contained_witness:
  "length (wd_sent (snd (register_client registering_env demo_deps demo_client_context demo_world))) \<le> 2"
  using registration_contained [of registering_env demo_deps demo_client_context demo_world] by (auto simp: demo_world_def)

text \<open>
  C22: A resolved client is of the first type in the order of the specification (preconfigured,
  metadata document, dynamic, supplied) whose strategy applies, and it is never identified by a
  metadata document once the server refused such a client of this tenant.
\<close>

theorem registration_priority:
  assumes "resolve_registration ev d c w = (Inr rr, w')"
  shows "(\<exists>earlier later. strategies = earlier @ rr_registrationType rr # later \<and>
      list_all (\<lambda>s. fst (strategy_supports ev d s c w) = Inr False) earlier \<and>
      fst (strategy_supports ev d (rr_registrationType rr) c w) = Inr True) \<and>
    (\<forall>r \<in> set (tb_registrations (wd_db w)). cr_tenantId r = rx_tenantId c \<and>
       cr_issuerId r = oi_id (rx_issuerRecord c) \<and> cr_registrationType r = CIMD \<and> cr_status r = REFUSED
         \<longrightarrow> rr_registrationType rr \<noteq> CIMD)"
proof -
  obtain token w1 where t: "initial_access_token ev c w = (Inr token, w1)"
      and loop: "resolve_loop ev d strategies (c\<lparr>rx_initialAccessToken := token\<rparr>) w1 = (Inr rr, w')"
    using assms by (auto simp: resolve_registration_def io_bind_Inr)
  from t have [simp]: "w1 = w"
    by (auto simp: initial_access_token_def find_configured_def decrypt_def io_bind_Inr io_lift_def io_throw_def
        io_return_def split: option.splits sum.splits)
  from resolve_loop_type [OF loop]
  have first: "\<exists>earlier later. strategies = earlier @ rr_registrationType rr # later \<and>
      list_all (\<lambda>s. fst (strategy_supports ev d s c w) = Inr False) earlier \<and>
      fst (strategy_supports ev d (rr_registrationType rr) c w) = Inr True"
    by (simp add: supports_ignores_token)
  have "rr_registrationType rr \<noteq> CIMD"
    if "r \<in> set (tb_registrations (wd_db w))" "cr_tenantId r = rx_tenantId c"
      "cr_issuerId r = oi_id (rx_issuerRecord c)" "cr_registrationType r = CIMD" "cr_status r = REFUSED" for r
  proof
    assume "rr_registrationType rr = CIMD"
    with first have "fst (cimd_supports ev d c w) = Inr True" by auto
    moreover have "list_ex (\<lambda>r. cr_registrationType r = CIMD \<and> cr_status r = REFUSED)
        (registrations_list (rx_tenantId c) (oi_id (rx_issuerRecord c)) (tb_registrations (wd_db w)))"
      using that by (auto simp: registrations_list_def list_ex_iff)
    ultimately show False by (auto simp: cimd_supports_def refused_before_def io_bind_eq split: if_splits)
  qed
  with first show ?thesis by blast
qed

text \<open>The refused client is remembered beside the one that replaced it.\<close>

definition replacement :: client_registration where
  "replacement = dynamic_record demo_client_context CLIENT_SECRET_BASIC JNull ''abc'' ''reg_1'' None None 7"

definition refused_world :: world where
  "refused_world = demo_world\<lparr>wd_db := demo_tables\<lparr>tb_registrations :=
     [cimd_record demo_deps demo_client_context ''reg_0'' 5\<lparr>cr_status := REFUSED\<rparr>, replacement]\<rparr>\<rparr>"

definition document_context :: registration_context where
  "document_context = demo_client_context\<lparr>rx_metadata := demo_metadata\<lparr>am_client_id_metadata_document_supported := True\<rparr>\<rparr>"

lemma registration_priority_witness:
  "\<exists>rr w'. resolve_registration demo_env demo_deps document_context refused_world = (Inr rr, w') \<and>
     rr_registrationType rr \<noteq> CIMD"
proof -
  let ?r = "cimd_record demo_deps demo_client_context ''reg_0'' 5\<lparr>cr_status := REFUSED\<rparr>"
  have ids: "rx_tenantId demo_client_context = ''t''" "oi_id (rx_issuerRecord demo_client_context) = ''iss''"
    "rx_initialAccessToken demo_client_context = None" "rx_redirectUri demo_client_context = ''https://gw.example/oauth/callback''"
    by (simp_all add: demo_client_context_def demo_issuer_record_def)
  have rows: "tb_registrations (wd_db refused_world) = [?r, replacement]"
    "tb_preconfigured (wd_db refused_world) = []" "wd_now refused_world = 0"
    by (simp_all add: refused_world_def demo_world_def demo_tables_def)
  have r: "cr_tenantId ?r = ''t''" "cr_issuerId ?r = ''iss''" "cr_registrationType ?r = CIMD" "cr_status ?r = REFUSED"
    by (simp_all add: cimd_record_def Let_def ids)
  have new: "cr_tenantId replacement = ''t''" "cr_issuerId replacement = ''iss''"
    "cr_registrationType replacement = DYNAMIC" "cr_status replacement = REG_ACTIVE"
    "cr_redirectUris replacement = [''https://gw.example/oauth/callback'']" "cr_secretExpiresAt replacement = None"
    "cr_encryptedClientSecret replacement = None" "cr_tenantId replacement = ''t''"
    by (simp_all add: replacement_def dynamic_record_def ids json_number_def)
  have active: "registrations_find_active ''t'' ''iss'' [?r, replacement] = Some replacement"
    by (simp add: registrations_find_active_def find_one_def r new)
  have "list_ex (\<lambda>r. cr_registrationType r = CIMD \<and> cr_status r = REFUSED)
      (registrations_list ''t'' ''iss'' [?r, replacement])"
    using r by (simp add: registrations_list_def list_ex_iff)
  then have cimd: "fst (cimd_supports demo_env demo_deps c refused_world) = Inr False"
    if "rx_tenantId c = ''t''" "oi_id (rx_issuerRecord c) = ''iss''" for c
    using that by (simp add: cimd_supports_def refused_before_def io_bind_assoc rows)
  define c where "c = document_context\<lparr>rx_initialAccessToken := None\<rparr>"
  have c: "rx_tenantId c = ''t''" "oi_id (rx_issuerRecord c) = ''iss''"
    "rx_redirectUri c = ''https://gw.example/oauth/callback''"
    "am_registration_endpoint (rx_metadata c) = Some ''https://as.example/register''"
    by (simp_all add: c_def document_context_def ids demo_metadata_def)
  have token: "initial_access_token demo_env document_context refused_world = (Inr None, refused_world)"
    by (simp add: initial_access_token_def find_configured_def rows preconfigured_find_by_issuer_def find_one_def
        given_def document_context_def ids io_bind_assoc)
  have pre: "preconfigured_supports c refused_world = (Inr False, refused_world)"
    by (simp add: preconfigured_supports_def find_configured_def rows preconfigured_find_by_issuer_def find_one_def
        io_bind_assoc)
  have doc: "cimd_supports demo_env demo_deps c refused_world = (Inr False, refused_world)"
    using cimd [OF c(1,2)] supports_reads [of demo_env demo_deps CIMD c refused_world]
    by (cases "cimd_supports demo_env demo_deps c refused_world") simp
  have dyn: "dynamic_get_or_create demo_env demo_deps c refused_world = to_resolved demo_env replacement refused_world"
    by (simp add: dynamic_get_or_create_def find_active_def io_bind_assoc rows c active new is_expired_def
        made_by_this_gateway_def)
  have "resolve_registration demo_env demo_deps document_context refused_world =
      resolve_loop demo_env demo_deps strategies c refused_world"
    by (simp add: resolve_registration_def io_bind_eq token c_def)
  also have "\<dots> = to_resolved demo_env replacement refused_world"
    unfolding strategies_def resolve_loop.simps strategy_supports.simps get_or_create_registration.simps
      io_bind_eq [where m = "preconfigured_supports c", OF pre]
      io_bind_eq [where m = "cimd_supports demo_env demo_deps c", OF doc] if_False io_bind_return c(4)
    by (simp add: dyn)
  finally have "\<exists>rr w'. resolve_registration demo_env demo_deps document_context refused_world = (Inr rr, w')"
    by (simp add: to_resolved_def decrypt_optional_def vault_decrypt_optional_def new)
  then obtain rr w' where run: "resolve_registration demo_env demo_deps document_context refused_world = (Inr rr, w')"
    by blast
  have "?r \<in> set (tb_registrations (wd_db refused_world))" by (simp add: rows)
  moreover have "rx_tenantId document_context = ''t''" "oi_id (rx_issuerRecord document_context) = ''iss''"
    by (simp_all add: document_context_def ids)
  ultimately have "rr_registrationType rr \<noteq> CIMD"
    using registration_priority [OF run, THEN conjunct2, THEN bspec, of ?r] r by simp
  with run show ?thesis by blast
qed

text \<open>
  An administrator who replaces the secret, the method or the redirect URI of a preconfigured
  client under the same client id is not heard: the registration made from the old row is used as
  it stands, until the client id itself changes.
\<close>

theorem replaced_secret_ignored:
  assumes "registrations_find_active (rx_tenantId c) (oi_id (rx_issuerRecord c)) (tb_registrations (wd_db w)) = Some r"
    and "cr_registrationType r = PRECONFIGURED"
    and "preconfigured_find_by_issuer (rx_tenantId c) (oi_issuer (rx_issuerRecord c)) (tb_preconfigured (wd_db w)) = Some p"
    and "pc_clientId p = cr_clientId r"
  shows "preconfigured_get_or_create ev c w = to_resolved ev r w"
  using assms by (simp add: preconfigured_get_or_create_def find_configured_def find_existing_def find_active_def io_bind_assoc)

definition portal_client :: preconfigured_client where
  "portal_client = \<lparr>pc_id = ''pcc'', pc_tenantId = ''t'', pc_issuer = ''https://as.example'', pc_clientId = ''cid'',
     pc_clientSecretEncrypted = None, pc_initialAccessTokenEncrypted = None, pc_redirectUri = ''r'',
     pc_tokenEndpointAuthMethod = CLIENT_SECRET_BASIC, pc_scopes = None, pc_createdAt = 0\<rparr>"

text \<open>The row says \<^verbatim>\<open>client_secret_post\<close> now; the client still authenticates by Basic.\<close>

lemma replaced_secret_ignored_witness:
  "let p = portal_client\<lparr>pc_tokenEndpointAuthMethod := CLIENT_SECRET_POST\<rparr>;
       w = demo_world\<lparr>wd_db := demo_tables\<lparr>tb_preconfigured := [p],
             tb_registrations := [preconfigured_record demo_client_context portal_client ''reg_0'' 5]\<rparr>\<rparr>
   in map_sum (\<lambda>e. ()) rr_tokenEndpointAuthMethod (fst (preconfigured_get_or_create demo_env demo_client_context w)) =
      Inr CLIENT_SECRET_BASIC"
proof -
  define p where "p = portal_client\<lparr>pc_tokenEndpointAuthMethod := CLIENT_SECRET_POST\<rparr>"
  define r where "r = preconfigured_record demo_client_context portal_client ''reg_0'' 5"
  define w where "w = demo_world\<lparr>wd_db := demo_tables\<lparr>tb_preconfigured := [p], tb_registrations := [r]\<rparr>\<rparr>"
  have "preconfigured_get_or_create demo_env demo_client_context w = to_resolved demo_env r w"
    by (rule replaced_secret_ignored [where p = p])
      (simp_all add: w_def r_def p_def preconfigured_record_def portal_client_def demo_client_context_def
        demo_issuer_record_def registrations_find_active_def preconfigured_find_by_issuer_def find_one_def)
  moreover have "map_sum (\<lambda>e. ()) rr_tokenEndpointAuthMethod (fst (to_resolved demo_env r w)) = Inr CLIENT_SECRET_BASIC"
    by (simp add: to_resolved_def decrypt_optional_def vault_decrypt_optional_def r_def preconfigured_record_def
        portal_client_def)
  ultimately show ?thesis by (simp add: Let_def p_def r_def w_def)
qed

end
