(* ===== verification/Triples.thy ===== *)
theory Triples
  imports Safe_Fetch
begin

text \<open>
  Triples: a method keeps an invariant on every path and, when it answers, what it answers
  satisfies a predicate. \<open>keeps\<close> and \<open>returns\<close> are the two halves; a triple is what is needed where
  the answer depends on the invariant, as with a row that is read back.
\<close>

definition ensures :: "(world \<Rightarrow> bool) \<Rightarrow> 'a io \<Rightarrow> ('a \<Rightarrow> bool) \<Rightarrow> bool" where
  "ensures I m R \<longleftrightarrow>
     (\<forall>w. I w \<longrightarrow> (case m w of (Inl e, w') \<Rightarrow> I w' | (Inr x, w') \<Rightarrow> I w' \<and> R x))"

named_theorems ensures_intros "rules for triples"

lemma ensures_answer: "ensures I m R \<Longrightarrow> I w \<Longrightarrow> m w = (Inr x, w') \<Longrightarrow> I w' \<and> R x"
  by (force simp: ensures_def)

lemma ensures_throws: "ensures I m R \<Longrightarrow> I w \<Longrightarrow> m w = (Inl e, w') \<Longrightarrow> I w'"
  by (force simp: ensures_def)

lemma ensures_state: "ensures I m R \<Longrightarrow> I w \<Longrightarrow> I (snd (m w))"
  by (cases "m w"; cases "fst (m w)") (auto dest: ensures_answer ensures_throws)

lemma keeps_ensures: "keeps I m \<Longrightarrow> returns R m \<Longrightarrow> ensures I m R"
  unfolding keeps_def returns_def ensures_def by (fastforce split: prod.splits sum.splits)

lemma ensures_keeps: "keeps I m \<Longrightarrow> (\<And>x. R x) \<Longrightarrow> ensures I m R"
  by (rule keeps_ensures) (auto simp: returns_def)

lemma ensures_weaken: "ensures I m R \<Longrightarrow> (\<And>x. R x \<Longrightarrow> S x) \<Longrightarrow> ensures I m S"
  unfolding ensures_def by (fastforce split: prod.splits sum.splits)

lemma ensures_return [ensures_intros]: "R x \<Longrightarrow> ensures I (io_return x) R"
  by (simp add: ensures_def)

lemma ensures_throw [ensures_intros]: "ensures I (io_throw e) R"
  by (simp add: ensures_def)

lemma ensures_bind:
  assumes "ensures I m P" and "\<And>x. P x \<Longrightarrow> ensures I (f x) R"
  shows "ensures I (io_bind m f) R"
  unfolding ensures_def
proof (intro allI impI)
  fix w assume w: "I w"
  obtain r w1 where m: "m w = (r, w1)" by (cases "m w")
  show "case io_bind m f w of (Inl e, w') \<Rightarrow> I w' | (Inr x, w') \<Rightarrow> I w' \<and> R x"
  proof (cases r)
    case (Inl e)
    with m ensures_throws [OF assms(1) w] show ?thesis by (simp add: io_bind_err)
  next
    case (Inr x)
    with m ensures_answer [OF assms(1) w] have "I w1 \<and> P x" by simp
    with assms(2) [of x] have "case f x w1 of (Inl e, w') \<Rightarrow> I w' | (Inr y, w') \<Rightarrow> I w' \<and> R y"
      by (simp add: ensures_def)
    with m Inr show ?thesis by (simp add: io_bind_eq)
  qed
qed

lemma ensures_bind_keeps: "keeps I m \<Longrightarrow> (\<And>x. ensures I (f x) R) \<Longrightarrow> ensures I (io_bind m f) R"
  by (rule ensures_bind [where P = "\<lambda>_. True"]) (simp_all add: ensures_keeps)

lemma ensures_seq: "keeps I m \<Longrightarrow> ensures I n R \<Longrightarrow> ensures I (io_seq m n) R"
  unfolding io_seq_def by (rule ensures_bind_keeps)

lemma ensures_catch [ensures_intros]:
  assumes "ensures I m R" and "\<And>e. ensures I (h e) R"
  shows "ensures I (io_catch m h) R"
  unfolding ensures_def
proof (intro allI impI)
  fix w assume w: "I w"
  obtain r w1 where m: "m w = (r, w1)" by (cases "m w")
  show "case io_catch m h w of (Inl e, w') \<Rightarrow> I w' | (Inr x, w') \<Rightarrow> I w' \<and> R x"
  proof (cases r)
    case (Inl e)
    with m ensures_throws [OF assms(1) w] have "I w1" by simp
    with assms(2) [of e] have "case h e w1 of (Inl e, w') \<Rightarrow> I w' | (Inr y, w') \<Rightarrow> I w' \<and> R y"
      by (simp add: ensures_def)
    with m Inl show ?thesis by (simp add: io_catch_def)
  next
    case (Inr x)
    with m ensures_answer [OF assms(1) w] show ?thesis by (simp add: io_catch_def)
  qed
qed

lemma ensures_lift: "(\<And>x. r = Inr x \<Longrightarrow> R x) \<Longrightarrow> ensures I (io_lift r) R"
  by (cases r) (simp_all add: ensures_def)

lemma ensures_db: "(\<And>w. I w \<Longrightarrow> R (f (wd_db w))) \<Longrightarrow> ensures I (db f) R"
  by (simp add: ensures_def)

lemma ensures_control [ensures_intros]:
  "(b \<Longrightarrow> ensures I m R) \<Longrightarrow> (\<not> b \<Longrightarrow> ensures I n R) \<Longrightarrow> ensures I (if b then m else n) R"
  "(v = None \<Longrightarrow> ensures I m R) \<Longrightarrow> (\<And>x. v = Some x \<Longrightarrow> ensures I (f x) R) \<Longrightarrow>
     ensures I (case v of None \<Rightarrow> m | Some x \<Rightarrow> f x) R"
  "(\<And>x y. p = (x, y) \<Longrightarrow> ensures I (g x y) R) \<Longrightarrow> ensures I (case p of (x, y) \<Rightarrow> g x y) R"
  "(\<And>x. x = z \<Longrightarrow> ensures I (h x) R) \<Longrightarrow> ensures I (let x = z in h x) R"
  by (cases b; cases v; cases p; simp)+

end
