(* ===== verification/Discovery.thy ===== *)
theory Discovery
  imports Registration Triples
begin

text \<open>
  \<^verbatim>\<open>packages/oauth/src/discovery.ts\<close>: RFC 9728 metadata of a protected resource and RFC 8414
  metadata of an authorization server, validated and cached. A discovered document is the JSON
  value that was parsed; \<open>as_metadata_of\<close> reads the fields the gateway uses from it.
\<close>

section \<open>Reading documents\<close>

text \<open>JavaScript's truth value of a field.\<close>

definition truthy :: "json option \<Rightarrow> bool" where
  "truthy v =
     (case v of None \<Rightarrow> False | Some JNull \<Rightarrow> False | Some (JBool b) \<Rightarrow> b | Some (JStr s) \<Rightarrow> s \<noteq> []
      | Some (JNum n) \<Rightarrow> n \<noteq> 0 | Some _ \<Rightarrow> True)"

text \<open>A list of strings; a value of any other form reads as absent.\<close>

definition json_strings :: "json option \<Rightarrow> string list option" where
  "json_strings v =
     (case v of
        Some (JArr xs) \<Rightarrow> if list_all is_string xs then Some (List.map_filter (\<lambda>x. json_string (Some x)) xs) else None
      | _ \<Rightarrow> None)"

definition as_metadata_of :: "json \<Rightarrow> as_metadata" where
  "as_metadata_of v = \<lparr>
     am_issuer = text_or_empty (jget v ''issuer''),
     am_authorization_endpoint = json_string (jget v ''authorization_endpoint''),
     am_token_endpoint = json_string (jget v ''token_endpoint''),
     am_registration_endpoint = json_string (jget v ''registration_endpoint''),
     am_revocation_endpoint = json_string (jget v ''revocation_endpoint''),
     am_scopes_supported = json_strings (jget v ''scopes_supported''),
     am_code_challenge_methods_supported = json_strings (jget v ''code_challenge_methods_supported''),
     am_token_endpoint_auth_methods_supported = json_strings (jget v ''token_endpoint_auth_methods_supported''),
     am_dpop_signing_alg_values_supported = json_strings (jget v ''dpop_signing_alg_values_supported''),
     am_client_id_metadata_document_supported =
       (jget v ''client_id_metadata_document_supported'' = Some (JBool True)),
     am_authorization_response_iss_parameter_supported =
       (jget v ''authorization_response_iss_parameter_supported'' = Some (JBool True)),
     am_jwks_uri = json_string (jget v ''jwks_uri'')\<rparr>"

definition exn_message :: "exn \<Rightarrow> string" where
  "exn_message e =
     (case e of
        Gateway_Exn g \<Rightarrow> ge_message g
      | OAuth_Exn o' \<Rightarrow> oe_error o' @
          (case given (oe_description o') of None \<Rightarrow> [] | Some d \<Rightarrow> '': '' @ clamp_text d 200)
      | Other_Exn m \<Rightarrow> m
      | Unauthorized_Exn m c \<Rightarrow> m)"

text \<open>Both discoveries try their candidates in order and report at most four failures.\<close>

fun first_success :: "gateway_error_code \<Rightarrow> string \<Rightarrow> (string \<Rightarrow> 'a io) \<Rightarrow> string list \<Rightarrow> string list \<Rightarrow> 'a io" where
  "first_success k message f [] failures =
     io_fail (gerr_data k message (JObj [(''attempts'', jstrs (take 4 failures))]))"
| "first_success k message f (c # cs) failures =
     io_catch (f c) (\<lambda>e. first_success k message f cs (failures @ [c @ '': '' @ exn_message e]))"

section \<open>Protected resources\<close>

record challenge =
  ch_scheme :: string
  ch_params :: "(string \<times> string) list"

definition validate_resource_metadata ::
  "env \<Rightarrow> oauth_deps \<Rightarrow> json \<Rightarrow> string \<Rightarrow> string \<Rightarrow> json result" where
  "validate_resource_metadata ev d value mcpUrl metadataUrl =
     (case json_string (jget value ''resource'') of
        None \<Rightarrow> Inl (gerr DISCOVERY_FAILED (''Protected resource metadata at '' @ metadataUrl @ '' has no resource field''))
      | Some resource \<Rightarrow>
          bind_result (resource_identifier (ev_parse_url ev) \<lparr>up_allowHttp = od_allowHttp d\<rparr> resource) (\<lambda>declared.
          bind_result (resource_identifier (ev_parse_url ev) \<lparr>up_allowHttp = od_allowHttp d\<rparr> mcpUrl) (\<lambda>requested.
          if \<not> (requested = declared \<or> starts_with (declared @ ''/'') requested)
          then Inl (gerr_data RESOURCE_MISMATCH ''Protected resource metadata describes a different resource''
                 (JObj [(''declared'', JStr declared), (''requested'', JStr requested)]))
          else if json_strings (jget value ''authorization_servers'') \<in> {None, Some []}
          then Inl (gerr DISCOVERY_FAILED ''Protected resource metadata lists no authorization servers'')
          else Inr value)))"

definition resource_candidate :: "env \<Rightarrow> oauth_deps \<Rightarrow> string \<Rightarrow> string \<Rightarrow> (json \<times> string) io" where
  "resource_candidate ev d mcpUrl candidate =
     (io_bind (io_lift (parse_absolute_url (ev_parse_url ev) candidate)) (\<lambda>u.
      (if ul_protocol u = ''http:'' \<and> \<not> od_allowHttp d
         then io_fail (gerr SSRF_BLOCKED ''Protected resource metadata must be served over HTTPS'')
         else
           (io_bind (get_json ev (od_policy d) candidate) (\<lambda>value.
            io_bind (io_lift (validate_resource_metadata ev d value mcpUrl candidate)) (\<lambda>metadata.
            io_return (metadata, candidate)))))))"

definition discover_protected_resource ::
  "env \<Rightarrow> oauth_deps \<Rightarrow> string \<Rightarrow> challenge option \<Rightarrow> (json \<times> string) io" where
  "discover_protected_resource ev d mcpUrl ch =
     (let advertised = given (Option.bind ch (\<lambda>c. map_of (ch_params c) ''resource_metadata'')) in
      (io_bind (io_lift (resource_metadata_candidates (ev_parse_url ev) mcpUrl)) (\<lambda>known.
       first_success DISCOVERY_FAILED ''Unable to load protected resource metadata''
           (resource_candidate ev d mcpUrl)
           ((case advertised of None \<Rightarrow> [] | Some a \<Rightarrow> [a]) @ known) [])))"

section \<open>Authorization servers\<close>

definition endpoint_fields :: "string list" where
  "endpoint_fields = [''authorization_endpoint'', ''token_endpoint'', ''registration_endpoint'',
     ''revocation_endpoint'', ''introspection_endpoint'', ''jwks_uri'',
     ''pushed_authorization_request_endpoint'']"

definition check_endpoint :: "env \<Rightarrow> oauth_deps \<Rightarrow> json \<Rightarrow> string \<Rightarrow> unit result" where
  "check_endpoint ev d value k =
     (case jget value k of
        None \<Rightarrow> Inr ()
      | Some (JStr endpoint) \<Rightarrow>
          bind_result (parse_absolute_url (ev_parse_url ev) endpoint) (\<lambda>u.
            if ul_protocol u = ''http:'' \<and> \<not> od_allowHttp d
            then Inl (gerr DISCOVERY_FAILED (k @ '' must be served over HTTPS''))
            else Inr ())
      | Some _ \<Rightarrow> Inl (gerr DISCOVERY_FAILED (k @ '' is not a URL'')))"

fun check_endpoints :: "env \<Rightarrow> oauth_deps \<Rightarrow> json \<Rightarrow> string list \<Rightarrow> unit result" where
  "check_endpoints ev d value [] = Inr ()"
| "check_endpoints ev d value (k # ks) =
     bind_result (check_endpoint ev d value k) (\<lambda>x. check_endpoints ev d value ks)"

definition challenge_methods_ok :: "json option \<Rightarrow> bool" where
  "challenge_methods_ok v =
     (\<not> truthy v \<or>
      (case v of
         Some (JArr xs) \<Rightarrow> JStr ''S256'' \<in> set xs
       | Some (JStr s) \<Rightarrow> contains ''S256'' s
       | _ \<Rightarrow> False))"

definition validate_authorization_server_metadata ::
  "env \<Rightarrow> oauth_deps \<Rightarrow> json \<Rightarrow> string \<Rightarrow> as_metadata result" where
  "validate_authorization_server_metadata ev d value issuer =
     (case json_string (jget value ''issuer'') of
        None \<Rightarrow> Inl (gerr DISCOVERY_FAILED ''Metadata has no issuer field'')
      | Some declared \<Rightarrow>
          if \<not> same_issuer declared issuer
          then Inl (gerr_data ISSUER_MISMATCH
                 ''Authorization server metadata issuer does not match the requested issuer''
                 (JObj [(''declared'', JStr declared), (''requested'', JStr issuer)]))
          else if \<not> truthy (jget value ''authorization_endpoint'') \<or> \<not> truthy (jget value ''token_endpoint'')
          then Inl (gerr DISCOVERY_FAILED
                 ''Authorization server does not expose the endpoints required for the authorization code flow'')
          else bind_result (check_endpoints ev d value endpoint_fields) (\<lambda>x.
            if \<not> challenge_methods_ok (jget value ''code_challenge_methods_supported'')
            then Inl (gerr DISCOVERY_FAILED ''Authorization server does not support PKCE S256'')
            else Inr (as_metadata_of value)))"

text \<open>The default of \<open>metadataTtlMs\<close>, which nothing in the sources sets.\<close>

definition metadata_ttl :: int where
  "metadata_ttl = 3600000"

definition upsert_issuer :: "oauth_issuer_record \<Rightarrow> oauth_issuer_record io" where
  "upsert_issuer r w =
     (case issuers_upsert r (tb_issuers (wd_db w)) of
        None \<Rightarrow> (Inl constraint_failed, w)
      | Some (stored, rows) \<Rightarrow> (Inr stored, w\<lparr>wd_db := (wd_db w)\<lparr>tb_issuers := rows\<rparr>\<rparr>))"

definition issuer_record :: "as_metadata \<Rightarrow> string \<Rightarrow> int \<Rightarrow> oauth_issuer_record" where
  "issuer_record m i t = \<lparr>
     oi_id = i, oi_issuer = canonical_issuer (am_issuer m),
     oi_authorizationEndpoint = am_authorization_endpoint m, oi_tokenEndpoint = am_token_endpoint m,
     oi_registrationEndpoint = am_registration_endpoint m, oi_revocationEndpoint = am_revocation_endpoint m,
     oi_metadataJson = m, oi_metadataEtag = None, oi_metadataExpiresAt = t + metadata_ttl,
     oi_supportsCimd = am_client_id_metadata_document_supported m,
     oi_supportsDcr = (am_registration_endpoint m \<noteq> None),
     oi_supportedAuthMethods = (case am_token_endpoint_auth_methods_supported m of
         None \<Rightarrow> [''client_secret_basic''] | Some ms \<Rightarrow> ms),
     oi_status = SERVER_ACTIVE\<rparr>"

definition cache_issuer ::
  "env \<Rightarrow> as_metadata \<Rightarrow> oauth_issuer_record option \<Rightarrow> oauth_issuer_record io" where
  "cache_issuer ev m existing =
     (io_bind (case existing of Some r \<Rightarrow> io_return (oi_id r) | None \<Rightarrow> new_id ev ''iss'') (\<lambda>i.
      io_bind now (\<lambda>t.
      upsert_issuer (issuer_record m i t))))"

definition server_candidate ::
  "env \<Rightarrow> oauth_deps \<Rightarrow> string \<Rightarrow> oauth_issuer_record option \<Rightarrow> string
     \<Rightarrow> (oauth_issuer_record \<times> as_metadata) io" where
  "server_candidate ev d issuer cached candidate =
     (io_bind (get_json ev (od_policy d) candidate) (\<lambda>value.
      io_bind (io_lift (validate_authorization_server_metadata ev d value issuer)) (\<lambda>metadata.
      io_bind (cache_issuer ev metadata cached) (\<lambda>stored.
      io_return (stored, metadata)))))"

definition fetch_server ::
  "env \<Rightarrow> oauth_deps \<Rightarrow> string \<Rightarrow> oauth_issuer_record option \<Rightarrow> (oauth_issuer_record \<times> as_metadata) io" where
  "fetch_server ev d issuer cached =
     (io_bind (io_lift (parse_absolute_url (ev_parse_url ev) issuer)) (\<lambda>u.
      (if ul_protocol u = ''http:'' \<and> \<not> od_allowHttp d
         then io_fail (gerr SSRF_BLOCKED ''Authorization server issuers must use HTTPS'')
         else
           (io_bind (io_lift (issuer_to_well_known (ev_parse_url ev) issuer ''oauth-authorization-server'')) (\<lambda>oauth.
            io_bind (io_lift (issuer_to_well_known (ev_parse_url ev) issuer ''openid-configuration'')) (\<lambda>oidc.
            first_success DISCOVERY_FAILED (''Unable to load authorization server metadata for '' @ issuer)
                (server_candidate ev d issuer cached) (oauth @ oidc) []))))))"

definition discover_authorization_server ::
  "env \<Rightarrow> oauth_deps \<Rightarrow> string \<Rightarrow> (oauth_issuer_record \<times> as_metadata) io" where
  "discover_authorization_server ev d issuer =
     (io_bind (db (\<lambda>t. issuers_find_by_issuer (canonical_issuer issuer) (tb_issuers t))) (\<lambda>cached.
      io_bind now (\<lambda>t.
      (case cached of
           Some r \<Rightarrow> if oi_metadataExpiresAt r > t then io_return (r, oi_metadataJson r)
                    else fetch_server ev d issuer cached
         | None \<Rightarrow> fetch_server ev d issuer cached))))"

section \<open>What is discovered\<close>

text \<open>
  What the gateway may send codes and secrets to: metadata that declares the issuer it was asked
  for, has both endpoints of the code flow, and names no endpoint over plain HTTP.
\<close>

definition endpoint_secure :: "env \<Rightarrow> oauth_deps \<Rightarrow> string option \<Rightarrow> bool" where
  "endpoint_secure ev d v =
     (case v of
        None \<Rightarrow> True
      | Some s \<Rightarrow> (case ev_parse_url ev s of
          None \<Rightarrow> False | Some u \<Rightarrow> ul_protocol u = ''https:'' \<or> ul_protocol u = ''http:'' \<and> od_allowHttp d))"

definition metadata_for :: "env \<Rightarrow> oauth_deps \<Rightarrow> string \<Rightarrow> as_metadata \<Rightarrow> bool" where
  "metadata_for ev d issuer m \<longleftrightarrow>
     same_issuer (am_issuer m) issuer \<and>
     given (am_authorization_endpoint m) \<noteq> None \<and> given (am_token_endpoint m) \<noteq> None \<and>
     list_all (endpoint_secure ev d) [am_authorization_endpoint m, am_token_endpoint m,
       am_registration_endpoint m, am_revocation_endpoint m, am_jwks_uri m]"

lemma check_endpoints_all:
  "check_endpoints ev d v ks = Inr () \<Longrightarrow> k \<in> set ks \<Longrightarrow> check_endpoint ev d v k = Inr ()"
  by (induction ks) (auto simp: bind_result_Inr)

lemma check_endpoint_secure:
  "check_endpoint ev d v k = Inr () \<Longrightarrow> endpoint_secure ev d (json_string (jget v k)) \<and>
     (truthy (jget v k) \<longrightarrow> given (json_string (jget v k)) \<noteq> None)"
  by (auto simp: check_endpoint_def endpoint_secure_def json_string_def given_def truthy_def parse_absolute_url_def
      is_http_def split: option.splits json.splits if_splits)

lemma validated_metadata:
  assumes "validate_authorization_server_metadata ev d v issuer = Inr m"
  shows "metadata_for ev d issuer m"
proof -
  have ok: "check_endpoints ev d v endpoint_fields = Inr ()" and m: "m = as_metadata_of v"
    and same: "same_issuer (text_or_empty (jget v ''issuer'')) issuer"
    and t: "truthy (jget v ''authorization_endpoint'')" "truthy (jget v ''token_endpoint'')"
    using assms by (auto simp: validate_authorization_server_metadata_def bind_result_Inr text_or_empty_def
        split: option.splits if_splits)
  have "check_endpoint ev d v k = Inr ()" if "k \<in> set endpoint_fields" for k
    using check_endpoints_all [OF ok that] .
  then have "check_endpoint ev d v ''authorization_endpoint'' = Inr ()" "check_endpoint ev d v ''token_endpoint'' = Inr ()"
    "check_endpoint ev d v ''registration_endpoint'' = Inr ()" "check_endpoint ev d v ''revocation_endpoint'' = Inr ()"
    "check_endpoint ev d v ''jwks_uri'' = Inr ()"
    by (simp_all add: endpoint_fields_def)
  from this [THEN check_endpoint_secure] t same show ?thesis
    by (simp add: metadata_for_def m as_metadata_of_def)
qed

text \<open>The cache holds only such metadata, each under its canonical issuer.\<close>

definition issuer_row_ok :: "env \<Rightarrow> oauth_deps \<Rightarrow> oauth_issuer_record \<Rightarrow> bool" where
  "issuer_row_ok ev d r \<longleftrightarrow> canonical_issuer (oi_issuer r) = oi_issuer r \<and> metadata_for ev d (oi_issuer r) (oi_metadataJson r)"

definition issuers_ok :: "env \<Rightarrow> oauth_deps \<Rightarrow> tables \<Rightarrow> bool" where
  "issuers_ok ev d t \<longleftrightarrow> list_all (issuer_row_ok ev d) (tb_issuers t)"

lemma metadata_for_same: "same_issuer i j \<Longrightarrow> metadata_for ev d i m = metadata_for ev d j m"
  by (simp add: metadata_for_def same_issuer_def)

lemma same_issuer_sym: "same_issuer i j \<Longrightarrow> same_issuer j i"
  by (simp add: same_issuer_def)

lemma issuer_record_ok: "metadata_for ev d issuer m \<Longrightarrow> issuer_row_ok ev d (issuer_record m i t)"
  using metadata_for_same [of "canonical_issuer (am_issuer m)" issuer ev d m]
  by (simp add: issuer_row_ok_def issuer_record_def metadata_for_def)

lemma issuers_upsert_ok:
  assumes "issuers_upsert r rows = Some (stored, rows')" and "list_all (issuer_row_ok ev d) rows" and "issuer_row_ok ev d r"
  shows "list_all (issuer_row_ok ev d) rows' \<and> oi_issuer stored = oi_issuer r"
proof -
  have ok: "issuer_row_ok ev d (r\<lparr>oi_id := i, oi_issuer := j\<rparr>)" if "j = oi_issuer r" for i j
    using assms(3) that by (simp add: issuer_row_ok_def)
  have "issuer_row_ok ev d (r\<lparr>oi_id := i\<rparr>)" for i using assms(3) by (simp add: issuer_row_ok_def)
  note ok = this ok
  show ?thesis
    using assms unfolding issuers_upsert_def
    by (auto simp: list_all_iff update_rows_def insert_row_def split: option.splits if_splits
        dest!: find_one_Some intro!: ok)
qed

lemma ensures_upsert_issuer:
  "issuer_row_ok ev d r \<Longrightarrow>
     ensures (\<lambda>w. issuers_ok ev d (wd_db w)) (upsert_issuer r) (\<lambda>s. oi_issuer s = oi_issuer r)"
  by (auto simp: ensures_def upsert_issuer_def issuers_ok_def split: option.splits dest!: issuers_upsert_ok)

lemma ensures_cache_issuer:
  assumes "metadata_for ev d issuer m"
  shows "ensures (\<lambda>w. issuers_ok ev d (wd_db w)) (cache_issuer ev m existing)
    (\<lambda>s. oi_issuer s = canonical_issuer issuer)"
proof -
  have "ensures (\<lambda>w. issuers_ok ev d (wd_db w)) (upsert_issuer (issuer_record m i t))
      (\<lambda>s. oi_issuer s = canonical_issuer issuer)" for i t
    by (rule ensures_weaken [OF ensures_upsert_issuer [OF issuer_record_ok [OF assms]]])
      (use assms in \<open>auto simp: issuer_record_def metadata_for_def same_issuer_def\<close>)
  then show ?thesis
    unfolding cache_issuer_def by (intro ensures_bind_keeps) (auto intro!: inv_intros split: option.splits)
qed

lemma ensures_first_success:
  assumes "\<And>c. ensures I (f c) R"
  shows "ensures I (first_success k message f cs failures) R"
  using assms by (induction cs arbitrary: failures) (auto intro!: ensures_intros)

definition discovered_for :: "env \<Rightarrow> oauth_deps \<Rightarrow> string \<Rightarrow> oauth_issuer_record \<times> as_metadata \<Rightarrow> bool" where
  "discovered_for ev d issuer p \<longleftrightarrow>
     oi_issuer (fst p) = canonical_issuer issuer \<and> metadata_for ev d issuer (snd p)"

lemma ensures_server_candidate:
  assumes "others_keep ev (issuers_ok ev d)"
  shows "ensures (\<lambda>w. issuers_ok ev d (wd_db w)) (server_candidate ev d issuer cached c) (discovered_for ev d issuer)"
proof -
  let ?I = "\<lambda>w. issuers_ok ev d (wd_db w)"
  have "ensures ?I (io_bind (cache_issuer ev m cached) (\<lambda>stored. io_return (stored, m))) (discovered_for ev d issuer)"
    if "metadata_for ev d issuer m" for m
    by (rule ensures_bind [OF ensures_cache_issuer [OF that]]) (auto simp: discovered_for_def that intro: ensures_return)
  then have "ensures ?I (io_bind (io_lift (validate_authorization_server_metadata ev d v issuer))
        (\<lambda>metadata. io_bind (cache_issuer ev metadata cached) (\<lambda>stored. io_return (stored, metadata))))
      (discovered_for ev d issuer)" for v
    by (intro ensures_bind [OF ensures_lift]) (auto dest: validated_metadata)
  then show ?thesis
    unfolding server_candidate_def by (rule ensures_bind_keeps [OF keeps_tables_get_json [OF assms]])
qed

lemma ensures_fetch_server:
  assumes "others_keep ev (issuers_ok ev d)"
  shows "ensures (\<lambda>w. issuers_ok ev d (wd_db w)) (fetch_server ev d issuer cached) (discovered_for ev d issuer)"
  unfolding fetch_server_def
  by (intro ensures_bind_keeps ensures_intros ensures_first_success ensures_server_candidate assms inv_intros)

lemma ensures_discover:
  assumes "others_keep ev (issuers_ok ev d)"
  shows "ensures (\<lambda>w. issuers_ok ev d (wd_db w)) (discover_authorization_server ev d issuer) (discovered_for ev d issuer)"
proof -
  let ?I = "\<lambda>w. issuers_ok ev d (wd_db w)"
  have cached: "ensures ?I (db (\<lambda>t. issuers_find_by_issuer (canonical_issuer issuer) (tb_issuers t)))
      (\<lambda>c. case c of None \<Rightarrow> True | Some r \<Rightarrow> discovered_for ev d issuer (r, oi_metadataJson r))"
  proof (rule ensures_db)
    fix w assume ok: "issuers_ok ev d (wd_db w)"
    show "case issuers_find_by_issuer (canonical_issuer issuer) (tb_issuers (wd_db w)) of
        None \<Rightarrow> True | Some r \<Rightarrow> discovered_for ev d issuer (r, oi_metadataJson r)"
    proof (cases "issuers_find_by_issuer (canonical_issuer issuer) (tb_issuers (wd_db w))")
      case (Some r)
      then have "oi_issuer r = canonical_issuer issuer" "issuer_row_ok ev d r"
        using ok by (auto simp: issuers_find_by_issuer_def issuers_ok_def list_all_iff dest!: find_one_Some)
      then show ?thesis
        using Some metadata_for_same [of "canonical_issuer issuer" issuer]
        by (auto simp: discovered_for_def issuer_row_ok_def same_issuer_def)
    qed simp
  qed
  show ?thesis
    unfolding discover_authorization_server_def
    by (rule ensures_bind [OF cached], rule ensures_bind_keeps [OF keeps_now])
      (auto intro!: ensures_intros ensures_fetch_server assms split: option.splits)
qed

section \<open>Properties\<close>

text \<open>
  C12: Whatever documents are served, the metadata the gateway takes for an issuer, fetched or cached,
  declares that issuer (up to trailing slashes), has an authorization and a token endpoint, and names
  no endpoint that codes or secrets could be sent to in the clear; and the cache keeps holding only
  such metadata.
\<close>

theorem issuer_bound:
  assumes "others_keep ev (issuers_ok ev d)" and "issuers_ok ev d (wd_db w)"
    and "discover_authorization_server ev d issuer w = (Inr (r, m), w')"
  shows "oi_issuer r = canonical_issuer issuer \<and> metadata_for ev d issuer m \<and> issuers_ok ev d (wd_db w')"
  using ensures_answer [OF ensures_discover [OF assms(1)] assms(2,3)] by (simp add: discovered_for_def)

lemma issuer_bound_witness:
  "\<exists>r m w'. discover_authorization_server demo_env demo_deps ''https://as.example/''
      (demo_world\<lparr>wd_db := demo_tables\<lparr>tb_issuers := [demo_issuer_record]\<rparr>\<rparr>) = (Inr (r, m), w') \<and>
    metadata_for demo_env demo_deps ''https://as.example/'' m"
proof -
  let ?w = "demo_world\<lparr>wd_db := demo_tables\<lparr>tb_issuers := [demo_issuer_record]\<rparr>\<rparr>"
  have o': "others_keep demo_env (issuers_ok demo_env demo_deps)"
    by (simp add: others_keep_def demo_env_def)
  have c: "canonical_issuer ''https://as.example'' = ''https://as.example''" by code_simp
  have "metadata_for demo_env demo_deps ''https://as.example'' demo_metadata" by code_simp
  then have ok: "issuers_ok demo_env demo_deps (wd_db ?w)"
    by (simp add: issuers_ok_def issuer_row_ok_def demo_issuer_record_def c)
  have "canonical_issuer ''https://as.example/'' = ''https://as.example''" by code_simp
  then have run: "discover_authorization_server demo_env demo_deps ''https://as.example/'' ?w =
      (Inr (demo_issuer_record, demo_metadata), ?w)"
    by (simp add: discover_authorization_server_def issuers_find_by_issuer_def find_one_def demo_world_def)
      (simp add: demo_issuer_record_def)
  from issuer_bound [OF o' ok run] run show ?thesis by blast
qed

definition describes :: "env \<Rightarrow> oauth_deps \<Rightarrow> string \<Rightarrow> json \<Rightarrow> bool" where
  "describes ev d mcpUrl v \<longleftrightarrow>
     (\<exists>resource declared requested rest. jget v ''resource'' = Some (JStr resource) \<and>
        resource_identifier (ev_parse_url ev) \<lparr>up_allowHttp = od_allowHttp d\<rparr> resource = Inr declared \<and>
        resource_identifier (ev_parse_url ev) \<lparr>up_allowHttp = od_allowHttp d\<rparr> mcpUrl = Inr requested \<and>
        requested = declared @ rest \<and> (rest = [] \<or> hd rest = CHR ''/''))"

text \<open>
  Protected resource metadata is only ever accepted for the endpoint it was fetched for: its
  resource, in canonical form, is the endpoint's or a parent of it at a path boundary, so another
  resource (one whose name merely extends it included) cannot vouch for the endpoint.
\<close>

theorem resource_metadata_describes:
  assumes "discover_protected_resource ev d mcpUrl ch w = (Inr (v, source), w')"
  shows "describes ev d mcpUrl v \<and> (\<exists>s ss. json_strings (jget v ''authorization_servers'') = Some (s # ss))"
proof -
  let ?R = "\<lambda>p. describes ev d mcpUrl (fst p) \<and> (\<exists>s ss. json_strings (jget (fst p) ''authorization_servers'') = Some (s # ss))"
  have valid: "?R (x, y)" if val: "validate_resource_metadata ev d v mcpUrl c = Inr x" for v c x y
  proof -
    obtain resource where res: "json_string (jget v ''resource'') = Some resource"
      using val by (auto simp: validate_resource_metadata_def split: option.splits)
    with val obtain declared requested where r: "resource_identifier (ev_parse_url ev) \<lparr>up_allowHttp = od_allowHttp d\<rparr> resource = Inr declared"
        "resource_identifier (ev_parse_url ev) \<lparr>up_allowHttp = od_allowHttp d\<rparr> mcpUrl = Inr requested"
        "requested = declared \<or> starts_with (declared @ ''/'') requested"
        "json_strings (jget v ''authorization_servers'') \<noteq> None" "json_strings (jget v ''authorization_servers'') \<noteq> Some []" "x = v"
      by (auto simp: validate_resource_metadata_def bind_result_Inr split: if_splits)
    have "\<exists>rest. requested = declared @ rest \<and> (rest = [] \<or> hd rest = CHR ''/'')"
      using r(3) by (auto simp: starts_with_iff)
    moreover have "jget v ''resource'' = Some (JStr resource)"
      using res by (auto simp: json_string_def split: option.splits json.splits)
    ultimately have "describes ev d mcpUrl v" using r(1,2) unfolding describes_def by blast
    moreover have "\<exists>s ss. json_strings (jget v ''authorization_servers'') = Some (s # ss)"
      using r(4,5) by (cases "json_strings (jget v ''authorization_servers'')"; cases "the (json_strings (jget v ''authorization_servers''))") auto
    ultimately show ?thesis by (simp add: r(6))
  qed
  have lifted: "returns (\<lambda>x. ?R (x, c)) (io_lift (validate_resource_metadata ev d v mcpUrl c))" for v c
    using valid [of v c] by (cases "validate_resource_metadata ev d v mcpUrl c") (auto intro: returns_intros)
  have "returns ?R (resource_candidate ev d mcpUrl c)" for c
    unfolding resource_candidate_def
    by (rule returns_bind, rule returns_control(1), rule returns_basic(2), rule returns_bind,
        rule returns_bind_result [OF lifted], rule returns_basic(1))
  then have "returns ?R (first_success k m (resource_candidate ev d mcpUrl) cs fs)" for k m cs fs
    by (induction cs arbitrary: fs) (auto intro!: returns_intros)
  then have "returns ?R (discover_protected_resource ev d mcpUrl ch)"
    unfolding discover_protected_resource_def Let_def by (intro returns_bind)
  from returnsD [OF this assms] show ?thesis by simp
qed

definition resource_env :: env where
  "resource_env = demo_env\<lparr>
     ev_peer := (\<lambda>k rq. Inr \<lparr>ws_status = 200, ws_headers = [(''content-type'', ''application/json'')], ws_text = ''d''\<rparr>),
     ev_parse_json := (\<lambda>s. Some (JObj [(''resource'', JStr ''https://m.x/a''),
       (''authorization_servers'', JArr [JStr ''https://as.example''])]))\<rparr>"

lemma resource_metadata_describes_witness:
  "\<exists>v source w'. discover_protected_resource resource_env demo_deps ''https://m.x/a/b'' None demo_world =
      (Inr (v, source), w') \<and> describes resource_env demo_deps ''https://m.x/a/b'' v"
proof -
  let ?run = "discover_protected_resource resource_env demo_deps ''https://m.x/a/b'' None demo_world"
  have "\<not> isl (fst ?run)" by code_simp
  then obtain v source w' where run: "?run = (Inr (v, source), w')" by (cases ?run; cases "fst ?run") auto
  with resource_metadata_describes [OF run] show ?thesis by blast
qed

end
