(* ===== verification/Token_Manager.thy ===== *)
theory Token_Manager
  imports Discovery Canonical_Json
begin

text \<open>
  \<^verbatim>\<open>packages/oauth/src/token-manager.ts\<close> and \<^verbatim>\<open>pkce.ts\<close>: authorization transactions,
  the exchange of a code, access tokens and their refresh under a lock and a circuit breaker,
  revocation, and the keys DPoP binds tokens to. The maps of the class are in the state
  (\<open>wd_breakers\<close>, \<open>wd_dpop_cache\<close>, \<open>wd_resource_nonces\<close>); the lock is the environment's to grant, and
  while it is awaited the other workers run.
\<close>

section \<open>Configuration and requests\<close>

record token_manager_config =
  tc_deps :: oauth_deps
  tc_accessTokenSafetyWindowMs :: int
  tc_transactionTtlMs :: int
  tc_maxRefreshRetries :: nat

record connection_ref =
  rf_tenantId :: string
  rf_connectionId :: string

record transaction_request =
  ar_tenantId :: string
  ar_userId :: string
  ar_connectionId :: string
  ar_issuerRecord :: oauth_issuer_record
  ar_metadata :: as_metadata
  ar_registration :: resolved_registration
  ar_scopes :: "string list"
  ar_resource :: "string option"
  ar_returnTo :: "string option"

record oauth_callback_input =
  ci_code :: "string option"
  ci_state :: "string option"
  ci_iss :: "string option"
  ci_error :: "string option"
  ci_actingUserId :: "string option"

record callback_result =
  kb_connectionId :: string
  kb_tenantId :: string
  kb_returnTo :: "string option"
  kb_grantedScopes :: "string list"
  kb_refreshable :: bool

section \<open>The database\<close>

definition require_connection :: "connection_ref \<Rightarrow> connection io" where
  "require_connection ref =
     (io_bind (db (\<lambda>t. connections_get (rf_tenantId ref) (rf_connectionId ref) (tb_connections t))) (\<lambda>found.
      (case found of
           None \<Rightarrow> io_fail (gerr NOT_FOUND ''Connection not found'')
         | Some c \<Rightarrow> io_return c)))"

definition update_connection :: "string \<Rightarrow> (connection \<Rightarrow> connection) \<Rightarrow> unit io" where
  "update_connection i patch =
     (io_bind now (\<lambda>t.
      io_bind (db_run (\<lambda>d. let (x, rows) = connections_update t i patch (tb_connections d)
                         in (x, d\<lparr>tb_connections := rows\<rparr>))) (\<lambda>r.
      io_bind (io_lift r) (\<lambda>stored.
      io_return ()))))"

definition fail_transaction :: "string \<Rightarrow> unit io" where
  "fail_transaction i = db_modify (\<lambda>d. d\<lparr>tb_transactions := transactions_fail i (tb_transactions d)\<rparr>)"

definition consume_transaction :: "string \<Rightarrow> bool io" where
  "consume_transaction i =
     (io_bind now (\<lambda>t.
      db_run (\<lambda>d. let (x, rows) = transactions_consume i t (tb_transactions d)
                    in (x, d\<lparr>tb_transactions := rows\<rparr>))))"

definition update_tokens :: "token_update \<Rightarrow> bool io" where
  "update_tokens u =
     (io_bind now (\<lambda>t.
      db_run (\<lambda>d. let (x, rows) = connections_update_tokens t u (tb_connections d)
                    in (x, d\<lparr>tb_connections := rows\<rparr>))))"

section \<open>Errors and marks\<close>

definition authorization_required :: "token_manager_config \<Rightarrow> connection \<Rightarrow> string \<Rightarrow> gateway_error" where
  "authorization_required cfg c message =
     gerr_data AUTHORIZATION_REQUIRED message
       (JObj [(''connection_id'', JStr (uc_id c)), (''alias'', JStr (uc_alias c)),
         (''reconnect_url'', JStr (gi_baseUrl (od_identity (tc_deps cfg)) @ ''/connect/'' @ uc_id c))])"

definition mark_reauth_required :: "connection \<Rightarrow> string \<Rightarrow> unit io" where
  "mark_reauth_required c reason =
     update_connection (uc_id c) (\<lambda>r. r\<lparr>uc_status := REAUTH_REQUIRED, uc_lastErrorCode := Some reason,
       uc_lastErrorMessageRedacted := Some ''Reconnect this MCP server''\<rparr>)"

definition record_connection_error :: "string \<Rightarrow> exn \<Rightarrow> unit io" where
  "record_connection_error i e =
     update_connection i (\<lambda>r. r\<lparr>
       uc_lastErrorCode := Some (case e of OAuth_Exn x \<Rightarrow> oe_error x | _ \<Rightarrow> ''token_exchange_failed''),
       uc_lastErrorMessageRedacted := Some (clamp_text (exn_message e) 200)\<rparr>)"

section \<open>Usable tokens\<close>

definition is_access_token_usable :: "int \<Rightarrow> int \<Rightarrow> connection \<Rightarrow> bool" where
  "is_access_token_usable t headroom c \<longleftrightarrow>
     given (uc_accessTokenEncrypted c) \<noteq> None \<and>
     (case uc_accessTokenExpiresAt c of None \<Rightarrow> True | Some e \<Rightarrow> e - headroom > t)"

definition assert_usable :: "token_manager_config \<Rightarrow> connection \<Rightarrow> unit result" where
  "assert_usable cfg c =
     (if uc_status c = REAUTH_REQUIRED
      then Inl (authorization_required cfg c ''This connection requires authorization again'')
      else if uc_status c = DISABLED then Inl (gerr FORBIDDEN ''This connection is disabled'')
      else Inr ())"

definition decrypt_access_token :: "env \<Rightarrow> connection \<Rightarrow> string io" where
  "decrypt_access_token ev c =
     decrypt ev \<lparr>ec_tenantId = uc_tenantId c, ec_purpose = Access_Token\<rparr> (or_empty (uc_accessTokenEncrypted c))"

section \<open>Clients\<close>

definition build_credentials :: "env \<Rightarrow> string \<Rightarrow> string option \<Rightarrow> auth_method \<Rightarrow> client_credentials" where
  "build_credentials ev clientId secret method = \<lparr>
     cc_clientId = clientId, cc_clientSecret = secret, cc_tokenEndpointAuthMethod = method,
     cc_signingKey = (if method = PRIVATE_KEY_JWT then Some (ev_signing_kid ev, ev_signing_key ev) else None)\<rparr>"

definition credentials_for :: "env \<Rightarrow> resolved_registration \<Rightarrow> client_credentials" where
  "credentials_for ev r =
     build_credentials ev (rr_clientId r) (rr_clientSecret r) (rr_tokenEndpointAuthMethod r)"

text \<open>The metadata, the credentials and the resource of a connection.\<close>

definition resolve_client_context ::
  "env \<Rightarrow> connection \<Rightarrow> (as_metadata \<times> client_credentials \<times> string option) io" where
  "resolve_client_context ev c =
     (case (given (uc_oauthIssuerId c), given (uc_oauthClientRegistrationId c)) of
        (Some issuerId, Some registrationId) \<Rightarrow>
          (io_bind (db (\<lambda>t. issuers_get issuerId (tb_issuers t))) (\<lambda>issuer.
           io_bind (db (\<lambda>t. registrations_get registrationId (tb_registrations t))) (\<lambda>registration.
           (case (issuer, registration) of
                (Some i, Some r) \<Rightarrow>
                  (io_bind (db (\<lambda>t. servers_get (uc_tenantId c) (uc_mcpServerId c) (tb_servers t))) (\<lambda>server.
                   io_bind (decrypt_optional ev \<lparr>ec_tenantId = uc_tenantId c, ec_purpose = Client_Secret\<rparr>
                                 (cr_encryptedClientSecret r)) (\<lambda>secret.
                   io_return (oi_metadataJson i,
                       build_credentials ev (cr_clientId r) secret (cr_tokenEndpointAuthMethod r),
                       Option.bind server ms_canonicalResource))))
              | _ \<Rightarrow> io_fail (gerr INTERNAL ''Connection references missing OAuth records'')))))
      | _ \<Rightarrow> io_fail (gerr INTERNAL ''Connection has no OAuth issuer or client registration''))"

section \<open>DPoP keys\<close>

definition set_dpop_reference :: "string \<Rightarrow> string option \<Rightarrow> unit io" where
  "set_dpop_reference i k = update_connection i (\<lambda>r. r\<lparr>uc_dpopKeyReference := k\<rparr>)"

definition create_dpop_key :: "dpop_key_record \<Rightarrow> unit io" where
  "create_dpop_key r =
     db_insert (\<lambda>d. map_option (\<lambda>rows. d\<lparr>tb_dpop_keys := rows\<rparr>) (dpop_keys_create r (tb_dpop_keys d)))"

definition ensure_dpop_key :: "env \<Rightarrow> string \<Rightarrow> string \<Rightarrow> as_metadata \<Rightarrow> unit io" where
  "ensure_dpop_key ev connectionId tenantId m =
     (io_bind (db (\<lambda>t. connections_get tenantId connectionId (tb_connections t))) (\<lambda>found.
      (case found of
           None \<Rightarrow> io_return ()
         | Some c \<Rightarrow>
             if \<not> supports_dpop m then
               (case given (uc_dpopKeyReference c) of
                  None \<Rightarrow> io_return ()
                | Some k \<Rightarrow>
                    (io_seq (db_modify (\<lambda>d. d\<lparr>tb_dpop_keys := dpop_keys_delete k (tb_dpop_keys d)\<rparr>)) (
                     set_dpop_reference connectionId None)))
             else if given (uc_dpopKeyReference c) \<noteq> None then io_return ()
             else
               (io_bind (draw ev) (\<lambda>pem.
                io_bind (new_id ev ''dpop'') (\<lambda>i.
                io_bind (encrypt ev \<lparr>ec_tenantId = tenantId, ec_purpose = Dpop_Key\<rparr> pem) (\<lambda>sealed.
                io_bind now (\<lambda>t.
                io_seq (create_dpop_key \<lparr>dk_id = i, dk_tenantId = tenantId, dk_privateKeyEncrypted = sealed,
                    dk_publicJwkJson = ev_public_jwk ev pem, dk_createdAt = t\<rparr>) (
                set_dpop_reference connectionId (Some i))))))))))"

definition dpop_key_for :: "env \<Rightarrow> connection \<Rightarrow> string option io" where
  "dpop_key_for ev c =
     (case given (uc_dpopKeyReference c) of
        None \<Rightarrow> io_return None
      | Some k \<Rightarrow>
          (io_bind (io_get wd_dpop_cache) (\<lambda>cache.
           (case map_of cache k of
                Some pem \<Rightarrow> io_return (Some pem)
              | None \<Rightarrow>
                  (io_bind (db (\<lambda>t. dpop_keys_get k (tb_dpop_keys t))) (\<lambda>found.
                   (case found of
                        None \<Rightarrow> io_return None
                      | Some r \<Rightarrow>
                          (io_bind (decrypt ev \<lparr>ec_tenantId = dk_tenantId r, ec_purpose = Dpop_Key\<rparr>
                                      (dk_privateKeyEncrypted r)) (\<lambda>pem.
                           io_seq (io_modify (\<lambda>w. w\<lparr>wd_dpop_cache := map_set (wd_dpop_cache w) (dk_id r) pem\<rparr>)) (
                           io_return (Some pem)))))))))))"

definition remember_resource_nonce :: "string \<Rightarrow> string \<Rightarrow> unit io" where
  "remember_resource_nonce connectionId nonce =
     io_modify (\<lambda>w. w\<lparr>wd_resource_nonces := map_set (wd_resource_nonces w) connectionId nonce\<rparr>)"

section \<open>Starting an authorization\<close>

definition create_transaction :: "oauth_transaction \<Rightarrow> unit io" where
  "create_transaction x =
     db_insert (\<lambda>d. map_option (\<lambda>rows. d\<lparr>tb_transactions := rows\<rparr>) (transactions_create x (tb_transactions d)))"

text \<open>\<open>createPkcePair\<close> and \<open>randomToken(32)\<close>: base 64 of drawn bytes. Answers the id and the URL.\<close>

definition create_authorization_transaction ::
  "env \<Rightarrow> token_manager_config \<Rightarrow> transaction_request \<Rightarrow> (string \<times> string) io" where
  "create_authorization_transaction ev cfg q =
     (io_bind (draw ev) (\<lambda>entropy.
      (let verifier = b64url entropy in
      io_bind (draw ev) (\<lambda>seed.
      (let state = b64url seed in
      io_bind (new_id ev ''txn'') (\<lambda>i.
      io_bind (encrypt ev \<lparr>ec_tenantId = ar_tenantId q, ec_purpose = Pkce_Verifier\<rparr> verifier) (\<lambda>sealed.
      io_bind now (\<lambda>t.
      (let redirectUri = gi_redirectUri (od_identity (tc_deps cfg)) in
      io_seq (create_transaction \<lparr>ot_id = i, ot_tenantId = ar_tenantId q, ot_userId = ar_userId q,
          ot_connectionId = ar_connectionId q, ot_issuer = canonical_issuer (oi_issuer (ar_issuerRecord q)),
          ot_stateHash = ev_sha256_hex ev state, ot_pkceVerifierEncrypted = sealed,
          ot_redirectUri = redirectUri, ot_requestedScopes = ar_scopes q, ot_resource = ar_resource q,
          ot_expiresAt = t + tc_transactionTtlMs cfg, ot_consumedAt = None, ot_status = TXN_PENDING,
          ot_returnTo = ar_returnTo q\<rparr>) (
      io_seq (ensure_dpop_key ev (ar_connectionId q) (ar_tenantId q) (ar_metadata q)) (
      io_bind (build_authorization_url ev \<lparr>au_metadata = ar_metadata q,
          au_credentials = credentials_for ev (ar_registration q), au_redirectUri = redirectUri,
          au_state = state, au_codeChallenge = ev_sha256_b64 ev verifier, au_scopes = ar_scopes q,
          au_resource = ar_resource q, au_extraParams = []\<rparr>) (\<lambda>url.
      io_return (i, url)))))))))))))"

section \<open>Storing tokens\<close>

definition persist_tokens :: "env \<Rightarrow> connection \<Rightarrow> token_set \<Rightarrow> string list \<Rightarrow> bool io" where
  "persist_tokens ev c tokens scopes =
     (io_bind (encrypt ev \<lparr>ec_tenantId = uc_tenantId c, ec_purpose = Access_Token\<rparr> (nt_accessToken tokens)) (\<lambda>access.
      io_bind (case given (nt_refreshToken tokens) of
            Some r \<Rightarrow> io_bind (encrypt ev \<lparr>ec_tenantId = uc_tenantId c, ec_purpose = Refresh_Token\<rparr> r)
                       (\<lambda>s. io_return (Some s))
          | None \<Rightarrow> io_return (uc_refreshTokenEncrypted c)) (\<lambda>refresh.
      io_bind now (\<lambda>t.
      update_tokens \<lparr>tu_connectionId = uc_id c, tu_expectedTokenVersion = uc_tokenVersion c,
          tu_accessTokenEncrypted = Some access, tu_refreshTokenEncrypted = refresh,
          tu_tokenType = Some (nt_tokenType tokens), tu_accessTokenExpiresAt = nt_expiresAt tokens,
          tu_refreshTokenExpiresAt = nt_refreshTokenExpiresAt tokens, tu_grantedScopes = unique scopes,
          tu_status = (if given refresh \<noteq> None then CONNECTED else CONNECTED_NON_REFRESHABLE),
          tu_lastRefreshAt = t\<rparr>))))"

section \<open>Finishing an authorization\<close>

definition issuer_mismatch :: "string \<Rightarrow> exn" where
  "issuer_mismatch reason = Gateway_Exn (gerr ISSUER_MISMATCH reason)"

definition assert_response_issuer :: "oauth_transaction \<Rightarrow> string option \<Rightarrow> unit io" where
  "assert_response_issuer x iss =
     (case iss of
        Some i \<Rightarrow>
          if same_issuer i (ot_issuer x) then io_return ()
          else io_throw (issuer_mismatch ''Authorization response came from an unexpected issuer'')
      | None \<Rightarrow>
          (io_bind (db (\<lambda>t. issuers_find_by_issuer (canonical_issuer (ot_issuer x)) (tb_issuers t))) (\<lambda>found.
           (case found of
                None \<Rightarrow> io_return ()
              | Some r \<Rightarrow>
                  if am_authorization_response_iss_parameter_supported (oi_metadataJson r)
                  then io_throw (issuer_mismatch (''The authorization server publishes an issuer identifier on its '' @
                         ''responses, and this response carries none''))
                  else io_return ()))))"

definition methods_to_avoid ::
  "client_registration \<Rightarrow> client_credentials \<Rightarrow> oauth_error \<Rightarrow> auth_method list option" where
  "methods_to_avoid r used e =
     (case cr_registrationType r of
        DYNAMIC \<Rightarrow> if oe_error e = ''invalid_client'' then Some [cc_tokenEndpointAuthMethod used] else None
      | CIMD \<Rightarrow>
          if oe_error e \<in> {''invalid_request'', ''invalid_client'', ''unauthorized_client''} then Some [] else None
      | _ \<Rightarrow> None)"

definition replace_client ::
  "env \<Rightarrow> token_manager_config \<Rightarrow> connection \<Rightarrow> oauth_issuer_record \<Rightarrow> client_registration \<Rightarrow> auth_method list \<Rightarrow> bool io" where
  "replace_client ev cfg c i r avoid =
     (io_bind (io_catch
          (io_bind (selector_reregister ev (tc_deps cfg)
             \<lparr>rx_tenantId = uc_tenantId c, rx_issuerRecord = i, rx_metadata = oi_metadataJson i,
              rx_redirectUri = gi_redirectUri (od_identity (tc_deps cfg)),
              rx_requestedScopes = uc_requestedScopes c, rx_initialAccessToken = None,
              rx_avoidAuthMethods = avoid\<rparr> (cr_id r)) (\<lambda>x. io_return (Some x)))
          (\<lambda>e. io_return None)) (\<lambda>replacement.
      (case replacement of
           None \<Rightarrow> io_return False
         | Some x \<Rightarrow>
             (io_seq (update_connection (uc_id c) (\<lambda>q. q\<lparr>uc_oauthClientRegistrationId := Some (rr_registrationId x)\<rparr>)) (
              io_return True)))))"

definition reregister_after_rejection ::
  "env \<Rightarrow> token_manager_config \<Rightarrow> connection \<Rightarrow> client_credentials \<Rightarrow> exn \<Rightarrow> bool io" where
  "reregister_after_rejection ev cfg c used e =
     (case (e, given (uc_oauthIssuerId c), given (uc_oauthClientRegistrationId c)) of
        (OAuth_Exn x, Some issuerId, Some registrationId) \<Rightarrow>
          (io_bind (db (\<lambda>t. issuers_get issuerId (tb_issuers t))) (\<lambda>issuer.
           io_bind (db (\<lambda>t. registrations_get registrationId (tb_registrations t))) (\<lambda>registration.
           (case (issuer, registration) of
                (Some i, Some r) \<Rightarrow>
                  (case methods_to_avoid r used x of
                     None \<Rightarrow> io_return False
                   | Some avoid \<Rightarrow> replace_client ev cfg c i r avoid)
              | _ \<Rightarrow> io_return False))))
      | _ \<Rightarrow> io_return False)"

text \<open>The exchange proper, with the client replaced when the server would not have it.\<close>

definition exchange_with_client ::
  "env \<Rightarrow> token_manager_config \<Rightarrow> connection \<Rightarrow> oauth_transaction \<Rightarrow> as_metadata \<Rightarrow> client_credentials
     \<Rightarrow> string \<Rightarrow> string \<Rightarrow> token_set io" where
  "exchange_with_client ev cfg c x m cred authCode verifier =
     io_catch
       ((io_bind (dpop_key_for ev c) (\<lambda>key.
         client_exchange_code ev (od_policy (tc_deps cfg)) m cred authCode verifier (ot_redirectUri x)
            (ot_resource x) key)))
       (\<lambda>e. (io_bind (reregister_after_rejection ev cfg c cred e) (\<lambda>replaced.
         (if \<not> replaced then io_throw e
                else io_fail (gerr_data AUTHORIZATION_REQUIRED
                  (''This server would not accept the client we used. '' @
                   ''A new one is registered; authorize once more to finish connecting.'')
                  (JObj [(''connectionId'', JStr (uc_id c)), (''reason'', JStr ''client_replaced'')]))))))"

definition is_authorization_required :: "exn \<Rightarrow> bool" where
  "is_authorization_required e \<longleftrightarrow> (case e of Gateway_Exn g \<Rightarrow> ge_code g = AUTHORIZATION_REQUIRED | _ \<Rightarrow> False)"

definition exchange_or_record ::
  "env \<Rightarrow> token_manager_config \<Rightarrow> connection \<Rightarrow> oauth_transaction \<Rightarrow> as_metadata \<Rightarrow> client_credentials
     \<Rightarrow> string \<Rightarrow> string \<Rightarrow> token_set io" where
  "exchange_or_record ev cfg c x m cred authCode verifier =
     io_catch (exchange_with_client ev cfg c x m cred authCode verifier)
       (\<lambda>e. if is_authorization_required e then io_throw e
            else (io_seq (record_connection_error (uc_id c) e) (
               io_fail (gerr TOKEN_EXCHANGE_FAILED ''The authorization code could not be exchanged''))))"

text \<open>Once the transaction is consumed.\<close>

definition finish_exchange ::
  "env \<Rightarrow> token_manager_config \<Rightarrow> connection \<Rightarrow> oauth_transaction \<Rightarrow> string \<Rightarrow> callback_result io" where
  "finish_exchange ev cfg c x authCode =
     (io_bind (resolve_client_context ev c) (\<lambda>(m, cred, resource).
      io_bind (decrypt ev \<lparr>ec_tenantId = ot_tenantId x, ec_purpose = Pkce_Verifier\<rparr> (ot_pkceVerifierEncrypted x)) (\<lambda>verifier.
      io_bind (exchange_or_record ev cfg c x m cred authCode verifier) (\<lambda>tokens.
      (let scopes = (if nt_scopes tokens \<noteq> [] then nt_scopes tokens else ot_requestedScopes x) in
      io_bind (persist_tokens ev c tokens scopes) (\<lambda>stored.
      io_return \<lparr>kb_connectionId = uc_id c, kb_tenantId = uc_tenantId c, kb_returnTo = ot_returnTo x,
          kb_grantedScopes = scopes, kb_refreshable = (nt_refreshToken tokens \<noteq> None)\<rparr>))))))"

definition exchange_code ::
  "env \<Rightarrow> token_manager_config \<Rightarrow> oauth_callback_input \<Rightarrow> callback_result io" where
  "exchange_code ev cfg cb =
     (case given (ci_error cb) of
        Some e \<Rightarrow> io_fail (gerr TOKEN_EXCHANGE_FAILED (''Authorization server returned '' @ clamp_text e 64))
      | None \<Rightarrow>
     (case (given (ci_state cb), given (ci_code cb)) of
        (Some state, Some authCode) \<Rightarrow>
          (io_bind (db (\<lambda>t. transactions_find_by_state_hash (ev_sha256_hex ev state) (tb_transactions t))) (\<lambda>found.
           io_bind now (\<lambda>t.
           (case found of
                None \<Rightarrow> io_fail (gerr INVALID_REQUEST ''Unknown authorization state'')
              | Some x \<Rightarrow>
                  if ot_expiresAt x \<le> t then
                    (io_seq (fail_transaction (ot_id x)) (
                     io_fail (gerr INVALID_REQUEST ''Authorization transaction expired'')))
                  else if (case ci_actingUserId cb of None \<Rightarrow> False | Some u \<Rightarrow> u \<noteq> ot_userId x)
                  then io_fail (gerr FORBIDDEN ''The signed-in user does not own this authorization transaction'')
                  else
                    (io_seq (assert_response_issuer x (ci_iss cb)) (
                     io_bind (db (\<lambda>t. connections_get (ot_tenantId x) (ot_connectionId x) (tb_connections t))) (\<lambda>conn.
                     (case conn of
                          None \<Rightarrow>
                            (io_seq (fail_transaction (ot_id x)) (
                             io_fail (gerr NOT_FOUND ''Connection no longer exists'')))
                        | Some c \<Rightarrow>
                            (io_bind (consume_transaction (ot_id x)) (\<lambda>consumed.
                             (if \<not> consumed
                                then io_fail (gerr CONFLICT ''This authorization response was already processed'')
                                else finish_exchange ev cfg c x authCode)))))))))))
      | _ \<Rightarrow> io_fail (gerr INVALID_REQUEST ''Missing authorization code or state'')))"

section \<open>Refreshing\<close>

definition apply_refresh_failure :: "connection \<Rightarrow> refresh_failure_kind \<Rightarrow> exn \<Rightarrow> unit io" where
  "apply_refresh_failure c kind e =
     (case kind of
        NEEDS_REAUTH \<Rightarrow> mark_reauth_required c (case e of OAuth_Exn x \<Rightarrow> oe_error x | _ \<Rightarrow> ''invalid_grant'')
      | INSUFFICIENT_SCOPE \<Rightarrow> mark_reauth_required c (case e of OAuth_Exn x \<Rightarrow> oe_error x | _ \<Rightarrow> ''invalid_grant'')
      | CLIENT_INVALID \<Rightarrow>
          (io_seq (case given (uc_oauthClientRegistrationId c) of
                None \<Rightarrow> io_return ()
              | Some i \<Rightarrow> set_registration_status i INVALID) (
           mark_reauth_required c ''invalid_client''))
      | TRANSIENT \<Rightarrow>
          update_connection (uc_id c) (\<lambda>r. r\<lparr>
            uc_status := (if uc_status c = CONNECTED then DEGRADED else uc_status c),
            uc_lastErrorCode := Some ''temporarily_unavailable'',
            uc_lastErrorMessageRedacted := Some (clamp_text (exn_message e) 200)\<rparr>))"

definition refresh_error :: "token_manager_config \<Rightarrow> connection \<Rightarrow> refresh_failure_kind \<Rightarrow> gateway_error" where
  "refresh_error cfg c kind =
     (if kind = TRANSIENT
      then gerr_retry UPSTREAM_UNAVAILABLE
             ''The authorization server could not be reached to refresh the connection''
      else authorization_required cfg c ''This connection requires authorization again'')"

definition breaker_of :: "world \<Rightarrow> string \<Rightarrow> breaker" where
  "breaker_of w i = (case map_of (wd_breakers w) i of None \<Rightarrow> breaker_new | Some b \<Rightarrow> b)"

definition set_breaker :: "string \<Rightarrow> (breaker \<Rightarrow> breaker) \<Rightarrow> unit io" where
  "set_breaker i f = io_modify (\<lambda>w. w\<lparr>wd_breakers := map_set (wd_breakers w) i (f (breaker_of w i))\<rparr>)"

text \<open>\<open>breaker.isOpen()\<close>, which closes a breaker whose cool-down is over.\<close>

definition breaker_check :: "string \<Rightarrow> bool io" where
  "breaker_check i =
     (io_bind now (\<lambda>t.
      io_bind (io_get (\<lambda>w. fst (breaker_is_open breaker_default t (breaker_of w i)))) (\<lambda>tripped.
      io_seq (set_breaker i (\<lambda>b. snd (breaker_is_open breaker_default t b))) (
      io_return tripped))))"

definition sleep_ms :: "env \<Rightarrow> int \<Rightarrow> unit io" where
  "sleep_ms ev ms w = (Inr (), w\<lparr>wd_now := wd_now w + ms,
     wd_db := ev_others ev (wd_waits w) (wd_db w), wd_waits := wd_waits w + 1\<rparr>)"

definition back_off :: "env \<Rightarrow> nat \<Rightarrow> unit io" where
  "back_off ev attempt =
     (io_bind (io_get wd_waits) (\<lambda>k.
      sleep_ms ev (jittered_backoff attempt 250 30000 (ev_jitter ev k))))"

text \<open>One pass of the loop's \<open>try\<close>.\<close>

definition refresh_once ::
  "env \<Rightarrow> token_manager_config \<Rightarrow> connection \<Rightarrow> as_metadata \<Rightarrow> client_credentials \<Rightarrow> string \<Rightarrow> string option
     \<Rightarrow> string option \<Rightarrow> string io" where
  "refresh_once ev cfg c m cred token resource key =
     (io_bind (client_refresh ev (od_policy (tc_deps cfg)) m cred token [] resource key) (\<lambda>tokens.
      io_seq (set_breaker (uc_id c) breaker_success) (
      io_bind (persist_tokens ev c tokens
                    (if nt_scopes tokens \<noteq> [] then nt_scopes tokens else uc_grantedScopes c)) (\<lambda>stored.
      (if stored then io_return (nt_accessToken tokens)
         else (io_bind (require_connection \<lparr>rf_tenantId = uc_tenantId c, rf_connectionId = uc_id c\<rparr>) (\<lambda>latest.
            decrypt_access_token ev latest)))))))"

definition fail_refresh :: "token_manager_config \<Rightarrow> connection \<Rightarrow> exn \<Rightarrow> string io" where
  "fail_refresh cfg c e =
     (io_bind now (\<lambda>t.
      io_seq (set_breaker (uc_id c) (breaker_failure breaker_default t)) (
      io_seq (apply_refresh_failure c (classify_token_failure e) e) (
      io_fail (refresh_error cfg c (classify_token_failure e))))))"

text \<open>The loop; \<open>left\<close> is \<open>maxRefreshRetries - attempt\<close>.\<close>

fun refresh_loop ::
  "env \<Rightarrow> token_manager_config \<Rightarrow> connection \<Rightarrow> as_metadata \<Rightarrow> client_credentials \<Rightarrow> string \<Rightarrow> string option
     \<Rightarrow> string option \<Rightarrow> nat \<Rightarrow> nat \<Rightarrow> string io" where
  "refresh_loop ev cfg c m cred token resource key attempt 0 =
     io_catch (refresh_once ev cfg c m cred token resource key) (\<lambda>e. fail_refresh cfg c e)"
| "refresh_loop ev cfg c m cred token resource key attempt (Suc left) =
     io_catch (refresh_once ev cfg c m cred token resource key)
       (\<lambda>e. if classify_token_failure e = TRANSIENT
            then (io_seq (back_off ev (attempt + 1)) (
               refresh_loop ev cfg c m cred token resource key (attempt + 1) left))
            else fail_refresh cfg c e)"

definition refresh_locked :: "env \<Rightarrow> token_manager_config \<Rightarrow> connection \<Rightarrow> string io" where
  "refresh_locked ev cfg c =
     (io_bind (breaker_check (uc_id c)) (\<lambda>tripped.
      (if tripped
         then io_fail (gerr_retry UPSTREAM_UNAVAILABLE
                ''Token refresh is temporarily disabled after repeated failures'')
         else
           (io_bind (decrypt ev \<lparr>ec_tenantId = uc_tenantId c, ec_purpose = Refresh_Token\<rparr>
                         (or_empty (uc_refreshTokenEncrypted c))) (\<lambda>token.
            io_bind (resolve_client_context ev c) (\<lambda>(m, cred, resource).
            io_bind (dpop_key_for ev c) (\<lambda>key.
            refresh_loop ev cfg c m cred token resource key 0 (tc_maxRefreshRetries cfg))))))))"

section \<open>The lock\<close>

text \<open>
  \<open>withLock\<close>: the call waits for its turn, which the environment grants or not; when the work takes
  longer than the lease, its result is given up although what it did stands.
\<close>

definition with_lock :: "env \<Rightarrow> string \<Rightarrow> int \<Rightarrow> 'a io \<Rightarrow> 'a io" where
  "with_lock ev key leaseMs m w =
     (let w1 = snd (wait ev w) in
      if \<not> ev_granted ev (wd_waits w)
      then (Inl (Gateway_Exn (gerr_retry CONFLICT (''Timed out acquiring lock '' @ key))), w1)
      else (case m w1 of (r, w2) \<Rightarrow>
        if wd_now w2 - wd_now w1 \<ge> leaseMs
        then (Inl (Gateway_Exn (gerr_retry INTERNAL (''Lock lease expired for '' @ key))), w2)
        else (r, w2)))"

definition get_valid_access_token ::
  "env \<Rightarrow> token_manager_config \<Rightarrow> connection_ref \<Rightarrow> int \<Rightarrow> string io" where
  "get_valid_access_token ev cfg ref minRemaining =
     ((let headroom = max minRemaining (tc_accessTokenSafetyWindowMs cfg) in
      io_bind (require_connection ref) (\<lambda>c.
      io_seq (io_lift (assert_usable cfg c)) (
      io_bind now (\<lambda>t.
      (if is_access_token_usable t headroom c then decrypt_access_token ev c
         else if given (uc_refreshTokenEncrypted c) = None then
           (if is_access_token_usable t (tc_accessTokenSafetyWindowMs cfg) c then decrypt_access_token ev c
            else (io_seq (mark_reauth_required c ''access_token_expired'') (
               io_fail (authorization_required cfg c ''The access token expired''))))
         else
           with_lock ev (''oauth-refresh:'' @ uc_id c) 50000
             ((io_bind (require_connection ref) (\<lambda>latest.
               io_seq (io_lift (assert_usable cfg latest)) (
               io_bind now (\<lambda>t2.
               (if is_access_token_usable t2 headroom latest then decrypt_access_token ev latest
                 else refresh_locked ev cfg latest))))))))))))"

section \<open>Headers, revocation, wider grants\<close>

definition string_entry :: "string \<times> json \<Rightarrow> (string \<times> string) option" where
  "string_entry p = (case snd p of JStr s \<Rightarrow> Some (fst p, s) | _ \<Rightarrow> None)"

definition authorization_headers ::
  "env \<Rightarrow> token_manager_config \<Rightarrow> connection_ref \<Rightarrow> string \<Rightarrow> string \<Rightarrow> (string \<times> string) list io" where
  "authorization_headers ev cfg ref method' target =
     (io_bind (require_connection ref) (\<lambda>c.
      (case given (uc_staticHeadersEncrypted c) of
           Some sealed \<Rightarrow>
             (io_bind (decrypt ev \<lparr>ec_tenantId = uc_tenantId c, ec_purpose = Static_Headers\<rparr> sealed) (\<lambda>raw.
              (case ev_parse_json ev raw of
                   None \<Rightarrow> io_throw (Other_Exn ''Unexpected token in JSON'')
                 | Some (JObj es) \<Rightarrow> io_return (List.map_filter string_entry es)
                 | Some v \<Rightarrow> io_return [])))
         | None \<Rightarrow>
             if given (uc_oauthIssuerId c) = None then io_return []
             else
               (io_bind (get_valid_access_token ev cfg ref 0) (\<lambda>token.
                (let scheme = (case uc_tokenType c of None \<Rightarrow> ''Bearer'' | Some s \<Rightarrow> s) in
                (if to_lower scheme \<noteq> ''dpop'' then io_return [(''authorization'', scheme @ '' '' @ token)]
                   else
                     (io_bind (dpop_key_for ev c) (\<lambda>key.
                      (case key of
                           None \<Rightarrow> io_fail (gerr INTERNAL ''The upstream issued a DPoP token but the binding key is missing'')
                         | Some k \<Rightarrow>
                             (io_bind now (\<lambda>t.
                              io_bind (io_get wd_resource_nonces) (\<lambda>nonces.
                              io_bind (create_dpop_proof ev k method' target (t div 1000)
                                           (map_of nonces (uc_id c)) (Some token)) (\<lambda>proof.
                              io_return [(''authorization'', ''DPoP '' @ token), (''dpop'', proof)]))))))))))))))"

definition clear_tokens :: "connection \<Rightarrow> connection \<Rightarrow> connection" where
  "clear_tokens c r = r\<lparr>uc_accessTokenEncrypted := None, uc_refreshTokenEncrypted := None,
     uc_accessTokenExpiresAt := None, uc_refreshTokenExpiresAt := None, uc_status := REAUTH_REQUIRED,
     uc_tokenVersion := uc_tokenVersion c + 1\<rparr>"

definition revoke_upstream :: "env \<Rightarrow> token_manager_config \<Rightarrow> connection \<Rightarrow> unit io" where
  "revoke_upstream ev cfg c =
     (io_bind (resolve_client_context ev c) (\<lambda>(m, cred, resource).
      io_bind (decrypt_optional ev \<lparr>ec_tenantId = uc_tenantId c, ec_purpose = Refresh_Token\<rparr>
                   (uc_refreshTokenEncrypted c)) (\<lambda>token.
      (case given token of
           None \<Rightarrow> io_return ()
         | Some s \<Rightarrow> client_revoke ev (od_policy (tc_deps cfg)) m cred s (Some ''refresh_token'')))))"

definition revoke_connection :: "env \<Rightarrow> token_manager_config \<Rightarrow> connection_ref \<Rightarrow> unit io" where
  "revoke_connection ev cfg ref =
     (io_bind (require_connection ref) (\<lambda>c.
      (if given (uc_oauthIssuerId c) = None then io_return ()
         else io_finally (io_catch (revoke_upstream ev cfg c) (\<lambda>e. io_return ()))
                (update_connection (uc_id c) (clear_tokens c)))))"

definition require_incremental_authorization ::
  "token_manager_config \<Rightarrow> connection_ref \<Rightarrow> string list \<Rightarrow> unit io" where
  "require_incremental_authorization cfg ref scopes =
     (io_bind (require_connection ref) (\<lambda>c.
      io_seq (update_connection (uc_id c) (\<lambda>r. r\<lparr>uc_status := REAUTH_REQUIRED,
          uc_requestedScopes := unique (uc_requestedScopes c @ scopes),
          uc_lastErrorCode := Some ''insufficient_scope'',
          uc_lastErrorMessageRedacted := Some (''Additional scopes required: '' @ join '' '' scopes)\<rparr>)) (
      io_fail (authorization_required cfg c ''The upstream server requires additional scopes''))))"

end
