(* ===== verification/Challenges.thy ===== *)
theory Challenges
  imports Discovery
begin

text \<open>
  \<^verbatim>\<open>packages/oauth/src/www-authenticate.ts\<close> and \<^verbatim>\<open>insufficient-scope.ts\<close>: the challenges
  of a \<open>WWW-Authenticate\<close> header, and how an upstream says that a token is too narrow.
\<close>

section \<open>Tokens\<close>

definition is_token_char :: "char \<Rightarrow> bool" where
  "is_token_char c \<longleftrightarrow> is_alnum c \<or> c \<in> set ''!#$%&*+.^_`|~-'' \<or> code c = 39"

text \<open>The quoted alternative: the value with its quotes and what follows, if the quote is closed.\<close>

fun quoted_end :: "string \<Rightarrow> (string \<times> string) option" where
  "quoted_end [] = None"
| "quoted_end (c # s) =
     (if code c = 34 then Some ([c], s)
      else if code c = 92 then
        (case s of
           [] \<Rightarrow> None
         | d # r \<Rightarrow> if code d = 10 \<or> code d = 13 then None else map_option (\<lambda>(v, t). (c # d # v, t)) (quoted_end r))
      else map_option (\<lambda>(v, t). (c # v, t)) (quoted_end s))"

definition is_bare_char :: "char \<Rightarrow> bool" where
  "is_bare_char c \<longleftrightarrow> \<not> is_space c \<and> c \<noteq> CHR '',''"

definition value_at :: "string \<Rightarrow> (string \<times> string) option" where
  "value_at s =
     (case s of
        [] \<Rightarrow> None
      | c # r \<Rightarrow>
          (case (if code c = 34 then map_option (\<lambda>(v, t). (c # v, t)) (quoted_end r) else None) of
             Some x \<Rightarrow> Some x
           | None \<Rightarrow> if is_bare_char c then Some (takeWhile is_bare_char s, dropWhile is_bare_char s) else None))"

text \<open>The optional \<open>\s*=\s*value\<close> after a name.\<close>

definition assigned_at :: "string \<Rightarrow> (string \<times> string) option" where
  "assigned_at s =
     (case dropWhile is_space s of
        [] \<Rightarrow> None
      | c # r \<Rightarrow> if c = CHR ''='' then value_at (dropWhile is_space r) else None)"

lemma quoted_end_length: "quoted_end s = Some (v, t) \<Longrightarrow> length t < length s"
  by (induction s arbitrary: v t rule: quoted_end.induct) (fastforce split: if_splits list.splits)+

lemma value_at_length: "value_at s = Some (v, t) \<Longrightarrow> length t \<le> length s"
proof (cases s)
  case (Cons c r)
  assume a: "value_at s = Some (v, t)"
  show ?thesis
  proof (cases "if code c = 34 then map_option (\<lambda>(v, t). (c # v, t)) (quoted_end r) else None")
    case None
    with a Cons have "t = dropWhile is_bare_char s" by (simp add: value_at_def split: if_splits)
    then show ?thesis by (simp add: length_dropWhile_le)
  next
    case (Some x)
    with a Cons obtain u where "quoted_end r = Some (u, t)"
      by (auto simp: value_at_def split: if_splits)
    then show ?thesis using quoted_end_length [of r u t] Cons by simp
  qed
qed (simp add: value_at_def)

lemma assigned_at_length: "assigned_at s = Some (v, t) \<Longrightarrow> length t \<le> length s"
proof -
  assume a: "assigned_at s = Some (v, t)"
  then obtain r where r: "dropWhile is_space s = CHR ''='' # r" "value_at (dropWhile is_space r) = Some (v, t)"
    by (auto simp: assigned_at_def split: list.splits if_splits)
  have "length (dropWhile is_space s) \<le> length s" "length (dropWhile is_space r) \<le> length r"
    by (rule length_dropWhile_le)+
  with value_at_length [OF r(2)] r(1) show ?thesis by simp
qed

text \<open>The matches of the token pattern, from left to right.\<close>

function challenge_tokens :: "string \<Rightarrow> (string \<times> string option) list" where
  "challenge_tokens [] = []"
| "challenge_tokens (c # s) =
     (if is_token_char c then
        let nm = takeWhile is_token_char (c # s); rest = dropWhile is_token_char (c # s)
        in (case assigned_at rest of
              None \<Rightarrow> (nm, None) # challenge_tokens rest
            | Some (v, t) \<Rightarrow> (nm, Some v) # challenge_tokens t)
      else challenge_tokens s)"
  by pat_completeness auto
termination
proof (relation "measure length")
  fix c s nm rest
  assume c: "is_token_char c" and rest: "rest = dropWhile is_token_char (c # s)"
  then have l: "length rest < length (c # s)"
    using length_dropWhile_le [of is_token_char s] by simp
  show "assigned_at rest = None \<Longrightarrow> (rest, c # s) \<in> measure length" using l by simp
  show "(t, c # s) \<in> measure length" if "assigned_at rest = Some p" "(v, t) = p" for p v t
    using assigned_at_length [of rest v t] that l by simp
qed simp_all

section \<open>Challenges\<close>

fun unescape :: "string \<Rightarrow> string" where
  "unescape (c # d # s) =
     (if code c = 92 \<and> code d \<noteq> 10 \<and> code d \<noteq> 13 then d # unescape s else c # unescape (d # s))"
| "unescape s = s"

definition unquote :: "string \<Rightarrow> string" where
  "unquote v =
     (if 2 \<le> length v \<and> code (hd v) = 34 \<and> code (last v) = 34 then unescape (butlast (tl v)) else v)"

fun challenge_loop ::
  "(string \<times> string option) list \<Rightarrow> challenge option \<Rightarrow> challenge list" where
  "challenge_loop [] current = (case current of None \<Rightarrow> [] | Some c \<Rightarrow> [c])"
| "challenge_loop ((nm, None) # ts) current =
     (case current of None \<Rightarrow> [] | Some c \<Rightarrow> [c]) @
     challenge_loop ts (Some \<lparr>ch_scheme = nm, ch_params = []\<rparr>)"
| "challenge_loop ((nm, Some v) # ts) current =
     (let c = (case current of None \<Rightarrow> \<lparr>ch_scheme = ''Bearer'', ch_params = []\<rparr> | Some c \<Rightarrow> c)
      in challenge_loop ts (Some (c\<lparr>ch_params := map_set (ch_params c) (to_lower nm) (unquote v)\<rparr>)))"

definition parse_www_authenticate :: "string option \<Rightarrow> challenge list" where
  "parse_www_authenticate header =
     (case given header of None \<Rightarrow> [] | Some h \<Rightarrow> challenge_loop (challenge_tokens h) None)"

definition select_bearer_challenge :: "challenge list \<Rightarrow> challenge option" where
  "select_bearer_challenge cs =
     (case find (\<lambda>c. to_lower (ch_scheme c) = ''bearer'') cs of
        Some c \<Rightarrow> Some c
      | None \<Rightarrow> (case cs of [] \<Rightarrow> None | c # _ \<Rightarrow> Some c))"

section \<open>Insufficient scope\<close>

text \<open>\<open>message.split(sep)[1]\<close>: what stands between the first two occurrences.\<close>

fun after_first :: "string \<Rightarrow> string \<Rightarrow> string option" where
  "after_first sep [] = (if sep = [] then Some [] else None)"
| "after_first sep (c # s) =
     (if starts_with sep (c # s) then Some (drop (length sep) (c # s)) else after_first sep s)"

fun before_first :: "string \<Rightarrow> string \<Rightarrow> string" where
  "before_first sep [] = []"
| "before_first sep (c # s) = (if starts_with sep (c # s) then [] else c # before_first sep s)"

definition insufficient_scope :: string where
  "insufficient_scope = ''insufficient_scope''"

definition scopes_in_message :: "string \<Rightarrow> string list option" where
  "scopes_in_message message =
     (case after_first insufficient_scope message of
        None \<Rightarrow> None
      | Some rest \<Rightarrow>
          Some (parse_scopes (Some (filter (\<lambda>c. code c \<noteq> 34 \<and> code c \<noteq> 39 \<and> c \<noteq> CHR ''.'')
            (dropWhile (\<lambda>c. is_space c \<or> c = CHR '':'' \<or> c = CHR '','') (before_first insufficient_scope rest))))))"

definition challenge_header_of :: "exn \<Rightarrow> string option" where
  "challenge_header_of e = (case e of Unauthorized_Exn m c \<Rightarrow> c | _ \<Rightarrow> None)"

definition insufficient_scope_from :: "exn \<Rightarrow> string list option" where
  "insufficient_scope_from e =
     (case Option.bind (challenge_header_of e) (\<lambda>h. select_bearer_challenge (parse_www_authenticate (Some h))) of
        Some c \<Rightarrow>
          if map_of (ch_params c) ''error'' = Some insufficient_scope
          then Some (parse_scopes (Some (or_empty (map_of (ch_params c) ''scope''))))
          else scopes_in_message (exn_message e)
      | None \<Rightarrow> scopes_in_message (exn_message e))"

end
