(* ===== verification/Upstream_Sessions.thy ===== *)
theory Upstream_Sessions
  imports Token_Manager Challenges
begin

text \<open>
  \<^verbatim>\<open>packages/federation/src/upstream-sessions.ts\<close>: the live client sessions towards upstream
  servers, one for each pair of a connection and a downstream session. The MCP client itself is the
  environment's: a message to an upstream is recorded in \<open>wd_calls\<close>, other work goes on while it is
  answered, and the answer is \<open>ev_upstream\<close>'s. While the process waits, its other requests may
  change what it holds of its sessions in any way (\<open>ev_meanwhile\<close>).
\<close>

section \<open>Waiting and calling\<close>

definition catalogue_session :: string where
  "catalogue_session = ''__catalogue__''"

definition upstream_wait :: "env \<Rightarrow> unit io" where
  "upstream_wait ev w = (Inr (), w\<lparr>wd_now := wd_now w + int (ev_elapsed ev (wd_waits w)),
     wd_db := ev_others ev (wd_waits w) (wd_db w), wd_live := ev_meanwhile ev (wd_waits w) (wd_live w),
     wd_waits := wd_waits w + 1\<rparr>)"

definition live_get :: "(live \<Rightarrow> 'a) \<Rightarrow> 'a io" where
  "live_get f = io_get (\<lambda>w. f (wd_live w))"

definition live_modify :: "(live \<Rightarrow> live) \<Rightarrow> unit io" where
  "live_modify f = io_modify (\<lambda>w. w\<lparr>wd_live := f (wd_live w)\<rparr>)"

definition upstream_request :: "env \<Rightarrow> upstream_call \<Rightarrow> json_object io" where
  "upstream_request ev q =
     (io_bind (io_get wd_waits) (\<lambda>k.
      io_seq (io_modify (\<lambda>w. w\<lparr>wd_calls := wd_calls w @ [q]\<rparr>)) (
      io_seq (upstream_wait ev) (
      (case ev_upstream ev k q of Inl e \<Rightarrow> io_throw e | Inr r \<Rightarrow> io_return r)))))"

definition upstream_call_of :: "string \<Rightarrow> string \<Rightarrow> string \<Rightarrow> json_object \<Rightarrow> upstream_call" where
  "upstream_call_of connectionId downstreamId m params = \<lparr>
     uq_connectionId = connectionId, uq_downstream = downstreamId, uq_method = m, uq_params = params\<rparr>"

text \<open>\<open>toJsonObject\<close>.\<close>

definition io_to_object :: "json \<Rightarrow> json_object io" where
  "io_to_object v = (case v of JObj es \<Rightarrow> io_return es | _ \<Rightarrow> io_throw (Other_Exn ''Expected a JSON object''))"

section \<open>Keys\<close>

definition session_separator :: string where
  "session_separator = ''::''"

definition session_key :: "string \<Rightarrow> string \<Rightarrow> string" where
  "session_key connectionId downstreamId = connectionId @ session_separator @ downstreamId"

text \<open>\<open>forDownstream\<close>: the keys of the clients a downstream session talks through.\<close>

definition for_downstream :: "string \<Rightarrow> live \<Rightarrow> string list" where
  "for_downstream downstreamId l =
     filter (ends_with (session_separator @ downstreamId)) (map fst (lv_clients l))"

section \<open>Opening\<close>

definition client_of_initialize :: "json_object \<Rightarrow> int \<Rightarrow> upstream_client" where
  "client_of_initialize r t = \<lparr>
     uk_capabilities = (case map_of r ''capabilities'' of Some (JObj es) \<Rightarrow> es | _ \<Rightarrow> []),
     uk_protocolVersion = (case map_of r ''protocolVersion'' of
        Some (JStr v) \<Rightarrow> negotiate_protocol_version v | _ \<Rightarrow> ''unknown''),
     uk_lastUsed = t, uk_logLevel = None\<rparr>"

definition upsert_upstream :: "upstream_session_record \<Rightarrow> unit io" where
  "upsert_upstream r = db_insert (\<lambda>d.
     map_option (\<lambda>(x, rows). d\<lparr>tb_upstream := rows\<rparr>) (upstream_sessions_upsert r (tb_upstream d)))"

definition persist_upstream :: "env \<Rightarrow> connection \<Rightarrow> string \<Rightarrow> upstream_client \<Rightarrow> unit io" where
  "persist_upstream ev c downstreamId u =
     (io_bind (new_id ev ''usess'') (\<lambda>i.
      io_bind now (\<lambda>t.
      upsert_upstream \<lparr>ur_id = i, ur_tenantId = uc_tenantId c, ur_connectionId = uc_id c,
          ur_downstreamSessionId = downstreamId, ur_protocolVersion = uk_protocolVersion u,
          ur_capabilitiesJson = uk_capabilities u, ur_status = ACTIVE, ur_createdAt = t, ur_lastSeenAt = t\<rparr>)))"

definition released_error :: gateway_error where
  "released_error = gerr_retry CONFLICT ''Upstream session was released while connecting''"

definition open_upstream :: "env \<Rightarrow> connection \<Rightarrow> string \<Rightarrow> string \<Rightarrow> nat \<Rightarrow> upstream_client io" where
  "open_upstream ev c downstreamId key token =
     (io_bind (db (\<lambda>t. servers_get (uc_tenantId c) (uc_mcpServerId c) (tb_servers t))) (\<lambda>server.
      (case server of
           None \<Rightarrow> io_fail (gerr NOT_FOUND ''MCP server record is missing'')
         | Some s \<Rightarrow>
             (io_bind (io_catch (upstream_request ev (upstream_call_of (uc_id c) downstreamId ''initialize'' []))
                  (\<lambda>e. (io_seq (upstream_wait ev) (
                    io_throw e)))) (\<lambda>r.
              io_bind (live_get (\<lambda>l. map_of (lv_openings l) key)) (\<lambda>held.
              (if held \<noteq> Some token then (io_seq (upstream_wait ev) (
                  io_fail released_error))
                 else
                   (io_bind now (\<lambda>t.
                    (let u = client_of_initialize r t in
                    io_seq (persist_upstream ev c downstreamId u) (
                    io_seq (live_modify (\<lambda>l. l\<lparr>lv_clients := map_set (lv_clients l) key u\<rparr>)) (
                    io_return u))))))))))))"

definition end_opening :: "string \<Rightarrow> nat \<Rightarrow> unit io" where
  "end_opening key token = live_modify (\<lambda>l.
     if map_of (lv_openings l) key = Some token then l\<lparr>lv_openings := map_delete (lv_openings l) key\<rparr> else l)"

text \<open>
  \<open>acquire\<close>. A caller that finds an attempt already running waits for it and shares its outcome: the
  entry that stands afterwards, or the failure of the attempt.
\<close>

definition acquire :: "env \<Rightarrow> connection \<Rightarrow> string \<Rightarrow> upstream_client io" where
  "acquire ev c downstreamId =
     ((let key = session_key (uc_id c) downstreamId in
      io_bind (live_get (\<lambda>l. map_of (lv_clients l) key)) (\<lambda>existing.
      (case existing of
           Some u \<Rightarrow>
             (io_bind now (\<lambda>t.
              io_seq (live_modify (\<lambda>l. l\<lparr>lv_clients := map_set (lv_clients l) key (u\<lparr>uk_lastUsed := t\<rparr>)\<rparr>)) (
              io_return (u\<lparr>uk_lastUsed := t\<rparr>))))
         | None \<Rightarrow>
             (io_bind (live_get (\<lambda>l. map_of (lv_openings l) key)) (\<lambda>running.
              (case running of
                   Some token \<Rightarrow>
                     (io_seq (upstream_wait ev) (
                      io_bind (live_get (\<lambda>l. map_of (lv_clients l) key)) (\<lambda>shared.
                      (case shared of Some u \<Rightarrow> io_return u | None \<Rightarrow> io_fail released_error))))
                 | None \<Rightarrow>
                     (io_bind (io_get wd_waits) (\<lambda>token.
                      io_seq (live_modify (\<lambda>l. l\<lparr>lv_openings := map_set (lv_openings l) key token\<rparr>)) (
                      io_finally (open_upstream ev c downstreamId key token) (end_opening key token)))))))))))"

section \<open>Releasing\<close>

definition cancel_openings :: "(string \<Rightarrow> bool) \<Rightarrow> live \<Rightarrow> live" where
  "cancel_openings P l = l\<lparr>lv_openings := filter (\<lambda>e. \<not> P (fst e)) (lv_openings l)\<rparr>"

definition drop_clients :: "(string \<Rightarrow> bool) \<Rightarrow> live \<Rightarrow> live" where
  "drop_clients P l = l\<lparr>lv_clients := filter (\<lambda>e. \<not> P (fst e)) (lv_clients l)\<rparr>"

text \<open>Each client that goes is closed, which takes its time and whose failure is ignored.\<close>

fun close_clients :: "env \<Rightarrow> string list \<Rightarrow> unit io" where
  "close_clients ev [] = io_return ()"
| "close_clients ev (key # keys) =
     (io_seq (live_modify (drop_clients (\<lambda>k. k = key))) (
      io_seq (upstream_wait ev) (
      close_clients ev keys)))"

definition release_matching :: "env \<Rightarrow> (string \<Rightarrow> bool) \<Rightarrow> unit io" where
  "release_matching ev P =
     (io_seq (live_modify (cancel_openings P)) (
      io_bind (live_get (\<lambda>l. filter P (map fst (lv_clients l)))) (\<lambda>keys.
      close_clients ev keys)))"

definition release :: "env \<Rightarrow> string \<Rightarrow> string \<Rightarrow> unit io" where
  "release ev connectionId downstreamId = release_matching ev (\<lambda>k. k = session_key connectionId downstreamId)"

definition release_downstream :: "env \<Rightarrow> string \<Rightarrow> unit io" where
  "release_downstream ev downstreamId =
     (io_seq (release_matching ev (ends_with (session_separator @ downstreamId))) (
      db_modify (\<lambda>d. d\<lparr>tb_upstream := upstream_sessions_close_by_downstream downstreamId (tb_upstream d)\<rparr>)))"

definition release_connection :: "env \<Rightarrow> string \<Rightarrow> unit io" where
  "release_connection ev connectionId =
     (io_seq (release_matching ev (starts_with (connectionId @ session_separator))) (
      db_modify (\<lambda>d. d\<lparr>tb_upstream := upstream_sessions_close_by_connection connectionId (tb_upstream d)\<rparr>)))"

definition close_all_upstreams :: "env \<Rightarrow> unit io" where
  "close_all_upstreams ev = release_matching ev (\<lambda>k. True)"

definition sweep_upstreams :: "env \<Rightarrow> int \<Rightarrow> nat io" where
  "sweep_upstreams ev idleMs =
     (io_bind now (\<lambda>t.
      io_bind (live_get (\<lambda>l. map fst (filter (\<lambda>e. t - uk_lastUsed (snd e) > idleMs) (lv_clients l)))) (\<lambda>keys.
      io_seq (close_clients ev keys) (
      io_return (length keys)))))"

end
