(* ===== verification/Naming.thy ===== *)
theory Naming
  imports Domain Url_Policy
begin

text \<open>
  \<^verbatim>\<open>packages/federation/src/naming.ts\<close>: the names under which the gateway publishes what its
  upstreams offer. An alias is a label that can stand before a separator; a tool is published as
  \<open>alias.name\<close>, a prompt as \<open>alias/name\<close>, a resource as \<open>alias+uri\<close>. The hash is the parameter \<open>h\<close>,
  the URL parser of the platform \<open>parse\<close>.
\<close>

section \<open>Aliases\<close>

definition max_tool_name :: nat where
  "max_tool_name = 128"

definition max_alias :: nat where
  "max_alias = 40"

definition is_alias_char :: "char \<Rightarrow> bool" where
  "is_alias_char c \<longleftrightarrow> is_lower_alnum c \<or> c = CHR ''_'' \<or> c = CHR ''-''"

definition or_server :: "string \<Rightarrow> string" where
  "or_server s = (if s \<noteq> [] then s else ''server'')"

definition sanitize_alias :: "string \<Rightarrow> string" where
  "sanitize_alias v =
     or_server (strip_trailing (\<lambda>c. \<not> is_lower_alnum c) (take max_alias
       (dropWhile (\<lambda>c. \<not> is_lower_alnum c) (replace_runs (\<lambda>c. \<not> is_alias_char c) ''-'' (to_lower v)))))"

text \<open>The two alternatives of \<open>ALIAS_PATTERN\<close>.\<close>

definition is_valid_alias :: "string \<Rightarrow> bool" where
  "is_valid_alias v \<longleftrightarrow>
     2 \<le> length v \<and> length v \<le> 40 \<and> is_lower_alnum (hd v) \<and> is_lower_alnum (last v) \<and>
       list_all is_alias_char (butlast (tl v)) \<or>
     length v = 1 \<and> is_lower_alnum (hd v)"

definition room_for :: "string \<Rightarrow> string \<Rightarrow> string" where
  "room_for base suffix =
     or_server (strip_trailing (\<lambda>c. \<not> is_lower_alnum c) (take (max_alias - length suffix) base))"

definition alias_candidate :: "string \<Rightarrow> string \<Rightarrow> string" where
  "alias_candidate base suffix = room_for base suffix @ suffix"

definition dedupe_alias :: "(string \<Rightarrow> string) \<Rightarrow> string \<Rightarrow> string list \<Rightarrow> string" where
  "dedupe_alias h base taken =
     (if base \<notin> set taken then base
      else case find (\<lambda>c. c \<notin> set taken) (map (\<lambda>n. alias_candidate base (''_'' @ show_nat n)) [2..<1000]) of
        Some c \<Rightarrow> c
      | None \<Rightarrow> alias_candidate base (''_'' @ take 6 (h base)))"

definition common_labels :: "string list" where
  "common_labels = [''www'', ''api'', ''mcp'', ''com'', ''net'', ''org'', ''io'', ''dev'', ''ai'']"

definition default_alias_for :: "(string \<Rightarrow> string) \<Rightarrow> url_parser \<Rightarrow> string \<Rightarrow> string list \<Rightarrow> string" where
  "default_alias_for h parse mcpUrl taken =
     dedupe_alias h
       (case parse mcpUrl of
          None \<Rightarrow> ''server''
        | Some u \<Rightarrow>
            let labels = filter (\<lambda>l. l \<noteq> []) (split_on (CHR ''.'') (to_lower (ul_hostname u)));
                meaningful = filter (\<lambda>l. l \<notin> set common_labels) labels
            in sanitize_alias (case meaningful of l # _ \<Rightarrow> l
                 | [] \<Rightarrow> (case labels of l # _ \<Rightarrow> l | [] \<Rightarrow> ''server'')))
       taken"

section \<open>Tools\<close>

definition is_tool_char :: "char \<Rightarrow> bool" where
  "is_tool_char c \<longleftrightarrow> is_alnum c \<or> c = CHR ''_'' \<or> c = CHR ''.'' \<or> c = CHR ''-''"

definition normalize_tool_segment :: "string \<Rightarrow> string" where
  "normalize_tool_segment name =
     (let cleaned = replace_runs (\<lambda>c. \<not> is_tool_char c) ''_'' name
      in if cleaned \<noteq> [] then cleaned else ''tool'')"

text \<open>\<open>slice(0, n)\<close>, which counts from the end when \<open>n\<close> is negative.\<close>

definition slice_to :: "int \<Rightarrow> string \<Rightarrow> string" where
  "slice_to n s = take (nat (if n < 0 then int (length s) + n else n)) s"

definition tool_suffix :: "string \<Rightarrow> nat \<Rightarrow> string" where
  "tool_suffix digest attempt =
     (if attempt = 0 then ''_'' @ digest else ''_'' @ digest @ ''_'' @ show_nat attempt)"

definition tool_candidate :: "string \<Rightarrow> string \<Rightarrow> nat \<Rightarrow> string" where
  "tool_candidate base digest attempt =
     (let suffix = tool_suffix digest attempt
      in slice_to (int max_tool_name - int (length suffix)) base @ suffix)"

text \<open>The loop without a bound; that it ends is a theorem.\<close>

partial_function (option) tool_name_loop :: "string \<Rightarrow> string \<Rightarrow> string list \<Rightarrow> nat \<Rightarrow> string option" where
  [code]: "tool_name_loop base digest taken attempt =
     (if tool_candidate base digest attempt \<notin> set taken then Some (tool_candidate base digest attempt)
      else tool_name_loop base digest taken (attempt + 1))"

definition gateway_tool_name ::
  "(string \<Rightarrow> string) \<Rightarrow> string \<Rightarrow> string \<Rightarrow> string list \<Rightarrow> string option" where
  "gateway_tool_name h alias upstreamName taken =
     (let base = take max_tool_name (alias @ ''.'' @ normalize_tool_segment upstreamName) in
      if base \<notin> set taken then Some base
      else tool_name_loop base (take 8 (h upstreamName)) taken 0)"

section \<open>Prompts and resources\<close>

definition gateway_prompt_name :: "string \<Rightarrow> string \<Rightarrow> string" where
  "gateway_prompt_name alias upstreamName = alias @ ''/'' @ upstreamName"

definition split_at_char :: "char \<Rightarrow> string \<Rightarrow> (string \<times> string) option" where
  "split_at_char c s =
     (case index_of c s of
        None \<Rightarrow> None
      | Some i \<Rightarrow> if i = 0 then None else Some (take i s, drop (Suc i) s))"

definition split_prompt_name :: "string \<Rightarrow> (string \<times> string) option" where
  "split_prompt_name gatewayName = split_at_char (CHR ''/'') gatewayName"

definition gateway_resource_uri :: "string \<Rightarrow> string \<Rightarrow> string" where
  "gateway_resource_uri alias upstreamUri =
     (case index_of (CHR '':'') upstreamUri of
        None \<Rightarrow> alias @ ''+opaque:'' @ upstreamUri
      | Some i \<Rightarrow> if i = 0 then alias @ ''+opaque:'' @ upstreamUri else alias @ ''+'' @ upstreamUri)"

definition split_resource_uri :: "string \<Rightarrow> (string \<times> string) option" where
  "split_resource_uri gatewayUri =
     (case split_at_char (CHR ''+'') gatewayUri of
        None \<Rightarrow> None
      | Some (alias, remainder) \<Rightarrow>
          if starts_with ''opaque:'' remainder then Some (alias, drop (length ''opaque:'') remainder)
          else Some (alias, remainder))"

text \<open>\<open>{ ...v, key: x }\<close>.\<close>

definition with_field :: "json \<Rightarrow> string \<Rightarrow> json \<Rightarrow> json" where
  "with_field v k x = (case v of JObj es \<Rightarrow> JObj (map_set es k x) | _ \<Rightarrow> v)"

definition or_null :: "json option \<Rightarrow> json" where
  "or_null v = (case v of None \<Rightarrow> JNull | Some x \<Rightarrow> x)"

definition namespace_contents :: "json option \<Rightarrow> string \<Rightarrow> json" where
  "namespace_contents entry alias =
     (case entry of
        Some (JObj es) \<Rightarrow>
          (case map_of es ''uri'' of
             Some (JStr u) \<Rightarrow> with_field (JObj es) ''uri'' (JStr (gateway_resource_uri alias u))
           | _ \<Rightarrow> JObj es)
      | _ \<Rightarrow> or_null entry)"

fun namespace_block :: "string \<Rightarrow> json \<Rightarrow> json" where
  "namespace_block alias (JArr xs) = JArr (map (namespace_block alias) xs)"
| "namespace_block alias (JObj es) =
     (case (map_of es ''type'', map_of es ''uri'') of
        (Some (JStr t), Some (JStr u)) \<Rightarrow>
          if t = ''resource_link'' then with_field (JObj es) ''uri'' (JStr (gateway_resource_uri alias u))
          else if t = ''resource'' then with_field (JObj es) ''resource'' (namespace_contents (map_of es ''resource'') alias)
          else JObj es
      | (Some (JStr t), _) \<Rightarrow>
          if t = ''resource'' then with_field (JObj es) ''resource'' (namespace_contents (map_of es ''resource'') alias)
          else JObj es
      | _ \<Rightarrow> JObj es)"
| "namespace_block alias v = v"

definition namespace_message :: "string \<Rightarrow> json \<Rightarrow> json" where
  "namespace_message alias message =
     (case jget message ''content'' of
        None \<Rightarrow> message
      | Some c \<Rightarrow> with_field message ''content'' (namespace_block alias c))"

text \<open>One of the members of a result that hold references, when it is an array.\<close>

definition namespace_member :: "string \<Rightarrow> (json \<Rightarrow> json) \<Rightarrow> (string \<times> json) list \<Rightarrow> (string \<times> json) list" where
  "namespace_member k f es = (case map_of es k of Some (JArr xs) \<Rightarrow> map_set es k (JArr (map f xs)) | _ \<Rightarrow> es)"

definition namespace_result_resources :: "json_object \<Rightarrow> string \<Rightarrow> json_object" where
  "namespace_result_resources result alias =
     namespace_member ''messages'' (namespace_message alias)
       (namespace_member ''contents'' (\<lambda>e. namespace_contents (Some e) alias)
         (namespace_member ''content'' (namespace_block alias) result))"

section \<open>Valid aliases\<close>

lemma valid_alias_chars:
  assumes "v \<noteq> []" and "length v \<le> 40" and "is_lower_alnum (hd v)" and "is_lower_alnum (last v)"
    and "list_all is_alias_char v"
  shows "is_valid_alias v"
  using assms by (cases v) (auto simp: is_valid_alias_def list_all_iff Suc_le_eq dest: in_set_butlastD)

lemma valid_aliasD:
  assumes "is_valid_alias v"
  shows "v \<noteq> []" "length v \<le> 40" "is_lower_alnum (hd v)" "is_lower_alnum (last v)" "list_all is_alias_char v"
proof -
  show "v \<noteq> []" "length v \<le> 40" and h: "is_lower_alnum (hd v)" and l: "is_lower_alnum (last v)"
    using assms by (auto simp: is_valid_alias_def length_Suc_conv)
  have *: "is_lower_alnum c \<Longrightarrow> is_alias_char c" for c by (simp add: is_alias_char_def)
  show "list_all is_alias_char v"
  proof (cases v)
    case (Cons c w)
    show ?thesis
    proof (cases w rule: rev_cases)
      case (snoc u d)
      then show ?thesis using assms Cons * h l by (auto simp: is_valid_alias_def)
    qed (use Cons h * in simp)
  qed simp
qed

lemma dropWhile_hd: "dropWhile P s \<noteq> [] \<Longrightarrow> \<not> P (hd (dropWhile P s))"
  by (rule hd_dropWhile)

lemma server_valid: "is_valid_alias ''server''"
  by code_simp

lemma sanitized_valid: "is_valid_alias (sanitize_alias v)"
proof -
  let ?u = "take max_alias (dropWhile (\<lambda>c. \<not> is_lower_alnum c) (replace_runs (\<lambda>c. \<not> is_alias_char c) ''-'' (to_lower v)))"
  let ?s = "strip_trailing (\<lambda>c. \<not> is_lower_alnum c) ?u"
  show ?thesis
  proof (cases "?s = []")
    case True
    then show ?thesis by (simp add: sanitize_alias_def or_server_def server_valid)
  next
    case False
    have chars: "set ?s \<subseteq> Collect is_alias_char"
      using set_strip_trailing [of "\<lambda>c. \<not> is_lower_alnum c" ?u]
        replace_runs_set [of _ "\<lambda>c. \<not> is_alias_char c" "''-''" "to_lower v"]
      by (fastforce simp: is_alias_char_def dest!: in_set_takeD set_dropWhileD)
    have "hd ?s = hd ?u" using False by (rule hd_strip_trailing)
    moreover have u: "?u \<noteq> []"
    proof
      assume "?u = []"
      then have "?s = []" by (simp only: strip_trailing_Nil)
      with False show False ..
    qed
    then have "hd ?u = hd (dropWhile (\<lambda>c. \<not> is_lower_alnum c) (replace_runs (\<lambda>c. \<not> is_alias_char c) ''-'' (to_lower v)))"
      by (intro hd_take) (simp add: max_alias_def)
    moreover have "dropWhile (\<lambda>c. \<not> is_lower_alnum c) (replace_runs (\<lambda>c. \<not> is_alias_char c) ''-'' (to_lower v)) \<noteq> []"
      using u by (metis take_Nil)
    ultimately have "is_lower_alnum (hd ?s)" using dropWhile_hd [of "\<lambda>c. \<not> is_lower_alnum c"] by fastforce
    moreover have "is_lower_alnum (last ?s)" using strip_trailing_last [OF False] by simp
    moreover have "length ?s \<le> 40"
      using length_strip_trailing [of "\<lambda>c. \<not> is_lower_alnum c" ?u] by (simp add: max_alias_def)
    ultimately have "is_valid_alias ?s"
      using False chars by (intro valid_alias_chars) (auto simp: list_all_iff)
    with False show ?thesis by (simp add: sanitize_alias_def or_server_def)
  qed
qed

lemma room_for_facts:
  assumes "is_valid_alias base" and "length suffix \<le> 34"
  shows "room_for base suffix \<noteq> []" "length (room_for base suffix) \<le> 40 - length suffix"
    "is_lower_alnum (hd (room_for base suffix))" "list_all is_alias_char (room_for base suffix)"
proof -
  let ?u = "take (max_alias - length suffix) base"
  let ?s = "strip_trailing (\<lambda>c. \<not> is_lower_alnum c) ?u"
  have "?s \<noteq> [] \<Longrightarrow> hd ?s = hd base"
    using hd_strip_trailing [of "\<lambda>c. \<not> is_lower_alnum c" ?u] assms(2) by (simp add: hd_take max_alias_def)
  moreover have "set ?s \<subseteq> set base"
    using set_strip_trailing [of "\<lambda>c. \<not> is_lower_alnum c" ?u] by (blast dest: in_set_takeD)
  moreover have "length ?s \<le> 40 - length suffix"
    using length_strip_trailing [of "\<lambda>c. \<not> is_lower_alnum c" ?u] by (simp add: max_alias_def)
  moreover note valid_aliasD [OF assms(1)] valid_aliasD [OF server_valid]
  ultimately show "room_for base suffix \<noteq> []" "length (room_for base suffix) \<le> 40 - length suffix"
    "is_lower_alnum (hd (room_for base suffix))" "list_all is_alias_char (room_for base suffix)"
    using assms(2) by (auto simp: room_for_def or_server_def list_all_iff)
qed

lemma candidate_valid:
  assumes "is_valid_alias base" and "suffix = CHR ''_'' # w" and "w \<noteq> []" and "length w \<le> 33"
    and "list_all is_lower_alnum w"
  shows "is_valid_alias (alias_candidate base suffix)"
proof -
  have "list_all is_alias_char suffix" "is_lower_alnum (last suffix)"
    using assms(2,3,5) by (auto simp: list_all_iff is_alias_char_def)
  then show ?thesis
    using room_for_facts [OF assms(1), of suffix] assms(2,3,4)
    by (intro valid_alias_chars) (auto simp: alias_candidate_def list_all_iff)
qed

lemma digits_lower_alnum: "list_all is_lower_alnum (show_nat n)"
  using show_nat_digits [of n] by (auto simp: list_all_iff is_lower_alnum_def)

lemma numbered_valid:
  "is_valid_alias base \<Longrightarrow> n < 1000 \<Longrightarrow> is_valid_alias (alias_candidate base (''_'' @ show_nat n))"
  using length_show_nat [of n 3]
  by (intro candidate_valid [of base _ "show_nat n"]) (auto simp: digits_lower_alnum)


lemma digest_valid:
  assumes "is_valid_alias base" and "list_all is_lower_alnum (h base)" and "6 \<le> length (h base)"
  shows "is_valid_alias (alias_candidate base (''_'' @ take 6 (h base)))"
proof -
  from assms(3) have "h base \<noteq> []" by auto
  with assms(1,2) show ?thesis
    by (intro candidate_valid [of base _ "take 6 (h base)"]) (auto simp: list_all_iff dest: in_set_takeD)
qed

section \<open>Numbered names are different\<close>

lemma numbered_inj:
  assumes "p @ ''_'' @ show_nat m = q @ ''_'' @ show_nat n"
  shows "m = n"
proof -
  have *: "takeWhile is_digit (rev (r @ ''_'' @ show_nat k)) = rev (show_nat k)" for r k
  proof -
    have "\<not> is_digit (CHR ''_'')" by (simp add: is_digit_def code_def)
    then show ?thesis
      using show_nat_digits [of k] takeWhile_append2 [of "rev (show_nat k)" is_digit "CHR ''_'' # rev r"] by simp
  qed
  from assms have "rev (show_nat m) = rev (show_nat n)" using * [of p m] * [of q n] by metis
  then show ?thesis by (simp add: show_nat_inj)
qed

lemma some_candidate_free:
  assumes "\<And>m n. m \<in> I \<Longrightarrow> n \<in> I \<Longrightarrow> f m = f n \<Longrightarrow> m = n" and "finite I" and "length taken < card I"
  shows "\<exists>n \<in> I. f n \<notin> set taken"
proof (rule ccontr)
  assume "\<not> ?thesis"
  then have "f ` I \<subseteq> set taken" by auto
  then have "card (f ` I) \<le> card (set taken)" by (simp add: card_mono)
  moreover have "card (f ` I) = card I" using assms(1) by (intro card_image) (simp add: inj_on_def)
  ultimately show False using assms(3) card_length [of taken] by simp
qed

declare upt_rec_numeral [simp del]

lemma dedupe_free:
  assumes "length taken < 998"
  shows "dedupe_alias h base taken \<notin> set taken"
proof (cases "base \<in> set taken")
  case True
  let ?f = "\<lambda>n. alias_candidate base (''_'' @ show_nat n)"
  have "m = n" if "?f m = ?f n" for m n
    using that unfolding alias_candidate_def by (rule numbered_inj)
  then have "\<exists>n \<in> {2..<1000}. ?f n \<notin> set taken"
    using assms by (intro some_candidate_free) auto
  then obtain c where "find (\<lambda>c. c \<notin> set taken) (map ?f [2..<1000]) = Some c"
    by (cases "find (\<lambda>c. c \<notin> set taken) (map ?f [2..<1000])") (auto simp: find_None_iff)
  with True show ?thesis by (simp add: dedupe_alias_def) (auto simp: find_Some_iff)
qed (simp add: dedupe_alias_def)

lemma dedupe_valid:
  assumes "is_valid_alias base" and "list_all is_lower_alnum (h base)" and "6 \<le> length (h base)"
  shows "is_valid_alias (dedupe_alias h base taken)"
proof -
  have "is_valid_alias c" if "find P (map (\<lambda>n. alias_candidate base (''_'' @ show_nat n)) [2..<1000]) = Some c" for P c
    using that numbered_valid [OF assms(1)] by (auto simp: find_Some_iff nth_append)
  then show ?thesis using assms digest_valid by (auto simp: dedupe_alias_def split: option.splits)
qed

text \<open>
  C39: Given that the hash yields lower case letters and digits, six at least, the alias the gateway
  derives for a server satisfies the grammar of aliases, whatever the URL and whatever names are
  taken, also when all numbered forms are and the digest is appended; so it holds none of the separators
  of published names. It is a new one while fewer than 998 aliases are taken.
\<close>

theorem default_alias_ok:
  assumes "\<And>s. list_all is_lower_alnum (h s)" and "\<And>s. 6 \<le> length (h s)"
  shows "is_valid_alias (default_alias_for h parse mcpUrl taken) \<and>
    set (default_alias_for h parse mcpUrl taken) \<inter> {CHR ''.'', CHR ''/'', CHR ''+''} = {} \<and>
    (length taken < 998 \<longrightarrow> default_alias_for h parse mcpUrl taken \<notin> set taken)"
proof -
  have valid: "is_valid_alias (default_alias_for h parse mcpUrl taken)"
    unfolding default_alias_for_def
    by (rule dedupe_valid) (auto simp: assms(1,2) server_valid sanitized_valid Let_def split: option.splits)
  then have "list_all is_alias_char (default_alias_for h parse mcpUrl taken)" by (rule valid_aliasD)
  then show ?thesis
    using valid dedupe_free
    by (auto simp: default_alias_for_def list_all_iff is_alias_char_def char_class_defs)
qed

text \<open>One name is taken; and all numbered ones are, so that the digest is appended.\<close>

lemma default_alias_ok_witness:
  "default_alias_for (\<lambda>s. replicate 6 (CHR ''a'')) (\<lambda>s. None) ''x'' [''server''] \<notin> {''server''} \<and>
   is_valid_alias (default_alias_for (\<lambda>s. replicate 6 (CHR ''a'')) (\<lambda>s. None) ''x''
     (''server'' # map (\<lambda>n. alias_candidate ''server'' (''_'' @ show_nat n)) [2..<1000]))"
proof -
  have "list_all is_lower_alnum (replicate 6 (CHR ''a''))" by code_simp
  then show ?thesis
    using default_alias_ok [of "\<lambda>s. replicate 6 (CHR ''a'')" "\<lambda>s. None" "''x''" "[''server'']"]
      default_alias_ok [of "\<lambda>s. replicate 6 (CHR ''a'')" "\<lambda>s. None" "''x''"
        "''server'' # map (\<lambda>n. alias_candidate ''server'' (''_'' @ show_nat n)) [2..<1000]"]
    by simp
qed

section \<open>Tool names\<close>

lemma tool_loop_ends:
  "tool_candidate base digest (a + k) \<notin> set taken \<Longrightarrow>
     \<exists>j \<le> k. tool_name_loop base digest taken a = Some (tool_candidate base digest (a + j)) \<and>
       tool_candidate base digest (a + j) \<notin> set taken"
proof (induction k arbitrary: a)
  case 0
  then show ?case by (subst tool_name_loop.simps) simp
next
  case (Suc k)
  show ?case
  proof (cases "tool_candidate base digest a \<in> set taken")
    case True
    from Suc.prems have "tool_candidate base digest (Suc a + k) \<notin> set taken" by simp
    from Suc.IH [OF this] obtain j where "j \<le> k"
      "tool_name_loop base digest taken (Suc a) = Some (tool_candidate base digest (Suc a + j))"
      "tool_candidate base digest (Suc a + j) \<notin> set taken" by blast
    with True show ?thesis by (intro exI [of _ "Suc j"]) (simp add: tool_name_loop.simps [of _ _ _ a])
  next
    case False
    then show ?thesis by (intro exI [of _ 0]) (simp add: tool_name_loop.simps [of _ _ _ a])
  qed
qed

lemma tool_candidate_free:
  assumes "length taken < 10 ^ 9"
  shows "\<exists>k \<le> 10 ^ 9. tool_candidate base digest k \<notin> set taken"
proof -
  have "m = n" if "m \<in> {1..10 ^ 9 :: nat}" "n \<in> {1..10 ^ 9}" "tool_candidate base digest m = tool_candidate base digest n" for m n
    using that numbered_inj [of "slice_to (int max_tool_name - int (length (tool_suffix digest m))) base @ ''_'' @ digest" m
        "slice_to (int max_tool_name - int (length (tool_suffix digest n))) base @ ''_'' @ digest" n]
    by (simp add: tool_candidate_def tool_suffix_def Let_def)
  then have "\<exists>n \<in> {1..10 ^ 9}. tool_candidate base digest n \<notin> set taken"
    using assms by (intro some_candidate_free) auto
  then show ?thesis by auto
qed

lemma tool_suffix_length:
  assumes "length digest \<le> 8" and "k \<le> 10 ^ 9"
  shows "length (tool_suffix digest k) \<le> 20"
  using assms length_show_nat [of k 10] by (simp add: tool_suffix_def)

lemma normalized_chars: "list_all is_tool_char (normalize_tool_segment s)"
  using replace_runs_set [of _ "\<lambda>c. \<not> is_tool_char c" "''_''" s]
  by (auto simp: normalize_tool_segment_def list_all_iff is_tool_char_def is_alnum_def char_class_defs Let_def)

lemma lower_alnum_tool: "is_lower_alnum c \<Longrightarrow> is_tool_char c"
  by (auto simp: is_lower_alnum_def is_tool_char_def is_alnum_def)

lemma starts_with_take: "starts_with p s \<Longrightarrow> length p \<le> n \<Longrightarrow> starts_with p (take n s)"
  by (auto simp: starts_with_iff)

text \<open>
  Choosing the name of a tool ends, however many names are taken and whatever the upstream calls
  its tools: the loop finds a name that is not taken, of at most 128 characters that MCP allows, and
  under the alias of its connection. The hash yields letters and digits; fewer than \<open>10 ^ 9\<close> names
  are taken.
\<close>

theorem tool_name_found:
  assumes "is_valid_alias alias" and "\<And>s. list_all is_lower_alnum (h s)" and "length taken < 10 ^ 9"
  shows "\<exists>name. gateway_tool_name h alias upstreamName taken = Some name \<and> name \<notin> set taken \<and>
    length name \<le> max_tool_name \<and> list_all is_tool_char name \<and> starts_with (alias @ ''.'') name"
proof -
  define full where "full = alias @ ''.'' @ normalize_tool_segment upstreamName"
  define base where "base = take max_tool_name full"
  have run: "gateway_tool_name h alias upstreamName taken =
      (if base \<notin> set taken then Some base else tool_name_loop base (take 8 (h upstreamName)) taken 0)"
    by (simp only: gateway_tool_name_def Let_def base_def full_def)
  let ?d = "take 8 (h upstreamName)"
  have al: "length alias \<le> 40" "list_all is_tool_char alias"
    using valid_aliasD [OF assms(1)]
    by (auto simp: list_all_iff is_alias_char_def is_tool_char_def is_alnum_def is_lower_alnum_def)
  have prefix: "starts_with (alias @ ''.'') (take n full)" if "41 \<le> n" for n
    using that al(1) unfolding full_def by (intro starts_with_take) (auto simp: starts_with_iff)
  have "list_all is_tool_char full"
    using al(2) normalized_chars [of upstreamName] by (simp add: is_tool_char_def full_def)
  then have chars: "list_all is_tool_char base"
    unfolding list_all_iff base_def by (blast dest: in_set_takeD)
  show ?thesis
  proof (cases "base \<in> set taken")
    case False
    then show ?thesis using chars prefix [of max_tool_name]
      by (simp add: run) (simp add: base_def max_tool_name_def)
  next
    case True
    obtain k where k: "k \<le> 10 ^ 9" "tool_candidate base ?d (0 + k) \<notin> set taken"
      using tool_candidate_free [OF assms(3), of base ?d] by auto
    from tool_loop_ends [OF k(2)] obtain j where j: "j \<le> k" "tool_name_loop base ?d taken 0 = Some (tool_candidate base ?d j)"
      "tool_candidate base ?d j \<notin> set taken"
      by auto
    define n where "n = max_tool_name - length (tool_suffix ?d j)"
    have short: "length (tool_suffix ?d j) \<le> 20" using tool_suffix_length [of ?d j] j(1) k(1) by simp
    then have c: "tool_candidate base ?d j = take n full @ tool_suffix ?d j" "41 \<le> n" "n \<le> max_tool_name"
      "n + length (tool_suffix ?d j) = max_tool_name"
      by (simp_all add: tool_candidate_def slice_to_def n_def max_tool_name_def Let_def nat_diff_distrib base_def min_def)
    have "list_all is_tool_char (tool_suffix ?d j)"
      using assms(2) [of upstreamName] digits_lower_alnum [of j] lower_alnum_tool
      by (auto simp: tool_suffix_def list_all_iff is_tool_char_def dest: in_set_takeD)
    moreover have "set (take n full) \<subseteq> set base" using c(3) unfolding base_def by (rule set_take_subset_set_take)
    ultimately have "list_all is_tool_char (tool_candidate base ?d j)"
      using chars unfolding c(1) by (auto simp: list_all_iff)
    moreover have "starts_with (alias @ ''.'') (tool_candidate base ?d j)"
      using prefix [OF c(2)] unfolding c(1) starts_with_iff by auto
    moreover have "length (tool_candidate base ?d j) \<le> max_tool_name"
      using c(4) unfolding c(1) by simp
    ultimately show ?thesis using True j by (simp add: run)
  qed
qed

lemma tool_name_found_witness:
  "\<exists>name. gateway_tool_name (\<lambda>s. ''ab'') ''docs'' ''read it'' [''docs.read_it'', ''docs.read_it_ab''] = Some name \<and>
    name \<notin> {''docs.read_it'', ''docs.read_it_ab''}"
proof -
  have "is_valid_alias ''docs''" by code_simp
  then show ?thesis
    using tool_name_found [of "''docs''" "\<lambda>s. ''ab''" "[''docs.read_it'', ''docs.read_it_ab'']" "''read it''"]
    by (auto simp: is_lower_alnum_def is_lower_def code_def)
qed

section \<open>Names read back\<close>

lemma split_at_first:
  "c \<notin> set alias \<Longrightarrow> alias \<noteq> [] \<Longrightarrow> split_at_char c (alias @ c # s) = Some (alias, s)"
  by (simp add: split_at_char_def index_of_append)

text \<open>
  C38: What the gateway publishes under a valid alias leads back to its upstream: a prompt name is split
  into that alias and the upstream's own name, for every name there is; a resource URI is split into
  that alias and the upstream's own URI exactly when that does not start with \<open>opaque:\<close>, which is lost.
\<close>

theorem published_names_read_back:
  assumes "is_valid_alias alias"
  shows "split_prompt_name (gateway_prompt_name alias name) = Some (alias, name) \<and>
    (split_resource_uri (gateway_resource_uri alias uri) = Some (alias, uri) \<longleftrightarrow> \<not> starts_with ''opaque:'' uri)"
proof -
  have a: "alias \<noteq> []" "CHR ''/'' \<notin> set alias" "CHR ''+'' \<notin> set alias"
    using valid_aliasD [OF assms] by (auto simp: list_all_iff is_alias_char_def char_class_defs)
  have "split_at_char (CHR ''+'') (alias @ CHR ''+'' # s) = Some (alias, s)" for s
    using a by (intro split_at_first)
  then have res: "split_resource_uri (alias @ CHR ''+'' # s) =
      Some (alias, if starts_with ''opaque:'' s then drop 7 s else s)" for s
    by (simp add: split_resource_uri_def numeral_eq_Suc)
  have opaque: "split_resource_uri (alias @ ''+opaque:'' @ s) = Some (alias, s)" for s
    using res [of "''opaque:'' @ s"] by (simp add: starts_with_def)
  show ?thesis
  proof (cases "starts_with ''opaque:'' uri")
    case True
    then obtain t where t: "uri = ''opaque:'' @ t" by (auto simp: starts_with_iff)
    then have "split_resource_uri (gateway_resource_uri alias uri) = Some (alias, t)"
      using opaque [of t] by (simp add: gateway_resource_uri_def)
    with True t a show ?thesis by (simp add: split_prompt_name_def gateway_prompt_name_def split_at_first)
  next
    case False
    then show ?thesis
      using a opaque [of uri] res [of uri]
      by (auto simp: split_prompt_name_def gateway_prompt_name_def split_at_first gateway_resource_uri_def
          split: option.splits)
  qed
qed

lemma published_names_read_back_witness:
  "split_resource_uri (gateway_resource_uri ''docs'' ''file:///a+b'') = Some (''docs'', ''file:///a+b'') \<and>
   split_resource_uri (gateway_resource_uri ''docs'' ''opaque:x'') \<noteq> Some (''docs'', ''opaque:x'')"
proof -
  have v: "is_valid_alias ''docs''" by code_simp
  show ?thesis
    using published_names_read_back [OF v, of _ "''file:///a+b''"] published_names_read_back [OF v, of _ "''opaque:x''"]
    by (simp add: starts_with_def)
qed

end
