(* ===== verification/Pagination.thy ===== *)
theory Pagination
  imports Core Codec "HOL-Library.Multiset"
begin

text \<open>
  \<^verbatim>\<open>packages/federation/src/pagination.ts\<close>: lists cut into pages, with a cursor that is the
  encoded key of the last item delivered. What the resumption needs of the encoding is the locale
  \<open>cursor_codec\<close>; base 64 of UTF-8 provides it.
\<close>

section \<open>Cursors and pages\<close>

definition encode_cursor :: "string \<Rightarrow> string" where
  "encode_cursor key = b64url (utf8 key)"

text \<open>Bytes that are no UTF-8 decode to replacement characters, which do not encode to them again.\<close>

definition read_cursor :: "string \<Rightarrow> string option" where
  "read_cursor c =
     (case utf8_decode (b64_decode c) of
        None \<Rightarrow> None
      | Some decoded \<Rightarrow> if encode_cursor decoded \<noteq> c then None else Some decoded)"

definition decode_cursor :: "json option \<Rightarrow> string option result" where
  "decode_cursor cursor =
     (case cursor of
        None \<Rightarrow> Inr None
      | Some JNull \<Rightarrow> Inr None
      | Some (JStr c) \<Rightarrow>
          if c = [] then Inl (gerr INVALID_REQUEST ''cursor must be a non-empty string'')
          else (case read_cursor c of
                  None \<Rightarrow> Inl (gerr INVALID_REQUEST ''cursor is not a cursor this gateway issued'')
                | Some k \<Rightarrow> Inr (Some k))
      | Some _ \<Rightarrow> Inl (gerr INVALID_REQUEST ''cursor must be a non-empty string''))"

record 'a page =
  pg_items :: "'a list"
  pg_nextCursor :: "string option"

text \<open>\<open>findIndex\<close>.\<close>

fun find_index :: "('a \<Rightarrow> bool) \<Rightarrow> 'a list \<Rightarrow> nat option" where
  "find_index P [] = None"
| "find_index P (x # xs) = (if P x then Some 0 else map_option Suc (find_index P xs))"

definition page_from :: "('a \<Rightarrow> string) \<Rightarrow> 'a list \<Rightarrow> nat \<Rightarrow> nat \<Rightarrow> 'a page" where
  "page_from key sorted_items start pageSize =
     (let items = take pageSize (drop start sorted_items) in
      if items = [] \<or> start + length items \<ge> length sorted_items then \<lparr>pg_items = items, pg_nextCursor = None\<rparr>
      else \<lparr>pg_items = items, pg_nextCursor = Some (encode_cursor (key (last items)))\<rparr>)"

definition paginate :: "'a list \<Rightarrow> ('a \<Rightarrow> string) \<Rightarrow> json option \<Rightarrow> nat \<Rightarrow> 'a page result" where
  "paginate items key cursor pageSize =
     bind_result (decode_cursor cursor) (\<lambda>after.
       let sorted_items = sort_key key items in
       (case after of
          None \<Rightarrow> Inr (page_from key sorted_items 0 pageSize)
        | Some a \<Rightarrow>
            (case find_index (\<lambda>x. key x > a) sorted_items of
               None \<Rightarrow> Inr \<lparr>pg_items = [], pg_nextCursor = None\<rparr>
             | Some start \<Rightarrow> Inr (page_from key sorted_items start pageSize))))"

text \<open>A client that asks for the next page while there is one, at most \<open>n\<close> times.\<close>

fun walk_pages :: "nat \<Rightarrow> 'a list \<Rightarrow> ('a \<Rightarrow> string) \<Rightarrow> json option \<Rightarrow> nat \<Rightarrow> 'a list list result option" where
  "walk_pages 0 items key cursor pageSize = None"
| "walk_pages (Suc n) items key cursor pageSize =
     (case paginate items key cursor pageSize of
        Inl e \<Rightarrow> Some (Inl e)
      | Inr p \<Rightarrow>
          (case pg_nextCursor p of
             None \<Rightarrow> Some (Inr [pg_items p])
           | Some c \<Rightarrow> map_option (map_sum id (Cons (pg_items p))) (walk_pages n items key (Some (JStr c)) pageSize)))"

section \<open>What resuming needs of the encoding\<close>

locale cursor_codec =
  fixes enc :: "string \<Rightarrow> string" and dec :: "string \<Rightarrow> string option"
  assumes dec_enc: "dec (enc k) = Some k"
    and enc_Nil: "enc k = [] \<longleftrightarrow> k = []"
    and dec_only: "dec c = Some k \<Longrightarrow> c = enc k"
begin

lemma enc_inj: "enc a = enc b \<Longrightarrow> a = b"
  by (metis dec_enc option.inject)

lemma refuses: "c \<notin> range enc \<Longrightarrow> dec c = None"
  using dec_only by (cases "dec c") auto

text \<open>Decoding with the guard of an empty cursor reads back every cursor of a key.\<close>

lemma reads_back: "k \<noteq> [] \<Longrightarrow> enc k \<noteq> [] \<and> dec (enc k) = Some k"
  by (simp add: dec_enc enc_Nil)

end

lemma utf8_Nil: "utf8 k = [] \<longleftrightarrow> k = []"
proof -
  have "utf8 [] = []" by (simp add: utf8_def)
  then show ?thesis by (metis utf8_inj)
qed

interpretation pages: cursor_codec encode_cursor read_cursor
proof unfold_locales
  show "read_cursor (encode_cursor k) = Some k" for k
    by (simp add: read_cursor_def encode_cursor_def)
  show "encode_cursor k = [] \<longleftrightarrow> k = []" for k
    unfolding encode_cursor_def b64url_Nil utf8_Nil ..
  show "read_cursor c = Some k \<Longrightarrow> c = encode_cursor k" for c k
    by (auto simp: read_cursor_def split: option.splits if_splits)
qed

lemma decode_issued: "k \<noteq> [] \<Longrightarrow> decode_cursor (Some (JStr (encode_cursor k))) = Inr (Some k)"
  using pages.reads_back [of k] by (simp add: decode_cursor_def)

section \<open>Resuming\<close>

lemma find_index_after:
  assumes "sorted_wrt (<) (map key xs)" and "n < length xs"
  shows "find_index (\<lambda>x. key x > (key (xs ! n) :: string)) xs = (if Suc n < length xs then Some (Suc n) else None)"
  using assms
proof (induction xs arbitrary: n)
  case (Cons x xs)
  show ?case
  proof (cases n)
    case 0
    show ?thesis
    proof (cases xs)
      case (Cons y ys)
      with Cons.prems(1) have "key x < key y" by simp
      with 0 Cons show ?thesis by simp
    qed (use 0 in simp)
  next
    case (Suc m)
    then have m: "m < length xs" using Cons.prems(2) by simp
    then have "key x < key (xs ! m)" using Cons.prems(1) by simp
    then have "\<not> key (xs ! m) < key x" by simp
    with Cons.IH [OF _ m] Cons.prems(1) Suc show ?thesis by simp
  qed
qed simp

lemma sorted_distinct_keys: "distinct (map key xs) \<Longrightarrow> sorted_wrt (<) (map key (sort_key key xs))"
  for key :: "'a \<Rightarrow> string"
  by (simp add: strict_sorted_iff) (metis distinct_map distinct_sort inj_on_subset set_sort)

lemma paginate_from:
  assumes "distinct (map key items)" and "start < length items"
    and "0 < start \<longrightarrow> key (sort_key key items ! (start - 1)) \<noteq> []"
    and "cursor = (if start = 0 then None else Some (JStr (encode_cursor (key (sort_key key items ! (start - 1))))))"
  shows "paginate items key cursor pageSize = Inr (page_from key (sort_key key items) start pageSize)"
proof (cases "start = 0")
  case False
  define s where "s = sort_key key items"
  have "find_index (\<lambda>x. key x > key (s ! (start - 1))) s = Some start"
    using find_index_after [OF sorted_distinct_keys [OF assms(1)], of "start - 1"] assms(2) False
    by (simp add: s_def)
  with False assms(3,4) show ?thesis
    by (simp add: paginate_def decode_issued Let_def flip: s_def)
qed (use assms in \<open>simp add: paginate_def decode_cursor_def\<close>)

lemma walk_from:
  assumes "distinct (map key items)" and "\<And>x. x \<in> set items \<Longrightarrow> key x \<noteq> []" and "0 < pageSize"
    and "start < length items" and "length items - start \<le> n"
    and "cursor = (if start = 0 then None else Some (JStr (encode_cursor (key (sort_key key items ! (start - 1))))))"
  shows "\<exists>ps. walk_pages n items key cursor pageSize = Some (Inr ps) \<and>
    concat ps = drop start (sort_key key items) \<and> (\<forall>p \<in> set ps. length p \<le> pageSize)"
  using assms(4,5,6)
proof (induction n arbitrary: start cursor)
  case (Suc n start cursor)
  define s where "s = sort_key key items"
  have len: "length s = length items" by (simp add: s_def)
  have named: "i < length items \<Longrightarrow> key (s ! i) \<noteq> []" for i
    using assms(2) [of "s ! i"] nth_mem [of i s] by (simp add: s_def)
  have pg: "paginate items key cursor pageSize = Inr (page_from key s start pageSize)"
    unfolding s_def using assms(1) Suc.prems named [of "start - 1"]
    by (intro paginate_from) (auto simp: s_def)
  show ?case
  proof (cases "start + pageSize < length s")
    case True
    let ?items = "take pageSize (drop start s)"
    have items: "?items \<noteq> []" "length ?items = pageSize" "last ?items = s ! (start + pageSize - 1)"
      using True assms(3) by (auto simp: last_conv_nth)
    have page: "page_from key s start pageSize =
        \<lparr>pg_items = ?items, pg_nextCursor = Some (encode_cursor (key (s ! (start + pageSize - 1))))\<rparr>"
      using True items by (simp add: page_from_def Let_def)
    define c where "c = Some (JStr (encode_cursor (key (s ! (start + pageSize - 1)))))"
    have "length items - (start + pageSize) \<le> n" using Suc.prems assms(3) by linarith
    moreover have "start + pageSize < length items" using True len by simp
    moreover have "c = (if start + pageSize = 0 then None
        else Some (JStr (encode_cursor (key (sort_key key items ! (start + pageSize - 1))))))"
      using assms(3) by (simp add: c_def s_def)
    ultimately obtain ps where ps: "walk_pages n items key c pageSize = Some (Inr ps)"
      "concat ps = drop (start + pageSize) s" "\<forall>p \<in> set ps. length p \<le> pageSize"
      using Suc.IH [of "start + pageSize" c] by (auto simp: s_def)
    have "?items @ drop (start + pageSize) s = drop start s"
      by (metis append_take_drop_id drop_drop add.commute)
    with ps items show ?thesis
      by (intro exI [of _ "?items # ps"]) (simp add: pg page c_def s_def [symmetric])
  next
    case False
    then have "take pageSize (drop start s) = drop start s" by simp
    with False show ?thesis
      by (intro exI [of _ "[drop start s]"]) (auto simp: pg page_from_def Let_def s_def [symmetric])
  qed
qed simp

text \<open>
  A client that follows the cursors to the end reads every item exactly once, in the order of the
  keys, in pages of at most the page size, and gets there in no more requests than there are items,
  as long as the keys are different and none is empty.
\<close>

theorem pages_deliver_all:
  assumes "distinct (map key items)" and "list_all (\<lambda>x. key x \<noteq> []) items" and "0 < pageSize"
  shows "\<exists>ps. walk_pages (length items + 1) items key None pageSize = Some (Inr ps) \<and>
    concat ps = sort_key key items \<and> mset (concat ps) = mset items \<and> list_all (\<lambda>p. length p \<le> pageSize) ps"
proof (cases "items = []")
  case True
  then show ?thesis
    by (intro exI [of _ "[[]]"]) (simp add: paginate_def decode_cursor_def page_from_def)
next
  case False
  then show ?thesis
    using walk_from [OF assms(1) _ assms(3), of 0 "length items + 1" None] assms(2)
    by (fastforce simp: list_all_iff)
qed

lemma pages_deliver_all_witness:
  "\<exists>ps. walk_pages 4 [''b'', ''c'', ''a''] id None 2 = Some (Inr ps) \<and> concat ps = [''a'', ''b'', ''c'']"
proof -
  have "sort_key id [''b'', ''c'', ''a''] = [''a'', ''b'', ''c'']" by code_simp
  then show ?thesis
    using pages_deliver_all [of id "[''b'', ''c'', ''a'']" 2] by (auto simp: numeral_eq_Suc)
qed

end
