(* ===== verification/Tool_Policy.thy ===== *)
theory Tool_Policy
  imports Canonical_Json Codec Domain
begin

text \<open>
  The gate in front of the tools: \<^verbatim>\<open>packages/federation/src/json-schema.ts\<close> validates
  arguments against the schema an upstream published, \<^verbatim>\<open>tool-classifier.ts\<close> guesses the
  risk of a tool from its name, \<^verbatim>\<open>policy-engine.ts\<close> decides. How numbers print and regular
  expressions match is the engine's: the parameters \<open>num\<close> and \<open>rx\<close>.
\<close>

section \<open>Schemas\<close>

text \<open>\<open>String(v)\<close>, and the elements of a \<open>join\<close>, where \<open>null\<close> is empty.\<close>

fun js_string :: "(rat \<Rightarrow> string) \<Rightarrow> json \<Rightarrow> string" where
  "js_string num (JStr s) = s"
| "js_string num (JNum n) = num n"
| "js_string num (JBool b) = (if b then ''true'' else ''false'')"
| "js_string num JNull = ''null''"
| "js_string num (JArr xs) = join '','' (map (\<lambda>x. if x = JNull then [] else js_string num x) xs)"
| "js_string num (JObj es) = ''[object Object]''"

definition js_join :: "(rat \<Rightarrow> string) \<Rightarrow> string \<Rightarrow> json list \<Rightarrow> string" where
  "js_join num sep xs = join sep (map (\<lambda>x. if x = JNull then [] else js_string num x) xs)"

definition matches_type :: "string \<Rightarrow> json \<Rightarrow> bool" where
  "matches_type t v =
     (if t = ''string'' then (case v of JStr s \<Rightarrow> True | _ \<Rightarrow> False)
      else if t = ''number'' then (case v of JNum n \<Rightarrow> True | _ \<Rightarrow> False)
      else if t = ''integer'' then (case v of JNum n \<Rightarrow> n = of_int \<lfloor>n\<rfloor> | _ \<Rightarrow> False)
      else if t = ''boolean'' then (case v of JBool b \<Rightarrow> True | _ \<Rightarrow> False)
      else if t = ''object'' then is_record v
      else if t = ''array'' then is_array v
      else if t = ''null'' then v = JNull
      else True)"

text \<open>\<open>===\<close>: two parsed objects or arrays are never the same.\<close>

definition strictly_equal :: "json \<Rightarrow> json \<Rightarrow> bool" where
  "strictly_equal a b \<longleftrightarrow> a = b \<and> \<not> is_record a \<and> \<not> is_array a"

text \<open>\<open>new RegExp(pattern, "u").test\<close>, and the same without the flag; \<open>None\<close> when it does not compile.\<close>

record regexps =
  rx_unicode :: "string \<Rightarrow> (string \<Rightarrow> bool) option"
  rx_plain :: "string \<Rightarrow> (string \<Rightarrow> bool) option"

definition safe_reg_exp :: "regexps \<Rightarrow> string \<Rightarrow> (string \<Rightarrow> bool) option" where
  "safe_reg_exp rx pattern =
     (if length pattern > 200 then None
      else case rx_unicode rx pattern of Some f \<Rightarrow> Some f | None \<Rightarrow> rx_plain rx pattern)"

type_synonym issue = "string \<times> string"

definition type_issue :: "(rat \<Rightarrow> string) \<Rightarrow> json_object \<Rightarrow> json \<Rightarrow> string option" where
  "type_issue num schema v =
     (case map_of schema ''type'' of
        Some (JStr t) \<Rightarrow> if matches_type t v then None else Some (''expected '' @ t)
      | Some (JArr ts) \<Rightarrow>
          if list_ex (\<lambda>t. matches_type (js_string num t) v) ts then None
          else Some (''expected one of '' @ js_join num '', '' ts)
      | _ \<Rightarrow> None)"

definition enum_issues :: "json_object \<Rightarrow> json \<Rightarrow> string \<Rightarrow> issue list" where
  "enum_issues schema v path =
     (case map_of schema ''enum'' of
        Some (JArr cs) \<Rightarrow>
          if list_ex (\<lambda>c. strictly_equal c v) cs then []
          else [(path, ''value is not one of the allowed options'')]
      | _ \<Rightarrow> [])"

definition bound_issues ::
  "(rat \<Rightarrow> string) \<Rightarrow> json_object \<Rightarrow> string \<Rightarrow> (rat \<Rightarrow> bool) \<Rightarrow> string \<Rightarrow> string \<Rightarrow> string \<Rightarrow> issue list" where
  "bound_issues num schema key broken before after path =
     (case map_of schema key of
        Some (JNum n) \<Rightarrow> if broken n then [(path, before @ num n @ after)] else []
      | _ \<Rightarrow> [])"

definition string_issues :: "regexps \<Rightarrow> (rat \<Rightarrow> string) \<Rightarrow> json_object \<Rightarrow> string \<Rightarrow> string \<Rightarrow> issue list" where
  "string_issues rx num schema s path =
     bound_issues num schema ''maxLength'' (\<lambda>n. of_nat (length s) > n) ''longer than '' '' characters'' path @
     bound_issues num schema ''minLength'' (\<lambda>n. of_nat (length s) < n) ''shorter than '' '' characters'' path @
     (case map_of schema ''pattern'' of
        Some (JStr p) \<Rightarrow>
          (case safe_reg_exp rx p of
             Some f \<Rightarrow> if f s then [] else [(path, ''does not match the required pattern'')]
           | None \<Rightarrow> [])
      | _ \<Rightarrow> [])"

definition number_issues :: "(rat \<Rightarrow> string) \<Rightarrow> json_object \<Rightarrow> rat \<Rightarrow> string \<Rightarrow> issue list" where
  "number_issues num schema x path =
     bound_issues num schema ''minimum'' (\<lambda>n. x < n) ''below the minimum of '' [] path @
     bound_issues num schema ''maximum'' (\<lambda>n. x > n) ''above the maximum of '' [] path"

text \<open>
  \<open>key in value\<close> sees what every object inherits, and so does \<open>properties[key]\<close>, where only
  \<open>__proto__\<close> names an object.
\<close>

definition inherited_keys :: "string list" where
  "inherited_keys = [''constructor'', ''__defineGetter__'', ''__defineSetter__'', ''hasOwnProperty'',
     ''__lookupGetter__'', ''__lookupSetter__'', ''isPrototypeOf'', ''propertyIsEnumerable'', ''toString'',
     ''valueOf'', ''__proto__'', ''toLocaleString'']"

definition has_key :: "string \<Rightarrow> json_object \<Rightarrow> bool" where
  "has_key k es \<longleftrightarrow> map_of es k \<noteq> None \<or> k \<in> set inherited_keys"

definition property_schema :: "json_object \<Rightarrow> string \<Rightarrow> json_object option" where
  "property_schema ps k =
     (case map_of ps k of
        Some (JObj s) \<Rightarrow> Some s
      | Some v \<Rightarrow> None
      | None \<Rightarrow> if k = ''__proto__'' then Some [] else None)"

definition required_issues :: "json_object \<Rightarrow> json_object \<Rightarrow> string \<Rightarrow> issue list" where
  "required_issues schema es path =
     (case map_of schema ''required'' of
        Some (JArr ks) \<Rightarrow>
          List.map_filter (\<lambda>k. case k of
              JStr s \<Rightarrow> if has_key s es then None else Some (path @ ''.'' @ s, ''is required'')
            | _ \<Rightarrow> None) ks
      | _ \<Rightarrow> [])"

lemma enumerate_snd [termination_simp]: "(i, x) \<in> set (List.enumerate n xs) \<Longrightarrow> size x < Suc (size_list size xs)"
  by (auto simp: in_set_enumerate_eq intro!: le_imp_less_Suc size_list_estimation')

fun validate_against_schema ::
  "regexps \<Rightarrow> (rat \<Rightarrow> string) \<Rightarrow> json_object \<Rightarrow> json \<Rightarrow> string \<Rightarrow> issue list" where
  "validate_against_schema rx num schema v path =
     (case type_issue num schema v of
        Some m \<Rightarrow> [(path, m)]
      | None \<Rightarrow>
          enum_issues schema v path @
          (case v of
             JStr s \<Rightarrow> string_issues rx num schema s path
           | JNum x \<Rightarrow> number_issues num schema x path
           | JArr xs \<Rightarrow>
               (case map_of schema ''items'' of
                  Some (JObj items) \<Rightarrow>
                    concat (map (\<lambda>(i, x). validate_against_schema rx num items x
                      (path @ ''['' @ show_nat i @ '']'')) (List.enumerate 0 xs))
                | _ \<Rightarrow> []) @
               bound_issues num schema ''maxItems'' (\<lambda>n. of_nat (length xs) > n) ''more than '' '' items'' path
           | JObj es \<Rightarrow>
               required_issues schema es path @
               (case map_of schema ''properties'' of
                  Some (JObj ps) \<Rightarrow>
                    concat (map (\<lambda>(k, c). case property_schema ps k of
                        Some s \<Rightarrow> validate_against_schema rx num s c (path @ ''.'' @ k)
                      | None \<Rightarrow>
                          if map_of schema ''additionalProperties'' = Some (JBool False)
                          then [(path @ ''.'' @ k, ''is not an allowed property'')] else []) es)
                | _ \<Rightarrow> [])
           | _ \<Rightarrow> []))"

declare validate_against_schema.simps [simp del]

section \<open>Classification\<close>

text \<open>
  \<open>tokenize\<close>: a space between a small letter or digit and the capital that follows it, other
  characters become spaces, and the ends are trimmed.
\<close>

fun split_camel :: "string \<Rightarrow> string" where
  "split_camel (c # d # s) =
     (if is_lower_alnum c \<and> is_upper d then c # CHR '' '' # d # split_camel s else c # split_camel (d # s))"
| "split_camel s = s"

definition trim_spaces :: "string \<Rightarrow> string" where
  "trim_spaces s = strip_trailing is_space (dropWhile is_space s)"

definition tokenize :: "string \<Rightarrow> string" where
  "tokenize name = trim_spaces (replace_runs (\<lambda>c. \<not> is_alnum c) '' '' (split_camel name))"

text \<open>\<open>\b(a|b|...)\b\<close> with the flag \<open>i\<close>, tried at every position; \<open>prev\<close> is the character before.\<close>

definition is_word_char :: "char \<Rightarrow> bool" where
  "is_word_char c \<longleftrightarrow> is_alnum c \<or> c = CHR ''_''"

definition word_at :: "char option \<Rightarrow> string list \<Rightarrow> string \<Rightarrow> bool" where
  "word_at prev ws s \<longleftrightarrow>
     (case prev of None \<Rightarrow> True | Some c \<Rightarrow> \<not> is_word_char c) \<and>
     list_ex (\<lambda>w. starts_with w (to_lower s) \<and>
       (case drop (length w) s of [] \<Rightarrow> True | c # _ \<Rightarrow> \<not> is_word_char c)) ws"

fun has_word :: "char option \<Rightarrow> string list \<Rightarrow> string \<Rightarrow> bool" where
  "has_word prev ws [] = word_at prev ws []"
| "has_word prev ws (c # s) = (word_at prev ws (c # s) \<or> has_word (Some c) ws s)"

definition risk_patterns :: "(tool_risk_level \<times> string list) list" where
  "risk_patterns = [
     (DESTRUCTIVE, [''delete'', ''destroy'', ''drop'', ''purge'', ''remove'', ''erase'', ''wipe'', ''revoke'',
        ''terminate'', ''uninstall'', ''exec'', ''execute'', ''eval'', ''invoke'', ''shell'', ''spawn'']),
     (FINANCIAL, [''pay'', ''payment'', ''charge'', ''invoice'', ''refund'', ''transfer'', ''billing'']),
     (ADMINISTRATIVE, [''admin'', ''grant'', ''permission'', ''role'', ''policy'', ''member'', ''owner'', ''acl'', ''scope'']),
     (EXTERNAL_COMMUNICATION, [''send'', ''email'', ''mail'', ''message'', ''notify'', ''sms'', ''call'', ''post_to'',
        ''publish'', ''broadcast'', ''dm'']),
     (WRITE, [''create'', ''update'', ''write'', ''edit'', ''set'', ''add'', ''append'', ''upload'', ''merge'', ''patch'',
        ''rename'', ''move'', ''assign'', ''close'', ''open'', ''comment'']),
     (READ_ONLY, [''get'', ''list'', ''read'', ''search'', ''find'', ''query'', ''describe'', ''fetch'', ''show'', ''view'',
        ''inspect'', ''count''])]"

definition read_verbs :: "string list" where
  "read_verbs = [''get'', ''list'', ''read'', ''search'', ''find'', ''query'', ''describe'', ''fetch'', ''show'',
     ''view'', ''inspect'', ''count'', ''lookup'']"

definition hint :: "json option \<Rightarrow> string \<Rightarrow> json option" where
  "hint annotations k = Option.bind annotations (\<lambda>a. jget a k)"

fun classify_loop ::
  "json option \<Rightarrow> bool \<Rightarrow> string \<Rightarrow> (tool_risk_level \<times> string list) list \<Rightarrow> tool_risk_level" where
  "classify_loop annotations readVerb haystack [] = UNKNOWN"
| "classify_loop annotations readVerb haystack ((level, ws) # ps) =
     (if level = WRITE \<and> readVerb then classify_loop annotations readVerb haystack ps
      else if has_word None ws haystack then
        (if level = WRITE \<and> hint annotations ''openWorldHint'' = Some (JBool True)
         then EXTERNAL_COMMUNICATION else level)
      else classify_loop annotations readVerb haystack ps)"

definition classify_tool :: "string \<Rightarrow> string option \<Rightarrow> json option \<Rightarrow> tool_risk_level" where
  "classify_tool name description annotations =
     (if hint annotations ''destructiveHint'' = Some (JBool True) then DESTRUCTIVE
      else if hint annotations ''readOnlyHint'' = Some (JBool True) then READ_ONLY
      else
        let ws = split_on (CHR '' '') (tokenize name);
            haystack = join '' '' ws @ '' '' @ (case description of None \<Rightarrow> [] | Some d \<Rightarrow> d);
            readVerb = to_lower (hd ws) \<in> set read_verbs
        in classify_loop annotations readVerb haystack risk_patterns)"

section \<open>The policy engine\<close>

record tool_policy =
  tp_blockedRiskLevels :: "tool_risk_level list"
  tp_confirmationRiskLevels :: "tool_risk_level list"
  tp_disableUnknownDestructive :: bool
  tp_maxArgumentBytes :: nat
  tp_maxResultBytes :: nat
  tp_allowSampling :: bool
  tp_allowElicitation :: bool
  tp_allowRoots :: bool
  tp_writeRoles :: "string list"

definition default_tool_policy :: tool_policy where
  "default_tool_policy = \<lparr>tp_blockedRiskLevels = [], tp_confirmationRiskLevels = [DESTRUCTIVE, FINANCIAL],
     tp_disableUnknownDestructive = True, tp_maxArgumentBytes = 256 * 1024,
     tp_maxResultBytes = 4 * 1024 * 1024, tp_allowSampling = True, tp_allowElicitation = True,
     tp_allowRoots = True, tp_writeRoles = []\<rparr>"

datatype policy_outcome =
    ALLOW | REQUIRE_CONFIRMATION | DENY string | INVALID_ARGUMENTS string

fun risk_name :: "tool_risk_level \<Rightarrow> string" where
  "risk_name READ_ONLY = ''READ_ONLY''"
| "risk_name WRITE = ''WRITE''"
| "risk_name DESTRUCTIVE = ''DESTRUCTIVE''"
| "risk_name EXTERNAL_COMMUNICATION = ''EXTERNAL_COMMUNICATION''"
| "risk_name FINANCIAL = ''FINANCIAL''"
| "risk_name ADMINISTRATIVE = ''ADMINISTRATIVE''"
| "risk_name UNKNOWN = ''UNKNOWN''"

text \<open>The engines a decision needs: regular expressions, how numbers print, \<open>JSON.stringify\<close>.\<close>

record engines =
  eg_rx :: regexps
  eg_num :: "rat \<Rightarrow> string"
  eg_show :: "json \<Rightarrow> string"

definition schema_fields :: "json \<Rightarrow> json_object" where
  "schema_fields v = (case v of JObj es \<Rightarrow> es | _ \<Rightarrow> [])"

definition evaluate_tool_call ::
  "engines \<Rightarrow> tool_policy \<Rightarrow> discovered_tool \<Rightarrow> connection \<Rightarrow> json \<Rightarrow> string list \<Rightarrow> policy_outcome" where
  "evaluate_tool_call eg p tool c args roles =
     (if \<not> dt_enabled tool then DENY ''This tool is disabled by policy''
      else if uc_status c = DISABLED then DENY ''This connection is disabled''
      else if dt_riskLevel tool \<in> set (tp_blockedRiskLevels p) then
        DENY (''Tools classified '' @ risk_name (dt_riskLevel tool) @ '' are blocked for this workspace'')
      else if tp_writeRoles p \<noteq> [] \<and> dt_riskLevel tool \<noteq> READ_ONLY \<and>
          \<not> list_ex (\<lambda>r. r \<in> set (tp_writeRoles p)) roles then
        DENY ''Your role may only call read-only tools''
      else if length (utf8 (eg_show eg args)) > tp_maxArgumentBytes p then
        DENY ''Tool arguments exceed the configured limit''
      else
        let issues = validate_against_schema (eg_rx eg) (eg_num eg) (schema_fields (dt_inputSchemaJson tool)) args ''$'' in
        if issues \<noteq> [] then
          INVALID_ARGUMENTS (''Arguments do not match the tool schema: '' @
            join ''; '' (map (\<lambda>(path, m). path @ '' '' @ m) (take 3 issues)))
        else if dt_riskLevel tool \<in> set (tp_confirmationRiskLevels p) then REQUIRE_CONFIRMATION
        else ALLOW)"

definition should_expose_tool :: "tool_policy \<Rightarrow> tool_risk_level \<Rightarrow> json option \<Rightarrow> bool" where
  "should_expose_tool p level annotations \<longleftrightarrow>
     level \<notin> set (tp_blockedRiskLevels p) \<and>
     \<not> (tp_disableUnknownDestructive p \<and> level = DESTRUCTIVE \<and> hint annotations ''destructiveHint'' = None)"

definition assert_result_within_limits :: "engines \<Rightarrow> tool_policy \<Rightarrow> json \<Rightarrow> unit result" where
  "assert_result_within_limits eg p v =
     (if length (utf8 (eg_show eg v)) > tp_maxResultBytes p
      then Inl (gerr PAYLOAD_TOO_LARGE ''The upstream tool result exceeded the configured size limit'')
      else Inr ())"

definition allows_server_request :: "tool_policy \<Rightarrow> string \<Rightarrow> bool" where
  "allows_server_request p m =
     (if starts_with ''sampling/'' m then tp_allowSampling p
      else if starts_with ''elicitation/'' m then tp_allowElicitation p
      else if starts_with ''roots/'' m then tp_allowRoots p
      else False)"

definition client_capabilities :: "tool_policy \<Rightarrow> json_object" where
  "client_capabilities p =
     (if tp_allowSampling p then [(''sampling'', JObj [])] else []) @
     (if tp_allowElicitation p then [(''elicitation'', JObj [])] else []) @
     (if tp_allowRoots p then [(''roots'', JObj [(''listChanged'', JBool True)])] else [])"

section \<open>Lemmas\<close>

lemma evaluate_not_denied:
  assumes "evaluate_tool_call eg p tool c args roles \<in> {ALLOW, REQUIRE_CONFIRMATION}"
  shows "dt_enabled tool" "uc_status c \<noteq> DISABLED" "dt_riskLevel tool \<notin> set (tp_blockedRiskLevels p)"
    "tp_writeRoles p = [] \<or> dt_riskLevel tool = READ_ONLY \<or> set roles \<inter> set (tp_writeRoles p) \<noteq> {}"
    "length (utf8 (eg_show eg args)) \<le> tp_maxArgumentBytes p"
    "validate_against_schema (eg_rx eg) (eg_num eg) (schema_fields (dt_inputSchemaJson tool)) args ''$'' = []"
    "evaluate_tool_call eg p tool c args roles = ALLOW \<longleftrightarrow>
       dt_riskLevel tool \<notin> set (tp_confirmationRiskLevels p)"
  using assms by (auto simp: evaluate_tool_call_def Let_def list_ex_iff split: if_splits)

lemma required_reported:
  assumes "map_of schema ''required'' = Some (JArr ks)" and "JStr k \<in> set ks" and "map_of es k = None"
    and "k \<notin> set inherited_keys" and "type_issue num schema (JObj es) = None"
  shows "(path @ ''.'' @ k, ''is required'') \<in> set (validate_against_schema rx num schema (JObj es) path)"
proof -
  have "(path @ ''.'' @ k, ''is required'') \<in> set (required_issues schema es path)"
    using assms by (force simp: required_issues_def has_key_def List.map_filter_def)
  then show ?thesis using assms(5) by (subst validate_against_schema.simps) simp
qed

end
