(* ===== verification/Gateway_Handler.thy ===== *)
theory Gateway_Handler
  imports Upstream_Sessions Naming Pagination Tool_Policy
begin

text \<open>
  \<^verbatim>\<open>packages/federation/src/gateway-handler.ts\<close> and \<^verbatim>\<open>audit.ts\<close>: the MCP surface the
  gateway presents to its clients. A session is passed as the record it was when the request came
  in; what may change meanwhile, its log level and its streams, is read from the live sessions.
\<close>

section \<open>Configuration and audit\<close>

record handler_config =
  hc_policy :: tool_policy
  hc_engines :: engines
  hc_toolRule :: rate_limit_rule
  hc_apiRule :: rate_limit_rule
  hc_serverInfo :: json_object
  hc_instructions :: "string option"
  hc_pageSize :: nat
  hc_manager :: token_manager_config

record audit_input =
  ai_tenantId :: string
  ai_userId :: "string option"
  ai_downstreamSessionId :: "string option"
  ai_connectionId :: "string option"
  ai_toolId :: "string option"
  ai_operation :: string
  ai_input :: "json option"
  ai_resultStatus :: result_status
  ai_durationMs :: "int option"
  ai_detail :: "json_object option"

text \<open>The arguments of a call are kept as a hash; a failure to store the event is only logged.\<close>

definition record_audit :: "env \<Rightarrow> engines \<Rightarrow> audit_input \<Rightarrow> unit io" where
  "record_audit ev eg a =
     (io_bind (new_id ev ''aud'') (\<lambda>i.
      io_bind now (\<lambda>t.
      (let e = \<lparr>ae_id = i, ae_tenantId = ai_tenantId a, ae_userId = ai_userId a,
          ae_downstreamSessionId = ai_downstreamSessionId a, ae_connectionId = ai_connectionId a,
          ae_toolId = ai_toolId a, ae_operation = ai_operation a,
          ae_inputHash = map_option (\<lambda>v. ev_sha256_hex ev (stable_stringify (eg_num eg) v)) (ai_input a),
          ae_resultStatus = ai_resultStatus a, ae_durationMs = ai_durationMs a, ae_providerRequestId = None,
          ae_detailJson = ai_detail a, ae_createdAt = t\<rparr> in
      io_catch (db_insert (\<lambda>d. map_option (\<lambda>rows. d\<lparr>tb_audit := rows\<rparr>) (audit_append e (tb_audit d))))
          (\<lambda>x. io_return ())))))"

definition audit_tool ::
  "env \<Rightarrow> handler_config \<Rightarrow> dsession \<Rightarrow> discovered_tool \<Rightarrow> connection \<Rightarrow> json \<Rightarrow> result_status \<Rightarrow> int
     \<Rightarrow> json_object \<Rightarrow> unit io" where
  "audit_tool ev cfg s tool c args status started detail =
     (io_bind now (\<lambda>t.
      record_audit ev (hc_engines cfg) \<lparr>ai_tenantId = ds_tenantId s, ai_userId = Some (ds_userId s),
          ai_downstreamSessionId = Some (ds_id s), ai_connectionId = Some (uc_id c), ai_toolId = Some (dt_id tool),
          ai_operation = ''tools/call'', ai_input = Some args, ai_resultStatus = status,
          ai_durationMs = Some (t - started),
          ai_detail = Some ([(''gatewayTool'', JStr (dt_gatewayName tool)), (''upstreamTool'', JStr (dt_upstreamName tool)),
            (''schemaHash'', JStr (dt_schemaHash tool)), (''riskLevel'', JStr (risk_name (dt_riskLevel tool)))] @ detail)\<rparr>))"

section \<open>The live session\<close>

definition session_now :: "dsession \<Rightarrow> live \<Rightarrow> dsession" where
  "session_now s l = (case map_of (lv_sessions l) (ds_id s) of None \<Rightarrow> s | Some x \<Rightarrow> x)"

definition session_apply :: "string \<Rightarrow> (dsession \<Rightarrow> dsession \<times> stream_write list) \<Rightarrow> world \<Rightarrow> world" where
  "session_apply i f w =
     (case map_of (lv_sessions (wd_live w)) i of
        None \<Rightarrow> w
      | Some s \<Rightarrow> (case f s of (s', ws) \<Rightarrow>
          w\<lparr>wd_live := (wd_live w)\<lparr>lv_sessions := map_set (lv_sessions (wd_live w)) i s'\<rparr>,
            wd_written := wd_written w @ ws\<rparr>))"

definition notify_session :: "env \<Rightarrow> string \<Rightarrow> json \<Rightarrow> unit io" where
  "notify_session ev i notification =
     (io_bind (io_get wd_waits) (\<lambda>k.
      io_modify (session_apply i (send_notification (ev_shut ev k) notification))))"

text \<open>\<open>session.sendRequest\<close>: the answer is the client's, or the timer's.\<close>

definition ask_session :: "env \<Rightarrow> dsession \<Rightarrow> string \<Rightarrow> json_object \<Rightarrow> json_object io" where
  "ask_session ev s m params =
     (io_bind (io_get wd_waits) (\<lambda>k.
      io_bind (live_get (\<lambda>l. has_stream (ev_shut ev k) (session_now s l))) (\<lambda>attached.
      (if \<not> attached then
           io_fail (gerr UPSTREAM_PROTOCOL_ERROR ''The downstream client has no open stream to receive server requests'')
         else
           (io_bind (live_get (\<lambda>l. fst (send_request (ev_shut ev k) m params (session_now s l)))) (\<lambda>pending.
            io_seq (io_modify (session_apply (ds_id s) (\<lambda>x. snd (send_request (ev_shut ev k) m params x)))) (
            io_seq (upstream_wait ev) (
            io_seq (io_modify (session_apply (ds_id s) (\<lambda>x. (case pending of None \<Rightarrow> x | Some i \<Rightarrow> settle i x, [])))) (
            (case ev_answer ev k m params of Inl e \<Rightarrow> io_throw e | Inr r \<Rightarrow> io_return r))))))))))"

section \<open>Limits\<close>

definition api_require :: "handler_config \<Rightarrow> dsession \<Rightarrow> string \<Rightarrow> unit io" where
  "api_require cfg s what =
     (io_bind now (\<lambda>t.
      io_bind (live_get (\<lambda>l. fst (require (hc_apiRule cfg) (of_int t) (ds_tenantId s) what (lv_api l)))) (\<lambda>r.
      io_seq (live_modify (\<lambda>l. l\<lparr>lv_api := snd (require (hc_apiRule cfg) (of_int t) (ds_tenantId s) what (lv_api l))\<rparr>)) (
      io_lift r))))"

definition tool_call_require :: "handler_config \<Rightarrow> dsession \<Rightarrow> unit io" where
  "tool_call_require cfg s =
     (io_bind now (\<lambda>t.
      io_bind (live_get (\<lambda>l. fst (require (hc_toolRule cfg) (of_int t) (ds_tenantId s) ''tool calls'' (lv_tool_calls l)))) (\<lambda>r.
      io_seq (live_modify (\<lambda>l. l\<lparr>lv_tool_calls :=
          snd (require (hc_toolRule cfg) (of_int t) (ds_tenantId s) ''tool calls'' (lv_tool_calls l))\<rparr>)) (
      io_lift r))))"

section \<open>Sessions\<close>

definition create_downstream :: "downstream_session_record \<Rightarrow> unit io" where
  "create_downstream r = db_insert (\<lambda>d.
     map_option (\<lambda>rows. d\<lparr>tb_downstream := rows\<rparr>) (downstream_sessions_create r (tb_downstream d)))"

definition on_initialize :: "handler_config \<Rightarrow> json_object \<Rightarrow> dsession \<Rightarrow> json_object io" where
  "on_initialize cfg params s =
     (io_seq (api_require cfg s ''MCP sessions'') (
      io_bind (io_to_object (case map_of params ''capabilities'' of
          None \<Rightarrow> JObj [] | Some JNull \<Rightarrow> JObj [] | Some v \<Rightarrow> v)) (\<lambda>capabilities.
      io_bind now (\<lambda>t.
      io_seq (create_downstream \<lparr>dn_id = ds_id s, dn_tenantId = ds_tenantId s, dn_userId = ds_userId s,
          dn_clientLabel = ds_clientLabel s, dn_protocolVersion = ds_protocolVersion s,
          dn_capabilitiesJson = capabilities,
          dn_createdAt = t, dn_lastSeenAt = t, dn_status = ACTIVE\<rparr>) (
      io_return ([(''protocolVersion'', JStr (if ds_protocolVersion s = [] then latest_protocol_version
              else ds_protocolVersion s)),
            (''capabilities'', JObj [(''tools'', JObj [(''listChanged'', JBool True)]),
              (''resources'', JObj [(''listChanged'', JBool True), (''subscribe'', JBool True)]),
              (''prompts'', JObj [(''listChanged'', JBool True)]), (''completions'', JObj []), (''logging'', JObj [])]),
            (''serverInfo'', JObj (hc_serverInfo cfg))] @
          (case given (hc_instructions cfg) of None \<Rightarrow> [] | Some i \<Rightarrow> [(''instructions'', JStr i)])))))))"

definition on_session_closed :: "env \<Rightarrow> dsession \<Rightarrow> unit io" where
  "on_session_closed ev s =
     (io_seq (release_downstream ev (ds_id s)) (
      db_modify (\<lambda>d. d\<lparr>tb_downstream := downstream_sessions_close (ds_id s) (tb_downstream d)\<rparr>)))"

section \<open>Which connections serve a session\<close>

definition visible_connections :: "dsession \<Rightarrow> connection list io" where
  "visible_connections s = db (\<lambda>t.
     filter (\<lambda>c. uc_status c \<noteq> DISABLED)
       (connections_list_visible (ds_tenantId s) (ds_userId s) (tb_connections t)))"

definition require_visible_connection :: "dsession \<Rightarrow> string \<Rightarrow> connection io" where
  "require_visible_connection s connectionId =
     (io_bind (visible_connections s) (\<lambda>connections.
      (case find (\<lambda>c. uc_id c = connectionId) connections of
           None \<Rightarrow> io_fail (gerr FORBIDDEN ''This connection is not available to you'')
         | Some c \<Rightarrow> io_return c)))"

section \<open>Upstream sessions in line with the client\<close>

definition set_client_level :: "string \<Rightarrow> string option \<Rightarrow> live \<Rightarrow> live" where
  "set_client_level key level l =
     (case map_of (lv_clients l) key of
        None \<Rightarrow> l | Some u \<Rightarrow> l\<lparr>lv_clients := map_set (lv_clients l) key (u\<lparr>uk_logLevel := level\<rparr>)\<rparr>)"

text \<open>\<open>pushLogLevel\<close>; the connection of the client is the part of its key before the separator.\<close>

definition push_log_level :: "env \<Rightarrow> dsession \<Rightarrow> string \<Rightarrow> string \<Rightarrow> unit io" where
  "push_log_level ev s connectionId key =
     (io_bind (live_get (\<lambda>l. ds_logLevel (session_now s l))) (\<lambda>level.
      io_bind (live_get (\<lambda>l. map_of (lv_clients l) key)) (\<lambda>client.
      (case (level, client) of
           (Some v, Some u) \<Rightarrow>
             if \<not> truthy (map_of (uk_capabilities u) ''logging'') \<or> uk_logLevel u = Some v then io_return ()
             else
               (io_seq (live_modify (set_client_level key (Some v))) (
                io_catch
                    ((io_bind (upstream_request ev (upstream_call_of connectionId (ds_id s) ''logging/setLevel'' [(''level'', JStr v)])) (\<lambda>r.
                      io_return ())))
                    (\<lambda>e. live_modify (set_client_level key None))))
         | _ \<Rightarrow> io_return ()))))"

definition upstream_for :: "env \<Rightarrow> connection \<Rightarrow> dsession \<Rightarrow> upstream_client io" where
  "upstream_for ev c s =
     (io_bind (acquire ev c (ds_id s)) (\<lambda>u.
      io_seq (push_log_level ev s (uc_id c) (session_key (uc_id c) (ds_id s))) (
      io_return u)))"

definition connection_of_key :: "dsession \<Rightarrow> string \<Rightarrow> string" where
  "connection_of_key s key = take (length key - length (session_separator @ ds_id s)) key"

fun for_each :: "('a \<Rightarrow> unit io) \<Rightarrow> 'a list \<Rightarrow> unit io" where
  "for_each f [] = io_return ()"
| "for_each f (x # xs) = io_seq (f x) (for_each f xs)"

definition set_log_level :: "env \<Rightarrow> json_object \<Rightarrow> dsession \<Rightarrow> json_object io" where
  "set_log_level ev params s =
     (case map_of params ''level'' of
        Some (JStr level) \<Rightarrow>
          if \<not> is_mcp_log_level (JStr level)
          then io_fail (gerr INVALID_REQUEST (''logging/setLevel needs one of: '' @ join '', '' mcp_log_levels))
          else
            (io_seq (io_modify (session_apply (ds_id s) (\<lambda>x. (x\<lparr>ds_logLevel := Some level\<rparr>, [])))) (
             io_bind (live_get (for_downstream (ds_id s))) (\<lambda>keys.
             io_seq (for_each (\<lambda>k. push_log_level ev s (connection_of_key s k) k) keys) (
             io_return []))))
      | _ \<Rightarrow> io_fail (gerr INVALID_REQUEST (''logging/setLevel needs one of: '' @ join '', '' mcp_log_levels)))"

definition relay_to_upstreams :: "env \<Rightarrow> dsession \<Rightarrow> string \<Rightarrow> json_object \<Rightarrow> unit io" where
  "relay_to_upstreams ev s m params =
     (io_bind (live_get (for_downstream (ds_id s))) (\<lambda>keys.
      for_each (\<lambda>k. io_catch
          ((io_bind (upstream_request ev (upstream_call_of (connection_of_key s k) (ds_id s) m params)) (\<lambda>r.
            io_return ())))
          (\<lambda>e. io_return ())) keys))"

definition on_notification :: "env \<Rightarrow> handler_config \<Rightarrow> string \<Rightarrow> dsession \<Rightarrow> unit io" where
  "on_notification ev cfg m s =
     io_when (m = ''notifications/roots/list_changed'' \<and> allows_server_request (hc_policy cfg) ''roots/list'')
       (relay_to_upstreams ev s ''notifications/roots/list_changed'' [])"

section \<open>Lists\<close>

definition descriptor_text :: "string \<Rightarrow> string option \<Rightarrow> json_object" where
  "descriptor_text k v = (case given v of None \<Rightarrow> [] | Some s \<Rightarrow> [(k, JStr s)])"

definition descriptor_value :: "string \<Rightarrow> json option \<Rightarrow> json_object" where
  "descriptor_value k v = (case v of None \<Rightarrow> [] | Some x \<Rightarrow> [(k, x)])"

definition tool_descriptor :: "discovered_tool \<Rightarrow> json" where
  "tool_descriptor t = JObj ([(''name'', JStr (dt_gatewayName t)), (''inputSchema'', dt_inputSchemaJson t)] @
     descriptor_text ''description'' (dt_description t) @ descriptor_value ''outputSchema'' (dt_outputSchemaJson t) @
     descriptor_value ''annotations'' (dt_annotationsJson t))"

definition list_tools :: "dsession \<Rightarrow> json list io" where
  "list_tools s =
     (io_bind (visible_connections s) (\<lambda>connections.
      io_bind (db (\<lambda>t. tools_list_by_tenant (ds_tenantId s) (tb_tools t))) (\<lambda>tools.
      io_return (map tool_descriptor
          (filter (\<lambda>t. dt_enabled t \<and> dt_connectionId t \<in> uc_id ` set connections) tools)))))"

definition resource_descriptor :: "bool \<Rightarrow> discovered_resource \<Rightarrow> json" where
  "resource_descriptor templates r = JObj (
     [(if templates then ''uriTemplate'' else ''uri'', JStr (dr_gatewayUri r)), (''name'', JStr (dr_name r))] @
     descriptor_text ''description'' (dr_description r) @ descriptor_text ''mimeType'' (dr_mimeType r))"

definition list_resources :: "dsession \<Rightarrow> bool \<Rightarrow> json list io" where
  "list_resources s templates =
     (io_bind (visible_connections s) (\<lambda>connections.
      io_bind (db (\<lambda>t. resources_list_by_tenant (ds_tenantId s) (tb_resources t))) (\<lambda>resources.
      io_return (map (resource_descriptor templates)
          (filter (\<lambda>r. dr_connectionId r \<in> uc_id ` set connections \<and> dr_isTemplate r = templates) resources)))))"

definition prompt_descriptor :: "discovered_prompt \<Rightarrow> json" where
  "prompt_descriptor p = JObj ([(''name'', JStr (dp_gatewayName p))] @
     descriptor_text ''description'' (dp_description p) @
     (case Option.bind (dp_argumentsJson p) (\<lambda>a. jget a ''arguments'') of
        Some (JArr xs) \<Rightarrow> [(''arguments'', JArr xs)] | _ \<Rightarrow> []))"

definition list_prompts :: "dsession \<Rightarrow> json list io" where
  "list_prompts s =
     (io_bind (visible_connections s) (\<lambda>connections.
      io_bind (db (\<lambda>t. prompts_list_by_tenant (ds_tenantId s) (tb_prompts t))) (\<lambda>prompts.
      io_return (map prompt_descriptor
          (filter (\<lambda>p. dp_connectionId p \<in> uc_id ` set connections) prompts)))))"

definition field_text :: "string \<Rightarrow> json \<Rightarrow> string" where
  "field_text k v = (case jget v k of Some (JStr s) \<Rightarrow> s | _ \<Rightarrow> [])"

text \<open>\<open>page\<close>.\<close>

definition paged :: "handler_config \<Rightarrow> string \<Rightarrow> string \<Rightarrow> json option \<Rightarrow> json list \<Rightarrow> json_object io" where
  "paged cfg fld key cursor items =
     io_bind (io_lift (paginate items (field_text key) cursor (hc_pageSize cfg))) (\<lambda>p.
       io_return ([(fld, JArr (pg_items p))] @
         (case pg_nextCursor p of None \<Rightarrow> [] | Some c \<Rightarrow> [(''nextCursor'', JStr c)])))"

section \<open>Calling a tool\<close>

definition progress_key :: "engines \<Rightarrow> string \<Rightarrow> json \<Rightarrow> string" where
  "progress_key eg sessionId token = sessionId @ '':'' @ js_string (eg_num eg) token"

definition read_progress_token :: "json_object \<Rightarrow> json option" where
  "read_progress_token params =
     (case Option.bind (map_of params ''_meta'') (\<lambda>m. jget m ''progressToken'') of
        Some (JStr s) \<Rightarrow> Some (JStr s) | Some (JNum n) \<Rightarrow> Some (JNum n) | _ \<Rightarrow> None)"

definition confirmation_params :: "discovered_tool \<Rightarrow> json_object" where
  "confirmation_params tool = [
     (''message'', JStr (''The gateway classified '' @ dt_gatewayName tool @ '' as '' @
        risk_name (dt_riskLevel tool) @ ''. Confirm that you want to run it.'')),
     (''requestedSchema'', JObj [(''type'', JStr ''object''),
        (''properties'', JObj [(''confirm'', JObj [(''type'', JStr ''boolean''), (''description'', JStr ''Run this tool'')])]),
        (''required'', JArr [JStr ''confirm''])])]"

definition accepted :: "json_object \<Rightarrow> bool" where
  "accepted r \<longleftrightarrow> map_of r ''action'' = Some (JStr ''accept'') \<and>
     (case map_of r ''content'' of Some (JObj es) \<Rightarrow> map_of es ''confirm'' = Some (JBool True) | _ \<Rightarrow> False)"

definition confirm :: "env \<Rightarrow> dsession \<Rightarrow> discovered_tool \<Rightarrow> bool io" where
  "confirm ev s tool =
     (if \<not> truthy (map_of (ds_capabilities s) ''elicitation'') then io_return False
      else io_catch
        ((io_bind (ask_session ev s ''elicitation/create'' (confirmation_params tool)) (\<lambda>r.
          io_return (accepted r))))
        (\<lambda>e. io_return False))"

definition or_object :: "json option \<Rightarrow> json" where
  "or_object v = (case v of None \<Rightarrow> JObj [] | Some JNull \<Rightarrow> JObj [] | Some x \<Rightarrow> x)"

definition tool_params :: "string \<Rightarrow> json \<Rightarrow> json option \<Rightarrow> json_object" where
  "tool_params nm args token = [(''name'', JStr nm), (''arguments'', args)] @
     (case token of None \<Rightarrow> [] | Some t \<Rightarrow> [(''_meta'', JObj [(''progressToken'', t)])])"

text \<open>The decision and, where it asks for one, the confirmation; what is refused is audited.\<close>

definition admit_tool_call ::
  "env \<Rightarrow> handler_config \<Rightarrow> dsession \<Rightarrow> discovered_tool \<Rightarrow> connection \<Rightarrow> json \<Rightarrow> int \<Rightarrow> unit io" where
  "admit_tool_call ev cfg s tool c args started =
     (case evaluate_tool_call (hc_engines cfg) (hc_policy cfg) tool c args (ds_roles s) of
        ALLOW \<Rightarrow> io_return ()
      | DENY reason \<Rightarrow>
          (io_seq (audit_tool ev cfg s tool c args RS_DENIED started [(''reason'', JStr reason)]) (
           io_fail (gerr POLICY_DENIED reason)))
      | INVALID_ARGUMENTS reason \<Rightarrow>
          (io_seq (audit_tool ev cfg s tool c args RS_DENIED started [(''reason'', JStr reason)]) (
           io_fail (gerr INVALID_REQUEST reason)))
      | REQUIRE_CONFIRMATION \<Rightarrow>
          (io_bind (confirm ev s tool) (\<lambda>confirmed.
           (if confirmed then io_return ()
              else
                (io_seq (audit_tool ev cfg s tool c args RS_DENIED started [(''reason'', JStr ''confirmation_required'')]) (
                 io_fail (gerr POLICY_DENIED (dt_gatewayName tool @ '' is classified '' @ risk_name (dt_riskLevel tool) @
                     '' and needs confirmation. Approve it in the gateway control plane or use a client that '' @
                     ''supports elicitation.''))))))))"

definition widen_grant :: "handler_config \<Rightarrow> connection \<Rightarrow> exn \<Rightarrow> unit io" where
  "widen_grant cfg c e =
     (case insufficient_scope_from e of
        None \<Rightarrow> io_return ()
      | Some required \<Rightarrow>
          require_incremental_authorization (hc_manager cfg)
            \<lparr>rf_tenantId = uc_tenantId c, rf_connectionId = uc_id c\<rparr>
            (unique (uc_grantedScopes c @ required)))"

definition run_tool ::
  "env \<Rightarrow> handler_config \<Rightarrow> dsession \<Rightarrow> discovered_tool \<Rightarrow> connection \<Rightarrow> json \<Rightarrow> json option \<Rightarrow> int \<Rightarrow> json_object io" where
  "run_tool ev cfg s tool c args token started =
     io_catch
       ((io_bind (upstream_for ev c s) (\<lambda>client.
         io_bind (upstream_request ev (upstream_call_of (uc_id c) (ds_id s) ''tools/call''
                       (tool_params (dt_upstreamName tool) args token))) (\<lambda>result.
         io_seq (io_lift (assert_result_within_limits (hc_engines cfg) (hc_policy cfg) (JObj result))) (
         io_seq (audit_tool ev cfg s tool c args RS_OK started []) (
         io_return (namespace_result_resources result (uc_alias c))))))))
       (\<lambda>e. (io_seq (audit_tool ev cfg s tool c args RS_ERROR started [(''error'', JStr (exn_message e))]) (
         io_seq (widen_grant cfg c e) (
         io_throw e))))"

text \<open>While a call with a progress token runs, its notifications go to the stream that asked.\<close>

definition run_tracked ::
  "env \<Rightarrow> handler_config \<Rightarrow> dsession \<Rightarrow> discovered_tool \<Rightarrow> connection \<Rightarrow> json \<Rightarrow> json option \<Rightarrow> string option
     \<Rightarrow> int \<Rightarrow> json_object io" where
  "run_tracked ev cfg s tool c args token stream started =
     (case token of
        None \<Rightarrow> run_tool ev cfg s tool c args None started
      | Some t \<Rightarrow>
          ((let key = progress_key (hc_engines cfg) (ds_id s) t in
           io_seq (live_modify (\<lambda>l. l\<lparr>lv_progress := map_set (lv_progress l) key (ds_id s, stream)\<rparr>)) (
           io_finally (run_tool ev cfg s tool c args (Some t) started)
               (live_modify (\<lambda>l. l\<lparr>lv_progress := map_delete (lv_progress l) key\<rparr>))))))"

definition call_tool ::
  "env \<Rightarrow> handler_config \<Rightarrow> json_object \<Rightarrow> dsession \<Rightarrow> string option \<Rightarrow> json_object io" where
  "call_tool ev cfg params s stream =
     (case map_of params ''name'' of
        Some (JStr nm) \<Rightarrow>
          (io_seq (tool_call_require cfg s) (
           (let args = or_object (map_of params ''arguments'') in
           io_bind now (\<lambda>started.
           io_bind (db (\<lambda>t. tools_find_by_gateway_name (ds_tenantId s) nm (tb_tools t))) (\<lambda>found.
           (case found of
                None \<Rightarrow> io_fail (gerr NOT_FOUND (''Unknown tool: '' @ nm))
              | Some tool \<Rightarrow>
                  (io_bind (require_visible_connection s (dt_connectionId tool)) (\<lambda>c.
                   io_seq (admit_tool_call ev cfg s tool c args started) (
                   run_tracked ev cfg s tool c args (read_progress_token params) stream started)))))))))
      | _ \<Rightarrow> io_fail (gerr INVALID_REQUEST ''tools/call requires a tool name''))"

section \<open>Resources, prompts and completions\<close>

text \<open>Where a resource URI leads: its connection and the upstream's own URI.\<close>

definition route_by_alias :: "dsession \<Rightarrow> string \<Rightarrow> (string \<times> string) io" where
  "route_by_alias s gatewayUri =
     (case (case split_resource_uri gatewayUri of Some x \<Rightarrow> Some x | None \<Rightarrow> split_prompt_name gatewayUri) of
        None \<Rightarrow> io_fail (gerr NOT_FOUND (''Unknown resource: '' @ gatewayUri))
      | Some (alias', upstreamUri) \<Rightarrow>
          (io_bind (db (\<lambda>t. connections_find_by_alias (ds_tenantId s) alias' (tb_connections t))) (\<lambda>found.
           (case found of
                None \<Rightarrow> io_fail (gerr NOT_FOUND (''Unknown resource: '' @ gatewayUri))
              | Some c \<Rightarrow> io_return (uc_id c, upstreamUri)))))"

definition route_resource :: "dsession \<Rightarrow> string \<Rightarrow> (string \<times> string) io" where
  "route_resource s u =
     (io_bind (db (\<lambda>t. resources_find_by_gateway_uri (ds_tenantId s) u (tb_resources t))) (\<lambda>found.
      (case found of
           Some r \<Rightarrow> io_return (dr_connectionId r, dr_upstreamUri r)
         | None \<Rightarrow> route_by_alias s u)))"

definition read_resource :: "env \<Rightarrow> json_object \<Rightarrow> dsession \<Rightarrow> json_object io" where
  "read_resource ev params s =
     (case map_of params ''uri'' of
        Some (JStr u) \<Rightarrow>
          (io_bind (route_resource s u) (\<lambda>(connectionId, upstreamUri).
           io_bind (require_visible_connection s connectionId) (\<lambda>c.
           io_bind (upstream_for ev c s) (\<lambda>client.
           io_bind (upstream_request ev (upstream_call_of (uc_id c) (ds_id s) ''resources/read'' [(''uri'', JStr upstreamUri)])) (\<lambda>r.
           io_return (namespace_result_resources r (uc_alias c)))))))
      | _ \<Rightarrow> io_fail (gerr INVALID_REQUEST ''resources/read requires a uri''))"

definition resource_subscription :: "env \<Rightarrow> json_object \<Rightarrow> dsession \<Rightarrow> bool \<Rightarrow> json_object io" where
  "resource_subscription ev params s subscribe =
     (case map_of params ''uri'' of
        Some (JStr u) \<Rightarrow>
          (io_bind (route_resource s u) (\<lambda>(connectionId, upstreamUri).
           io_bind (require_visible_connection s connectionId) (\<lambda>c.
           io_bind (upstream_for ev c s) (\<lambda>client.
           io_bind (upstream_request ev (upstream_call_of (uc_id c) (ds_id s)
                    (if subscribe then ''resources/subscribe'' else ''resources/unsubscribe'') [(''uri'', JStr upstreamUri)])) (\<lambda>r.
           io_return [])))))
      | _ \<Rightarrow> io_fail (gerr INVALID_REQUEST ''A resource uri is required''))"

definition get_prompt :: "env \<Rightarrow> json_object \<Rightarrow> dsession \<Rightarrow> json_object io" where
  "get_prompt ev params s =
     (case map_of params ''name'' of
        Some (JStr nm) \<Rightarrow>
          (io_bind (db (\<lambda>t. prompts_find_by_gateway_name (ds_tenantId s) nm (tb_prompts t))) (\<lambda>found.
           (case found of
                None \<Rightarrow> io_fail (gerr NOT_FOUND (''Unknown prompt: '' @ nm))
              | Some p \<Rightarrow>
                  (io_bind (require_visible_connection s (dp_connectionId p)) (\<lambda>c.
                   io_bind (upstream_for ev c s) (\<lambda>client.
                   io_bind (upstream_request ev (upstream_call_of (uc_id c) (ds_id s) ''prompts/get''
                            [(''name'', JStr (dp_upstreamName p)), (''arguments'', or_object (map_of params ''arguments''))])) (\<lambda>r.
                   io_return (namespace_result_resources r (uc_alias c)))))))))
      | _ \<Rightarrow> io_fail (gerr INVALID_REQUEST ''prompts/get requires a name''))"

definition route_completion_ref :: "engines \<Rightarrow> json_object \<Rightarrow> dsession \<Rightarrow> (string \<times> json_object) io" where
  "route_completion_ref eg ref s =
     (if map_of ref ''type'' = Some (JStr ''ref/prompt'') then
        (case map_of ref ''name'' of
           Some (JStr nm) \<Rightarrow>
             (io_bind (db (\<lambda>t. prompts_find_by_gateway_name (ds_tenantId s) nm (tb_prompts t))) (\<lambda>found.
              (case found of
                   None \<Rightarrow> io_fail (gerr NOT_FOUND (''Unknown prompt: '' @ nm))
                 | Some p \<Rightarrow> io_return (dp_connectionId p, map_set ref ''name'' (JStr (dp_upstreamName p))))))
         | _ \<Rightarrow> io_fail (gerr INVALID_REQUEST ''A prompt reference requires a name''))
      else if map_of ref ''type'' = Some (JStr ''ref/resource'') then
        (case map_of ref ''uri'' of
           Some (JStr u) \<Rightarrow>
             (io_bind (route_resource s u) (\<lambda>(connectionId, upstreamUri).
              io_return (connectionId, map_set ref ''uri'' (JStr upstreamUri))))
         | _ \<Rightarrow> io_fail (gerr INVALID_REQUEST ''A resource reference requires a uri''))
      else io_fail (gerr INVALID_REQUEST (''Unsupported completion reference: '' @
        (case map_of ref ''type'' of None \<Rightarrow> ''undefined'' | Some v \<Rightarrow> js_string (eg_num eg) v))))"

definition complete :: "env \<Rightarrow> engines \<Rightarrow> json_object \<Rightarrow> dsession \<Rightarrow> json_object io" where
  "complete ev eg params s =
     (case map_of params ''ref'' of
        Some (JObj ref) \<Rightarrow>
          (io_bind (route_completion_ref eg ref s) (\<lambda>(connectionId, upstreamRef).
           io_bind (require_visible_connection s connectionId) (\<lambda>c.
           io_bind (upstream_for ev c s) (\<lambda>client.
           (if \<not> truthy (map_of (uk_capabilities client) ''completions'')
              then io_return [(''completion'', JObj [(''values'', JArr []), (''total'', JNum 0), (''hasMore'', JBool False)])]
              else upstream_request ev (upstream_call_of (uc_id c) (ds_id s) ''completion/complete''
                     (map_set params ''ref'' (JObj upstreamRef))))))))
      | _ \<Rightarrow> io_fail (gerr INVALID_REQUEST ''completion/complete requires a ref''))"

section \<open>Requests\<close>

definition on_request ::
  "env \<Rightarrow> handler_config \<Rightarrow> string \<Rightarrow> json_object \<Rightarrow> dsession \<Rightarrow> string option \<Rightarrow> json_object io" where
  "on_request ev cfg m params s stream =
     (io_seq (io_when (m \<noteq> ''ping'') (api_require cfg s ''MCP requests'')) (
      (if m = ''ping'' then io_return []
         else if m = ''tools/list'' then
           io_bind (list_tools s) (paged cfg ''tools'' ''name'' (map_of params ''cursor''))
         else if m = ''tools/call'' then call_tool ev cfg params s stream
         else if m = ''resources/list'' then
           io_bind (list_resources s False) (paged cfg ''resources'' ''uri'' (map_of params ''cursor''))
         else if m = ''resources/templates/list'' then
           io_bind (list_resources s True) (paged cfg ''resourceTemplates'' ''uriTemplate'' (map_of params ''cursor''))
         else if m = ''resources/read'' then read_resource ev params s
         else if m = ''resources/subscribe'' then resource_subscription ev params s True
         else if m = ''resources/unsubscribe'' then resource_subscription ev params s False
         else if m = ''prompts/list'' then
           io_bind (list_prompts s) (paged cfg ''prompts'' ''name'' (map_of params ''cursor''))
         else if m = ''prompts/get'' then get_prompt ev params s
         else if m = ''completion/complete'' then complete ev (hc_engines cfg) params s
         else if m = ''logging/setLevel'' then set_log_level ev params s
         else io_fail (gerr INVALID_REQUEST (''Unsupported method: '' @ m)))))"

section \<open>What upstreams send\<close>

record upstream_context =
  ux_connectionId :: string
  ux_alias :: string
  ux_tenantId :: string
  ux_downstreamSessionId :: string

definition list_changed_methods :: "string list" where
  "list_changed_methods = [''notifications/tools/list_changed'', ''notifications/resources/list_changed'',
     ''notifications/prompts/list_changed'']"

definition notification :: "string \<Rightarrow> json" where
  "notification m = JObj [(''jsonrpc'', JStr jsonrpc_version), (''method'', JStr m)]"

text \<open>All live sessions of a tenant.\<close>

definition sessions_for_tenant :: "string \<Rightarrow> live \<Rightarrow> string list" where
  "sessions_for_tenant tenantId l =
     map fst (filter (\<lambda>e. ds_tenantId (snd e) = tenantId \<and> \<not> ds_closed (snd e)) (lv_sessions l))"

definition broadcast :: "env \<Rightarrow> string \<Rightarrow> string \<Rightarrow> unit io" where
  "broadcast ev tenantId m =
     (io_bind (live_get (sessions_for_tenant tenantId)) (\<lambda>ids.
      for_each (\<lambda>i. notify_session ev i (notification m)) ids))"

definition notify_catalogue_changed :: "env \<Rightarrow> string \<Rightarrow> bool \<Rightarrow> bool \<Rightarrow> bool \<Rightarrow> unit io" where
  "notify_catalogue_changed ev tenantId tools resources prompts =
     (io_seq (io_when tools (broadcast ev tenantId ''notifications/tools/list_changed'')) (
      io_seq (io_when resources (broadcast ev tenantId ''notifications/resources/list_changed'')) (
      io_when prompts (broadcast ev tenantId ''notifications/prompts/list_changed''))))"

definition write_to_sink :: "env \<Rightarrow> string \<times> string option \<Rightarrow> json \<Rightarrow> unit io" where
  "write_to_sink ev sink n =
     (case sink of
        (i, Some stream) \<Rightarrow> io_modify (\<lambda>w. w\<lparr>wd_written := wd_written w @ [(stream, n, None)]\<rparr>)
      | (i, None) \<Rightarrow> notify_session ev i n)"

definition notification_params :: "json \<Rightarrow> string \<Rightarrow> json option" where
  "notification_params n k = Option.bind (jget n ''params'') (\<lambda>p. jget p k)"

text \<open>\<open>scheduleResync\<close> runs on its own and is left to the caller of this definition.\<close>

definition route_upstream_notification ::
  "env \<Rightarrow> engines \<Rightarrow> upstream_context \<Rightarrow> string \<Rightarrow> json \<Rightarrow> unit io" where
  "route_upstream_notification ev eg ux m n =
     (if m \<in> set list_changed_methods then broadcast ev (ux_tenantId ux) m
      else
        (io_bind (live_get (\<lambda>l. if m = ''notifications/progress''
               then map_of (lv_progress l) (progress_key eg (ux_downstreamSessionId ux)
                      (case notification_params n ''progressToken'' of None \<Rightarrow> JStr ''undefined'' | Some t \<Rightarrow> t))
               else None)) (\<lambda>sink.
         (case sink of
              Some x \<Rightarrow> write_to_sink ev x n
            | None \<Rightarrow>
                (io_bind (live_get (\<lambda>l. map_of (lv_sessions l) (ux_downstreamSessionId ux))) (\<lambda>session.
                 (case session of
                      None \<Rightarrow> io_return ()
                    | Some s \<Rightarrow>
                        if m = ''notifications/message'' \<and>
                           (case ds_logLevel s of
                              None \<Rightarrow> False
                            | Some floor' \<Rightarrow> \<not> meets_log_level (notification_params n ''level'') floor')
                        then io_return ()
                        else
                          (case (m = ''notifications/resources/updated'', notification_params n ''uri'', jget n ''params'') of
                             (True, Some (JStr u), Some p) \<Rightarrow>
                               notify_session ev (ds_id s)
                                 (with_field n ''params'' (with_field p ''uri'' (JStr (ux_alias ux @ ''+'' @ u))))
                           | _ \<Rightarrow> notify_session ev (ds_id s) n))))))))"

definition client_supports :: "dsession \<Rightarrow> string \<Rightarrow> bool" where
  "client_supports s m \<longleftrightarrow>
     starts_with ''sampling/'' m \<and> truthy (map_of (ds_capabilities s) ''sampling'') \<or>
     starts_with ''elicitation/'' m \<and> truthy (map_of (ds_capabilities s) ''elicitation'') \<or>
     starts_with ''roots/'' m \<and> truthy (map_of (ds_capabilities s) ''roots'')"

text \<open>\<open>JsonRpcErrorCode\<close>.\<close>

definition policy_denied_code :: int where
  "policy_denied_code = -32003"

definition method_not_found_code :: int where
  "method_not_found_code = -32601"

definition internal_error_code :: int where
  "internal_error_code = -32603"

definition route_upstream_request ::
  "env \<Rightarrow> handler_config \<Rightarrow> upstream_context \<Rightarrow> json \<Rightarrow> string \<Rightarrow> json_object \<Rightarrow> json io" where
  "route_upstream_request ev cfg ux i m params =
     (if \<not> allows_server_request (hc_policy cfg) m then
        io_return (json_rpc_failure i policy_denied_code (''Gateway policy does not allow '' @ m) None)
      else
        (io_bind (live_get (\<lambda>l. map_of (lv_sessions l) (ux_downstreamSessionId ux))) (\<lambda>session.
         (case session of
              None \<Rightarrow> io_return (json_rpc_failure i method_not_found_code
                ''No downstream client is attached to this upstream session'' None)
            | Some s \<Rightarrow>
                if \<not> client_supports s m then
                  io_return (json_rpc_failure i method_not_found_code
                    (''The connected client does not support '' @ m) None)
                else io_catch
                  ((io_bind (ask_session ev s m params) (\<lambda>r.
                    io_return (json_rpc_success i r))))
                  (\<lambda>e. io_return (json_rpc_failure i internal_error_code (exn_message e) None))))))"

end
