(* ===== verification/Token_Manager_Facts.thy ===== *)
theory Token_Manager_Facts
  imports Token_Manager Store_Facts
begin

text \<open>
  What the token manager guarantees: a usable token costs no request, a refresh is bounded and
  never loses a grant, a code is only sent once every check has passed, a revocation clears what is
  stored; and two races its compare-and-swap does not settle.
\<close>

section \<open>What the statements keep\<close>

lemma keeps_require [inv_intros]: "keeps P (require_connection ref)"
  unfolding require_connection_def by (intro inv_intros)

lemma keeps_resolve_context [inv_intros]: "keeps P (resolve_client_context ev c)"
  unfolding resolve_client_context_def by (auto intro!: inv_intros split: option.splits)

lemma keeps_tables_dpop_key_for [inv_intros]: "keeps_tables I (dpop_key_for ev c)"
  unfolding dpop_key_for_def by (intro inv_intros) simp

lemma keeps_tables_breakers [inv_intros]:
  "keeps_tables I (set_breaker i f)" "keeps_tables I (breaker_check i)"
  unfolding breaker_check_def set_breaker_def by (intro inv_intros; simp)+

lemma keeps_tables_back_off [inv_intros]: "others_keep ev I \<Longrightarrow> keeps_tables I (back_off ev n)"
  unfolding back_off_def
  by (intro keeps_bind keeps_get) (simp add: keeps_def sleep_ms_def others_keep_def)

lemma keeps_new_url [inv_intros]: "keeps P (new_url ev s)"
  unfolding new_url_def by (intro inv_intros)

lemma keeps_tables_proof [inv_intros]: "keeps_tables I (create_dpop_proof ev k m u t n a)"
  unfolding create_dpop_proof_def canonical_htu_def by (intro inv_intros)

lemma keeps_tables_authentication [inv_intros]:
  "keeps_tables I (apply_client_authentication ev m c body endpoint)"
  unfolding apply_client_authentication_def create_client_assertion_def
  by (cases "cc_tokenEndpointAuthMethod c") (auto intro!: inv_intros)

lemma keeps_tables_remember [inv_intros]: "keeps_tables I (remember_token_nonce endpoint n)"
  unfolding remember_token_nonce_def by (intro inv_intros) simp

lemma keeps_tables_post_token_loop [inv_intros]:
  assumes "others_keep ev I"
  shows "keeps_tables I (post_token_loop ev policy m c body key endpoint retries nonce)"
proof (induction retries arbitrary: nonce)
  case 0
  show ?case
    unfolding post_token_loop.simps [of _ _ _ _ _ _ _ 0] dpop_header_def
    using assms by (auto intro!: inv_intros split: option.splits)
next
  case (Suc n)
  show ?case
    unfolding post_token_loop.simps [of _ _ _ _ _ _ _ "Suc n"] dpop_header_def
    using assms Suc by (auto intro!: inv_intros split: option.splits)
qed

lemma keeps_tables_post_token [inv_intros]:
  "others_keep ev I \<Longrightarrow> keeps_tables I (post_token ev policy m c body key)"
  unfolding post_token_def by (intro inv_intros)

lemma keeps_tables_client [inv_intros]:
  assumes "others_keep ev I"
  shows "keeps_tables I (client_exchange_code ev policy m c authCode v r res key)"
    "keeps_tables I (client_refresh ev policy m c token scopes res key)"
    "keeps_tables I (client_revoke ev policy m c token hint)"
  unfolding client_exchange_code_def client_refresh_def client_revoke_def
  using assms by (auto intro!: inv_intros)

lemma keeps_tables_with_lock [inv_intros]:
  assumes "others_keep ev I" and "keeps_tables I m"
  shows "keeps_tables I (with_lock ev key lease m)"
  unfolding keeps_def
proof (intro allI impI)
  fix w :: world assume "I (wd_db w)"
  then have "I (wd_db (snd (wait ev w)))" using keepsD [OF keeps_tables_wait [OF assms(1)]] by blast
  then have "I (wd_db (snd (m (snd (wait ev w)))))" "I (wd_db (snd (wait ev w)))"
    using keepsD [OF assms(2)] by blast+
  then show "I (wd_db (snd (with_lock ev key lease m w)))"
    by (auto simp: with_lock_def Let_def case_prod_beta)
qed

text \<open>A patch of the rows of one connection, and the writing of a token set.\<close>

definition all_connections :: "(connection \<Rightarrow> bool) \<Rightarrow> tables \<Rightarrow> bool" where
  "all_connections P t \<longleftrightarrow> list_all P (tb_connections t)"

lemma keeps_update_connection:
  assumes "\<And>r t. P r \<Longrightarrow> P ((patch r)\<lparr>uc_updatedAt := t\<rparr>)"
  shows "keeps_tables (all_connections P) (update_connection i patch)"
  unfolding update_connection_def
  by (intro inv_intros)
    (auto simp: all_connections_def connections_update_def update_rows_def list_all_iff Let_def assms)

lemma keeps_update_tokens:
  assumes "\<And>r t. P r \<Longrightarrow> uc_id r = tu_connectionId u \<Longrightarrow> P (write_tokens t u r)"
  shows "keeps_tables (all_connections P) (update_tokens u)"
  unfolding update_tokens_def
  by (intro inv_intros)
    (auto simp: all_connections_def connections_update_tokens_def update_rows_def list_all_iff Let_def assms)

lemma keeps_registration_status [inv_intros]:
  "keeps_tables (all_connections P) (set_registration_status i s)"
  unfolding set_registration_status_def
  by (intro inv_intros) (auto simp: all_connections_def split: prod.splits)

lemma ensures_require_connection:
  "ensures (\<lambda>w. all_connections P (wd_db w)) (require_connection ref)
     (\<lambda>c. P c \<and> uc_id c = rf_connectionId ref \<and> uc_tenantId c = rf_tenantId ref)"
  unfolding require_connection_def
proof (rule ensures_bind [OF ensures_db])
  fix w :: world assume ok: "all_connections P (wd_db w)"
  show "case connections_get (rf_tenantId ref) (rf_connectionId ref) (tb_connections (wd_db w)) of
      None \<Rightarrow> True | Some c \<Rightarrow> P c \<and> uc_id c = rf_connectionId ref \<and> uc_tenantId c = rf_tenantId ref"
    using ok by (auto simp: all_connections_def list_all_iff connections_get_def split: option.splits dest!: find_one_Some)
qed (auto intro!: ensures_intros split: option.splits)

section \<open>Grants survive\<close>

definition has_grant :: "string \<Rightarrow> connection \<Rightarrow> bool" where
  "has_grant i r \<longleftrightarrow> (uc_id r = i \<longrightarrow> uc_refreshTokenEncrypted r \<noteq> None)"

lemma keeps_persist_tokens:
  assumes "has_grant i c"
  shows "keeps_tables (all_connections (has_grant i)) (persist_tokens ev c tokens scopes)"
  unfolding persist_tokens_def
proof (rule keeps_bind [OF keeps_tables_draws(3)], rule keeps_bind_result)
  fix access refresh and w w' :: world
  assume "(case given (nt_refreshToken tokens) of
       None \<Rightarrow> io_return (uc_refreshTokenEncrypted c)
     | Some r \<Rightarrow> io_bind (encrypt ev \<lparr>ec_tenantId = uc_tenantId c, ec_purpose = Refresh_Token\<rparr> r)
           (\<lambda>s. io_return (Some s))) w = (Inr refresh, w')"
  then have "uc_id c = i \<longrightarrow> refresh \<noteq> None"
    using assms by (auto simp: has_grant_def io_bind_Inr split: option.splits)
  then show "keeps_tables (all_connections (has_grant i)) (io_bind now (\<lambda>t. update_tokens
      \<lparr>tu_connectionId = uc_id c, tu_expectedTokenVersion = uc_tokenVersion c,
       tu_accessTokenEncrypted = Some access, tu_refreshTokenEncrypted = refresh,
       tu_tokenType = Some (nt_tokenType tokens), tu_accessTokenExpiresAt = nt_expiresAt tokens,
       tu_refreshTokenExpiresAt = nt_refreshTokenExpiresAt tokens, tu_grantedScopes = unique scopes,
       tu_status = (if given refresh \<noteq> None then CONNECTED else CONNECTED_NON_REFRESHABLE),
       tu_lastRefreshAt = t\<rparr>))"
    by (intro keeps_bind keeps_now keeps_update_tokens) (auto simp: has_grant_def write_tokens_def)
qed (auto intro!: inv_intros split: option.splits)

lemma keeps_grant_marks [inv_intros]:
  "keeps_tables (all_connections (has_grant i)) (mark_reauth_required c k)"
  "keeps_tables (all_connections (has_grant i)) (apply_refresh_failure c kind e)"
proof -
  show 1: "keeps_tables (all_connections (has_grant i)) (mark_reauth_required c k)" for k
    unfolding mark_reauth_required_def by (rule keeps_update_connection) (simp add: has_grant_def)
  have 2: "keeps_tables (all_connections (has_grant i)) (update_connection j (\<lambda>r. r\<lparr>uc_status := s,
      uc_lastErrorCode := code', uc_lastErrorMessageRedacted := msg\<rparr>))" for j s code' msg
    by (rule keeps_update_connection) (simp add: has_grant_def)
  show "keeps_tables (all_connections (has_grant i)) (apply_refresh_failure c kind e)"
    unfolding apply_refresh_failure_def by (cases kind) (auto intro!: inv_intros 1 2)
qed

lemma keeps_grant_refresh_once:
  assumes "others_keep ev (all_connections (has_grant i))" and "has_grant i c"
  shows "keeps_tables (all_connections (has_grant i)) (refresh_once ev cfg c m cred token resource key)"
  unfolding refresh_once_def decrypt_access_token_def
  by (intro inv_intros keeps_persist_tokens assms)

lemma keeps_grant_fail [inv_intros]: "keeps_tables (all_connections (has_grant i)) (fail_refresh cfg c e)"
  unfolding fail_refresh_def by (intro inv_intros)

lemma keeps_grant_refresh_loop:
  assumes "others_keep ev (all_connections (has_grant i))" and "has_grant i c"
  shows "keeps_tables (all_connections (has_grant i))
    (refresh_loop ev cfg c m cred token resource key attempt left)"
  by (induction left arbitrary: attempt)
    (auto intro!: inv_intros keeps_grant_refresh_once assms)

lemma keeps_grant_refresh_locked:
  assumes "others_keep ev (all_connections (has_grant i))" and "has_grant i c"
  shows "keeps_tables (all_connections (has_grant i)) (refresh_locked ev cfg c)"
  unfolding refresh_locked_def by (intro inv_intros keeps_grant_refresh_loop assms)

lemma keeps_of_ensures: "ensures I m R \<Longrightarrow> keeps I m"
  by (simp add: keeps_def ensures_state)

lemma keeps_under_lock:
  assumes "others_keep ev (all_connections (has_grant i))"
  shows "keeps_tables (all_connections (has_grant i)) (io_bind (require_connection ref) (\<lambda>latest.
    io_seq (io_lift (assert_usable cfg latest)) (io_bind now (\<lambda>t.
      if is_access_token_usable t headroom latest then decrypt_access_token ev latest
      else refresh_locked ev cfg latest))))"
proof (rule keeps_of_ensures, rule ensures_bind [OF ensures_require_connection])
  fix c assume c: "has_grant i c \<and> uc_id c = rf_connectionId ref \<and> uc_tenantId c = rf_tenantId ref"
  show "ensures (\<lambda>w. all_connections (has_grant i) (wd_db w)) (io_seq (io_lift (assert_usable cfg c)) (io_bind now (\<lambda>t.
      if is_access_token_usable t headroom c then decrypt_access_token ev c
      else refresh_locked ev cfg c))) (\<lambda>_. True)"
    unfolding decrypt_access_token_def
    by (rule ensures_keeps) (use c assms in \<open>auto intro!: inv_intros keeps_grant_refresh_locked\<close>)
qed

section \<open>Properties\<close>

text \<open>
  C7: Getting an access token never loses a grant: whatever the authorization server answers, however
  often the refresh is retried and whatever the other workers do in between, a connection that has a
  refresh token still has one, on success and on every error.
\<close>

theorem grant_survives:
  assumes "others_keep ev (all_connections (has_grant i))" and "all_connections (has_grant i) (wd_db w)"
  shows "all_connections (has_grant i) (wd_db (snd (get_valid_access_token ev cfg ref m w)))"
proof -
  have "keeps_tables (all_connections (has_grant i)) (get_valid_access_token ev cfg ref m)"
    unfolding get_valid_access_token_def decrypt_access_token_def Let_def
    by (intro inv_intros keeps_under_lock [unfolded decrypt_access_token_def] assms(1))
  then show ?thesis using assms(2) keepsD by blast
qed



definition demo_connection :: connection where
  "demo_connection = \<lparr>uc_id = ''conn'', uc_tenantId = ''t'', uc_ownerType = USER, uc_ownerId = ''t'',
     uc_mcpServerId = ''srv'', uc_oauthIssuerId = Some ''iss'', uc_oauthClientRegistrationId = Some ''reg'',
     uc_alias = ''al'', uc_grantedScopes = [], uc_requestedScopes = [], uc_accessTokenEncrypted = None,
     uc_refreshTokenEncrypted = Some ''r'', uc_staticHeadersEncrypted = None, uc_tokenType = None,
     uc_accessTokenExpiresAt = None, uc_refreshTokenExpiresAt = None, uc_tokenVersion = 1,
     uc_dpopKeyReference = None, uc_status = CONNECTED, uc_lastRefreshAt = None, uc_lastSuccessAt = None,
     uc_lastErrorCode = None, uc_lastErrorMessageRedacted = None, uc_createdAt = 0, uc_updatedAt = 0\<rparr>"

definition demo_manager :: token_manager_config where
  "demo_manager = \<lparr>tc_deps = demo_deps, tc_accessTokenSafetyWindowMs = 0, tc_transactionTtlMs = 9,
     tc_maxRefreshRetries = 1\<rparr>"

definition demo_connected :: world where
  "demo_connected = demo_world\<lparr>wd_db := demo_tables\<lparr>tb_connections := [demo_connection]\<rparr>\<rparr>"

definition demo_ref :: connection_ref where
  "demo_ref = \<lparr>rf_tenantId = ''t'', rf_connectionId = ''conn''\<rparr>"

lemma demo_others: "others_keep demo_env I"
  by (simp add: others_keep_def demo_env_def)

lemma grant_survives_witness:
  "all_connections (has_grant ''conn'') (wd_db (snd (get_valid_access_token demo_env demo_manager demo_ref 0 demo_connected)))"
  by (rule grant_survives [OF demo_others])
    (simp add: demo_connected_def demo_connection_def all_connections_def has_grant_def)

section \<open>What a refresh sends\<close>

lemma quiet_option: "quiet m \<Longrightarrow> (\<And>x. quiet (f x)) \<Longrightarrow> quiet (case v of None \<Rightarrow> m | Some x \<Rightarrow> f x)"
  by (cases v) simp_all

lemma quiet_seq: "quiet m \<Longrightarrow> quiet n \<Longrightarrow> quiet (io_seq m n)"
  unfolding io_seq_def by (intro quiet_bind)

lemma quiet_patch: "quiet (update_connection i f)" "quiet (update_tokens u)" "quiet (require_connection ref)"
  "quiet (set_breaker i g)" "quiet (breaker_check i)" "quiet (set_registration_status i s)"
  unfolding update_connection_def update_tokens_def require_connection_def set_breaker_def breaker_check_def
    set_registration_status_def
  by (intro quiet_bind quiet_seq quiet_basic quiet_option quiet_prod quiet_more)+

lemma quiet_persist: "quiet (persist_tokens ev c tokens scopes)"
  unfolding persist_tokens_def by (intro quiet_bind quiet_draws quiet_option quiet_basic quiet_patch)

lemma quiet_context: "quiet (resolve_client_context ev c)"
  unfolding resolve_client_context_def by (auto intro!: quiet_bind quiet_basic split: option.splits)

lemma quiet_key: "quiet (dpop_key_for ev c)"
  unfolding dpop_key_for_def by (intro quiet_bind quiet_seq quiet_basic quiet_option quiet_more)

lemma quiet_fail_refresh: "quiet (fail_refresh cfg c e)"
proof -
  have "quiet (apply_refresh_failure c k e)" for k
    unfolding apply_refresh_failure_def mark_reauth_required_def
    by (cases k) (auto intro!: quiet_patch quiet_seq quiet_option quiet_basic)
  then show ?thesis unfolding fail_refresh_def by (intro quiet_bind quiet_seq quiet_patch quiet_basic)
qed

lemma quiet_back_off: "quiet (back_off ev n)"
  unfolding back_off_def
  by (intro quiet_bind quiet_basic) (simp add: quiet_def emits_zero sleep_ms_def)

definition refresh_post :: "token_manager_config \<Rightarrow> wire_request \<Rightarrow> bool" where
  "refresh_post cfg rq \<longleftrightarrow>
     wq_method rq = ''POST'' \<and> sent_permitted (od_policy (tc_deps cfg)) rq \<and>
     (\<exists>kvs. wq_body rq = Form kvs \<and> map_of kvs ''grant_type'' = Some ''refresh_token'')"

lemma emits_refresh:
  "emits (refresh_post cfg) 2 (client_refresh ev (od_policy (tc_deps cfg)) m c token scopes res key)"
  unfolding client_refresh_def
proof (rule emits_weaken [OF post_token_emits])
  let ?b = "refresh_body token scopes res"
  fix rq assume "\<exists>endpoint. am_token_endpoint m = Some endpoint \<and>
      posted_form ev (od_policy (tc_deps cfg)) endpoint (carries ?b) rq"
  then obtain endpoint where *: "posted_form ev (od_policy (tc_deps cfg)) endpoint (carries ?b) rq" by blast
  have get: "map_of ?b ''grant_type'' = Some ''refresh_token''"
    by (simp add: refresh_body_def split: option.splits)
  then have "(''grant_type'', ''refresh_token'') \<in> set ?b" by (rule map_of_SomeD)
  with get have "carries ?b kvs \<Longrightarrow> map_of kvs ''grant_type'' = Some ''refresh_token''" for kvs
    by (auto simp: carries_def list_all_iff auth_params_def)
  with posted_formD [OF *] show "refresh_post cfg rq" by (auto simp: refresh_post_def)
qed

lemma emits_refresh_once:
  "emits (refresh_post cfg) 2 (refresh_once ev cfg c m cred token resource key)"
  unfolding refresh_once_def decrypt_access_token_def
  by (rule emits_bind_quiet [OF emits_refresh])
    (auto intro!: quiet_bind quiet_seq quiet_persist quiet_patch quiet_basic)

lemma emits_refresh_loop:
  "emits (refresh_post cfg) (2 * (left + 1)) (refresh_loop ev cfg c m cred token resource key attempt left)"
proof (induction left arbitrary: attempt)
  case 0
  show ?case
    using emits_catch [OF emits_refresh_once quiet_emits [OF quiet_fail_refresh], of _ 0] by simp
next
  case (Suc n)
  have "emits (refresh_post cfg) (2 * (n + 1)) (if classify_token_failure e = TRANSIENT
      then io_seq (back_off ev (attempt + 1)) (refresh_loop ev cfg c m cred token resource key (attempt + 1) n)
      else fail_refresh cfg c e)" for e
    using Suc quiet_emits [OF quiet_fail_refresh]
    by (auto simp: io_seq_def intro!: emits_quiet_bind quiet_back_off)
  from emits_catch [OF emits_refresh_once this] show ?case by (simp add: algebra_simps)
qed

lemma emits_with_lock: "emits Q n m \<Longrightarrow> emits Q n (with_lock ev key lease m)"
  unfolding emits_def
proof (intro allI)
  fix w :: world assume "\<forall>w. \<exists>rqs. wd_sent (snd (m w)) = wd_sent w @ rqs \<and> list_all Q rqs \<and> length rqs \<le> n"
  then obtain rqs where "wd_sent (snd (m (snd (wait ev w)))) = wd_sent (snd (wait ev w)) @ rqs"
    "list_all Q rqs" "length rqs \<le> n" by blast
  moreover have "wd_sent (snd (wait ev w)) = wd_sent w" by (simp add: wait_def)
  ultimately show "\<exists>rqs. wd_sent (snd (with_lock ev key lease m w)) = wd_sent w @ rqs \<and> list_all Q rqs \<and> length rqs \<le> n"
    by (auto simp: with_lock_def Let_def case_prod_beta)
qed

lemma emits_if: "(b \<Longrightarrow> emits Q n x) \<Longrightarrow> (\<not> b \<Longrightarrow> emits Q n y) \<Longrightarrow> emits Q n (if b then x else y)"
  by simp

lemma emits_refresh_locked:
  "emits (refresh_post cfg) (2 * (tc_maxRefreshRetries cfg + 1)) (refresh_locked ev cfg c)"
  unfolding refresh_locked_def
  by (intro emits_quiet_bind quiet_patch emits_if emits_quiet(2) quiet_basic quiet_context emits_prod quiet_key
      emits_refresh_loop)

text \<open>
  C19: Getting an access token ends after a bounded number of requests, whatever the authorization
  server answers: at most two for each of the \<open>maxRefreshRetries + 1\<close> attempts, the second only as
  the retry a DPoP nonce asks for; each is a permitted POST of the \<open>refresh_token\<close> grant.
\<close>

theorem refresh_bounded:
  "\<exists>rqs. wd_sent (snd (get_valid_access_token ev cfg ref m w)) = wd_sent w @ rqs \<and>
    length rqs \<le> 2 * (tc_maxRefreshRetries cfg + 1) \<and> list_all (refresh_post cfg) rqs"
proof -
  have "emits (refresh_post cfg) (2 * (tc_maxRefreshRetries cfg + 1)) (get_valid_access_token ev cfg ref m)"
    unfolding get_valid_access_token_def decrypt_access_token_def Let_def io_seq_def mark_reauth_required_def
    by (intro emits_quiet_bind quiet_patch quiet_basic emits_if emits_quiet emits_with_lock emits_refresh_locked)
  then show ?thesis unfolding emits_def by meson
qed

section \<open>Revocation\<close>

lemma io_finally_snd: "snd (io_finally m n w) = snd (n (snd (m w)))"
  by (auto simp: io_finally_def split: prod.splits sum.splits)

lemma update_connection_tables:
  "tb_connections (wd_db (snd (update_connection i f w))) =
     map (\<lambda>r. if uc_id r = i then (f r)\<lparr>uc_updatedAt := wd_now w\<rparr> else r) (tb_connections (wd_db w))"
  by (auto simp: update_connection_def connections_update_def db_run_def update_rows_def Let_def io_lift_def
      io_bind_def io_return_def io_throw_def now_def io_get_def require_found_def
      split: prod.splits sum.splits option.splits)

lemma bind_require_connection:
  "connections_get (rf_tenantId ref) (rf_connectionId ref) (tb_connections (wd_db w)) = Some c \<Longrightarrow>
     io_bind (require_connection ref) f w = f c w"
  by (rule io_bind_eq) (simp add: require_connection_def)

text \<open>
  C9: Revoking a connection removes its tokens here whatever happens upstream: once the call returns
  or throws, no row of the connection holds an access or a refresh token and each asks for a new
  authorization, even when the server cannot be reached, answers with an error, or the other workers
  stored new tokens while it was asked.
\<close>

theorem revocation_clears:
  assumes "connections_get (rf_tenantId ref) (rf_connectionId ref) (tb_connections (wd_db w)) = Some c"
    and "given (uc_oauthIssuerId c) \<noteq> None"
  shows "all_connections (\<lambda>r. uc_id r = uc_id c \<longrightarrow> uc_accessTokenEncrypted r = None \<and>
      uc_refreshTokenEncrypted r = None \<and> uc_status r = REAUTH_REQUIRED)
    (wd_db (snd (revoke_connection ev cfg ref w)))"
  using assms
  by (auto simp: revoke_connection_def bind_require_connection io_finally_snd update_connection_tables
      all_connections_def list_all_iff clear_tokens_def)

lemma revocation_clears_witness:
  "all_connections (\<lambda>r. uc_id r = ''conn'' \<longrightarrow> uc_accessTokenEncrypted r = None \<and>
      uc_refreshTokenEncrypted r = None \<and> uc_status r = REAUTH_REQUIRED)
    (wd_db (snd (revoke_connection demo_env demo_manager demo_ref demo_connected)))"
  using revocation_clears [of demo_ref demo_connected demo_connection demo_env demo_manager]
  by (simp add: demo_ref_def demo_connected_def demo_connection_def connections_get_def find_one_def given_def)


text \<open>
  The version a revocation writes is the one it read before it asked the server, plus one. When a
  refresh committed meanwhile, that is the version the row already has, so a second refresh that read
  the row before the revocation still passes its compare-and-swap: the revoked connection has tokens
  again and is connected.
\<close>

theorem revocation_undone:
  assumes "uc_tokenVersion r = uc_tokenVersion c + 1"
    and "tu_connectionId u = uc_id r" and "tu_expectedTokenVersion u = uc_tokenVersion r"
    and "tu_status u = CONNECTED" and "tu_accessTokenEncrypted u = Some sealed"
  shows "\<exists>q. connections_update_tokens t u [clear_tokens c r] = (True, [q]) \<and> uc_id q = uc_id r \<and>
    uc_accessTokenEncrypted q = Some sealed \<and> uc_status q = CONNECTED"
  using assms
  by (simp add: connections_update_tokens_def update_rows_def clear_tokens_def write_tokens_def)

definition demo_update :: token_update where
  "demo_update = \<lparr>tu_connectionId = ''conn'', tu_expectedTokenVersion = 2, tu_accessTokenEncrypted = Some ''a'',
     tu_refreshTokenEncrypted = Some ''r2'', tu_tokenType = Some ''Bearer'', tu_accessTokenExpiresAt = None,
     tu_refreshTokenExpiresAt = None, tu_grantedScopes = [], tu_status = CONNECTED, tu_lastRefreshAt = 4\<rparr>"

lemma revocation_undone_witness:
  "map uc_status (snd (connections_update_tokens 5 demo_update
     [clear_tokens demo_connection (demo_connection\<lparr>uc_tokenVersion := 2\<rparr>)])) = [CONNECTED]"
  using revocation_undone [of "demo_connection\<lparr>uc_tokenVersion := 2\<rparr>" demo_connection demo_update "''a''" 5]
  by (auto simp: demo_connection_def demo_update_def)

section \<open>The code is sent once\<close>

abbreviation spent_table :: "string \<Rightarrow> tables \<Rightarrow> bool" where
  "spent_table i \<equiv> \<lambda>t. transaction_spent i (tb_transactions t)"

lemma keeps_spent_fail [inv_intros]: "keeps_tables (spent_table i) (fail_transaction j)"
  unfolding fail_transaction_def
  by (intro inv_intros)
    (auto simp: transactions_fail_def transaction_spent_def update_rows_def consumable_def split: if_splits)

lemma keeps_spent_patches [inv_intros]:
  "keeps_tables (spent_table i) (update_connection k f)" "keeps_tables (spent_table i) (update_tokens u)"
  "keeps_tables (spent_table i) (set_registration_status n s)"
  "keeps_tables (spent_table i) (create_registration r)"
  unfolding update_connection_def update_tokens_def set_registration_status_def create_registration_def
  by (auto intro!: inv_intros simp: Let_def split: prod.splits)

lemma keeps_spent_persist [inv_intros]: "keeps_tables (spent_table i) (persist_tokens ev c tokens scopes)"
  unfolding persist_tokens_def by (intro inv_intros)

lemma keeps_spent_reregister [inv_intros]:
  "others_keep ev (spent_table i) \<Longrightarrow> keeps_tables (spent_table i) (selector_reregister ev d c previousId)"
  unfolding selector_reregister_def dynamic_reregister_def register_client_def registration_attempt_def
    store_dynamic_def
  by (auto simp: Let_def intro!: inv_intros split: option.splits prod.splits)

lemma keeps_spent_replace [inv_intros]:
  "others_keep ev (spent_table i) \<Longrightarrow> keeps_tables (spent_table i) (reregister_after_rejection ev cfg c used e)"
  unfolding reregister_after_rejection_def replace_client_def
  by (auto intro!: inv_intros split: option.splits exn.splits)

lemma keeps_spent_finish [inv_intros]:
  "others_keep ev (spent_table i) \<Longrightarrow> keeps_tables (spent_table i) (finish_exchange ev cfg c x authCode)"
  unfolding finish_exchange_def exchange_or_record_def exchange_with_client_def record_connection_error_def
  by (auto simp: Let_def intro!: inv_intros)

lemma consume_not_spent: "fst (transactions_consume i t rows) \<Longrightarrow> \<not> transaction_spent i rows"
  using filter_False [of rows "consumable i"]
  by (fastforce simp: transactions_consume_def transaction_spent_def update_rows_def Let_def)

lemma quiet_fail_transaction: "quiet (fail_transaction i)"
  unfolding fail_transaction_def by (rule quiet_basic)

text \<open>What is left once every check has passed.\<close>

definition after_checks ::
  "env \<Rightarrow> token_manager_config \<Rightarrow> oauth_callback_input \<Rightarrow> oauth_transaction \<Rightarrow> string \<Rightarrow> callback_result io" where
  "after_checks ev cfg cb x authCode = io_bind (assert_response_issuer x (ci_iss cb)) (\<lambda>_.
     io_bind (db (\<lambda>t. connections_get (ot_tenantId x) (ot_connectionId x) (tb_connections t))) (\<lambda>conn.
       case conn of None \<Rightarrow> io_seq (fail_transaction (ot_id x)) (io_fail (gerr NOT_FOUND ''Connection no longer exists''))
       | Some c \<Rightarrow> io_bind (consume_transaction (ot_id x)) (\<lambda>consumed.
           if \<not> consumed then io_fail (gerr CONFLICT ''This authorization response was already processed'')
           else finish_exchange ev cfg c x authCode)))"

lemma exchange_code_eq:
  assumes "transactions_find_by_state_hash (ev_sha256_hex ev s) (tb_transactions (wd_db w)) = Some x"
    and "given (ci_state cb) = Some s"
  shows "exchange_code ev cfg cb w =
    (case given (ci_error cb) of
       Some e \<Rightarrow> (Inl (Gateway_Exn (gerr TOKEN_EXCHANGE_FAILED (''Authorization server returned '' @ clamp_text e 64))), w)
     | None \<Rightarrow> (case given (ci_code cb) of
         None \<Rightarrow> (Inl (Gateway_Exn (gerr INVALID_REQUEST ''Missing authorization code or state'')), w)
       | Some authCode \<Rightarrow>
           if ot_expiresAt x \<le> wd_now w then
             io_seq (fail_transaction (ot_id x)) (io_fail (gerr INVALID_REQUEST ''Authorization transaction expired'')) w
           else if (case ci_actingUserId cb of None \<Rightarrow> False | Some u \<Rightarrow> u \<noteq> ot_userId x)
           then (Inl (Gateway_Exn (gerr FORBIDDEN ''The signed-in user does not own this authorization transaction'')), w)
           else after_checks ev cfg cb x authCode w))"
  using assms by (simp add: exchange_code_def after_checks_def io_seq_def split: option.splits)


lemma quiet_assert_issuer: "quiet (assert_response_issuer x iss)"
  unfolding assert_response_issuer_def by (auto intro!: quiet_bind quiet_basic quiet_option)

lemma issuer_accepted: "assert_response_issuer x (Some j) w = (Inr u, w') \<Longrightarrow> same_issuer j (ot_issuer x)"
  by (auto simp: assert_response_issuer_def split: if_splits)

lemma assert_issuer_state: "snd (assert_response_issuer x iss w) = w"
  by (auto simp: assert_response_issuer_def split: option.splits)

lemma after_checks_sent:
  assumes "others_keep ev (spent_table (ot_id x))"
    and "wd_sent (snd (after_checks ev cfg cb x authCode w)) \<noteq> wd_sent w"
  shows "(\<forall>j. ci_iss cb = Some j \<longrightarrow> same_issuer j (ot_issuer x)) \<and>
    \<not> spent_table (ot_id x) (wd_db w) \<and> spent_table (ot_id x) (wd_db (snd (after_checks ev cfg cb x authCode w)))"
proof -
  let ?i = "ot_id x"
  obtain r w1 where a: "assert_response_issuer x (ci_iss cb) w = (r, w1)" by fastforce
  then have w1: "w1 = w" using assert_issuer_state [of x "ci_iss cb" w] by simp
  from assms(2) a w1 obtain u where u: "r = Inr u" by (cases r) (auto simp: after_checks_def io_bind_err)
  from assms(2) a w1 u obtain c where
    c: "connections_get (ot_tenantId x) (ot_connectionId x) (tb_connections (wd_db w)) = Some c"
    by (auto simp: after_checks_def io_bind_eq io_seq_def quietD [OF quiet_bind [OF quiet_fail_transaction quiet_basic(2)]]
        split: option.splits)
  define w2 where "w2 = snd (consume_transaction ?i w)"
  let ?won = "fst (transactions_consume ?i (wd_now w) (tb_transactions (wd_db w)))"
  have m: "consume_transaction ?i w = (Inr ?won, w2)"
    by (simp add: w2_def consume_transaction_def db_run_def case_prod_beta Let_def)
  have w2: "wd_sent w2 = wd_sent w" "spent_table ?i (wd_db w2)"
    by (simp_all add: w2_def consume_transaction_def db_run_def case_prod_beta Let_def consume_spends)
  have run: "after_checks ev cfg cb x authCode w =
      (if \<not> ?won then (Inl (Gateway_Exn (gerr CONFLICT ''This authorization response was already processed'')), w2)
       else finish_exchange ev cfg c x authCode w2)"
    by (simp add: after_checks_def io_bind_eq [where m = "assert_response_issuer x (ci_iss cb)", OF a [unfolded u]] w1 c
          io_bind_eq [where m = "consume_transaction ?i", OF m])
  have "?won" using assms(2) run w2(1) by (cases ?won) simp_all
  moreover have "spent_table ?i (wd_db (snd (finish_exchange ev cfg c x authCode w2)))"
    by (rule keepsD [OF keeps_spent_finish [OF assms(1)] w2(2)])
  ultimately show ?thesis
    using run issuer_accepted a u consume_not_spent by fastforce
qed

text \<open>
  C6: A code leaves the gateway only for a transaction that is still open. When handling a callback
  puts anything on the wire, the response carries no error, the transaction of its state has not
  expired, the signed-in user owns it, an issuer in the response is the transaction's, and the
  transaction was still to be consumed; afterwards it is spent, so that no later callback with this
  state sends a code, however the first one ended.
\<close>

theorem code_sent_once:
  assumes "others_keep ev (\<lambda>t. transaction_spent (ot_id x) (tb_transactions t))"
    and "transactions_find_by_state_hash (ev_sha256_hex ev s) (tb_transactions (wd_db w)) = Some x"
    and "given (ci_state cb) = Some s"
    and "wd_sent (snd (exchange_code ev cfg cb w)) \<noteq> wd_sent w"
  shows "given (ci_error cb) = None \<and> wd_now w < ot_expiresAt x \<and>
    (\<forall>u. ci_actingUserId cb = Some u \<longrightarrow> u = ot_userId x) \<and>
    (\<forall>j. ci_iss cb = Some j \<longrightarrow> same_issuer j (ot_issuer x)) \<and>
    \<not> transaction_spent (ot_id x) (tb_transactions (wd_db w)) \<and>
    transaction_spent (ot_id x) (tb_transactions (wd_db (snd (exchange_code ev cfg cb w))))"
proof -
  note eq = exchange_code_eq [where cfg = cfg, OF assms(2,3)]
  have quiet: "wd_sent (snd (io_seq (fail_transaction i) (io_fail e) v)) = wd_sent v" for i e and v :: world
    by (rule quietD [OF quiet_seq [OF quiet_fail_transaction quiet_basic(2)]])
  from assms(4) obtain authCode where ok: "given (ci_error cb) = None" "wd_now w < ot_expiresAt x"
      "\<forall>u. ci_actingUserId cb = Some u \<longrightarrow> u = ot_userId x"
    and run: "exchange_code ev cfg cb w = after_checks ev cfg cb x authCode w"
    unfolding eq by (auto simp: quiet split: option.splits if_splits)
  from assms(4) have "wd_sent (snd (after_checks ev cfg cb x authCode w)) \<noteq> wd_sent w" by (simp add: run)
  from after_checks_sent [OF assms(1) this] ok show ?thesis by (simp add: run)
qed


definition demo_public_client :: client_registration where
  "demo_public_client = \<lparr>cr_id = ''reg'', cr_tenantId = ''t'', cr_issuerId = ''iss'',
     cr_registrationType = PRECONFIGURED, cr_clientId = ''cid'', cr_encryptedClientSecret = None,
     cr_tokenEndpointAuthMethod = NONE_METHOD, cr_redirectUris = [], cr_registrationAccessTokenEncrypted = None,
     cr_registrationClientUri = None, cr_issuedAt = 0, cr_secretExpiresAt = None, cr_metadataJson = [],
     cr_status = REG_ACTIVE\<rparr>"

definition demo_transaction :: oauth_transaction where
  "demo_transaction = \<lparr>ot_id = ''txn'', ot_tenantId = ''t'', ot_userId = ''u'', ot_connectionId = ''conn'',
     ot_issuer = ''https://as.example'', ot_stateHash = ''#s'',
     ot_pkceVerifierEncrypted = projr (vault_encrypt demo_aes (ev_keys demo_env)
       \<lparr>sl_dataKey = [], sl_iv = [], sl_wrapIv = replicate 12 (CHR ''i'')\<rparr>
       \<lparr>ec_tenantId = ''t'', ec_purpose = Pkce_Verifier\<rparr> ''v''),
     ot_redirectUri = ''r'', ot_requestedScopes = [], ot_resource = None, ot_expiresAt = 9,
     ot_consumedAt = None, ot_status = TXN_PENDING, ot_returnTo = None\<rparr>"

definition demo_pending :: world where
  "demo_pending = demo_world\<lparr>wd_db := demo_tables\<lparr>tb_connections := [demo_connection],
     tb_transactions := [demo_transaction], tb_issuers := [demo_issuer_record],
     tb_registrations := [demo_public_client]\<rparr>\<rparr>"

definition demo_callback :: oauth_callback_input where
  "demo_callback = \<lparr>ci_code = Some ''c'', ci_state = Some ''s'', ci_iss = Some ''https://as.example'',
     ci_error = None, ci_actingUserId = Some ''u''\<rparr>"

lemma code_sent_once_witness:
  "transaction_spent ''txn'' (tb_transactions (wd_db (snd (exchange_code demo_env demo_manager demo_callback demo_pending))))"
proof -
  have x: "transactions_find_by_state_hash (ev_sha256_hex demo_env ''s'') (tb_transactions (wd_db demo_pending)) =
      Some demo_transaction"
    by (simp add: transactions_find_by_state_hash_def find_one_def demo_pending_def demo_transaction_def demo_env_def)
  have s: "given (ci_state demo_callback) = Some ''s''" by (simp add: demo_callback_def given_def)
  have "wd_sent (snd (exchange_code demo_env demo_manager demo_callback demo_pending)) \<noteq> []"
    by code_simp
  then have sent: "wd_sent (snd (exchange_code demo_env demo_manager demo_callback demo_pending)) \<noteq> wd_sent demo_pending"
    by (simp add: demo_pending_def demo_world_def)
  from code_sent_once [OF demo_others x s sent] show ?thesis by (simp add: demo_transaction_def)
qed

end
