(* ===== verification/Guarded.thy ===== *)
theory Guarded
  imports Gateway_Handler Token_Manager_Facts
begin

text \<open>
  Predicates of the connections and of the messages sent to upstreams (\<open>guarded\<close>), and the lemmas
  that the services of the gateway keep them: those that leave both alone whatever the predicate,
  those that write rows or send messages as long as what they write and send satisfies it.
\<close>

section \<open>What the statements keep\<close>

text \<open>
  A predicate of the tables and of the messages sent to upstreams; and \<open>old\<close> was put on the clients'
  streams before anything else.
\<close>

definition since ::
  "stream_write list \<Rightarrow> (tables \<Rightarrow> bool) \<Rightarrow> (upstream_call \<Rightarrow> bool) \<Rightarrow> world \<Rightarrow> bool" where
  "since old I Q w \<longleftrightarrow> I (wd_db w) \<and> list_all Q (wd_calls w) \<and> (\<exists>new. wd_written w = old @ new)"

abbreviation guarded :: "(tables \<Rightarrow> bool) \<Rightarrow> (upstream_call \<Rightarrow> bool) \<Rightarrow> world \<Rightarrow> bool" where
  "guarded \<equiv> since []"

lemma guarded_def: "guarded I Q w \<longleftrightarrow> I (wd_db w) \<and> list_all Q (wd_calls w)"
  by (simp add: since_def)

lemma since_simps [simp]:
  "since old I Q (w\<lparr>wd_live := l\<rparr>) = since old I Q w"
  "since old I Q (w\<lparr>wd_drawn := n\<rparr>) = since old I Q w" "since old I Q (w\<lparr>wd_now := t\<rparr>) = since old I Q w"
  "since old I Q (w\<lparr>wd_waits := k\<rparr>) = since old I Q w"
  by (simp_all add: since_def)

lemma since_written: "since old I Q w \<Longrightarrow> since old I Q (w\<lparr>wd_live := l, wd_written := wd_written w @ vs\<rparr>)"
  by (auto simp: since_def)

lemma since_db: "I (wd_db w) \<Longrightarrow> since old I Q (w\<lparr>wd_db := d\<rparr>) =
    (I d \<and> list_all Q (wd_calls w) \<and> (\<exists>new. wd_written w = old @ new))"
  by (simp add: since_def)

lemma keeps_guarded_draws [inv_intros]:
  "keeps (since old I Q) (draw ev)" "keeps (since old I Q) (new_id ev p)"
  by (rule keeps_draw keeps_draws; simp add: blind_to_draws_def)+

lemma keeps_guarded_wait [inv_intros]: "others_keep ev I \<Longrightarrow> keeps (since old I Q) (upstream_wait ev)"
  by (simp add: keeps_def upstream_wait_def since_def others_keep_def)

lemma keeps_guarded_live [inv_intros]: "keeps P (live_get f)" "keeps (since old I Q) (live_modify g)"
  by (simp_all add: live_get_def live_modify_def keeps_get keeps_def)

lemma keeps_guarded_session [inv_intros]: "keeps (since old I Q) (io_modify (session_apply i f))"
  by (auto simp: keeps_def session_apply_def since_written split: option.splits prod.splits)

lemma keeps_guarded_modify [inv_intros]:
  "(\<And>d. I d \<Longrightarrow> I (g d)) \<Longrightarrow> keeps (since old I Q) (db_modify g)"
  by (simp add: keeps_def since_def)

lemma keeps_guarded_run [inv_intros]:
  "(\<And>d. I d \<Longrightarrow> I (snd (g d))) \<Longrightarrow> keeps (since old I Q) (db_run g)"
  by (simp add: keeps_def since_def db_run_def case_prod_beta Let_def)

lemma keeps_guarded_insert [inv_intros]:
  "(\<And>d u. I d \<Longrightarrow> g d = Some u \<Longrightarrow> I u) \<Longrightarrow> keeps (since old I Q) (db_insert g)"
  by (auto simp: keeps_def since_def db_insert_def split: option.splits)

lemma keeps_guarded_request [inv_intros]:
  assumes "others_keep ev I" and "Q q"
  shows "keeps (since old I Q) (upstream_request ev q)"
  unfolding upstream_request_def
proof (intro keeps_bind keeps_get keeps_seq keeps_guarded_wait [OF assms(1)] keeps_sum keeps_throw keeps_return)
  show "keeps (since old I Q) (io_modify (\<lambda>w. w\<lparr>wd_calls := wd_calls w @ [q]\<rparr>))"
    using assms(2) by (simp add: keeps_def since_def)
qed

text \<open>The tables that say which connections there are.\<close>

definition of_connections :: "(connection list \<Rightarrow> bool) \<Rightarrow> tables \<Rightarrow> bool" where
  "of_connections P t \<longleftrightarrow> P (tb_connections t)"

lemma of_connections_simps [simp]:
  "of_connections P (d\<lparr>tb_audit := a\<rparr>) = of_connections P d"
  "of_connections P (d\<lparr>tb_upstream := b\<rparr>) = of_connections P d"
  "of_connections P (d\<lparr>tb_downstream := c\<rparr>) = of_connections P d"
  "of_connections P (d\<lparr>tb_transactions := e\<rparr>) = of_connections P d"
  "of_connections P (d\<lparr>tb_servers := f\<rparr>) = of_connections P d"
  "of_connections P (d\<lparr>tb_issuers := g\<rparr>) = of_connections P d"
  "of_connections P (d\<lparr>tb_registrations := h\<rparr>) = of_connections P d"
  "of_connections P (d\<lparr>tb_dpop_keys := i\<rparr>) = of_connections P d"
  "of_connections P (d\<lparr>tb_tools := j\<rparr>) = of_connections P d"
  "of_connections P (d\<lparr>tb_resources := k\<rparr>) = of_connections P d"
  "of_connections P (d\<lparr>tb_prompts := l\<rparr>) = of_connections P d"
  by (simp_all add: of_connections_def)

lemma keeps_audit [inv_intros]: "keeps (since old (of_connections P) Q) (record_audit ev eg a)"
  unfolding record_audit_def Let_def by (intro inv_intros) auto

lemma keeps_audit_tool [inv_intros]:
  "keeps (since old (of_connections P) Q) (audit_tool ev cfg s tool c args status started detail)"
  unfolding audit_tool_def by (intro inv_intros)

lemma keeps_for_each [inv_intros]: "(\<And>x. x \<in> set xs \<Longrightarrow> keeps P (f x)) \<Longrightarrow> keeps P (for_each f xs)"
  by (induction xs) (auto intro!: inv_intros)

section \<open>Opening and talking to an upstream\<close>

lemma keeps_open:
  assumes "others_keep ev (of_connections P)" and "\<And>m ps. Q (upstream_call_of (uc_id c) d m ps)"
  shows "keeps (since old (of_connections P) Q) (open_upstream ev c d key token)"
  unfolding open_upstream_def persist_upstream_def upsert_upstream_def Let_def
  using assms by (auto intro!: inv_intros split: option.splits prod.splits)

lemma keeps_acquire [inv_intros]:
  assumes "others_keep ev (of_connections P)" and "\<And>m ps. Q (upstream_call_of (uc_id c) d m ps)"
  shows "keeps (since old (of_connections P) Q) (acquire ev c d)"
  unfolding acquire_def Let_def end_opening_def
  by (intro inv_intros keeps_open assms)

lemma keeps_push_log_level:
  assumes "others_keep ev I"
    and "\<And>v. Q (upstream_call_of i (ds_id s) ''logging/setLevel'' [(''level'', JStr v)])"
  shows "keeps (since old I Q) (push_log_level ev s i key)"
  unfolding push_log_level_def using assms by (auto intro!: inv_intros split: option.splits)

lemma keeps_upstream_for [inv_intros]:
  assumes "others_keep ev (of_connections P)" and "\<And>m ps. Q (upstream_call_of (uc_id c) (ds_id s) m ps)"
  shows "keeps (since old (of_connections P) Q) (upstream_for ev c s)"
  unfolding upstream_for_def by (intro inv_intros keeps_push_log_level assms)

lemma keeps_ask_session [inv_intros]: "others_keep ev I \<Longrightarrow> keeps (since old I Q) (ask_session ev s m ps)"
  unfolding ask_session_def by (intro inv_intros)

lemma keeps_confirm [inv_intros]: "others_keep ev I \<Longrightarrow> keeps (since old I Q) (confirm ev s tool)"
  unfolding confirm_def by (intro inv_intros)

lemma keeps_limits [inv_intros]:
  "keeps (since old I Q) (api_require cfg s what)" "keeps (since old I Q) (tool_call_require cfg s)"
  unfolding api_require_def tool_call_require_def by (intro inv_intros)+

lemma keeps_json:
  "(v = JNull \<Longrightarrow> keeps P a) \<Longrightarrow> (\<And>b'. v = JBool b' \<Longrightarrow> keeps P (b b')) \<Longrightarrow> (\<And>n. v = JNum n \<Longrightarrow> keeps P (c n)) \<Longrightarrow>
   (\<And>x. v = JStr x \<Longrightarrow> keeps P (d x)) \<Longrightarrow> (\<And>xs. v = JArr xs \<Longrightarrow> keeps P (e xs)) \<Longrightarrow>
   (\<And>es. v = JObj es \<Longrightarrow> keeps P (f es)) \<Longrightarrow>
   keeps P (case v of JNull \<Rightarrow> a | JBool x \<Rightarrow> b x | JNum n \<Rightarrow> c n | JStr x \<Rightarrow> d x | JArr xs \<Rightarrow> e xs | JObj es \<Rightarrow> f es)"
  by (cases v) simp_all

section \<open>Patches\<close>

lemma keeps_require_found:
  assumes "\<And>c. uc_id c = i \<Longrightarrow> keeps P (f c)"
  shows "keeps P (io_bind (require_connection \<lparr>rf_tenantId = tenant, rf_connectionId = i\<rparr>) f)"
  unfolding require_connection_def keeps_def
  using assms keepsD [of P]
  by (auto simp: io_defs connections_get_def split: option.splits dest!: find_one_Some)

lemma keeps_patch:
  assumes "\<And>rows t. P rows \<Longrightarrow> P (snd (connections_update t i patch rows))"
  shows "keeps (since old (of_connections P) Q) (update_connection i patch)"
  unfolding update_connection_def
  by (intro inv_intros) (use assms in \<open>auto simp: of_connections_def Let_def case_prod_beta\<close>)

section \<open>The authorization services\<close>

lemma keeps_guarded_others [inv_intros]: "others_keep ev I \<Longrightarrow> keeps (since old I Q) (wait ev)"
  by (simp add: keeps_def wait_def since_def others_keep_def)

lemma keeps_guarded_encrypt [inv_intros]:
  "keeps (since old I Q) (encrypt ev c s)" "keeps (since old I Q) (encrypt_optional ev c q)"
  by (rule keeps_draws; simp add: blind_to_draws_def)+

lemma keeps_guarded_inert:
  "(\<And>w. wd_db (g w) = wd_db w) \<Longrightarrow> (\<And>w. wd_calls (g w) = wd_calls w) \<Longrightarrow> (\<And>w. wd_written (g w) = wd_written w) \<Longrightarrow>
     keeps (since old I Q) (io_modify g)"
  by (simp add: keeps_def since_def)

lemma keeps_guarded_send [inv_intros]: "others_keep ev I \<Longrightarrow> keeps (since old I Q) (send ev rq)"
  unfolding send_def by (intro inv_intros keeps_guarded_inert) simp_all

lemma keeps_guarded_request_once [inv_intros]:
  "others_keep ev I \<Longrightarrow> keeps (since old I Q) (request_once ev policy raw opts headers)"
  unfolding request_once_def connect_address_def Let_def
  by (auto intro!: inv_intros split: option.splits sum.splits)

lemma keeps_guarded_request_loop [inv_intros]:
  "others_keep ev I \<Longrightarrow> keeps (since old I Q) (request_loop ev policy opts left current headers)"
proof (induction left arbitrary: current headers)
  case 0
  then show ?case
    unfolding request_loop.simps [of ev policy opts 0 current headers]
    by (auto intro!: inv_intros split: option.splits)
next
  case (Suc n)
  then show ?case
    unfolding request_loop.simps [of ev policy opts "Suc n" current headers]
    by (auto intro!: inv_intros split: option.splits)
qed

lemma keeps_guarded_fetch [inv_intros]:
  assumes "others_keep ev I"
  shows "keeps (since old I Q) (fetch ev policy opts)" "keeps (since old I Q) (get_json ev policy u)"
  unfolding fetch_def get_json_def using assms by (auto intro!: inv_intros)

lemma keeps_guarded_request_parts [inv_intros]:
  "keeps (since old I Q) (create_dpop_proof ev k m u t n a)"
  "keeps (since old I Q) (apply_client_authentication ev md c body endpoint)"
  "keeps (since old I Q) (remember_token_nonce endpoint nonce)"
proof -
  show "keeps (since old I Q) (create_dpop_proof ev k m u t n a)"
    unfolding create_dpop_proof_def canonical_htu_def by (intro inv_intros)
  show "keeps (since old I Q) (apply_client_authentication ev md c body endpoint)"
    unfolding apply_client_authentication_def create_client_assertion_def
    by (cases "cc_tokenEndpointAuthMethod c") (auto intro!: inv_intros)
  show "keeps (since old I Q) (remember_token_nonce endpoint nonce)"
    unfolding remember_token_nonce_def by (rule keeps_guarded_inert) simp_all
qed

lemma keeps_guarded_post_token_loop [inv_intros]:
  assumes "others_keep ev I"
  shows "keeps (since old I Q) (post_token_loop ev policy m c body key endpoint retries nonce)"
proof (induction retries arbitrary: nonce)
  case 0
  show ?case
    unfolding post_token_loop.simps [of _ _ _ _ _ _ _ 0] dpop_header_def
    using assms by (auto intro!: inv_intros split: option.splits)
next
  case (Suc n)
  show ?case
    unfolding post_token_loop.simps [of _ _ _ _ _ _ _ "Suc n"] dpop_header_def
    using assms Suc by (auto intro!: inv_intros split: option.splits)
qed

lemma keeps_guarded_revoke [inv_intros]:
  "others_keep ev I \<Longrightarrow> keeps (since old I Q) (client_revoke ev policy m c token kind)"
  unfolding client_revoke_def post_token_def by (auto intro!: inv_intros)

lemma keeps_guarded_with_lock [inv_intros]:
  assumes "others_keep ev I" and "keeps (since old I Q) m"
  shows "keeps (since old I Q) (with_lock ev key lease m)"
proof (rule keepsI)
  fix w assume "since old I Q w"
  then have 1: "since old I Q (snd (wait ev w))" by (rule keepsD [OF keeps_guarded_others [OF assms(1)]])
  then have "since old I Q (snd (m (snd (wait ev w))))" by (rule keepsD [OF assms(2)])
  with 1 show "since old I Q (snd (with_lock ev key lease m w))"
    by (simp add: with_lock_def Let_def case_prod_beta)
qed

lemma keeps_revoke_upstream [inv_intros]:
  "others_keep ev I \<Longrightarrow> keeps (since old I Q) (revoke_upstream ev cfg c)"
  unfolding revoke_upstream_def by (auto intro!: inv_intros split: option.splits)

section \<open>Registration and discovery\<close>

lemma keeps_guarded_create_registration [inv_intros]:
  "keeps (since old (of_connections P) Q) (create_registration r)"
  unfolding create_registration_def by (intro inv_intros) auto

lemma keeps_guarded_registration_status [inv_intros]:
  "keeps (since old (of_connections P) Q) (set_registration_status i s)"
  unfolding set_registration_status_def by (intro inv_intros) (auto simp: case_prod_beta Let_def)

lemma keeps_guarded_register [inv_intros]:
  assumes "others_keep ev (of_connections P)"
  shows "keeps (since old (of_connections P) Q) (register_client ev d c)"
  unfolding register_client_def registration_attempt_def store_dynamic_def
  using assms by (auto simp: Let_def intro!: inv_intros split: option.splits prod.splits)

lemma keeps_guarded_get_or_create [inv_intros]:
  assumes "others_keep ev (of_connections P)"
  shows "keeps (since old (of_connections P) Q) (get_or_create_registration ev d s c)"
  using assms
  by (cases s)
    (auto simp: preconfigured_get_or_create_def find_existing_def cimd_get_or_create_def cimd_create_def
       dynamic_get_or_create_def user_supplied_get_or_create_def Let_def
       intro!: inv_intros split: option.splits)

lemma keeps_guarded_resolve_loop:
  "others_keep ev (of_connections P) \<Longrightarrow> keeps (since old (of_connections P) Q) (resolve_loop ev d ss c)"
  by (induction ss) (auto intro!: inv_intros)

lemma keeps_guarded_resolve [inv_intros]:
  assumes "others_keep ev (of_connections P)"
  shows "keeps (since old (of_connections P) Q) (resolve_registration ev d c)"
  unfolding resolve_registration_def by (intro inv_intros keeps_guarded_resolve_loop assms)

lemma keeps_first_success:
  "(\<And>x. keeps P (f x)) \<Longrightarrow> keeps P (first_success k m f xs failures)"
  by (induction xs arbitrary: failures) (auto intro!: inv_intros)

lemma keeps_guarded_resource [inv_intros]:
  "others_keep ev I \<Longrightarrow> keeps (since old I Q) (discover_protected_resource ev d u ch)"
  unfolding discover_protected_resource_def resource_candidate_def Let_def
  by (intro inv_intros keeps_first_success)

lemma keeps_guarded_upsert_issuer [inv_intros]:
  "keeps (since old (of_connections P) Q) (upsert_issuer r)"
  unfolding upsert_issuer_def keeps_def
  by (auto simp: since_def io_throw_def split: option.splits prod.splits)

lemma keeps_guarded_server [inv_intros]:
  assumes "others_keep ev (of_connections P)"
  shows "keeps (since old (of_connections P) Q) (discover_authorization_server ev d issuer)"
  unfolding discover_authorization_server_def fetch_server_def server_candidate_def cache_issuer_def Let_def
  using assms by (auto intro!: inv_intros keeps_first_success split: option.splits)

section \<open>Authorization transactions\<close>

lemma keeps_guarded_transaction:
  assumes "\<And>f t rows. P rows \<Longrightarrow> P (snd (connections_update t (ar_connectionId q) (\<lambda>r. r\<lparr>uc_dpopKeyReference := f\<rparr>) rows))"
  shows "keeps (since old (of_connections P) Q) (create_authorization_transaction ev cfg q)"
proof -
  have reference: "keeps (since old (of_connections P) Q) (set_dpop_reference (ar_connectionId q) k)" for k
    unfolding set_dpop_reference_def by (rule keeps_patch) (rule assms)
  have key: "keeps (since old (of_connections P) Q) (ensure_dpop_key ev (ar_connectionId q) t m)" for t m
    unfolding ensure_dpop_key_def create_dpop_key_def
    by (auto intro!: inv_intros reference split: option.splits)
  have url: "keeps (since old (of_connections P) Q) (build_authorization_url ev p)" for p
    unfolding build_authorization_url_def by (auto intro!: inv_intros split: option.splits)
  show ?thesis
    unfolding create_authorization_transaction_def create_transaction_def Let_def
    by (intro inv_intros key url) auto
qed

end
