(* ===== verification/Gateway_Facts.thy ===== *)
theory Gateway_Facts
  imports Guarded
begin

text \<open>
  What the gateway promises its clients: a request reaches only the connections its session may use,
  and a tool runs only when the policy and, where it asks for it, the user admitted the call.
\<close>

section \<open>Connections out of reach\<close>

text \<open>
  Connection \<open>i\<close> is out of reach of a session: it belongs to another tenant, is another user's own,
  or is disabled.
\<close>

definition beyond :: "dsession \<Rightarrow> connection \<Rightarrow> bool" where
  "beyond s c \<longleftrightarrow> uc_tenantId c \<noteq> ds_tenantId s \<or> uc_status c = DISABLED \<or> \<not> is_visible_to c (ds_userId s)"

definition out_of_reach :: "string \<Rightarrow> dsession \<Rightarrow> connection list \<Rightarrow> bool" where
  "out_of_reach i s rows \<longleftrightarrow> list_all (\<lambda>c. uc_id c = i \<longrightarrow> beyond s c) rows"

text \<open>The connections whose id is not \<open>ok\<close> are out of reach, and what was sent went to the others.\<close>

definition shielded :: "(string \<Rightarrow> bool) \<Rightarrow> dsession \<Rightarrow> connection list \<Rightarrow> bool" where
  "shielded ok s rows \<longleftrightarrow> list_all (\<lambda>c. \<not> ok (uc_id c) \<longrightarrow> beyond s c) rows"

lemma shielded_one: "shielded (\<lambda>j. j \<noteq> i) s = out_of_reach i s"
  by (auto simp: shielded_def out_of_reach_def list_all_iff)

lemma shielded_all: "shielded (\<lambda>j. True) s = (\<lambda>_. True)"
  by (simp add: shielded_def list.pred_True fun_eq_iff)

abbreviation apart :: "stream_write list \<Rightarrow> (string \<Rightarrow> bool) \<Rightarrow> dsession \<Rightarrow> world \<Rightarrow> bool" where
  "apart old ok s \<equiv> since old (of_connections (shielded ok s)) (\<lambda>q. ok (uq_connectionId q))"

lemma visible_in_reach:
  "shielded ok s rows \<Longrightarrow> c \<in> set (filter (\<lambda>c. uc_status c \<noteq> DISABLED)
     (connections_list_visible (ds_tenantId s) (ds_userId s) rows)) \<Longrightarrow> ok (uc_id c)"
  by (auto simp: shielded_def beyond_def list_all_iff connections_list_visible_def connections_list_by_tenant_def)

lemma ensures_require_visible:
  "ensures (apart old ok s) (require_visible_connection s j) (\<lambda>c. ok (uc_id c))"
  unfolding require_visible_connection_def visible_connections_def
proof (rule ensures_bind [OF ensures_db [where R = "\<lambda>cs. \<forall>c \<in> set cs. ok (uc_id c)"]])
  fix w assume "apart old ok s w"
  then show "\<forall>c \<in> set (filter (\<lambda>c. uc_status c \<noteq> DISABLED)
      (connections_list_visible (ds_tenantId s) (ds_userId s) (tb_connections (wd_db w)))). ok (uc_id c)"
    using visible_in_reach by (fastforce simp: since_def of_connections_def)
qed (auto intro!: ensures_intros split: option.splits simp: find_Some_iff)

lemma keeps_bind_visible [inv_intros]:
  assumes "\<And>c. ok (uc_id c) \<Longrightarrow> keeps (apart old ok s) (f c)"
  shows "keeps (apart old ok s) (io_bind (require_visible_connection s j) f)"
proof (rule keepsI)
  fix w assume w: "apart old ok s w"
  have "ensures (apart old ok s) (io_bind (require_visible_connection s j) f) (\<lambda>_. True)"
    by (rule ensures_bind [OF ensures_require_visible]) (rule ensures_keeps, rule assms, simp_all)
  then show "apart old ok s (snd (io_bind (require_visible_connection s j) f w))"
    using w by (rule ensures_state)
qed

lemma keeps_update_visible:
  assumes "ok j" and "\<And>c. uc_id (g c) = uc_id c"
  shows "keeps (apart old ok s) (update_connection j g)"
  unfolding update_connection_def
  using assms
  by (intro inv_intros)
    (auto simp: of_connections_def shielded_def list_all_iff connections_update_def update_rows_def Let_def)

lemma keeps_widen [inv_intros]: "ok (uc_id c) \<Longrightarrow> keeps (apart old ok s) (widen_grant cfg c e)"
  unfolding widen_grant_def require_incremental_authorization_def
  by (cases "insufficient_scope_from e")
    (auto intro!: keeps_return keeps_require_found keeps_seq keeps_update_visible keeps_throw)

section \<open>Every request\<close>

lemma keeps_run_tool:
  assumes "others_keep ev (of_connections (shielded ok s))" and "ok (uc_id c)"
  shows "keeps (apart old ok s) (run_tool ev cfg s tool c args token started)"
  unfolding run_tool_def using assms by (intro inv_intros) (simp_all add: upstream_call_of_def)

lemma keeps_admit:
  assumes "others_keep ev (of_connections P)"
  shows "keeps (since old (of_connections P) Q) (admit_tool_call ev cfg s tool c args started)"
  unfolding admit_tool_call_def using assms
  by (cases "evaluate_tool_call (hc_engines cfg) (hc_policy cfg) tool c args (ds_roles s)")
    (auto intro!: inv_intros)

lemma keeps_call_tool:
  assumes "others_keep ev (of_connections (shielded ok s))"
  shows "keeps (apart old ok s) (call_tool ev cfg params s stream)"
proof -
  have tool: "keeps (apart old ok s) (io_bind (require_visible_connection s j) (\<lambda>c.
      io_seq (admit_tool_call ev cfg s tool c args t) (f c)))"
    if "\<And>c. ok (uc_id c) \<Longrightarrow> keeps (apart old ok s) (f c)" for j tool args t f
    by (rule keeps_bind_visible, rule keeps_seq [OF keeps_admit [OF assms] that])
  show ?thesis
    unfolding call_tool_def run_tracked_def Let_def
    by (intro keeps_option keeps_json keeps_seq keeps_bind keeps_get keeps_now keeps_db keeps_throw keeps_limits
        tool keeps_finally keeps_guarded_live keeps_run_tool assms)
qed

text \<open>A request that ends at an upstream: where it goes is found, the connection must be visible.\<close>

lemma keeps_at_upstream:
  assumes "others_keep ev (of_connections (shielded ok s))" and "\<And>c u. ok (uc_id c) \<Longrightarrow> keeps (apart old ok s) (f c u)"
  shows "keeps (apart old ok s) (io_bind (require_visible_connection s j) (\<lambda>c. io_bind (upstream_for ev c s) (f c)))"
  by (rule keeps_bind_visible, rule keeps_bind, rule keeps_upstream_for)
    (simp_all add: assms upstream_call_of_def)

lemma keeps_route [inv_intros]: "keeps P (route_resource s u)" "keeps P (route_completion_ref eg r s)"
proof -
  show 1: "keeps P (route_resource s u)" for u
    unfolding route_resource_def route_by_alias_def
    by (intro keeps_bind keeps_db keeps_option keeps_prod keeps_return keeps_throw)
  show "keeps P (route_completion_ref eg r s)"
    unfolding route_completion_ref_def
    by (intro keeps_if keeps_json keeps_bind keeps_option keeps_db 1 keeps_prod keeps_return keeps_throw)
qed

lemma keeps_upstream_requests:
  assumes "others_keep ev (of_connections (shielded ok s))"
  shows "keeps (apart old ok s) (read_resource ev params s)"
    "keeps (apart old ok s) (resource_subscription ev params s b)"
    "keeps (apart old ok s) (get_prompt ev params s)" "keeps (apart old ok s) (complete ev eg params s)"
proof -
  note rules = keeps_option keeps_json keeps_bind keeps_prod keeps_db keeps_throw keeps_return keeps_route
    keeps_if keeps_at_upstream [OF assms] keeps_guarded_request [OF assms]
  show "keeps (apart old ok s) (read_resource ev params s)"
    unfolding read_resource_def by (intro rules) (simp_all add: upstream_call_of_def)
  show "keeps (apart old ok s) (resource_subscription ev params s b)"
    unfolding resource_subscription_def by (intro rules) (simp_all add: upstream_call_of_def)
  show "keeps (apart old ok s) (get_prompt ev params s)"
    unfolding get_prompt_def by (intro rules) (simp_all add: upstream_call_of_def)
  show "keeps (apart old ok s) (complete ev eg params s)"
    unfolding complete_def by (intro rules) (simp_all add: upstream_call_of_def)
qed

lemma keeps_lists:
  "keeps P (io_bind (list_tools s) (paged cfg fld k cur))"
  "keeps P (io_bind (list_resources s b) (paged cfg fld k cur))"
  "keeps P (io_bind (list_prompts s) (paged cfg fld k cur))"
  unfolding list_tools_def list_resources_def list_prompts_def visible_connections_def paged_def
  by (intro keeps_bind keeps_db keeps_return keeps_lift)+

section \<open>Witnesses\<close>

definition demo_client :: dsession where
  "demo_client = new_dsession ''t'' ''u'' ''app'' [] ''2025-06-18'' 0 ''sess''"

definition demo_tool :: discovered_tool where
  "demo_tool = \<lparr>dt_id = ''tool'', dt_tenantId = ''t'', dt_connectionId = ''conn'', dt_upstreamName = ''x'',
     dt_gatewayName = ''al.x'', dt_description = None, dt_inputSchemaJson = JObj [], dt_outputSchemaJson = None,
     dt_annotationsJson = None, dt_schemaHash = [], dt_enabled = True, dt_riskLevel = READ_ONLY,
     dt_discoveredAt = 0, dt_lastSeenAt = 0\<rparr>"

definition demo_handler :: handler_config where
  "demo_handler = \<lparr>hc_policy = default_tool_policy,
     hc_engines = \<lparr>eg_rx = \<lparr>rx_unicode = (\<lambda>p. None), rx_plain = (\<lambda>p. None)\<rparr>, eg_num = (\<lambda>n. []), eg_show = show_simple\<rparr>,
     hc_toolRule = \<lparr>rl_limit = 0, rl_intervalMs = 1, rl_burst = None\<rparr>,
     hc_apiRule = \<lparr>rl_limit = 0, rl_intervalMs = 1, rl_burst = None\<rparr>, hc_serverInfo = [], hc_instructions = None,
     hc_pageSize = 10, hc_manager = demo_manager\<rparr>"

text \<open>The connection \<open>conn\<close> is the user's own, its client is open, and one tool of it is known.\<close>

definition demo_serving :: world where
  "demo_serving = demo_world\<lparr>wd_db := demo_tables\<lparr>tb_connections := [demo_connection\<lparr>uc_ownerId := ''u''\<rparr>],
     tb_tools := [demo_tool]\<rparr>,
     wd_live := demo_live\<lparr>lv_clients := [(session_key ''conn'' ''sess'',
       \<lparr>uk_capabilities = [], uk_protocolVersion = [], uk_lastUsed = 0, uk_logLevel = None\<rparr>)]\<rparr>\<rparr>"

text \<open>The one message that may reach a connection out of reach: the log level, on a session's own upstream session.\<close>

definition is_level_push :: "dsession \<Rightarrow> upstream_call \<Rightarrow> bool" where
  "is_level_push s q \<longleftrightarrow> uq_method q = ''logging/setLevel'' \<and> uq_downstream q = ds_id s \<and> map fst (uq_params q) = [''level'']"

lemma keeps_set_log_level:
  assumes "others_keep ev (of_connections P)"
    and "\<And>q. is_level_push s q \<Longrightarrow> Q q"
  shows "keeps (since old (of_connections P) Q) (set_log_level ev params s)"
  unfolding set_log_level_def
  by (intro keeps_option keeps_json keeps_if keeps_throw keeps_seq keeps_guarded_session keeps_bind keeps_guarded_live
      keeps_for_each keeps_push_log_level [OF assms(1)] keeps_return assms(2))
    (simp add: is_level_push_def upstream_call_of_def)

lemma keeps_on_request:
  assumes "others_keep ev (of_connections (shielded ok s))" and "m = ''logging/setLevel'' \<Longrightarrow> ok = (\<lambda>_. True)"
  shows "keeps (apart old ok s) (on_request ev cfg m params s stream)"
proof (cases "m = ''logging/setLevel''")
  case True
  then have ok: "ok = (\<lambda>_. True)" by (rule assms(2))
  show ?thesis
    unfolding on_request_def True ok
    by (intro keeps_seq keeps_when keeps_limits) (simp add: keeps_set_log_level [OF assms(1) [unfolded ok]])
next
  case False
  show ?thesis
    unfolding on_request_def
    by (intro keeps_seq keeps_if keeps_when keeps_limits keeps_return keeps_throw keeps_lists
        keeps_call_tool keeps_upstream_requests assms(1)) (use False in simp)
qed

text \<open>
  C3: Handling a request of a client sends nothing to a connection out of the client's reach, one of
  another tenant, another user's own one, or a disabled one, with one exception: \<open>logging/setLevel\<close> sends
  the new log level, and nothing else, on the upstream sessions that were opened for this very
  client. Other workers may do anything but put the connection in reach.
\<close>

theorem requests_stay_in_reach:
  assumes "others_keep ev (of_connections (out_of_reach i s))"
    and "out_of_reach i s (tb_connections (wd_db w))" and "i \<notin> uq_connectionId ` set (wd_calls w)"
  shows "\<forall>q \<in> set (wd_calls (snd (on_request ev cfg m params s stream w))).
    uq_connectionId q = i \<longrightarrow> m = ''logging/setLevel'' \<and> is_level_push s q"
proof (cases "m = ''logging/setLevel''")
  case True
  have "keeps (guarded (of_connections (out_of_reach i s)) (\<lambda>q. uq_connectionId q \<noteq> i \<or> is_level_push s q))
      (on_request ev cfg m params s stream)"
    unfolding on_request_def True
    by (intro keeps_seq keeps_when keeps_limits) (simp add: keeps_set_log_level [OF assms(1)])
  then have "guarded (of_connections (out_of_reach i s)) (\<lambda>q. uq_connectionId q \<noteq> i \<or> is_level_push s q)
      (snd (on_request ev cfg m params s stream w))"
    by (rule keepsD) (use assms(2,3) in \<open>auto simp: guarded_def of_connections_def list_all_iff\<close>)
  with True show ?thesis by (auto simp: guarded_def list_all_iff)
next
  case False
  have "keeps (apart [] (\<lambda>j. j \<noteq> i) s) (on_request ev cfg m params s stream)"
    by (rule keeps_on_request) (use assms(1) False in \<open>simp_all add: shielded_one\<close>)
  then have "apart [] (\<lambda>j. j \<noteq> i) s (snd (on_request ev cfg m params s stream w))"
    by (rule keepsD) (use assms(2,3) in \<open>auto simp: guarded_def of_connections_def list_all_iff shielded_one\<close>)
  then show ?thesis by (auto simp: guarded_def list_all_iff)
qed

lemma requests_stay_in_reach_witness:
  "''conn'' \<notin> uq_connectionId ` set (wd_calls (snd (on_request demo_env demo_handler ''resources/read''
     [(''uri'', JStr ''ui://x'')] demo_client None demo_connected))) \<and>
   list_all (is_level_push demo_client) (filter (\<lambda>q. uq_connectionId q = ''conn'') (wd_calls (snd
     (on_request demo_env demo_handler ''logging/setLevel'' [(''level'', JStr ''error'')] demo_client None demo_connected))))"
proof -
  have out: "out_of_reach ''conn'' demo_client (tb_connections (wd_db demo_connected))"
    "''conn'' \<notin> uq_connectionId ` set (wd_calls demo_connected)"
    by (simp_all add: out_of_reach_def beyond_def demo_connected_def demo_connection_def demo_client_def new_dsession_def
        is_visible_to_def demo_world_def)
  note reach = requests_stay_in_reach [OF demo_others out, of demo_handler]
  show ?thesis
    using reach [of "''resources/read''" "[(''uri'', JStr ''ui://x'')]" None]
      reach [of "''logging/setLevel''" "[(''level'', JStr ''error'')]" None]
    by (auto simp: list_all_iff)
qed

section \<open>Tool calls\<close>

text \<open>Whatever a request does, it adds to what is on the clients' streams.\<close>

lemma on_request_appends:
  "\<exists>new. wd_written (snd (on_request ev cfg m params s stream w)) = wd_written w @ new"
proof -
  have "apart (wd_written w) (\<lambda>_. True) s (snd (on_request ev cfg m params s stream w))"
    by (rule keepsD [OF keeps_on_request])
      (simp_all add: since_def of_connections_def shielded_all others_keep_def list.pred_True)
  then show ?thesis by (simp add: since_def)
qed

abbreviation no_calls :: "world \<Rightarrow> bool" where
  "no_calls \<equiv> guarded (of_connections (\<lambda>_. True)) (\<lambda>_. False)"

lemma no_calls: "no_calls w \<longleftrightarrow> wd_calls w = []"
  by (cases "wd_calls w") (simp_all add: guarded_def of_connections_def)

lemma others_keep_all: "others_keep ev (of_connections (\<lambda>_. True))"
  by (simp add: others_keep_def of_connections_def)

lemma tool_call_require_answers:
  "tool_call_require cfg s w = (r, w') \<Longrightarrow> wd_db w' = wd_db w \<and> wd_calls w' = wd_calls w"
  unfolding tool_call_require_def live_get_def live_modify_def
  by (auto simp: io_defs split: sum.splits)

lemma confirm_answers:
  assumes "confirm ev s tool w = (Inr True, w')"
  shows "truthy (map_of (ds_capabilities s) ''elicitation'') \<and>
    (\<exists>k r. ev_answer ev k ''elicitation/create'' (confirmation_params tool) = Inr r \<and> accepted r)"
  using assms unfolding confirm_def ask_session_def
  by (auto simp: io_defs live_get_def split: if_splits sum.splits prod.splits)

lemma admit_answers:
  assumes "admit_tool_call ev cfg s tool c args t w = (Inr u, w')"
  shows "evaluate_tool_call (hc_engines cfg) (hc_policy cfg) tool c args (ds_roles s) = ALLOW \<or>
    evaluate_tool_call (hc_engines cfg) (hc_policy cfg) tool c args (ds_roles s) = REQUIRE_CONFIRMATION \<and>
    truthy (map_of (ds_capabilities s) ''elicitation'') \<and>
    (\<exists>k r. ev_answer ev k ''elicitation/create'' (confirmation_params tool) = Inr r \<and> accepted r)"
proof (cases "evaluate_tool_call (hc_engines cfg) (hc_policy cfg) tool c args (ds_roles s)")
  case REQUIRE_CONFIRMATION
  with assms have "\<exists>w''. confirm ev s tool w = (Inr True, w'')"
    by (auto simp: admit_tool_call_def io_bind_def io_seq_def io_throw_def split: prod.splits sum.splits if_splits)
  with REQUIRE_CONFIRMATION confirm_answers show ?thesis by blast
qed (use assms in \<open>simp_all add: admit_tool_call_def io_bind_def io_seq_def io_throw_def split: prod.splits sum.splits\<close>)

lemma seq_calls:
  assumes "keeps no_calls m" and "wd_calls w = []" and "wd_calls (snd (io_seq m n w)) \<noteq> []"
  obtains x w' where "m w = (Inr x, w')"
  using assms keepsD [OF assms(1), of w]
  by (cases "m w"; cases "fst (m w)") (auto simp: io_seq_def io_bind_def no_calls)

lemma require_visible_answers:
  "require_visible_connection s j w =
     (case find (\<lambda>c. uc_id c = j) (filter (\<lambda>c. uc_status c \<noteq> DISABLED)
        (connections_list_visible (ds_tenantId s) (ds_userId s) (tb_connections (wd_db w)))) of
        None \<Rightarrow> (Inl (Gateway_Exn (gerr FORBIDDEN ''This connection is not available to you'')), w)
      | Some c \<Rightarrow> (Inr c, w))"
  by (simp add: require_visible_connection_def visible_connections_def io_defs split: option.splits)

lemma bind_visible_calls:
  assumes "wd_calls w = []" and "wd_calls (snd (io_bind (require_visible_connection s j) f w)) \<noteq> []"
  obtains c where "c \<in> set (connections_list_visible (ds_tenantId s) (ds_userId s) (tb_connections (wd_db w)))"
    "uc_id c = j" "uc_status c \<noteq> DISABLED" "wd_calls (snd (f c w)) \<noteq> []"
proof -
  obtain c where c: "find (\<lambda>c. uc_id c = j) (filter (\<lambda>c. uc_status c \<noteq> DISABLED)
      (connections_list_visible (ds_tenantId s) (ds_userId s) (tb_connections (wd_db w)))) = Some c"
    and calls: "wd_calls (snd (f c w)) \<noteq> []"
    using assms by (simp add: io_bind_def require_visible_answers split: option.splits)
  from find_one_Some [unfolded find_one_def, OF c] calls that show ?thesis by auto
qed

lemma call_tool_after:
  assumes "map_of params ''name'' = Some (JStr nm)" and "tool_call_require cfg s w = (Inr (), w1)"
  shows "call_tool ev cfg params s stream w =
    (case tools_find_by_gateway_name (ds_tenantId s) nm (tb_tools (wd_db w1)) of
       None \<Rightarrow> (Inl (Gateway_Exn (gerr NOT_FOUND (''Unknown tool: '' @ nm))), w1)
     | Some tool \<Rightarrow> io_bind (require_visible_connection s (dt_connectionId tool))
         (\<lambda>c. io_seq (admit_tool_call ev cfg s tool c (or_object (map_of params ''arguments'')) (wd_now w1))
            (run_tracked ev cfg s tool c (or_object (map_of params ''arguments'')) (read_progress_token params)
               stream (wd_now w1))) w1)"
  unfolding call_tool_def io_seq_def [of "tool_call_require cfg s"]
  by (simp add: assms(1) io_bind_eq [where m = "tool_call_require cfg s", OF assms(2)] io_bind_now io_bind_db Let_def io_throw_def split: option.splits)

text \<open>
  C1: A tool call sends nothing to any upstream unless the tool was found by its gateway name, its
  connection is visible to the caller and not disabled, the tool is enabled, its risk level is not
  blocked and open to one of the caller's roles, the arguments fit the limit and the tool's input
  schema, and, when the risk level is one that needs confirmation, the client supports elicitation
  and its user answered the confirmation with consent.
\<close>

theorem tool_calls_admitted:
  assumes "wd_calls w = []" and "wd_calls (snd (call_tool ev cfg params s stream w)) \<noteq> []"
  shows "\<exists>nm tool c. map_of params ''name'' = Some (JStr nm) \<and>
    tools_find_by_gateway_name (ds_tenantId s) nm (tb_tools (wd_db w)) = Some tool \<and>
    c \<in> set (connections_list_visible (ds_tenantId s) (ds_userId s) (tb_connections (wd_db w))) \<and>
    uc_id c = dt_connectionId tool \<and> uc_status c \<noteq> DISABLED \<and> dt_enabled tool \<and>
    dt_riskLevel tool \<notin> set (tp_blockedRiskLevels (hc_policy cfg)) \<and>
    (tp_writeRoles (hc_policy cfg) = [] \<or> dt_riskLevel tool = READ_ONLY \<or>
       set (ds_roles s) \<inter> set (tp_writeRoles (hc_policy cfg)) \<noteq> {}) \<and>
    length (utf8 (eg_show (hc_engines cfg) (or_object (map_of params ''arguments''))))
      \<le> tp_maxArgumentBytes (hc_policy cfg) \<and>
    validate_against_schema (eg_rx (hc_engines cfg)) (eg_num (hc_engines cfg))
      (schema_fields (dt_inputSchemaJson tool)) (or_object (map_of params ''arguments'')) ''$'' = [] \<and>
    (dt_riskLevel tool \<notin> set (tp_confirmationRiskLevels (hc_policy cfg)) \<or>
       truthy (map_of (ds_capabilities s) ''elicitation'') \<and>
       (\<exists>k r. ev_answer ev k ''elicitation/create'' (confirmation_params tool) = Inr r \<and> accepted r))"
proof -
  let ?args = "or_object (map_of params ''arguments'')"
  obtain nm where nm: "map_of params ''name'' = Some (JStr nm)"
  proof -
    have "\<exists>nm. map_of params ''name'' = Some (JStr nm)"
    proof (rule ccontr)
      assume "\<not> ?thesis"
      then have "snd (call_tool ev cfg params s stream w) = w"
        by (cases "map_of params ''name''"; cases "the (map_of params ''name'')") (simp_all add: call_tool_def io_throw_def)
      with assms show False by simp
    qed
    then show ?thesis using that by blast
  qed
  obtain w1 where w1: "tool_call_require cfg s w = (Inr (), w1)"
  proof (cases "tool_call_require cfg s w")
    case (Pair r w1)
    show ?thesis
    proof (cases r)
      case (Inl e)
      with Pair nm have "call_tool ev cfg params s stream w = (Inl e, w1)"
        by (simp add: call_tool_def io_seq_def io_bind_err [where m = "tool_call_require cfg s"])
      with assms tool_call_require_answers [OF Pair] show ?thesis by simp
    qed (use Pair that in simp)
  qed
  have same: "wd_db w1 = wd_db w" "wd_calls w1 = []"
    using tool_call_require_answers [OF w1] assms(1) by simp_all
  let ?run = "\<lambda>tool c. run_tracked ev cfg s tool c ?args (read_progress_token params) stream (wd_now w1)"
  obtain tool where tool: "tools_find_by_gateway_name (ds_tenantId s) nm (tb_tools (wd_db w)) = Some tool"
    and calls: "wd_calls (snd (io_bind (require_visible_connection s (dt_connectionId tool))
      (\<lambda>c. io_seq (admit_tool_call ev cfg s tool c ?args (wd_now w1)) (?run tool c)) w1)) \<noteq> []"
    using assms(2) same unfolding call_tool_after [OF nm w1] by (auto split: option.splits)
  obtain c where c: "c \<in> set (connections_list_visible (ds_tenantId s) (ds_userId s) (tb_connections (wd_db w)))"
    "uc_id c = dt_connectionId tool" "uc_status c \<noteq> DISABLED"
    and calls: "wd_calls (snd (io_seq (admit_tool_call ev cfg s tool c ?args (wd_now w1)) (?run tool c) w1)) \<noteq> []"
    using bind_visible_calls [OF same(2) calls] same(1) by metis
  obtain u w2 where "admit_tool_call ev cfg s tool c ?args (wd_now w1) w1 = (Inr u, w2)"
    using seq_calls [OF keeps_admit [OF others_keep_all] same(2) calls] by metis
  note admitted = admit_answers [OF this]
  then have "evaluate_tool_call (hc_engines cfg) (hc_policy cfg) tool c ?args (ds_roles s) \<in> {ALLOW, REQUIRE_CONFIRMATION}"
    by auto
  note facts = evaluate_not_denied [OF this]
  have "dt_riskLevel tool \<notin> set (tp_confirmationRiskLevels (hc_policy cfg)) \<or>
       truthy (map_of (ds_capabilities s) ''elicitation'') \<and>
       (\<exists>k r. ev_answer ev k ''elicitation/create'' (confirmation_params tool) = Inr r \<and> accepted r)"
    using admitted facts(7) by auto
  with nm tool c facts(1-6) show ?thesis by blast
qed

lemma demo_require: "tool_call_require demo_handler s w = (Inr (), w)"
  by (simp add: tool_call_require_def demo_handler_def live_get_def live_modify_def io_defs require_def check_def
      rl_enabled_def Let_def)

lemma demo_admits:
  "evaluate_tool_call (hc_engines demo_handler) (hc_policy demo_handler) demo_tool
     (demo_connection\<lparr>uc_ownerId := ''u''\<rparr>) (JObj []) [] = ALLOW"
  by (simp add: evaluate_tool_call_def demo_handler_def demo_tool_def demo_connection_def default_tool_policy_def
      schema_fields_def validate_against_schema.simps required_issues_def enum_issues_def type_issue_def show_simple_def utf8_def)

lemma demo_finds:
  "tools_find_by_gateway_name (ds_tenantId demo_client) ''al.x'' (tb_tools (wd_db demo_serving)) = Some demo_tool"
  "require_visible_connection demo_client (dt_connectionId demo_tool) demo_serving =
     (Inr (demo_connection\<lparr>uc_ownerId := ''u''\<rparr>), demo_serving)"
  by (simp_all add: tools_find_by_gateway_name_def find_one_def demo_client_def new_dsession_def demo_serving_def
      demo_tool_def require_visible_answers connections_list_visible_def connections_list_by_tenant_def
      demo_connection_def is_visible_to_def)

lemma keeps_called:
  "keeps (\<lambda>w. wd_calls w \<noteq> []) (audit_tool ev cfg s tool c args status started detail)"
  unfolding audit_tool_def record_audit_def Let_def
  by (intro keeps_bind keeps_now keeps_draws keeps_catch keeps_return)
    (auto simp: blind_to_draws_def keeps_def db_insert_def split: option.splits)

lemma keeps_called_widen: "keeps (\<lambda>w. wd_calls w \<noteq> []) (widen_grant cfg c e)"
  unfolding widen_grant_def require_incremental_authorization_def require_connection_def update_connection_def
  by (intro keeps_option keeps_return keeps_bind keeps_db keeps_throw keeps_seq keeps_now keeps_lift)
    (simp add: keeps_def db_run_def case_prod_beta Let_def)

lemma holds_after:
  "P (snd (m w)) \<Longrightarrow> (\<And>x. keeps P (f x)) \<Longrightarrow> P (snd (io_bind m f w))"
  "P (snd (m w)) \<Longrightarrow> (\<And>e. keeps P (h e)) \<Longrightarrow> P (snd (io_catch m h w))"
  by (auto simp: io_bind_def io_catch_def keeps_def split: prod.splits sum.splits)

lemma run_tool_calls:
  assumes "upstream_for ev c s w = (Inr u, w1)"
  shows "wd_calls (snd (run_tool ev cfg s tool c args token started w)) \<noteq> []"
  unfolding run_tool_def
proof (rule holds_after(2))
  have "wd_calls (snd (upstream_request ev q w1)) \<noteq> []" for q
    by (simp add: upstream_request_def upstream_wait_def io_defs split: sum.splits)
  then show "wd_calls (snd (io_bind (upstream_for ev c s) (\<lambda>client. io_bind (upstream_request ev
      (upstream_call_of (uc_id c) (ds_id s) ''tools/call'' (tool_params (dt_upstreamName tool) args token)))
      (\<lambda>result. io_seq (io_lift (assert_result_within_limits (hc_engines cfg) (hc_policy cfg) (JObj result)))
        (io_seq (audit_tool ev cfg s tool c args RS_OK started [])
          (io_return (namespace_result_resources result (uc_alias c)))))) w)) \<noteq> []"
    unfolding io_bind_eq [where m = "upstream_for ev c s", OF assms]
    by (rule holds_after(1)) (intro keeps_seq keeps_lift keeps_called keeps_return)
qed (intro keeps_seq keeps_called keeps_called_widen keeps_throw)

lemma demo_upstream:
  "\<exists>u w1. upstream_for demo_env (demo_connection\<lparr>uc_ownerId := ''u''\<rparr>) demo_client demo_serving = (Inr u, w1)"
  by (simp add: upstream_for_def acquire_def push_log_level_def live_get_def live_modify_def io_defs Let_def
      demo_serving_def demo_connection_def demo_client_def new_dsession_def session_now_def demo_live_def
      session_key_def session_separator_def demo_world_def)

lemma demo_call:
  "wd_calls (snd (call_tool demo_env demo_handler [(''name'', JStr ''al.x'')] demo_client None demo_serving)) \<noteq> []"
proof -
  let ?c = "demo_connection\<lparr>uc_ownerId := ''u''\<rparr>" and ?params = "[(''name'', JStr ''al.x'')]"
  have nm: "map_of ?params ''name'' = Some (JStr ''al.x'')" by simp
  have args: "or_object (map_of ?params ''arguments'') = JObj []" "read_progress_token ?params = None"
    by (simp_all add: or_object_def read_progress_token_def)
  have roles: "ds_roles demo_client = []" by (simp add: demo_client_def new_dsession_def)
  have admit: "admit_tool_call demo_env demo_handler demo_client demo_tool ?c (JObj []) t = io_return ()" for t
    unfolding admit_tool_call_def roles demo_admits by simp
  obtain u w1 where "upstream_for demo_env ?c demo_client demo_serving = (Inr u, w1)"
    using demo_upstream by blast
  note called = run_tool_calls [OF this]
  show ?thesis
    unfolding call_tool_after [where params = ?params, OF nm demo_require] demo_finds(1) option.case
      io_bind_eq [where m = "require_visible_connection demo_client (dt_connectionId demo_tool)", OF demo_finds(2)]
      args admit
    using called by (simp add: io_seq_def io_return_def io_bind_def run_tracked_def)
qed

lemma tool_calls_admitted_witness:
  "\<exists>nm tool. tools_find_by_gateway_name ''t'' nm (tb_tools (wd_db demo_serving)) = Some tool \<and> dt_enabled tool"
proof -
  have "wd_calls demo_serving = []" by (simp add: demo_serving_def demo_world_def)
  from tool_calls_admitted [OF this demo_call] show ?thesis
    by (auto simp: demo_client_def new_dsession_def)
qed

end
