(* ===== verification/Upstream_Listing.thy ===== *)
theory Upstream_Listing
  imports Upstream_Sessions
begin

text \<open>
  What the gateway asks an upstream server for its catalogue (\<^verbatim>\<open>listTools\<close> and its siblings with
  \<open>collectPage\<close>, \<^verbatim>\<open>packages/mcp-client/src/connection.ts\<close>), and the probe that finds out whether a
  URL speaks MCP (\<^verbatim>\<open>probe.ts\<close>). The lists of a catalogue are asked for one after the other here; the
  code starts them together.
\<close>

section \<open>Pages\<close>

definition max_pages :: nat where
  "max_pages = 100"

definition array_items :: "json option \<Rightarrow> json list" where
  "array_items v = (case v of Some (JArr xs) \<Rightarrow> xs | _ \<Rightarrow> [])"

definition next_cursor :: "json_object \<Rightarrow> string option" where
  "next_cursor r = (case map_of r ''nextCursor'' of Some (JStr s) \<Rightarrow> given (Some s) | _ \<Rightarrow> None)"

text \<open>\<open>collectPage\<close>, with \<open>n\<close> pages left; \<open>call\<close> sends the request with its parameters.\<close>

fun collect_pages ::
  "(json_object \<Rightarrow> json_object io) \<Rightarrow> string \<Rightarrow> string \<Rightarrow> nat \<Rightarrow> string option \<Rightarrow> json list \<Rightarrow> json list io" where
  "collect_pages call m fld 0 cursor items =
     io_fail (gerr UPSTREAM_PROTOCOL_ERROR
       (''Upstream '' @ m @ '' still had more pages after '' @ show_nat max_pages))"
| "collect_pages call m fld (Suc n) cursor items =
     (io_bind (call (case cursor of None \<Rightarrow> [] | Some c \<Rightarrow> [(''cursor'', JStr c)])) (\<lambda>r.
      (let found = items @ array_items (map_of r fld) in
      (case next_cursor r of
           None \<Rightarrow> io_return found
         | Some c \<Rightarrow> collect_pages call m fld n (Some c) found))))"

definition collect_page :: "env \<Rightarrow> string \<Rightarrow> string \<Rightarrow> string \<Rightarrow> json list io" where
  "collect_page ev connectionId m fld =
     collect_pages (\<lambda>ps. upstream_request ev (upstream_call_of connectionId catalogue_session m ps))
       m fld max_pages None []"

definition offers :: "upstream_client \<Rightarrow> string \<Rightarrow> bool" where
  "offers u capability = truthy (map_of (uk_capabilities u) capability)"

definition list_upstream_tools :: "env \<Rightarrow> string \<Rightarrow> json list io" where
  "list_upstream_tools ev i = collect_page ev i ''tools/list'' ''tools''"

definition list_upstream_resources :: "env \<Rightarrow> upstream_client \<Rightarrow> string \<Rightarrow> json list io" where
  "list_upstream_resources ev u i =
     (if \<not> offers u ''resources'' then io_return [] else collect_page ev i ''resources/list'' ''resources'')"

text \<open>Templates are optional: a failure counts as none.\<close>

definition list_upstream_templates :: "env \<Rightarrow> upstream_client \<Rightarrow> string \<Rightarrow> json list io" where
  "list_upstream_templates ev u i =
     (if \<not> offers u ''resources'' then io_return []
      else io_catch (collect_page ev i ''resources/templates/list'' ''resourceTemplates'') (\<lambda>e. io_return []))"

definition list_upstream_prompts :: "env \<Rightarrow> upstream_client \<Rightarrow> string \<Rightarrow> json list io" where
  "list_upstream_prompts ev u i =
     (if \<not> offers u ''prompts'' then io_return [] else collect_page ev i ''prompts/list'' ''prompts'')"

section \<open>Probing\<close>

record probe_result =
  pb_authorizationRequired :: bool
  pb_wwwAuthenticate :: "string option"
  pb_transportType :: transport_type
  pb_initializeResult :: "json_object option"

text \<open>A client of its own initializes over one transport and is closed again.\<close>

definition try_initialize :: "env \<Rightarrow> string \<Rightarrow> transport_type \<Rightarrow> json_object io" where
  "try_initialize ev u transport =
     (io_bind (io_get wd_waits) (\<lambda>k.
      io_seq (upstream_wait ev) (
      (case ev_initialize ev k u transport of Inl e \<Rightarrow> io_throw e | Inr r \<Rightarrow> io_return r))))"

definition code_of :: "exn \<Rightarrow> gateway_error_code option" where
  "code_of e = (case e of Gateway_Exn g \<Rightarrow> Some (ge_code g) | Unauthorized_Exn m c \<Rightarrow> Some UNAUTHENTICATED | _ \<Rightarrow> None)"

fun probe_loop :: "env \<Rightarrow> string \<Rightarrow> transport_type list \<Rightarrow> exn option \<Rightarrow> probe_result io" where
  "probe_loop ev u [] lastError =
     (if Option.bind lastError code_of = Some UPSTREAM_UNAVAILABLE
      then io_fail (gerr UPSTREAM_UNAVAILABLE ''Unable to reach MCP server. Verify the URL or network access.'')
      else io_fail (gerr NOT_AN_MCP_SERVER ''The endpoint did not complete MCP initialization.''))"
| "probe_loop ev u (transport # ts) lastError =
     io_catch
       ((io_bind (try_initialize ev u transport) (\<lambda>r.
         io_return \<lparr>pb_authorizationRequired = False, pb_wwwAuthenticate = None, pb_transportType = transport,
             pb_initializeResult = Some r\<rparr>)))
       (\<lambda>e. case e of
          Unauthorized_Exn m ch \<Rightarrow> io_return \<lparr>pb_authorizationRequired = True, pb_wwwAuthenticate = given ch,
            pb_transportType = transport, pb_initializeResult = None\<rparr>
        | _ \<Rightarrow> if code_of e = Some SSRF_BLOCKED then io_throw e else probe_loop ev u ts (Some e))"

definition probe_mcp_endpoint :: "env \<Rightarrow> string \<Rightarrow> probe_result io" where
  "probe_mcp_endpoint ev u = probe_loop ev u [STREAMABLE_HTTP, HTTP_SSE] None"

section \<open>Facts\<close>

lemma collect_pages_calls:
  assumes "\<And>ps. keeps P (call ps)"
  shows "keeps P (collect_pages call m fld n cursor items)"
  by (induction n arbitrary: cursor items) (auto intro!: inv_intros assms split: option.splits simp: Let_def)

text \<open>Over an upstream that answers its pages one by one, what is collected is their concatenation.\<close>

lemma collect_pages_all:
  assumes "\<And>k w. k < length pages \<Longrightarrow>
      call (if k = 0 then [] else [(''cursor'', JStr (show_nat k))]) w =
        (Inr ([(fld, JArr (pages ! k))] @ (if Suc k < length pages then [(''nextCursor'', JStr (show_nat (Suc k)))] else [])), w)"
    and "fld \<noteq> ''nextCursor''" and "j + n \<ge> length pages" and "j < length pages"
  shows "fst (collect_pages call m fld n (if j = 0 then None else Some (show_nat j)) items w) =
    Inr (items @ concat (drop j pages))"
  using assms(3,4)
proof (induction n arbitrary: j items w)
  case (Suc n j items w)
  let ?r = "[(fld, JArr (pages ! j))] @ (if Suc j < length pages then [(''nextCursor'', JStr (show_nat (Suc j)))] else [])"
  have step: "call (case (if j = 0 then None else Some (show_nat j)) of None \<Rightarrow> [] | Some c \<Rightarrow> [(''cursor'', JStr c)]) w = (Inr ?r, w)"
    using assms(1) [OF Suc.prems(2), of w] by (cases "j = 0") simp_all
  have split: "drop j pages = pages ! j # drop (Suc j) pages"
    using Suc.prems(2) by (simp add: Cons_nth_drop_Suc)
  have items: "array_items (Some (JArr xs)) = xs" for xs by (simp add: array_items_def)
  show ?case
  proof (cases "Suc j < length pages")
    case True
    then have "next_cursor ?r = Some (show_nat (Suc j))"
      using assms(2) by (simp add: next_cursor_def given_def)
    with Suc.IH [of "Suc j" "items @ pages ! j" w] Suc.prems True show ?thesis
      by (simp add: io_bind_eq [where m = "call ps" for ps, OF step] items split)
  next
    case False
    then have "next_cursor ?r = None" using assms(2) by (simp add: next_cursor_def)
    with False show ?thesis
      by (simp add: io_bind_eq [where m = "call ps" for ps, OF step] items split io_return_def)
  qed
qed simp

end
