(* ===== verification/Connection_Service.thy ===== *)
theory Connection_Service
  imports Gateway_Handler Upstream_Listing
begin

text \<open>
  \<^verbatim>\<open>packages/federation/src/connection-service.ts\<close>: the control plane of connections. Creating
  one probes the endpoint and either lists its catalogue or prepares an authorization; a refresh
  lists the catalogue again; a connection is renamed, disabled, enabled and disconnected. The headers
  a client sends to an upstream come from the token manager, whose changes of the database while the
  client waits are among those of \<open>ev_others\<close>.
\<close>

record connection_service_config =
  sc_manager :: token_manager_config
  sc_policy :: tool_policy
  sc_engines :: engines
  sc_allowHttp :: bool

record control_plane_actor =
  ca_tenantId :: string
  ca_userId :: string

record create_connection_input =
  ki_tenantId :: string
  ki_userId :: string
  ki_mcpUrl :: string
  ki_alias :: "string option"
  ki_displayName :: "string option"
  ki_ownerType :: "owner_type option"
  ki_staticHeaders :: "(string \<times> string) list option"

record connection_view =
  cv_connectionId :: string
  cv_alias :: string
  cv_status :: connection_status
  cv_mcpUrl :: string
  cv_displayName :: string
  cv_serverName :: "string option"
  cv_toolCount :: nat
  cv_lastError :: "string option"
  cv_authorizationUrl :: "string option"

section \<open>Rows\<close>

definition require_visible :: "control_plane_actor \<Rightarrow> string \<Rightarrow> connection io" where
  "require_visible actor connectionId =
     (io_bind (db (\<lambda>t. connections_find_visible (ca_tenantId actor) (ca_userId actor) connectionId (tb_connections t))) (\<lambda>found.
      (case found of
           None \<Rightarrow> io_fail (gerr NOT_FOUND ''Connection not found'')
         | Some c \<Rightarrow> io_return c)))"

definition require_server :: "connection \<Rightarrow> mcp_server_record io" where
  "require_server c =
     (io_bind (db (\<lambda>t. servers_get (uc_tenantId c) (uc_mcpServerId c) (tb_servers t))) (\<lambda>found.
      (case found of
           None \<Rightarrow> io_fail (gerr NOT_FOUND ''MCP server record is missing'')
         | Some s \<Rightarrow> io_return s)))"

definition reload :: "connection \<Rightarrow> connection io" where
  "reload c = require_connection \<lparr>rf_tenantId = uc_tenantId c, rf_connectionId = uc_id c\<rparr>"

text \<open>\<open>connections.update\<close>, with the row it answers.\<close>

definition updated_connection :: "string \<Rightarrow> (connection \<Rightarrow> connection) \<Rightarrow> connection io" where
  "updated_connection i patch =
     (io_bind now (\<lambda>t.
      io_bind (db_run (\<lambda>d. let (x, rows) = connections_update t i patch (tb_connections d)
                         in (x, d\<lparr>tb_connections := rows\<rparr>))) (\<lambda>r.
      io_lift r)))"

definition update_server :: "mcp_server_record \<Rightarrow> (mcp_server_record \<Rightarrow> mcp_server_record) \<Rightarrow> unit io" where
  "update_server s patch =
     (io_bind (db_run (\<lambda>d. let (x, rows) = servers_update (ms_tenantId s) (ms_id s) patch (tb_servers d)
                         in (x, d\<lparr>tb_servers := rows\<rparr>))) (\<lambda>r.
      io_bind (io_lift r) (\<lambda>stored.
      io_return ())))"

definition create_server :: "mcp_server_record \<Rightarrow> unit io" where
  "create_server s = db_insert (\<lambda>d. map_option (\<lambda>rows. d\<lparr>tb_servers := rows\<rparr>) (servers_create s (tb_servers d)))"

definition create_connection_row :: "connection \<Rightarrow> unit io" where
  "create_connection_row c =
     db_insert (\<lambda>d. map_option (\<lambda>rows. d\<lparr>tb_connections := rows\<rparr>) (connections_create c (tb_connections d)))"

definition view :: "connection \<Rightarrow> connection_view io" where
  "view c =
     (io_bind (db (\<lambda>t. servers_get (uc_tenantId c) (uc_mcpServerId c) (tb_servers t))) (\<lambda>server.
      io_bind (db (\<lambda>t. tools_list_by_connection (uc_id c) (tb_tools t))) (\<lambda>tools.
      io_return \<lparr>cv_connectionId = uc_id c, cv_alias = uc_alias c, cv_status = uc_status c,
          cv_mcpUrl = (case server of None \<Rightarrow> [] | Some s \<Rightarrow> ms_canonicalUrl s),
          cv_displayName = (case server of None \<Rightarrow> uc_alias c | Some s \<Rightarrow> ms_displayName s),
          cv_serverName = map_option ms_displayName server, cv_toolCount = length tools,
          cv_lastError = uc_lastErrorMessageRedacted c, cv_authorizationUrl = None\<rparr>)))"

definition audit_connection ::
  "env \<Rightarrow> connection_service_config \<Rightarrow> string \<Rightarrow> string option \<Rightarrow> string \<Rightarrow> string \<Rightarrow> json_object \<Rightarrow> unit io" where
  "audit_connection ev cfg tenantId userId connectionId operation detail =
     record_audit ev (sc_engines cfg) \<lparr>ai_tenantId = tenantId, ai_userId = userId, ai_downstreamSessionId = None,
       ai_connectionId = Some connectionId, ai_toolId = None, ai_operation = operation, ai_input = None,
       ai_resultStatus = RS_OK, ai_durationMs = None, ai_detail = Some detail\<rparr>"

section \<open>The catalogue\<close>

text \<open>\<open>firstOfEach\<close>.\<close>

fun first_of_each :: "('a \<Rightarrow> string) \<Rightarrow> string list \<Rightarrow> 'a list \<Rightarrow> 'a list" where
  "first_of_each identity seen [] = []"
| "first_of_each identity seen (x # xs) =
     (if identity x \<in> set seen then first_of_each identity seen xs
      else x # first_of_each identity (identity x # seen) xs)"

fun map_io :: "('a \<Rightarrow> 'b io) \<Rightarrow> 'a list \<Rightarrow> 'b list io" where
  "map_io f [] = io_return []"
| "map_io f (x # xs) =
     (io_bind (f x) (\<lambda>y.
      io_bind (map_io f xs) (\<lambda>ys.
      io_return (y # ys))))"

text \<open>Reading a name or URI of an entry fails where the entry has none that is a string.\<close>

definition text_member :: "string \<Rightarrow> json \<Rightarrow> string io" where
  "text_member k v = (case jget v k of Some (JStr s) \<Rightarrow> io_return s | _ \<Rightarrow> io_throw (Other_Exn ''TypeError''))"

definition named :: "string \<Rightarrow> json \<Rightarrow> (string \<times> json) io" where
  "named k v = (io_bind (text_member k v) (\<lambda>s.
    io_return (s, v)))"

definition object_member :: "string \<Rightarrow> json \<Rightarrow> json option io" where
  "object_member k v =
     (if truthy (jget v k) then (io_bind (io_to_object (the (jget v k))) (\<lambda>es.
       io_return (Some (JObj es)))) else io_return None)"

definition optional_text :: "string \<Rightarrow> json \<Rightarrow> string option" where
  "optional_text k v = json_string (jget v k)"

definition tool_hash :: "env \<Rightarrow> engines \<Rightarrow> json \<Rightarrow> string" where
  "tool_hash ev eg v = schema_hash (ev_sha256_hex ev) (eg_num eg) (JObj [
     (''input'', or_null (jget v ''inputSchema'')), (''output'', or_null (jget v ''outputSchema'')),
     (''description'', or_null (jget v ''description''))])"

definition tool_record ::
  "env \<Rightarrow> connection_service_config \<Rightarrow> connection \<Rightarrow> int \<Rightarrow> string \<Rightarrow> string \<times> json \<Rightarrow> discovered_tool io" where
  "tool_record ev cfg c started gatewayName entry =
     (case entry of (nm, v) \<Rightarrow>
        (io_bind (object_member ''annotations'' v) (\<lambda>annotations.
         io_bind (new_id ev ''tool'') (\<lambda>i.
         io_bind (io_to_object (case or_null (jget v ''inputSchema'') of
             JNull \<Rightarrow> JObj [(''type'', JStr ''object'')] | x \<Rightarrow> x)) (\<lambda>input.
         io_bind (object_member ''outputSchema'' v) (\<lambda>output.
         (let level = classify_tool nm (optional_text ''description'' v) annotations in
         io_return \<lparr>dt_id = i, dt_tenantId = uc_tenantId c, dt_connectionId = uc_id c, dt_upstreamName = nm,
             dt_gatewayName = gatewayName, dt_description = optional_text ''description'' v,
             dt_inputSchemaJson = JObj input, dt_outputSchemaJson = output, dt_annotationsJson = annotations,
             dt_schemaHash = tool_hash ev (sc_engines cfg) v,
             dt_enabled = should_expose_tool (sc_policy cfg) level annotations, dt_riskLevel = level,
             dt_discoveredAt = started, dt_lastSeenAt = started\<rparr>)))))))"

text \<open>The name of each tool is chosen among those the tools before it left free; the search always finds one.\<close>

fun tool_records ::
  "env \<Rightarrow> connection_service_config \<Rightarrow> connection \<Rightarrow> int \<Rightarrow> string list \<Rightarrow> (string \<times> json) list
     \<Rightarrow> discovered_tool list io" where
  "tool_records ev cfg c started taken [] = io_return []"
| "tool_records ev cfg c started taken (entry # entries) =
     (case gateway_tool_name (ev_sha256_hex ev) (uc_alias c) (fst entry) taken of
        None \<Rightarrow> io_throw (Other_Exn ''no free tool name'')
      | Some gatewayName \<Rightarrow>
          (io_bind (tool_record ev cfg c started gatewayName entry) (\<lambda>r.
           io_bind (tool_records ev cfg c started (gatewayName # taken) entries) (\<lambda>rs.
           io_return (r # rs)))))"

definition resource_record ::
  "env \<Rightarrow> connection \<Rightarrow> int \<Rightarrow> bool \<Rightarrow> json \<Rightarrow> discovered_resource io" where
  "resource_record ev c started template v =
     (io_bind (new_id ev ''res'') (\<lambda>i.
      io_bind (text_member (if template then ''uriTemplate'' else ''uri'') v) (\<lambda>u.
      io_bind (text_member ''name'' v) (\<lambda>nm.
      io_return \<lparr>dr_id = i, dr_tenantId = uc_tenantId c, dr_connectionId = uc_id c, dr_upstreamUri = u,
          dr_gatewayUri = gateway_resource_uri (uc_alias c) u, dr_name = nm,
          dr_description = optional_text ''description'' v, dr_mimeType = optional_text ''mimeType'' v,
          dr_isTemplate = template, dr_lastSeenAt = started\<rparr>))))"

definition prompt_record :: "env \<Rightarrow> connection \<Rightarrow> int \<Rightarrow> string \<times> json \<Rightarrow> discovered_prompt io" where
  "prompt_record ev c started entry =
     (case entry of (nm, v) \<Rightarrow>
        (io_bind (new_id ev ''prm'') (\<lambda>i.
         io_return \<lparr>dp_id = i, dp_tenantId = uc_tenantId c, dp_connectionId = uc_id c, dp_upstreamName = nm,
             dp_gatewayName = gateway_prompt_name (uc_alias c) nm, dp_description = optional_text ''description'' v,
             dp_argumentsJson = (if truthy (jget v ''arguments'')
               then Some (JObj [(''arguments'', or_null (jget v ''arguments''))]) else None),
             dp_lastSeenAt = started\<rparr>)))"

record catalogue_records =
  ct_tools :: "discovered_tool list"
  ct_resources :: "discovered_resource list"
  ct_prompts :: "discovered_prompt list"

definition discover_catalogue ::
  "env \<Rightarrow> connection_service_config \<Rightarrow> connection \<Rightarrow> int \<Rightarrow> catalogue_records io" where
  "discover_catalogue ev cfg c started =
     (io_bind (acquire ev c catalogue_session) (\<lambda>client.
      io_bind (list_upstream_tools ev (uc_id c)) (\<lambda>tools.
      io_bind (list_upstream_resources ev client (uc_id c)) (\<lambda>resources.
      io_bind (list_upstream_templates ev client (uc_id c)) (\<lambda>templates.
      io_bind (list_upstream_prompts ev client (uc_id c)) (\<lambda>prompts.
      io_bind (map_io (named ''name'') tools) (\<lambda>namedTools.
      io_bind (tool_records ev cfg c started [] (first_of_each fst [] namedTools)) (\<lambda>toolRecords.
      io_bind (map_io (resource_record ev c started False) resources) (\<lambda>plain.
      io_bind (map_io (resource_record ev c started True) templates) (\<lambda>templated.
      io_bind (map_io (named ''name'') prompts) (\<lambda>namedPrompts.
      io_bind (map_io (prompt_record ev c started) (first_of_each fst [] namedPrompts)) (\<lambda>promptRecords.
      io_return \<lparr>ct_tools = toolRecords, ct_resources = first_of_each dr_upstreamUri [] (plain @ templated),
          ct_prompts = promptRecords\<rparr>))))))))))))"

text \<open>A statement sequence that a constraint may end.\<close>

definition db_sync :: "(tables \<Rightarrow> 'a option \<times> tables) \<Rightarrow> 'a io" where
  "db_sync f =
     (io_bind (db_run f) (\<lambda>r.
      (case r of None \<Rightarrow> io_throw constraint_failed | Some x \<Rightarrow> io_return x)))"

definition store_catalogue ::
  "env \<Rightarrow> connection_service_config \<Rightarrow> string \<Rightarrow> catalogue_records \<Rightarrow> int \<Rightarrow> (sync_result \<times> bool \<times> bool) io" where
  "store_catalogue ev cfg i r started =
     with_lock ev (''catalogue-sync:'' @ i) 30000
       ((io_bind (db_sync (\<lambda>d. let (x, rows) = sync_tools i (ct_tools r) started (tb_tools d)
             in (x, d\<lparr>tb_tools := rows\<rparr>))) (\<lambda>sync.
         io_bind (db_sync (\<lambda>d. let (x, rows) = resources_sync i (ct_resources r) (tb_resources d)
             in (x, d\<lparr>tb_resources := rows\<rparr>))) (\<lambda>resources.
         io_bind (db_sync (\<lambda>d. let (x, rows) = prompts_sync (eg_show (sc_engines cfg)) i (ct_prompts r) (tb_prompts d)
             in (x, d\<lparr>tb_prompts := rows\<rparr>))) (\<lambda>prompts.
         io_return (sync, resources, prompts))))))"

text \<open>The code of an error as its text.\<close>

fun code_name :: "gateway_error_code \<Rightarrow> string" where
  "code_name INVALID_REQUEST = ''INVALID_REQUEST''"
| "code_name NOT_FOUND = ''NOT_FOUND''"
| "code_name UNAUTHENTICATED = ''UNAUTHENTICATED''"
| "code_name FORBIDDEN = ''FORBIDDEN''"
| "code_name TENANT_MISMATCH = ''TENANT_MISMATCH''"
| "code_name CONFLICT = ''CONFLICT''"
| "code_name AUTHORIZATION_REQUIRED = ''AUTHORIZATION_REQUIRED''"
| "code_name CLIENT_CREDENTIALS_REQUIRED = ''CLIENT_CREDENTIALS_REQUIRED''"
| "code_name POLICY_DENIED = ''POLICY_DENIED''"
| "code_name SSRF_BLOCKED = ''SSRF_BLOCKED''"
| "code_name DISCOVERY_FAILED = ''DISCOVERY_FAILED''"
| "code_name ISSUER_MISMATCH = ''ISSUER_MISMATCH''"
| "code_name RESOURCE_MISMATCH = ''RESOURCE_MISMATCH''"
| "code_name REGISTRATION_FAILED = ''REGISTRATION_FAILED''"
| "code_name TOKEN_EXCHANGE_FAILED = ''TOKEN_EXCHANGE_FAILED''"
| "code_name TOKEN_REFRESH_FAILED = ''TOKEN_REFRESH_FAILED''"
| "code_name UPSTREAM_UNAVAILABLE = ''UPSTREAM_UNAVAILABLE''"
| "code_name UPSTREAM_PROTOCOL_ERROR = ''UPSTREAM_PROTOCOL_ERROR''"
| "code_name NOT_AN_MCP_SERVER = ''NOT_AN_MCP_SERVER''"
| "code_name PAYLOAD_TOO_LARGE = ''PAYLOAD_TOO_LARGE''"
| "code_name RATE_LIMITED = ''RATE_LIMITED''"
| "code_name INTERNAL = ''INTERNAL''"

definition as_gateway_exn :: "exn \<Rightarrow> exn" where
  "as_gateway_exn e =
     (case code_of e of None \<Rightarrow> Gateway_Exn (gerr UPSTREAM_UNAVAILABLE (exn_message e)) | Some k \<Rightarrow> e)"

definition sync_failed :: "connection \<Rightarrow> exn \<Rightarrow> 'a io" where
  "sync_failed c e =
     (io_bind (updated_connection (uc_id c) (\<lambda>r. r\<lparr>
          uc_status := (if code_of e = Some AUTHORIZATION_REQUIRED then REAUTH_REQUIRED else DEGRADED),
          uc_lastErrorCode := map_option code_name (code_of e),
          uc_lastErrorMessageRedacted := Some (clamp_text (exn_message e) 200)\<rparr>)) (\<lambda>r.
      io_throw e))"

definition tools_changed :: "sync_result \<Rightarrow> bool" where
  "tools_changed s \<longleftrightarrow> length (sr_added s) + length (sr_removed s) + length (sr_changed s) > 0"

definition sync_catalogue ::
  "env \<Rightarrow> connection_service_config \<Rightarrow> connection \<Rightarrow> sync_result io" where
  "sync_catalogue ev cfg c =
     io_catch
       ((io_bind now (\<lambda>started.
         io_bind (discover_catalogue ev cfg c started) (\<lambda>records.
         io_bind (store_catalogue ev cfg (uc_id c) records started) (\<lambda>(sync, resources, prompts).
         io_bind now (\<lambda>t.
         io_bind (updated_connection (uc_id c) (\<lambda>r. r\<lparr>
             uc_status := (if uc_status c = CONNECTED_NON_REFRESHABLE then CONNECTED_NON_REFRESHABLE else CONNECTED),
             uc_lastSuccessAt := Some t, uc_lastErrorCode := None, uc_lastErrorMessageRedacted := None\<rparr>)) (\<lambda>r.
         io_seq (io_when (tools_changed sync \<or> resources \<or> prompts)
             (notify_catalogue_changed ev (uc_tenantId c) (tools_changed sync) resources prompts)) (
         io_return sync))))))))
       (\<lambda>e. sync_failed c (as_gateway_exn e))"

text \<open>\<open>syncCatalogue(...).catch(...)\<close>: the failure is only logged.\<close>

definition try_sync :: "env \<Rightarrow> connection_service_config \<Rightarrow> connection \<Rightarrow> unit io" where
  "try_sync ev cfg c = io_catch ((io_bind (sync_catalogue ev cfg c) (\<lambda>s.
    io_return ()))) (\<lambda>e. io_return ())"

section \<open>The transport\<close>

definition server_info_name :: "json_object \<Rightarrow> string option" where
  "server_info_name r = Option.bind (map_of r ''serverInfo'') (\<lambda>i. json_string (jget i ''name''))"

definition host_of :: "env \<Rightarrow> string \<Rightarrow> string io" where
  "host_of ev s = (io_bind (new_url ev s) (\<lambda>u.
    io_return (url_host u)))"

definition detect_transport :: "env \<Rightarrow> connection \<Rightarrow> unit io" where
  "detect_transport ev c =
     (io_bind (require_server c) (\<lambda>server.
      io_bind (io_catch ((io_bind (probe_mcp_endpoint ev (ms_canonicalUrl server)) (\<lambda>p.
           io_return (Some p)))) (\<lambda>e. io_return None)) (\<lambda>probe.
      (case Option.bind probe pb_initializeResult of
           None \<Rightarrow> io_return ()
         | Some r \<Rightarrow>
             (io_bind (io_to_object (case map_of r ''capabilities'' of None \<Rightarrow> JNull | Some v \<Rightarrow> v)) (\<lambda>capabilities.
              io_bind (host_of ev (ms_canonicalUrl server)) (\<lambda>host.
              update_server server (\<lambda>s. s\<lparr>
                  ms_transportType := pb_transportType (the probe),
                  ms_protocolVersion := json_string (map_of r ''protocolVersion''),
                  ms_capabilitiesJson := Some capabilities,
                  ms_displayName := (if ms_displayName server = host
                    then (case server_info_name r of None \<Rightarrow> ms_displayName server | Some n \<Rightarrow> n)
                    else ms_displayName server)\<rparr>))))))))"

definition activate_connection ::
  "env \<Rightarrow> connection_service_config \<Rightarrow> string \<Rightarrow> string \<Rightarrow> sync_result io" where
  "activate_connection ev cfg tenantId connectionId =
     (io_bind (require_connection \<lparr>rf_tenantId = tenantId, rf_connectionId = connectionId\<rparr>) (\<lambda>c.
      io_seq (detect_transport ev c) (
      sync_catalogue ev cfg c)))"

definition refresh :: "env \<Rightarrow> connection_service_config \<Rightarrow> control_plane_actor \<Rightarrow> string \<Rightarrow> sync_result io" where
  "refresh ev cfg actor connectionId =
     (io_bind (require_visible actor connectionId) (\<lambda>c.
      io_seq (detect_transport ev c) (
      sync_catalogue ev cfg c)))"

section \<open>Authorization\<close>

definition choose_issuer :: "mcp_server_record \<Rightarrow> string list \<Rightarrow> string option" where
  "choose_issuer s servers =
     given (case given (ms_selectedAuthorizationServer s) of
        Some x \<Rightarrow> if x \<in> set servers then Some x else (case servers of [] \<Rightarrow> None | y # _ \<Rightarrow> Some y)
      | None \<Rightarrow> (case servers of [] \<Rightarrow> None | y # _ \<Rightarrow> Some y))"

definition authorization_scopes :: "challenge option \<Rightarrow> json \<Rightarrow> string list \<Rightarrow> string list" where
  "authorization_scopes ch resource requested =
     filter (\<lambda>s. s \<noteq> []) (unique (
       (case Option.bind ch (\<lambda>c. map_of (ch_params c) ''scope'') of None \<Rightarrow> [] | Some s \<Rightarrow> split_on (CHR '' '') s) @
       (case json_strings (jget resource ''scopes_supported'') of None \<Rightarrow> [] | Some ss \<Rightarrow> ss) @ requested))"

definition resolve_or_mark ::
  "env \<Rightarrow> oauth_deps \<Rightarrow> registration_context \<Rightarrow> string \<Rightarrow> string \<Rightarrow> resolved_registration io" where
  "resolve_or_mark ev d rx connectionId issuerId =
     io_catch (resolve_registration ev d rx)
       (\<lambda>e. (io_seq (io_when (code_of e = Some CLIENT_CREDENTIALS_REQUIRED)
               (update_connection connectionId (\<lambda>r. r\<lparr>uc_oauthIssuerId := Some issuerId,
                  uc_status := CREDENTIALS_NEEDED, uc_lastErrorCode := Some ''client_credentials_required'',
                  uc_lastErrorMessageRedacted := Some ''This authorization server requires an OAuth client ID.''\<rparr>))) (
         io_throw e)))"

definition prepare_authorization ::
  "env \<Rightarrow> connection_service_config \<Rightarrow> connection \<Rightarrow> mcp_server_record \<Rightarrow> string \<Rightarrow> string option \<Rightarrow> string option
     \<Rightarrow> string io" where
  "prepare_authorization ev cfg c server userId wwwAuthenticate returnTo =
     ((let d = tc_deps (sc_manager cfg) in
      (let ch = select_bearer_challenge (parse_www_authenticate wwwAuthenticate) in
      io_bind (discover_protected_resource ev d (ms_canonicalUrl server) ch) (\<lambda>(resource, metadataUrl).
      (case choose_issuer server (case json_strings (jget resource ''authorization_servers'') of None \<Rightarrow> [] | Some ss \<Rightarrow> ss) of
           None \<Rightarrow> io_fail (gerr DISCOVERY_FAILED ''The MCP server advertises no authorization server'')
         | Some issuer \<Rightarrow>
             (io_bind (discover_authorization_server ev d issuer) (\<lambda>(issuerRecord, metadata).
              io_seq (io_when (uc_oauthIssuerId c \<noteq> None \<and> uc_oauthIssuerId c \<noteq> Some (oi_id issuerRecord))
                  (update_connection (uc_id c) (\<lambda>r. r\<lparr>uc_accessTokenEncrypted := None, uc_refreshTokenEncrypted := None,
                     uc_oauthClientRegistrationId := None, uc_tokenVersion := uc_tokenVersion c + 1\<rparr>))) (
              io_seq (update_server server (\<lambda>s. s\<lparr>ms_authorizationRequired := True,
                  ms_protectedResourceMetadataUrl := Some metadataUrl,
                  ms_canonicalResource := json_string (jget resource ''resource''),
                  ms_selectedAuthorizationServer := Some (oi_issuer issuerRecord),
                  ms_metadataJson := (case resource of JObj es \<Rightarrow> Some es | _ \<Rightarrow> None)\<rparr>)) (
              (let scopes = authorization_scopes ch resource (uc_requestedScopes c) in
              io_bind (resolve_or_mark ev d \<lparr>rx_tenantId = uc_tenantId c, rx_issuerRecord = issuerRecord,
                    rx_metadata = metadata, rx_redirectUri = gi_redirectUri (od_identity d), rx_requestedScopes = scopes,
                    rx_initialAccessToken = None, rx_avoidAuthMethods = []\<rparr> (uc_id c) (oi_id issuerRecord)) (\<lambda>registration.
              io_seq (update_connection (uc_id c) (\<lambda>r. r\<lparr>uc_oauthIssuerId := Some (oi_id issuerRecord),
                  uc_oauthClientRegistrationId := Some (rr_registrationId registration),
                  uc_status := AUTHORIZATION_NEEDED\<rparr>)) (
              io_bind (create_authorization_transaction ev (sc_manager cfg) \<lparr>ar_tenantId = uc_tenantId c,
                  ar_userId = userId, ar_connectionId = uc_id c, ar_issuerRecord = issuerRecord, ar_metadata = metadata,
                  ar_registration = registration, ar_scopes = scopes,
                  ar_resource = json_string (jget resource ''resource''), ar_returnTo = returnTo\<rparr>) (\<lambda>(i, url).
              io_return url)))))))))))))"

definition start_authorization ::
  "env \<Rightarrow> connection_service_config \<Rightarrow> control_plane_actor \<Rightarrow> string \<Rightarrow> string option \<Rightarrow> string io" where
  "start_authorization ev cfg actor connectionId returnTo =
     (io_bind (require_visible actor connectionId) (\<lambda>c.
      io_bind (require_server c) (\<lambda>server.
      io_bind (prepare_authorization ev cfg c server (ca_userId actor) None returnTo) (\<lambda>url.
      (if url = []
         then io_fail (gerr CLIENT_CREDENTIALS_REQUIRED ''This authorization server requires an OAuth client ID.'')
         else io_return url)))))"

section \<open>Creating\<close>

definition find_existing_connection :: "string \<Rightarrow> mcp_server_record option \<Rightarrow> connection option io" where
  "find_existing_connection tenantId server =
     (case server of
        None \<Rightarrow> io_return None
      | Some s \<Rightarrow> db (\<lambda>t. find (\<lambda>c. uc_mcpServerId c = ms_id s) (connections_list_by_tenant tenantId (tb_connections t))))"

definition server_for ::
  "env \<Rightarrow> create_connection_input \<Rightarrow> string \<Rightarrow> mcp_server_record option \<Rightarrow> probe_result \<Rightarrow> int \<Rightarrow> mcp_server_record io" where
  "server_for ev q canonicalUrl existing probe t =
     (case existing of
        Some s \<Rightarrow> io_return s
      | None \<Rightarrow>
          (io_bind (new_id ev ''srv'') (\<lambda>i.
           io_bind (host_of ev canonicalUrl) (\<lambda>host.
           io_bind (case pb_initializeResult probe of
                None \<Rightarrow> io_return None
              | Some r \<Rightarrow> (io_bind (io_to_object (case map_of r ''capabilities'' of None \<Rightarrow> JNull | Some v \<Rightarrow> v)) (\<lambda>es.
                 io_return (Some es)))) (\<lambda>capabilities.
           (let s = \<lparr>ms_id = i, ms_tenantId = ki_tenantId q, ms_canonicalUrl = canonicalUrl,
               ms_originalUrl = ki_mcpUrl q,
               ms_displayName = (case ki_displayName q of
                  Some n \<Rightarrow> n
                | None \<Rightarrow> (case Option.bind (pb_initializeResult probe) server_info_name of Some n \<Rightarrow> n | None \<Rightarrow> host)),
               ms_authorizationRequired = pb_authorizationRequired probe, ms_protectedResourceMetadataUrl = None,
               ms_canonicalResource = Some canonicalUrl, ms_selectedAuthorizationServer = None,
               ms_transportType = pb_transportType probe,
               ms_protocolVersion = Option.bind (pb_initializeResult probe) (\<lambda>r. json_string (map_of r ''protocolVersion'')),
               ms_capabilitiesJson = capabilities, ms_metadataJson = None, ms_status = SERVER_ACTIVE,
               ms_createdAt = t, ms_updatedAt = t\<rparr> in
           io_seq (create_server s) (
           io_return s)))))))"

definition alias_for :: "env \<Rightarrow> create_connection_input \<Rightarrow> string \<Rightarrow> string list \<Rightarrow> string" where
  "alias_for ev q canonicalUrl taken =
     (case map_option sanitize_alias (given (ki_alias q)) of
        Some a \<Rightarrow> if a \<in> set taken
          then default_alias_for (ev_sha256_hex ev) (ev_parse_url ev) canonicalUrl taken else a
      | None \<Rightarrow> default_alias_for (ev_sha256_hex ev) (ev_parse_url ev) canonicalUrl taken)"

definition new_connection ::
  "create_connection_input \<Rightarrow> string \<Rightarrow> string \<Rightarrow> string \<Rightarrow> string option \<Rightarrow> bool \<Rightarrow> int \<Rightarrow> connection" where
  "new_connection q i serverId alias' headers authorize t = \<lparr>
     uc_id = i, uc_tenantId = ki_tenantId q,
     uc_ownerType = (case ki_ownerType q of None \<Rightarrow> USER | Some x \<Rightarrow> x),
     uc_ownerId = (if ki_ownerType q = Some WORKSPACE then ki_tenantId q else ki_userId q),
     uc_mcpServerId = serverId, uc_oauthIssuerId = None, uc_oauthClientRegistrationId = None, uc_alias = alias',
     uc_grantedScopes = [], uc_requestedScopes = [], uc_accessTokenEncrypted = None, uc_refreshTokenEncrypted = None,
     uc_staticHeadersEncrypted = headers, uc_tokenType = None, uc_accessTokenExpiresAt = None,
     uc_refreshTokenExpiresAt = None, uc_tokenVersion = 1, uc_dpopKeyReference = None,
     uc_status = (if authorize then AUTHORIZATION_NEEDED else CONNECTED), uc_lastRefreshAt = None,
     uc_lastSuccessAt = None, uc_lastErrorCode = None, uc_lastErrorMessageRedacted = None,
     uc_createdAt = t, uc_updatedAt = t\<rparr>"

definition create_new_connection ::
  "env \<Rightarrow> connection_service_config \<Rightarrow> create_connection_input \<Rightarrow> string \<Rightarrow> mcp_server_record option
     \<Rightarrow> connection_view io" where
  "create_new_connection ev cfg q canonicalUrl existing =
     (io_bind (probe_mcp_endpoint ev canonicalUrl) (\<lambda>probe.
      io_bind now (\<lambda>t.
      io_bind (server_for ev q canonicalUrl existing probe t) (\<lambda>server.
      io_bind (db (\<lambda>d. map uc_alias (connections_list_by_tenant (ki_tenantId q) (tb_connections d)))) (\<lambda>taken.
      (let alias' = alias_for ev q canonicalUrl taken in
      (if \<not> is_valid_alias alias' then io_fail (gerr INVALID_REQUEST (''Invalid alias: '' @ alias'))
         else
           (io_bind (new_id ev ''conn'') (\<lambda>i.
            io_bind (encrypt_optional ev \<lparr>ec_tenantId = ki_tenantId q, ec_purpose = Static_Headers\<rparr>
                (map_option (\<lambda>hs. ev_show_json ev (JObj (map (\<lambda>(k, v). (k, JStr v)) hs))) (ki_staticHeaders q))) (\<lambda>headers.
            (let c = new_connection q i (ms_id server) alias' headers (pb_authorizationRequired probe) t in
            io_seq (create_connection_row c) (
            io_seq (audit_connection ev cfg (ki_tenantId q) (Some (ki_userId q)) i ''connection.create''
                [(''alias'', JStr alias'), (''canonicalUrl'', JStr canonicalUrl),
                 (''authorizationRequired'', JBool (pb_authorizationRequired probe))]) (
            (if \<not> pb_authorizationRequired probe then
                 (io_bind (sync_catalogue ev cfg c) (\<lambda>s.
                  io_bind (reload c) (\<lambda>stored.
                  view stored)))
               else
                 (io_bind (prepare_authorization ev cfg c server (ki_userId q) (pb_wwwAuthenticate probe) None) (\<lambda>url.
                  io_bind (reload c) (\<lambda>stored.
                  io_bind (view stored) (\<lambda>v.
                  io_return (v\<lparr>cv_authorizationUrl := Some url\<rparr>)))))))))))))))))))"

definition create_connection ::
  "env \<Rightarrow> connection_service_config \<Rightarrow> create_connection_input \<Rightarrow> connection_view io" where
  "create_connection ev cfg q =
     (io_bind (io_lift (canonicalize_url (ev_parse_url ev) \<lparr>up_allowHttp = sc_allowHttp cfg\<rparr> (ki_mcpUrl q))) (\<lambda>canonicalUrl.
      io_bind (db (\<lambda>t. servers_find_by_canonical_url (ki_tenantId q) canonicalUrl (tb_servers t))) (\<lambda>server.
      io_bind (find_existing_connection (ki_tenantId q) server) (\<lambda>existing.
      (case existing of
           Some c \<Rightarrow> view c
         | None \<Rightarrow> create_new_connection ev cfg q canonicalUrl server)))))"

section \<open>Managing\<close>

definition rename ::
  "env \<Rightarrow> connection_service_config \<Rightarrow> control_plane_actor \<Rightarrow> string \<Rightarrow> string \<Rightarrow> connection_view io" where
  "rename ev cfg actor connectionId alias' =
     (io_bind (require_visible actor connectionId) (\<lambda>c.
      (let normalized = sanitize_alias alias' in
      io_bind (db (\<lambda>d. map uc_alias (filter (\<lambda>x. uc_id x \<noteq> connectionId)
          (connections_list_by_tenant (ca_tenantId actor) (tb_connections d))))) (\<lambda>taken.
      (if normalized \<in> set taken
         then io_fail (gerr CONFLICT (''The alias '' @ normalized @ '' is already in use''))
         else
           (io_bind (updated_connection (uc_id c) (\<lambda>r. r\<lparr>uc_alias := normalized\<rparr>)) (\<lambda>updated.
            io_seq (try_sync ev cfg updated) (
            io_bind (reload updated) (\<lambda>stored.
            view stored)))))))))"

definition list_visible_tools :: "control_plane_actor \<Rightarrow> discovered_tool list io" where
  "list_visible_tools actor =
     (io_bind (db (\<lambda>t. connections_list_visible (ca_tenantId actor) (ca_userId actor) (tb_connections t))) (\<lambda>connections.
      io_bind (db (\<lambda>t. tools_list_by_tenant (ca_tenantId actor) (tb_tools t))) (\<lambda>tools.
      io_return (filter (\<lambda>t. dt_connectionId t \<in> uc_id ` set connections) tools))))"

definition set_tool_enabled :: "env \<Rightarrow> control_plane_actor \<Rightarrow> string \<Rightarrow> bool \<Rightarrow> unit io" where
  "set_tool_enabled ev actor toolId enabled =
     (io_bind (list_visible_tools actor) (\<lambda>tools.
      (case find (\<lambda>t. dt_id t = toolId) tools of
           None \<Rightarrow> io_fail (gerr NOT_FOUND (''Unknown tool: '' @ toolId))
         | Some t \<Rightarrow>
             (io_seq (db_modify (\<lambda>d. d\<lparr>tb_tools := tools_set_enabled (ca_tenantId actor) toolId enabled (tb_tools d)\<rparr>)) (
              notify_catalogue_changed ev (ca_tenantId actor) True False False)))))"

definition disable_connection ::
  "env \<Rightarrow> connection_service_config \<Rightarrow> control_plane_actor \<Rightarrow> connection \<Rightarrow> connection_view io" where
  "disable_connection ev cfg actor c =
     (io_bind (updated_connection (uc_id c) (\<lambda>r. r\<lparr>uc_status := DISABLED\<rparr>)) (\<lambda>disabled.
      io_seq (release_connection ev (uc_id c)) (
      io_seq (notify_catalogue_changed ev (ca_tenantId actor) True True True) (
      io_seq (audit_connection ev cfg (ca_tenantId actor) (Some (ca_userId actor)) (uc_id c) ''connection.disable''
          [(''alias'', JStr (uc_alias c))]) (
      view disabled)))))"

definition enable_connection ::
  "env \<Rightarrow> connection_service_config \<Rightarrow> control_plane_actor \<Rightarrow> connection \<Rightarrow> connection_view io" where
  "enable_connection ev cfg actor c =
     (io_bind (updated_connection (uc_id c) (\<lambda>r. r\<lparr>uc_status :=
          (if given (uc_accessTokenEncrypted c) \<noteq> None \<and> given (uc_refreshTokenEncrypted c) = None
           then CONNECTED_NON_REFRESHABLE else CONNECTED)\<rparr>)) (\<lambda>restored.
      io_seq (try_sync ev cfg restored) (
      io_seq (audit_connection ev cfg (ca_tenantId actor) (Some (ca_userId actor)) (uc_id c) ''connection.enable''
          [(''alias'', JStr (uc_alias c))]) (
      io_bind (reload restored) (\<lambda>stored.
      view stored)))))"

definition set_connection_enabled ::
  "env \<Rightarrow> connection_service_config \<Rightarrow> control_plane_actor \<Rightarrow> string \<Rightarrow> bool \<Rightarrow> connection_view io" where
  "set_connection_enabled ev cfg actor connectionId enabled =
     (io_bind (require_visible actor connectionId) (\<lambda>c.
      (if enabled = (uc_status c \<noteq> DISABLED) then view c
         else if \<not> enabled then disable_connection ev cfg actor c
         else enable_connection ev cfg actor c)))"

definition disconnect ::
  "env \<Rightarrow> connection_service_config \<Rightarrow> control_plane_actor \<Rightarrow> string \<Rightarrow> unit io" where
  "disconnect ev cfg actor connectionId =
     (io_bind (require_visible actor connectionId) (\<lambda>c.
      io_seq (io_catch (revoke_connection ev (sc_manager cfg)
            \<lparr>rf_tenantId = ca_tenantId actor, rf_connectionId = connectionId\<rparr>) (\<lambda>e. io_return ())) (
      io_seq (release_connection ev connectionId) (
      io_seq (db_modify (\<lambda>d. d\<lparr>tb_tools := tools_delete_by_connection connectionId (tb_tools d)\<rparr>)) (
      io_seq (db_modify (\<lambda>d. d\<lparr>tb_resources := resources_delete_by_connection connectionId (tb_resources d)\<rparr>)) (
      io_seq (db_modify (\<lambda>d. d\<lparr>tb_prompts := prompts_delete_by_connection connectionId (tb_prompts d)\<rparr>)) (
      io_seq (db_modify (\<lambda>d. d\<lparr>tb_connections := snd (connections_delete (ca_tenantId actor) connectionId (tb_connections d))\<rparr>)) (
      io_seq (notify_catalogue_changed ev (ca_tenantId actor) True True True) (
      audit_connection ev cfg (ca_tenantId actor) None connectionId ''connection.delete''
          [(''alias'', JStr (uc_alias c))])))))))))"

definition list_connections :: "control_plane_actor \<Rightarrow> connection_view list io" where
  "list_connections actor =
     (io_bind (db (\<lambda>t. connections_list_visible (ca_tenantId actor) (ca_userId actor) (tb_connections t))) (\<lambda>connections.
      map_io view connections))"

definition get_connection :: "control_plane_actor \<Rightarrow> string \<Rightarrow> connection_view io" where
  "get_connection actor connectionId =
     (io_bind (require_visible actor connectionId) (\<lambda>c.
      view c))"

end
