(* ===== verification/Connection_Facts.thy ===== *)
theory Connection_Facts
  imports Connection_Service Guarded
begin

text \<open>
  What the control plane promises: nothing an actor does through it changes a connection the actor
  cannot see or sends anything to its upstream, and a catalogue is stored under names that lead back
  to its entries.
\<close>

section \<open>Commands\<close>

text \<open>The operations that change something, as an actor calls them.\<close>

datatype control_command =
    Create create_connection_input
  | Refresh string
  | Rename string string
  | Enable_Connection string bool
  | Enable_Tool string bool
  | Authorize string "string option"
  | Disconnect string

definition forget :: "'a io \<Rightarrow> unit io" where
  "forget m = io_bind m (\<lambda>_. io_return ())"

definition run_command ::
  "env \<Rightarrow> connection_service_config \<Rightarrow> control_plane_actor \<Rightarrow> control_command \<Rightarrow> unit io" where
  "run_command ev cfg actor command =
     (case command of
        Create q \<Rightarrow> forget (create_connection ev cfg
          (q\<lparr>ki_tenantId := ca_tenantId actor, ki_userId := ca_userId actor\<rparr>))
      | Refresh i \<Rightarrow> forget (refresh ev cfg actor i)
      | Rename i a \<Rightarrow> forget (rename ev cfg actor i a)
      | Enable_Connection i b \<Rightarrow> forget (set_connection_enabled ev cfg actor i b)
      | Enable_Tool i b \<Rightarrow> set_tool_enabled ev actor i b
      | Authorize i r \<Rightarrow> forget (start_authorization ev cfg actor i r)
      | Disconnect i \<Rightarrow> disconnect ev cfg actor i)"

section \<open>A row out of sight\<close>

definition hidden_from :: "control_plane_actor \<Rightarrow> connection \<Rightarrow> bool" where
  "hidden_from actor c \<longleftrightarrow> uc_tenantId c \<noteq> ca_tenantId actor \<or> \<not> is_visible_to c (ca_userId actor)"

text \<open>The row \<open>c\<close> is there, it is the only one of its id, and it is as it was.\<close>

definition holds_row :: "connection \<Rightarrow> connection list \<Rightarrow> bool" where
  "holds_row c rows \<longleftrightarrow> filter (\<lambda>r. uc_id r = uc_id c) rows = [c]"

abbreviation out_of_sight :: "connection \<Rightarrow> world \<Rightarrow> bool" where
  "out_of_sight c \<equiv> guarded (of_connections (holds_row c)) (\<lambda>q. uq_connectionId q \<noteq> uc_id c)"

lemma holds_row_in: "holds_row c rows \<Longrightarrow> r \<in> set rows \<Longrightarrow> uc_id r = uc_id c \<Longrightarrow> r = c"
proof -
  assume a: "holds_row c rows" "r \<in> set rows" "uc_id r = uc_id c"
  then have "r \<in> set (filter (\<lambda>r. uc_id r = uc_id c) rows)" by simp
  also have "set (filter (\<lambda>r. uc_id r = uc_id c) rows) = {c}" using a(1) by (simp add: holds_row_def)
  finally show "r = c" by simp
qed

lemma holds_row_update:
  assumes "holds_row c rows" and "i \<noteq> uc_id c" and "\<And>r. uc_id (g r) = uc_id r"
  shows "holds_row c (snd (connections_update t i g rows))"
proof -
  have "filter (\<lambda>r. uc_id r = uc_id c) (map (\<lambda>r. if uc_id r = i then (g r)\<lparr>uc_updatedAt := t\<rparr> else r) rows) =
      filter (\<lambda>r. uc_id r = uc_id c) rows"
    using assms(2,3) by (induction rows) auto
  with assms(1) show ?thesis
    by (simp add: holds_row_def connections_update_def update_rows_def Let_def)
qed

lemma holds_row_delete: "holds_row c rows \<Longrightarrow> i \<noteq> uc_id c \<Longrightarrow> holds_row c (snd (connections_delete t i rows))"
proof -
  assume a: "holds_row c rows" "i \<noteq> uc_id c"
  have "filter (\<lambda>r. uc_id r = uc_id c) (filter (\<lambda>r. \<not> (uc_id r = i \<and> uc_tenantId r = t)) rows) =
      filter (\<lambda>r. uc_id r = uc_id c) rows"
    using a(2) by (induction rows) auto
  with a(1) show ?thesis
    by (simp add: holds_row_def connections_delete_def delete_rows_def Let_def)
qed

lemma keeps_row_patch [inv_intros]:
  assumes "i \<noteq> uc_id c" and "\<And>r. uc_id (g r) = uc_id r"
  shows "keeps (out_of_sight c) (update_connection i g)" "keeps (out_of_sight c) (updated_connection i g)"
proof -
  show "keeps (out_of_sight c) (update_connection i g)"
    by (rule keeps_patch) (rule holds_row_update [OF _ assms])
  show "keeps (out_of_sight c) (updated_connection i g)"
    unfolding updated_connection_def
    by (intro inv_intros) (use holds_row_update [OF _ assms] in \<open>auto simp: of_connections_def Let_def case_prod_beta\<close>)
qed

section \<open>Looking rows up\<close>

lemma keeps_bind_sight:
  assumes "hidden_from actor c" and "\<And>r. uc_id r \<noteq> uc_id c \<Longrightarrow> uc_id r = i \<Longrightarrow> keeps (out_of_sight c) (f r)"
  shows "keeps (out_of_sight c) (io_bind (require_visible actor i) f)"
proof (rule keepsI)
  fix w assume w: "out_of_sight c w"
  have other: "uc_id r \<noteq> uc_id c \<and> uc_id r = i"
    if "connections_find_visible (ca_tenantId actor) (ca_userId actor) i (tb_connections (wd_db w)) = Some r" for r
  proof -
    have r: "r \<in> set (tb_connections (wd_db w))" "uc_id r = i" "uc_tenantId r = ca_tenantId actor"
      "is_visible_to r (ca_userId actor)"
      using that by (auto simp: connections_find_visible_def connections_get_def split: option.splits if_splits
          dest!: find_one_Some)
    moreover have "uc_id r \<noteq> uc_id c"
      using holds_row_in [OF _ r(1)] w assms(1) r(3,4)
      by (auto simp: guarded_def of_connections_def hidden_from_def)
    ultimately show ?thesis by simp
  qed
  show "out_of_sight c (snd (io_bind (require_visible actor i) f w))"
  proof (cases "connections_find_visible (ca_tenantId actor) (ca_userId actor) i (tb_connections (wd_db w))")
    case None
    then have "io_bind (require_visible actor i) f w = (Inl (Gateway_Exn (gerr NOT_FOUND ''Connection not found'')), w)"
      by (simp add: require_visible_def io_defs)
    with w show ?thesis by simp
  next
    case (Some r)
    then show ?thesis
      using keepsD [OF assms(2) w, of r] other [of r] by (auto simp: require_visible_def io_bind_assoc)
  qed
qed

lemma keeps_lookups [inv_intros]:
  "keeps P (require_server r)" "keeps P (reload r)" "keeps P (view r)"
  unfolding require_server_def reload_def view_def by (intro inv_intros)+

section \<open>The catalogue\<close>

lemma keeps_map_io [inv_intros]: "(\<And>x. keeps P (f x)) \<Longrightarrow> keeps P (map_io f xs)"
  by (induction xs) (auto intro!: inv_intros)

lemma keeps_members [inv_intros]:
  "keeps P (text_member k v)" "keeps P (named k v)" "keeps P (io_to_object v)" "keeps P (object_member k v)"
proof -
  show 1: "keeps P (text_member k v)" unfolding text_member_def by (intro inv_intros keeps_json)
  show 2: "keeps P (io_to_object v)" for v unfolding io_to_object_def by (intro inv_intros keeps_json)
  show "keeps P (named k v)" unfolding named_def by (intro inv_intros 1)
  show "keeps P (object_member k v)" unfolding object_member_def by (intro inv_intros 2)
qed

lemma keeps_tool_records: "keeps (guarded I Q) (tool_records ev cfg c started taken entries)"
proof (induction entries arbitrary: taken)
  case (Cons entry entries taken)
  have "keeps (guarded I Q) (tool_record ev cfg c started g e)" for g e
    unfolding tool_record_def Let_def by (cases e) (auto intro!: inv_intros)
  with Cons.IH show ?case
    unfolding tool_records.simps by (intro keeps_option keeps_throw keeps_bind keeps_return)
qed (simp add: keeps_return)

lemma keeps_other_records [inv_intros]:
  "keeps (guarded I Q) (resource_record ev c started b v)" "keeps (guarded I Q) (prompt_record ev c started e)"
proof -
  show "keeps (guarded I Q) (resource_record ev c started b v)" unfolding resource_record_def by (intro inv_intros)
  show "keeps (guarded I Q) (prompt_record ev c started e)"
    unfolding prompt_record_def by (cases e) (auto intro!: inv_intros)
qed

lemma keeps_listing:
  assumes "others_keep ev I" and "\<And>m ps. Q (upstream_call_of i catalogue_session m ps)"
  shows "keeps (guarded I Q) (collect_page ev i m fld)"
  unfolding collect_page_def by (intro collect_pages_calls keeps_guarded_request assms)

lemma keeps_discover_catalogue:
  assumes "others_keep ev (of_connections P)" and "\<And>d m ps. Q (upstream_call_of (uc_id c) d m ps)"
  shows "keeps (guarded (of_connections P) Q) (discover_catalogue ev cfg c started)"
proof -
  note page = keeps_listing [OF assms(1), of Q "uc_id c", OF assms(2)]
  have lists: "keeps (guarded (of_connections P) Q) (list_upstream_tools ev (uc_id c))"
    "keeps (guarded (of_connections P) Q) (list_upstream_resources ev u (uc_id c))"
    "keeps (guarded (of_connections P) Q) (list_upstream_templates ev u (uc_id c))"
    "keeps (guarded (of_connections P) Q) (list_upstream_prompts ev u (uc_id c))" for u
    unfolding list_upstream_tools_def list_upstream_resources_def list_upstream_templates_def list_upstream_prompts_def
    by (intro inv_intros page)+
  show ?thesis
    unfolding discover_catalogue_def
    by (intro keeps_bind keeps_acquire lists keeps_map_io keeps_members keeps_tool_records keeps_other_records
        keeps_return assms)
qed

lemma keeps_store_catalogue:
  assumes "others_keep ev (of_connections P)"
  shows "keeps (guarded (of_connections P) Q) (store_catalogue ev cfg i r started)"
proof -
  have run: "keeps (guarded (of_connections P) Q) (db_sync f)"
    if "\<And>d. tb_connections (snd (f d)) = tb_connections d" for f :: "tables \<Rightarrow> 'a option \<times> tables"
    unfolding db_sync_def using that by (intro inv_intros) (auto simp: of_connections_def)
  show ?thesis
    unfolding store_catalogue_def
    by (intro keeps_guarded_with_lock keeps_bind run keeps_return assms) (simp_all add: case_prod_beta Let_def)
qed

lemma keeps_notify [inv_intros]:
  "keeps (guarded I Q) (notify_catalogue_changed ev tenant a b c)"
  unfolding notify_catalogue_changed_def broadcast_def notify_session_def by (intro inv_intros)

lemma keeps_sync_catalogue [inv_intros]:
  assumes "others_keep ev (of_connections (holds_row c))" and "uc_id r \<noteq> uc_id c"
  shows "keeps (out_of_sight c) (sync_catalogue ev cfg r)" "keeps (out_of_sight c) (try_sync ev cfg r)"
proof -
  show 1: "keeps (out_of_sight c) (sync_catalogue ev cfg r)"
    unfolding sync_catalogue_def sync_failed_def
    by (intro keeps_catch keeps_bind keeps_seq keeps_now keeps_discover_catalogue keeps_store_catalogue keeps_prod
        keeps_row_patch keeps_when keeps_notify keeps_return keeps_throw assms) (simp_all add: upstream_call_of_def assms)
  show "keeps (out_of_sight c) (try_sync ev cfg r)"
    unfolding try_sync_def by (intro inv_intros 1)
qed

section \<open>The other services\<close>

lemma keeps_update_server [inv_intros]: "keeps (guarded (of_connections P) Q) (update_server s g)"
  unfolding update_server_def by (intro inv_intros) (auto simp: case_prod_beta Let_def)

lemma keeps_probe_loop: "others_keep ev I \<Longrightarrow> keeps (guarded I Q) (probe_loop ev u ts e)"
proof (induction ts arbitrary: e)
  case (Cons t ts e)
  have "keeps (guarded I Q) (try_initialize ev u t)"
    unfolding try_initialize_def using Cons.prems by (intro inv_intros)
  with Cons show ?case by (auto intro!: inv_intros split: exn.splits)
qed (simp add: keeps_throw)

lemma keeps_detect [inv_intros]:
  "others_keep ev (of_connections P) \<Longrightarrow> keeps (guarded (of_connections P) Q) (detect_transport ev r)"
  unfolding detect_transport_def probe_mcp_endpoint_def host_of_def
  by (intro inv_intros keeps_probe_loop)

lemma keeps_release:
  assumes "others_keep ev (of_connections P)"
  shows "keeps (guarded (of_connections P) Q) (release_connection ev i)"
proof -
  have "keeps (guarded (of_connections P) Q) (close_clients ev keys)" for keys
    by (induction keys) (simp_all add: keeps_return keeps_seq keeps_guarded_live keeps_guarded_wait assms,
      simp add: keeps_def)
  then show ?thesis
    unfolding release_connection_def release_matching_def by (intro inv_intros) auto
qed

lemma keeps_audit_connection [inv_intros]:
  "keeps (guarded (of_connections P) Q) (audit_connection ev cfg tenant user i operation detail)"
  unfolding audit_connection_def by (intro inv_intros)

lemma keeps_prepare:
  assumes "others_keep ev (of_connections (holds_row c))" and "uc_id r \<noteq> uc_id c"
  shows "keeps (out_of_sight c) (prepare_authorization ev cfg r server user header returnTo)"
  unfolding prepare_authorization_def resolve_or_mark_def Let_def
  by (intro inv_intros keeps_guarded_transaction holds_row_update assms) (simp_all add: assms)

section \<open>Creating\<close>

text \<open>A row is added only under an id no row has yet.\<close>

lemma keeps_created:
  assumes "uc_id r \<noteq> uc_id c \<Longrightarrow> keeps (out_of_sight c) m"
  shows "keeps (out_of_sight c) (io_seq (create_connection_row r) m)"
proof (rule keepsI)
  fix w assume w: "out_of_sight c w"
  then have c: "c \<in> set (tb_connections (wd_db w))"
    using filter_eq_Cons_iff [of "\<lambda>r. uc_id r = uc_id c" "tb_connections (wd_db w)" c "[]"]
    by (auto simp: guarded_def of_connections_def holds_row_def)
  show "out_of_sight c (snd (io_seq (create_connection_row r) m w))"
  proof (cases "connections_create r (tb_connections (wd_db w))")
    case None
    with w show ?thesis by (simp add: create_connection_row_def io_seq_def io_bind_def db_insert_def)
  next
    case (Some rows)
    then have rows: "rows = tb_connections (wd_db w) @ [r]" and new: "uc_id r \<noteq> uc_id c"
      using c by (auto simp: connections_create_def insert_row_def connection_clash_def split: if_splits)
    have "out_of_sight c (w\<lparr>wd_db := (wd_db w)\<lparr>tb_connections := rows\<rparr>\<rparr>)"
      using w new by (simp add: guarded_def of_connections_def holds_row_def rows)
    from keepsD [OF assms [OF new] this] Some show ?thesis
      by (simp add: create_connection_row_def io_seq_def io_bind_def db_insert_def)
  qed
qed

lemma keeps_create_connection:
  assumes "others_keep ev (of_connections (holds_row c))"
  shows "keeps (out_of_sight c) (create_connection ev cfg q)"
proof -
  have server: "keeps (out_of_sight c) (server_for ev q u s p t)" for u s p t
    unfolding server_for_def create_server_def host_of_def Let_def by (intro inv_intros) auto
  have probe: "keeps (out_of_sight c) (probe_mcp_endpoint ev u)" for u
    unfolding probe_mcp_endpoint_def by (rule keeps_probe_loop [OF assms])
  have new: "keeps (out_of_sight c) (create_new_connection ev cfg q u s)" for u s
    unfolding create_new_connection_def Let_def
    by (intro keeps_bind probe keeps_now server keeps_db keeps_if keeps_throw keeps_guarded_draws keeps_guarded_encrypt
        keeps_created keeps_seq keeps_audit_connection keeps_sync_catalogue keeps_prepare keeps_lookups keeps_return assms)
      (simp_all add: new_connection_def)
  show ?thesis
    unfolding create_connection_def find_existing_connection_def
    by (intro keeps_bind keeps_lift keeps_db keeps_option keeps_return keeps_lookups new)
qed

section \<open>Every command\<close>

lemma keeps_forget: "keeps P m \<Longrightarrow> keeps P (forget m)"
  unfolding forget_def by (intro inv_intros)

lemma keeps_managing:
  assumes "others_keep ev (of_connections (holds_row c))" and "hidden_from actor c"
  shows "keeps (out_of_sight c) (refresh ev cfg actor i)" "keeps (out_of_sight c) (rename ev cfg actor i a)"
    "keeps (out_of_sight c) (set_connection_enabled ev cfg actor i b)"
    "keeps (out_of_sight c) (start_authorization ev cfg actor i ret)"
proof -
  note sight = keeps_bind_sight [OF assms(2)]
  show "keeps (out_of_sight c) (refresh ev cfg actor i)"
    unfolding refresh_def by (intro sight keeps_seq keeps_detect keeps_sync_catalogue assms)
  show "keeps (out_of_sight c) (start_authorization ev cfg actor i ret)"
    unfolding start_authorization_def
    by (intro sight keeps_bind keeps_lookups keeps_prepare keeps_if keeps_throw keeps_return assms)
  have patched: "keeps (out_of_sight c) (io_bind (updated_connection j g) f)"
    if j: "j \<noteq> uc_id c" and g: "\<And>r. uc_id (g r) = uc_id r"
      and f: "\<And>r. uc_id r \<noteq> uc_id c \<Longrightarrow> keeps (out_of_sight c) (f r)" for j g f
  proof (rule keeps_bind_result [OF keeps_row_patch(2) [OF j g]])
    fix w x w' assume "updated_connection j g w = (Inr x, w')"
    then have "uc_id x = j"
      by (auto simp: updated_connection_def io_defs connections_update_def require_found_def Let_def
          split: option.splits sum.splits dest!: find_one_Some)
    with j show "keeps (out_of_sight c) (f x)" by (intro f) simp
  qed
  show "keeps (out_of_sight c) (rename ev cfg actor i a)"
    unfolding rename_def Let_def
    by (intro sight keeps_bind keeps_db keeps_if keeps_throw patched keeps_seq keeps_sync_catalogue keeps_lookups assms)
      simp_all
  show "keeps (out_of_sight c) (set_connection_enabled ev cfg actor i b)"
    unfolding set_connection_enabled_def disable_connection_def enable_connection_def
    by (intro sight keeps_if keeps_lookups patched keeps_seq keeps_bind keeps_release keeps_notify
        keeps_audit_connection keeps_sync_catalogue assms) simp_all
qed

lemma keeps_revoke_other:
  assumes "others_keep ev (of_connections (holds_row c))" and "i \<noteq> uc_id c"
  shows "keeps (out_of_sight c) (revoke_connection ev cfg \<lparr>rf_tenantId = t, rf_connectionId = i\<rparr>)"
  unfolding revoke_connection_def
proof (rule keeps_require_found)
  fix r :: connection assume "uc_id r = i"
  then show "keeps (out_of_sight c) (if given (uc_oauthIssuerId r) = None then io_return ()
      else io_finally (io_catch (revoke_upstream ev cfg r) (\<lambda>e. io_return ())) (update_connection (uc_id r) (clear_tokens r)))"
    using assms by (intro keeps_if keeps_return keeps_finally keeps_catch keeps_revoke_upstream keeps_row_patch)
      (simp_all add: clear_tokens_def)
qed

lemma keeps_disconnect:
  assumes "others_keep ev (of_connections (holds_row c))" and "hidden_from actor c"
  shows "keeps (out_of_sight c) (disconnect ev cfg actor i)"
  unfolding disconnect_def
proof (rule keeps_bind_sight [OF assms(2)])
  fix r :: connection assume r: "uc_id r \<noteq> uc_id c" "uc_id r = i"
  have del: "keeps (out_of_sight c) (db_modify (\<lambda>d. d\<lparr>tb_connections := snd (connections_delete t i (tb_connections d))\<rparr>))" for t
    by (rule keeps_guarded_modify) (use r holds_row_delete in \<open>auto simp: of_connections_def\<close>)
  show "keeps (out_of_sight c) (io_seq (io_catch (revoke_connection ev (sc_manager cfg)
          \<lparr>rf_tenantId = ca_tenantId actor, rf_connectionId = i\<rparr>) (\<lambda>e. io_return ()))
      (io_seq (release_connection ev i)
      (io_seq (db_modify (\<lambda>d. d\<lparr>tb_tools := tools_delete_by_connection i (tb_tools d)\<rparr>))
      (io_seq (db_modify (\<lambda>d. d\<lparr>tb_resources := resources_delete_by_connection i (tb_resources d)\<rparr>))
      (io_seq (db_modify (\<lambda>d. d\<lparr>tb_prompts := prompts_delete_by_connection i (tb_prompts d)\<rparr>))
      (io_seq (db_modify (\<lambda>d. d\<lparr>tb_connections := snd (connections_delete (ca_tenantId actor) i (tb_connections d))\<rparr>))
      (io_seq (notify_catalogue_changed ev (ca_tenantId actor) True True True)
        (audit_connection ev cfg (ca_tenantId actor) None i ''connection.delete'' [(''alias'', JStr (uc_alias r))]))))))))"
    using r by (intro keeps_seq keeps_catch keeps_revoke_other keeps_return keeps_release keeps_guarded_modify del
        keeps_notify keeps_audit_connection assms) auto
qed

definition demo_service :: connection_service_config where
  "demo_service = \<lparr>sc_manager = demo_manager, sc_policy = default_tool_policy,
     sc_engines = \<lparr>eg_rx = \<lparr>rx_unicode = (\<lambda>p. None), rx_plain = (\<lambda>p. None)\<rparr>, eg_num = (\<lambda>n. []), eg_show = show_simple\<rparr>,
     sc_allowHttp = False\<rparr>"

text \<open>
  C2: Nothing an actor does through the control plane changes the row of a connection that is hidden
  from the actor, of another tenant or another member's own, or sends anything to its upstream: whatever the
  command, however it ends, and whatever upstreams and authorization servers answer meanwhile.
\<close>

theorem control_plane_contained:
  assumes "hidden_from actor c" and "others_keep ev (of_connections (holds_row c))"
    and "holds_row c (tb_connections (wd_db w))" and "uc_id c \<notin> uq_connectionId ` set (wd_calls w)"
  shows "holds_row c (tb_connections (wd_db (snd (run_command ev cfg actor command w)))) \<and>
    uc_id c \<notin> uq_connectionId ` set (wd_calls (snd (run_command ev cfg actor command w)))"
proof -
  have tool: "keeps (out_of_sight c) (set_tool_enabled ev actor i b)" for i b
    unfolding set_tool_enabled_def list_visible_tools_def by (intro inv_intros) auto
  have "keeps (out_of_sight c) (run_command ev cfg actor command)"
    unfolding run_command_def using assms(1,2)
    by (cases command) (auto intro!: keeps_forget keeps_create_connection keeps_managing keeps_disconnect tool)
  then have "out_of_sight c (snd (run_command ev cfg actor command w))"
    by (rule keepsD)
      (use assms(3,4) in \<open>simp add: guarded_def of_connections_def list_all_iff, metis (no_types) image_eqI\<close>)
  then show ?thesis by (auto simp: guarded_def of_connections_def list_all_iff)
qed

lemma control_plane_contained_witness:
  "holds_row demo_connection (tb_connections (wd_db (snd (run_command demo_env demo_service
     \<lparr>ca_tenantId = ''t'', ca_userId = ''u''\<rparr> (Disconnect ''conn'') demo_connected))))"
proof -
  have "hidden_from \<lparr>ca_tenantId = ''t'', ca_userId = ''u''\<rparr> demo_connection"
    by (simp add: hidden_from_def is_visible_to_def demo_connection_def)
  moreover have "holds_row demo_connection (tb_connections (wd_db demo_connected))"
    "uc_id demo_connection \<notin> uq_connectionId ` set (wd_calls demo_connected)"
    by (simp_all add: holds_row_def demo_connected_def demo_world_def)
  ultimately show ?thesis
    using control_plane_contained [of "\<lparr>ca_tenantId = ''t'', ca_userId = ''u''\<rparr>" demo_connection demo_env demo_connected
        demo_service "Disconnect ''conn''"] demo_others by blast
qed

section \<open>Names of a catalogue\<close>

lemma first_of_each_distinct:
  "distinct (map f (first_of_each f seen xs)) \<and> set (map f (first_of_each f seen xs)) = set (map f xs) - set seen"
  by (induction xs arbitrary: seen) auto

lemma tool_loop_free:
  assumes "tool_name_loop base digest taken a = Some n"
  shows "n \<notin> set taken"
  by (rule tool_name_loop.raw_induct [OF _ assms]) (auto split: if_splits)

lemma gateway_name_free: "gateway_tool_name h a u taken = Some n \<Longrightarrow> n \<notin> set taken"
  using tool_loop_free by (auto simp: gateway_tool_name_def Let_def split: if_splits)

lemma tool_record_fields:
  assumes "tool_record ev cfg c started g (nm, v) w = (Inr r, w')"
  shows "dt_upstreamName r = nm" "dt_gatewayName r = g" "dt_connectionId r = uc_id c" "dt_tenantId r = uc_tenantId c"
    "dt_enabled r \<longrightarrow> dt_riskLevel r \<notin> set (tp_blockedRiskLevels (sc_policy cfg))"
  using assms
  by (auto simp: tool_record_def io_bind_Inr Let_def should_expose_tool_def io_return_def)

lemma tool_records_fields:
  assumes "tool_records ev cfg c started taken entries w = (Inr rs, w')"
  shows "map dt_upstreamName rs = map fst entries" "distinct (map dt_gatewayName rs)"
    "set (map dt_gatewayName rs) \<inter> set taken = {}"
    "list_all (\<lambda>r. dt_connectionId r = uc_id c \<and> dt_tenantId r = uc_tenantId c \<and>
       (dt_enabled r \<longrightarrow> dt_riskLevel r \<notin> set (tp_blockedRiskLevels (sc_policy cfg)))) rs"
  using assms
proof (atomize (full), induction entries arbitrary: taken rs w w')
  case (Cons entry entries taken rs w w')
  obtain nm v where entry: "entry = (nm, v)" by (cases entry)
  from Cons.prems obtain g r rest w1 where
    g: "gateway_tool_name (ev_sha256_hex ev) (uc_alias c) nm taken = Some g" and
    r: "tool_record ev cfg c started g (nm, v) w = (Inr r, w1)" and
    rest: "tool_records ev cfg c started (g # taken) entries w1 = (Inr rest, w')" and rs: "rs = r # rest"
    by (auto simp: entry io_bind_Inr io_throw_def io_return_def split: option.splits)
  from Cons.IH [OF rest] tool_record_fields [OF r] gateway_name_free [OF g] show ?case
    by (auto simp: rs entry)
qed (simp add: io_return_def)

lemma map_io_Inr:
  assumes "map_io f xs w = (Inr ys, w')" and "\<And>x y w w'. f x w = (Inr y, w') \<Longrightarrow> R x y"
  shows "list_all2 R xs ys"
  using assms(1)
proof (induction xs arbitrary: ys w)
  case (Cons x xs ys w)
  then show ?case using assms(2) by (force simp: io_bind_Inr io_return_def)
qed (simp add: io_return_def)

lemma prompt_records_names:
  assumes "map_io (prompt_record ev c started) entries w = (Inr rs, w')"
  shows "map dp_upstreamName rs = map fst entries"
proof -
  have "list_all2 (\<lambda>e r. dp_upstreamName r = fst e) entries rs"
    by (rule map_io_Inr [OF assms])
      (auto simp: prompt_record_def io_bind_Inr io_return_def split: prod.splits)
  then show ?thesis by (induction rule: list_all2_induct) simp_all
qed

text \<open>
  C21: A catalogue that was read from an upstream is unambiguous, however the upstream repeats itself
  or whatever its names collide on: no two of its tools share an upstream name or a gateway name, no
  two resources a URI and no two prompts a name; every tool belongs to the connection, and none of a
  blocked risk level is exposed.
\<close>

theorem catalogue_unambiguous:
  assumes "discover_catalogue ev cfg c started w = (Inr r, w')"
  shows "distinct (map dt_upstreamName (ct_tools r)) \<and> distinct (map dt_gatewayName (ct_tools r)) \<and>
    distinct (map dr_upstreamUri (ct_resources r)) \<and> distinct (map dp_upstreamName (ct_prompts r)) \<and>
    list_all (\<lambda>t. dt_connectionId t = uc_id c \<and> dt_tenantId t = uc_tenantId c \<and>
      (\<not> dt_enabled t \<or> dt_riskLevel t \<notin> set (tp_blockedRiskLevels (sc_policy cfg)))) (ct_tools r)"
proof -
  obtain nts w1 w2 nps w3 w4 w5 ps ts rs where
    t: "tool_records ev cfg c started [] (first_of_each fst [] nts) w1 = (Inr ts, w2)" and
    p: "map_io (prompt_record ev c started) (first_of_each fst [] nps) w3 = (Inr ps, w4)" and
    r: "ct_tools r = ts" "ct_prompts r = ps" "ct_resources r = first_of_each dr_upstreamUri [] rs"
    using assms unfolding discover_catalogue_def by (auto simp: io_bind_Inr io_return_def)
  note tools = tool_records_fields [OF t] and prompts = prompt_records_names [OF p]
  have "distinct (map dt_upstreamName ts)" "distinct (map dp_upstreamName ps)"
    by (simp_all only: tools(1) prompts conjunct1 [OF first_of_each_distinct])
  moreover have "distinct (map dr_upstreamUri (first_of_each dr_upstreamUri [] rs))"
    using first_of_each_distinct by blast
  moreover have "list_all (\<lambda>t. dt_connectionId t = uc_id c \<and> dt_tenantId t = uc_tenantId c \<and>
      (\<not> dt_enabled t \<or> dt_riskLevel t \<notin> set (tp_blockedRiskLevels (sc_policy cfg)))) ts"
    by (rule list.pred_mono_strong [OF tools(4)]) auto
  ultimately show ?thesis using tools(2) by (simp add: r)
qed

text \<open>An upstream that lists one tool twice.\<close>

definition repeating_env :: env where
  "repeating_env = demo_env\<lparr>ev_upstream := (\<lambda>k q. Inr [(''tools'', JArr (replicate 2 (JObj [(''name'', JStr ''get'')])))])\<rparr>"

definition repeating_world :: world where
  "repeating_world = demo_connected\<lparr>wd_live := demo_live\<lparr>lv_clients := [(session_key ''conn'' catalogue_session,
     \<lparr>uk_capabilities = [], uk_protocolVersion = [], uk_lastUsed = 0, uk_logLevel = None\<rparr>)]\<rparr>\<rparr>"

lemma repeating_discovers:
  "\<exists>r w'. discover_catalogue repeating_env demo_service demo_connection 0 repeating_world = (Inr r, w') \<and>
     map dt_upstreamName (ct_tools r) = [''get'']"
proof -
  let ?u = "\<lparr>uk_capabilities = [], uk_protocolVersion = [], uk_lastUsed = 0, uk_logLevel = None\<rparr> :: upstream_client"
  have acquire: "\<exists>w1. acquire repeating_env demo_connection catalogue_session repeating_world = (Inr ?u, w1)"
    by (simp add: acquire_def live_get_def live_modify_def io_defs Let_def repeating_world_def demo_connection_def
        demo_connected_def demo_world_def demo_live_def)
  have tools: "\<exists>w2. list_upstream_tools repeating_env i w1 = (Inr (replicate 2 (JObj [(''name'', JStr ''get'')])), w2)" for i w1
    by (simp add: list_upstream_tools_def collect_page_def max_pages_def numeral_eq_Suc upstream_request_def
        upstream_wait_def io_defs repeating_env_def array_items_def next_cursor_def)
  have none: "list_upstream_resources ev ?u i = io_return []" "list_upstream_templates ev ?u i = io_return []"
    "list_upstream_prompts ev ?u i = io_return []" for ev i
    by (simp_all add: list_upstream_resources_def list_upstream_templates_def list_upstream_prompts_def offers_def
        truthy_def)
  have stored: "\<exists>r w3. tool_records repeating_env demo_service demo_connection 0 []
      [(''get'', JObj [(''name'', JStr ''get'')])] w = (Inr r, w3) \<and> map dt_upstreamName r = [''get'']" for w
    by (simp add: gateway_tool_name_def Let_def tool_record_def object_member_def truthy_def io_to_object_def
        or_null_def io_defs new_id_def draw_def)
  obtain w1 where 1: "acquire repeating_env demo_connection catalogue_session repeating_world = (Inr ?u, w1)"
    using acquire by blast
  obtain w2 where 2: "list_upstream_tools repeating_env (uc_id demo_connection) w1 =
      (Inr (replicate 2 (JObj [(''name'', JStr ''get'')])), w2)" using tools by blast
  obtain r w3 where 3: "tool_records repeating_env demo_service demo_connection 0 []
      [(''get'', JObj [(''name'', JStr ''get'')])] w2 = (Inr r, w3)" "map dt_upstreamName r = [''get'']"
    using stored [of w2] by (elim exE conjE)
  have named: "map_io (named ''name'') (replicate 2 (JObj [(''name'', JStr ''get'')])) w2 =
      (Inr (replicate 2 (''get'', JObj [(''name'', JStr ''get'')])), w2)"
    by (simp add: numeral_eq_Suc named_def text_member_def io_defs)
  have twice: "first_of_each fst [] (replicate 2 (''get'', x)) = [(''get'', x)]" for x :: json
    by (simp add: numeral_eq_Suc)
  show ?thesis
    unfolding discover_catalogue_def
      io_bind_eq [where m = "acquire repeating_env demo_connection catalogue_session", OF 1]
      io_bind_eq [where m = "list_upstream_tools repeating_env (uc_id demo_connection)", OF 2] none io_bind_return
      io_bind_eq [where m = "map_io (named ''name'') (replicate 2 (JObj [(''name'', JStr ''get'')]))", OF named] twice
      io_bind_eq [where m = "tool_records repeating_env demo_service demo_connection 0 []
        [(''get'', JObj [(''name'', JStr ''get'')])]", OF 3(1)]
    using 3(2) by (simp add: io_defs)
qed

lemma catalogue_unambiguous_witness:
  "\<exists>r :: catalogue_records. map dt_upstreamName (ct_tools r) = [''get''] \<and> distinct (map dt_gatewayName (ct_tools r))"
proof -
  obtain r w' where r: "discover_catalogue repeating_env demo_service demo_connection 0 repeating_world = (Inr r, w')"
    "map dt_upstreamName (ct_tools r) = [''get'']" using repeating_discovers by (elim exE conjE)
  from catalogue_unambiguous [OF r(1)] r(2) show ?thesis by (intro exI [of _ r]) simp
qed

section \<open>Findings\<close>

text \<open>
  A connection is disabled, yet a catalogue sync that read it before puts it back in service: the row
  a successful sync leaves is connected, whatever another worker made of it meanwhile.
\<close>

lemma sync_reconnects:
  assumes "sync_catalogue ev cfg c w = (Inr s, w')" and "r \<in> set (tb_connections (wd_db w'))" and "uc_id r = uc_id c"
  shows "uc_status r \<in> {CONNECTED, CONNECTED_NON_REFRESHABLE}"
proof -
  have failed: "sync_failed c e v \<noteq> (Inr s, v')" for e v v'
    by (simp add: sync_failed_def io_bind_def io_throw_def split: prod.splits sum.splits)
  have quiet: "tb_connections (wd_db (snd (io_when b (notify_catalogue_changed ev t x y z) v))) = tb_connections (wd_db v)"
    for b t x y z v
  proof -
    have "keeps (guarded (of_connections (\<lambda>rows. rows = tb_connections (wd_db v))) (\<lambda>_. True))
        (io_when b (notify_catalogue_changed ev t x y z))"
      by (intro inv_intros)
    from keepsD [OF this, of v] show ?thesis by (simp add: guarded_def of_connections_def list.pred_True)
  qed
  obtain st records sync b1 b2 w1 w2 x where
    u: "updated_connection (uc_id c) (\<lambda>r. r\<lparr>
             uc_status := (if uc_status c = CONNECTED_NON_REFRESHABLE then CONNECTED_NON_REFRESHABLE else CONNECTED),
             uc_lastSuccessAt := Some st, uc_lastErrorCode := None, uc_lastErrorMessageRedacted := None\<rparr>) w1 = (Inr x, w2)"
    and n: "io_when (tools_changed sync \<or> b1 \<or> b2)
             (notify_catalogue_changed ev (uc_tenantId c) (tools_changed sync) b1 b2) w2 = (Inr (), w')"
    using assms(1) failed unfolding sync_catalogue_def
    by (auto simp: io_catch_def io_bind_Inr io_seq_def io_return_def now_def io_get_def split: prod.splits sum.splits)
  from quiet [of "tools_changed sync \<or> b1 \<or> b2" "uc_tenantId c" "tools_changed sync" b1 b2 w2] n assms(2)
  have "r \<in> set (tb_connections (wd_db w2))" by simp
  with u assms(3) show ?thesis
    by (auto simp: updated_connection_def io_defs connections_update_def update_rows_def Let_def
        split: sum.splits if_splits)
qed

text \<open>Creating a connection to a server somebody else already connected to shows the other's connection.\<close>

lemma create_shows_existing:
  assumes "canonicalize_url (ev_parse_url ev) \<lparr>up_allowHttp = sc_allowHttp cfg\<rparr> (ki_mcpUrl q) = Inr u"
    and "servers_find_by_canonical_url (ki_tenantId q) u (tb_servers (wd_db w)) = Some s"
    and "find (\<lambda>c. uc_mcpServerId c = ms_id s) (connections_list_by_tenant (ki_tenantId q) (tb_connections (wd_db w))) = Some c"
  shows "create_connection ev cfg q w = view c w"
  using assms by (simp add: create_connection_def find_existing_connection_def io_lift_def)

end
