(* ===== verification/Resource_Server.thy ===== *)
theory Resource_Server
  imports Discovery Tool_Policy
begin

text \<open>
  \<^verbatim>\<open>packages/oauth/src/resource-server.ts\<close>: how the gateway judges the bearer tokens presented to
  its own endpoints. \<open>wd_jwks\<close> is the map \<open>jwks\<close>; importing a JWK and checking a signature with it are
  \<open>ev_verify_signature\<close>. The map \<open>inFlight\<close>, which lets requests that miss together share one fetch, is
  left out: \<open>load_jwks\<close> is the fetch of the request that starts it.
\<close>

section \<open>Options and results\<close>

record resource_server_options =
  rs_issuers :: "string list"
  rs_resource :: string
  rs_requiredScopes :: "string list"
  rs_allowHttp :: bool
  rs_jwksTtlMs :: "int option"
  rs_jwksRefetchCooldownMs :: "int option"
  rs_clockSkewSeconds :: "int option"

record verified_access_token =
  vt_issuer :: string
  vt_subject :: string
  vt_scopes :: "string list"
  vt_clientId :: "string option"
  vt_claims :: json_object

definition rs_enabled :: "resource_server_options \<Rightarrow> bool" where
  "rs_enabled o' \<longleftrightarrow> length (rs_issuers o') > 0"

definition default_jwks_ttl :: int where
  "default_jwks_ttl = 3600000"

definition default_cooldown :: int where
  "default_cooldown = 60000"

definition default_skew :: int where
  "default_skew = 60"

definition or_default :: "int option \<Rightarrow> int \<Rightarrow> int" where
  "or_default v d = (case v of None \<Rightarrow> d | Some x \<Rightarrow> x)"

definition invalid_token :: "string \<Rightarrow> exn" where
  "invalid_token m =
     Gateway_Exn (gerr_data UNAUTHENTICATED m (JObj [(''oauthError'', JStr ''invalid_token'')]))"

section \<open>Decoding\<close>

record decoded_jwt =
  dj_header :: json_object
  dj_claims :: json_object
  dj_signingInput :: string
  dj_signature :: string

definition decode_segment :: "env \<Rightarrow> string \<Rightarrow> string \<Rightarrow> json_object io" where
  "decode_segment ev segment what =
     (case Option.bind (utf8_decode (b64_decode segment)) (ev_parse_json ev) of
        Some (JObj es) \<Rightarrow> io_return es
      | _ \<Rightarrow> io_throw (invalid_token (''Token '' @ what @ '' is not readable JSON'')))"

definition decode_jwt :: "env \<Rightarrow> string \<Rightarrow> decoded_jwt io" where
  "decode_jwt ev token =
     (case split_on (CHR ''.'') token of
        [rawHeader, rawClaims, rawSignature] \<Rightarrow>
          (io_bind (decode_segment ev rawHeader ''header'') (\<lambda>header.
           io_bind (decode_segment ev rawClaims ''claims'') (\<lambda>claims.
           io_return \<lparr>dj_header = header, dj_claims = claims,
               dj_signingInput = rawHeader @ ''.'' @ rawClaims, dj_signature = b64_decode rawSignature\<rparr>)))
      | _ \<Rightarrow> io_throw (invalid_token ''Bearer credential is not a JSON Web Token''))"

text \<open>
  \<open>String(value)\<close>; a number is written as JSON writes it, and no object has a \<open>toString\<close> of its own.
\<close>

fun js_text :: "(json \<Rightarrow> string) \<Rightarrow> json \<Rightarrow> string" where
  "js_text num (JStr s) = s"
| "js_text num (JNum n) = num (JNum n)"
| "js_text num (JBool b) = (if b then ''true'' else ''false'')"
| "js_text num JNull = ''null''"
| "js_text num (JArr xs) = join '','' (map (\<lambda>x. if x = JNull then [] else js_text num x) xs)"
| "js_text num (JObj es) = ''[object Object]''"

definition js_string :: "env \<Rightarrow> json option \<Rightarrow> string" where
  "js_string ev v = (case v of None \<Rightarrow> ''undefined'' | Some x \<Rightarrow> js_text (ev_show_json ev) x)"

section \<open>Algorithms and types\<close>

definition algorithms :: "string list" where
  "algorithms = [''RS256'', ''RS384'', ''RS512'', ''PS256'', ''PS384'', ''PS512'', ''ES256'', ''ES384'',
     ''ES512'', ''EdDSA'']"

text \<open>\<open>alg in ALGORITHMS\<close>, which sees what every object inherits too.\<close>

definition in_algorithms :: "string \<Rightarrow> bool" where
  "in_algorithms alg \<longleftrightarrow> alg \<in> set algorithms \<or> alg \<in> set inherited_keys"

definition access_token_types :: "string list" where
  "access_token_types = [''jwt'', ''at+jwt'', ''application/at+jwt'']"

section \<open>Signing keys\<close>

definition key_family :: "string \<Rightarrow> string" where
  "key_family alg = (if starts_with ''ES'' alg then ''EC'' else if alg = ''EdDSA'' then ''OKP'' else ''RSA'')"

definition key_usable :: "string \<Rightarrow> json_object \<Rightarrow> bool" where
  "key_usable alg key \<longleftrightarrow>
     (map_of key ''use'' = None \<or> map_of key ''use'' = Some (JStr ''sig'')) \<and>
     (case map_of key ''alg'' of Some (JStr a) \<Rightarrow> a = alg | _ \<Rightarrow> True) \<and>
     map_of key ''kty'' = Some (JStr (key_family alg))"

definition select_key :: "json_object list \<Rightarrow> string option \<Rightarrow> string \<Rightarrow> json_object option" where
  "select_key keys kid alg =
     (let usable = filter (key_usable alg) keys in
      case kid of
        Some k \<Rightarrow> List.find (\<lambda>key. map_of key ''kid'' = Some (JStr k)) usable
      | None \<Rightarrow> (case usable of [key] \<Rightarrow> Some key | _ \<Rightarrow> None))"

definition usable_entries :: "json list \<Rightarrow> json_object list" where
  "usable_entries keys = List.map_filter (\<lambda>k. case k of JObj es \<Rightarrow> Some es | _ \<Rightarrow> None) keys"

definition load_jwks :: "env \<Rightarrow> oauth_deps \<Rightarrow> resource_server_options \<Rightarrow> string \<Rightarrow> json_object list io" where
  "load_jwks ev d o' issuer =
     (io_bind (discover_authorization_server ev d issuer) (\<lambda>(r, metadata).
      (case am_jwks_uri metadata of
           None \<Rightarrow> io_throw (invalid_token (''Issuer '' @ issuer @ '' publishes no jwks_uri''))
         | Some uri \<Rightarrow>
             (io_bind (get_json ev (od_policy d) uri) (\<lambda>v.
              (case jget v ''keys'' of
                   Some (JArr keys) \<Rightarrow>
                     (io_bind now (\<lambda>t.
                      io_bind (io_get wd_jwks) (\<lambda>cache.
                      io_seq (io_modify (\<lambda>w. w\<lparr>wd_jwks := map_set cache issuer
                          \<lparr>ks_keys = usable_entries keys,
                           ks_expiresAt = t + or_default (rs_jwksTtlMs o') default_jwks_ttl,
                           ks_refetchedAt = Option.bind (map_of cache issuer) ks_refetchedAt\<rparr>\<rparr>)) (
                      io_return (usable_entries keys)))))
                 | _ \<Rightarrow> io_throw (invalid_token (''Key set at '' @ uri @ '' has no keys''))))))))"

definition unknown_key :: "string \<Rightarrow> string option \<Rightarrow> string \<Rightarrow> exn" where
  "unknown_key issuer kid alg =
     invalid_token (''Issuer '' @ issuer @
       (case kid of None \<Rightarrow> '' publishes no key usable for '' @ alg
        | Some k \<Rightarrow> '' publishes no key with id '' @ k))"

definition fetch_key ::
  "env \<Rightarrow> oauth_deps \<Rightarrow> resource_server_options \<Rightarrow> string \<Rightarrow> string option \<Rightarrow> string \<Rightarrow> json_object io" where
  "fetch_key ev d o' issuer kid alg =
     (io_bind (load_jwks ev d o' issuer) (\<lambda>keys.
      (case select_key keys kid alg of
           None \<Rightarrow> io_throw (unknown_key issuer kid alg)
         | Some key \<Rightarrow> io_return key)))"

definition cooling :: "resource_server_options \<Rightarrow> int \<Rightarrow> key_set \<Rightarrow> bool" where
  "cooling o' t c \<longleftrightarrow>
     (case ks_refetchedAt c of
        None \<Rightarrow> False
      | Some r \<Rightarrow> t - r < or_default (rs_jwksRefetchCooldownMs o') default_cooldown)"

definition signing_key ::
  "env \<Rightarrow> oauth_deps \<Rightarrow> resource_server_options \<Rightarrow> string \<Rightarrow> string option \<Rightarrow> string \<Rightarrow> json_object io" where
  "signing_key ev d o' issuer kid alg =
     (io_bind now (\<lambda>t.
      io_bind (io_get wd_jwks) (\<lambda>cache.
      (case map_of cache issuer of
           None \<Rightarrow> fetch_key ev d o' issuer kid alg
         | Some c \<Rightarrow>
             if ks_expiresAt c \<le> t then fetch_key ev d o' issuer kid alg
             else case select_key (ks_keys c) kid alg of
               Some key \<Rightarrow> io_return key
             | None \<Rightarrow>
                 if cooling o' t c then io_throw (unknown_key issuer kid alg)
                 else io_seq (io_modify (\<lambda>w. w\<lparr>wd_jwks := map_set cache issuer (c\<lparr>ks_refetchedAt := Some t\<rparr>)\<rparr>))
                        (fetch_key ev d o' issuer kid alg)))))"

definition check_signature :: "env \<Rightarrow> string \<Rightarrow> json_object \<Rightarrow> decoded_jwt \<Rightarrow> unit io" where
  "check_signature ev alg key j =
     (case ev_verify_signature ev alg key (dj_signingInput j) (dj_signature j) of
        Inl m \<Rightarrow> io_throw (invalid_token (''Signing key is unusable: '' @ m))
      | Inr b \<Rightarrow> if b then io_return () else io_throw (invalid_token ''Token signature does not verify''))"

section \<open>Claims\<close>

definition check_lifetime :: "resource_server_options \<Rightarrow> json_object \<Rightarrow> unit io" where
  "check_lifetime o' claims =
     (io_bind now (\<lambda>t.
      (let n = t div 1000 in
      (let skew = or_default (rs_clockSkewSeconds o') default_skew in
      (case json_number (map_of claims ''exp'') of
           None \<Rightarrow> io_throw (invalid_token ''Token has no expiry'')
         | Some e \<Rightarrow>
             if e + of_int skew \<le> of_int n then io_throw (invalid_token ''Token has expired'')
             else if (case json_number (map_of claims ''nbf'') of
                        None \<Rightarrow> False | Some b \<Rightarrow> of_int n < b - of_int skew)
             then io_throw (invalid_token ''Token is not valid yet'')
             else io_return ())))))"

definition audiences :: "json_object \<Rightarrow> string list" where
  "audiences claims =
     (case map_of claims ''aud'' of
        Some (JArr xs) \<Rightarrow> List.map_filter (\<lambda>x. json_string (Some x)) xs
      | Some (JStr s) \<Rightarrow> [s]
      | _ \<Rightarrow> [])"

definition names_resource :: "env \<Rightarrow> resource_server_options \<Rightarrow> string \<Rightarrow> string \<Rightarrow> bool" where
  "names_resource ev o' expected audience =
     (case canonicalize_url (ev_parse_url ev) \<lparr>up_allowHttp = rs_allowHttp o'\<rparr> audience of
        Inr c \<Rightarrow> c = expected
      | Inl e \<Rightarrow> audience = rs_resource o')"

definition check_audience :: "env \<Rightarrow> resource_server_options \<Rightarrow> json_object \<Rightarrow> unit io" where
  "check_audience ev o' claims =
     (io_bind (io_lift (canonicalize_url (ev_parse_url ev) \<lparr>up_allowHttp = rs_allowHttp o'\<rparr> (rs_resource o'))) (\<lambda>expected.
      (let as = audiences claims in
      (if list_ex (names_resource ev o' expected) as then io_return ()
         else io_throw (invalid_token (''Token was not issued for this gateway; its audience is '' @
           (if join '', '' as = [] then ''absent'' else join '', '' as)))))))"

definition check_scopes :: "resource_server_options \<Rightarrow> json_object \<Rightarrow> string list io" where
  "check_scopes o' claims =
     (let scopes = parse_scopes (json_string (map_of claims ''scope''));
          required = rs_requiredScopes o' in
      if required \<noteq> [] \<and> \<not> list_ex (\<lambda>s. s \<in> set scopes) required
      then io_fail (gerr_data FORBIDDEN (''Token needs one of these scopes: '' @ join '', '' required)
             (JObj [(''oauthError'', JStr ''insufficient_scope''), (''scope'', JStr (join '' '' required))]))
      else io_return scopes)"

section \<open>Verification\<close>

definition verified_token ::
  "env \<Rightarrow> resource_server_options \<Rightarrow> string \<Rightarrow> json_object \<Rightarrow> verified_access_token io" where
  "verified_token ev o' configured claims =
     (io_seq (check_lifetime o' claims) (
      io_seq (check_audience ev o' claims) (
      io_bind (check_scopes o' claims) (\<lambda>scopes.
      (case map_of claims ''sub'' of
           Some (JStr subject) \<Rightarrow>
             if subject = [] then io_throw (invalid_token ''Token has no subject'')
             else io_return \<lparr>vt_issuer = configured, vt_subject = subject, vt_scopes = scopes,
                    vt_clientId = json_string (map_of claims ''client_id''), vt_claims = claims\<rparr>
         | _ \<Rightarrow> io_throw (invalid_token ''Token has no subject''))))))"

definition check_header :: "env \<Rightarrow> json_object \<Rightarrow> string io" where
  "check_header ev header =
     (case map_of header ''alg'' of
        Some (JStr alg) \<Rightarrow>
          if \<not> in_algorithms alg
          then io_throw (invalid_token (''Unsupported token signing algorithm: '' @ alg))
          else (case map_of header ''typ'' of
                  Some (JStr typ) \<Rightarrow>
                    if to_lower typ \<notin> set access_token_types
                    then io_throw (invalid_token (''A '' @ typ @ '' is not an access token''))
                    else io_return alg
                | _ \<Rightarrow> io_return alg)
      | v \<Rightarrow> io_throw (invalid_token (''Unsupported token signing algorithm: '' @ js_string ev v)))"

definition find_issuer :: "resource_server_options \<Rightarrow> json_object \<Rightarrow> string io" where
  "find_issuer o' claims =
     (case map_of claims ''iss'' of
        Some (JStr issuer) \<Rightarrow>
          (case List.find (\<lambda>candidate. same_issuer candidate issuer) (rs_issuers o') of
             None \<Rightarrow> io_throw (invalid_token (''Token issuer '' @ issuer @ '' is not accepted by this gateway''))
           | Some configured \<Rightarrow> io_return configured)
      | _ \<Rightarrow> io_throw (invalid_token ''Token has no issuer''))"

definition verify_token ::
  "env \<Rightarrow> oauth_deps \<Rightarrow> resource_server_options \<Rightarrow> string \<Rightarrow> verified_access_token io" where
  "verify_token ev d o' token =
     (io_bind (decode_jwt ev token) (\<lambda>j.
      io_bind (check_header ev (dj_header j)) (\<lambda>alg.
      io_bind (find_issuer o' (dj_claims j)) (\<lambda>configured.
      io_bind (signing_key ev d o' configured (json_string (map_of (dj_header j) ''kid'')) alg) (\<lambda>key.
      io_seq (check_signature ev alg key j) (
      verified_token ev o' configured (dj_claims j)))))))"

section \<open>Key sets\<close>

text \<open>
  A key an issuer has published: it was in the document served at the \<open>jwks_uri\<close> of metadata that is
  the issuer's. The cache holds only such keys, under their issuer.
\<close>

definition served_key :: "env \<Rightarrow> oauth_deps \<Rightarrow> string \<Rightarrow> json_object \<Rightarrow> bool" where
  "served_key ev d issuer key \<longleftrightarrow>
     (\<exists>m uri w v w' keys. metadata_for ev d issuer m \<and> am_jwks_uri m = Some uri \<and>
        get_json ev (od_policy d) uri w = (Inr v, w') \<and> jget v ''keys'' = Some (JArr keys) \<and> JObj key \<in> set keys)"

definition key_sets_served :: "env \<Rightarrow> oauth_deps \<Rightarrow> (string \<times> key_set) list \<Rightarrow> bool" where
  "key_sets_served ev d cache \<longleftrightarrow> list_all (\<lambda>(i, c). list_all (served_key ev d i) (ks_keys c)) cache"

definition keys_vouched :: "env \<Rightarrow> oauth_deps \<Rightarrow> world \<Rightarrow> bool" where
  "keys_vouched ev d w \<longleftrightarrow> issuers_ok ev d (wd_db w) \<and> key_sets_served ev d (wd_jwks w)"

lemma ensures_and: "ensures I m R \<Longrightarrow> keeps J m \<Longrightarrow> ensures (\<lambda>w. I w \<and> J w) m R"
  unfolding ensures_def keeps_def by (fastforce split: prod.splits sum.splits)

lemma ensures_self: "keeps I m \<Longrightarrow> ensures I m (\<lambda>x. \<exists>w w'. m w = (Inr x, w'))"
  unfolding ensures_def keeps_def by (fastforce split: prod.splits sum.splits)

text \<open>Discovery and fetches leave the cache alone.\<close>

lemma keeps_jwks_basic [inv_intros]:
  "keeps (\<lambda>w. P (wd_jwks w)) (wait ev)" "keeps (\<lambda>w. P (wd_jwks w)) (draw ev)" "keeps (\<lambda>w. P (wd_jwks w)) (new_id ev p)"
  "keeps (\<lambda>w. P (wd_jwks w)) (upsert_issuer r)" "keeps (\<lambda>w. P (wd_jwks w)) (send ev rq)"
proof -
  show w: "keeps (\<lambda>w. P (wd_jwks w)) (wait ev)" by (simp add: keeps_def wait_def)
  show "keeps (\<lambda>w. P (wd_jwks w)) (draw ev)" "keeps (\<lambda>w. P (wd_jwks w)) (new_id ev p)"
    by (rule keeps_draw keeps_draws; simp add: blind_to_draws_def)+
  show "keeps (\<lambda>w. P (wd_jwks w)) (upsert_issuer r)"
    by (auto simp: keeps_def upsert_issuer_def split: option.splits prod.splits)
  have "keeps (\<lambda>w. P (wd_jwks w)) (io_modify (\<lambda>w. w\<lparr>wd_sent := wd_sent w @ [rq]\<rparr>))"
    by (simp add: keeps_def)
  with w show "keeps (\<lambda>w. P (wd_jwks w)) (send ev rq)"
    unfolding send_def by (intro inv_intros) simp_all
qed

lemma keeps_jwks_request_once [inv_intros]:
  "keeps (\<lambda>w. P (wd_jwks w)) (request_once ev policy raw opts headers)"
  unfolding request_once_def connect_address_def Let_def
  by (auto intro!: inv_intros split: option.splits sum.splits)

lemma keeps_jwks_request_loop [inv_intros]:
  "keeps (\<lambda>w. P (wd_jwks w)) (request_loop ev policy opts left current headers)"
proof (induction left arbitrary: current headers)
  case 0
  show ?case
    unfolding request_loop.simps [of ev policy opts 0 current headers]
    by (auto intro!: inv_intros split: option.splits)
next
  case (Suc n)
  then show ?case
    unfolding request_loop.simps [of ev policy opts "Suc n" current headers]
    by (auto intro!: inv_intros split: option.splits)
qed

lemma keeps_jwks_get_json [inv_intros]: "keeps (\<lambda>w. P (wd_jwks w)) (get_json ev policy u)"
  unfolding get_json_def fetch_def by (auto intro!: inv_intros)

lemma keeps_jwks_discover [inv_intros]:
  "keeps (\<lambda>w. P (wd_jwks w)) (discover_authorization_server ev d issuer)"
proof -
  have c: "keeps (\<lambda>w. P (wd_jwks w)) (server_candidate ev d issuer cached c)" for cached c
    unfolding server_candidate_def cache_issuer_def
    by (intro keeps_bind keeps_option keeps_return keeps_now keeps_lift keeps_jwks_basic keeps_jwks_get_json)
  have "keeps (\<lambda>w. P (wd_jwks w)) (first_success k m (server_candidate ev d issuer cached) cs fs)" for k m cached cs fs
    by (induction cs arbitrary: fs) (auto intro!: inv_intros c)
  then show ?thesis
    unfolding discover_authorization_server_def fetch_server_def
    by (auto intro!: inv_intros split: option.splits)
qed

lemma served_all:
  assumes "metadata_for ev d issuer m" and "am_jwks_uri m = Some uri"
    and "\<exists>w w'. get_json ev (od_policy d) uri w = (Inr v, w')" and "jget v ''keys'' = Some (JArr keys)"
  shows "list_all (served_key ev d issuer) (usable_entries keys)"
  using assms unfolding served_key_def usable_entries_def
  by (fastforce simp: list_all_iff List.map_filter_def split: json.splits)

lemma key_sets_served_set:
  "key_sets_served ev d cache \<Longrightarrow> list_all (served_key ev d i) (ks_keys c) \<Longrightarrow> key_sets_served ev d (map_set cache i c)"
  by (auto simp: key_sets_served_def list_all_iff dest!: set_map_set)

lemma key_sets_served_get:
  "key_sets_served ev d cache \<Longrightarrow> map_of cache i = Some c \<Longrightarrow> list_all (served_key ev d i) (ks_keys c)"
  by (auto simp: key_sets_served_def list_all_iff dest!: map_of_SomeD)

lemma ensures_load_jwks:
  assumes "others_keep ev (issuers_ok ev d)"
  shows "ensures (keys_vouched ev d) (load_jwks ev d o' issuer) (list_all (served_key ev d issuer))"
proof -
  let ?I = "keys_vouched ev d"
  have I: "?I = (\<lambda>w. issuers_ok ev d (wd_db w) \<and> key_sets_served ev d (wd_jwks w))"
    by (simp add: keys_vouched_def fun_eq_iff)
  have discover: "ensures ?I (discover_authorization_server ev d issuer) (discovered_for ev d issuer)"
    unfolding I by (intro ensures_and ensures_discover keeps_jwks_discover assms)
  have got: "ensures ?I (get_json ev (od_policy d) uri) (\<lambda>v. \<exists>w w'. get_json ev (od_policy d) uri w = (Inr v, w'))" for uri
    unfolding I by (intro ensures_and ensures_self keeps_jwks_get_json keeps_tables_get_json assms)
  have store: "ensures ?I (io_bind now (\<lambda>t. io_bind (io_get wd_jwks) (\<lambda>cache.
      io_seq (io_modify (\<lambda>w. w\<lparr>wd_jwks := map_set cache issuer (c t cache)\<rparr>)) (io_return ks))))
      (list_all (served_key ev d issuer))"
    if "list_all (served_key ev d issuer) ks" and "\<And>t cache. ks_keys (c t cache) = ks" for c ks
    using that key_sets_served_set [of ev d _ issuer "c _ _"]
    by (auto simp: ensures_def keys_vouched_def)
  show ?thesis
    unfolding load_jwks_def
    apply (rule ensures_bind [OF discover])
    apply (clarsimp split: option.splits simp: discovered_for_def)
    apply (intro conjI impI allI ensures_throw)
    apply (rule ensures_bind [OF got])
    apply (auto split: option.splits json.splits intro!: ensures_throw store served_all)
    done
qed

lemma select_key_usable:
  assumes "select_key keys kid alg = Some key"
  shows "key \<in> set keys \<and> key_usable alg key"
  using assms
  by (auto simp: select_key_def Let_def find_Some_iff split: option.splits list.splits
      dest!: arg_cong [of _ _ set] nth_mem)

lemma ensures_signing_key:
  assumes "others_keep ev (issuers_ok ev d)"
  shows "ensures (keys_vouched ev d) (signing_key ev d o' issuer kid alg)
    (\<lambda>key. served_key ev d issuer key \<and> key_usable alg key)"
proof -
  let ?I = "keys_vouched ev d" and ?R = "\<lambda>key. served_key ev d issuer key \<and> key_usable alg key"
  have fetched: "ensures ?I (fetch_key ev d o' issuer kid alg) ?R"
    unfolding fetch_key_def
    by (rule ensures_bind [OF ensures_load_jwks [OF assms]])
      (auto intro!: ensures_intros split: option.splits dest!: select_key_usable simp: list_all_iff)
  have again: "?I w \<Longrightarrow> map_of (wd_jwks w) issuer = Some c \<Longrightarrow>
      ?I (w\<lparr>wd_jwks := map_set (wd_jwks w) issuer (c\<lparr>ks_refetchedAt := Some t\<rparr>)\<rparr>)" for w c t
    using key_sets_served_get [of ev d "wd_jwks w" issuer c]
    by (auto simp: keys_vouched_def intro!: key_sets_served_set)
  show ?thesis
    unfolding ensures_def
  proof (intro allI impI)
    fix w assume w: "?I w"
    show "case signing_key ev d o' issuer kid alg w of (Inl e, w') \<Rightarrow> ?I w' | (Inr x, w') \<Rightarrow> ?I w' \<and> ?R x"
      using w fetched [unfolded ensures_def] again [OF w] key_sets_served_get [of ev d "wd_jwks w" issuer]
      by (auto simp: signing_key_def keys_vouched_def list_all_iff split: option.splits dest!: select_key_usable)
  qed
qed

lemma names_resourceD:
  "names_resource ev o' c a \<Longrightarrow> a = rs_resource o' \<or>
     canonicalize_url (ev_parse_url ev) \<lparr>up_allowHttp = rs_allowHttp o'\<rparr> a = Inr c"
  by (auto simp: names_resource_def split: sum.splits)

section \<open>Properties\<close>

text \<open>What a presented token is, as far as its text says.\<close>

definition token_of :: "env \<Rightarrow> string \<Rightarrow> decoded_jwt \<Rightarrow> bool" where
  "token_of ev token j \<longleftrightarrow> (\<exists>w w'. decode_jwt ev token w = (Inr j, w'))"

text \<open>
  C5: A bearer token is accepted only if a configured issuer stands behind it: the token names the
  issuer, carries an algorithm of the list, and its signature verifies under a key that this issuer
  serves for it; it has not expired, it is meant for this gateway, names a subject and has one of the
  required scopes; and what the gateway takes over, the subject, the scopes, the claims, is the token's.
  The caches of metadata and keys stay what the issuers served.
\<close>

theorem access_token_vouched:
  assumes "others_keep ev (issuers_ok ev d)" and "keys_vouched ev d w"
    and "verify_token ev d o' token w = (Inr v, w')"
  shows "keys_vouched ev d w' \<and>
    (\<exists>j alg key iss e a. token_of ev token j \<and> vt_claims v = dj_claims j \<and>
       map_of (vt_claims v) ''iss'' = Some (JStr iss) \<and> same_issuer (vt_issuer v) iss \<and> vt_issuer v \<in> set (rs_issuers o') \<and>
       map_of (dj_header j) ''alg'' = Some (JStr alg) \<and> in_algorithms alg \<and> key_usable alg key \<and>
       served_key ev d (vt_issuer v) key \<and>
       ev_verify_signature ev alg key (dj_signingInput j) (dj_signature j) = Inr True \<and>
       json_number (map_of (vt_claims v) ''exp'') = Some e \<and>
       of_int (wd_now w' div 1000) < e + of_int (or_default (rs_clockSkewSeconds o') default_skew) \<and>
       a \<in> set (audiences (vt_claims v)) \<and>
       (a = rs_resource o' \<or>
        canonicalize_url (ev_parse_url ev) \<lparr>up_allowHttp = rs_allowHttp o'\<rparr> a =
        canonicalize_url (ev_parse_url ev) \<lparr>up_allowHttp = rs_allowHttp o'\<rparr> (rs_resource o')) \<and>
       map_of (vt_claims v) ''sub'' = Some (JStr (vt_subject v)) \<and> vt_subject v \<noteq> [] \<and>
       vt_scopes v = parse_scopes (json_string (map_of (vt_claims v) ''scope'')) \<and>
       (rs_requiredScopes o' = [] \<or> set (rs_requiredScopes o') \<inter> set (vt_scopes v) \<noteq> {}))"
proof -
  obtain j w1 alg w2 i w3 key w4 u w5 where decode: "decode_jwt ev token w = (Inr j, w1)"
    and header: "check_header ev (dj_header j) w1 = (Inr alg, w2)"
    and issuer: "find_issuer o' (dj_claims j) w2 = (Inr i, w3)"
    and key: "signing_key ev d o' i (json_string (map_of (dj_header j) ''kid'')) alg w3 = (Inr key, w4)"
    and sig: "check_signature ev alg key j w4 = (Inr u, w5)"
    and rest: "verified_token ev o' i (dj_claims j) w5 = (Inr v, w')"
    using assms(3) unfolding verify_token_def io_seq_def io_bind_Inr by blast
  have "w1 = w"
    using decode unfolding decode_jwt_def decode_segment_def
    by (auto simp: io_bind_def split: list.splits option.splits json.splits if_splits)
  moreover have h: "w2 = w1" "map_of (dj_header j) ''alg'' = Some (JStr alg)" "in_algorithms alg"
    using header unfolding check_header_def by (auto split: option.splits json.splits if_splits)
  moreover obtain iss where i: "w3 = w2" "map_of (dj_claims j) ''iss'' = Some (JStr iss)"
      "same_issuer i iss" "i \<in> set (rs_issuers o')"
    using issuer unfolding find_issuer_def
    by (auto simp: find_Some_iff split: option.splits json.splits if_splits)
  ultimately have "keys_vouched ev d w3" using assms(2) by simp
  from ensures_answer [OF ensures_signing_key [OF assms(1)] this key]
  have k: "keys_vouched ev d w4" "served_key ev d i key" "key_usable alg key" by auto
  have s: "w5 = w4" "ev_verify_signature ev alg key (dj_signingInput j) (dj_signature j) = Inr True"
    using sig unfolding check_signature_def by (auto split: sum.splits if_splits)
  obtain u6 w6 u7 w7 ss w8 where life: "check_lifetime o' (dj_claims j) w5 = (Inr u6, w6)"
    and aud: "check_audience ev o' (dj_claims j) w6 = (Inr u7, w7)"
    and scopes: "check_scopes o' (dj_claims j) w7 = (Inr ss, w8)"
    and last: "(case map_of (dj_claims j) ''sub'' of
           Some (JStr subject) \<Rightarrow>
             if subject = [] then io_throw (invalid_token ''Token has no subject'')
             else io_return \<lparr>vt_issuer = i, vt_subject = subject, vt_scopes = ss,
                    vt_clientId = json_string (map_of (dj_claims j) ''client_id''), vt_claims = dj_claims j\<rparr>
         | _ \<Rightarrow> io_throw (invalid_token ''Token has no subject'')) w8 = (Inr v, w')"
    using rest unfolding verified_token_def io_seq_def io_bind_Inr by blast
  have sub: "w' = w8" "vt_issuer v = i" "vt_claims v = dj_claims j" "vt_scopes v = ss"
      "map_of (dj_claims j) ''sub'' = Some (JStr (vt_subject v))" "vt_subject v \<noteq> []"
    using last by (auto split: option.splits json.splits if_splits)
  obtain e where e: "w6 = w5" "json_number (map_of (dj_claims j) ''exp'') = Some e"
      "of_int (wd_now w5 div 1000) < e + of_int (or_default (rs_clockSkewSeconds o') default_skew)"
    using life unfolding check_lifetime_def Let_def by (auto split: option.splits if_splits)
  obtain a where a: "w7 = w6" "a \<in> set (audiences (dj_claims j))"
      "a = rs_resource o' \<or> canonicalize_url (ev_parse_url ev) \<lparr>up_allowHttp = rs_allowHttp o'\<rparr> a =
        canonicalize_url (ev_parse_url ev) \<lparr>up_allowHttp = rs_allowHttp o'\<rparr> (rs_resource o')"
    using aud names_resourceD [of ev o' _ _]
    unfolding check_audience_def Let_def io_bind_Inr list_ex_iff
    by (cases "canonicalize_url (ev_parse_url ev) \<lparr>up_allowHttp = rs_allowHttp o'\<rparr> (rs_resource o')")
      (auto split: if_splits)
  have "w8 = w7" "ss = parse_scopes (json_string (map_of (dj_claims j) ''scope''))"
      "rs_requiredScopes o' = [] \<or> set (rs_requiredScopes o') \<inter> set ss \<noteq> {}"
    using scopes unfolding check_scopes_def Let_def by (auto simp: list_ex_iff split: if_splits)
  with decode h i k s e a sub show ?thesis
    unfolding token_of_def
    apply (intro conjI)
     apply simp
    apply (rule exI [of _ j], rule exI [of _ alg], rule exI [of _ key], rule exI [of _ iss], rule exI [of _ e],
        rule exI [of _ a])
    apply auto
    done
qed

text \<open>The parsed texts of the witness: the header, the claims and the key set.\<close>

definition token_env :: env where
  "token_env = demo_env\<lparr>
     ev_peer := (\<lambda>k rq. Inr \<lparr>ws_status = 200, ws_headers = [(''content-type'', ''application/json'')], ws_text = ''K''\<rparr>),
     ev_parse_json := (\<lambda>s.
       if s = ''H'' then Some (JObj [(''alg'', JStr ''ES256''), (''kid'', JStr ''k1'')])
       else if s = ''C'' then Some (JObj [(''iss'', JStr ''https://as.example/''), (''sub'', JStr ''u1''),
         (''aud'', JStr ''https://gw.example/mcp''), (''exp'', JNum 100), (''scope'', JStr ''mcp'')])
       else if s = ''K'' then Some (JObj [(''keys'', JArr [JObj [(''kty'', JStr ''EC''), (''kid'', JStr ''k1'')]])])
       else None)\<rparr>"

definition demo_resource :: resource_server_options where
  "demo_resource = \<lparr>rs_issuers = [''https://as.example''], rs_resource = ''https://gw.example/mcp'',
     rs_requiredScopes = [''mcp''], rs_allowHttp = False, rs_jwksTtlMs = None, rs_jwksRefetchCooldownMs = None,
     rs_clockSkewSeconds = None\<rparr>"

definition demo_token :: string where
  "demo_token = b64url ''H'' @ ''.'' @ b64url ''C'' @ ''.'' @ b64url ''good''"

definition token_world :: world where
  "token_world = demo_world\<lparr>wd_db := demo_tables\<lparr>tb_issuers :=
     [demo_issuer_record\<lparr>oi_metadataJson := demo_metadata\<lparr>am_jwks_uri := Some ''https://as.example/keys''\<rparr>\<rparr>]\<rparr>\<rparr>"

lemma access_token_vouched_witness:
  "\<exists>v w'. verify_token token_env demo_deps demo_resource demo_token token_world = (Inr v, w') \<and>
     keys_vouched token_env demo_deps w' \<and> vt_issuer v = ''https://as.example''"
proof -
  let ?run = "verify_token token_env demo_deps demo_resource demo_token token_world"
  have "\<not> isl (fst ?run)" by code_simp
  then obtain v w' where run: "?run = (Inr v, w')" by (cases ?run; cases "fst ?run") auto
  have o': "others_keep token_env (issuers_ok token_env demo_deps)"
    by (simp add: others_keep_def token_env_def demo_env_def)
  have "issuers_ok token_env demo_deps (wd_db token_world)" by code_simp
  then have "keys_vouched token_env demo_deps token_world"
    by (simp add: keys_vouched_def key_sets_served_def token_world_def demo_world_def)
  from access_token_vouched [OF o' this run] have "keys_vouched token_env demo_deps w'"
    "vt_issuer v \<in> set (rs_issuers demo_resource)" by blast+
  then show ?thesis using run by (simp add: demo_resource_def)
qed

text \<open>
  While the key sets of the configured issuers are fresh and were refetched early within the
  cooldown, no token a stranger presents, whatever issuer or key it names, makes the gateway send
  anything or change anything.
\<close>

theorem unknown_keys_cooled:
  assumes "\<forall>i \<in> set (rs_issuers o'). \<exists>c. map_of (wd_jwks w) i = Some c \<and> wd_now w < ks_expiresAt c \<and>
      cooling o' (wd_now w) c"
  shows "snd (verify_token ev d o' token w) = w"
proof -
  have bind: "snd (io_bind m f w) = w" if "snd (m w) = w" and "\<And>x. m w = (Inr x, w) \<Longrightarrow> snd (f x w) = w"
    for m :: "'x io" and f :: "'x \<Rightarrow> 'y io"
    using that by (cases "m w"; cases "fst (m w)") (auto simp: io_bind_def)
  have segment: "snd (decode_segment ev s what w) = w" for s what
    by (auto simp: decode_segment_def split: option.splits json.splits)
  have decode: "snd (decode_jwt ev token w) = w"
    unfolding decode_jwt_def by (auto split: list.splits intro!: bind segment)
  have header: "snd (check_header ev h w) = w" for h
    by (auto simp: check_header_def split: option.splits json.splits)
  have issuer: "snd (find_issuer o' claims w) = w" for claims
    by (auto simp: find_issuer_def split: option.splits json.splits)
  have found: "i \<in> set (rs_issuers o')" if "find_issuer o' claims w = (Inr i, w)" for claims i
    using that by (auto simp: find_issuer_def find_Some_iff split: option.splits json.splits)
  have key: "snd (signing_key ev d o' i kid alg w) = w" if "i \<in> set (rs_issuers o')" for i kid alg
    using assms that by (auto simp: signing_key_def split: option.splits)
  have sig: "snd (check_signature ev alg k j w) = w" for alg k j
    by (auto simp: check_signature_def split: sum.splits)
  have life: "snd (check_lifetime o' claims w) = w" for claims
    by (auto simp: check_lifetime_def Let_def split: option.splits)
  have aud: "snd (check_audience ev o' claims w) = w" for claims
    unfolding check_audience_def
    by (cases "canonicalize_url (ev_parse_url ev) \<lparr>up_allowHttp = rs_allowHttp o'\<rparr> (rs_resource o')") (auto simp: Let_def)
  have scopes: "snd (check_scopes o' claims w) = w" for claims
    by (auto simp: check_scopes_def Let_def)
  have rest: "snd (verified_token ev o' i claims w) = w" for i claims
    unfolding verified_token_def io_seq_def
    by (intro bind life aud scopes) (auto split: option.splits json.splits)
  show ?thesis
    unfolding verify_token_def io_seq_def
    by (intro bind decode header issuer key sig rest) (auto dest: found)
qed

lemma unknown_keys_cooled_witness:
  "snd (verify_token token_env demo_deps demo_resource demo_token
     (demo_world\<lparr>wd_jwks := [(''https://as.example'', \<lparr>ks_keys = [], ks_expiresAt = 9, ks_refetchedAt = Some 0\<rparr>)]\<rparr>)) =
   demo_world\<lparr>wd_jwks := [(''https://as.example'', \<lparr>ks_keys = [], ks_expiresAt = 9, ks_refetchedAt = Some 0\<rparr>)]\<rparr>"
  by (rule unknown_keys_cooled)
    (simp add: demo_resource_def cooling_def or_default_def default_cooldown_def demo_world_def)

end
