(* ===== verification/Northbound_Server.thy ===== *)
theory Northbound_Server
  imports Connection_Service Resource_Server Gateway_Facts "HOL-Library.Sublist"
begin

text \<open>
  \<^verbatim>\<open>packages/mcp-server/src/northbound-server.ts\<close> and what it uses of \<^verbatim>\<open>http.ts\<close>: the
  Streamable HTTP endpoint of the gateway. A request carries the name of the stream its response would
  be; the response says what is sent back, and the messages on a stream are in \<open>wd_written\<close>. What
  decides who the caller is comes in as the method \<open>authenticate\<close>. Aborting is recorded in the session
  (\<open>ds_inFlight\<close>); what the platform then does to the running call, the keep-alive comments and
  \<open>closeAll\<close> are left out.
\<close>

section \<open>Requests and responses\<close>

record http_request =
  hq_method :: string
  hq_url :: string
  hq_headers :: "(string \<times> string) list"
  hq_body :: string
  hq_stream :: string

datatype http_body = Empty_Body | Text_Body string | Json_Body json | Stream_Body string

record http_response =
  hr_status :: nat
  hr_headers :: "(string \<times> string) list"
  hr_body :: http_body

definition header_value :: "http_request \<Rightarrow> string \<Rightarrow> string option" where
  "header_value rq name = map_of (hq_headers rq) name"

text \<open>\<open>writeHead\<close> refuses control characters in a header's value.\<close>

definition header_char :: "char \<Rightarrow> bool" where
  "header_char c \<longleftrightarrow> code c = 9 \<or> 32 \<le> code c \<and> code c \<noteq> 127"

definition write_head :: "nat \<Rightarrow> (string \<times> string) list \<Rightarrow> http_body \<Rightarrow> http_response io" where
  "write_head status headers body =
     (if list_all (\<lambda>h. list_all header_char (snd h)) headers
      then io_return \<lparr>hr_status = status, hr_headers = headers, hr_body = body\<rparr>
      else io_throw (Other_Exn ''Invalid character in header content''))"

definition send_json :: "env \<Rightarrow> nat \<Rightarrow> json \<Rightarrow> (string \<times> string) list \<Rightarrow> http_response io" where
  "send_json ev status body headers =
     write_head status ([(''content-type'', ''application/json''),
       (''content-length'', show_nat (length (utf8 (ev_show_json ev body))))] @ headers) (Json_Body body)"

definition send_empty :: "nat \<Rightarrow> (string \<times> string) list \<Rightarrow> http_response io" where
  "send_empty status headers = write_head status headers Empty_Body"

definition open_event_stream :: "string \<Rightarrow> (string \<times> string) list \<Rightarrow> http_response io" where
  "open_event_stream stream headers =
     write_head 200 ([(''content-type'', ''text/event-stream''),
       (''cache-control'', ''no-cache, no-transform''), (''connection'', ''keep-alive'')] @ headers)
       (Stream_Body stream)"

text \<open>\<open>EventStreamWriter.write\<close> without an id.\<close>

definition write_message :: "env \<Rightarrow> string \<Rightarrow> json \<Rightarrow> unit io" where
  "write_message ev stream m =
     (io_bind (io_get wd_waits) (\<lambda>k.
      io_when (\<not> ev_shut ev k stream)
          (io_modify (\<lambda>w. w\<lparr>wd_written := wd_written w @ [(stream, m, None)]\<rparr>))))"

definition read_body :: "http_request \<Rightarrow> nat \<Rightarrow> string io" where
  "read_body rq maxBytes =
     (if length (utf8 (hq_body rq)) > maxBytes
      then io_fail (gerr PAYLOAD_TOO_LARGE ''Request body is too large'')
      else io_return (hq_body rq))"

section \<open>Who is calling\<close>

record principal =
  np_tenantId :: string
  np_userId :: string
  np_clientLabel :: string
  np_roles :: "string list"

record bearer_challenge =
  bc_error :: string
  bc_description :: string
  bc_status :: nat
  bc_scope :: "string option"

datatype authentication = Authenticated principal | Not_Authenticated "bearer_challenge option"

definition quoted :: "string \<Rightarrow> string \<Rightarrow> string" where
  "quoted name v = name @ ''='' @ [CHR 0x22] @ v @ [CHR 0x22]"

definition bearer_challenge_header :: "string option \<Rightarrow> bearer_challenge option \<Rightarrow> string" where
  "bearer_challenge_header resourceMetadataUrl challenge =
     (let parts =
        (case challenge of
           None \<Rightarrow> []
         | Some c \<Rightarrow> [quoted ''error'' (bc_error c),
             quoted ''error_description'' (map (\<lambda>x. if x = CHR 0x22 then CHR 0x27 else x) (bc_description c))] @
             (case given (bc_scope c) of None \<Rightarrow> [] | Some s \<Rightarrow> [quoted ''scope'' s])) @
        (case given resourceMetadataUrl of None \<Rightarrow> [] | Some u \<Rightarrow> [quoted ''resource_metadata'' u])
      in if parts = [] then ''Bearer'' else ''Bearer '' @ join '', '' parts)"

record northbound_options =
  no_allowedOrigins :: "string list"
  no_resourceMetadataUrl :: "string option"
  no_maxBodyBytes :: "nat option"
  no_sessionIdleMs :: "int option"

section \<open>Event ids\<close>

fun leading_digits :: "nat \<Rightarrow> string \<Rightarrow> nat" where
  "leading_digits n [] = n"
| "leading_digits n (c # s) = (if is_digit c then leading_digits (10 * n + (code c - 48)) s else n)"

text \<open>\<open>Number.parseInt(value, 10)\<close>; \<open>None\<close> is \<open>NaN\<close>.\<close>

definition parse_int :: "string \<Rightarrow> int option" where
  "parse_int value =
     (let s = dropWhile is_space value;
          negative = starts_with ''-'' s;
          digits = (if negative \<or> starts_with ''+'' s then tl s else s)
      in if digits \<noteq> [] \<and> is_digit (hd digits)
         then Some (if negative then - int (leading_digits 0 digits) else int (leading_digits 0 digits))
         else None)"

definition parse_event_id :: "string option \<Rightarrow> nat option" where
  "parse_event_id value =
     (case Option.bind value parse_int of
        None \<Rightarrow> None
      | Some n \<Rightarrow> if 0 \<le> n \<and> n < 2 ^ 53 then Some (nat n) else None)"

section \<open>Sessions\<close>

definition mcp_session_header :: string where
  "mcp_session_header = ''mcp-session-id''"

definition mcp_protocol_version_header :: string where
  "mcp_protocol_version_header = ''mcp-protocol-version''"

definition belongs_to :: "principal \<Rightarrow> dsession \<Rightarrow> bool" where
  "belongs_to p s \<longleftrightarrow> ds_tenantId s = np_tenantId p \<and> ds_userId s = np_userId p"

definition resolve_session :: "http_request \<Rightarrow> principal \<Rightarrow> dsession option io" where
  "resolve_session rq p =
     (case given (header_value rq mcp_session_header) of
        None \<Rightarrow> io_return None
      | Some i \<Rightarrow> live_get (\<lambda>l.
          case map_of (lv_sessions l) i of
            None \<Rightarrow> None
          | Some s \<Rightarrow> if ds_closed s \<or> \<not> belongs_to p s then None else Some s))"

definition touch_session :: "dsession \<Rightarrow> unit io" where
  "touch_session s =
     (io_bind now (\<lambda>t.
      io_modify (session_apply (ds_id s) (\<lambda>x. (x\<lparr>ds_lastSeenAt := t\<rparr>, [])))))"

definition delete_session :: "string \<Rightarrow> unit io" where
  "delete_session i = live_modify (\<lambda>l. l\<lparr>lv_sessions := map_delete (lv_sessions l) i\<rparr>)"

section \<open>Errors\<close>

definition gateway_error_of :: "exn \<Rightarrow> gateway_error" where
  "gateway_error_of e =
     (case e of
        Gateway_Exn g \<Rightarrow> g
      | Unauthorized_Exn m c \<Rightarrow> gerr UNAUTHENTICATED m
      | _ \<Rightarrow> to_gateway_error (OtherError (exn_message e)))"

definition parse_error_code :: int where
  "parse_error_code = -32700"

definition invalid_request_code :: int where
  "invalid_request_code = -32600"

definition failure_of :: "json \<Rightarrow> exn \<Rightarrow> json" where
  "failure_of i e =
     (let g = gateway_error_of e in
      json_rpc_failure i (json_rpc_code (ge_code g)) (ge_message g)
        (Some (case ge_data g of None \<Rightarrow> JNull | Some d \<Rightarrow> d)))"

definition refuse :: "env \<Rightarrow> nat \<Rightarrow> json \<Rightarrow> int \<Rightarrow> string \<Rightarrow> http_response io" where
  "refuse ev status i c message = send_json ev status (json_rpc_failure i c message None) []"

section \<open>Running requests\<close>

definition message_id :: "json \<Rightarrow> json" where
  "message_id m = (case jget m ''id'' of None \<Rightarrow> JNull | Some i \<Rightarrow> i)"

definition message_method :: "json \<Rightarrow> string" where
  "message_method m = text_or_empty (jget m ''method'')"

definition message_params :: "json \<Rightarrow> json_object" where
  "message_params m = (case jget m ''params'' of Some (JObj es) \<Rightarrow> es | _ \<Rightarrow> [])"

definition streaming_methods :: "string list" where
  "streaming_methods = [''tools/call'', ''resources/read'', ''prompts/get'']"

definition execute ::
  "env \<Rightarrow> handler_config \<Rightarrow> dsession \<Rightarrow> string option \<Rightarrow> string \<Rightarrow> json \<Rightarrow> json io" where
  "execute ev cfg s stream controller m =
     (io_seq (io_modify (session_apply (ds_id s) (\<lambda>x. (begin_request (message_id m) controller x, [])))) (
      io_finally
          (io_catch
            ((io_bind (on_request ev cfg (message_method m) (message_params m) s stream) (\<lambda>result.
              io_return (json_rpc_success (message_id m) result))))
            (\<lambda>e. io_return (failure_of (message_id m) e)))
          (io_modify (session_apply (ds_id s) (\<lambda>x. (end_request (message_id m) x, []))))))"

fun execute_all ::
  "env \<Rightarrow> handler_config \<Rightarrow> dsession \<Rightarrow> string \<Rightarrow> json list \<Rightarrow> json list io" where
  "execute_all ev cfg s name [] = io_return []"
| "execute_all ev cfg s name (m # ms) =
     (io_bind (execute ev cfg s None (name @ ''/'' @ show_nat (length ms)) m) (\<lambda>response.
      io_bind (execute_all ev cfg s name ms) (\<lambda>rest.
      io_return (response # rest))))"

fun stream_all :: "env \<Rightarrow> handler_config \<Rightarrow> dsession \<Rightarrow> string \<Rightarrow> json list \<Rightarrow> unit io" where
  "stream_all ev cfg s stream [] = io_return ()"
| "stream_all ev cfg s stream (m # ms) =
     (io_bind (execute ev cfg s (Some stream) (stream @ ''/'' @ show_nat (length ms)) m) (\<lambda>response.
      io_seq (write_message ev stream response) (
      stream_all ev cfg s stream ms)))"

definition respond_via_stream ::
  "env \<Rightarrow> handler_config \<Rightarrow> dsession \<Rightarrow> string \<Rightarrow> json list \<Rightarrow> http_response io" where
  "respond_via_stream ev cfg s stream requests =
     (io_bind (open_event_stream stream [(mcp_session_header, ds_id s)]) (\<lambda>response.
      io_seq (io_modify (session_apply (ds_id s) (\<lambda>x. (begin_request_stream stream x, [])))) (
      io_seq (io_finally (stream_all ev cfg s stream requests)
          (io_modify (session_apply (ds_id s) (\<lambda>x. (end_request_stream stream x, []))))) (
      io_return response))))"

definition cancel :: "json \<Rightarrow> dsession \<Rightarrow> unit io" where
  "cancel m s =
     (case map_of (message_params m) ''requestId'' of
        Some (JStr i) \<Rightarrow> io_modify (session_apply (ds_id s) (\<lambda>x. (snd (cancel_request (JStr i) x), [])))
      | Some (JNum i) \<Rightarrow> io_modify (session_apply (ds_id s) (\<lambda>x. (snd (cancel_request (JNum i) x), [])))
      | _ \<Rightarrow> io_return ())"

definition take_message :: "env \<Rightarrow> handler_config \<Rightarrow> dsession \<Rightarrow> json \<Rightarrow> unit io" where
  "take_message ev cfg s m =
     (if is_response m then io_modify (session_apply (ds_id s) (\<lambda>x. (snd (resolve_response m x), [])))
      else if is_notification m then
        (io_seq (io_when (message_method m = ''notifications/cancelled'') (cancel m s)) (
         io_catch (on_notification ev cfg (message_method m) s) (\<lambda>e. io_return ())))
      else io_return ())"

section \<open>Methods of HTTP\<close>

text \<open>\<open>`${x}`\<close> of a JSON value that is a text, and of any other.\<close>

definition client_label :: "env \<Rightarrow> principal \<Rightarrow> json_object \<Rightarrow> string" where
  "client_label ev p params =
     (let name = field (map_of params ''clientInfo'') ''name'' in
      if truthy name
      then js_string ev name @ ''/'' @ js_string ev (field (map_of params ''clientInfo'') ''version'')
      else np_clientLabel p)"

definition requested_version :: "json_object \<Rightarrow> string" where
  "requested_version params =
     (case map_of params ''protocolVersion'' of
        None \<Rightarrow> latest_protocol_version | Some JNull \<Rightarrow> latest_protocol_version
      | Some (JStr v) \<Rightarrow> v | Some _ \<Rightarrow> [])"

definition handle_initialize ::
  "env \<Rightarrow> handler_config \<Rightarrow> json \<Rightarrow> principal \<Rightarrow> http_response io" where
  "handle_initialize ev cfg m p =
     ((let params = message_params m in
      io_bind (new_id ev ''dsess'') (\<lambda>i.
      io_bind now (\<lambda>t.
      (let s = (new_dsession (np_tenantId p) (np_userId p) (client_label ev p params) (np_roles p)
          (negotiate_protocol_version (requested_version params)) t i)
          \<lparr>ds_capabilities := (case map_of params ''capabilities'' of Some (JObj es) \<Rightarrow> es | _ \<Rightarrow> [])\<rparr> in
      io_seq (live_modify (\<lambda>l. l\<lparr>lv_sessions := map_set (lv_sessions l) i s\<rparr>)) (
      io_catch
          ((io_bind (on_initialize cfg params s) (\<lambda>result.
            send_json ev 200 (json_rpc_success (message_id m) result) [(mcp_session_header, i)])))
          (\<lambda>e. (io_seq (delete_session i) (
            send_json ev 200 (failure_of (message_id m) e) [])))))))))"

definition well_formed :: "json \<Rightarrow> bool" where
  "well_formed m \<longleftrightarrow> is_request m \<or> is_notification m \<or> is_response m"

definition answer_batch ::
  "env \<Rightarrow> handler_config \<Rightarrow> http_request \<Rightarrow> dsession \<Rightarrow> json list \<Rightarrow> http_response io" where
  "answer_batch ev cfg rq s messages =
     ((let requests = filter is_request messages in
      io_seq (for_each (take_message ev cfg s) messages) (
      (if requests = [] then send_empty 202 []
         else if contains ''text/event-stream'' (or_empty (header_value rq ''accept'')) \<and>
                 list_ex (\<lambda>m. message_method m \<in> set streaming_methods) requests
         then respond_via_stream ev cfg s (hq_stream rq) requests
         else
           (io_bind (execute_all ev cfg s (hq_stream rq) requests) (\<lambda>responses.
            send_json ev 200 (case responses of [r] \<Rightarrow> r | _ \<Rightarrow> JArr responses) []))))))"

definition handle_messages ::
  "env \<Rightarrow> handler_config \<Rightarrow> http_request \<Rightarrow> principal \<Rightarrow> json list \<Rightarrow> http_response io" where
  "handle_messages ev cfg rq p messages =
     (case List.find (\<lambda>m. \<not> well_formed m) messages of
        Some bad \<Rightarrow> refuse ev 400 (if is_request_id (jget bad ''id'') then message_id bad else JNull)
          invalid_request_code ''Not a JSON-RPC 2.0 request, notification or response''
      | None \<Rightarrow>
          (case List.find (\<lambda>m. is_request m \<and> message_method m = ''initialize'') messages of
             Some m \<Rightarrow>
               if length messages > 1
               then refuse ev 400 (message_id m) invalid_request_code
                      ''initialize must be sent on its own, not batched with other messages''
               else handle_initialize ev cfg m p
           | None \<Rightarrow>
               (io_bind (resolve_session rq p) (\<lambda>session.
                (case session of
                     None \<Rightarrow> refuse ev 404 JNull invalid_request_code ''Unknown or expired MCP session''
                   | Some s \<Rightarrow>
                       (io_seq (touch_session s) (
                        (case given (header_value rq mcp_protocol_version_header) of
                             None \<Rightarrow> answer_batch ev cfg rq s messages
                           | Some v \<Rightarrow>
                               if v \<noteq> ds_protocolVersion s
                               then refuse ev 400 JNull invalid_request_code (''Unsupported MCP-Protocol-Version: '' @ v)
                               else answer_batch ev cfg rq s messages))))))))"

definition handle_post ::
  "env \<Rightarrow> northbound_options \<Rightarrow> handler_config \<Rightarrow> http_request \<Rightarrow> principal \<Rightarrow> http_response io" where
  "handle_post ev opts cfg rq p w =
     (case read_body rq (case no_maxBodyBytes opts of None \<Rightarrow> 4000000 | Some n \<Rightarrow> n) w of
        (Inl e, w') \<Rightarrow>
          (let g = gateway_error_of e in
           send_json ev (ge_httpStatus g) (JObj [(''error'', JStr (code_name (ge_code g)))]) [] w')
      | (Inr raw, w') \<Rightarrow>
          (case ev_parse_json ev raw of
             None \<Rightarrow> refuse ev 400 JNull parse_error_code ''Invalid JSON'' w'
           | Some parsed \<Rightarrow>
               (let messages = (case parsed of JArr xs \<Rightarrow> xs | v \<Rightarrow> [v]) in
                if messages = [] then refuse ev 400 JNull invalid_request_code ''Empty batch'' w'
                else handle_messages ev cfg rq p messages w')))"

definition handle_get :: "env \<Rightarrow> http_request \<Rightarrow> principal \<Rightarrow> http_response io" where
  "handle_get ev rq p =
     (if \<not> contains ''text/event-stream'' (or_empty (header_value rq ''accept''))
      then send_empty 405 [(''allow'', ''POST, DELETE'')]
      else
        (io_bind (resolve_session rq p) (\<lambda>session.
         (case session of
              None \<Rightarrow> send_json ev 404 (JObj [(''error'', JStr ''unknown_session'')]) []
            | Some s \<Rightarrow>
                (io_seq (touch_session s) (
                 io_bind (open_event_stream (hq_stream rq) [(mcp_session_header, ds_id s)]) (\<lambda>response.
                 io_seq (io_modify (session_apply (ds_id s)
                     (attach_stream (hq_stream rq) (parse_event_id (header_value rq ''last-event-id''))))) (
                 io_return response))))))))"

text \<open>The connection of a standalone stream closes.\<close>

definition stream_closed :: "dsession \<Rightarrow> string \<Rightarrow> unit io" where
  "stream_closed s stream =
     io_modify (session_apply (ds_id s) (\<lambda>x. (detach_stream stream x, [])))"

definition end_session :: "env \<Rightarrow> dsession \<Rightarrow> unit io" where
  "end_session ev s =
     (io_bind (live_get (\<lambda>l. snd (close_session (session_now s l)))) (\<lambda>closed.
      io_seq (delete_session (ds_id s)) (
      on_session_closed ev closed)))"

definition handle_delete :: "env \<Rightarrow> http_request \<Rightarrow> principal \<Rightarrow> http_response io" where
  "handle_delete ev rq p =
     (io_bind (resolve_session rq p) (\<lambda>session.
      (case session of
           None \<Rightarrow> send_empty 404 []
         | Some s \<Rightarrow>
             (io_seq (end_session ev s) (
              send_empty 204 [])))))"

definition handle_as ::
  "env \<Rightarrow> northbound_options \<Rightarrow> handler_config \<Rightarrow> http_request \<Rightarrow> principal \<Rightarrow> http_response io" where
  "handle_as ev opts cfg rq p =
     (if hq_method rq = ''POST'' then handle_post ev opts cfg rq p
      else if hq_method rq = ''GET'' then handle_get ev rq p
      else if hq_method rq = ''DELETE'' then handle_delete ev rq p
      else send_empty 405 [(''allow'', ''GET, POST, DELETE'')])"

definition handle ::
  "env \<Rightarrow> northbound_options \<Rightarrow> handler_config \<Rightarrow> (http_request \<Rightarrow> authentication io) \<Rightarrow> http_request
     \<Rightarrow> http_response io" where
  "handle ev opts cfg authenticate rq =
     (if \<not> is_origin_allowed (header_value rq ''origin'') (no_allowedOrigins opts)
      then send_json ev 403 (JObj [(''error'', JStr ''origin_not_allowed'')]) []
      else
        (io_bind (authenticate rq) (\<lambda>outcome.
         (case outcome of
              Not_Authenticated challenge \<Rightarrow>
                send_json ev (case challenge of None \<Rightarrow> 401 | Some c \<Rightarrow> bc_status c)
                  (JObj ((''error'', JStr (case challenge of None \<Rightarrow> ''unauthorized'' | Some c \<Rightarrow> bc_error c)) #
                    (case challenge of None \<Rightarrow> [] | Some c \<Rightarrow> [(''error_description'', JStr (bc_description c))])))
                  [(''www-authenticate'', bearer_challenge_header (no_resourceMetadataUrl opts) challenge)]
            | Authenticated p \<Rightarrow> handle_as ev opts cfg rq p))))"

section \<open>Sweeping\<close>

text \<open>The sessions are those the map held when the sweep began, each as it is when its turn comes.\<close>

fun sweep_sessions :: "env \<Rightarrow> int \<Rightarrow> int \<Rightarrow> dsession list \<Rightarrow> nat io" where
  "sweep_sessions ev t idle [] = io_return 0"
| "sweep_sessions ev t idle (s # ss) =
     (io_bind (live_get (\<lambda>l. ds_lastSeenAt (session_now s l))) (\<lambda>lastSeen.
      (if t - lastSeen \<le> idle then sweep_sessions ev t idle ss
         else (io_seq (end_session ev s) (
            io_bind (sweep_sessions ev t idle ss) (\<lambda>n.
            io_return (n + 1)))))))"

definition northbound_sweep :: "env \<Rightarrow> northbound_options \<Rightarrow> int \<Rightarrow> int option \<Rightarrow> nat io" where
  "northbound_sweep ev opts t idleMs =
     (io_bind (live_get (\<lambda>l. map snd (lv_sessions l))) (\<lambda>sessions.
      sweep_sessions ev t (case idleMs of Some n \<Rightarrow> n | None \<Rightarrow>
          (case no_sessionIdleMs opts of Some n \<Rightarrow> n | None \<Rightarrow> 30 * 60000)) sessions))"

section \<open>Whose session a request may use\<close>

text \<open>The request names no session that is open and the caller's own.\<close>

definition session_missing :: "http_request \<Rightarrow> principal \<Rightarrow> world \<Rightarrow> bool" where
  "session_missing rq p w \<longleftrightarrow>
     (case given (header_value rq mcp_session_header) of
        None \<Rightarrow> True
      | Some i \<Rightarrow> (case map_of (lv_sessions (wd_live w)) i of
          None \<Rightarrow> True | Some s \<Rightarrow> ds_closed s \<or> \<not> belongs_to p s))"

definition messages_of :: "json \<Rightarrow> json list" where
  "messages_of parsed = (case parsed of JArr xs \<Rightarrow> xs | v \<Rightarrow> [v])"

definition initializes :: "env \<Rightarrow> http_request \<Rightarrow> bool" where
  "initializes ev rq \<longleftrightarrow> hq_method rq = ''POST'' \<and>
     (case ev_parse_json ev (hq_body rq) of
        None \<Rightarrow> False
      | Some parsed \<Rightarrow> list_ex (\<lambda>m. is_request m \<and> message_method m = ''initialize'') (messages_of parsed))"

lemma resolve_missing: "session_missing rq p w \<Longrightarrow> resolve_session rq p w = (Inr None, w)"
  by (auto simp: session_missing_def resolve_session_def live_get_def split: option.splits)

lemma show_nat_header: "list_all header_char (show_nat n)"
  using show_nat_digits [of n] by (auto simp: list_all_iff header_char_def is_digit_def)

lemma send_json_plain:
  "send_json ev status body [] w = (Inr \<lparr>hr_status = status, hr_headers = [(''content-type'', ''application/json''),
     (''content-length'', show_nat (length (utf8 (ev_show_json ev body))))], hr_body = Json_Body body\<rparr>, w)"
proof -
  have "list_all header_char ''application/json''" by code_simp
  then show ?thesis by (simp add: send_json_def write_head_def show_nat_header)
qed

lemma send_empty_plain:
  "list_all (\<lambda>h. list_all header_char (snd h)) hs \<Longrightarrow>
     send_empty status hs w = (Inr \<lparr>hr_status = status, hr_headers = hs, hr_body = Empty_Body\<rparr>, w)"
  by (simp add: send_empty_def write_head_def)

text \<open>
  C15: A request that names no session of its caller's, be it unknown, closed, or another tenant's or
  user's, is refused and changes nothing at all: no session, no row, no stream, and no message leaves
  the gateway. Only \<open>initialize\<close> needs no session.
\<close>

theorem foreign_session_refused:
  assumes "session_missing rq p w" and "\<not> initializes ev rq"
  shows "\<exists>r. handle_as ev opts cfg rq p w = (Inr r, w) \<and> hr_status r \<in> {400, 404, 405, 413}"
proof -
  have allow: "list_all (\<lambda>h. list_all header_char (snd h)) [(''allow'', ''POST, DELETE'')]"
    "list_all (\<lambda>h. list_all header_char (snd h)) [(''allow'', ''GET, POST, DELETE'')]"
    by code_simp+
  have refused: "\<exists>r. refuse ev n i c m w = (Inr r, w) \<and> hr_status r = n" for n i c m
    by (simp add: refuse_def send_json_plain)
  have sent: "\<exists>r. send_json ev n b [] w = (Inr r, w) \<and> hr_status r = n" for n b
    by (simp add: send_json_plain)
  have messages: "\<exists>r. handle_messages ev cfg rq p ms w = (Inr r, w) \<and> hr_status r \<in> {400, 404, 405, 413}"
    if "\<not> list_ex (\<lambda>m. is_request m \<and> message_method m = ''initialize'') ms" for ms
  proof -
    have "List.find (\<lambda>m. is_request m \<and> message_method m = ''initialize'') ms = None"
      using that by (auto simp: find_None_iff list_ex_iff)
    then show ?thesis
      using refused [of 400] refused [of 404] assms(1)
      by (fastforce simp: handle_messages_def io_bind_def resolve_missing split: option.splits)
  qed
  have large: "ge_httpStatus (gateway_error_of (Gateway_Exn (gerr PAYLOAD_TOO_LARGE m))) = 413" for m
    by (simp add: gateway_error_of_def default_http_status_def gateway_error_def)
  have post: "\<exists>r. handle_post ev opts cfg rq p w = (Inr r, w) \<and> hr_status r \<in> {400, 404, 405, 413}"
    if "hq_method rq = ''POST''"
  proof -
    have "\<not> list_ex (\<lambda>m. is_request m \<and> message_method m = ''initialize'') (messages_of parsed)"
      if "ev_parse_json ev (hq_body rq) = Some parsed" for parsed
      using that assms(2) \<open>hq_method rq = ''POST''\<close> by (simp add: initializes_def)
    from messages [OF this] show ?thesis
      using refused [of 400] sent [of 413]
      unfolding handle_post_def read_body_def messages_of_def Let_def
      by (fastforce simp: large split: option.splits)
  qed
  have get: "\<exists>r. handle_get ev rq p w = (Inr r, w) \<and> hr_status r \<in> {400, 404, 405, 413}"
    using sent [of 404] resolve_missing [OF assms(1)] allow
    by (auto simp: handle_get_def io_bind_def send_empty_plain)
  have delete: "\<exists>r. handle_delete ev rq p w = (Inr r, w) \<and> hr_status r \<in> {400, 404, 405, 413}"
    using resolve_missing [OF assms(1)] by (simp add: handle_delete_def io_bind_def send_empty_plain)
  show ?thesis
    using post get delete allow(2) by (simp add: handle_as_def send_empty_plain)
qed

lemma foreign_session_refused_witness:
  "\<exists>r. handle_as demo_env \<lparr>no_allowedOrigins = [], no_resourceMetadataUrl = None, no_maxBodyBytes = None,
        no_sessionIdleMs = None\<rparr> demo_handler
      \<lparr>hq_method = ''DELETE'', hq_url = ''/mcp'', hq_headers = [(''mcp-session-id'', ''sess'')], hq_body = [],
        hq_stream = ''s1''\<rparr>
      \<lparr>np_tenantId = ''t'', np_userId = ''other'', np_clientLabel = [], np_roles = []\<rparr>
      (demo_world\<lparr>wd_live := demo_live\<lparr>lv_sessions := [(''sess'', demo_client)]\<rparr>\<rparr>) =
    (Inr r, demo_world\<lparr>wd_live := demo_live\<lparr>lv_sessions := [(''sess'', demo_client)]\<rparr>\<rparr>) \<and>
    hr_status r \<in> {400, 404, 405, 413}"
  by (rule foreign_session_refused)
    (simp_all add: session_missing_def initializes_def given_def header_value_def mcp_session_header_def
      belongs_to_def demo_client_def new_dsession_def)

section \<open>Every request is answered\<close>

definition calm :: "'a io \<Rightarrow> bool" where
  "calm m \<longleftrightarrow> (\<forall>w. \<exists>x w'. m w = (Inr x, w'))"

named_theorems calm_intros "methods that never throw"

lemma calm_basic [calm_intros]:
  "calm (io_return x)" "calm (io_get f)" "calm (io_modify g)" "calm now" "calm (db k)"
  by (simp_all add: calm_def)

lemma calm_bind [calm_intros]: "calm m \<Longrightarrow> (\<And>x. calm (f x)) \<Longrightarrow> calm (io_bind m f)"
  unfolding calm_def io_bind_def by (metis (no_types, lifting) case_prod_conv sum.simps(6))

lemma calm_seq [calm_intros]: "calm m \<Longrightarrow> calm n \<Longrightarrow> calm (io_seq m n)"
  unfolding io_seq_def by (rule calm_bind)

lemma calm_when [calm_intros]: "calm m \<Longrightarrow> calm (io_when b m)"
  by (simp add: io_when_def calm_basic)

lemma calm_catch [calm_intros]: "(\<And>e. calm (h e)) \<Longrightarrow> calm (io_catch m h)"
  unfolding calm_def io_catch_def by (fastforce split: prod.splits sum.splits)

lemma calm_for_each [calm_intros]: "(\<And>x. calm (f x)) \<Longrightarrow> calm (for_each f xs)"
  by (induction xs) (auto intro!: calm_intros)

lemma calm_take_message: "calm (take_message ev cfg s m)"
  unfolding take_message_def cancel_def
  by (auto intro!: calm_intros split: option.splits json.splits)

lemma execute_answers:
  assumes "is_request m"
  shows "\<exists>r w'. execute ev cfg s stream c m w = (Inr r, w') \<and> is_response r \<and> message_id r = message_id m"
proof -
  have i: "is_request_id (Some (message_id m))"
    using assms by (auto simp: is_request_def message_id_def is_request_id_cases)
  have ok: "is_response (json_rpc_success (message_id m) x)" "is_response (failure_of (message_id m) e)" for x e
    using success_is_response [OF i] failure_is_failure [OF disjI1 [OF i]]
    by (auto simp: failure_of_def Let_def is_failure_def)
  have ids: "message_id (json_rpc_success j x) = j" "message_id (failure_of j e) = j" for j x e
    by (simp_all add: message_id_def json_rpc_success_def failure_of_def json_rpc_failure_def Let_def)
  show ?thesis
    unfolding execute_def
    by (auto simp: io_seq_def io_bind_def io_finally_def io_catch_def ok ids split: prod.splits sum.splits)
qed

lemma execute_all_answers:
  assumes "list_all is_request ms"
  shows "\<exists>rs w'. execute_all ev cfg s name ms w = (Inr rs, w') \<and> list_all is_response rs \<and>
    map message_id rs = map message_id ms"
  using assms
proof (induction ms arbitrary: w)
  case (Cons m ms)
  from execute_answers [of m ev cfg s None "name @ ''/'' @ show_nat (length ms)" w] Cons.prems
  obtain r w1 where r: "execute ev cfg s None (name @ ''/'' @ show_nat (length ms)) m w = (Inr r, w1)"
      "is_response r" "message_id r = message_id m"
    by auto
  from Cons.IH [of w1] Cons.prems obtain rs w2 where "execute_all ev cfg s name ms w1 = (Inr rs, w2)"
      "list_all is_response rs" "map message_id rs = map message_id ms"
    by auto
  with r show ?case by (simp add: io_bind_def)
qed simp

section \<open>Answers on a stream\<close>

text \<open>The condition under which a batch is answered on a stream.\<close>

definition streamed :: "http_request \<Rightarrow> json list \<Rightarrow> bool" where
  "streamed rq messages \<longleftrightarrow> contains ''text/event-stream'' (or_empty (header_value rq ''accept'')) \<and>
     list_ex (\<lambda>m. message_method m \<in> set streaming_methods) (filter is_request messages)"

abbreviation appends :: "stream_write list \<Rightarrow> world \<Rightarrow> bool" where
  "appends old \<equiv> since old (of_connections (\<lambda>_. True)) (\<lambda>_. True)"

lemma appendsD: "keeps (appends (wd_written w)) m \<Longrightarrow> \<exists>new. wd_written (snd (m w)) = wd_written w @ new"
  using keepsD [of "appends (wd_written w)" m w] by (simp add: since_def of_connections_def list.pred_True)

lemma appends_on_request: "keeps (appends old) (on_request ev cfg m params s stream)"
  using keeps_on_request [of ev "\<lambda>_. True" s m old cfg params stream] others_keep_all
  by (simp add: shielded_all)

lemma appends_execute: "keeps (appends old) (execute ev cfg s stream c m)"
  unfolding execute_def
  by (intro keeps_seq keeps_finally keeps_catch keeps_bind keeps_guarded_session keeps_return appends_on_request)

lemma appends_take_message: "keeps (appends old) (take_message ev cfg s m)"
  unfolding take_message_def cancel_def on_notification_def relay_to_upstreams_def
  by (intro keeps_if keeps_seq keeps_when keeps_option keeps_json keeps_catch keeps_bind keeps_for_each keeps_return
      keeps_guarded_session keeps_guarded_live keeps_guarded_request others_keep_all) simp_all

lemma session_apply_quiet: "(\<And>x. snd (f x) = []) \<Longrightarrow> wd_written (session_apply i f w) = wd_written w"
  by (auto simp: session_apply_def split: option.splits prod.splits) (metis snd_conv append_Nil2)

text \<open>Each request is answered by a message on the stream, if the stream is open, in the order of the requests.\<close>

lemma stream_all_answers:
  assumes "list_all is_request ms"
  shows "\<exists>rs w' new. stream_all ev cfg s stream ms w = (Inr (), w') \<and> list_all is_response rs \<and>
    map message_id rs = map message_id ms \<and> wd_written w' = wd_written w @ new \<and>
    ((\<forall>k. \<not> ev_shut ev k stream) \<longrightarrow> subseq (map (\<lambda>x. (stream, x, None)) rs) new)"
  using assms
proof (induction ms arbitrary: w)
  case Nil
  have "stream_all ev cfg s stream [] w = (Inr (), w)" by (simp add: io_return_def)
  then show ?case by (intro exI [of _ "[]"] exI [of _ w]) simp
next
  case (Cons m ms)
  let ?c = "stream @ ''/'' @ show_nat (length ms)"
  from execute_answers [of m ev cfg s "Some stream" ?c w] Cons.prems
  obtain r w1 where r: "execute ev cfg s (Some stream) ?c m w = (Inr r, w1)"
      "is_response r" "message_id r = message_id m"
    by auto
  from appendsD [where w = w, OF appends_execute [where ev = ev and cfg = cfg and s = s and stream = "Some stream" and c = ?c and m = m]] r(1)
  obtain n1 where n1: "wd_written w1 = wd_written w @ n1" by auto
  define n2 where "n2 = (if ev_shut ev (wd_waits w1) stream then [] else [(stream, r, None :: nat option)])"
  define w2 where "w2 = snd (write_message ev stream r w1)"
  have w2: "write_message ev stream r w1 = (Inr (), w2)" "wd_written w2 = wd_written w1 @ n2"
    by (simp_all add: w2_def n2_def write_message_def io_defs io_when_def)
  from Cons.IH [of w2] Cons.prems obtain rs w3 n3 where rest: "stream_all ev cfg s stream ms w2 = (Inr (), w3)"
      "list_all is_response rs" "map message_id rs = map message_id ms" "wd_written w3 = wd_written w2 @ n3"
      "(\<forall>k. \<not> ev_shut ev k stream) \<longrightarrow> subseq (map (\<lambda>x. (stream, x, None)) rs) n3"
    by auto
  have run: "stream_all ev cfg s stream (m # ms) w = (Inr (), w3)"
    using r(1) w2(1) rest(1) by (simp add: io_bind_def io_seq_def)
  have "subseq (map (\<lambda>x. (stream, x, None)) (r # rs)) (n1 @ n2 @ n3)" if "\<forall>k. \<not> ev_shut ev k stream"
    using that rest(5) by (auto simp: n2_def intro: list_emb_append2)
  with run r(2,3) rest n1 w2(2) show ?case
    by (intro exI [of _ "r # rs"] exI [of _ w3] exI [of _ "n1 @ n2 @ n3"]) simp
qed

lemma respond_via_stream_answers:
  assumes "list_all is_request ms" and "list_all header_char (ds_id s)"
  shows "\<exists>rs r w' new. respond_via_stream ev cfg s stream ms w = (Inr r, w') \<and> hr_status r = 200 \<and>
    hr_body r = Stream_Body stream \<and> list_all is_response rs \<and> map message_id rs = map message_id ms \<and>
    wd_written w' = wd_written w @ new \<and>
    ((\<forall>k. \<not> ev_shut ev k stream) \<longrightarrow> subseq (map (\<lambda>x. (stream, x, None)) rs) new)"
proof -
  let ?begun = "session_apply (ds_id s) (\<lambda>x. (begin_request_stream stream x, []))"
  let ?ended = "session_apply (ds_id s) (\<lambda>x. (end_request_stream stream x, []))"
  have plain: "list_all (\<lambda>h. list_all header_char (snd h)) [(''content-type'', ''text/event-stream''),
       (''cache-control'', ''no-cache, no-transform''), (''connection'', ''keep-alive'')]"
    by code_simp
  obtain r where r: "open_event_stream stream [(mcp_session_header, ds_id s)] w = (Inr r, w)" "hr_status r = 200"
      "hr_body r = Stream_Body stream"
    using plain assms(2) by (auto simp: open_event_stream_def write_head_def io_return_def)
  from stream_all_answers [OF assms(1), of ev cfg s stream "?begun w"] obtain rs w' new where
    a: "stream_all ev cfg s stream ms (?begun w) = (Inr (), w')" "list_all is_response rs"
      "map message_id rs = map message_id ms" "wd_written w' = wd_written (?begun w) @ new"
      "(\<forall>k. \<not> ev_shut ev k stream) \<longrightarrow> subseq (map (\<lambda>x. (stream, x, None)) rs) new"
    by blast
  have "respond_via_stream ev cfg s stream ms w = (Inr r, ?ended w')"
    using r(1) a(1) by (simp add: respond_via_stream_def io_bind_def io_seq_def io_finally_def io_modify_def io_return_def)
  moreover have "wd_written (?ended w') = wd_written w @ new"
    using a(4) by (simp add: session_apply_quiet)
  ultimately show ?thesis using r a by (intro exI [of _ rs] exI [of _ r] exI [of _ "?ended w'"] exI [of _ new]) simp
qed

text \<open>
  C25: Every request of a batch is answered, whatever its handlers do, throw included, by one JSON-RPC
  response under its id. A batch that is not answered on a stream gets the status 200 and the
  responses in the order of the requests as its body; one that is, gets the stream as its body, and
  each response is put on that stream, in the same order, if the stream stays open.
\<close>

theorem requests_all_answered:
  assumes "filter is_request messages \<noteq> []" and "list_all header_char (ds_id s)"
  shows "\<exists>responses r w' new. answer_batch ev cfg rq s messages w = (Inr r, w') \<and> hr_status r = 200 \<and>
    list_all is_response responses \<and> map message_id responses = map message_id (filter is_request messages) \<and>
    wd_written w' = wd_written w @ new \<and>
    (if streamed rq messages
     then hr_body r = Stream_Body (hq_stream rq) \<and>
       ((\<forall>k. \<not> ev_shut ev k (hq_stream rq)) \<longrightarrow> subseq (map (\<lambda>x. (hq_stream rq, x, None)) responses) new)
     else hr_body r = Json_Body (case responses of [x] \<Rightarrow> x | _ \<Rightarrow> JArr responses))"
proof -
  have "calm (for_each (take_message ev cfg s) messages)"
    by (intro calm_intros calm_take_message)
  then obtain u w1 where w1: "for_each (take_message ev cfg s) messages w = (Inr u, w1)"
    unfolding calm_def by metis
  from appendsD [where w = w and m = "for_each (take_message ev cfg s) messages", OF keeps_for_each [OF appends_take_message]] w1
  obtain n1 where n1: "wd_written w1 = wd_written w @ n1" by auto
  have reqs: "list_all is_request (filter is_request messages)" by (simp add: list_all_iff)
  show ?thesis
  proof (cases "streamed rq messages")
    case True
    then have run: "answer_batch ev cfg rq s messages w =
        respond_via_stream ev cfg s (hq_stream rq) (filter is_request messages) w1"
      using assms(1) w1 by (simp add: answer_batch_def streamed_def Let_def io_seq_def io_bind_def)
    from respond_via_stream_answers [OF reqs assms(2), of ev cfg "hq_stream rq" w1] obtain rs r w' n2 where
      "respond_via_stream ev cfg s (hq_stream rq) (filter is_request messages) w1 = (Inr r, w')" "hr_status r = 200"
      "hr_body r = Stream_Body (hq_stream rq)" "list_all is_response rs"
      "map message_id rs = map message_id (filter is_request messages)" "wd_written w' = wd_written w1 @ n2"
      "(\<forall>k. \<not> ev_shut ev k (hq_stream rq)) \<longrightarrow> subseq (map (\<lambda>x. (hq_stream rq, x, None)) rs) n2"
      by blast
    with run True n1 show ?thesis
      by (intro exI [of _ rs] exI [of _ r] exI [of _ w'] exI [of _ "n1 @ n2"]) (auto intro: list_emb_append2)
  next
    case False
    from execute_all_answers [OF reqs, of ev cfg s "hq_stream rq" w1] obtain rs w2 where
      rs: "execute_all ev cfg s (hq_stream rq) (filter is_request messages) w1 = (Inr rs, w2)" "list_all is_response rs"
        "map message_id rs = map message_id (filter is_request messages)"
      by blast
    have "keeps (appends old) (execute_all ev cfg s n ms)" for old n ms
      by (induction ms) (auto simp only: execute_all.simps intro!: keeps_return keeps_bind appends_execute)
    from appendsD [where w = w1 and m = "execute_all ev cfg s (hq_stream rq) (filter is_request messages)", OF this] rs(1)
    obtain n2 where n2: "wd_written w2 = wd_written w1 @ n2" by auto
    have "answer_batch ev cfg rq s messages w =
        send_json ev 200 (case rs of [r] \<Rightarrow> r | _ \<Rightarrow> JArr rs) [] w2"
      using assms(1) w1 rs(1) False [unfolded streamed_def]
      by (simp only: answer_batch_def Let_def io_seq_def io_bind_def prod.case sum.case if_False)
    with rs(2,3) n1 n2 False show ?thesis by (auto simp: send_json_plain)
  qed
qed

text \<open>A \<open>ping\<close> is answered in the body, a call of an unknown tool on the stream.\<close>

definition demo_post :: http_request where
  "demo_post = \<lparr>hq_method = ''POST'', hq_url = ''/mcp'', hq_headers = [(''accept'', ''application/json, text/event-stream'')],
     hq_body = [], hq_stream = ''s1''\<rparr>"

definition demo_message :: "string \<Rightarrow> json" where
  "demo_message m = JObj [(''jsonrpc'', JStr ''2.0''), (''id'', JNum 1), (''method'', JStr m)]"

lemma requests_all_answered_witness:
  "(\<exists>x r w'. answer_batch demo_env demo_handler demo_post demo_client [demo_message ''ping''] demo_world = (Inr r, w') \<and>
    hr_status r = 200 \<and> hr_body r = Json_Body x \<and> is_response x \<and> message_id x = JNum 1) \<and>
   (\<exists>x r w'. answer_batch demo_env demo_handler demo_post demo_client [demo_message ''tools/call''] demo_world = (Inr r, w') \<and>
    hr_status r = 200 \<and> hr_body r = Stream_Body ''s1'' \<and> is_response x \<and> message_id x = JNum 1 \<and>
    (''s1'', x, None) \<in> set (wd_written w'))"
proof -
  have p: "filter is_request [demo_message ''ping''] = [demo_message ''ping'']"
      "filter is_request [demo_message ''tools/call''] = [demo_message ''tools/call'']"
    by code_simp+
  have i: "map message_id [demo_message m] = [JNum 1]" for m
    by (simp add: demo_message_def message_id_def)
  have h: "list_all header_char (ds_id demo_client)" by code_simp
  have c: "\<not> streamed demo_post [demo_message ''ping'']" "streamed demo_post [demo_message ''tools/call'']"
    by code_simp+
  have o: "\<forall>k. \<not> ev_shut demo_env k (hq_stream demo_post)" by (simp add: demo_env_def)
  have st: "hq_stream demo_post = ''s1''" by (simp add: demo_post_def)
  have ping: "filter is_request [demo_message ''ping''] \<noteq> []" and call: "filter is_request [demo_message ''tools/call''] \<noteq> []"
    unfolding p by simp_all
  obtain x r w' where 1: "answer_batch demo_env demo_handler demo_post demo_client [demo_message ''ping''] demo_world = (Inr r, w')"
      "hr_status r = 200" "hr_body r = Json_Body x" "is_response x" "message_id x = JNum 1"
    using requests_all_answered [OF ping h, of demo_env demo_handler demo_post demo_world] c(1)
    unfolding p(1) i by auto
  obtain y q v new where 2: "answer_batch demo_env demo_handler demo_post demo_client [demo_message ''tools/call''] demo_world = (Inr q, v)"
      "hr_status q = 200" "hr_body q = Stream_Body ''s1''" "is_response y" "message_id y = JNum 1"
      "wd_written v = wd_written demo_world @ new" "subseq [(''s1'', y, None)] new"
    using requests_all_answered [OF call h, of demo_env demo_handler demo_post demo_world] c(2) o
    unfolding p(2) i st by auto
  then show ?thesis
    using 1 2 by (intro conjI exI [of _ x] exI [of _ r] exI [of _ w'] exI [of _ y] exI [of _ q] exI [of _ v])
      (simp_all add: subseq_singleton_left)
qed

end
