(* ===== verification/Background_Worker.thy ===== *)
theory Background_Worker
  imports Northbound_Server
begin

text \<open>
  \<^verbatim>\<open>packages/gateway/src/background-worker.ts\<close>: the four jobs that keep connections usable.
  A job answers its report; \<open>rewrap_credentials\<close> waits before each row it writes, as every statement of
  it is a round trip in which requests and other workers run. The timers are left out: \<open>run_once\<close> is a
  pass of all jobs.
\<close>

section \<open>Jobs\<close>

record background_config =
  bg_refreshHorizonMs :: int
  bg_refreshIntervalMs :: int
  bg_catalogueIntervalMs :: int
  bg_sessionIdleMs :: int
  bg_reapIntervalMs :: int
  bg_rewrapIntervalMs :: int
  bg_batchSize :: nat

definition default_background_config :: background_config where
  "default_background_config = \<lparr>bg_refreshHorizonMs = 5 * 60000, bg_refreshIntervalMs = 60000,
     bg_catalogueIntervalMs = 15 * 60000, bg_sessionIdleMs = 30 * 60000, bg_reapIntervalMs = 5 * 60000,
     bg_rewrapIntervalMs = 60 * 60000, bg_batchSize = 100\<rparr>"

record job_report =
  jr_name :: string
  jr_processed :: nat
  jr_failed :: nat
  jr_durationMs :: int

text \<open>The body of a job answers what it has counted, and what it threw, if anything.\<close>

type_synonym counts = "nat \<times> nat \<times> exn option"

definition run_job :: "string \<Rightarrow> counts io \<Rightarrow> job_report io" where
  "run_job name body =
     (io_bind now (\<lambda>started.
      io_bind body (\<lambda>(processed, failed, thrown).
      io_bind now (\<lambda>t.
      io_return \<lparr>jr_name = name, jr_processed = processed,
          jr_failed = (case thrown of None \<Rightarrow> failed | Some e \<Rightarrow> failed + 1), jr_durationMs = t - started\<rparr>))))"

text \<open>A loop whose body is in a \<open>try\<close>: what a row throws is counted.\<close>

fun attempt_each :: "('a \<Rightarrow> 'b io) \<Rightarrow> 'a list \<Rightarrow> (nat \<times> nat) io" where
  "attempt_each run [] = io_return (0, 0)"
| "attempt_each run (x # xs) =
     (io_bind (io_catch ((io_bind (run x) (\<lambda>r.
        io_return (0::nat)))) (\<lambda>e. io_return 1)) (\<lambda>failed.
      io_bind (attempt_each run xs) (\<lambda>(processed, failures).
      io_return (processed + 1, failures + failed))))"

definition is_online :: "connection \<Rightarrow> bool" where
  "is_online c \<longleftrightarrow> uc_status c \<in> {CONNECTED, CONNECTED_NON_REFRESHABLE, DEGRADED}"

section \<open>Refreshing\<close>

definition due_for_refresh :: "background_config \<Rightarrow> int \<Rightarrow> connection list io" where
  "due_for_refresh bg deadline = db (\<lambda>d. take (bg_batchSize bg) (filter (\<lambda>c.
     is_online c \<and> uc_refreshTokenEncrypted c \<noteq> None \<and>
     (case uc_accessTokenExpiresAt c of None \<Rightarrow> False | Some e \<Rightarrow> e \<le> deadline))
     (connections_list_all (tb_connections d))))"

definition refresh_expiring_tokens :: "env \<Rightarrow> token_manager_config \<Rightarrow> background_config \<Rightarrow> job_report io" where
  "refresh_expiring_tokens ev mc bg =
     run_job ''refresh_tokens''
       ((io_bind now (\<lambda>t.
         io_bind (due_for_refresh bg (t + bg_refreshHorizonMs bg)) (\<lambda>due.
         io_bind (attempt_each (\<lambda>c. get_valid_access_token ev mc
             \<lparr>rf_tenantId = uc_tenantId c, rf_connectionId = uc_id c\<rparr> (bg_refreshHorizonMs bg)) due) (\<lambda>(processed, failed).
         io_return (processed, failed, None))))))"

section \<open>Resyncing\<close>

definition stale_connections :: "background_config \<Rightarrow> int \<Rightarrow> connection list io" where
  "stale_connections bg stale = db (\<lambda>d. take (bg_batchSize bg)
     (filter (\<lambda>c. (case uc_lastSuccessAt c of None \<Rightarrow> 0 | Some t \<Rightarrow> t) \<le> stale)
       (filter is_online (connections_list_all (tb_connections d)))))"

definition resync_catalogues :: "env \<Rightarrow> connection_service_config \<Rightarrow> background_config \<Rightarrow> job_report io" where
  "resync_catalogues ev sc bg =
     run_job ''resync_catalogues''
       ((io_bind now (\<lambda>t.
         io_bind (stale_connections bg (t - bg_catalogueIntervalMs bg)) (\<lambda>stale.
         io_bind (attempt_each (sync_catalogue ev sc) stale) (\<lambda>(processed, failed).
         io_return (processed, failed, None))))))"

section \<open>Reaping\<close>

definition sweep_buckets :: "handler_config \<Rightarrow> nat io" where
  "sweep_buckets hc =
     (io_bind now (\<lambda>t.
      io_bind (live_get (\<lambda>l. fst (sweep (hc_apiRule hc) (of_int t) (lv_api l)))) (\<lambda>api.
      io_seq (live_modify (\<lambda>l. l\<lparr>lv_api := snd (sweep (hc_apiRule hc) (of_int t) (lv_api l))\<rparr>)) (
      io_bind (live_get (\<lambda>l. fst (sweep (hc_toolRule hc) (of_int t) (lv_tool_calls l)))) (\<lambda>calls.
      io_seq (live_modify (\<lambda>l. l\<lparr>lv_tool_calls := snd (sweep (hc_toolRule hc) (of_int t) (lv_tool_calls l))\<rparr>)) (
      io_return (api + calls)))))))"

definition reap_sessions ::
  "env \<Rightarrow> northbound_options \<Rightarrow> handler_config \<Rightarrow> background_config \<Rightarrow> job_report io" where
  "reap_sessions ev opts hc bg =
     run_job ''reap_sessions''
       (io_catch
         ((io_bind now (\<lambda>t.
           io_bind (northbound_sweep ev opts t (Some (bg_sessionIdleMs bg))) (\<lambda>downstream.
           io_bind (sweep_upstreams ev (bg_sessionIdleMs bg)) (\<lambda>upstream.
           io_bind (db_run (\<lambda>d. case transactions_purge_expired t (tb_transactions d) of
               (n, rows) \<Rightarrow> (n, d\<lparr>tb_transactions := rows\<rparr>))) (\<lambda>purged.
           io_bind (sweep_buckets hc) (\<lambda>buckets.
           io_return (downstream + upstream + purged + buckets, 0, None))))))))
         (\<lambda>e. io_return (0, 0, Some e)))"

section \<open>Rewrapping\<close>

text \<open>The new ciphertext of a field, where it is still under a retired key.\<close>

definition rewrapped :: "env \<Rightarrow> string \<Rightarrow> credential_purpose \<Rightarrow> string option \<Rightarrow> string option io" where
  "rewrapped ev tenantId purpose v =
     (case given v of
        None \<Rightarrow> io_return None
      | Some ciphertext \<Rightarrow>
          (io_bind (io_lift (needs_rewrap (ev_keys ev) ciphertext)) (\<lambda>needed.
           (if \<not> needed then io_return None
              else
                (io_bind (draw_seal ev) (\<lambda>r.
                 io_bind (io_lift (vault_rewrap (ev_aes ev) (ev_keys ev) r
                     \<lparr>ec_tenantId = tenantId, ec_purpose = purpose\<rparr> ciphertext)) (\<lambda>sealed.
                 io_return (Some sealed))))))))"

definition or_kept :: "'a option \<Rightarrow> 'a option \<Rightarrow> 'a option" where
  "or_kept new old = (case new of None \<Rightarrow> old | Some x \<Rightarrow> Some x)"

definition write_rewrapped ::
  "string \<Rightarrow> string option \<Rightarrow> string option \<Rightarrow> string option \<Rightarrow> unit io" where
  "write_rewrapped i access refreshed headers = update_connection i (\<lambda>c. c\<lparr>
     uc_accessTokenEncrypted := or_kept access (uc_accessTokenEncrypted c),
     uc_refreshTokenEncrypted := or_kept refreshed (uc_refreshTokenEncrypted c),
     uc_staticHeadersEncrypted := or_kept headers (uc_staticHeadersEncrypted c)\<rparr>)"

text \<open>The new ciphertexts of a row; outside any \<open>try\<close>, so that what it throws ends the job.\<close>

definition rewrapped_fields :: "env \<Rightarrow> connection \<Rightarrow> (string option \<times> string option \<times> string option) io" where
  "rewrapped_fields ev c =
     (io_bind (rewrapped ev (uc_tenantId c) Access_Token (uc_accessTokenEncrypted c)) (\<lambda>access.
      io_bind (rewrapped ev (uc_tenantId c) Refresh_Token (uc_refreshTokenEncrypted c)) (\<lambda>refreshed.
      io_bind (rewrapped ev (uc_tenantId c) Static_Headers (uc_staticHeadersEncrypted c)) (\<lambda>headers.
      io_return (access, refreshed, headers)))))"

definition rewrap_connection :: "env \<Rightarrow> connection \<Rightarrow> (nat \<times> nat) io" where
  "rewrap_connection ev c =
     (io_bind (rewrapped_fields ev c) (\<lambda>(access, refreshed, headers).
      (if access = None \<and> refreshed = None \<and> headers = None then io_return (0, 0)
         else
           (io_seq (wait ev) (
            io_bind (io_catch ((io_seq (write_rewrapped (uc_id c) access refreshed headers) (
                 io_return (0::nat))))
                (\<lambda>e. io_return 1)) (\<lambda>failed.
            io_return (1, failed)))))))"

fun rewrap_each :: "env \<Rightarrow> connection list \<Rightarrow> nat \<Rightarrow> nat \<Rightarrow> counts io" where
  "rewrap_each ev [] processed failed = io_return (processed, failed, None)"
| "rewrap_each ev (c # cs) processed failed =
     (\<lambda>w. case rewrap_connection ev c w of
        (Inl e, w1) \<Rightarrow> (Inr (processed, failed, Some e), w1)
      | (Inr (p, f), w1) \<Rightarrow> rewrap_each ev cs (processed + p) (failed + f) w1)"

definition rewrap_credentials :: "env \<Rightarrow> job_report io" where
  "rewrap_credentials ev =
     run_job ''rewrap_credentials''
       ((io_bind (db (\<lambda>d. connections_list_all (tb_connections d))) (\<lambda>connections.
         rewrap_each ev connections 0 0)))"

definition run_once ::
  "env \<Rightarrow> northbound_options \<Rightarrow> handler_config \<Rightarrow> connection_service_config \<Rightarrow> background_config
     \<Rightarrow> job_report list io" where
  "run_once ev opts hc sc bg =
     (io_bind (refresh_expiring_tokens ev (sc_manager sc) bg) (\<lambda>a.
      io_bind (resync_catalogues ev sc bg) (\<lambda>b.
      io_bind (reap_sessions ev opts hc bg) (\<lambda>c.
      io_bind (rewrap_credentials ev) (\<lambda>d.
      io_return [a, b, c, d])))))"

section \<open>A pass is bounded and never fails\<close>

lemma attempt_each_counts: "\<exists>n w'. attempt_each run xs w = (Inr (length xs, n), w') \<and> n \<le> length xs"
proof (induction xs arbitrary: w)
  case (Cons x xs)
  obtain r w0 where "run x w = (r, w0)" by (cases "run x w")
  then have "\<exists>f w1. io_catch (io_bind (run x) (\<lambda>r. io_return (0::nat))) (\<lambda>e. io_return 1) w = (Inr f, w1) \<and> f \<le> 1"
    by (cases r) (simp_all add: io_catch_def io_bind_def io_return_def)
  then obtain f w1 where f: "io_catch (io_bind (run x) (\<lambda>r. io_return (0::nat))) (\<lambda>e. io_return 1) w = (Inr f, w1)" "f \<le> 1"
    by blast
  from Cons.IH [of w1] obtain n w2 where "attempt_each run xs w1 = (Inr (length xs, n), w2)" "n \<le> length xs"
    by blast
  with f show ?case by (simp add: io_bind_def io_return_def)
qed (simp add: io_return_def)

lemma run_job_report:
  assumes "body (w::world) = (Inr (p, f, None), w1)"
  shows "\<exists>r. run_job name body w = (Inr r, w1) \<and> jr_name r = name \<and> jr_processed r = p \<and> jr_failed r = f"
  using assms by (simp add: run_job_def io_bind_def io_return_def now_def io_get_def)

lemma attempted_report:
  assumes "length xs \<le> k"
  shows "\<exists>r w'. run_job name (io_bind (attempt_each run xs) (\<lambda>(p, f). io_return (p, f, None))) w = (Inr r, w') \<and>
    jr_name r = name \<and> jr_failed r \<le> jr_processed r \<and> jr_processed r \<le> k"
proof -
  from attempt_each_counts [of run xs w] obtain n w1 where
    n: "attempt_each run xs w = (Inr (length xs, n), w1)" "n \<le> length xs"
    by blast
  then have "io_bind (attempt_each run xs) (\<lambda>(p, f). io_return (p, f, None)) w = (Inr (length xs, n, None), w1)"
    by (simp add: io_bind_def io_return_def)
  from run_job_report [where body = "io_bind (attempt_each run xs) (\<lambda>(p, f). io_return (p, f, None))" and w = w and name = name, OF this]
  obtain r where "run_job name (io_bind (attempt_each run xs) (\<lambda>(p, f). io_return (p, f, None))) w = (Inr r, w1)"
      "jr_name r = name" "jr_processed r = length xs" "jr_failed r = n"
    by blast
  with n(2) assms show ?thesis by (intro exI [of _ r] exI [of _ w1]) simp
qed

lemma run_job_reads:
  "run_job name (io_bind now (\<lambda>t. io_bind (db (f t)) g)) w = run_job name (g (f (wd_now w) (wd_db w))) w"
  by (simp add: run_job_def io_bind_def now_def db_def io_get_def)

text \<open>
  C29: Whatever connections and upstreams do, the refreshing and the resyncing pass return a report:
  what goes wrong with one connection is counted and the next one is tried. No more than a batch is
  processed, and at most what was processed has failed.
\<close>

theorem passes_bounded:
  "(\<exists>r w'. refresh_expiring_tokens ev mc bg w = (Inr r, w') \<and> jr_name r = ''refresh_tokens'' \<and>
      jr_failed r \<le> jr_processed r \<and> jr_processed r \<le> bg_batchSize bg) \<and>
   (\<exists>r w'. resync_catalogues ev sc bg w = (Inr r, w') \<and> jr_name r = ''resync_catalogues'' \<and>
      jr_failed r \<le> jr_processed r \<and> jr_processed r \<le> bg_batchSize bg)"
  unfolding refresh_expiring_tokens_def resync_catalogues_def due_for_refresh_def stale_connections_def
    run_job_reads
  by (intro conjI attempted_report) simp_all

end
