(* ===== verification/Config.thy ===== *)
theory Config
  imports Tool_Policy Token_Client
begin

text \<open>
  \<^verbatim>\<open>packages/gateway/src/config.ts\<close>: what the environment variables of the process say. An
  environment is its entries; \<open>Number(text)\<close> is the parameter \<open>number\<close>, \<open>None\<close> where it is \<open>NaN\<close>.
\<close>

section \<open>Configuration\<close>

record api_key_principal =
  ak_key :: string
  ak_tenantId :: string
  ak_userId :: string
  ak_label :: string
  ak_role :: string

record gateway_config =
  gc_baseUrl :: string
  gc_host :: string
  gc_port :: "rat option"
  gc_databaseFile :: string
  gc_uiEnabled :: bool
  gc_databaseUrl :: "string option"
  gc_databaseSchema :: "string option"
  gc_encryptionKeyRing :: "string option"
  gc_signingKeyPem :: "string option"
  gc_logLevel :: string
  gc_allowedOrigins :: "string list"
  gc_returnToOrigins :: "string list"
  gc_apiKeys :: "api_key_principal list"
  gc_allowHttp :: bool
  gc_allowLoopback :: bool
  gc_allowPrivateNetworks :: bool
  gc_hostAllowlist :: "string list"
  gc_gatewayAuthorizationServers :: "string list"
  gc_gatewayScopesSupported :: "string list"
  gc_gatewayRequiredScopes :: "string list"
  gc_tenantClaim :: string
  gc_defaultTenantId :: "string option"
  gc_rolesClaim :: string
  gc_defaultRole :: string
  gc_writeRoles :: "string list"
  gc_blockedRiskLevels :: "tool_risk_level list"
  gc_confirmationRiskLevels :: "tool_risk_level list"
  gc_exposeUnreviewedDestructive :: bool
  gc_maxArgumentBytes :: "rat option"
  gc_maxResultBytes :: "rat option"
  gc_allowSampling :: bool
  gc_allowElicitation :: bool
  gc_allowRoots :: bool
  gc_pageSize :: "rat option"
  gc_toolCallsPerMinute :: "rat option"
  gc_apiRequestsPerMinute :: "rat option"
  gc_requestTimeoutMs :: "rat option"
  gc_authorizationTransactionTtlMs :: "rat option"
  gc_logoUri :: "string option"
  gc_documentationUri :: "string option"

section \<open>Parsing\<close>

definition parse_list :: "string option \<Rightarrow> string list" where
  "parse_list value =
     (case given value of
        None \<Rightarrow> []
      | Some v \<Rightarrow> filter (\<lambda>e. e \<noteq> []) (map trim_spaces (split_on (CHR '','') v)))"

definition parse_bool :: "string option \<Rightarrow> bool \<Rightarrow> bool" where
  "parse_bool value fallback =
     (case value of None \<Rightarrow> fallback | Some v \<Rightarrow> to_lower v \<in> {''1'', ''true'', ''yes'', ''on''})"

definition all_risk_levels :: "tool_risk_level list" where
  "all_risk_levels = [READ_ONLY, WRITE, DESTRUCTIVE, EXTERNAL_COMMUNICATION, FINANCIAL, ADMINISTRATIVE, UNKNOWN]"

definition risk_of_name :: "string \<Rightarrow> tool_risk_level option" where
  "risk_of_name name = List.find (\<lambda>r. risk_name r = name) all_risk_levels"

fun map_result :: "('a \<Rightarrow> 'b result) \<Rightarrow> 'a list \<Rightarrow> 'b list result" where
  "map_result f [] = Inr []"
| "map_result f (x # xs) = bind_result (f x) (\<lambda>y. bind_result (map_result f xs) (\<lambda>ys. Inr (y # ys)))"

definition parse_risk_levels :: "string \<Rightarrow> string option \<Rightarrow> tool_risk_level list result" where
  "parse_risk_levels name value =
     map_result (\<lambda>entry.
       case risk_of_name (to_upper entry) of
         None \<Rightarrow> Inl (gerr INVALID_REQUEST (name @ '' lists an unknown risk level: '' @ entry))
       | Some r \<Rightarrow> Inr r) (parse_list value)"

definition nth_or :: "'a list \<Rightarrow> nat \<Rightarrow> 'a \<Rightarrow> 'a" where
  "nth_or xs n d = (if n < length xs then xs ! n else d)"

definition parse_api_key :: "string \<Rightarrow> api_key_principal result" where
  "parse_api_key entry =
     (let parts = split_on (CHR '':'') entry in
      if length parts < 3
      then Inl (gerr INVALID_REQUEST ''GATEWAY_API_KEYS entries must look like key:tenantId:userId[:label[:role]]'')
      else Inr \<lparr>ak_key = nth_or parts 0 [], ak_tenantId = nth_or parts 1 [], ak_userId = nth_or parts 2 [],
             ak_label = nth_or parts 3 ''gateway-client'', ak_role = nth_or parts 4 ''member''\<rparr>)"

definition parse_api_keys :: "string option \<Rightarrow> api_key_principal list result" where
  "parse_api_keys value = map_result parse_api_key (parse_list value)"

text \<open>The escaped form of a newline: a backslash and an \<open>n\<close>.\<close>

fun unescape_newlines :: "string \<Rightarrow> string" where
  "unescape_newlines [] = []"
| "unescape_newlines [c] = [c]"
| "unescape_newlines (c # d # s) =
     (if c = CHR 0x5C \<and> d = CHR ''n'' then CHR 0x0A # unescape_newlines s
      else c # unescape_newlines (d # s))"

definition var_or :: "(string \<times> string) list \<Rightarrow> string \<Rightarrow> string \<Rightarrow> string" where
  "var_or vars name fallback = (case map_of vars name of None \<Rightarrow> fallback | Some v \<Rightarrow> v)"

definition number_or ::
  "(string \<Rightarrow> rat option) \<Rightarrow> (string \<times> string) list \<Rightarrow> string \<Rightarrow> nat \<Rightarrow> rat option" where
  "number_or number vars name fallback =
     (case map_of vars name of None \<Rightarrow> Some (of_nat fallback) | Some v \<Rightarrow> number v)"

definition load_config :: "(string \<Rightarrow> rat option) \<Rightarrow> (string \<times> string) list \<Rightarrow> gateway_config result" where
  "load_config number vars =
     (let var = map_of vars; n = number_or number vars;
          baseUrl = strip_trailing is_slash (var_or vars ''GATEWAY_BASE_URL'' ''http://127.0.0.1:8787'');
          isLocal = starts_with ''http://'' baseUrl;
          scopesSupported = parse_scopes (Some (var_or vars ''GATEWAY_SCOPES_SUPPORTED'' ''mcp'')) in
      bind_result (parse_api_keys (var ''GATEWAY_API_KEYS'')) (\<lambda>apiKeys.
      bind_result (parse_risk_levels ''GATEWAY_BLOCKED_RISK_LEVELS'' (var ''GATEWAY_BLOCKED_RISK_LEVELS'')) (\<lambda>blocked.
      bind_result (parse_risk_levels ''GATEWAY_CONFIRMATION_RISK_LEVELS''
          (Some (var_or vars ''GATEWAY_CONFIRMATION_RISK_LEVELS'' ''DESTRUCTIVE,FINANCIAL''))) (\<lambda>confirmed.
      Inr \<lparr>gc_baseUrl = baseUrl, gc_host = var_or vars ''HOST'' ''0.0.0.0'', gc_port = n ''PORT'' 8787,
        gc_databaseFile = var_or vars ''GATEWAY_DATABASE_FILE'' '':memory:'',
        gc_uiEnabled = parse_bool (var ''GATEWAY_UI_ENABLED'') True,
        gc_databaseUrl = var ''GATEWAY_DATABASE_URL'', gc_databaseSchema = var ''GATEWAY_DATABASE_SCHEMA'',
        gc_encryptionKeyRing = var ''GATEWAY_ENCRYPTION_KEYS'',
        gc_signingKeyPem = map_option unescape_newlines (var ''GATEWAY_SIGNING_KEY''),
        gc_logLevel = var_or vars ''LOG_LEVEL'' ''info'',
        gc_allowedOrigins = parse_list (var ''GATEWAY_ALLOWED_ORIGINS''),
        gc_returnToOrigins = parse_list (var ''GATEWAY_RETURN_TO_ORIGINS''), gc_apiKeys = apiKeys,
        gc_allowHttp = parse_bool (var ''GATEWAY_ALLOW_HTTP_UPSTREAMS'') isLocal,
        gc_allowLoopback = parse_bool (var ''GATEWAY_ALLOW_LOOPBACK_UPSTREAMS'') isLocal,
        gc_allowPrivateNetworks = parse_bool (var ''GATEWAY_ALLOW_PRIVATE_UPSTREAMS'') False,
        gc_hostAllowlist = parse_list (var ''GATEWAY_UPSTREAM_HOST_ALLOWLIST''),
        gc_gatewayAuthorizationServers = parse_list (var ''GATEWAY_AUTHORIZATION_SERVERS''),
        gc_gatewayScopesSupported = scopesSupported,
        gc_gatewayRequiredScopes = (case given (var ''GATEWAY_REQUIRED_SCOPES'') of
          None \<Rightarrow> scopesSupported | Some v \<Rightarrow> parse_scopes (Some v)),
        gc_tenantClaim = var_or vars ''GATEWAY_TENANT_CLAIM'' ''tenant_id'',
        gc_defaultTenantId = var ''GATEWAY_DEFAULT_TENANT'',
        gc_rolesClaim = var_or vars ''GATEWAY_ROLES_CLAIM'' ''roles'',
        gc_defaultRole = var_or vars ''GATEWAY_DEFAULT_ROLE'' ''member'',
        gc_writeRoles = parse_list (var ''GATEWAY_WRITE_ROLES''),
        gc_blockedRiskLevels = blocked, gc_confirmationRiskLevels = confirmed,
        gc_exposeUnreviewedDestructive = parse_bool (var ''GATEWAY_EXPOSE_UNREVIEWED_DESTRUCTIVE'') False,
        gc_maxArgumentBytes = n ''GATEWAY_MAX_ARGUMENT_BYTES'' (256 * 1024),
        gc_maxResultBytes = n ''GATEWAY_MAX_RESULT_BYTES'' (4 * 1024 * 1024),
        gc_allowSampling = parse_bool (var ''GATEWAY_ALLOW_SAMPLING'') True,
        gc_allowElicitation = parse_bool (var ''GATEWAY_ALLOW_ELICITATION'') True,
        gc_allowRoots = parse_bool (var ''GATEWAY_ALLOW_ROOTS'') True,
        gc_pageSize = n ''GATEWAY_PAGE_SIZE'' 100,
        gc_toolCallsPerMinute = n ''GATEWAY_TOOL_CALLS_PER_MINUTE'' 600,
        gc_apiRequestsPerMinute = n ''GATEWAY_API_REQUESTS_PER_MINUTE'' 300,
        gc_requestTimeoutMs = n ''GATEWAY_REQUEST_TIMEOUT_MS'' 60000,
        gc_authorizationTransactionTtlMs = n ''GATEWAY_AUTHORIZATION_TTL_MS'' 600000,
        gc_logoUri = var ''GATEWAY_LOGO_URI'', gc_documentationUri = var ''GATEWAY_DOCUMENTATION_URI''\<rparr>))))"

section \<open>Keys\<close>

text \<open>How an operator writes a key: \<open>key:tenant:user:label:role\<close>.\<close>

definition written_key :: "api_key_principal \<Rightarrow> string" where
  "written_key k = join '':'' [ak_key k, ak_tenantId k, ak_userId k, ak_label k, ak_role k]"

definition writable :: "string \<Rightarrow> bool" where
  "writable s \<longleftrightarrow> list_all (\<lambda>c. c \<noteq> CHR '':'' \<and> c \<noteq> CHR '','' \<and> \<not> is_space c) s"

definition key_writable :: "api_key_principal \<Rightarrow> bool" where
  "key_writable k \<longleftrightarrow> list_all writable [ak_key k, ak_tenantId k, ak_userId k, ak_label k, ak_role k]"

end
