(* ===== verification/Gateway.thy ===== *)
theory Gateway
  imports Northbound_Server Config
begin

text \<open>
  \<^verbatim>\<open>packages/gateway/src/gateway.ts\<close> and \<^verbatim>\<open>router.ts\<close>: who a caller is, the workspace rows a
  credential brings with it, and the way from a request to its handler.
\<close>

section \<open>Tenants, users and memberships\<close>

text \<open>The three repositories of \<^verbatim>\<open>packages/storage/src/sql-store.ts\<close>.\<close>

definition tenants_get :: "string \<Rightarrow> tenant list \<Rightarrow> tenant option" where
  "tenants_get i rows = find_one (\<lambda>r. tn_id r = i) rows"

definition tenants_create :: "tenant \<Rightarrow> tenant list \<Rightarrow> tenant list option" where
  "tenants_create r rows = insert_row (\<lambda>q r. tn_id q = tn_id r) r rows"

definition users_get :: "string \<Rightarrow> string \<Rightarrow> user list \<Rightarrow> user option" where
  "users_get tenantId i rows = find_one (\<lambda>r. us_id r = i \<and> us_tenantId r = tenantId) rows"

definition users_create :: "user \<Rightarrow> user list \<Rightarrow> user list option" where
  "users_create r rows =
     insert_row (\<lambda>q r. us_id q = us_id r \<or> us_externalIdentity q = us_externalIdentity r) r rows"

definition memberships_get :: "string \<Rightarrow> string \<Rightarrow> tenant_membership list \<Rightarrow> tenant_membership option" where
  "memberships_get tenantId userId rows = find_one (\<lambda>r. tm_tenantId r = tenantId \<and> tm_userId r = userId) rows"

definition memberships_upsert :: "tenant_membership \<Rightarrow> tenant_membership list \<Rightarrow> tenant_membership list" where
  "memberships_upsert m rows =
     (if memberships_get (tm_tenantId m) (tm_userId m) rows = None then rows @ [m]
      else map (\<lambda>r. if tm_tenantId r = tm_tenantId m \<and> tm_userId r = tm_userId m
                    then m\<lparr>tm_createdAt := tm_createdAt r\<rparr> else r) rows)"

record new_member =
  nm_tenantId :: string
  nm_userId :: string
  nm_role :: string
  nm_email :: string

text \<open>A row that is already there makes the insertion fail, which is ignored.\<close>

definition provision_member :: "new_member \<Rightarrow> unit io" where
  "provision_member m =
     (io_bind (db (\<lambda>t. tenants_get (nm_tenantId m) (tb_tenants t))) (\<lambda>tenant.
      io_bind now (\<lambda>t.
      io_seq (io_when (tenant = None) (io_catch (db_insert (\<lambda>d. map_option (\<lambda>rows. d\<lparr>tb_tenants := rows\<rparr>)
            (tenants_create \<lparr>tn_id = nm_tenantId m, tn_name = nm_tenantId m, tn_status = ACTIVE, tn_createdAt = t\<rparr>
              (tb_tenants d)))) (\<lambda>e. io_return ()))) (
      io_bind (db (\<lambda>t. users_get (nm_tenantId m) (nm_userId m) (tb_users t))) (\<lambda>user.
      io_seq (io_when (user = None) (io_catch (db_insert (\<lambda>d. map_option (\<lambda>rows. d\<lparr>tb_users := rows\<rparr>)
            (users_create \<lparr>us_id = nm_userId m, us_tenantId = nm_tenantId m,
               us_externalIdentity = nm_tenantId m @ '':'' @ nm_userId m, us_email = nm_email m,
               us_status = ACTIVE, us_createdAt = t\<rparr> (tb_users d)))) (\<lambda>e. io_return ()))) (
      db_modify (\<lambda>d. d\<lparr>tb_memberships := memberships_upsert
          \<lparr>tm_tenantId = nm_tenantId m, tm_userId = nm_userId m, tm_role = nm_role m, tm_createdAt = t\<rparr>
          (tb_memberships d)\<rparr>)))))))"

definition key_member :: "api_key_principal \<Rightarrow> new_member" where
  "key_member k = \<lparr>nm_tenantId = ak_tenantId k, nm_userId = ak_userId k, nm_role = ak_role k,
     nm_email = ak_userId k @ ''@example.invalid''\<rparr>"

definition ensure_principals :: "gateway_config \<Rightarrow> unit io" where
  "ensure_principals cfg = for_each (\<lambda>k. provision_member (key_member k)) (gc_apiKeys cfg)"

section \<open>Authentication\<close>

definition resource_server_of :: "gateway_config \<Rightarrow> resource_server_options" where
  "resource_server_of cfg = \<lparr>rs_issuers = gc_gatewayAuthorizationServers cfg, rs_resource = gc_baseUrl cfg @ ''/mcp'',
     rs_requiredScopes = gc_gatewayRequiredScopes cfg, rs_allowHttp = gc_allowHttp cfg,
     rs_jwksTtlMs = None, rs_jwksRefetchCooldownMs = None, rs_clockSkewSeconds = None\<rparr>"

definition extract_bearer :: "http_request \<Rightarrow> string option" where
  "extract_bearer rq =
     (case header_value rq ''authorization'' of
        Some a \<Rightarrow> if starts_with ''bearer '' (to_lower a) then Some (trim (drop 7 a)) else header_value rq ''x-gateway-key''
      | None \<Rightarrow> header_value rq ''x-gateway-key'')"

text \<open>The two byte strings \<open>timingSafeEqual\<close> compares.\<close>

definition constant_time_equals :: "string \<Rightarrow> string \<Rightarrow> bool" where
  "constant_time_equals a b \<longleftrightarrow> length (utf8 a) = length (utf8 b) \<and> utf8 a = utf8 b"

definition principal_for :: "string \<Rightarrow> string \<Rightarrow> string \<Rightarrow> string \<Rightarrow> principal io" where
  "principal_for tenantId userId clientLabel fallbackRole =
     (io_bind (db (\<lambda>t. memberships_get tenantId userId (tb_memberships t))) (\<lambda>membership.
      io_return \<lparr>np_tenantId = tenantId, np_userId = userId, np_clientLabel = clientLabel,
          np_roles = [case membership of None \<Rightarrow> fallbackRole | Some m \<Rightarrow> tm_role m]\<rparr>))"

definition issuer_key :: "env \<Rightarrow> string \<Rightarrow> string" where
  "issuer_key ev issuer = (case ev_parse_url ev issuer of None \<Rightarrow> issuer | Some u \<Rightarrow> url_host u)"

definition nonempty_text :: "json option \<Rightarrow> string option" where
  "nonempty_text v = given (json_string v)"

definition role_from_claims :: "json_object \<Rightarrow> string \<Rightarrow> string option" where
  "role_from_claims claims claim =
     (case map_of claims claim of
        Some (JArr xs) \<Rightarrow> Option.bind (List.find (\<lambda>x. nonempty_text (Some x) \<noteq> None) xs) (\<lambda>x. nonempty_text (Some x))
      | v \<Rightarrow> nonempty_text v)"

definition token_user :: "env \<Rightarrow> verified_access_token \<Rightarrow> string" where
  "token_user ev v = issuer_key ev (vt_issuer v) @ '':'' @ vt_subject v"

definition token_tenant :: "gateway_config \<Rightarrow> verified_access_token \<Rightarrow> string option" where
  "token_tenant cfg v =
     (case nonempty_text (map_of (vt_claims v) (gc_tenantClaim cfg)) of
        Some t \<Rightarrow> Some t | None \<Rightarrow> given (gc_defaultTenantId cfg))"

definition token_role :: "gateway_config \<Rightarrow> verified_access_token \<Rightarrow> string" where
  "token_role cfg v =
     (case role_from_claims (vt_claims v) (gc_rolesClaim cfg) of None \<Rightarrow> gc_defaultRole cfg | Some r \<Rightarrow> r)"

definition principal_for_token :: "env \<Rightarrow> gateway_config \<Rightarrow> verified_access_token \<Rightarrow> principal io" where
  "principal_for_token ev cfg v =
     (case token_tenant cfg v of
        None \<Rightarrow> io_fail (gerr FORBIDDEN (''Token carries no '' @ gc_tenantClaim cfg @
                 '' claim and no default tenant is configured''))
      | Some tenantId \<Rightarrow>
          (io_seq (provision_member \<lparr>nm_tenantId = tenantId, nm_userId = token_user ev v, nm_role = token_role cfg v,
               nm_email = (case json_string (map_of (vt_claims v) ''email'') of
                  Some e \<Rightarrow> e | None \<Rightarrow> token_user ev v @ ''@example.invalid'')\<rparr>) (
           io_return \<lparr>np_tenantId = tenantId, np_userId = token_user ev v,
               np_clientLabel = (case vt_clientId v of None \<Rightarrow> ''oauth'' | Some c \<Rightarrow> c),
               np_roles = [token_role cfg v]\<rparr>)))"

definition to_challenge :: "exn \<Rightarrow> bearer_challenge" where
  "to_challenge e =
     (let g = gateway_error_of e; oauthError = json_string (field (ge_data g) ''oauthError'') in
      \<lparr>bc_error = (case oauthError of
          Some x \<Rightarrow> if x = ''insufficient_scope'' \<or> x = ''invalid_request'' then x else ''invalid_token''
        | None \<Rightarrow> ''invalid_token''),
       bc_description = ge_message g,
       bc_status = (if ge_httpStatus g = 403 then 403 else 401),
       bc_scope = json_string (field (ge_data g) ''scope'')\<rparr>)"

definition authenticate ::
  "env \<Rightarrow> oauth_deps \<Rightarrow> gateway_config \<Rightarrow> http_request \<Rightarrow> authentication io" where
  "authenticate ev d cfg rq =
     (case given (extract_bearer rq) of
        None \<Rightarrow> io_return (Not_Authenticated None)
      | Some presented \<Rightarrow>
          (case List.find (\<lambda>k. constant_time_equals (ak_key k) presented) (gc_apiKeys cfg) of
             Some k \<Rightarrow>
               (io_bind (principal_for (ak_tenantId k) (ak_userId k) (ak_label k) (ak_role k)) (\<lambda>p.
                io_return (Authenticated p)))
           | None \<Rightarrow>
               if \<not> rs_enabled (resource_server_of cfg) then io_return (Not_Authenticated None)
               else io_catch
                 ((io_bind (verify_token ev d (resource_server_of cfg) presented) (\<lambda>v.
                   io_bind (principal_for_token ev cfg v) (\<lambda>p.
                   io_return (Authenticated p)))))
                 (\<lambda>e. io_return (Not_Authenticated (Some (to_challenge e))))))"

section \<open>Routing\<close>

text \<open>The handlers are named; a route lists the segments of its pattern.\<close>

type_synonym 'h route = "string \<times> string list \<times> 'h"

definition path_segments :: "string \<Rightarrow> string list" where
  "path_segments p = filter (\<lambda>s. s \<noteq> []) (split_on (CHR ''/'') p)"

definition add_route :: "string \<Rightarrow> string \<Rightarrow> 'h \<Rightarrow> 'h route list \<Rightarrow> 'h route list" where
  "add_route m pattern h rs = rs @ [(m, path_segments pattern, h)]"

text \<open>\<open>decodeURIComponent\<close>; \<open>None\<close> where it throws.\<close>

fun percent_bytes :: "string \<Rightarrow> string option" where
  "percent_bytes [] = Some []"
| "percent_bytes (c # s) =
     (if c \<noteq> CHR ''%'' then map_option (\<lambda>r. utf8_char c @ r) (percent_bytes s)
      else (case s of
              a # b # rest \<Rightarrow>
                (case (Codec.hex_value a, Codec.hex_value b) of
                   (Some x, Some y) \<Rightarrow> map_option ((#) (char_of (16 * x + y))) (percent_bytes rest)
                 | _ \<Rightarrow> None)
            | _ \<Rightarrow> None))"

definition decode_uri_component :: "string \<Rightarrow> string option" where
  "decode_uri_component s = Option.bind (percent_bytes s) utf8_decode"

text \<open>The parameters of a pattern: no match, or a match whose decoding may throw.\<close>

fun match_segments :: "string list \<Rightarrow> string list \<Rightarrow> (string \<times> string) list \<Rightarrow> (string + (string \<times> string) list option)" where
  "match_segments (e # es) (a # as) params =
     (if starts_with '':'' e then
        (case decode_uri_component a of
           None \<Rightarrow> Inl ''URI malformed''
         | Some v \<Rightarrow> match_segments es as (map_set params (tl e) v))
      else if e \<noteq> a then Inr None
      else match_segments es as params)"
| "match_segments _ _ params = Inr (Some params)"

fun resolve_route ::
  "'h route list \<Rightarrow> string \<Rightarrow> string list \<Rightarrow> (string + ('h \<times> (string \<times> string) list) option)" where
  "resolve_route [] m segments = Inr None"
| "resolve_route ((rm, es, h) # rs) m segments =
     (if (rm \<noteq> ''ALL'' \<and> rm \<noteq> m) \<or> length es \<noteq> length segments then resolve_route rs m segments
      else case match_segments es segments [] of
             Inl e \<Rightarrow> Inl e
           | Inr None \<Rightarrow> resolve_route rs m segments
           | Inr (Some params) \<Rightarrow> Inr (Some (h, params)))"

definition lower_code :: "gateway_error \<Rightarrow> string" where
  "lower_code g = to_lower (code_name (ge_code g))"

text \<open>
  \<open>handleRequest\<close>: only what the handler throws is answered. What it throws itself is the promise
  nobody waits for.
\<close>

definition handle_request ::
  "env \<Rightarrow> gateway_config \<Rightarrow> 'h route list \<Rightarrow> ('h \<Rightarrow> http_request \<Rightarrow> url \<Rightarrow> (string \<times> string) list \<Rightarrow> http_response io)
     \<Rightarrow> http_request \<Rightarrow> http_response io" where
  "handle_request ev cfg routes run rq =
     (case ev_resolve_url ev (hq_url rq) (gc_baseUrl cfg) of
        None \<Rightarrow> io_throw (Other_Exn ''Invalid URL'')
      | Some u \<Rightarrow>
          (case resolve_route routes (hq_method rq) (path_segments (ul_pathname u)) of
             Inl m \<Rightarrow> io_throw (Other_Exn m)
           | Inr None \<Rightarrow> write_head 404 [(''content-type'', ''application/json'')]
                          (Json_Body (JObj [(''error'', JStr ''not_found'')]))
           | Inr (Some (h, params)) \<Rightarrow>
               io_catch (run h rq u params) (\<lambda>e.
                 let g = gateway_error_of e in
                 write_head (ge_httpStatus g) [(''content-type'', ''application/json'')]
                   (Json_Body (JObj [(''error'', JStr (lower_code g)), (''message'', JStr (ge_message g)),
                     (''data'', case ge_data g of None \<Rightarrow> JNull | Some x \<Rightarrow> x)])))))"

section \<open>Who a caller is\<close>

lemma constant_time_equals_iff [simp]: "constant_time_equals a b \<longleftrightarrow> a = b"
  by (auto simp: constant_time_equals_def utf8_inj)

lemma principal_for_result:
  "principal_for tenantId userId label role w = (r, w1) \<Longrightarrow> \<exists>p. r = Inr p \<and> w1 = w \<and> np_tenantId p = tenantId \<and>
    np_userId p = userId \<and> np_clientLabel p = label"
  by (auto simp: principal_for_def io_bind_def db_def io_get_def io_return_def)

lemma principal_for_token_result:
  assumes "principal_for_token ev cfg v w = (Inr p, w')"
  shows "token_tenant cfg v = Some (np_tenantId p) \<and> np_userId p = token_user ev v \<and> np_roles p = [token_role cfg v]"
proof (cases "token_tenant cfg v")
  case None
  with assms show ?thesis by (simp add: principal_for_token_def io_throw_def)
next
  case (Some t)
  with assms show ?thesis
    by (auto simp: principal_for_token_def io_seq_def io_bind_def io_return_def split: prod.splits sum.splits)
qed

text \<open>
  C4: An authenticated caller presented either a configured key, and is the tenant and the user of that
  key, with nothing having changed; or an access token that \<open>verify_token\<close> accepted, and is the user
  named by its issuer and subject, in the tenant its claim or the configuration names, with the role of
  its claim.
\<close>

theorem authentication_sound:
  assumes "authenticate ev d cfg rq w = (Inr (Authenticated p), w')"
  shows "\<exists>presented. given (extract_bearer rq) = Some presented \<and>
    ((\<exists>k \<in> set (gc_apiKeys cfg). ak_key k = presented \<and> np_tenantId p = ak_tenantId k \<and>
        np_userId p = ak_userId k \<and> np_clientLabel p = ak_label k \<and> w' = w) \<or>
     (\<exists>v w1. verify_token ev d (resource_server_of cfg) presented w = (Inr v, w1) \<and>
        token_tenant cfg v = Some (np_tenantId p) \<and> np_userId p = token_user ev v \<and>
        np_roles p = [token_role cfg v]))"
proof -
  from assms obtain presented where pr: "given (extract_bearer rq) = Some presented"
    by (cases "given (extract_bearer rq)") (auto simp: authenticate_def io_return_def)
  show ?thesis
  proof (cases "List.find (\<lambda>k. constant_time_equals (ak_key k) presented) (gc_apiKeys cfg)")
    case (Some k)
    then have k: "k \<in> set (gc_apiKeys cfg)" "ak_key k = presented"
      by (auto simp: find_Some_iff)
    obtain r w1 where "principal_for (ak_tenantId k) (ak_userId k) (ak_label k) (ak_role k) w = (r, w1)"
      by fastforce
    with principal_for_result [OF this] assms pr Some k show ?thesis
      by (auto simp: authenticate_def io_bind_def io_return_def)
  next
    case None
    show ?thesis
    proof (cases "verify_token ev d (resource_server_of cfg) presented w")
      case (Pair r w1)
      with assms pr None obtain v where v: "r = Inr v" "principal_for_token ev cfg v w1 = (Inr p, w')"
        by (auto simp: authenticate_def io_catch_def io_bind_def io_return_def split: if_splits sum.splits prod.splits)
      with principal_for_token_result [OF v(2)] Pair pr show ?thesis by auto
    qed
  qed
qed

text \<open>A gateway with the one key \<open>secret\<close>, of the user \<open>u\<close> of the tenant \<open>t\<close>.\<close>

definition demo_config :: gateway_config where
  "demo_config = \<lparr>gc_baseUrl = ''https://gw.example'', gc_host = [], gc_port = None, gc_databaseFile = [],
     gc_uiEnabled = True, gc_databaseUrl = None, gc_databaseSchema = None, gc_encryptionKeyRing = None,
     gc_signingKeyPem = None, gc_logLevel = [], gc_allowedOrigins = [], gc_returnToOrigins = [],
     gc_apiKeys = [\<lparr>ak_key = ''secret'', ak_tenantId = ''t'', ak_userId = ''u'', ak_label = ''app'', ak_role = ''member''\<rparr>],
     gc_allowHttp = False, gc_allowLoopback = False, gc_allowPrivateNetworks = False, gc_hostAllowlist = [],
     gc_gatewayAuthorizationServers = [], gc_gatewayScopesSupported = [], gc_gatewayRequiredScopes = [],
     gc_tenantClaim = ''tenant'', gc_defaultTenantId = None, gc_rolesClaim = ''roles'', gc_defaultRole = ''member'',
     gc_writeRoles = [], gc_blockedRiskLevels = [], gc_confirmationRiskLevels = [],
     gc_exposeUnreviewedDestructive = False, gc_maxArgumentBytes = None, gc_maxResultBytes = None,
     gc_allowSampling = False, gc_allowElicitation = False, gc_allowRoots = False, gc_pageSize = None,
     gc_toolCallsPerMinute = None, gc_apiRequestsPerMinute = None, gc_requestTimeoutMs = None,
     gc_authorizationTransactionTtlMs = None, gc_logoUri = None, gc_documentationUri = None\<rparr>"

definition demo_request :: http_request where
  "demo_request = \<lparr>hq_method = ''GET'', hq_url = ''/'', hq_headers = [(''authorization'', ''Bearer secret'')],
     hq_body = [], hq_stream = ''s1''\<rparr>"

lemma authentication_sound_witness:
  "\<exists>p w'. authenticate demo_env demo_deps demo_config demo_request demo_world = (Inr (Authenticated p), w') \<and>
    np_tenantId p = ''t'' \<and> np_userId p = ''u'' \<and> given (extract_bearer demo_request) \<noteq> None"
proof -
  let ?run = "authenticate demo_env demo_deps demo_config demo_request demo_world"
  have "case fst ?run of Inr (Authenticated p) \<Rightarrow> np_tenantId p = ''t'' \<and> np_userId p = ''u'' | _ \<Rightarrow> False"
    by code_simp
  then obtain p where p: "fst ?run = Inr (Authenticated p)" "np_tenantId p = ''t''" "np_userId p = ''u''"
    by (auto split: sum.splits authentication.splits)
  then have run: "?run = (Inr (Authenticated p), snd ?run)" by (simp add: prod_eq_iff)
  from authentication_sound [OF run] have "given (extract_bearer demo_request) \<noteq> None" by blast
  with p run show ?thesis by blast
qed

section \<open>Which requests are left without an answer\<close>

lemma json_type_plain: "list_all header_char ''application/json''"
  by code_simp

text \<open>
  How the segments of a path meet those of a pattern, place by place: they agree where a parameter
  takes one that can be decoded, or where they are the same.
\<close>

definition is_param :: "string \<Rightarrow> bool" where
  "is_param e \<longleftrightarrow> starts_with '':'' e"

definition agree_before :: "nat \<Rightarrow> string list \<Rightarrow> string list \<Rightarrow> bool" where
  "agree_before j es segments \<longleftrightarrow>
     (\<forall>k < j. if is_param (es ! k) then decode_uri_component (segments ! k) \<noteq> None else es ! k = segments ! k)"

text \<open>The first place that does not agree: a parameter that cannot be decoded, or another fixed segment.\<close>

definition breaks_at_param :: "string list \<Rightarrow> string list \<Rightarrow> bool" where
  "breaks_at_param es segments \<longleftrightarrow> (\<exists>j < length es. agree_before j es segments \<and>
     is_param (es ! j) \<and> decode_uri_component (segments ! j) = None)"

definition differs_at_fixed :: "string list \<Rightarrow> string list \<Rightarrow> bool" where
  "differs_at_fixed es segments \<longleftrightarrow> (\<exists>j < length es. agree_before j es segments \<and>
     \<not> is_param (es ! j) \<and> es ! j \<noteq> segments ! j)"

definition has_shape :: "string \<Rightarrow> string list \<Rightarrow> 'h route \<Rightarrow> bool" where
  "has_shape m segments r \<longleftrightarrow> (fst r = ''ALL'' \<or> fst r = m) \<and> length (fst (snd r)) = length segments"

text \<open>The request is undecodable for a route that none of the earlier ones keeps it from.\<close>

definition undecodable :: "'h route list \<Rightarrow> string \<Rightarrow> string list \<Rightarrow> bool" where
  "undecodable routes m segments \<longleftrightarrow> (\<exists>n < length routes.
     has_shape m segments (routes ! n) \<and> breaks_at_param (fst (snd (routes ! n))) segments \<and>
     list_all (\<lambda>r. \<not> has_shape m segments r \<or> differs_at_fixed (fst (snd r)) segments) (take n routes))"

lemma breaks_at_param_Cons:
  "breaks_at_param (e # es) (a # segments) \<longleftrightarrow> (is_param e \<and> decode_uri_component a = None) \<or>
     (if is_param e then decode_uri_component a \<noteq> None else e = a) \<and> breaks_at_param es segments"
  by (auto simp: breaks_at_param_def agree_before_def Ex_less_Suc2 All_less_Suc2)

lemma differs_at_fixed_Cons:
  "differs_at_fixed (e # es) (a # segments) \<longleftrightarrow> (\<not> is_param e \<and> e \<noteq> a) \<or>
     (if is_param e then decode_uri_component a \<noteq> None else e = a) \<and> differs_at_fixed es segments"
  by (auto simp: differs_at_fixed_def agree_before_def Ex_less_Suc2 All_less_Suc2)

lemma match_segments_cases:
  "length es = length segments \<Longrightarrow>
     (isl (match_segments es segments ps) \<longleftrightarrow> breaks_at_param es segments) \<and>
     (match_segments es segments ps = Inr None \<longleftrightarrow> differs_at_fixed es segments)"
proof (induction es segments arbitrary: ps rule: list_induct2)
  case Nil
  then show ?case by (simp add: breaks_at_param_def differs_at_fixed_def)
next
  case (Cons e es a segments)
  then show ?case
    by (cases "decode_uri_component a")
      (auto simp: breaks_at_param_Cons differs_at_fixed_Cons is_param_def)
qed

lemma undecodable_Cons:
  "undecodable (r # rs) m segments \<longleftrightarrow> has_shape m segments r \<and> breaks_at_param (fst (snd r)) segments \<or>
     (\<not> has_shape m segments r \<or> differs_at_fixed (fst (snd r)) segments) \<and> undecodable rs m segments"
  by (auto simp: undecodable_def Ex_less_Suc2)

lemma resolve_route_throws: "isl (resolve_route routes m segments) \<longleftrightarrow> undecodable routes m segments"
proof (induction routes)
  case Nil
  then show ?case by (simp add: undecodable_def)
next
  case (Cons r rs)
  obtain rm es h where r: "r = (rm, es, h)" by (cases r)
  show ?case
  proof (cases "has_shape m segments r")
    case True
    then have l: "length es = length segments" and s: "\<not> ((rm \<noteq> ''ALL'' \<and> rm \<noteq> m) \<or> length es \<noteq> length segments)"
      by (auto simp: has_shape_def r)
    have run: "resolve_route (r # rs) m segments =
        (case match_segments es segments [] of
           Inl e \<Rightarrow> Inl e
         | Inr None \<Rightarrow> resolve_route rs m segments
         | Inr (Some params) \<Rightarrow> Inr (Some (h, params)))"
      unfolding r resolve_route.simps if_not_P [OF s] ..
    note c = match_segments_cases [OF l, of "[]"]
    show ?thesis
    proof (cases "match_segments es segments []")
      case (Inl e)
      with c True show ?thesis unfolding run by (simp add: undecodable_Cons r)
    next
      case (Inr found)
      with c True Cons show ?thesis unfolding run by (cases found) (simp_all add: undecodable_Cons r)
    qed
  next
    case False
    then have "resolve_route (r # rs) m segments = resolve_route rs m segments"
      by (auto simp: has_shape_def r)
    with False Cons show ?thesis by (simp only: undecodable_Cons) simp
  qed
qed


end
