(* ===== verification/Routes.thy ===== *)
theory Routes
  imports Gateway
begin

text \<open>
  \<^verbatim>\<open>packages/gateway/src/routes.ts\<close>: the HTTP surface of the gateway, the control plane and
  the OAuth endpoints. The text of the management page, of the metrics and of the published keys, and
  what the cause of an error says, are given with the services.
\<close>

section \<open>Services\<close>

record gateway_services =
  gs_config :: gateway_config
  gs_connections :: connection_service_config
  gs_handler :: handler_config
  gs_northbound :: northbound_options
  gs_jwks :: json
  gs_page :: "string \<Rightarrow> string"
  gs_page_policy :: "string \<Rightarrow> string"
  gs_metrics :: string
  gs_cause :: "exn \<Rightarrow> string option"

definition gs_manager :: "gateway_services \<Rightarrow> token_manager_config" where
  "gs_manager S = sc_manager (gs_connections S)"

definition gs_deps :: "gateway_services \<Rightarrow> oauth_deps" where
  "gs_deps S = tc_deps (gs_manager S)"

definition max_body :: nat where
  "max_body = 1000000"

definition resource_metadata_url :: "gateway_config \<Rightarrow> string" where
  "resource_metadata_url cfg = gc_baseUrl cfg @ ''/.well-known/oauth-protected-resource''"

text \<open>\<open>[new URL(baseUrl).origin, ...returnToOrigins]\<close>.\<close>

definition return_to_origins :: "env \<Rightarrow> gateway_config \<Rightarrow> string list" where
  "return_to_origins ev cfg =
     (case ev_parse_url ev (gc_baseUrl cfg) of None \<Rightarrow> [] | Some u \<Rightarrow> [url_origin u]) @ gc_returnToOrigins cfg"

section \<open>Bodies\<close>

definition parse_json_body :: "env \<Rightarrow> string \<Rightarrow> json_object io" where
  "parse_json_body ev raw =
     (case ev_parse_json ev raw of
        Some (JObj es) \<Rightarrow> io_return es
      | _ \<Rightarrow> io_fail (gerr INVALID_REQUEST ''Expected a JSON object body''))"

definition json_body :: "env \<Rightarrow> http_request \<Rightarrow> json_object io" where
  "json_body ev rq =
     (io_bind (read_body rq max_body) (\<lambda>raw.
      parse_json_body ev raw))"

definition read_optional_body :: "env \<Rightarrow> http_request \<Rightarrow> json_object io" where
  "read_optional_body ev rq =
     (io_bind (read_body rq max_body) (\<lambda>raw.
      (if trim raw = [] then io_return [] else parse_json_body ev raw)))"

text \<open>\<open>String(value ?? fallback)\<close>.\<close>

definition text_or :: "env \<Rightarrow> json option \<Rightarrow> string \<Rightarrow> string" where
  "text_or ev v fallback =
     (case v of None \<Rightarrow> fallback | Some JNull \<Rightarrow> fallback | Some x \<Rightarrow> js_string ev (Some x))"

definition string_record :: "json option \<Rightarrow> (string \<times> string) list option" where
  "string_record v =
     (case v of
        Some (JObj es) \<Rightarrow>
          if list_all (\<lambda>e. is_string (snd e)) es then Some (List.map_filter string_entry es) else None
      | _ \<Rightarrow> None)"

definition jopt :: "string option \<Rightarrow> json" where
  "jopt v = (case v of None \<Rightarrow> JNull | Some s \<Rightarrow> JStr s)"

definition jint :: "int \<Rightarrow> json" where
  "jint n = JNum (of_int n)"

fun status_name :: "connection_status \<Rightarrow> string" where
  "status_name PENDING = ''PENDING''"
| "status_name AUTHORIZATION_NEEDED = ''AUTHORIZATION_REQUIRED''"
| "status_name CREDENTIALS_NEEDED = ''CLIENT_CREDENTIALS_REQUIRED''"
| "status_name CONNECTED = ''CONNECTED''"
| "status_name CONNECTED_NON_REFRESHABLE = ''CONNECTED_NON_REFRESHABLE''"
| "status_name REAUTH_REQUIRED = ''REAUTH_REQUIRED''"
| "status_name DEGRADED = ''DEGRADED''"
| "status_name DISABLED = ''DISABLED''"

definition to_connection_payload :: "connection_view \<Rightarrow> string \<Rightarrow> json_object" where
  "to_connection_payload v baseUrl =
     [(''connection_id'', JStr (cv_connectionId v)), (''alias'', JStr (cv_alias v)),
      (''status'', JStr (status_name (cv_status v))), (''mcp_url'', JStr (cv_mcpUrl v)),
      (''display_name'', JStr (cv_displayName v)), (''tool_count'', jint (int (cv_toolCount v))),
      (''last_error'', jopt (cv_lastError v))] @
     (case given (cv_authorizationUrl v) of None \<Rightarrow> [] | Some u \<Rightarrow> [(''authorization_url'', JStr u)]) @
     (if cv_status v = AUTHORIZATION_NEEDED \<or> cv_status v = REAUTH_REQUIRED
      then [(''connect_url'', JStr (baseUrl @ ''/connect/'' @ cv_connectionId v))] else [])"

section \<open>Pages\<close>

definition escape_char :: "char \<Rightarrow> string" where
  "escape_char c =
     (if c = CHR ''&'' then ''&amp;'' else if c = CHR ''<'' then ''&lt;'' else if c = CHR ''>'' then ''&gt;''
      else if c = CHR 0x22 then ''&quot;'' else [c])"

definition escape_html :: "string \<Rightarrow> string" where
  "escape_html s = concat (map escape_char s)"

definition html_page :: "string \<Rightarrow> string \<Rightarrow> string" where
  "html_page title message =
     ''<!doctype html><html lang='' @ [CHR 0x22] @ ''en'' @ [CHR 0x22] @ ''><head><meta charset='' @ [CHR 0x22] @ ''utf-8'' @
     [CHR 0x22] @ ''><title>'' @ escape_html title @
     ''</title><style>body{font-family:system-ui,sans-serif;margin:4rem auto;max-width:36rem;line-height:1.5;color:#111}h1{font-size:1.4rem}</style></head><body><h1>'' @
     escape_html title @ ''</h1><p>'' @ escape_html message @ ''</p></body></html>''"

definition send_html :: "nat \<Rightarrow> string \<Rightarrow> string \<Rightarrow> http_response io" where
  "send_html status title message =
     write_head status [(''content-type'', ''text/html; charset=utf-8''),
       (''content-length'', show_nat (length (utf8 (html_page title message))))] (Text_Body (html_page title message))"

definition redirect_to :: "string \<Rightarrow> http_response io" where
  "redirect_to target = write_head 302 [(''location'', target)] Empty_Body"

definition with_reason :: "gateway_services \<Rightarrow> exn \<Rightarrow> string" where
  "with_reason S e =
     (let message = ge_message (gateway_error_of e) in
      case given (gs_cause S e) of
        None \<Rightarrow> message
      | Some reason \<Rightarrow> if reason = message then message else message @ '': '' @ take 300 reason)"

text \<open>\<open>encodeURIComponent\<close>.\<close>

definition uri_plain :: "char \<Rightarrow> bool" where
  "uri_plain c \<longleftrightarrow> is_alnum c \<or> c \<in> set ''-_.!~*()'' \<or> c = CHR 0x27"

definition encode_uri_component :: "string \<Rightarrow> string" where
  "encode_uri_component s = concat (map (\<lambda>c.
     if uri_plain c then [c]
     else concat (map (\<lambda>b. [CHR ''%'', hex_digit (code b div 16), hex_digit (code b mod 16)]) (utf8_char c))) s)"

section \<open>Who may ask\<close>

definition challenge_response :: "env \<Rightarrow> gateway_config \<Rightarrow> bearer_challenge option \<Rightarrow> http_response io" where
  "challenge_response ev cfg challenge =
     send_json ev (case challenge of None \<Rightarrow> 401 | Some c \<Rightarrow> bc_status c)
       (JObj ((''error'', JStr (case challenge of None \<Rightarrow> ''unauthorized'' | Some c \<Rightarrow> bc_error c)) #
         (case challenge of None \<Rightarrow> [] | Some c \<Rightarrow> [(''error_description'', JStr (bc_description c))])))
       [(''www-authenticate'', bearer_challenge_header (Some (resource_metadata_url cfg)) challenge)]"

definition api_check :: "handler_config \<Rightarrow> string \<Rightarrow> rate_limit_decision io" where
  "api_check hc tenantId =
     (io_bind now (\<lambda>t.
      io_bind (live_get (\<lambda>l. fst (check (hc_apiRule hc) (of_int t) tenantId (lv_api l)))) (\<lambda>decision.
      io_seq (live_modify (\<lambda>l. l\<lparr>lv_api := snd (check (hc_apiRule hc) (of_int t) tenantId (lv_api l))\<rparr>)) (
      io_return decision))))"

text \<open>\<open>requirePrincipal\<close>, with what a route does for the principal.\<close>

definition as_principal ::
  "env \<Rightarrow> gateway_services \<Rightarrow> http_request \<Rightarrow> (principal \<Rightarrow> http_response io) \<Rightarrow> http_response io" where
  "as_principal ev S rq f =
     (io_bind (authenticate ev (gs_deps S) (gs_config S) rq) (\<lambda>outcome.
      (case outcome of
           Not_Authenticated challenge \<Rightarrow> challenge_response ev (gs_config S) challenge
         | Authenticated p \<Rightarrow>
             (io_bind (api_check (gs_handler S) (np_tenantId p)) (\<lambda>decision.
              (if \<not> rd_allowed decision
                 then send_json ev 429 (JObj [(''error'', JStr ''rate_limited''),
                        (''retry_after_seconds'', jint (rd_retryAfterSeconds decision))])
                        [(''retry-after'', js_string ev (Some (jint (rd_retryAfterSeconds decision))))]
                 else f p))))))"

definition actor_of :: "principal \<Rightarrow> control_plane_actor" where
  "actor_of p = \<lparr>ca_tenantId = np_tenantId p, ca_userId = np_userId p\<rparr>"

section \<open>Open routes\<close>

definition public_cache :: "nat \<Rightarrow> (string \<times> string) list" where
  "public_cache n = [(''cache-control'', ''public, max-age='' @ show_nat n)]"

definition resource_metadata_route :: "env \<Rightarrow> gateway_services \<Rightarrow> http_response io" where
  "resource_metadata_route ev S =
     (let cfg = gs_config S in
      send_json ev 200 (JObj ([(''resource'', JStr (gc_baseUrl cfg @ ''/mcp'')),
          (''authorization_servers'', jstrs (gc_gatewayAuthorizationServers cfg)),
          (''scopes_supported'', jstrs (gc_gatewayScopesSupported cfg)),
          (''bearer_methods_supported'', jstrs [''header'']),
          (''resource_name'', JStr ''Universal Agent Protocol Gateway'')] @
        (case gc_documentationUri cfg of None \<Rightarrow> [] | Some u \<Rightarrow> [(''resource_documentation'', JStr u)])))
        (public_cache 3600))"

definition ui_route :: "env \<Rightarrow> gateway_services \<Rightarrow> http_response io" where
  "ui_route ev S =
     (io_bind (draw ev) (\<lambda>nonce.
      (let body = gs_page S nonce in
      write_head 200 [(''content-type'', ''text/html; charset=utf-8''),
          (''content-length'', show_nat (length (utf8 body))), (''content-security-policy'', gs_page_policy S nonce),
          (''referrer-policy'', ''no-referrer''), (''x-content-type-options'', ''nosniff''),
          (''x-frame-options'', ''DENY''), (''cache-control'', ''no-store'')] (Text_Body body))))"

definition replaced_client_connection_id :: "gateway_error \<Rightarrow> string option" where
  "replaced_client_connection_id g =
     (if ge_code g \<noteq> AUTHORIZATION_REQUIRED then None
      else if field (ge_data g) ''reason'' \<noteq> Some (JStr ''client_replaced'') then None
      else json_string (field (ge_data g) ''connectionId''))"

definition callback_input :: "url \<Rightarrow> authentication \<Rightarrow> oauth_callback_input" where
  "callback_input u outcome =
     (let query = (\<lambda>k. given (map_of (url_search_params u) k)) in
      \<lparr>ci_code = query ''code'', ci_state = query ''state'', ci_iss = query ''iss'', ci_error = query ''error'',
       ci_actingUserId = (case outcome of Authenticated p \<Rightarrow> Some (np_userId p) | Not_Authenticated c \<Rightarrow> None)\<rparr>)"

definition callback_done ::
  "env \<Rightarrow> gateway_services \<Rightarrow> callback_result \<Rightarrow> gateway_error option \<Rightarrow> http_response io" where
  "callback_done ev S result activation =
     (case given (kb_returnTo result) of
        Some target \<Rightarrow>
          if is_return_url_allowed (ev_parse_url ev) target (return_to_origins ev (gs_config S))
          then redirect_to target
          else (case activation of
            Some g \<Rightarrow> send_html 200 ''Connection authorized, but its tools are not available yet''
                (''The credentials were stored. Discovering what this server offers failed: '' @ ge_message g)
          | None \<Rightarrow> send_html 200 ''Connection authorized'' ''You can close this window and return to your MCP client.'')
      | None \<Rightarrow> (case activation of
            Some g \<Rightarrow> send_html 200 ''Connection authorized, but its tools are not available yet''
                (''The credentials were stored. Discovering what this server offers failed: '' @ ge_message g)
          | None \<Rightarrow> send_html 200 ''Connection authorized'' ''You can close this window and return to your MCP client.''))"

definition callback_failed :: "gateway_services \<Rightarrow> exn \<Rightarrow> http_response io" where
  "callback_failed S e =
     (let g = gateway_error_of e; cfg = gs_config S in
      case given (replaced_client_connection_id g) of
        Some i \<Rightarrow> redirect_to (if gc_uiEnabled cfg then gc_baseUrl cfg @ ''/ui?authorize='' @ encode_uri_component i
                              else gc_baseUrl cfg @ ''/connect/'' @ i)
      | None \<Rightarrow> send_html (ge_httpStatus g) ''Authorization failed'' (with_reason S e))"

definition callback_route :: "env \<Rightarrow> gateway_services \<Rightarrow> http_request \<Rightarrow> url \<Rightarrow> http_response io" where
  "callback_route ev S rq u =
     (io_bind (authenticate ev (gs_deps S) (gs_config S) rq) (\<lambda>outcome.
      io_catch
          ((io_bind (exchange_code ev (gs_manager S) (callback_input u outcome)) (\<lambda>result.
            io_bind (io_catch
                ((io_bind (activate_connection ev (gs_connections S) (kb_tenantId result) (kb_connectionId result)) (\<lambda>s.
                  io_return None)))
                (\<lambda>e. io_return (Some (gateway_error_of e)))) (\<lambda>activation.
            callback_done ev S result activation))))
          (callback_failed S)))"

definition connect_route :: "env \<Rightarrow> gateway_services \<Rightarrow> http_request \<Rightarrow> string \<Rightarrow> http_response io" where
  "connect_route ev S rq i =
     (io_bind (authenticate ev (gs_deps S) (gs_config S) rq) (\<lambda>outcome.
      (case outcome of
           Not_Authenticated c \<Rightarrow> send_html 401 ''Sign in required''
             (''Open this link from the gateway control plane, or call '' @
              ''POST /api/v1/connections/{id}/authorize with your gateway credentials.'')
         | Authenticated p \<Rightarrow>
             (io_bind (start_authorization ev (gs_connections S) (actor_of p) i None) (\<lambda>target.
              redirect_to target)))))"

section \<open>Connections\<close>

definition connection_input ::
  "principal \<Rightarrow> string \<Rightarrow> string option \<Rightarrow> owner_type option \<Rightarrow> (string \<times> string) list option
     \<Rightarrow> create_connection_input" where
  "connection_input p mcpUrl alias owner headers = \<lparr>ki_tenantId = np_tenantId p, ki_userId = np_userId p,
     ki_mcpUrl = mcpUrl, ki_alias = alias, ki_displayName = None, ki_ownerType = owner, ki_staticHeaders = headers\<rparr>"

definition create_route :: "env \<Rightarrow> gateway_services \<Rightarrow> http_request \<Rightarrow> principal \<Rightarrow> http_response io" where
  "create_route ev S rq p =
     (io_bind (json_body ev rq) (\<lambda>body.
      (let mcpUrl = text_or ev (map_of body ''mcp_url'') [] in
      (if mcpUrl = []
         then send_json ev 400 (JObj [(''error'', JStr ''invalid_request''), (''message'', JStr ''mcp_url is required'')]) []
         else
           (io_bind (create_connection ev (gs_connections S) (connection_input p mcpUrl
                (json_string (map_of body ''alias''))
                (if map_of body ''owner_type'' = Some (JStr ''WORKSPACE'') then Some WORKSPACE else None)
                (string_record (map_of body ''headers'')))) (\<lambda>v.
            send_json ev 201 (JObj (to_connection_payload v (gc_baseUrl (gs_config S)))) []))))))"

definition list_route :: "env \<Rightarrow> gateway_services \<Rightarrow> principal \<Rightarrow> http_response io" where
  "list_route ev S p =
     (io_bind (list_connections (actor_of p)) (\<lambda>views.
      send_json ev 200 (JObj [(''connections'',
          JArr (map (\<lambda>v. JObj (to_connection_payload v (gc_baseUrl (gs_config S)))) views))]) []))"

definition get_route :: "env \<Rightarrow> gateway_services \<Rightarrow> string \<Rightarrow> principal \<Rightarrow> http_response io" where
  "get_route ev S i p =
     (io_bind (get_connection (actor_of p) i) (\<lambda>v.
      send_json ev 200 (JObj (to_connection_payload v (gc_baseUrl (gs_config S)))) []))"

definition authorize_route :: "env \<Rightarrow> gateway_services \<Rightarrow> http_request \<Rightarrow> string \<Rightarrow> principal \<Rightarrow> http_response io" where
  "authorize_route ev S rq i p =
     (io_bind (read_optional_body ev rq) (\<lambda>body.
      (let returnTo = json_string (map_of body ''return_to'') in
      (if (case returnTo of None \<Rightarrow> False | Some r \<Rightarrow>
               \<not> is_return_url_allowed (ev_parse_url ev) r (return_to_origins ev (gs_config S)))
         then send_json ev 400 (JObj [(''error'', JStr ''invalid_return_to''), (''error_description'', JStr
             ''return_to must point at the gateway or an origin listed in GATEWAY_RETURN_TO_ORIGINS'')]) []
         else
           (io_bind (start_authorization ev (gs_connections S) (actor_of p) i returnTo) (\<lambda>url.
            send_json ev 200 (JObj [(''authorization_url'', JStr url)]) []))))))"

definition reconnect_route :: "env \<Rightarrow> gateway_services \<Rightarrow> string \<Rightarrow> principal \<Rightarrow> http_response io" where
  "reconnect_route ev S i p =
     (io_bind (start_authorization ev (gs_connections S) (actor_of p) i None) (\<lambda>url.
      send_json ev 200 (JObj [(''authorization_url'', JStr url)]) []))"

definition refresh_route :: "env \<Rightarrow> gateway_services \<Rightarrow> string \<Rightarrow> principal \<Rightarrow> http_response io" where
  "refresh_route ev S i p =
     (io_bind (refresh ev (gs_connections S) (actor_of p) i) (\<lambda>s.
      send_json ev 200 (JObj [(''added'', jstrs (sr_added s)), (''removed'', jstrs (sr_removed s)),
          (''changed'', jstrs (sr_changed s)), (''unchanged'', jint (int (length (sr_unchanged s))))]) []))"

definition alias_route :: "env \<Rightarrow> gateway_services \<Rightarrow> http_request \<Rightarrow> string \<Rightarrow> principal \<Rightarrow> http_response io" where
  "alias_route ev S rq i p =
     (io_bind (json_body ev rq) (\<lambda>body.
      io_bind (rename ev (gs_connections S) (actor_of p) i (text_or ev (map_of body ''alias'') [])) (\<lambda>v.
      send_json ev 200 (JObj (to_connection_payload v (gc_baseUrl (gs_config S)))) [])))"

definition enabled_route :: "env \<Rightarrow> gateway_services \<Rightarrow> http_request \<Rightarrow> string \<Rightarrow> principal \<Rightarrow> http_response io" where
  "enabled_route ev S rq i p =
     (io_bind (json_body ev rq) (\<lambda>body.
      io_bind (set_connection_enabled ev (gs_connections S) (actor_of p) i (map_of body ''enabled'' = Some (JBool True))) (\<lambda>v.
      send_json ev 200 (JObj (to_connection_payload v (gc_baseUrl (gs_config S)))) [])))"

definition delete_route :: "env \<Rightarrow> gateway_services \<Rightarrow> string \<Rightarrow> principal \<Rightarrow> http_response io" where
  "delete_route ev S i p =
     (io_seq (disconnect ev (gs_connections S) (actor_of p) i) (
      send_empty 204 []))"

section \<open>Tools\<close>

definition tools_route :: "env \<Rightarrow> principal \<Rightarrow> http_response io" where
  "tools_route ev p =
     (io_bind (list_visible_tools (actor_of p)) (\<lambda>tools.
      send_json ev 200 (JObj [(''tools'', JArr (map (\<lambda>t. JObj [(''id'', JStr (dt_id t)),
          (''name'', JStr (dt_gatewayName t)), (''upstream_name'', JStr (dt_upstreamName t)),
          (''connection_id'', JStr (dt_connectionId t)), (''enabled'', JBool (dt_enabled t)),
          (''risk_level'', JStr (risk_name (dt_riskLevel t))), (''schema_hash'', JStr (dt_schemaHash t))]) tools))]) []))"

definition tool_route :: "env \<Rightarrow> http_request \<Rightarrow> string \<Rightarrow> principal \<Rightarrow> http_response io" where
  "tool_route ev rq i p =
     (io_bind (json_body ev rq) (\<lambda>body.
      io_seq (set_tool_enabled ev (actor_of p) i (map_of body ''enabled'' = Some (JBool True))) (
      send_json ev 200 (JObj [(''ok'', JBool True)]) [])))"

section \<open>OAuth clients\<close>

definition seal_secret :: "env \<Rightarrow> principal \<Rightarrow> json option \<Rightarrow> string option io" where
  "seal_secret ev p v =
     (case json_string v of
        None \<Rightarrow> io_return None
      | Some s \<Rightarrow> io_bind (encrypt ev \<lparr>ec_tenantId = np_tenantId p, ec_purpose = Client_Secret\<rparr> s)
                   (\<lambda>x. io_return (Some x)))"

definition upsert_preconfigured :: "preconfigured_client \<Rightarrow> preconfigured_client io" where
  "upsert_preconfigured r w =
     (case preconfigured_upsert r (tb_preconfigured (wd_db w)) of
        None \<Rightarrow> (Inl constraint_failed, w)
      | Some (stored, rows) \<Rightarrow> (Inr stored, w\<lparr>wd_db := (wd_db w)\<lparr>tb_preconfigured := rows\<rparr>\<rparr>))"

definition configure_client_route :: "env \<Rightarrow> gateway_services \<Rightarrow> http_request \<Rightarrow> principal \<Rightarrow> http_response io" where
  "configure_client_route ev S rq p =
     (io_bind (json_body ev rq) (\<lambda>body.
      (let issuer = text_or ev (map_of body ''issuer'') [] in
      (let clientId = text_or ev (map_of body ''client_id'') [] in
      (let initial = map_of body ''initial_access_token'' in
      (let m = auth_method_of_string (text_or ev (map_of body ''token_endpoint_auth_method'') ''client_secret_basic'') in
      (if issuer = [] \<or> (clientId = [] \<and> json_string initial = None) \<or> m = None
         then send_json ev 400 (JObj [(''error'', JStr ''invalid_request''), (''message'', JStr
             (''issuer, a supported token_endpoint_auth_method, and either client_id '' @
              ''or initial_access_token are required''))]) []
         else
           (io_bind (new_id ev ''pcc'') (\<lambda>i.
            io_bind (seal_secret ev p (map_of body ''client_secret'')) (\<lambda>secret.
            io_bind (seal_secret ev p initial) (\<lambda>token.
            io_bind now (\<lambda>t.
            io_bind (upsert_preconfigured \<lparr>pc_id = i, pc_tenantId = np_tenantId p, pc_issuer = issuer,
                pc_clientId = clientId, pc_clientSecretEncrypted = secret, pc_initialAccessTokenEncrypted = token,
                pc_redirectUri = text_or ev (map_of body ''redirect_uri'') (gi_redirectUri (od_identity (gs_deps S))),
                pc_tokenEndpointAuthMethod = (case m of None \<Rightarrow> NONE_METHOD | Some a \<Rightarrow> a),
                pc_scopes = json_strings (map_of body ''scopes''), pc_createdAt = t\<rparr>) (\<lambda>stored.
            send_json ev 201 (JObj [(''id'', JStr (pc_id stored)), (''issuer'', JStr (pc_issuer stored))]) [])))))))))))))"

definition list_clients_route :: "env \<Rightarrow> principal \<Rightarrow> http_response io" where
  "list_clients_route ev p =
     (io_bind (db (\<lambda>t. sort_key pc_createdAt (filter (\<lambda>r. pc_tenantId r = np_tenantId p) (tb_preconfigured t)))) (\<lambda>records.
      send_json ev 200 (JObj [(''oauth_client_configurations'', JArr (map (\<lambda>r. JObj [
          (''id'', JStr (pc_id r)), (''issuer'', JStr (pc_issuer r)), (''client_id'', JStr (pc_clientId r)),
          (''redirect_uri'', JStr (pc_redirectUri r)),
          (''token_endpoint_auth_method'', JStr (string_of_auth_method (pc_tokenEndpointAuthMethod r))),
          (''scopes'', case pc_scopes r of None \<Rightarrow> JNull | Some ss \<Rightarrow> jstrs ss),
          (''has_client_secret'', JBool (pc_clientSecretEncrypted r \<noteq> None)),
          (''has_initial_access_token'', JBool (pc_initialAccessTokenEncrypted r \<noteq> None)),
          (''created_at'', jint (pc_createdAt r))]) records))]) []))"

definition delete_client_route :: "env \<Rightarrow> string \<Rightarrow> principal \<Rightarrow> http_response io" where
  "delete_client_route ev i p =
     (io_bind (db_run (\<lambda>d. case preconfigured_delete (np_tenantId p) i (tb_preconfigured d) of
          (b, rows) \<Rightarrow> (b, d\<lparr>tb_preconfigured := rows\<rparr>))) (\<lambda>removed.
      (if \<not> removed
         then send_json ev 404 (JObj [(''error'', JStr ''not_found''),
                (''message'', JStr ''No such OAuth client configuration'')]) []
         else send_empty 204 [])))"

section \<open>Import\<close>

definition import_one :: "env \<Rightarrow> gateway_services \<Rightarrow> principal \<Rightarrow> string \<Rightarrow> string option \<Rightarrow> json io" where
  "import_one ev S p canonical alias =
     io_catch
       ((io_bind (create_connection ev (gs_connections S) (connection_input p canonical alias None None)) (\<lambda>v.
         io_return (JObj (to_connection_payload v (gc_baseUrl (gs_config S)) @
             [(''url'', JStr canonical), (''authorize_url'', JStr (gc_baseUrl (gs_config S) @ ''/api/v1/connections/'' @
               cv_connectionId v @ ''/authorize''))])))))
       (\<lambda>e. let g = gateway_error_of e in
         io_return (JObj [(''url'', JStr canonical), (''status'', JStr ''FAILED''),
           (''code'', JStr (code_name (ge_code g))), (''message'', JStr (ge_message g))]))"

fun import_each ::
  "env \<Rightarrow> gateway_services \<Rightarrow> principal \<Rightarrow> json list \<Rightarrow> string list \<Rightarrow> json list io" where
  "import_each ev S p [] seen = io_return []"
| "import_each ev S p (entry # entries) seen =
     (let rawUrl = (case entry of JStr s \<Rightarrow> s | _ \<Rightarrow> text_or ev (field (Some entry) ''url'') []);
          alias = (case entry of JStr s \<Rightarrow> None | _ \<Rightarrow> json_string (field (Some entry) ''alias'')) in
      if rawUrl = [] then import_each ev S p entries seen
      else case canonicalize_url (ev_parse_url ev) \<lparr>up_allowHttp = gc_allowHttp (gs_config S)\<rparr> rawUrl of
        Inl g \<Rightarrow>
          (io_bind (import_each ev S p entries seen) (\<lambda>rest.
           io_return (JObj [(''url'', JStr rawUrl), (''status'', JStr ''INVALID''), (''message'', JStr (ge_message g))]
               # rest)))
      | Inr canonical \<Rightarrow>
          if canonical \<in> set seen then
            (io_bind (import_each ev S p entries seen) (\<lambda>rest.
             io_return (JObj [(''url'', JStr rawUrl), (''status'', JStr ''DUPLICATE'')] # rest)))
          else
            (io_bind (import_one ev S p canonical alias) (\<lambda>r.
             io_bind (import_each ev S p entries (canonical # seen)) (\<lambda>rest.
             io_return (r # rest)))))"

definition import_route :: "env \<Rightarrow> gateway_services \<Rightarrow> http_request \<Rightarrow> principal \<Rightarrow> http_response io" where
  "import_route ev S rq p =
     (io_bind (json_body ev rq) (\<lambda>body.
      io_bind (import_each ev S p (case map_of body ''urls'' of Some (JArr xs) \<Rightarrow> xs | _ \<Rightarrow> []) []) (\<lambda>results.
      send_json ev 200 (JObj [(''imported'', JArr results)]) [])))"

section \<open>Audit\<close>

fun result_name :: "result_status \<Rightarrow> string" where
  "result_name RS_OK = ''OK''" | "result_name RS_ERROR = ''ERROR''" | "result_name RS_DENIED = ''DENIED''"

definition audit_json :: "audit_event \<Rightarrow> json" where
  "audit_json e = JObj [(''id'', JStr (ae_id e)), (''tenantId'', JStr (ae_tenantId e)), (''userId'', jopt (ae_userId e)),
     (''downstreamSessionId'', jopt (ae_downstreamSessionId e)), (''connectionId'', jopt (ae_connectionId e)),
     (''toolId'', jopt (ae_toolId e)), (''operation'', JStr (ae_operation e)), (''inputHash'', jopt (ae_inputHash e)),
     (''resultStatus'', JStr (result_name (ae_resultStatus e))),
     (''durationMs'', case ae_durationMs e of None \<Rightarrow> JNull | Some n \<Rightarrow> jint n),
     (''providerRequestId'', jopt (ae_providerRequestId e)),
     (''detailJson'', case ae_detailJson e of None \<Rightarrow> JNull | Some d \<Rightarrow> JObj d), (''createdAt'', jint (ae_createdAt e))]"

definition audit_route :: "env \<Rightarrow> principal \<Rightarrow> http_response io" where
  "audit_route ev p =
     (io_bind (db (\<lambda>t. audit_list (np_tenantId p) 100 (tb_audit t))) (\<lambda>events.
      send_json ev 200 (JObj [(''events'', JArr (map audit_json events))]) []))"

section \<open>The table of routes\<close>

datatype route_name =
    Health | Ui | Root | Metrics | Resource_Metadata | Client_Metadata | Jwks | Mcp | Callback | Connect
  | Create | List_All | Get_One | Authorize | Reconnect | Refresh | Alias | Enabled | Disconnect | Tools | Tool
  | Configure_Client | List_Clients | Delete_Client | Import | Audit

definition route_table :: "bool \<Rightarrow> route_name route list" where
  "route_table uiEnabled = fold (\<lambda>(m, pattern, h) rs. add_route m pattern h rs)
     ([(''GET'', ''/healthz'', Health)] @
      (if uiEnabled then [(''GET'', ''/ui'', Ui), (''GET'', ''/'', Root)] else []) @
      [(''GET'', ''/metrics'', Metrics),
       (''GET'', ''/.well-known/oauth-protected-resource'', Resource_Metadata),
       (''GET'', ''/oauth/client-metadata.json'', Client_Metadata),
       (''GET'', ''/.well-known/jwks.json'', Jwks),
       (''ALL'', ''/mcp'', Mcp),
       (''GET'', ''/oauth/callback'', Callback),
       (''GET'', ''/connect/:id'', Connect),
       (''POST'', ''/api/v1/connections'', Create),
       (''GET'', ''/api/v1/connections'', List_All),
       (''GET'', ''/api/v1/connections/:id'', Get_One),
       (''POST'', ''/api/v1/connections/:id/authorize'', Authorize),
       (''POST'', ''/api/v1/connections/:id/reconnect'', Reconnect),
       (''POST'', ''/api/v1/connections/:id/refresh'', Refresh),
       (''POST'', ''/api/v1/connections/:id/alias'', Alias),
       (''POST'', ''/api/v1/connections/:id/enabled'', Enabled),
       (''DELETE'', ''/api/v1/connections/:id'', Disconnect),
       (''GET'', ''/api/v1/tools'', Tools),
       (''POST'', ''/api/v1/tools/:id'', Tool),
       (''POST'', ''/api/v1/oauth-client-configurations'', Configure_Client),
       (''GET'', ''/api/v1/oauth-client-configurations'', List_Clients),
       (''DELETE'', ''/api/v1/oauth-client-configurations/:id'', Delete_Client),
       (''POST'', ''/api/v1/import'', Import),
       (''GET'', ''/api/v1/audit'', Audit)]) []"

definition routes :: "gateway_config \<Rightarrow> route_name route list" where
  "routes cfg = route_table (gc_uiEnabled cfg)"

definition run_route ::
  "env \<Rightarrow> gateway_services \<Rightarrow> route_name \<Rightarrow> http_request \<Rightarrow> url \<Rightarrow> (string \<times> string) list \<Rightarrow> http_response io" where
  "run_route ev S h rq u params =
     (let i = or_empty (map_of params ''id''); cfg = gs_config S; as = as_principal ev S rq in
      case h of
        Health \<Rightarrow> send_json ev 200 (JObj [(''status'', JStr ''ok''), (''version'', JStr ''0.1.0'')]) []
      | Ui \<Rightarrow> ui_route ev S
      | Root \<Rightarrow> redirect_to ''/ui''
      | Metrics \<Rightarrow> write_head 200 [(''content-type'', ''text/plain; version=0.0.4'')] (Text_Body (gs_metrics S))
      | Resource_Metadata \<Rightarrow> resource_metadata_route ev S
      | Client_Metadata \<Rightarrow> send_json ev 200 (JObj (build_client_id_metadata_document (od_identity (gs_deps S))))
          (public_cache 3600)
      | Jwks \<Rightarrow> send_json ev 200 (gs_jwks S) (public_cache 300)
      | Mcp \<Rightarrow> handle ev (gs_northbound S) (gs_handler S) (authenticate ev (gs_deps S) cfg) rq
      | Callback \<Rightarrow> callback_route ev S rq u
      | Connect \<Rightarrow> connect_route ev S rq i
      | Create \<Rightarrow> as (create_route ev S rq)
      | List_All \<Rightarrow> as (list_route ev S)
      | Get_One \<Rightarrow> as (get_route ev S i)
      | Authorize \<Rightarrow> as (authorize_route ev S rq i)
      | Reconnect \<Rightarrow> as (reconnect_route ev S i)
      | Refresh \<Rightarrow> as (refresh_route ev S i)
      | Alias \<Rightarrow> as (alias_route ev S rq i)
      | Enabled \<Rightarrow> as (enabled_route ev S rq i)
      | Disconnect \<Rightarrow> as (delete_route ev S i)
      | Tools \<Rightarrow> as (tools_route ev)
      | Tool \<Rightarrow> as (tool_route ev rq i)
      | Configure_Client \<Rightarrow> as (configure_client_route ev S rq)
      | List_Clients \<Rightarrow> as (list_clients_route ev)
      | Delete_Client \<Rightarrow> as (delete_client_route ev i)
      | Import \<Rightarrow> as (import_route ev S rq)
      | Audit \<Rightarrow> as (audit_route ev))"

definition serve :: "env \<Rightarrow> gateway_services \<Rightarrow> http_request \<Rightarrow> http_response io" where
  "serve ev S rq = handle_request ev (gs_config S) (routes (gs_config S)) (run_route ev S) rq"

section \<open>The control plane needs a principal\<close>

definition control_plane :: "route_name list" where
  "control_plane = [Create, List_All, Get_One, Authorize, Reconnect, Refresh, Alias, Enabled, Disconnect, Tools, Tool,
     Configure_Client, List_Clients, Delete_Client, Import, Audit]"

lemma resolve_route_found:
  "resolve_route rs m segments = Inr (Some (h, ps)) \<Longrightarrow>
     \<exists>e \<in> set rs. snd (snd e) = h \<and> length (fst (snd e)) = length segments \<and>
       match_segments (fst (snd e)) segments [] = Inr (Some ps)"
proof (induction rs)
  case (Cons r rs)
  obtain rm es k where r: "r = (rm, es, k)" by (cases r)
  show ?case
  proof (cases "(rm \<noteq> ''ALL'' \<and> rm \<noteq> m) \<or> length es \<noteq> length segments")
    case False
    show ?thesis
    proof (cases "match_segments es segments []")
      case (Inr q)
      with False Cons r show ?thesis by (cases q) auto
    qed (use False Cons.prems r in auto)
  qed (use Cons r in auto)
qed simp

lemma control_plane_table:
  "list_all (\<lambda>(m, es, h). h \<in> set control_plane \<or> es = [] \<or> hd es \<noteq> ''api'' \<and> \<not> starts_with '':'' (hd es)) (route_table b)"
  by (cases b) (simp_all only:, code_simp+)

lemma api_route:
  assumes "resolve_route (routes cfg) m (''api'' # rest) = Inr (Some (h, ps))"
  shows "h \<in> set control_plane"
proof -
  from resolve_route_found [OF assms] obtain rm es where
    es: "(rm, es, h) \<in> set (routes cfg)" "length es = Suc (length rest)"
      "match_segments es (''api'' # rest) [] = Inr (Some ps)"
    by fastforce
  from es(2) obtain e es' where "es = e # es'" by (cases es) auto
  with es control_plane_table [of "gc_uiEnabled cfg"] show ?thesis
    by (fastforce simp: routes_def list_all_iff split: if_splits)
qed

lemma control_plane_challenged:
  assumes "h \<in> set control_plane"
    and "authenticate ev (gs_deps S) (gs_config S) rq w = (Inr (Not_Authenticated c), w1)"
  shows "run_route ev S h rq u ps w = challenge_response ev (gs_config S) c w1"
proof -
  have as: "as_principal ev S rq f w = challenge_response ev (gs_config S) c w1" for f
    by (simp add: as_principal_def io_bind_def assms(2))
  from assms(1) show ?thesis
    by (auto simp: control_plane_def run_route_def Let_def as)
qed

lemma refusal_status:
  assumes "authenticate ev d cfg rq w = (Inr (Not_Authenticated (Some c)), w1)"
  shows "bc_status c \<in> {401, 403}"
proof -
  from assms obtain e where "c = to_challenge e"
    by (auto simp: authenticate_def principal_for_def db_def io_get_def io_catch_def io_bind_def io_return_def
        split: option.splits if_splits prod.splits sum.splits)
  then show ?thesis by (simp add: to_challenge_def Let_def)
qed

lemma send_json_cases:
  "(\<exists>e. send_json ev n b hs w = (Inl (Other_Exn e), w)) \<or> (\<exists>r. send_json ev n b hs w = (Inr r, w) \<and> hr_status r = n)"
  by (simp add: send_json_def write_head_def io_return_def io_throw_def)

lemma challenge_cases:
  "(\<exists>e. challenge_response ev cfg c w = (Inl (Other_Exn e), w)) \<or>
   (\<exists>r. challenge_response ev cfg c w = (Inr r, w) \<and> hr_status r = (case c of None \<Rightarrow> 401 | Some c \<Rightarrow> bc_status c))"
  unfolding challenge_response_def by (rule send_json_cases)

lemma write_json_plain:
  "\<exists>r. write_head n [(''content-type'', ''application/json'')] b w = (Inr r, w) \<and> hr_status r = n"
  using json_type_plain by (simp add: write_head_def io_return_def)

text \<open>
  C14: Under \<open>/api/v1\<close>, a request whose caller is not authenticated changes nothing beyond what
  authenticating it did, whatever its method, path and body: it is answered with 401 or 403, with 404
  where there is no route, with 500 where the challenge is no header, or not at all.
\<close>

theorem unauthenticated_refused:
  assumes "ev_resolve_url ev (hq_url rq) (gc_baseUrl (gs_config S)) = Some u"
    and "path_segments (ul_pathname u) = ''api'' # ''v1'' # rest"
    and "authenticate ev (gs_deps S) (gs_config S) rq w = (Inr (Not_Authenticated c), w1)"
  shows "snd (serve ev S rq w) \<in> {w, w1} \<and>
    (case fst (serve ev S rq w) of Inl e \<Rightarrow> True | Inr r \<Rightarrow> hr_status r \<in> {401, 403, 404, 500})"
proof (cases "resolve_route (routes (gs_config S)) (hq_method rq) (''api'' # ''v1'' # rest)")
  case (Inl m)
  with assms(1,2) show ?thesis by (simp add: serve_def handle_request_def io_throw_def)
next
  case (Inr found)
  show ?thesis
  proof (cases found)
    case None
    with Inr assms(1,2) write_json_plain [of 404 "Json_Body (JObj [(''error'', JStr ''not_found'')])" w]
    show ?thesis by (auto simp: serve_def handle_request_def)
  next
    case (Some hp)
    obtain h ps where hp: "hp = (h, ps)" by (cases hp)
    have "h \<in> set control_plane" using Inr Some hp by (intro api_route) simp
    from control_plane_challenged [OF this assms(3)]
    have run: "run_route ev S h rq u ps w = challenge_response ev (gs_config S) c w1" .
    have status: "(case c of None \<Rightarrow> 401 | Some c \<Rightarrow> bc_status c) \<in> {401, 403}"
    proof (cases c)
      case (Some b)
      with refusal_status [of ev "gs_deps S" "gs_config S" rq w b w1] assms(3) show ?thesis by simp
    qed simp
    have internal: "ge_httpStatus (gateway_error_of (Other_Exn e)) = 500" for e
      by (simp add: gateway_error_of_def default_http_status_def gateway_error_def)
    let ?e = "\<lambda>w e. write_head (ge_httpStatus (gateway_error_of e)) [(''content-type'', ''application/json'')]
      (Json_Body (JObj [(''error'', JStr (lower_code (gateway_error_of e))), (''message'', JStr (ge_message (gateway_error_of e))),
        (''data'', case ge_data (gateway_error_of e) of None \<Rightarrow> JNull | Some x \<Rightarrow> x)])) w"
    have serve: "serve ev S rq w = (case challenge_response ev (gs_config S) c w1 of
        (Inl e, w2) \<Rightarrow> ?e w2 e | (Inr r, w2) \<Rightarrow> (Inr r, w2))"
      using assms(1,2) Inr Some hp run
      by (simp add: serve_def handle_request_def io_catch_def Let_def)
    have "(\<exists>e. challenge_response ev (gs_config S) c w1 = (Inl (Other_Exn e), w1)) \<or>
        (\<exists>r. challenge_response ev (gs_config S) c w1 = (Inr r, w1) \<and> hr_status r \<in> {401, 403})"
      using challenge_cases [of ev "gs_config S" c w1] status by auto
    then show ?thesis
    proof
      assume "\<exists>e. challenge_response ev (gs_config S) c w1 = (Inl (Other_Exn e), w1)"
      then obtain e where e: "challenge_response ev (gs_config S) c w1 = (Inl (Other_Exn e), w1)" by blast
      obtain r where "?e w1 (Other_Exn e) = (Inr r, w1)" "hr_status r = ge_httpStatus (gateway_error_of (Other_Exn e))"
        using write_json_plain by blast
      with e show ?thesis by (simp add: serve internal)
    qed (auto simp: serve)
  qed
qed

section \<open>Where the callback sends the browser\<close>

definition locations :: "http_response \<Rightarrow> string list" where
  "locations r = map snd (filter (\<lambda>h. fst h = ''location'') (hr_headers r))"

definition lands :: "(string \<Rightarrow> bool) \<Rightarrow> http_response io \<Rightarrow> bool" where
  "lands P m \<longleftrightarrow> (\<forall>w. list_all P (case fst (m w) of Inl e \<Rightarrow> [] | Inr r \<Rightarrow> locations r))"

lemma landsI:
  assumes "\<And>w r w'. m w = (Inr r, w') \<Longrightarrow> list_all P (locations r)"
  shows "lands P m"
  unfolding lands_def
proof
  fix w
  obtain q w1 where "m w = (q, w1)" by (cases "m w")
  with assms show "list_all P (case fst (m w) of Inl e \<Rightarrow> [] | Inr r \<Rightarrow> locations r)" by (cases q) auto
qed

lemma landsD:
  assumes "lands P m" and "m w = (Inr r, w')"
  shows "list_all P (locations r)"
proof -
  from assms(1) have "list_all P (case fst (m w) of Inl e \<Rightarrow> [] | Inr r \<Rightarrow> locations r)"
    unfolding lands_def by blast
  with assms(2) show ?thesis by simp
qed

lemma lands_bind: "(\<And>x. lands P (f x)) \<Longrightarrow> lands P (io_bind m f)"
  by (rule landsI) (auto simp: io_bind_def split: prod.splits sum.splits dest: landsD)

lemma lands_catch: "lands P m \<Longrightarrow> (\<And>e. lands P (h e)) \<Longrightarrow> lands P (io_catch m h)"
  by (rule landsI) (auto simp: io_catch_def split: prod.splits sum.splits dest: landsD)

lemma lands_html: "lands P (send_html n t m)"
  by (simp add: lands_def send_html_def write_head_def io_return_def io_throw_def locations_def)

lemma lands_redirect: "P t \<Longrightarrow> lands P (redirect_to t)"
  by (simp add: lands_def redirect_to_def write_head_def io_return_def io_throw_def locations_def)

text \<open>The gateway's own two pages on which an authorization is begun again.\<close>

definition own_page :: "gateway_config \<Rightarrow> string \<Rightarrow> bool" where
  "own_page cfg t \<longleftrightarrow> (if gc_uiEnabled cfg then starts_with (gc_baseUrl cfg @ ''/ui?authorize='') t
     else starts_with (gc_baseUrl cfg @ ''/connect/'') t)"

text \<open>
  C24: However an authorization ends, and whatever the callback request, the authorization server and the
  transaction say, the browser is sent only to an address of an allowed origin or to the one page of
  the gateway on which the authorization is begun again: \<open>/ui?authorize=\<close> below its base URL, or
  \<open>/connect/\<close> where that page is off.
\<close>

theorem callback_redirects_contained:
  "list_all (\<lambda>t. is_return_url_allowed (ev_parse_url ev) t (return_to_origins ev (gs_config S)) \<or>
      own_page (gs_config S) t)
    (case fst (callback_route ev S rq u w) of Inl e \<Rightarrow> [] | Inr r \<Rightarrow> locations r)"
proof -
  let ?P = "\<lambda>t. is_return_url_allowed (ev_parse_url ev) t (return_to_origins ev (gs_config S)) \<or>
    own_page (gs_config S) t"
  have ended: "lands ?P (callback_done ev S result activation)" for result activation
    by (auto simp: callback_done_def intro: lands_html lands_redirect split: option.splits)
  have own: "own_page cfg (if gc_uiEnabled cfg then gc_baseUrl cfg @ ''/ui?authorize='' @ a else gc_baseUrl cfg @ ''/connect/'' @ b)"
    for cfg a b
    by (simp add: own_page_def starts_with_iff)
  have failed: "lands ?P (callback_failed S e)" for e
    unfolding callback_failed_def Let_def
    by (cases "given (replaced_client_connection_id (gateway_error_of e))")
      (auto simp only: option.case intro: lands_html lands_redirect disjI2 own)
  have "lands ?P (callback_route ev S rq u)"
    unfolding callback_route_def by (intro lands_bind lands_catch ended failed)
  then show ?thesis by (simp add: lands_def)
qed

definition demo_services :: gateway_services where
  "demo_services = \<lparr>gs_config = demo_config, gs_connections = \<lparr>sc_manager = demo_manager, sc_policy = default_tool_policy,
     sc_engines = hc_engines demo_handler, sc_allowHttp = False\<rparr>, gs_handler = demo_handler,
     gs_northbound = \<lparr>no_allowedOrigins = [], no_resourceMetadataUrl = None, no_maxBodyBytes = None, no_sessionIdleMs = None\<rparr>,
     gs_jwks = JNull, gs_page = (\<lambda>n. n), gs_page_policy = (\<lambda>n. n), gs_metrics = [], gs_cause = (\<lambda>e. None)\<rparr>"

definition routing_env :: env where
  "routing_env = demo_env\<lparr>ev_resolve_url := (\<lambda>l base. simple_parse (base @ l))\<rparr>"

lemma unauthenticated_refused_witness:
  "snd (serve routing_env demo_services (demo_request\<lparr>hq_method := ''DELETE'', hq_url := ''/api/v1/connections/x'',
     hq_headers := []\<rparr>) demo_world) = demo_world"
proof -
  let ?rq = "demo_request\<lparr>hq_method := ''DELETE'', hq_url := ''/api/v1/connections/x'', hq_headers := []\<rparr>"
  have "case simple_parse ''https://gw.example/api/v1/connections/x'' of None \<Rightarrow> False
      | Some u \<Rightarrow> path_segments (ul_pathname u) = [''api'', ''v1'', ''connections'', ''x'']"
    by code_simp
  then obtain u where "simple_parse ''https://gw.example/api/v1/connections/x'' = Some u"
      "path_segments (ul_pathname u) = [''api'', ''v1'', ''connections'', ''x'']"
    by (cases "simple_parse ''https://gw.example/api/v1/connections/x''") auto
  then have u: "ev_resolve_url routing_env (hq_url ?rq) (gc_baseUrl (gs_config demo_services)) = Some u"
      "path_segments (ul_pathname u) = [''api'', ''v1'', ''connections'', ''x'']"
    by (simp_all add: routing_env_def demo_services_def demo_config_def)
  have a: "authenticate routing_env (gs_deps demo_services) (gs_config demo_services) ?rq demo_world =
      (Inr (Not_Authenticated None), demo_world)"
    by (simp add: authenticate_def extract_bearer_def header_value_def io_return_def given_def)
  from unauthenticated_refused [OF u(1) _ a, of "[''connections'', ''x'']"] u(2) show ?thesis by simp
qed

end
