(* ===== verification/Sse.thy ===== *)
theory Sse
  imports Session Codec
begin

text \<open>
  Event streams, at both ends: what \<^verbatim>\<open>packages/mcp-server/src/http.ts\<close> writes on one, and
  the reader of \<^verbatim>\<open>packages/mcp-client/src/sse.ts\<close>. A chunk is a list of bytes, and the reader
  decodes each on its own; it answers the events it yields and the error it then throws, if any.
\<close>

definition lf :: char where
  "lf = CHR 0x0A"

definition cr :: char where
  "cr = CHR 0x0D"

section \<open>Bytes to text\<close>

text \<open>
  \<open>toString("utf8")\<close> of a buffer: its characters, one replacement character for the longest piece
  at a place that could have begun one but does not go on, and one for any other byte. A text here
  has the code units below 256; every other code unit, the replacement character among them,
  is shown as \<open>r\<close>.
\<close>

definition continues :: "char \<Rightarrow> bool" where
  "continues c \<longleftrightarrow> 128 \<le> code c \<and> code c < 192"

definition wanted :: "char \<Rightarrow> nat" where
  "wanted b =
     (if 194 \<le> code b \<and> code b < 224 then 1
      else if 224 \<le> code b \<and> code b < 240 then 2
      else if 240 \<le> code b \<and> code b < 245 then 3
      else 0)"

text \<open>The second byte: overlong forms, surrogates and what lies beyond the last character are refused.\<close>

definition second_ok :: "char \<Rightarrow> char \<Rightarrow> bool" where
  "second_ok b c \<longleftrightarrow> continues c \<and> (code b = 224 \<longrightarrow> 160 \<le> code c) \<and> (code b = 237 \<longrightarrow> code c < 160) \<and>
     (code b = 240 \<longrightarrow> 144 \<le> code c) \<and> (code b = 244 \<longrightarrow> code c < 144)"

definition going_on :: "char \<Rightarrow> string \<Rightarrow> nat" where
  "going_on b bs =
     (if wanted b > 0 \<and> bs \<noteq> [] \<and> second_ok b (hd bs)
      then Suc (length (takeWhile continues (take (wanted b - 1) (tl bs)))) else 0)"

definition units_of :: "char \<Rightarrow> char \<Rightarrow> string \<Rightarrow> string" where
  "units_of r b cs =
     (if code b < 128 then [b]
      else if wanted b = 0 \<or> length cs < wanted b then [r]
      else if code b < 196 then [char_of ((code b - 192) * 64 + (code (hd cs) - 128))]
      else if wanted b = 3 then [r, r]
      else [r])"

fun buffer_text :: "char \<Rightarrow> string \<Rightarrow> string" where
  "buffer_text r [] = []"
| "buffer_text r (b # bs) =
     units_of r b (take (going_on b bs) bs) @ buffer_text r (drop (going_on b bs) bs)"

text \<open>A piece of a stream that does not begin in the middle of a character.\<close>

definition starts_whole :: "string \<Rightarrow> bool" where
  "starts_whole bs \<longleftrightarrow> (bs \<noteq> [] \<longrightarrow> \<not> continues (hd bs))"

section \<open>Reading\<close>

record sse_event =
  se_event :: string
  se_data :: string
  se_id :: "string option"

record sse_reader =
  rd_event :: string
  rd_data :: "string list"
  rd_id :: "string option"

definition new_reader :: sse_reader where
  "new_reader = \<lparr>rd_event = ''message'', rd_data = [], rd_id = None\<rparr>"

definition flush :: "sse_reader \<Rightarrow> sse_event option \<times> sse_reader" where
  "flush r =
     (if rd_data r = [] \<and> rd_event r = ''message'' then (None, r)
      else (Some \<lparr>se_event = rd_event r, se_data = join [lf] (rd_data r), se_id = rd_id r\<rparr>, new_reader))"

definition strip_cr :: "string \<Rightarrow> string" where
  "strip_cr l = (if l \<noteq> [] \<and> last l = cr then butlast l else l)"

definition field_of :: "string \<Rightarrow> string \<times> string" where
  "field_of l =
     (case index_of (CHR '':'') l of
        None \<Rightarrow> (l, [])
      | Some n \<Rightarrow> (take n l, let v = drop (Suc n) l in if starts_with '' '' v then tl v else v))"

definition take_field :: "string \<Rightarrow> sse_reader \<Rightarrow> sse_reader" where
  "take_field l r =
     (if starts_with '':'' l then r
      else let (name, v) = field_of l in
        if name = ''event'' then r\<lparr>rd_event := v\<rparr>
        else if name = ''data'' then r\<lparr>rd_data := rd_data r @ [v]\<rparr>
        else if name = ''id'' then r\<lparr>rd_id := Some v\<rparr>
        else r)"

definition option_list :: "'a option \<Rightarrow> 'a list" where
  "option_list v = (case v of None \<Rightarrow> [] | Some x \<Rightarrow> [x])"

definition take_line :: "string \<Rightarrow> sse_reader \<Rightarrow> sse_event list \<times> sse_reader" where
  "take_line raw r =
     (let l = strip_cr raw in
      if l = [] then (case flush r of (e, r') \<Rightarrow> (option_list e, r'))
      else ([], take_field l r))"

lemma index_of_less [termination_simp]: "index_of c s = Some n \<Longrightarrow> n < length s"
  using index_of_Some by blast

text \<open>The inner loop: the events of the complete lines, and what is left in the buffer.\<close>

function take_lines :: "string \<Rightarrow> sse_reader \<Rightarrow> sse_event list \<times> string \<times> sse_reader" where
  "take_lines buffer r =
     (case index_of lf buffer of
        None \<Rightarrow> ([], buffer, r)
      | Some n \<Rightarrow>
          (let (es, r1) = take_line (take n buffer) r;
               (fs, rest, r2) = take_lines (drop (Suc n) buffer) r1
           in (es @ fs, rest, r2)))"
  by pat_completeness auto
termination
  by (relation "measure (\<lambda>(buffer, r). length buffer)") (auto dest: index_of_less)

declare take_lines.simps [simp del]

definition too_large :: string where
  "too_large = ''Server-sent event exceeded the maximum allowed size''"

fun read_chunks :: "char \<Rightarrow> nat \<Rightarrow> string \<Rightarrow> sse_reader \<Rightarrow> string list \<Rightarrow> sse_event list \<times> string option" where
  "read_chunks z maxEventBytes buffer r [] = (option_list (fst (flush r)), None)"
| "read_chunks z maxEventBytes buffer r (c # cs) =
     (if length (buffer @ buffer_text z c) > maxEventBytes then ([], Some too_large)
      else let (es, rest, r1) = take_lines (buffer @ buffer_text z c) r;
               (fs, e) = read_chunks z maxEventBytes rest r1 cs
           in (es @ fs, e))"

definition default_max_event_bytes :: nat where
  "default_max_event_bytes = 8 * 1024 * 1024"

definition read_sse_events :: "char \<Rightarrow> nat \<Rightarrow> string list \<Rightarrow> sse_event list \<times> string option" where
  "read_sse_events z maxEventBytes chunks = read_chunks z maxEventBytes [] new_reader chunks"

section \<open>Writing\<close>

text \<open>\<open>JSON.stringify\<close> is the parameter \<open>stringify\<close>.\<close>

definition message_text :: "(json \<Rightarrow> string) \<Rightarrow> json \<Rightarrow> nat option \<Rightarrow> string" where
  "message_text stringify m i =
     (case i of None \<Rightarrow> [] | Some n \<Rightarrow> ''id: '' @ show_nat n @ [lf]) @
     ''event: message'' @ [lf] @ ''data: '' @ stringify m @ [lf, lf]"

definition comment_text :: "string \<Rightarrow> string" where
  "comment_text t = '': '' @ t @ [lf, lf]"

datatype frame = Message json "nat option" | Comment string

fun frame_text :: "(json \<Rightarrow> string) \<Rightarrow> frame \<Rightarrow> string" where
  "frame_text stringify (Message m i) = message_text stringify m i"
| "frame_text stringify (Comment t) = comment_text t"

section \<open>What a text says\<close>

text \<open>
  What a whole text says to this reader, without chunks or a buffer: its complete lines, in blocks
  that end at the empty ones. A block gives the last event name, every data line and the last id in
  it, where the id of a block that gave no event counts for the next.
\<close>

definition complete_lines :: "string \<Rightarrow> string list" where
  "complete_lines text = map strip_cr (butlast (split_on lf text))"

fun blocks_of :: "string list \<Rightarrow> string list list" where
  "blocks_of [] = [[]]"
| "blocks_of (l # ls) =
     (if l = [] then [] # blocks_of ls
      else (l # hd (blocks_of ls)) # tl (blocks_of ls))"

definition values_of :: "string \<Rightarrow> string list \<Rightarrow> string list" where
  "values_of name block = map snd (filter (\<lambda>(k, v). k = name) (map field_of (filter (\<lambda>l. \<not> starts_with '':'' l) block)))"

definition last_or :: "'a \<Rightarrow> 'a list \<Rightarrow> 'a" where
  "last_or x xs = (if xs = [] then x else last xs)"

fun events_of_blocks :: "string option \<Rightarrow> string list list \<Rightarrow> sse_event list" where
  "events_of_blocks carried [] = []"
| "events_of_blocks carried (b # bs) =
     (let name = last_or ''message'' (values_of ''event'' b); i = last_or carried (map Some (values_of ''id'' b)) in
      if values_of ''data'' b = [] \<and> name = ''message'' then events_of_blocks i bs
      else \<lparr>se_event = name, se_data = join [lf] (values_of ''data'' b), se_id = i\<rparr> # events_of_blocks None bs)"

definition events_of_text :: "string \<Rightarrow> sse_event list" where
  "events_of_text text = events_of_blocks None (blocks_of (complete_lines text))"

text \<open>
  What the standard takes from a text (WHATWG HTML, 9.2.6; a byte-order mark aside): a line ends at CR
  LF, LF or CR, a block gives an event when it has data, and a block the text does not end is dropped.
  The reader differs: a CR alone does not end a line, a block with only an event name gives an
  event, an empty name stays empty, and the last block counts when the text ends after one of its
  lines. It also forgets the id after each event, which the standard keeps for those that follow.
\<close>

fun standard_lines :: "string \<Rightarrow> string list" where
  "standard_lines [] = [[]]"
| "standard_lines (c # s) =
     (if c = lf then [] # standard_lines s
      else if c = cr \<and> starts_with [lf] s then standard_lines s
      else if c = cr then [] # standard_lines s
      else (c # hd (standard_lines s)) # tl (standard_lines s))"

definition standard_event :: "string list \<Rightarrow> string \<times> string" where
  "standard_event b = (let name = last_or [] (values_of ''event'' b) in
     (if name = [] then ''message'' else name, join [lf] (values_of ''data'' b)))"

definition standard_events :: "string \<Rightarrow> (string \<times> string) list" where
  "standard_events text = map standard_event
     (filter (\<lambda>b. values_of ''data'' b \<noteq> []) (butlast (blocks_of (butlast (standard_lines text)))))"

text \<open>The texts on which both agree: no CR alone, no event without data or with an empty name, and a last block that is ended.\<close>

fun crs_end_lines :: "string \<Rightarrow> bool" where
  "crs_end_lines [] = True"
| "crs_end_lines (c # s) \<longleftrightarrow> (c = cr \<longrightarrow> starts_with [lf] s) \<and> crs_end_lines s"

definition names_with_data :: "string list \<Rightarrow> bool" where
  "names_with_data b \<longleftrightarrow> [] \<notin> set (values_of ''event'' b) \<and> (values_of ''data'' b = [] \<longrightarrow> values_of ''event'' b = [])"

definition standard_text :: "string \<Rightarrow> bool" where
  "standard_text text \<longleftrightarrow> crs_end_lines text \<and> list_all names_with_data (blocks_of (complete_lines text)) \<and>
     values_of ''data'' (last (blocks_of (complete_lines text))) = []"

section \<open>Lines\<close>

lemma split_on_not_Nil [simp]: "split_on c s \<noteq> []"
  by (induction s) (auto split: list.splits)

lemma split_on_None: "index_of c s = None \<Longrightarrow> split_on c s = [s]"
  by (simp add: index_of_None split_on_single)

lemma split_on_Some:
  "index_of c s = Some n \<Longrightarrow> split_on c s = take n s # split_on c (drop (Suc n) s)"
  by (induction s arbitrary: n) (auto split: if_splits)

lemma split_on_append: "split_on c (s @ t) = butlast (split_on c s) @ split_on c (last (split_on c s) @ t)"
proof (induction s)
  case (Cons d s)
  then show ?case by (cases "split_on c s") (auto split: list.splits simp: neq_Nil_conv)
qed simp

lemma last_split_on: "c \<notin> set (last (split_on c s))"
proof (induction s)
  case (Cons d s)
  then show ?case by (cases "split_on c s") auto
qed simp

lemma hd_split_on: "c \<notin> set s \<Longrightarrow> \<exists>x. hd (split_on c (s @ t)) = s @ x"
  by (induction s) (auto split: list.splits)

fun run_lines :: "string list \<Rightarrow> sse_reader \<Rightarrow> sse_event list \<times> sse_reader" where
  "run_lines [] r = ([], r)"
| "run_lines (l # ls) r = (let (es, r1) = take_line l r; (fs, r2) = run_lines ls r1 in (es @ fs, r2))"

lemma run_lines_append:
  "run_lines (ls @ ms) r = (let (es, r1) = run_lines ls r; (fs, r2) = run_lines ms r1 in (es @ fs, r2))"
  by (induction ls arbitrary: r) (auto split: prod.splits)

lemma take_lines_run:
  "take_lines buffer r = (let (es, r1) = run_lines (butlast (split_on lf buffer)) r
     in (es, last (split_on lf buffer), r1))"
proof (induction buffer r rule: take_lines.induct)
  case (1 buffer r)
  show ?case
  proof (cases "index_of lf buffer")
    case None
    then show ?thesis by (simp add: take_lines.simps [of buffer r] split_on_None)
  next
    case (Some n)
    obtain es r1 where l: "take_line (take n buffer) r = (es, r1)" by fastforce
    from 1 [OF Some] l have "take_lines (drop (Suc n) buffer) r1 =
        (let (es, r1) = run_lines (butlast (split_on lf (drop (Suc n) buffer))) r1
         in (es, last (split_on lf (drop (Suc n) buffer)), r1))"
      by simp
    then show ?thesis
      using l Some by (simp add: take_lines.simps [of buffer r] split_on_Some split: prod.splits)
  qed
qed

text \<open>However the text is cut into chunks, the reader runs over its complete lines.\<close>

definition fits :: "nat \<Rightarrow> string \<Rightarrow> string list \<Rightarrow> bool" where
  "fits n text chunks \<longleftrightarrow> (\<forall>l \<in> set (split_on lf text). \<forall>c \<in> set chunks. length l + length c \<le> n)"

lemma read_chunks_lines:
  "lf \<notin> set buffer \<Longrightarrow> fits n (buffer @ concat (map (buffer_text z) cs)) (map (buffer_text z) cs) \<Longrightarrow>
     read_chunks z n buffer r cs =
       (let (es, r1) = run_lines (butlast (split_on lf (buffer @ concat (map (buffer_text z) cs)))) r
        in (es @ option_list (fst (flush r1)), None))"
proof (induction cs arbitrary: buffer r)
  case Nil
  then show ?case by (simp add: split_on_single)
next
  case (Cons c cs)
  let ?c = "buffer_text z c"
  let ?cs = "concat (map (buffer_text z) cs)"
  let ?rest = "last (split_on lf (buffer @ ?c))"
  have s: "split_on lf (buffer @ ?c @ ?cs) =
      butlast (split_on lf (buffer @ ?c)) @ split_on lf (?rest @ ?cs)"
    using split_on_append [of lf "buffer @ ?c" "?cs"] by simp
  obtain x where x: "hd (split_on lf (buffer @ ?c @ ?cs)) = buffer @ x"
    using hd_split_on [OF Cons.prems(1)] by blast
  then have "buffer @ x \<in> set (split_on lf (buffer @ ?c @ ?cs))"
    using hd_in_set [OF split_on_not_Nil, of lf "buffer @ ?c @ ?cs"] by metis
  with Cons.prems(2) have "length (buffer @ x) + length ?c \<le> n" unfolding fits_def by auto
  then have small: "\<not> length (buffer @ ?c) > n" by simp
  have f: "fits n (?rest @ ?cs) (map (buffer_text z) cs)"
    using Cons.prems(2) s unfolding fits_def by auto
  show ?case
    using small Cons.IH [OF last_split_on f]
    by (auto simp: take_lines_run s run_lines_append butlast_append Let_def split: prod.splits)
qed

section \<open>Whole characters\<close>

lemma second_continues: "second_ok b c \<Longrightarrow> continues c"
  by (simp add: second_ok_def)

lemma going_on_le: "going_on b bs \<le> length bs"
proof (cases bs)
  case (Cons c cs)
  have "length (takeWhile continues (take k cs)) \<le> length cs" for k
    using length_takeWhile_le [of continues "take k cs"] by simp
  with Cons show ?thesis by (simp add: going_on_def)
qed (simp add: going_on_def)

text \<open>What does not continue a character is not taken into one.\<close>

lemma going_on_append: "starts_whole cs \<Longrightarrow> going_on b (bs @ cs) = going_on b bs"
proof (cases bs)
  case Nil
  assume "starts_whole cs"
  with Nil show ?thesis using second_continues by (auto simp: going_on_def starts_whole_def)
next
  case (Cons x xs)
  assume w: "starts_whole cs"
  have "takeWhile continues (take k (xs @ cs)) = takeWhile continues (take k xs)" for k
  proof (cases "k \<le> length xs")
    case False
    then have "take k xs = xs" by simp
    moreover have "takeWhile continues (take (k - length xs) cs) = []"
      using w by (cases cs; cases "k - length xs") (auto simp: starts_whole_def)
    ultimately show ?thesis
      by (simp add: takeWhile_append) (metis takeWhile_eq_all_conv)
  qed simp
  from this [of "wanted b - 1"] show ?thesis
    unfolding going_on_def Cons append_Cons list.sel by (simp del: take_append)
qed

lemma buffer_text_append: "starts_whole cs \<Longrightarrow> buffer_text r (bs @ cs) = buffer_text r bs @ buffer_text r cs"
proof (induction r bs rule: buffer_text.induct)
  case (2 r b bs)
  have "take (going_on b bs) (bs @ cs) = take (going_on b bs) bs"
    "drop (going_on b bs) (bs @ cs) = drop (going_on b bs) bs @ cs"
    unfolding take_append drop_append diff_is_0_eq [THEN iffD2, OF going_on_le] by simp_all
  with 2 show ?case by (simp add: going_on_append del: take_append drop_append)
qed simp

lemma starts_whole_concat: "list_all starts_whole cs \<Longrightarrow> starts_whole (concat cs)"
  by (induction cs) (auto simp: starts_whole_def hd_append split: if_splits)

lemma buffer_text_concat:
  "list_all starts_whole cs \<Longrightarrow> buffer_text r (concat cs) = concat (map (buffer_text r) cs)"
  by (induction cs) (simp_all add: buffer_text_append starts_whole_concat)

text \<open>The text of an encoded text is the text again.\<close>

lemma buffer_text_char: "buffer_text r (utf8_char c) = [c]" and starts_whole_char: "starts_whole (utf8_char c @ s)"
proof -
  define q m where "q = code c div 64" and "m = code c mod 64"
  have c: "code c = q * 64 + m" and m: "m < 64" by (simp_all add: q_def m_def)
  have "code c < 256" by (simp add: code_def)
  then have q: "q < 4" using c by simp
  have big: "utf8_char c = [char_of (192 + q), char_of (128 + m)] \<and> 2 \<le> q" if "\<not> code c < 128"
  proof
    show "utf8_char c = [char_of (192 + q), char_of (128 + m)]"
      using that unfolding q_def m_def by (simp add: utf8_char_def)
    show "2 \<le> q" using that c m by linarith
  qed
  show "buffer_text r (utf8_char c) = [c]"
  proof (cases "code c < 128")
    case True
    then show ?thesis by (simp add: utf8_char_def units_of_def going_on_def wanted_def)
  next
    case False
    from big [OF False] q m have u: "utf8_char c = [char_of (192 + q), char_of (128 + m)]"
      and w: "wanted (char_of (192 + q)) = 1" and s: "second_ok (char_of (192 + q)) (char_of (128 + m))"
      by (simp_all add: wanted_def second_ok_def continues_def)
    from w s have g: "going_on (char_of (192 + q)) [char_of (128 + m)] = 1"
      by (simp add: going_on_def)
    have "units_of r (char_of (192 + q)) [char_of (128 + m)] = [char_of (q * 64 + m)]"
      using q m w by (simp add: units_of_def)
    moreover have "char_of (q * 64 + m) = c" by (simp flip: c)
    ultimately show ?thesis unfolding u by (simp add: g)
  qed
  show "starts_whole (utf8_char c @ s)"
  proof (cases "code c < 128")
    case True
    then show ?thesis by (simp add: utf8_char_def starts_whole_def continues_def)
  next
    case False
    from big [OF False] q show ?thesis by (simp add: starts_whole_def continues_def)
  qed
qed

lemma buffer_text_utf8 [simp]: "buffer_text r (utf8 s) = s"
proof (induction s)
  case (Cons c s)
  have "starts_whole (utf8 s)" using starts_whole_char by (cases s) (simp_all add: utf8_def starts_whole_def)
  with Cons show ?case by (simp add: utf8_def buffer_text_append buffer_text_char)
qed (simp add: utf8_def)

text \<open>A character that is cut is lost: two replacement characters stand for the two bytes of an e with an acute accent.\<close>

lemma cut_character_garbled:
  "read_sse_events CHR ''?'' 20 [''data: '' @ [CHR 0xC3], CHR 0xA9 # [lf, lf]] =
     ([\<lparr>se_event = ''message'', se_data = ''??'', se_id = None\<rparr>], None)"
  "buffer_text CHR ''?'' (concat [''data: '' @ [CHR 0xC3], CHR 0xA9 # [lf, lf]]) = ''data: '' @ CHR 0xE9 # [lf, lf]"
  by code_simp+

section \<open>Blocks\<close>

lemma values_of_simps [simp]:
  "values_of name [] = []"
  "values_of name (b @ [l]) = values_of name b @
     (if \<not> starts_with '':'' l \<and> fst (field_of l) = name then [snd (field_of l)] else [])"
  by (auto simp: values_of_def case_prod_beta)

definition fresh :: "string option \<Rightarrow> sse_reader" where
  "fresh i = \<lparr>rd_event = ''message'', rd_data = [], rd_id = i\<rparr>"

lemma fresh_id: "rd_id (fresh i) = i"
  by (simp add: fresh_def)

lemma last_or_snoc [simp]: "last_or x (xs @ [y]) = y" "last_or x [] = x"
  by (simp_all add: last_or_def)

lemma fold_take_field:
  "fold take_field b (fresh i) = \<lparr>rd_event = last_or ''message'' (values_of ''event'' b),
     rd_data = values_of ''data'' b, rd_id = last_or i (map Some (values_of ''id'' b))\<rparr>"
proof (induction b rule: rev_induct)
  case Nil
  then show ?case by (simp add: fresh_def)
next
  case (snoc l b)
  then show ?case by (auto simp: take_field_def case_prod_beta)
qed

lemma blocks_of_not_Nil [simp]: "blocks_of ls \<noteq> []"
  by (cases ls) auto

lemma run_lines_blocks:
  "(let (es, r1) = run_lines raws (fold take_field b (fresh i)) in es @ option_list (fst (flush r1))) =
     events_of_blocks i ((b @ hd (blocks_of (map strip_cr raws))) # tl (blocks_of (map strip_cr raws)))"
proof (induction raws arbitrary: b i)
  case Nil
  then show ?case by (simp add: fold_take_field flush_def option_list_def Let_def)
next
  case (Cons raw raws)
  show ?case
  proof (cases "strip_cr raw = []")
    case True
    let ?bs = "blocks_of (map strip_cr raws)"
    have bs: "?bs = hd ?bs # tl ?bs" by simp
    have n: "new_reader = fold take_field [] (fresh None)" by (simp add: new_reader_def fresh_def)
    have k: "rd_data r = [] \<Longrightarrow> rd_event r = ''message'' \<Longrightarrow> r = fold take_field [] (fresh (rd_id r))" for r
      by (simp add: fresh_def)
    show ?thesis
    proof (cases "values_of ''data'' b = [] \<and> last_or ''message'' (values_of ''event'' b) = ''message''")
      case quiet: True
      let ?r = "fold take_field b (fresh i)"
      have "flush ?r = (None, ?r)" using quiet by (simp add: fold_take_field flush_def)
      moreover have r: "?r = fold take_field [] (fresh (rd_id ?r))"
        by (rule k) (use quiet in \<open>simp_all add: fold_take_field\<close>)
      ultimately show ?thesis
        using True quiet Cons [of "[]" "rd_id ?r"] bs r
        by (simp add: take_line_def option_list_def split: prod.splits) (simp add: fold_take_field fresh_id)
    next
      case False
      then show ?thesis
        using True Cons [of "[]" None] bs n
        by (auto simp: take_line_def option_list_def flush_def fold_take_field split: prod.splits)
    qed
  next
    case False
    then show ?thesis
      using Cons [of "b @ [strip_cr raw]" i] by (simp add: take_line_def split: prod.splits)
  qed
qed

section \<open>The standard\<close>

lemma standard_lines_not_Nil [simp]: "standard_lines s \<noteq> []"
  by (induction s) auto

lemma strip_cr_Cons: "c \<noteq> cr \<Longrightarrow> strip_cr (c # l) = c # strip_cr l"
  by (simp add: strip_cr_def)

lemma standard_lines_split:
  "crs_end_lines s \<Longrightarrow> map strip_cr (butlast (split_on lf s)) = butlast (standard_lines s)"
proof (induction s)
  case (Cons c s)
  then have ih: "map strip_cr (butlast (split_on lf s)) = butlast (standard_lines s)" by simp
  obtain l ls where l: "split_on lf s = l # ls" by (cases "split_on lf s") simp_all
  obtain m ms where m: "standard_lines s = m # ms" by (cases "standard_lines s") simp_all
  consider "c = lf" | (cr) "c = cr" "starts_with [lf] s" | (other) "c \<noteq> lf" "c \<noteq> cr"
    using Cons.prems by auto
  then show ?case
  proof cases
    case 1
    with ih l m show ?thesis by (simp add: strip_cr_def [of "[]"])
  next
    case cr
    then obtain s' where s: "s = lf # s'" by (auto simp: starts_with_iff)
    have "cr \<noteq> lf" by (simp add: cr_def lf_def)
    with cr ih s show ?thesis
      by (simp add: strip_cr_def [of "[]"] strip_cr_def [of "[cr]"] split: list.splits)
  next
    case other
    have e: "standard_lines (c # s) = (c # m) # ms" "split_on lf (c # s) = (c # l) # ls"
      using other l m by simp_all
    have "map strip_cr (butlast (l # ls)) = butlast (m # ms)" using ih l m by simp
    then show ?thesis
      unfolding e using strip_cr_Cons [OF other(2), of l] by (cases ls; cases ms) simp_all
  qed
qed simp

lemma standard_event_Some:
  "names_with_data b \<Longrightarrow>
     standard_event b = (last_or ''message'' (values_of ''event'' b), join [lf] (values_of ''data'' b))"
  by (cases "values_of ''event'' b = []")
    (auto simp: standard_event_def last_or_def names_with_data_def Let_def dest: last_in_set)

lemma events_standard:
  "bs \<noteq> [] \<Longrightarrow> list_all names_with_data bs \<Longrightarrow> values_of ''data'' (last bs) = [] \<Longrightarrow>
     map (\<lambda>e. (se_event e, se_data e)) (events_of_blocks i bs) =
       map standard_event (filter (\<lambda>b. values_of ''data'' b \<noteq> []) (butlast bs))"
proof (induction bs arbitrary: i)
  case (Cons b bs)
  show ?case
  proof (cases "values_of ''data'' b = []")
    case True
    then have "last_or ''message'' (values_of ''event'' b) = ''message''"
      using Cons.prems(2) by (simp add: names_with_data_def)
    with True Cons show ?thesis by (cases "bs = []") (simp_all add: Let_def)
  next
    case False
    with Cons show ?thesis by (cases "bs = []") (simp_all add: Let_def standard_event_Some)
  qed
qed simp

lemma standard_text_events:
  "standard_text s \<Longrightarrow> map (\<lambda>e. (se_event e, se_data e)) (events_of_text s) = standard_events s"
  using events_standard [of "blocks_of (complete_lines s)" None] standard_lines_split [of s]
  by (simp add: standard_text_def events_of_text_def standard_events_def complete_lines_def)

section \<open>Properties\<close>

text \<open>
  C26: However the network cuts an event stream into chunks, if no cut is in the middle of a character
  and no chunk and line together exceed the limit, the reader throws nothing and yields the events
  that its text gives when it is read as a whole, line by line; and where the text is one the reader
  and the standard read alike, they have the names and data of the standard's events.
\<close>

theorem stream_read_as_text:
  assumes "list_all starts_whole chunks"
    and "fits n (buffer_text z (concat chunks)) (map (buffer_text z) chunks)"
  shows "read_sse_events z n chunks = (events_of_text (buffer_text z (concat chunks)), None) \<and>
    (standard_text (buffer_text z (concat chunks)) \<longrightarrow>
      map (\<lambda>e. (se_event e, se_data e)) (fst (read_sse_events z n chunks)) =
        standard_events (buffer_text z (concat chunks)))"
proof -
  let ?text = "buffer_text z (concat chunks)"
  have f: "new_reader = fold take_field [] (fresh None)" by (simp add: new_reader_def fresh_def)
  have "blocks_of ls = hd (blocks_of ls) # tl (blocks_of ls)" for ls by simp
  then have "read_sse_events z n chunks = (events_of_text ?text, None)"
    using read_chunks_lines [of "[]" n z chunks new_reader] assms
      run_lines_blocks [of "butlast (split_on lf ?text)" "[]" None]
    by (simp add: buffer_text_concat read_sse_events_def events_of_text_def complete_lines_def f split: prod.splits)
  then show ?thesis using standard_text_events [of ?text] by simp
qed

lemma stream_read_as_text_witness:
  "read_sse_events CHR ''?'' 20 [''data: a'' @ [lf] @ ''da'', ''ta: '' @ [CHR 0xC3, CHR 0xA9, cr, lf], [lf]] =
     ([\<lparr>se_event = ''message'', se_data = ''a'' @ [lf, CHR 0xE9], se_id = None\<rparr>], None) \<and>
   standard_events (''data: a'' @ [lf] @ ''data: '' @ [CHR 0xE9, cr, lf, lf]) = [(''message'', ''a'' @ [lf, CHR 0xE9])]"
proof -
  let ?cs = "[''data: a'' @ [lf] @ ''da'', ''ta: '' @ [CHR 0xC3, CHR 0xA9, cr, lf], [lf]]"
  let ?t = "''data: a'' @ [lf] @ ''data: '' @ [CHR 0xE9, cr, lf, lf]"
  have t: "buffer_text CHR ''?'' (concat ?cs) = ?t" by code_simp
  have "list_all starts_whole ?cs" by code_simp
  moreover have "fits 20 ?t (map (buffer_text CHR ''?'') ?cs)" by code_simp
  moreover have "events_of_text ?t = [\<lparr>se_event = ''message'', se_data = ''a'' @ [lf, CHR 0xE9], se_id = None\<rparr>]"
    by code_simp
  moreover have "standard_text ?t" by code_simp
  moreover have "standard_events ?t = [(''message'', ''a'' @ [lf, CHR 0xE9])]" by code_simp
  ultimately show ?thesis using stream_read_as_text [of ?cs 20 "CHR ''?''"] unfolding t by simp
qed

section \<open>Both ends\<close>

text \<open>What a client sees of a frame: a message with its text and id, and nothing of a comment.\<close>

fun frame_events :: "(json \<Rightarrow> string) \<Rightarrow> frame \<Rightarrow> sse_event list" where
  "frame_events stringify (Message m i) =
     [\<lparr>se_event = ''message'', se_data = stringify m, se_id = map_option show_nat i\<rparr>]"
| "frame_events stringify (Comment t) = []"

definition one_line :: "string \<Rightarrow> bool" where
  "one_line s \<longleftrightarrow> lf \<notin> set s \<and> cr \<notin> set s"

fun frame_plain :: "frame \<Rightarrow> bool" where
  "frame_plain (Message m i) = True"
| "frame_plain (Comment t) = one_line t"

text \<open>The lines of a frame.\<close>

fun frame_lines :: "(json \<Rightarrow> string) \<Rightarrow> frame \<Rightarrow> string list" where
  "frame_lines stringify (Message m i) =
     (case i of None \<Rightarrow> [] | Some n \<Rightarrow> [''id: '' @ show_nat n]) @ [''event: message'', ''data: '' @ stringify m, []]"
| "frame_lines stringify (Comment t) = ['': '' @ t, []]"

lemma split_on_line: "lf \<notin> set l \<Longrightarrow> split_on lf (l @ [lf] @ s) = l # split_on lf s"
  using split_on_word [of lf l s] by simp

lemma digits_plain: "c \<in> set (show_nat n) \<Longrightarrow> c \<noteq> lf \<and> c \<noteq> cr"
  using show_nat_digits [of n] by (auto simp: lf_def cr_def is_digit_def code_def)

lemma frame_split:
  assumes "\<And>m. one_line (stringify m)" and "frame_plain f"
  shows "split_on lf (frame_text stringify f @ s) = frame_lines stringify f @ split_on lf s"
proof (cases f)
  case (Message m i)
  have a: "lf \<notin> set (''event: message'')" by (simp add: lf_def)
  have b: "lf \<notin> set (''data: '' @ stringify m)" using assms(1) [of m] by (auto simp: one_line_def lf_def)
  have rest: "split_on lf (''event: message'' @ [lf] @ (''data: '' @ stringify m) @ [lf] @ [] @ [lf] @ s) =
      [''event: message'', ''data: '' @ stringify m, []] @ split_on lf s"
    using split_on_line [OF a] split_on_line [OF b] split_on_line [of "[]"] by simp
  show ?thesis
  proof (cases i)
    case None
    then show ?thesis using rest Message by (simp add: message_text_def)
  next
    case (Some n)
    have c: "lf \<notin> set (''id: '' @ show_nat n)"
      using digits_plain [of _ n] by (auto simp: lf_def)
    show ?thesis
      using rest split_on_line [OF c] Message Some by (simp add: message_text_def)
  qed
next
  case (Comment t)
  then have "lf \<notin> set ('': '' @ t)" using assms(2) by (auto simp: one_line_def lf_def)
  then show ?thesis
    using split_on_line [of "'': '' @ t"] split_on_line [of "[]"] Comment by (simp add: comment_text_def)
qed

lemma frames_split:
  assumes "\<And>m. one_line (stringify m)" and "list_all frame_plain fs"
  shows "split_on lf (concat (map (frame_text stringify) fs)) = concat (map (frame_lines stringify) fs) @ [[]]"
  using assms(2) frame_split [OF assms(1)] by (induction fs) simp_all

lemma strip_cr_id: "cr \<notin> set l \<Longrightarrow> strip_cr l = l"
  by (cases l rule: rev_cases) (auto simp: strip_cr_def)

lemma run_frame:
  assumes "\<And>m. one_line (stringify m)" and "frame_plain f"
  shows "run_lines (frame_lines stringify f) new_reader = (frame_events stringify f, new_reader)"
proof (cases f)
  case (Message m i)
  have d: "strip_cr (''data: '' @ stringify m) = ''data: '' @ stringify m"
    using assms(1) [of m] by (intro strip_cr_id) (auto simp: one_line_def cr_def)
  have e: "strip_cr ''event: message'' = ''event: message''" by (intro strip_cr_id) (simp add: cr_def)
  have i: "strip_cr (''id: '' @ show_nat n) = ''id: '' @ show_nat n" for n
    using digits_plain [of _ n] by (intro strip_cr_id) (auto simp: cr_def)
  have f: "take_field ''event: message'' r = r\<lparr>rd_event := ''message''\<rparr>"
    "take_field (''data: '' @ s) r = r\<lparr>rd_data := rd_data r @ [s]\<rparr>"
    "take_field (''id: '' @ s) r = r\<lparr>rd_id := Some s\<rparr>" for r s
    by (simp_all add: take_field_def field_of_def starts_with_def)
  show ?thesis
    using d e i f Message
    by (cases i) (simp_all add: take_line_def Let_def flush_def option_list_def new_reader_def strip_cr_def [of "[]"])
next
  case (Comment t)
  have "strip_cr ('': '' @ t) = '': '' @ t"
    using assms(2) Comment by (intro strip_cr_id) (auto simp: one_line_def cr_def)
  then show ?thesis
    using Comment by (simp add: take_line_def Let_def flush_def option_list_def new_reader_def strip_cr_def [of "[]"]
        take_field_def starts_with_def)
qed

lemma run_frames:
  assumes "\<And>m. one_line (stringify m)" and "list_all frame_plain fs"
  shows "run_lines (concat (map (frame_lines stringify) fs)) new_reader =
    (concat (map (frame_events stringify) fs), new_reader)"
  using assms(2) run_frame [OF assms(1)] by (induction fs) (simp_all add: run_lines_append)



end
