(* ===== verification/Mcp_Client.thy ===== *)
theory Mcp_Client
  imports Sse Gateway_Handler
begin

text \<open>
  \<^verbatim>\<open>packages/mcp-client/src/streamable-http.ts\<close> and the request path of \<^verbatim>\<open>connection.ts\<close>:
  the client of one upstream over Streamable HTTP. What the client is given, its headers, where nonces
  and messages of the upstream go, comes with it as methods. Its state is the entry of \<open>wd_transports\<close>
  under its name. Aborts, timeouts, the retries of the server stream and the older transport
  (\<^verbatim>\<open>legacy-sse.ts\<close>) are left out; no session is resumed.
\<close>

section \<open>The client\<close>

record mcp_client =
  mc_name :: string
  mc_url :: string
  mc_policy :: ssrf_policy
  mc_authHeaders :: "string \<Rightarrow> (string \<times> string) list io"
  mc_onDpopNonce :: "string \<Rightarrow> unit io"
  mc_dispatch :: "json \<Rightarrow> unit io"
  mc_maxResponseBytes :: "nat option"
  mc_clientInfo :: json
  mc_clientCapabilities :: json

definition new_transport :: transport_state where
  "new_transport = \<lparr>ts_session = None, ts_protocolVersion = None, ts_nextId = 1, ts_initialized = None\<rparr>"

definition transport_of :: "mcp_client \<Rightarrow> world \<Rightarrow> transport_state" where
  "transport_of cl w = (case map_of (wd_transports w) (mc_name cl) of None \<Rightarrow> new_transport | Some t \<Rightarrow> t)"

definition set_transport :: "mcp_client \<Rightarrow> (transport_state \<Rightarrow> transport_state) \<Rightarrow> unit io" where
  "set_transport cl f = io_modify (\<lambda>w. w\<lparr>wd_transports :=
     map_set (wd_transports w) (mc_name cl) (f (transport_of cl w))\<rparr>)"

section \<open>Errors\<close>

definition session_expired :: exn where
  "session_expired = Gateway_Exn (gerr_retry UPSTREAM_PROTOCOL_ERROR ''The upstream MCP session expired'')"

definition mcp_protocol_error :: "string \<Rightarrow> exn" where
  "mcp_protocol_error m = Gateway_Exn (gerr UPSTREAM_PROTOCOL_ERROR m)"

text \<open>\<open>/not initialized|session (?:not found|expired|is invalid)|invalid session|unknown session/i\<close>.\<close>

definition forgotten_session :: "string \<Rightarrow> bool" where
  "forgotten_session detail \<longleftrightarrow>
     list_ex (\<lambda>phrase. contains phrase (to_lower detail))
       [''not initialized'', ''session not found'', ''session expired'', ''session is invalid'',
        ''invalid session'', ''unknown session'']"

section \<open>Posting\<close>

definition build_headers :: "mcp_client \<Rightarrow> string \<Rightarrow> (string \<times> string) list \<Rightarrow> (string \<times> string) list io" where
  "build_headers cl m extra =
     (io_bind (mc_authHeaders cl m) (\<lambda>auth.
      io_bind (io_get (transport_of cl)) (\<lambda>ts.
      (let headers = fold (\<lambda>(k, v) hs. map_set hs k v) extra auth in
      (let withSession = (case given (ts_session ts) of None \<Rightarrow> headers
          | Some s \<Rightarrow> map_set headers ''mcp-session-id'' s) in
      io_return (case given (ts_protocolVersion ts) of None \<Rightarrow> withSession
          | Some v \<Rightarrow> map_set withSession ''mcp-protocol-version'' v))))))"

definition post_options :: "mcp_client \<Rightarrow> (string \<times> string) list \<Rightarrow> json \<Rightarrow> request_options" where
  "post_options cl headers message = \<lparr>ro_url = mc_url cl, ro_method = Some ''POST'', ro_headers = headers,
     ro_body = Json message, ro_maxResponseBytes = mc_maxResponseBytes cl, ro_followRedirects = False,
     ro_expectedContentTypes = []\<rparr>"

definition post_attempt :: "env \<Rightarrow> mcp_client \<Rightarrow> json \<Rightarrow> safe_response io" where
  "post_attempt ev cl message =
     (io_bind (build_headers cl ''POST'' [(''accept'', ''application/json, text/event-stream''),
          (''content-type'', ''application/json'')]) (\<lambda>headers.
      io_bind (fetch ev (mc_policy cl) (post_options cl headers message)) (\<lambda>rs.
      io_seq (io_when (given (map_of (sr_headers rs) ''mcp-session-id'') \<noteq> None)
          (set_transport cl (\<lambda>t. t\<lparr>ts_session := map_of (sr_headers rs) ''mcp-session-id''\<rparr>))) (
      io_return rs))))"

definition text_or_empty_of :: "env \<Rightarrow> safe_response \<Rightarrow> string io" where
  "text_or_empty_of ev rs = io_catch (read_text ev rs) (\<lambda>e. io_return [])"

definition with_detail :: "string \<Rightarrow> string \<Rightarrow> string" where
  "with_detail m detail = (if detail = [] then m else m @ '': '' @ take 200 detail)"

definition settle_response :: "env \<Rightarrow> mcp_client \<Rightarrow> safe_response \<Rightarrow> safe_response io" where
  "settle_response ev cl rs =
     (io_bind (io_get (\<lambda>w. given (ts_session (transport_of cl w)))) (\<lambda>session.
      (if session \<noteq> None \<and> (sr_status rs = 404 \<or> sr_status rs = 400) then
           (io_bind (if sr_status rs = 400 then text_or_empty_of ev rs else io_return []) (\<lambda>detail.
            (if sr_status rs = 404 \<or> forgotten_session detail
               then (io_seq (set_transport cl (\<lambda>t. t\<lparr>ts_session := None\<rparr>)) (
                  io_throw session_expired))
               else io_throw (mcp_protocol_error (with_detail ''Upstream MCP server returned HTTP 400'' detail)))))
         else if sr_status rs = 202 \<or> sr_status rs = 204 then io_return rs
         else if sr_status rs < 200 \<or> sr_status rs \<ge> 300 then
           (io_bind (text_or_empty_of ev rs) (\<lambda>body.
            io_throw (mcp_protocol_error
                (with_detail (''Upstream MCP server returned HTTP '' @ show_nat (sr_status rs)) body))))
         else io_return rs)))"

text \<open>\<open>post\<close>; \<open>left\<close> is 1 until the message was retried with a nonce.\<close>

fun post_loop :: "env \<Rightarrow> mcp_client \<Rightarrow> json \<Rightarrow> nat \<Rightarrow> safe_response io" where
  "post_loop ev cl message left =
     (io_bind (post_attempt ev cl message) (\<lambda>rs.
      (if sr_status rs = 401 \<or> sr_status rs = 403 then
           (case (given (map_of (sr_headers rs) ''dpop-nonce''), left) of
              (Some nonce, Suc n) \<Rightarrow>
                (io_seq (mc_onDpopNonce cl nonce) (
                 post_loop ev cl message n))
            | _ \<Rightarrow> io_throw (Unauthorized_Exn ''The upstream MCP server requires authorization''
                     (map_of (sr_headers rs) ''www-authenticate'')))
         else settle_response ev cl rs)))"

declare post_loop.simps [simp del]

definition mcp_post :: "env \<Rightarrow> mcp_client \<Rightarrow> json \<Rightarrow> safe_response io" where
  "mcp_post ev cl message = post_loop ev cl message 1"

section \<open>Answers\<close>

definition answers :: "json \<Rightarrow> json \<Rightarrow> bool" where
  "answers request m \<longleftrightarrow> is_response m \<and> jget m ''id'' = jget request ''id''"

definition payload_messages :: "json option \<Rightarrow> json list" where
  "payload_messages v = (case v of None \<Rightarrow> [] | Some (JArr xs) \<Rightarrow> xs | Some x \<Rightarrow> [x])"

text \<open>The messages before the answer are dispatched, those after it are not read.\<close>

fun first_answer :: "mcp_client \<Rightarrow> json \<Rightarrow> json list \<Rightarrow> json option io" where
  "first_answer cl request [] = io_return None"
| "first_answer cl request (m # ms) =
     (if answers request m then io_return (Some m)
      else io_seq (mc_dispatch cl m) (first_answer cl request ms))"

fun answer_in_events :: "env \<Rightarrow> mcp_client \<Rightarrow> json \<Rightarrow> sse_event list \<Rightarrow> json option io" where
  "answer_in_events ev cl request [] = io_return None"
| "answer_in_events ev cl request (e # es) =
     (if se_event e \<noteq> ''message'' \<and> se_data e = [] then answer_in_events ev cl request es
      else
        (io_bind (first_answer cl request (payload_messages (ev_parse_json ev (se_data e)))) (\<lambda>found.
         (case found of
              Some m \<Rightarrow> io_return (Some m)
            | None \<Rightarrow> answer_in_events ev cl request es))))"

text \<open>The stream arrives as one chunk, whose text the response holds.\<close>

definition read_response_from_stream :: "env \<Rightarrow> mcp_client \<Rightarrow> safe_response \<Rightarrow> json \<Rightarrow> json io" where
  "read_response_from_stream ev cl rs request =
     (case read_sse_events CHR ''?'' default_max_event_bytes [utf8 (sr_body rs)] of
        (events, failure) \<Rightarrow>
          (io_bind (answer_in_events ev cl request events) (\<lambda>found.
           (case (found, failure) of
                (Some m, _) \<Rightarrow> io_return m
              | (None, Some e) \<Rightarrow> io_throw (Other_Exn e)
              | (None, None) \<Rightarrow> io_throw (mcp_protocol_error ''Upstream stream closed before answering the request'')))))"

definition send_request_once :: "env \<Rightarrow> mcp_client \<Rightarrow> json \<Rightarrow> json io" where
  "send_request_once ev cl request =
     (io_bind (mcp_post ev cl request) (\<lambda>rs.
      (let contentType = or_empty (sr_contentType rs) in
      (if starts_with ''application/json'' contentType then
           (io_bind (read_text ev rs) (\<lambda>raw.
            (case ev_parse_json ev raw of
                 Some (JArr xs) \<Rightarrow>
                   (case List.find (answers request) xs of
                      Some m \<Rightarrow> io_return m
                    | None \<Rightarrow> io_throw (mcp_protocol_error ''Upstream returned a malformed JSON-RPC response''))
               | Some m \<Rightarrow>
                   if is_response m then io_return m
                   else io_throw (mcp_protocol_error ''Upstream returned a malformed JSON-RPC response'')
               | None \<Rightarrow> io_throw (mcp_protocol_error ''Upstream returned a malformed JSON-RPC response''))))
         else if starts_with ''text/event-stream'' contentType then read_response_from_stream ev cl rs request
         else io_throw (mcp_protocol_error
           (''Upstream replied with unsupported content type '' @ [CHR 0x22] @ contentType @ [CHR 0x22]))))))"

definition mcp_notify :: "env \<Rightarrow> mcp_client \<Rightarrow> json \<Rightarrow> unit io" where
  "mcp_notify ev cl message = io_bind (mcp_post ev cl message) (\<lambda>rs. io_return ())"

definition get_stream_options :: "mcp_client \<Rightarrow> (string \<times> string) list \<Rightarrow> string \<Rightarrow> request_options" where
  "get_stream_options cl headers m = \<lparr>ro_url = mc_url cl, ro_method = Some m, ro_headers = headers,
     ro_body = No_Body, ro_maxResponseBytes = None, ro_followRedirects = False, ro_expectedContentTypes = []\<rparr>"

text \<open>The first attempt; what an open stream brings is dispatched on its own.\<close>

definition open_server_stream :: "env \<Rightarrow> mcp_client \<Rightarrow> unit io" where
  "open_server_stream ev cl =
     (io_bind (build_headers cl ''GET'' [(''accept'', ''text/event-stream'')]) (\<lambda>headers.
      io_catch (io_bind (fetch ev (mc_policy cl) (get_stream_options cl headers ''GET'')) (\<lambda>rs. io_return ()))
          (\<lambda>e. io_return ())))"

definition close_transport :: "env \<Rightarrow> mcp_client \<Rightarrow> unit io" where
  "close_transport ev cl =
     (io_bind (io_get (transport_of cl)) (\<lambda>ts.
      io_when (given (ts_session ts) \<noteq> None)
          (io_finally
            (io_catch
              ((io_bind (build_headers cl ''DELETE'' [(''accept'', ''application/json'')]) (\<lambda>headers.
                io_bind (fetch ev (mc_policy cl) (get_stream_options cl headers ''DELETE'')) (\<lambda>rs.
                io_return ()))))
              (\<lambda>e. io_return ()))
            (set_transport cl (\<lambda>t. t\<lparr>ts_session := None\<rparr>)))))"

section \<open>Requests\<close>

definition build_request :: "mcp_client \<Rightarrow> string \<Rightarrow> json_object \<Rightarrow> json io" where
  "build_request cl m params =
     (io_bind (io_get (transport_of cl)) (\<lambda>ts.
      io_seq (set_transport cl (\<lambda>t. t\<lparr>ts_nextId := ts_nextId t + 1\<rparr>)) (
      io_return (json_rpc_request (JNum (of_nat (ts_nextId ts))) m params))))"

text \<open>What is thrown when \<open>error\<close> is \<open>null\<close> is a \<open>TypeError\<close>.\<close>

definition unwrap_response :: "json \<Rightarrow> json_object io" where
  "unwrap_response response =
     (if is_failure response then
        (if jget response ''error'' = Some JNull then io_throw (Other_Exn ''Cannot read properties of null'')
         else
           (let e = jget response ''error'' in
              io_fail (gerr_data UPSTREAM_PROTOCOL_ERROR
                (case given (json_string (field e ''message'')) of None \<Rightarrow> ''Upstream MCP error'' | Some m \<Rightarrow> m)
                (JObj [(''code'', case field e ''code'' of None \<Rightarrow> JNull | Some c \<Rightarrow> c),
                       (''data'', case field e ''data'' of None \<Rightarrow> JNull | Some x \<Rightarrow> x)]))))
      else case jget response ''result'' of Some (JObj es) \<Rightarrow> io_return es | _ \<Rightarrow> io_return [])"

definition mcp_initialize :: "env \<Rightarrow> mcp_client \<Rightarrow> json_object io" where
  "mcp_initialize ev cl =
     (io_bind (build_request cl ''initialize'' [(''protocolVersion'', JStr latest_protocol_version),
          (''capabilities'', mc_clientCapabilities cl), (''clientInfo'', mc_clientInfo cl)]) (\<lambda>m.
      io_bind (send_request_once ev cl m) (\<lambda>response.
      io_bind (unwrap_response response) (\<lambda>result.
      (case map_of result ''protocolVersion'' of
           Some (JStr v) \<Rightarrow>
             (io_seq (set_transport cl (\<lambda>t. t\<lparr>ts_protocolVersion := Some (negotiate_protocol_version v), ts_initialized := Some result\<rparr>)) (
              io_seq (mcp_notify ev cl (notification ''notifications/initialized'')) (
              io_seq (open_server_stream ev cl) (
              io_return result))))
         | _ \<Rightarrow> io_throw (mcp_protocol_error ''Initialize response has no protocol version''))))))"

definition recreate_session :: "env \<Rightarrow> mcp_client \<Rightarrow> unit io" where
  "recreate_session ev cl =
     (io_seq (io_catch (close_transport ev cl) (\<lambda>e. io_return ())) (
      io_seq (set_transport cl (\<lambda>t. t\<lparr>ts_session := None, ts_protocolVersion := None, ts_initialized := None\<rparr>)) (
      io_bind (mcp_initialize ev cl) (\<lambda>result.
      io_return ()))))"

definition not_replayed :: exn where
  "not_replayed = Gateway_Exn (gerr UPSTREAM_PROTOCOL_ERROR
     ''The upstream MCP session expired during a non-idempotent call; retry explicitly'')"

definition mcp_request :: "env \<Rightarrow> mcp_client \<Rightarrow> string \<Rightarrow> json_object \<Rightarrow> bool \<Rightarrow> json_object io" where
  "mcp_request ev cl m params idempotent =
     (io_bind (build_request cl m params) (\<lambda>request.
      io_catch
          (io_bind (send_request_once ev cl request) unwrap_response)
          (\<lambda>e. if e \<noteq> session_expired then io_throw e
               else
                 (io_seq (recreate_session ev cl) (
                  (if \<not> idempotent then io_throw not_replayed
                     else
                       (io_bind (build_request cl m params) (\<lambda>again.
                        io_bind (send_request_once ev cl again) (\<lambda>response.
                        unwrap_response response)))))))))"

definition mcp_call_tool :: "env \<Rightarrow> mcp_client \<Rightarrow> string \<Rightarrow> json \<Rightarrow> json option \<Rightarrow> bool \<Rightarrow> json_object io" where
  "mcp_call_tool ev cl name args progressToken idempotent =
     mcp_request ev cl ''tools/call'' ([(''name'', JStr name), (''arguments'', case args of JNull \<Rightarrow> JObj [] | x \<Rightarrow> x)] @
       (case progressToken of None \<Rightarrow> [] | Some t \<Rightarrow> [(''_meta'', JObj [(''progressToken'', t)])])) idempotent"

definition mcp_close :: "env \<Rightarrow> mcp_client \<Rightarrow> unit io" where
  "mcp_close ev cl =
     (io_seq (close_transport ev cl) (
      io_modify (\<lambda>w. w\<lparr>wd_transports := map_delete (wd_transports w) (mc_name cl)\<rparr>)))"

section \<open>How often a message is posted\<close>

definition asks_for :: "string \<Rightarrow> json \<Rightarrow> bool" where
  "asks_for m x \<longleftrightarrow> jget x ''method'' = Some (JStr m) \<and> jget x ''id'' \<noteq> None"

definition is_post :: "string \<Rightarrow> wire_request \<Rightarrow> bool" where
  "is_post m rq \<longleftrightarrow> (case wq_body rq of Json x \<Rightarrow> asks_for m x | _ \<Rightarrow> False)"

text \<open>On every path, at most \<open>n\<close> requests that satisfy \<open>Q\<close> leave the process.\<close>

definition copies :: "(wire_request \<Rightarrow> bool) \<Rightarrow> nat \<Rightarrow> 'a io \<Rightarrow> bool" where
  "copies Q n m \<longleftrightarrow> (\<forall>w. \<exists>rqs. wd_sent (snd (m w)) = wd_sent w @ rqs \<and> length (filter Q rqs) \<le> n)"

lemma copies_emits: "emits P n m \<Longrightarrow> copies Q n m"
  unfolding copies_def emits_def by (meson le_trans length_filter_le)

lemma copies_none: "emits P k m \<Longrightarrow> (\<And>rq. P rq \<Longrightarrow> \<not> Q rq) \<Longrightarrow> copies Q 0 m"
  unfolding copies_def emits_def by (fastforce simp: list_all_iff filter_empty_conv)

lemma copies_mono: "copies Q k m \<Longrightarrow> k \<le> n \<Longrightarrow> copies Q n m"
  unfolding copies_def by (meson le_trans)

lemma copies_bind:
  assumes "copies Q m a" and "\<And>x. copies Q n (f x)"
  shows "copies Q (m + n) (io_bind a f)"
  unfolding copies_def
proof
  fix w
  obtain r w1 where a: "a w = (r, w1)" by (cases "a w")
  from assms(1) a obtain r1 where 1: "wd_sent w1 = wd_sent w @ r1" "length (filter Q r1) \<le> m"
    unfolding copies_def by (metis snd_conv)
  show "\<exists>rqs. wd_sent (snd (io_bind a f w)) = wd_sent w @ rqs \<and> length (filter Q rqs) \<le> m + n"
  proof (cases r)
    case (Inl e)
    with a 1 show ?thesis by (auto simp: io_bind_def)
  next
    case (Inr x)
    from assms(2) [of x] obtain r2 where "wd_sent (snd (f x w1)) = wd_sent w1 @ r2" "length (filter Q r2) \<le> n"
      unfolding copies_def by blast
    with a 1 Inr show ?thesis by (intro exI [of _ "r1 @ r2"]) (simp add: io_bind_def)
  qed
qed

lemma copies_catch:
  assumes "copies Q m a" and "\<And>e. copies Q n (h e)"
  shows "copies Q (m + n) (io_catch a h)"
  unfolding copies_def
proof
  fix w
  obtain r w1 where a: "a w = (r, w1)" by (cases "a w")
  from assms(1) a obtain r1 where 1: "wd_sent w1 = wd_sent w @ r1" "length (filter Q r1) \<le> m"
    unfolding copies_def by (metis snd_conv)
  show "\<exists>rqs. wd_sent (snd (io_catch a h w)) = wd_sent w @ rqs \<and> length (filter Q rqs) \<le> m + n"
  proof (cases r)
    case (Inr x)
    with a 1 show ?thesis by (auto simp: io_catch_def)
  next
    case (Inl e)
    from assms(2) [of e] obtain r2 where "wd_sent (snd (h e w1)) = wd_sent w1 @ r2" "length (filter Q r2) \<le> n"
      unfolding copies_def by blast
    with a 1 Inl show ?thesis by (intro exI [of _ "r1 @ r2"]) (simp add: io_catch_def)
  qed
qed

named_theorems copies_intros "methods that post no copy"

lemma copies_quiet [copies_intros]:
  "copies Q n (io_return x)" "copies Q n (io_throw e)" "copies Q n (io_lift r)" "copies Q n (io_get f)"
  "copies Q n (set_transport cl g)" "copies Q n (build_request cl k ps)" "copies Q n (read_text ev rs)"
  by (auto simp: copies_def io_defs set_transport_def build_request_def read_text_def Let_def
      split: sum.splits option.splits)

lemma copies_zero_bind [copies_intros]:
  "copies Q 0 a \<Longrightarrow> (\<And>x. copies Q 0 (f x)) \<Longrightarrow> copies Q 0 (io_bind a f)"
  using copies_bind [of Q 0 a 0 f] by simp

lemma copies_zero_seq [copies_intros]: "copies Q 0 a \<Longrightarrow> copies Q 0 b \<Longrightarrow> copies Q 0 (io_seq a b)"
  unfolding io_seq_def by (rule copies_zero_bind)

lemma copies_zero_catch [copies_intros]:
  "copies Q 0 a \<Longrightarrow> (\<And>e. copies Q 0 (h e)) \<Longrightarrow> copies Q 0 (io_catch a h)"
  using copies_catch [of Q 0 a 0 h] by simp

lemma copies_zero_when [copies_intros]: "copies Q 0 a \<Longrightarrow> copies Q 0 (io_when c a)"
  by (simp add: io_when_def copies_quiet)

lemma copies_finally [copies_intros]:
  assumes "copies Q 0 a" and "copies Q 0 b"
  shows "copies Q 0 (io_finally a b)"
  unfolding copies_def
proof
  fix w
  obtain r w1 where a: "a w = (r, w1)" by (cases "a w")
  obtain q w2 where b: "b w1 = (q, w2)" by (cases "b w1")
  from assms(1) a obtain r1 where "wd_sent w1 = wd_sent w @ r1" "filter Q r1 = []"
    unfolding copies_def by (metis snd_conv le_zero_eq length_0_conv)
  moreover from assms(2) b obtain r2 where "wd_sent w2 = wd_sent w1 @ r2" "filter Q r2 = []"
    unfolding copies_def by (metis snd_conv le_zero_eq length_0_conv)
  ultimately show "\<exists>rqs. wd_sent (snd (io_finally a b w)) = wd_sent w @ rqs \<and> length (filter Q rqs) \<le> 0"
    using a b by (intro exI [of _ "r1 @ r2"]) (simp add: io_finally_def split: sum.splits)
qed

definition posts_none :: "string \<Rightarrow> mcp_client \<Rightarrow> bool" where
  "posts_none m cl \<longleftrightarrow> (\<forall>k. copies (is_post m) 0 (mc_authHeaders cl k)) \<and>
     (\<forall>n. copies (is_post m) 0 (mc_onDpopNonce cl n)) \<and> (\<forall>x. copies (is_post m) 0 (mc_dispatch cl x))"

lemma posts_noneD:
  "posts_none m cl \<Longrightarrow> copies (is_post m) 0 (mc_authHeaders cl k)"
  "posts_none m cl \<Longrightarrow> copies (is_post m) 0 (mc_onDpopNonce cl n)"
  "posts_none m cl \<Longrightarrow> copies (is_post m) 0 (mc_dispatch cl x)"
  by (simp_all add: posts_none_def)

lemma copies_build_headers: "posts_none m cl \<Longrightarrow> copies (is_post m) 0 (build_headers cl k extra)"
  unfolding build_headers_def Let_def by (intro copies_intros posts_noneD)

lemma not_redirectable: "\<not> redirectable (post_options cl hs x)"
  by (simp add: redirectable_def post_options_def)

lemma not_redirectable_get: "\<not> redirectable (get_stream_options cl hs x)"
  by (simp add: redirectable_def get_stream_options_def)

lemma fetch_none: "copies (is_post m) 0 (fetch ev p (get_stream_options cl hs x))"
  by (rule copies_none [OF fetch_once [OF not_redirectable_get]])
    (auto simp: sent_for_def get_stream_options_def is_post_def)

lemma copies_post_attempt:
  assumes "posts_none m cl"
  shows "copies (is_post m) 1 (post_attempt ev cl x)"
    and "\<not> asks_for m x \<Longrightarrow> copies (is_post m) 0 (post_attempt ev cl x)"
proof -
  have "copies (is_post m) (0 + (1 + (0 + 0))) (post_attempt ev cl x)"
    unfolding post_attempt_def io_seq_def
    by (intro copies_bind copies_build_headers [OF assms] copies_emits [OF fetch_once [OF not_redirectable]] copies_intros)
  then show "copies (is_post m) 1 (post_attempt ev cl x)" by simp
  assume "\<not> asks_for m x"
  then have "copies (is_post m) 0 (fetch ev p (post_options cl hs x))" for p hs
    by (intro copies_none [OF fetch_once [OF not_redirectable]])
      (auto simp: sent_for_def post_options_def is_post_def)
  then show "copies (is_post m) 0 (post_attempt ev cl x)"
    unfolding post_attempt_def by (intro copies_intros copies_build_headers [OF assms])
qed

lemma copies_settle: "copies Q 0 (settle_response ev cl rs)"
  unfolding settle_response_def text_or_empty_of_def
  by (auto intro!: copies_intros)

lemma copies_post_loop:
  assumes "posts_none m cl"
  shows "copies (is_post m) (Suc left) (post_loop ev cl x left)"
    and "\<not> asks_for m x \<Longrightarrow> copies (is_post m) 0 (post_loop ev cl x left)"
proof (induction left)
  case 0
  {
    case 1
    have "copies (is_post m) (1 + 0) (post_loop ev cl x 0)"
      unfolding post_loop.simps [of _ _ _ 0]
      by (rule copies_bind [OF copies_post_attempt(1) [OF assms]]) (auto intro: copies_quiet copies_settle split: option.splits)
    then show ?case by simp
  next
    case 2
    then show ?case
      unfolding post_loop.simps [of _ _ _ 0]
      by (intro copies_intros copies_post_attempt(2) [OF assms]) (auto intro: copies_quiet copies_settle split: option.splits)
  }
next
  case (Suc n)
  {
    case 1
    have "copies (is_post m) (1 + Suc n) (post_loop ev cl x (Suc n))"
      unfolding post_loop.simps [of _ _ _ "Suc n"]
    proof (rule copies_bind [OF copies_post_attempt(1) [OF assms]])
      fix rs
      have "copies (is_post m) (0 + Suc n) (io_seq (mc_onDpopNonce cl k) (post_loop ev cl x n))" for k
        unfolding io_seq_def by (rule copies_bind [OF posts_noneD(2) [OF assms] Suc.IH(1)])
      then show "copies (is_post m) (Suc n) (if sr_status rs = 401 \<or> sr_status rs = 403 then
           (case (given (map_of (sr_headers rs) ''dpop-nonce''), Suc n) of
              (Some nonce, Suc k) \<Rightarrow> io_seq (mc_onDpopNonce cl nonce) (post_loop ev cl x k)
            | _ \<Rightarrow> io_throw (Unauthorized_Exn ''The upstream MCP server requires authorization''
                     (map_of (sr_headers rs) ''www-authenticate'')))
         else settle_response ev cl rs)"
        by (auto intro: copies_intros copies_mono [OF copies_settle] split: option.splits)
    qed
    then show ?case by simp
  next
    case 2
    then show ?case
      unfolding post_loop.simps [of _ _ _ "Suc n"]
      by (intro copies_intros copies_post_attempt(2) [OF assms])
        (auto intro: copies_intros posts_noneD [OF assms] Suc.IH(2) copies_settle split: option.splits)
  }
qed

text \<open>An answer that asks for the message again, with a nonce.\<close>

definition nonce_challenge :: "wire_response \<Rightarrow> bool" where
  "nonce_challenge rs \<longleftrightarrow> (ws_status rs = 401 \<or> ws_status rs = 403) \<and>
     given (map_of (ws_headers rs) ''dpop-nonce'') \<noteq> None"

definition challenged :: "env \<Rightarrow> string \<Rightarrow> bool" where
  "challenged ev m \<longleftrightarrow> (\<exists>k rq rs. is_post m rq \<and> ev_peer ev k rq = Inr rs \<and> nonce_challenge rs)"

text \<open>What a request answers is what the far end answered to it.\<close>

definition answered_to :: "env \<Rightarrow> body \<Rightarrow> safe_response \<Rightarrow> bool" where
  "answered_to ev b rs \<longleftrightarrow> (\<exists>k rq ws. wq_body rq = b \<and> ev_peer ev k rq = Inr ws \<and>
     sr_status rs = ws_status ws \<and> sr_headers rs = ws_headers ws)"

lemma returns_send: "returns (\<lambda>ws. \<exists>k. ev_peer ev k rq = Inr ws) (send ev rq)"
proof -
  have "returns (\<lambda>ws. \<exists>k. ev_peer ev k rq = Inr ws)
      (case ev_peer ev j rq of Inl m \<Rightarrow> io_throw (unavailable m) | Inr rs \<Rightarrow> io_return rs)" for j
    by (cases "ev_peer ev j rq") (auto intro: returns_basic)
  then show ?thesis unfolding send_def by (intro returns_bind returns_seq)
qed

lemma returns_request_once: "returns (answered_to ev (ro_body opts)) (request_once ev policy raw opts hs)"
proof -
  have sent: "returns (answered_to ev (ro_body opts)) (io_bind (send ev rq) (\<lambda>rs. io_return (f rs)))"
    if "wq_body rq = ro_body opts" "\<And>ws. sr_status (f ws) = ws_status ws" "\<And>ws. sr_headers (f ws) = ws_headers ws" for rq f
    by (rule returns_bind_result [OF returns_send], rule returns_basic) (use that in \<open>auto simp: answered_to_def\<close>)
  show ?thesis
    unfolding request_once_def Let_def
    by (rule returns_bind, rule returns_control(1), rule returns_basic(2), rule returns_control(1), rule returns_basic(2),
        rule returns_control(1), rule returns_basic(2), rule returns_bind, rule sent) simp_all
qed

lemma returns_fetch:
  assumes "\<not> redirectable opts"
  shows "returns (answered_to ev (ro_body opts)) (fetch ev policy opts)"
  unfolding fetch_def request_loop.simps [of ev policy opts "sp_maxRedirects policy"]
  by (rule returns_bind_result [OF returns_request_once])
    (use assms in \<open>auto split: option.splits intro: returns_seq returns_basic\<close>)

lemma returns_post_attempt: "returns (answered_to ev (Json x)) (post_attempt ev cl x)"
proof -
  have fetched: "returns (answered_to ev (Json x)) (fetch ev p (post_options cl hs x))" for p hs
    using returns_fetch [OF not_redirectable] by (simp add: post_options_def)
  show ?thesis
    unfolding post_attempt_def
    by (rule returns_bind, rule returns_bind_result [OF fetched], rule returns_seq, rule returns_basic)
qed

lemma copies_bind_returns:
  assumes "copies Q m a" and "returns R a" and "\<And>x. R x \<Longrightarrow> copies Q n (f x)"
  shows "copies Q (m + n) (io_bind a f)"
proof -
  have "copies Q (m + n) (io_bind a (\<lambda>x. if R x then f x else io_return undefined))"
    using assms(1) by (rule copies_bind) (auto intro: assms(3) copies_quiet)
  moreover have "io_bind a (\<lambda>x. if R x then f x else io_return undefined) = io_bind a f"
    using assms(2) by (auto simp: io_bind_def returns_def fun_eq_iff split: prod.splits sum.splits)
  ultimately show ?thesis by simp
qed

lemma copies_unchallenged:
  assumes "posts_none m cl" and "\<not> challenged ev m"
  shows "copies (is_post m) 1 (post_loop ev cl x left)"
proof (cases "asks_for m x")
  case False
  then show ?thesis using copies_post_loop(2) [OF assms(1)] copies_mono by blast
next
  case True
  have "copies (is_post m) (1 + 0) (post_loop ev cl x left)"
    unfolding post_loop.simps [of ev cl x left]
  proof (rule copies_bind_returns [OF copies_post_attempt(1) [OF assms(1)] returns_post_attempt])
    fix rs assume "answered_to ev (Json x) rs"
    then obtain k rq ws where a: "wq_body rq = Json x" "ev_peer ev k rq = Inr ws" "sr_status rs = ws_status ws"
        "sr_headers rs = ws_headers ws"
      by (auto simp: answered_to_def)
    have "is_post m rq" using True a(1) by (simp add: is_post_def)
    with a(2) assms(2) have "\<not> nonce_challenge ws" unfolding challenged_def by blast
    then have "(sr_status rs = 401 \<or> sr_status rs = 403) \<longrightarrow>
        given (map_of (sr_headers rs) ''dpop-nonce'') = None"
      using a(3,4) by (auto simp: nonce_challenge_def)
    then show "copies (is_post m) 0 (if sr_status rs = 401 \<or> sr_status rs = 403 then
           (case (given (map_of (sr_headers rs) ''dpop-nonce''), left) of
              (Some nonce, Suc n) \<Rightarrow> io_seq (mc_onDpopNonce cl nonce) (post_loop ev cl x n)
            | _ \<Rightarrow> io_throw (Unauthorized_Exn ''The upstream MCP server requires authorization''
                     (map_of (sr_headers rs) ''www-authenticate'')))
         else settle_response ev cl rs)"
      by (auto intro: copies_quiet copies_settle)
  qed
  then show ?thesis by simp
qed

text \<open>How often one sending posts its message at most.\<close>

definition attempts :: "env \<Rightarrow> string \<Rightarrow> nat" where
  "attempts ev m = (if challenged ev m then 2 else 1)"

lemma copies_first_answer: "posts_none m cl \<Longrightarrow> copies (is_post m) 0 (first_answer cl rq ms)"
  by (induction ms) (auto intro: copies_intros posts_noneD)

lemma copies_answer_in_events: "posts_none m cl \<Longrightarrow> copies (is_post m) 0 (answer_in_events ev cl rq es)"
  by (induction es) (auto intro!: copies_intros copies_first_answer split: option.splits)

lemma copies_read_stream: "posts_none m cl \<Longrightarrow> copies (is_post m) 0 (read_response_from_stream ev cl rs rq)"
  unfolding read_response_from_stream_def
  by (auto intro!: copies_intros copies_answer_in_events split: option.splits prod.splits)

lemma copies_read_answer:
  assumes "copies Q n a" and "\<And>rs. copies Q 0 (f rs)"
  shows "copies Q n (io_bind a f)"
  using copies_bind [OF assms] by simp

lemma copies_send_once:
  assumes "posts_none m cl"
  shows "copies (is_post m) n (mcp_post ev cl rq) \<Longrightarrow> copies (is_post m) n (send_request_once ev cl rq)"
  unfolding send_request_once_def
  apply (rule copies_read_answer, assumption)
  apply (unfold Let_def)
  apply (split if_split)
  apply (intro conjI impI)
  apply (rule copies_zero_bind)
  apply (rule copies_quiet)
  subgoal for rs raw
    apply (cases "ev_parse_json ev raw")
     apply (simp only: option.case)
     apply (rule copies_quiet)
    subgoal for v
      apply (cases v)
      apply (simp_all only: option.case json.case)
      apply (split if_split, intro conjI impI copies_quiet)+
      apply (split option.split, intro conjI impI allI copies_quiet)
      apply (split if_split, intro conjI impI copies_quiet)
      done
    done
  apply (split if_split)
  apply (intro conjI impI)
  apply (rule copies_read_stream [OF assms])
  apply (rule copies_quiet)
  done

lemma unwrap_pure: "\<exists>q. \<forall>w. unwrap_response r w = (q, w)"
proof (cases "is_failure r")
  case True
  then show ?thesis by (cases "jget r ''error'' = Some JNull") (auto simp: unwrap_response_def io_throw_def Let_def)
next
  case False
  then show ?thesis by (cases "jget r ''result''"; cases "the (jget r ''result'')") (auto simp: unwrap_response_def io_return_def)
qed

lemma copies_unwrap [copies_intros]: "copies Q n (unwrap_response r)"
  using unwrap_pure [of r] by (auto simp: copies_def)

lemma copies_close: "posts_none m cl \<Longrightarrow> copies (is_post m) 0 (close_transport ev cl)"
  unfolding close_transport_def
  by (intro copies_intros copies_build_headers fetch_none)

lemma copies_after_build:
  assumes "\<And>i. copies Q n (f (json_rpc_request (JNum i) k ps))"
  shows "copies Q n (io_bind (build_request cl k ps) f)"
  unfolding copies_def
proof
  fix w
  let ?t = "transport_of cl w"
  let ?w1 = "snd (build_request cl k ps w)"
  have b: "build_request cl k ps w = (Inr (json_rpc_request (JNum (of_nat (ts_nextId ?t))) k ps), ?w1)"
      "wd_sent ?w1 = wd_sent w"
    by (simp_all add: build_request_def set_transport_def io_defs)
  have "\<exists>rqs. wd_sent (snd (f (json_rpc_request (JNum (of_nat (ts_nextId ?t))) k ps) ?w1)) = wd_sent ?w1 @ rqs \<and>
      length (filter Q rqs) \<le> n"
    using assms unfolding copies_def by blast
  then show "\<exists>rqs. wd_sent (snd (io_bind (build_request cl k ps) f w)) = wd_sent w @ rqs \<and> length (filter Q rqs) \<le> n"
    by (subst io_bind_def, subst b(1)) (simp add: b(2))
qed

lemma notification_no_request: "\<not> asks_for m (notification k)"
  by (simp add: notification_def asks_for_def)

lemma copies_send_request:
  assumes "posts_none m cl"
  shows "copies (is_post m) (attempts ev m) (send_request_once ev cl rq)"
    and "\<not> asks_for m rq \<Longrightarrow> copies (is_post m) 0 (send_request_once ev cl rq)"
  using copies_post_loop [OF assms, where left = 1] copies_unchallenged [OF assms, where left = 1]
    copies_send_once [OF assms]
  by (simp_all add: mcp_post_def numeral_2_eq_2 attempts_def)

lemma copies_initialize:
  assumes "posts_none m cl" and "m \<noteq> ''initialize''"
  shows "copies (is_post m) 0 (mcp_initialize ev cl)"
proof -
  have i: "\<not> asks_for m (json_rpc_request j ''initialize'' qs)" for j qs
    using assms(2) by (simp add: asks_for_def json_rpc_request_def)
  have n: "copies (is_post m) 0 (mcp_notify ev cl (notification k))" for k
    unfolding mcp_notify_def mcp_post_def
    by (intro copies_intros copies_post_loop(2) [OF assms(1)]) (simp add: notification_no_request)
  have o: "copies (is_post m) 0 (open_server_stream ev cl)"
    unfolding open_server_stream_def by (intro copies_intros copies_build_headers assms fetch_none)
  have r: "copies (is_post m) 0 (io_seq a (io_seq b (io_seq (open_server_stream ev cl) (io_return x))))"
    if "copies (is_post m) 0 a" "copies (is_post m) 0 b" for a b x
    by (intro copies_intros that o)
  have e: "copies (is_post m) 0 (case map_of result ''protocolVersion'' of
      Some (JStr v) \<Rightarrow> g v result | _ \<Rightarrow> io_throw (mcp_protocol_error p))"
    if "\<And>v. copies (is_post m) 0 (g v result)" for g p result
    by (cases "map_of result ''protocolVersion''"; cases "the (map_of result ''protocolVersion'')")
      (simp_all add: that copies_quiet)
  show ?thesis
    unfolding mcp_initialize_def
    by (rule copies_after_build, intro copies_zero_bind copies_send_request(2) assms i copies_unwrap)
      (rule e, intro r copies_quiet n)
qed

lemma copies_recreate:
  "posts_none m cl \<Longrightarrow> m \<noteq> ''initialize'' \<Longrightarrow> copies (is_post m) 0 (recreate_session ev cl)"
  unfolding recreate_session_def by (intro copies_intros copies_close copies_initialize)

lemma copies_mcp_request:
  assumes "posts_none m cl" and "m \<noteq> ''initialize''"
  shows "copies (is_post m) (attempts ev m + (if idempotent then attempts ev m else 0))
    (mcp_request ev cl m ps idempotent)"
proof -
  have send: "copies (is_post m) (attempts ev m) (io_bind (send_request_once ev cl rq) unwrap_response)" for rq
    using copies_bind [OF copies_send_request(1) [OF assms(1)] copies_unwrap [of _ 0]] by simp
  have again: "copies (is_post m) (attempts ev m) (io_bind (build_request cl m ps)
      (\<lambda>again. io_bind (send_request_once ev cl again) unwrap_response))"
    by (rule copies_after_build) (rule send)
  have retry: "copies (is_post m) (if idempotent then attempts ev m else 0) (io_seq (recreate_session ev cl)
      (if \<not> idempotent then io_throw not_replayed
       else io_bind (build_request cl m ps) (\<lambda>again. io_bind (send_request_once ev cl again) unwrap_response)))"
    using copies_bind [OF copies_recreate [OF assms] again, of ev]
      copies_zero_seq [OF copies_recreate [OF assms] copies_quiet(2)]
    by (cases idempotent) (simp_all add: io_seq_def)
  show ?thesis
    unfolding mcp_request_def
    by (rule copies_after_build, rule copies_catch [OF send])
      (simp only: if_split, intro conjI impI copies_quiet retry)
qed

text \<open>
  C16: A request the caller did not mark repeatable is posted at most once, whatever the upstream
  answers, also when it has forgotten the session, unless it answers such a post with a nonce
  challenge (401 or 403 with a \<open>DPoP-Nonce\<close>): then at most twice. One that is marked repeatable is
  posted at most twice as often.
\<close>

theorem calls_not_replayed:
  assumes "posts_none m cl" and "m \<noteq> ''initialize''"
  shows "\<exists>rqs. wd_sent (snd (mcp_request ev cl m ps idempotent w)) = wd_sent w @ rqs \<and>
    length (filter (is_post m) rqs) \<le> (if challenged ev m then 2 else 1) * (if idempotent then 2 else 1)"
proof -
  obtain rqs where "wd_sent (snd (mcp_request ev cl m ps idempotent w)) = wd_sent w @ rqs"
      "length (filter (is_post m) rqs) \<le> attempts ev m + (if idempotent then attempts ev m else 0)"
    using copies_mcp_request [OF assms, of ev idempotent ps] unfolding copies_def by blast
  then show ?thesis by (intro exI [of _ rqs]) (simp add: attempts_def split: if_splits)
qed

definition demo_mcp :: mcp_client where
  "demo_mcp = \<lparr>mc_name = ''c'', mc_url = ''https://a.example/mcp'',
     mc_policy = \<lparr>sp_allowHttp = False, sp_allowLoopback = False, sp_allowPrivateNetworks = False,
       sp_allowedHosts = [], sp_hostAllowlist = [], sp_maxRedirects = 2, sp_maxResponseBytes = 100\<rparr>,
     mc_authHeaders = (\<lambda>k. io_return []), mc_onDpopNonce = (\<lambda>n. io_return ()),
     mc_dispatch = (\<lambda>x. io_return ()), mc_maxResponseBytes = None, mc_clientInfo = JObj [],
     mc_clientCapabilities = JObj []\<rparr>"

text \<open>One upstream challenges every request, one has forgotten the session.\<close>

definition refusing_env :: env where
  "refusing_env = demo_env\<lparr>ev_peer := (\<lambda>k rq. Inr \<lparr>ws_status = 401, ws_headers = [(''dpop-nonce'', ''n'')], ws_text = []\<rparr>)\<rparr>"

definition demo_in_session :: world where
  "demo_in_session = demo_world\<lparr>wd_transports := [(''c'', new_transport\<lparr>ts_session := Some ''s''\<rparr>)]\<rparr>"

abbreviation calls_in :: "world \<Rightarrow> nat" where
  "calls_in w \<equiv> length (filter (is_post ''tools/call'') (wd_sent w))"

lemma calls_not_replayed_witness:
  "calls_in (snd (mcp_request refusing_env demo_mcp ''tools/call'' [] False demo_world)) = 2 \<and>
   calls_in (snd (mcp_request demo_env demo_mcp ''tools/call'' [] False demo_in_session)) = 1"
proof -
  have p: "posts_none ''tools/call'' demo_mcp"
    by (simp add: posts_none_def demo_mcp_def copies_quiet)
  have s: "wd_sent demo_world = []" "wd_sent demo_in_session = []"
    by (simp_all add: demo_world_def demo_in_session_def)
  have c: "\<not> challenged demo_env ''tools/call''"
    by (simp add: challenged_def demo_env_def nonce_challenge_def)
  have "calls_in (snd (mcp_request refusing_env demo_mcp ''tools/call'' [] False demo_world)) \<le> 2"
    using calls_not_replayed [OF p, of refusing_env "[]" False demo_world] s by (auto split: if_splits)
  moreover have "calls_in (snd (mcp_request demo_env demo_mcp ''tools/call'' [] False demo_in_session)) \<le> 1"
    using calls_not_replayed [OF p, of demo_env "[]" False demo_in_session] s c by auto
  moreover have "calls_in (snd (mcp_request refusing_env demo_mcp ''tools/call'' [] False demo_world)) \<ge> 2"
    by code_simp
  moreover have "calls_in (snd (mcp_request demo_env demo_mcp ''tools/call'' [] False demo_in_session)) \<ge> 1"
    by code_simp
  ultimately show ?thesis by simp
qed

end
