(* ===== verification/Client_Config.thy ===== *)
theory Client_Config
  imports Vault Url_Policy
begin

text \<open>
  \<^verbatim>\<open>apps/migration-cli/src/config-file.ts\<close>: the files in which MCP clients keep their servers, as
  the command line tool reads and edits them: a JSON document with maps of named servers, or a TOML
  document that is edited line by line. \<open>JSON.parse\<close> and \<open>JSON.stringify\<close> are the record \<open>json_engine\<close>.
\<close>

section \<open>Servers\<close>

record json_engine =
  je_parse :: "string \<Rightarrow> json option"
  je_show :: "json \<Rightarrow> string"
  je_pretty :: "string \<Rightarrow> json \<Rightarrow> string"
  je_message :: "string \<Rightarrow> string"

datatype config_format = Json_Mcp_Servers | Json_Vscode | Toml_Codex

record remote_entry =
  re_name :: string
  re_url :: string
  re_container :: "string list"
  re_transport :: "string option"

record local_entry =
  le_name :: string
  le_container :: "string list"
  le_command :: string

text \<open>An entry of either kind; \<open>remote_of\<close> and \<open>local_of\<close> are the two lists of an inventory.\<close>

datatype server_entry = Remote remote_entry | Local local_entry

definition remote_of :: "server_entry list \<Rightarrow> remote_entry list" where
  "remote_of es = List.map_filter (\<lambda>e. case e of Remote r \<Rightarrow> Some r | Local l \<Rightarrow> None) es"

definition local_of :: "server_entry list \<Rightarrow> local_entry list" where
  "local_of es = List.map_filter (\<lambda>e. case e of Remote r \<Rightarrow> None | Local l \<Rightarrow> Some l) es"

record server_ref =
  sf_name :: string
  sf_container :: "string list"

fun ref_of :: "server_entry \<Rightarrow> server_ref" where
  "ref_of (Remote r) = \<lparr>sf_name = re_name r, sf_container = re_container r\<rparr>"
| "ref_of (Local l) = \<lparr>sf_name = le_name l, sf_container = le_container l\<rparr>"

record gateway_spec =
  sp_name :: string
  sp_url :: string
  sp_authorization :: string
  sp_bearerTokenEnvVar :: "string option"
  sp_bearerToken :: "string option"

section \<open>Comments and indentation\<close>

text \<open>The rest after the next \<open>*/\<close>.\<close>

fun after_comment :: "string \<Rightarrow> string" where
  "after_comment [] = []"
| "after_comment [c] = []"
| "after_comment (c # d # s) = (if c = CHR ''*'' \<and> d = CHR ''/'' then s else after_comment (d # s))"

lemma length_after_comment [termination_simp]: "length (after_comment s) \<le> length s"
  by (induction s rule: after_comment.induct) auto

text \<open>The flag is \<open>inString\<close>.\<close>

fun strip_comments :: "bool \<Rightarrow> string \<Rightarrow> string" where
  "strip_comments inString [] = []"
| "strip_comments True [c] = [c]"
| "strip_comments True (c # d # s) =
     (if c = CHR 0x5C then c # d # strip_comments True s
      else c # strip_comments (c \<noteq> CHR 0x22) (d # s))"
| "strip_comments False [c] = [c]"
| "strip_comments False (c # d # s) =
     (if c = CHR 0x22 then c # strip_comments True (d # s)
      else if c = CHR ''/'' \<and> d = CHR ''/'' then strip_comments False (dropWhile (\<lambda>x. x \<noteq> CHR 0x0A) s)
      else if c = CHR ''/'' \<and> d = CHR ''*'' then strip_comments False (after_comment s)
      else c # strip_comments False (d # s))"

definition strip_json_comments :: "string \<Rightarrow> string" where
  "strip_json_comments raw = strip_comments False raw"

definition is_blank_char :: "char \<Rightarrow> bool" where
  "is_blank_char c \<longleftrightarrow> c = CHR '' '' \<or> c = CHR 0x09"

text \<open>\<open>/^([ \t]+)\S/m\<close>: the first line that is indented.\<close>

definition line_indent :: "string \<Rightarrow> string option" where
  "line_indent l =
     (let rest = dropWhile is_blank_char l in
      if takeWhile is_blank_char l \<noteq> [] \<and> rest \<noteq> [] \<and> \<not> is_space (hd rest) then Some (takeWhile is_blank_char l)
      else None)"

definition detect_indent :: "string \<Rightarrow> string" where
  "detect_indent raw =
     (case List.find (\<lambda>l. line_indent l \<noteq> None)
        (concat (map (split_on (CHR 0x0D)) (split_on (CHR 0x0A) raw))) of
        None \<Rightarrow> ''  ''
      | Some l \<Rightarrow> takeWhile is_blank_char l)"

section \<open>JSON documents\<close>

record json_document =
  jd_rootKey :: string
  jd_document :: json
  jd_indent :: string

definition parse_json_document :: "json_engine \<Rightarrow> string \<Rightarrow> string \<Rightarrow> json_document option" where
  "parse_json_document eng rootKey raw =
     map_option (\<lambda>v. \<lparr>jd_rootKey = rootKey, jd_document = v, jd_indent = detect_indent raw\<rparr>)
       (if trim raw = [] then Some (JObj []) else je_parse eng (strip_json_comments raw))"

fun json_resolve :: "json \<Rightarrow> string list \<Rightarrow> (string \<times> json) list option" where
  "json_resolve v [] = (case v of JObj es \<Rightarrow> Some es | _ \<Rightarrow> None)"
| "json_resolve v (s # ss) =
     (case jget v s of Some (JObj es) \<Rightarrow> json_resolve (JObj es) ss | _ \<Rightarrow> None)"

text \<open>A change of the map a container names, in place.\<close>

fun json_modify :: "((string \<times> json) list \<Rightarrow> (string \<times> json) list) \<Rightarrow> string list \<Rightarrow> json \<Rightarrow> json" where
  "json_modify f [] (JObj es) = JObj (f es)"
| "json_modify f (s # ss) (JObj es) =
     (case map_of es s of
        Some (JObj fs) \<Rightarrow> JObj (map_set es s (json_modify f ss (JObj fs)))
      | _ \<Rightarrow> JObj es)"
| "json_modify f ss v = v"

definition is_map :: "json option \<Rightarrow> bool" where
  "is_map v \<longleftrightarrow> (case v of Some (JObj es) \<Rightarrow> True | _ \<Rightarrow> False)"

definition json_containers :: "json_document \<Rightarrow> string list list" where
  "json_containers d = [jd_rootKey d] #
     (case jget (jd_document d) ''projects'' of
        Some (JObj ps) \<Rightarrow> map (\<lambda>(name, project). [''projects'', name, jd_rootKey d])
          (filter (\<lambda>(name, project). is_map (jget project (jd_rootKey d))) ps)
      | _ \<Rightarrow> [])"

fun first_string :: "json option list \<Rightarrow> string option" where
  "first_string [] = None"
| "first_string (v # vs) =
     (case v of Some (JStr s) \<Rightarrow> if trim s \<noteq> [] then Some s else first_string vs | _ \<Rightarrow> first_string vs)"

definition json_entry :: "string list \<Rightarrow> string \<times> json \<Rightarrow> server_entry option" where
  "json_entry container e =
     (case snd e of
        JObj es \<Rightarrow>
          (case first_string [map_of es ''url'', map_of es ''serverUrl''] of
             Some url \<Rightarrow> Some (Remote \<lparr>re_name = fst e, re_url = url, re_container = container,
               re_transport = (case map_of es ''type'' of Some (JStr t) \<Rightarrow> Some t | _ \<Rightarrow> None)\<rparr>)
           | None \<Rightarrow> (case map_of es ''command'' of
               Some (JStr c) \<Rightarrow> Some (Local \<lparr>le_name = fst e, le_container = container, le_command = c\<rparr>)
             | _ \<Rightarrow> None))
      | _ \<Rightarrow> None)"

definition container_entries :: "json \<Rightarrow> string list \<Rightarrow> server_entry list" where
  "container_entries doc container =
     (case json_resolve doc container of None \<Rightarrow> [] | Some ms \<Rightarrow> List.map_filter (json_entry container) ms)"

definition json_servers :: "json_document \<Rightarrow> server_entry list" where
  "json_servers d = concat (map (container_entries (jd_document d)) (json_containers d))"

definition gateway_entry :: "gateway_spec \<Rightarrow> json" where
  "gateway_entry spec = JObj [(''type'', JStr ''http''), (''url'', JStr (sp_url spec)),
     (''headers'', JObj [(''Authorization'', JStr (sp_authorization spec))])]"

text \<open>A property set on an array is not serialised; one set on another value throws.\<close>

definition json_upsert :: "gateway_spec \<Rightarrow> json_document \<Rightarrow> json_document option" where
  "json_upsert spec d =
     (let ms = (case json_resolve (jd_document d) [jd_rootKey d] of None \<Rightarrow> [] | Some m \<Rightarrow> m) in
      case jd_document d of
        JObj es \<Rightarrow> Some (d\<lparr>jd_document := JObj (map_set es (jd_rootKey d)
          (JObj (map_set ms (sp_name spec) (gateway_entry spec))))\<rparr>)
      | JArr xs \<Rightarrow> Some d
      | _ \<Rightarrow> None)"

definition json_remove :: "server_ref \<Rightarrow> json_document \<Rightarrow> json_document" where
  "json_remove ref d = d\<lparr>jd_document :=
     json_modify (\<lambda>ms. map_delete ms (sf_name ref)) (sf_container ref) (jd_document d)\<rparr>"

definition json_serialize :: "json_engine \<Rightarrow> json_document \<Rightarrow> string" where
  "json_serialize eng d = je_pretty eng (jd_indent d) (jd_document d) @ [CHR 0x0A]"

section \<open>TOML lines\<close>

definition is_bracket :: "string \<Rightarrow> bool" where
  "is_bracket l \<longleftrightarrow> starts_with ''['' (dropWhile is_space l)"

definition is_blank :: "string \<Rightarrow> bool" where
  "is_blank l \<longleftrightarrow> trim l = []"

text \<open>\<open>replace(/\s*#.*$/, "")\<close>: a dot matches no line terminator.\<close>

fun comment_start :: "string \<Rightarrow> nat option" where
  "comment_start [] = None"
| "comment_start (c # s) =
     (if c = CHR ''#'' \<and> list_all (\<lambda>x. x \<noteq> CHR 0x0A \<and> x \<noteq> CHR 0x0D) s then Some 0
      else map_option Suc (comment_start s))"

definition without_comment :: "string \<Rightarrow> string" where
  "without_comment s =
     (case comment_start s of None \<Rightarrow> s | Some n \<Rightarrow> strip_trailing is_space (take n s))"

lemma length_dropWhile_le' [termination_simp]: "length (dropWhile P s) \<le> length s"
  by (rule length_dropWhile_le)

definition after_dot :: "string \<Rightarrow> string option" where
  "after_dot s =
     (case dropWhile is_blank_char s of
        [] \<Rightarrow> Some [] | c # t \<Rightarrow> if c = CHR ''.'' then Some t else None)"

lemma after_dot_length [termination_simp]: "after_dot s = Some t \<Longrightarrow> length t \<le> length s"
  using length_dropWhile_le [of is_blank_char s]
  by (auto simp: after_dot_def split: list.splits if_splits)

text \<open>The segments of a header's body, to its end.\<close>

function header_segments :: "string \<Rightarrow> string list option" where
  "header_segments body =
     (if body = [] then Some []
      else case dropWhile is_blank_char body of
        [] \<Rightarrow> None
      | c # s \<Rightarrow>
          if c = CHR 0x22 \<or> c = CHR 0x27 then
            (case index_of c s of
               None \<Rightarrow> None
             | Some n \<Rightarrow> (case after_dot (drop (Suc n) s) of
                 None \<Rightarrow> None | Some rest \<Rightarrow> map_option ((#) (take n s)) (header_segments rest)))
          else if trim (takeWhile (\<lambda>x. x \<noteq> CHR ''.'') (c # s)) = [] then None
          else (case after_dot (dropWhile (\<lambda>x. x \<noteq> CHR ''.'') (c # s)) of
                  None \<Rightarrow> None
                | Some rest \<Rightarrow>
                    map_option ((#) (trim (takeWhile (\<lambda>x. x \<noteq> CHR ''.'') (c # s)))) (header_segments rest)))"
  by pat_completeness auto
termination
proof (relation "measure length", goal_cases)
  case (2 body c s n rest)
  from length_dropWhile_le [of is_blank_char body] 2(2) after_dot_length [OF 2(5)] show ?case by simp
next
  case (3 body c s rest)
  have "c \<noteq> CHR ''.''" using 3(4) by (auto simp: trim_def strip_trailing_def)
  with length_dropWhile_le [of is_blank_char body] 3(2) after_dot_length [OF 3(5)]
    length_dropWhile_le [of "\<lambda>x. x \<noteq> CHR ''.''" s]
  show ?case by simp
qed simp

declare header_segments.simps [simp del]

definition parse_table_header :: "string \<Rightarrow> string list option" where
  "parse_table_header line =
     (let trimmed = without_comment (trim line) in
      if \<not> starts_with ''['' trimmed \<or> \<not> ends_with '']'' trimmed \<or> starts_with ''[['' trimmed then None
      else (case header_segments (butlast (tl trimmed)) of
              Some (s # ss) \<Rightarrow> Some (s # ss) | _ \<Rightarrow> None))"

definition mcp_servers :: string where
  "mcp_servers = ''mcp_servers''"

text \<open>What a line that begins with a bracket says; no segments where it is no table header.\<close>

definition header_of :: "string \<Rightarrow> string list option" where
  "header_of l =
     (if is_bracket l then Some (case parse_table_header l of None \<Rightarrow> [] | Some ss \<Rightarrow> ss) else None)"

fun headers_from :: "nat \<Rightarrow> string list \<Rightarrow> (nat \<times> string list) list" where
  "headers_from i [] = []"
| "headers_from i (l # ls) =
     (case header_of l of
        None \<Rightarrow> headers_from (Suc i) ls
      | Some ss \<Rightarrow> (i, ss) # headers_from (Suc i) ls)"

record toml_table =
  tt_name :: string
  tt_start :: nat
  tt_end :: nat

definition server_name :: "string list \<Rightarrow> string option" where
  "server_name ss = (case ss of [m, n] \<Rightarrow> if m = mcp_servers then Some n else None | _ \<Rightarrow> None)"

text \<open>\<open>isChild\<close>.\<close>

definition child_of :: "string \<Rightarrow> string list \<Rightarrow> bool" where
  "child_of name ss \<longleftrightarrow> length ss > 2 \<and> ss ! 0 = mcp_servers \<and> ss ! 1 = name"

fun trim_end :: "string list \<Rightarrow> nat \<Rightarrow> nat \<Rightarrow> nat" where
  "trim_end lines start 0 = 0"
| "trim_end lines start (Suc e) =
     (if start < Suc e \<and> is_blank (lines ! Suc e) then trim_end lines start e else Suc e)"

definition table_end :: "string list \<Rightarrow> string \<Rightarrow> nat \<Rightarrow> (nat \<times> string list) list \<Rightarrow> nat" where
  "table_end lines name start later =
     trim_end lines start
       (case List.find (\<lambda>(i, ss). \<not> child_of name ss) later of
          None \<Rightarrow> length lines - 1 | Some (i, ss) \<Rightarrow> i - 1)"

fun tables_of :: "string list \<Rightarrow> (nat \<times> string list) list \<Rightarrow> toml_table list" where
  "tables_of lines [] = []"
| "tables_of lines ((i, ss) # later) =
     (case server_name ss of
        None \<Rightarrow> tables_of lines later
      | Some n \<Rightarrow> \<lparr>tt_name = n, tt_start = i, tt_end = table_end lines n i later\<rparr> # tables_of lines later)"

definition codex_tables :: "string list \<Rightarrow> toml_table list" where
  "codex_tables lines = tables_of lines (headers_from 0 lines)"

section \<open>TOML values\<close>

text \<open>\<open>^\s*key\s*=\s*(.*)$\<close>, where a dot matches no line terminator.\<close>

definition key_value :: "string \<Rightarrow> string \<Rightarrow> string option" where
  "key_value key l =
     (let s = dropWhile is_space l in
      if \<not> starts_with key s then None
      else case dropWhile is_space (drop (length key) s) of
        [] \<Rightarrow> None
      | c # t \<Rightarrow>
          if c = CHR ''='' \<and> list_all (\<lambda>x. x \<noteq> CHR 0x0A \<and> x \<noteq> CHR 0x0D) (dropWhile is_space t)
          then Some (dropWhile is_space t) else None)"

text \<open>The place of the quote that closes a string.\<close>

fun close_quote :: "string \<Rightarrow> nat option" where
  "close_quote [] = None"
| "close_quote [c] = (if c = CHR 0x22 then Some 0 else None)"
| "close_quote (c # d # s) =
     (if c = CHR 0x5C then map_option (\<lambda>n. Suc (Suc n)) (close_quote s)
      else if c = CHR 0x22 then Some 0
      else map_option Suc (close_quote (d # s)))"

definition parse_toml_string :: "json_engine \<Rightarrow> string \<Rightarrow> string option" where
  "parse_toml_string eng raw =
     (case trim raw of
        [] \<Rightarrow> None
      | c # s \<Rightarrow>
          if c = CHR 0x27 then map_option (\<lambda>n. take n s) (index_of (CHR 0x27) s)
          else if c \<noteq> CHR 0x22 then None
          else (case close_quote s of
                  None \<Rightarrow> None
                | Some n \<Rightarrow> Some (case je_parse eng (c # take (Suc n) s) of
                    Some (JStr v) \<Rightarrow> v | _ \<Rightarrow> take n s)))"

definition toml_string :: "json_engine \<Rightarrow> string \<Rightarrow> string" where
  "toml_string eng v = je_show eng (JStr v)"

definition is_bare_key :: "string \<Rightarrow> bool" where
  "is_bare_key s \<longleftrightarrow> s \<noteq> [] \<and> list_all (\<lambda>c. is_alnum c \<or> c = CHR ''_'' \<or> c = CHR ''-'') s"

definition toml_key :: "json_engine \<Rightarrow> string \<Rightarrow> string" where
  "toml_key eng name = (if is_bare_key name then name else je_show eng (JStr name))"

section \<open>TOML documents\<close>

text \<open>The loop of \<open>readString\<close> over the lines of a table.\<close>

fun scan_string :: "json_engine \<Rightarrow> string \<Rightarrow> string list \<Rightarrow> string option" where
  "scan_string eng key [] = None"
| "scan_string eng key (l # ls) =
     (if is_bracket l then None
      else case key_value key l of
        Some raw \<Rightarrow> parse_toml_string eng raw
      | None \<Rightarrow> scan_string eng key ls)"

definition read_string :: "json_engine \<Rightarrow> string list \<Rightarrow> toml_table \<Rightarrow> string \<Rightarrow> string option" where
  "read_string eng lines t key =
     scan_string eng key (take (tt_end t - tt_start t) (drop (Suc (tt_start t)) lines))"

definition nonempty :: "string option \<Rightarrow> string option" where
  "nonempty v = (case v of Some [] \<Rightarrow> None | _ \<Rightarrow> v)"

definition toml_entry :: "string \<Rightarrow> (string \<Rightarrow> string option) \<Rightarrow> server_entry option" where
  "toml_entry name read =
     (case nonempty (read ''url'') of
        Some url \<Rightarrow> Some (Remote \<lparr>re_name = name, re_url = url, re_container = [mcp_servers], re_transport = None\<rparr>)
      | None \<Rightarrow> (case nonempty (read ''command'') of
          Some c \<Rightarrow> Some (Local \<lparr>le_name = name, le_container = [mcp_servers], le_command = c\<rparr>)
        | None \<Rightarrow> None))"

definition codex_lines :: "string \<Rightarrow> string list" where
  "codex_lines raw =
     (if raw = [] then []
      else split_on (CHR 0x0A) (if last raw = CHR 0x0A then butlast raw else raw))"

definition codex_servers :: "json_engine \<Rightarrow> string list \<Rightarrow> server_entry list" where
  "codex_servers eng lines =
     List.map_filter (\<lambda>t. toml_entry (tt_name t) (read_string eng lines t)) (codex_tables lines)"

definition rmcp_flag :: string where
  "rmcp_flag = ''experimental_use_rmcp_client''"

definition sets_flag :: "string \<Rightarrow> bool" where
  "sets_flag l \<longleftrightarrow>
     (let s = dropWhile is_space l in
      starts_with rmcp_flag s \<and> starts_with ''='' (dropWhile is_space (drop (length rmcp_flag) s)))"

definition flag_line :: string where
  "flag_line = rmcp_flag @ '' = true''"

text \<open>The lines before the first header, with the flag set in them, and the others.\<close>

fun set_flag :: "string list \<Rightarrow> string list option" where
  "set_flag [] = None"
| "set_flag (l # ls) = (if sets_flag l then Some (flag_line # ls) else map_option ((#) l) (set_flag ls))"

definition ensure_flag :: "string list \<Rightarrow> string list" where
  "ensure_flag lines =
     (let before = takeWhile (\<lambda>l. \<not> is_bracket l) lines; rest = dropWhile (\<lambda>l. \<not> is_bracket l) lines in
      (case set_flag before of None \<Rightarrow> before @ [flag_line, []] | Some ls \<Rightarrow> ls) @ rest)"

definition gateway_block :: "json_engine \<Rightarrow> gateway_spec \<Rightarrow> string list" where
  "gateway_block eng spec =
     [''[mcp_servers.'' @ toml_key eng (sp_name spec) @ '']'', ''url = '' @ toml_string eng (sp_url spec)] @
     (case nonempty (sp_bearerTokenEnvVar spec) of
        Some v \<Rightarrow> [''bearer_token_env_var = '' @ toml_string eng v]
      | None \<Rightarrow> (case nonempty (sp_bearerToken spec) of
          Some v \<Rightarrow> [''bearer_token = '' @ toml_string eng v] | None \<Rightarrow> []))"

definition replace_table :: "toml_table \<Rightarrow> string list \<Rightarrow> string list \<Rightarrow> string list" where
  "replace_table t block lines = take (tt_start t) lines @ block @ drop (Suc (tt_end t)) lines"

definition codex_upsert :: "json_engine \<Rightarrow> gateway_spec \<Rightarrow> string list \<Rightarrow> string list" where
  "codex_upsert eng spec original =
     (let lines = ensure_flag original; block = gateway_block eng spec in
      case List.find (\<lambda>t. tt_name t = sp_name spec) (codex_tables lines) of
        Some t \<Rightarrow> replace_table t block lines
      | None \<Rightarrow> lines @ (if lines \<noteq> [] \<and> \<not> is_blank (last lines) then [[]] else []) @ block)"

definition strip_blank_lines :: "string list \<Rightarrow> string list" where
  "strip_blank_lines lines = rev (dropWhile is_blank (rev lines))"

definition codex_remove :: "server_ref \<Rightarrow> string list \<Rightarrow> string list" where
  "codex_remove ref lines =
     (case List.find (\<lambda>t. tt_name t = sf_name ref) (codex_tables lines) of
        None \<Rightarrow> lines
      | Some t \<Rightarrow> strip_blank_lines (replace_table t [] lines))"

definition codex_serialize :: "string list \<Rightarrow> string" where
  "codex_serialize lines = (if lines = [] then [] else join [CHR 0x0A] lines @ [CHR 0x0A])"

section \<open>Documents\<close>

datatype config_document = Json_Document json_document | Codex_Document "string list"

definition parse_config_document :: "json_engine \<Rightarrow> config_format \<Rightarrow> string \<Rightarrow> config_document option" where
  "parse_config_document eng format raw =
     (case format of
        Json_Mcp_Servers \<Rightarrow> map_option Json_Document (parse_json_document eng ''mcpServers'' raw)
      | Json_Vscode \<Rightarrow> map_option Json_Document (parse_json_document eng ''servers'' raw)
      | Toml_Codex \<Rightarrow> Some (Codex_Document (codex_lines raw)))"

text \<open>\<open>servers\<close>; \<open>None\<close> where it throws, as a JSON document that is \<open>null\<close> has no properties.\<close>

fun document_servers :: "json_engine \<Rightarrow> config_document \<Rightarrow> server_entry list option" where
  "document_servers eng (Json_Document d) = (if jd_document d = JNull then None else Some (json_servers d))"
| "document_servers eng (Codex_Document ls) = Some (codex_servers eng ls)"

fun document_upsert :: "json_engine \<Rightarrow> gateway_spec \<Rightarrow> config_document \<Rightarrow> config_document option" where
  "document_upsert eng spec (Json_Document d) = map_option Json_Document (json_upsert spec d)"
| "document_upsert eng spec (Codex_Document ls) = Some (Codex_Document (codex_upsert eng spec ls))"

fun document_remove :: "server_ref \<Rightarrow> config_document \<Rightarrow> config_document" where
  "document_remove ref (Json_Document d) = Json_Document (json_remove ref d)"
| "document_remove ref (Codex_Document ls) = Codex_Document (codex_remove ref ls)"

fun document_serialize :: "json_engine \<Rightarrow> config_document \<Rightarrow> string" where
  "document_serialize eng (Json_Document d) = json_serialize eng d"
| "document_serialize eng (Codex_Document ls) = codex_serialize ls"

end
