(* ===== verification/Client_Documents.thy ===== *)
theory Client_Documents
  imports Client_Config
begin

text \<open>
  The two kinds of configuration document of \<^verbatim>\<open>config-file.ts\<close> under one contract: removing an entry
  removes that entry alone. The contract is the locale \<open>server_document\<close>; JSON documents and the lines
  of a Codex file are its interpretations.
\<close>

lemma set_map_filter: "e \<in> set (List.map_filter f xs) \<longleftrightarrow> (\<exists>x \<in> set xs. f x = Some e)"
  by (induction xs) (auto simp: map_filter_simps split: option.splits)

lemma map_filter_append: "List.map_filter f (xs @ ys) = List.map_filter f xs @ List.map_filter f ys"
  by (simp add: map_filter_def)

section \<open>The contract\<close>

locale server_document =
  fixes entries :: "'d \<Rightarrow> server_entry list"
    and remove :: "server_ref \<Rightarrow> 'd \<Rightarrow> 'd"
    and valid :: "'d \<Rightarrow> bool"
  assumes valid_remove: "valid d \<Longrightarrow> r \<in> ref_of ` set (entries d) \<Longrightarrow> valid (remove r d)"
    and entries_remove: "valid d \<Longrightarrow> r \<in> ref_of ` set (entries d) \<Longrightarrow>
      entries (remove r d) = filter (\<lambda>e. ref_of e \<noteq> r) (entries d)"
    and distinct_refs: "valid d \<Longrightarrow> distinct (map ref_of (entries d))"
begin

lemma entries_remove_all:
  "valid d \<Longrightarrow> distinct rs \<Longrightarrow> set rs \<subseteq> ref_of ` set (entries d) \<Longrightarrow>
     entries (fold remove rs d) = filter (\<lambda>e. ref_of e \<notin> set rs) (entries d)"
proof (induction rs arbitrary: d)
  case (Cons r rs)
  then have r: "r \<in> ref_of ` set (entries d)" by simp
  have "set rs \<subseteq> ref_of ` set (entries (remove r d))"
  proof
    fix x assume x: "x \<in> set rs"
    with Cons.prems obtain e where "e \<in> set (entries d)" "x = ref_of e" by auto
    moreover have "x \<noteq> r" using x Cons.prems(2) by auto
    ultimately show "x \<in> ref_of ` set (entries (remove r d))"
      using Cons.prems(1) r by (auto simp: entries_remove)
  qed
  with Cons.prems r have "entries (fold remove rs (remove r d)) =
      filter (\<lambda>e. ref_of e \<notin> set rs) (entries (remove r d))"
    by (intro Cons.IH valid_remove) auto
  with Cons.prems r show ?case by (simp add: entries_remove)
qed simp

lemma remove_chosen:
  assumes "valid d"
  shows "entries (fold remove (map ref_of (filter P (entries d))) d) = filter (\<lambda>e. \<not> P e) (entries d)"
proof -
  note ds = distinct_refs [OF assms]
  have inj: "inj_on ref_of (set (entries d))" using ds by (simp add: distinct_map)
  have "entries (fold remove (map ref_of (filter P (entries d))) d) =
      filter (\<lambda>e. ref_of e \<notin> ref_of ` {e \<in> set (entries d). P e}) (entries d)"
    using assms ds by (subst entries_remove_all) (auto simp: distinct_map_filter)
  also have "... = filter (\<lambda>e. \<not> P e) (entries d)"
    by (intro filter_cong) (auto dest: inj_onD [OF inj])
  finally show ?thesis .
qed

end

section \<open>JSON documents\<close>

fun apart_paths :: "string list \<Rightarrow> string list \<Rightarrow> bool" where
  "apart_paths (s # ss) (t # ts) = (s \<noteq> t \<or> apart_paths ss ts)"
| "apart_paths _ _ = False"

lemma json_modify_obj: "\<exists>gs. json_modify f p (JObj es) = JObj gs"
  by (cases p) (auto split: option.splits json.splits)

lemma resolve_modify: "json_resolve (json_modify f p v) p = map_option f (json_resolve v p)"
proof (induction p arbitrary: v)
  case (Cons s p)
  show ?case
  proof (cases "\<exists>es fs. v = JObj es \<and> map_of es s = Some (JObj fs)")
    case True
    then obtain es fs where v: "v = JObj es" "map_of es s = Some (JObj fs)" by blast
    obtain gs where "json_modify f p (JObj fs) = JObj gs" using json_modify_obj by blast
    with Cons.IH [of "JObj fs"] v show ?thesis by simp
  qed (cases v; auto split: option.splits json.splits)
qed (auto split: json.splits)

lemma resolve_modify_apart:
  "apart_paths p q \<Longrightarrow> json_resolve (json_modify f p v) q = json_resolve v q"
proof (induction p q arbitrary: v rule: apart_paths.induct)
  case (1 s p t q)
  show ?case
  proof (cases "\<exists>es fs. v = JObj es \<and> map_of es s = Some (JObj fs)")
    case True
    then obtain es fs where v: "v = JObj es" "map_of es s = Some (JObj fs)" by blast
    obtain gs where "json_modify f p (JObj fs) = JObj gs" using json_modify_obj by blast
    with "1.IH" [of "JObj fs"] "1.prems" v show ?thesis by auto
  qed (cases v; auto split: option.splits json.splits)
qed simp_all

definition valid_json :: "json_document \<Rightarrow> bool" where
  "valid_json d \<longleftrightarrow> jd_rootKey d \<noteq> ''projects'' \<and> distinct (json_containers d) \<and>
     list_all (\<lambda>c. case json_resolve (jd_document d) c of None \<Rightarrow> True | Some ms \<Rightarrow> distinct (map fst ms))
       (json_containers d)"

lemma containers_apart:
  assumes "jd_rootKey d \<noteq> ''projects''" "c \<in> set (json_containers d)" "c' \<in> set (json_containers d)" "c \<noteq> c'"
  shows "apart_paths c c'"
  using assms by (auto simp: json_containers_def split: option.splits json.splits)

lemma is_map_modify:
  "f = (\<lambda>ms. map_delete ms n) \<Longrightarrow> is_map (jget (json_modify f [k] v) k) = is_map (jget v k)"
  by (cases v) (auto simp: is_map_def split: option.splits json.splits)

lemma filter_map_set:
  "map_of es s = Some y \<Longrightarrow> P y = P x \<Longrightarrow>
     map (\<lambda>(n, v). g n) (filter (\<lambda>(n, v). P v) (map_set es s x)) = map (\<lambda>(n, v). g n) (filter (\<lambda>(n, v). P v) es)"
  by (induction es s x rule: map_set.induct) (auto split: if_splits)

lemma containers_cong:
  "jget v ''projects'' = jget w ''projects'' \<Longrightarrow>
     json_containers (d\<lparr>jd_document := v\<rparr>) = json_containers (d\<lparr>jd_document := w\<rparr>)"
  by (auto simp: json_containers_def simp del: jget.simps split: option.splits json.splits)

lemma containers_json_remove:
  assumes "jd_rootKey d \<noteq> ''projects''" "sf_container r \<in> set (json_containers d)"
  shows "json_containers (json_remove r d) = json_containers d"
proof -
  let ?k = "jd_rootKey d" and ?f = "\<lambda>ms. map_delete ms (sf_name r)"
  from assms(2) consider "sf_container r = [?k]" | p where "sf_container r = [''projects'', p, ?k]"
    by (auto simp: json_containers_def split: option.splits json.splits)
  then show ?thesis
  proof cases
    case 1
    with assms(1) have "jget (json_modify ?f (sf_container r) (jd_document d)) ''projects'' =
        jget (jd_document d) ''projects''"
      by (cases "jd_document d") (auto split: option.splits json.splits)
    from containers_cong [OF this, of d] show ?thesis by (simp add: json_remove_def)
  next
    case 2
    show ?thesis
    proof (cases "\<exists>es ps fs. jd_document d = JObj es \<and> map_of es ''projects'' = Some (JObj ps) \<and>
        map_of ps p = Some (JObj fs)")
      case True
      then obtain es ps fs where d: "jd_document d = JObj es" "map_of es ''projects'' = Some (JObj ps)"
        "map_of ps p = Some (JObj fs)" by blast
      have "is_map (jget (JObj fs) ?k) = is_map (jget (json_modify ?f [?k] (JObj fs)) ?k)"
        by (simp only: is_map_modify [OF refl])
      from filter_map_set [of ps p "JObj fs" "\<lambda>v. is_map (jget v ?k)", OF d(3) this,
          where g = "\<lambda>n. [''projects'', n, ?k]"] d 2
      show ?thesis by (simp add: json_containers_def json_remove_def del: jget.simps)
          (simp add: d)
    qed (use 2 in \<open>cases "jd_document d";
      auto simp: json_containers_def json_remove_def split: option.splits json.splits\<close>)
  qed
qed

lemma json_entry_ref: "json_entry c x = Some e \<Longrightarrow> ref_of e = \<lparr>sf_name = fst x, sf_container = c\<rparr>"
  by (cases "snd x") (auto simp: json_entry_def split: option.splits json.splits)

lemma container_entry_ref: "e \<in> set (container_entries v c) \<Longrightarrow> sf_container (ref_of e) = c"
  by (auto simp: container_entries_def set_map_filter split: option.splits dest: json_entry_ref)

lemma container_entries_remove:
  assumes "map_option (\<lambda>ms. map_delete ms n) (json_resolve v c) = json_resolve v' c"
  shows "container_entries v' c = filter (\<lambda>e. ref_of e \<noteq> \<lparr>sf_name = n, sf_container = c\<rparr>) (container_entries v c)"
proof -
  have "List.map_filter (json_entry c) (map_delete ms n) =
      filter (\<lambda>e. ref_of e \<noteq> \<lparr>sf_name = n, sf_container = c\<rparr>) (List.map_filter (json_entry c) ms)" for ms
    by (induction ms) (auto simp: map_delete_def map_filter_simps json_entry_ref split: option.splits)
  then show ?thesis
    by (cases "json_resolve v c") (auto simp: container_entries_def assms [symmetric])
qed

lemma container_names_distinct:
  assumes "distinct (map fst ms)"
  shows "distinct (map ref_of (List.map_filter (json_entry c) ms))"
proof -
  have "ref_of ` set (List.map_filter (json_entry c) ms) \<subseteq> (\<lambda>x. \<lparr>sf_name = fst x, sf_container = c\<rparr>) ` set ms" for ms
    by (force simp: set_map_filter dest: json_entry_ref)
  then show ?thesis using assms
    by (induction ms) (fastforce simp: map_filter_simps json_entry_ref split: option.splits)+
qed

lemma json_refs:
  assumes "r \<in> ref_of ` set (json_servers d)"
  shows "sf_container r \<in> set (json_containers d)"
  using assms by (auto simp: json_servers_def dest: container_entry_ref)

lemma json_servers_remove:
  assumes "valid_json d" "r \<in> ref_of ` set (json_servers d)"
  shows "json_servers (json_remove r d) = filter (\<lambda>e. ref_of e \<noteq> r) (json_servers d)"
proof -
  let ?f = "\<lambda>ms. map_delete ms (sf_name r)" and ?v = "jd_document d"
  have k: "jd_rootKey d \<noteq> ''projects''" using assms(1) by (simp add: valid_json_def)
  note c = json_refs [OF assms(2)]
  have "container_entries (json_modify ?f (sf_container r) ?v) q =
      filter (\<lambda>e. ref_of e \<noteq> r) (container_entries ?v q)" if q: "q \<in> set (json_containers d)" for q
  proof (cases "q = sf_container r")
    case True
    have r: "\<lparr>sf_name = sf_name r, sf_container = q\<rparr> = r" using True by simp
    have "map_option ?f (json_resolve ?v q) = json_resolve (json_modify ?f (sf_container r) ?v) q"
      using True by (simp add: resolve_modify)
    from container_entries_remove [OF this] show ?thesis by (simp only: r)
  next
    case False
    have "apart_paths (sf_container r) q" using containers_apart [OF k c q] False by simp
    moreover have "filter (\<lambda>e. ref_of e \<noteq> r) (container_entries ?v q) = container_entries ?v q"
      using False by (intro filter_True) (auto dest: container_entry_ref)
    ultimately show ?thesis by (simp add: container_entries_def resolve_modify_apart)
  qed
  with containers_json_remove [OF k c] show ?thesis
    by (simp add: json_servers_def filter_concat) (simp add: json_remove_def cong: map_cong)
qed

lemma valid_json_remove:
  assumes "valid_json d" "r \<in> ref_of ` set (json_servers d)"
  shows "valid_json (json_remove r d)"
proof -
  let ?f = "\<lambda>ms. map_delete ms (sf_name r)" and ?v = "jd_document d"
  have k: "jd_rootKey d \<noteq> ''projects''" using assms(1) by (simp add: valid_json_def)
  note c = json_refs [OF assms(2)]
  have "case json_resolve (json_modify ?f (sf_container r) ?v) q of None \<Rightarrow> True
      | Some ms \<Rightarrow> distinct (map fst ms)" if q: "q \<in> set (json_containers d)" for q
  proof -
    have v: "case json_resolve ?v q of None \<Rightarrow> True | Some ms \<Rightarrow> distinct (map fst ms)"
      using assms(1) q by (auto simp: valid_json_def list_all_iff)
    show ?thesis
    proof (cases "q = sf_container r")
      case True
      with v show ?thesis by (auto simp: resolve_modify distinct_map_delete split: option.splits)
    next
      case False
      with containers_apart [OF k c q] v show ?thesis by (simp add: resolve_modify_apart)
    qed
  qed
  with assms(1) containers_json_remove [OF k c] show ?thesis
    by (simp add: valid_json_def list_all_iff) (simp add: json_remove_def)
qed

lemma json_refs_distinct:
  assumes "valid_json d"
  shows "distinct (map ref_of (json_servers d))"
proof -
  have "distinct (map ref_of (concat (map (container_entries (jd_document d)) cs)))"
    if "distinct cs" "set cs \<subseteq> set (json_containers d)" for cs
    using that
  proof (induction cs)
    case (Cons c cs)
    have "case json_resolve (jd_document d) c of None \<Rightarrow> True | Some ms \<Rightarrow> distinct (map fst ms)"
      using assms Cons.prems by (auto simp: valid_json_def list_all_iff)
    then have "distinct (map ref_of (container_entries (jd_document d) c))"
      by (auto simp: container_entries_def container_names_distinct split: option.splits)
    moreover have "ref_of ` set (container_entries (jd_document d) c) \<inter>
        ref_of ` (\<Union>q \<in> set cs. set (container_entries (jd_document d) q)) = {}"
      using Cons.prems(1) by (auto dest!: container_entry_ref)
    ultimately show ?case using Cons by simp
  qed simp
  with assms show ?thesis by (simp add: json_servers_def valid_json_def)
qed

interpretation json_file: server_document json_servers json_remove valid_json
  by unfold_locales (simp_all add: json_servers_remove valid_json_remove json_refs_distinct)

section \<open>The lines of a Codex file\<close>

definition named_header :: "string \<Rightarrow> string option" where
  "named_header l = Option.bind (header_of l) server_name"

definition header_names :: "string list \<Rightarrow> string list" where
  "header_names lines = List.map_filter named_header lines"

text \<open>The servers by a single pass over the lines; a header is read with all the lines behind it.\<close>

fun listed :: "json_engine \<Rightarrow> string list \<Rightarrow> server_entry list" where
  "listed eng [] = []"
| "listed eng (l # ls) =
     (case named_header l of
        None \<Rightarrow> []
      | Some n \<Rightarrow> (case toml_entry n (\<lambda>key. scan_string eng key ls) of None \<Rightarrow> [] | Some e \<Rightarrow> [e])) @ listed eng ls"

text \<open>Lines from which the entry before them reads nothing.\<close>

definition silent :: "json_engine \<Rightarrow> string list \<Rightarrow> bool" where
  "silent eng ls \<longleftrightarrow> scan_string eng ''url'' ls = None \<and> scan_string eng ''command'' ls = None"

definition closes :: "string list \<Rightarrow> bool" where
  "closes ls \<longleftrightarrow> (case dropWhile is_blank ls of [] \<Rightarrow> True | l # _ \<Rightarrow> is_bracket l)"

lemma named_header_bracket: "named_header l = Some n \<Longrightarrow> is_bracket l"
  by (auto simp: named_header_def header_of_def split: if_splits)

lemma is_blank_spaces: "is_blank l \<longleftrightarrow> list_all is_space l"
  by (induction l) (auto simp: is_blank_def trim_def strip_trailing_def dropWhile_eq_Nil_conv list_all_iff)

lemma blank_dropWhile: "is_blank l \<Longrightarrow> dropWhile is_space l = []"
  by (simp add: is_blank_spaces list_all_iff)

lemma blank_not_bracket: "is_blank l \<Longrightarrow> \<not> is_bracket l"
  by (simp add: is_bracket_def blank_dropWhile starts_with_def)

lemma blank_no_value: "is_blank l \<Longrightarrow> key \<noteq> [] \<Longrightarrow> key_value key l = None"
  by (simp add: key_value_def blank_dropWhile starts_with_def)

lemma scan_append: "scan_string eng key ys = None \<Longrightarrow> scan_string eng key (xs @ ys) = scan_string eng key xs"
  by (induction xs) (auto split: option.splits)

lemma scan_closed: "closes ls \<Longrightarrow> key \<noteq> [] \<Longrightarrow> scan_string eng key ls = None"
  by (induction ls) (auto simp: closes_def blank_no_value blank_not_bracket split: if_splits option.splits)

lemma closes_quiet: "closes ls \<Longrightarrow> silent eng ls"
  by (simp add: silent_def scan_closed)

lemma toml_entry_cong:
  "f ''url'' = g ''url'' \<Longrightarrow> f ''command'' = g ''command'' \<Longrightarrow> toml_entry n f = toml_entry n g"
  by (simp add: toml_entry_def cong: option.case_cong)

lemma toml_entry_append:
  "silent eng ys \<Longrightarrow> toml_entry n (\<lambda>k. scan_string eng k (xs @ ys)) = toml_entry n (\<lambda>k. scan_string eng k xs)"
  by (rule toml_entry_cong) (simp_all add: silent_def scan_append)

lemma listed_append: "silent eng ys \<Longrightarrow> listed eng (xs @ ys) = listed eng xs @ listed eng ys"
proof (induction xs)
  case (Cons x xs)
  from toml_entry_append [OF Cons.prems, of _ xs] Cons show ?case by (simp cong: option.case_cong)
qed simp

lemma listed_unnamed: "list_all (\<lambda>l. named_header l = None) ls \<Longrightarrow> listed eng ls = []"
  by (induction ls) auto

lemma header_names_append: "header_names (xs @ ys) = header_names xs @ header_names ys"
  by (simp add: header_names_def map_filter_append)

lemma header_names_unnamed: "list_all (\<lambda>l. named_header l = None) ls \<Longrightarrow> header_names ls = []"
  by (induction ls) (auto simp: header_names_def map_filter_simps)

lemma blank_unnamed: "is_blank l \<Longrightarrow> named_header l = None"
  using blank_not_bracket named_header_bracket by fastforce

lemma toml_entry_ref:
  "toml_entry n f = Some e \<Longrightarrow> ref_of e = \<lparr>sf_name = n, sf_container = [mcp_servers]\<rparr>"
  by (auto simp: toml_entry_def split: option.splits)

lemma listed_ref:
  "e \<in> set (listed eng ls) \<Longrightarrow>
     sf_name (ref_of e) \<in> set (header_names ls) \<and> sf_container (ref_of e) = [mcp_servers]"
  by (induction ls) (auto simp: header_names_def map_filter_simps dest: toml_entry_ref toml_entry_ref [OF sym] split: option.splits)

text \<open>Blank lines at the end say nothing.\<close>

lemma strip_blank_lines_split:
  obtains bs where "ls = strip_blank_lines ls @ bs" "list_all is_blank bs"
proof
  show "ls = strip_blank_lines ls @ rev (takeWhile is_blank (rev ls))"
    unfolding strip_blank_lines_def by (metis rev_append rev_rev_ident takeWhile_dropWhile_id)
  show "list_all is_blank (rev (takeWhile is_blank (rev ls)))"
    by (auto simp: list_all_iff dest: set_takeWhileD)
qed

lemma blank_closes: "list_all is_blank bs \<Longrightarrow> closes (bs @ ls) \<longleftrightarrow> closes ls"
  by (induction bs) (auto simp: closes_def)

lemma listed_strip: "listed eng (strip_blank_lines ls) = listed eng ls"
proof -
  obtain bs where bs: "ls = strip_blank_lines ls @ bs" "list_all is_blank bs"
    by (rule strip_blank_lines_split)
  have "silent eng bs" using blank_closes [OF bs(2), of "[]"] by (auto simp: closes_def intro: closes_quiet)
  moreover have "listed eng bs = []"
    using bs(2) by (auto simp: list_all_iff intro!: listed_unnamed blank_unnamed)
  ultimately show ?thesis using listed_append [of eng bs "strip_blank_lines ls"] bs(1) by simp
qed

lemma header_names_strip: "header_names (strip_blank_lines ls) = header_names ls"
proof -
  obtain bs where bs: "ls = strip_blank_lines ls @ bs" "list_all is_blank bs"
    by (rule strip_blank_lines_split)
  have "header_names bs = []"
    using bs(2) by (auto simp: list_all_iff intro!: header_names_unnamed blank_unnamed)
  with header_names_append [of "strip_blank_lines ls" bs] bs(1) show ?thesis by simp
qed

text \<open>What a table is in the lines.\<close>

definition table_ok :: "string list \<Rightarrow> toml_table \<Rightarrow> bool" where
  "table_ok lines t \<longleftrightarrow> tt_start t \<le> tt_end t \<and> tt_end t < length lines \<and>
     named_header (lines ! tt_start t) = Some (tt_name t) \<and> closes (drop (Suc (tt_end t)) lines) \<and>
     list_all (\<lambda>l. named_header l = None) (take (tt_end t - tt_start t) (drop (Suc (tt_start t)) lines))"

lemma header_of_bracket: "header_of l = Some ss \<Longrightarrow> is_bracket l"
  by (auto simp: header_of_def split: if_splits)

lemma child_unnamed: "header_of l = Some ss \<Longrightarrow> child_of n ss \<Longrightarrow> named_header l = None"
  by (auto simp: named_header_def server_name_def child_of_def split: list.splits)

lemma find_header:
  "case List.find (\<lambda>(i, ss). \<not> child_of n ss) (headers_from i ls) of
     None \<Rightarrow> list_all (\<lambda>l. named_header l = None) ls
   | Some (j, ss) \<Rightarrow> i \<le> j \<and> j < i + length ls \<and> is_bracket (ls ! (j - i)) \<and>
       list_all (\<lambda>l. named_header l = None) (take (j - i) ls)"
proof (induction ls arbitrary: i)
  case (Cons l ls)
  show ?case
  proof (cases "header_of l")
    case None
    with Cons [of "Suc i"] show ?thesis
      by (auto simp: named_header_def nth_Cons' take_Cons' split: option.splits)
  next
    case (Some ss)
    with Cons [of "Suc i"] child_unnamed [OF Some] header_of_bracket [OF Some] show ?thesis
      by (auto simp: nth_Cons' take_Cons' split: option.splits)
  qed
qed simp

lemma trim_end_bounds: "s \<le> e \<Longrightarrow> s \<le> trim_end lines s e \<and> trim_end lines s e \<le> e"
  by (induction lines s e rule: trim_end.induct) auto

lemma trim_end_blank: "trim_end lines s e < k \<Longrightarrow> k \<le> e \<Longrightarrow> is_blank (lines ! k)"
  by (induction lines s e rule: trim_end.induct) (auto simp: le_Suc_eq split: if_splits)

lemma closes_from:
  assumes "a \<le> b" "b \<le> length ls" "\<And>k. a \<le> k \<Longrightarrow> k < b \<Longrightarrow> is_blank (ls ! k)"
    and "b < length ls \<Longrightarrow> is_bracket (ls ! b)"
  shows "closes (drop a ls)"
proof -
  have "list_all is_blank (take (b - a) (drop a ls))"
    using assms(1,2,3) by (auto simp: list_all_length)
  moreover have "drop a ls = take (b - a) (drop a ls) @ drop b ls"
    using assms(1) by (metis append_take_drop_id drop_drop le_add_diff_inverse2)
  moreover have "closes (drop b ls)"
  proof (cases "b < length ls")
    case True
    then have "drop b ls = ls ! b # drop (Suc b) ls" by (simp add: Cons_nth_drop_Suc)
    moreover have "\<not> is_blank (ls ! b)" using assms(4) [OF True] blank_not_bracket by blast
    ultimately show ?thesis using assms(4) [OF True] by (simp add: closes_def)
  qed (simp add: closes_def)
  ultimately show ?thesis by (metis blank_closes)
qed

lemma table_ok_header:
  assumes "drop i lines = l # ls" "named_header l = Some n"
  shows "table_ok lines \<lparr>tt_name = n, tt_start = i, tt_end = table_end lines n i (headers_from (Suc i) ls)\<rparr>"
proof -
  have i: "i < length lines" "lines ! i = l" "drop (Suc i) lines = ls"
    using assms(1) by (metis drop_all list.discI not_le, metis hd_drop_conv_nth drop_all list.discI not_le list.sel(1),
      metis drop_Suc list.sel(3) tl_drop)
  define e where "e = (case List.find (\<lambda>(i, ss). \<not> child_of n ss) (headers_from (Suc i) ls) of
      None \<Rightarrow> length lines - 1 | Some (i, ss) \<Rightarrow> i - 1)"
  have len: "length lines = Suc i + length ls" using i by auto
  have e: "i \<le> e \<and> e < length lines \<and> (Suc e < length lines \<longrightarrow> is_bracket (lines ! Suc e)) \<and>
      list_all (\<lambda>l. named_header l = None) (take (e - i) ls)"
  proof (cases "List.find (\<lambda>(i, ss). \<not> child_of n ss) (headers_from (Suc i) ls)")
    case None
    with find_header [where n = n and i = "Suc i" and ls = ls] len show ?thesis by (auto simp: e_def)
  next
    case (Some p)
    obtain j ss where p: "p = (j, ss)" by (cases p)
    with Some find_header [where n = n and i = "Suc i" and ls = ls]
    have j: "Suc i \<le> j" "j < Suc i + length ls" "is_bracket (ls ! (j - Suc i))"
      "list_all (\<lambda>l. named_header l = None) (take (j - Suc i) ls)" by auto
    have "lines ! j = ls ! (j - Suc i)" using i j by (metis add_diff_inverse_nat not_le nth_drop less_imp_le_nat i(1) Suc_leI)
    with j Some p len show ?thesis by (auto simp: e_def)
  qed
  let ?t = "trim_end lines i e"
  have t: "i \<le> ?t" "?t \<le> e" using trim_end_bounds [of i e lines] e by auto
  have "closes (drop (Suc ?t) lines)"
    using t e by (intro closes_from [of "Suc ?t" "Suc e"]) (auto intro!: trim_end_blank [of lines i e])
  moreover have "list_all (\<lambda>l. named_header l = None) (take (?t - i) ls)"
  proof -
    have "take (?t - i) ls = take (?t - i) (take (e - i) ls)" using t by (simp add: min_def)
    with e show ?thesis by (metis list_all_iff in_set_takeD)
  qed
  ultimately show ?thesis using t e i assms(2) by (simp add: table_ok_def table_end_def e_def [symmetric])
qed

lemma tables_of_Cons:
  "tables_of lines (headers_from i (l # ls)) =
     (case named_header l of None \<Rightarrow> []
      | Some n \<Rightarrow> [\<lparr>tt_name = n, tt_start = i, tt_end = table_end lines n i (headers_from (Suc i) ls)\<rparr>]) @
     tables_of lines (headers_from (Suc i) ls)"
  by (auto simp: named_header_def split: option.splits)

lemma tables_walk:
  "drop i lines = ls \<Longrightarrow> list_all (table_ok lines) (tables_of lines (headers_from i ls)) \<and>
     map tt_name (tables_of lines (headers_from i ls)) = header_names ls \<and>
     List.map_filter (\<lambda>t. toml_entry (tt_name t) (read_string eng lines t)) (tables_of lines (headers_from i ls)) =
       listed eng ls"
proof (induction ls arbitrary: i)
  case Nil
  then show ?case by (simp add: header_names_def map_filter_simps)
next
  case (Cons l ls)
  have tail: "drop (Suc i) lines = ls" using Cons.prems by (metis drop_Suc list.sel(3) tl_drop)
  note IH = Cons.IH [OF tail]
  show ?case
  proof (cases "named_header l")
    case None
    with IH show ?thesis by (simp only: tables_of_Cons) (simp add: header_names_def map_filter_simps)
  next
    case (Some n)
    define t where "t = \<lparr>tt_name = n, tt_start = i, tt_end = table_end lines n i (headers_from (Suc i) ls)\<rparr>"
    have ok: "table_ok lines t" using table_ok_header [OF Cons.prems Some] by (simp add: t_def)
    have split: "ls = take (tt_end t - i) ls @ drop (Suc (tt_end t)) lines"
      using ok tail by (simp add: table_ok_def t_def)
        (metis (no_types, lifting) add_Suc_right append_take_drop_id drop_drop le_add_diff_inverse2)
    have "silent eng (drop (Suc (tt_end t)) lines)" using ok by (simp add: table_ok_def closes_quiet)
    from toml_entry_append [OF this, of n "take (tt_end t - i) ls"] split
    have "toml_entry n (read_string eng lines t) = toml_entry n (\<lambda>k. scan_string eng k ls)"
      by (simp add: read_string_def [abs_def] t_def tail)
    with IH ok Some show ?thesis
      by (simp only: tables_of_Cons) (auto simp: header_names_def map_filter_simps t_def split: option.splits)
  qed
qed

lemma tables_listed: "codex_servers eng lines = listed eng lines"
  using tables_walk [of 0 lines lines eng] by (simp add: codex_servers_def codex_tables_def)

lemma table_names: "map tt_name (codex_tables lines) = header_names lines"
  using tables_walk [of 0 lines lines] by (simp add: codex_tables_def)

lemma tables_ok: "t \<in> set (codex_tables lines) \<Longrightarrow> table_ok lines t"
  using tables_walk [of 0 lines lines] by (auto simp: codex_tables_def list_all_iff)

text \<open>The lines around a table.\<close>

lemma table_split:
  assumes "table_ok lines t"
  obtains pre hdr body post where "lines = pre @ hdr # body @ post" "pre = take (tt_start t) lines"
    "post = drop (Suc (tt_end t)) lines" "named_header hdr = Some (tt_name t)" "closes post"
    "list_all (\<lambda>l. named_header l = None) body"
proof
  let ?s = "tt_start t" and ?e = "tt_end t"
  have b: "?s \<le> ?e" "?e < length lines" using assms by (auto simp: table_ok_def)
  have "drop (Suc ?s) lines = take (?e - ?s) (drop (Suc ?s) lines) @ drop (Suc ?e) lines"
    using b by (metis (no_types, lifting) add_Suc_right append_take_drop_id drop_drop le_add_diff_inverse2)
  with b show "lines = take ?s lines @ lines ! ?s # take (?e - ?s) (drop (Suc ?s) lines) @ drop (Suc ?e) lines"
    by (metis id_take_nth_drop le_less_trans)
qed (use assms in \<open>auto simp: table_ok_def\<close>)

lemma header_quiet: "named_header l = Some n \<Longrightarrow> silent eng (l # ls)"
  by (simp add: silent_def named_header_bracket)

definition valid_codex :: "string list \<Rightarrow> bool" where
  "valid_codex lines \<longleftrightarrow> distinct (map tt_name (codex_tables lines))"

lemma listed_split:
  assumes "named_header hdr = Some n" "closes post" "list_all (\<lambda>l. named_header l = None) body"
  obtains es where "listed eng (pre @ hdr # body @ post) = listed eng pre @ es @ listed eng post"
    "listed eng (pre @ post) = listed eng pre @ listed eng post"
    "list_all (\<lambda>e. ref_of e = \<lparr>sf_name = n, sf_container = [mcp_servers]\<rparr>) es"
proof
  let ?e = "toml_entry n (\<lambda>key. scan_string eng key (body @ post))"
  let ?es = "case ?e of None \<Rightarrow> [] | Some e \<Rightarrow> [e]"
  note q = closes_quiet [OF assms(2), of eng]
  show "listed eng (pre @ post) = listed eng pre @ listed eng post" by (rule listed_append [OF q])
  show "listed eng (pre @ hdr # body @ post) = listed eng pre @ ?es @ listed eng post"
    using assms(1) by (subst listed_append [OF header_quiet [OF assms(1)]])
      (simp add: listed_append [OF q] listed_unnamed [OF assms(3)])
  show "list_all (\<lambda>e. ref_of e = \<lparr>sf_name = n, sf_container = [mcp_servers]\<rparr>) ?es"
    by (auto dest: toml_entry_ref split: option.splits)
qed

lemma names_split:
  assumes "named_header hdr = Some n" "list_all (\<lambda>l. named_header l = None) body"
  shows "header_names (pre @ hdr # body @ post) = header_names pre @ n # header_names post"
  using header_names_unnamed [OF assms(2)] assms(1)
  by (simp add: header_names_def map_filter_append map_filter_simps)

lemma find_table:
  assumes "n \<in> set (header_names lines)"
  obtains t where "List.find (\<lambda>t. tt_name t = n) (codex_tables lines) = Some t" "tt_name t = n" "table_ok lines t"
proof -
  have "\<exists>t. List.find (\<lambda>t. tt_name t = n) (codex_tables lines) = Some t"
    using assms by (auto simp: table_names [symmetric] find_None_iff not_None_eq [symmetric])
  then obtain t where t: "List.find (\<lambda>t. tt_name t = n) (codex_tables lines) = Some t" by blast
  then have "t \<in> set (codex_tables lines)" "tt_name t = n" by (auto simp: find_Some_iff)
  with t tables_ok that show ?thesis by blast
qed

lemma codex_remove_split:
  assumes "valid_codex lines" "r \<in> ref_of ` set (codex_servers eng lines)"
  shows "codex_servers eng (codex_remove r lines) = filter (\<lambda>e. ref_of e \<noteq> r) (codex_servers eng lines) \<and>
    valid_codex (codex_remove r lines)"
proof -
  let ?n = "sf_name r"
  from assms(2) listed_ref have n: "?n \<in> set (header_names lines)" and c: "sf_container r = [mcp_servers]"
    by (auto simp: tables_listed)
  from n obtain t where t: "List.find (\<lambda>t. tt_name t = ?n) (codex_tables lines) = Some t" "tt_name t = ?n"
    "table_ok lines t" by (rule find_table)
  from t(3) obtain pre hdr body post where s: "lines = pre @ hdr # body @ post"
    "pre = take (tt_start t) lines" "post = drop (Suc (tt_end t)) lines"
    "named_header hdr = Some (tt_name t)" "closes post" "list_all (\<lambda>l. named_header l = None) body"
    by (rule table_split)
  have rm: "codex_remove r lines = strip_blank_lines (pre @ post)"
    using t(1) s(2,3) by (simp add: codex_remove_def replace_table_def)
  obtain es where es: "listed eng (pre @ hdr # body @ post) = listed eng pre @ es @ listed eng post"
    "listed eng (pre @ post) = listed eng pre @ listed eng post"
    "list_all (\<lambda>e. ref_of e = \<lparr>sf_name = tt_name t, sf_container = [mcp_servers]\<rparr>) es"
    using s(4-6) by (rule listed_split)
  have names: "header_names lines = header_names pre @ ?n # header_names post"
    using names_split [OF s(4,6)] s(1) t(2) by simp
  with assms(1) have d: "distinct (header_names pre @ ?n # header_names post)"
    by (simp add: valid_codex_def table_names)
  have "filter (\<lambda>e. ref_of e \<noteq> r) es = []"
    using es(3) t(2) c by (auto simp: filter_empty_conv list_all_iff)
  moreover have "filter (\<lambda>e. ref_of e \<noteq> r) (listed eng ls) = listed eng ls"
    if "?n \<notin> set (header_names ls)" for ls
    using that by (intro filter_True) (auto dest: listed_ref)
  ultimately have "listed eng (pre @ post) = filter (\<lambda>e. ref_of e \<noteq> r) (listed eng lines)"
    using d es(1,2) s(1) by auto
  moreover have "distinct (header_names (pre @ post))" using d by (simp add: header_names_append)
  ultimately show ?thesis
    by (simp add: rm tables_listed listed_strip valid_codex_def table_names header_names_strip)
qed

lemma codex_refs_distinct:
  assumes "valid_codex lines"
  shows "distinct (map ref_of (codex_servers eng lines))"
proof -
  have "distinct (header_names ls) \<Longrightarrow> distinct (map ref_of (listed eng ls))" for ls
  proof (induction ls)
    case (Cons l ls)
    then show ?case
      by (auto simp: header_names_def map_filter_simps split: option.splits
          dest!: toml_entry_ref [OF sym] toml_entry_ref dest: listed_ref)
  qed simp
  with assms show ?thesis by (simp add: valid_codex_def table_names tables_listed)
qed

interpretation codex_file: server_document "codex_servers eng" codex_remove valid_codex for eng
  by unfold_locales (simp_all add: codex_remove_split codex_refs_distinct)

section \<open>The entry of the gateway\<close>

definition gateway_remote :: "string list \<Rightarrow> string option \<Rightarrow> gateway_spec \<Rightarrow> server_entry" where
  "gateway_remote container transport spec = Remote \<lparr>re_name = sp_name spec, re_url = sp_url spec,
     re_container = container, re_transport = transport\<rparr>"

text \<open>Another entry than that of the gateway.\<close>

definition foreign :: "string \<Rightarrow> string list \<Rightarrow> server_entry \<Rightarrow> bool" where
  "foreign name container e \<longleftrightarrow> ref_of e \<noteq> \<lparr>sf_name = name, sf_container = container\<rparr>"

lemma json_upsert_entries:
  assumes "jd_rootKey d \<noteq> ''projects''" "json_upsert spec d = Some d'"
  shows "filter (foreign (sp_name spec) [jd_rootKey d]) (json_servers d') =
    filter (foreign (sp_name spec) [jd_rootKey d]) (json_servers d)"
proof (cases "jd_document d")
  case (JObj es)
  let ?k = "jd_rootKey d" and ?P = "foreign (sp_name spec) [jd_rootKey d]"
  define ms where "ms = (case json_resolve (JObj es) [?k] of None \<Rightarrow> [] | Some m \<Rightarrow> m)"
  define v where "v = JObj (map_set es ?k (JObj (map_set ms (sp_name spec) (gateway_entry spec))))"
  have d': "d' = d\<lparr>jd_document := v\<rparr>" using assms(2) JObj by (simp add: json_upsert_def v_def ms_def Let_def)
  have "jget v ''projects'' = jget (jd_document d) ''projects''" using assms(1) JObj by (simp add: v_def)
  from containers_cong [OF this, of d] have cs: "json_containers d' = json_containers d" by (simp add: d')
  have set: "filter ?P (List.map_filter (json_entry [?k]) (map_set xs (sp_name spec) x)) =
      filter ?P (List.map_filter (json_entry [?k]) xs)" for xs x
    by (induction xs "sp_name spec" x rule: map_set.induct)
      (auto simp: map_filter_simps foreign_def json_entry_ref split: option.splits)
  have root: "filter ?P (container_entries v [?k]) = filter ?P (container_entries (jd_document d) [?k])"
    using set [of ms] JObj by (auto simp: container_entries_def v_def ms_def map_filter_simps split: option.splits json.splits)
  have other: "container_entries v q = container_entries (jd_document d) q"
    if "q \<in> set (tl (json_containers d))" for q
  proof -
    from that obtain p where "q = [''projects'', p, ?k]"
      by (auto simp: json_containers_def split: option.splits json.splits)
    with assms(1) JObj show ?thesis by (simp add: container_entries_def v_def)
  qed
  define rest where "rest = tl (json_containers d)"
  have split: "json_containers d = [?k] # rest" by (simp add: json_containers_def rest_def)
  have "concat (map (container_entries v) rest) = concat (map (container_entries (jd_document d)) rest)"
    using other by (simp add: rest_def cong: map_cong)
  then have "json_servers d' = container_entries v [?k] @ concat (map (container_entries (jd_document d)) rest)"
    using cs split by (simp add: json_servers_def) (simp add: d')
  moreover have "json_servers d = container_entries (jd_document d) [?k] @
      concat (map (container_entries (jd_document d)) rest)"
    using split by (simp add: json_servers_def)
  ultimately show ?thesis using root by simp
qed (use assms in \<open>auto simp: json_upsert_def\<close>)

lemma json_upsert_installed:
  assumes "json_upsert spec d = Some d'" "is_record (jd_document d)" "trim (sp_url spec) \<noteq> []"
  shows "gateway_remote [jd_rootKey d] (Some ''http'') spec \<in> set (json_servers d')"
proof -
  obtain es where es: "jd_document d = JObj es" using assms(2) by (cases "jd_document d") auto
  have "json_entry [jd_rootKey d] (sp_name spec, gateway_entry spec) =
      Some (gateway_remote [jd_rootKey d] (Some ''http'') spec)"
    using assms(3) by (simp add: json_entry_def gateway_entry_def gateway_remote_def)
  moreover have "(n, x) \<in> set (map_set xs n x)" for xs :: "(string \<times> json) list" and n x
    by (induction xs n x rule: map_set.induct) auto
  ultimately have "gateway_remote [jd_rootKey d] (Some ''http'') spec \<in>
      set (container_entries (jd_document d') [jd_rootKey d])"
    using assms(1) es by (force simp: json_upsert_def Let_def container_entries_def set_map_filter)
  moreover have "[jd_rootKey d] \<in> set (json_containers d')"
    using assms(1) es by (auto simp: json_upsert_def Let_def json_containers_def)
  ultimately show ?thesis by (auto simp: json_servers_def)
qed

text \<open>The string literals of the engine can be read from a line.\<close>

definition literal_reads_back :: "json_engine \<Rightarrow> string \<Rightarrow> bool" where
  "literal_reads_back eng s \<longleftrightarrow> parse_toml_string eng (je_show eng (JStr s)) = Some s \<and>
     list_all (\<lambda>c. c \<noteq> CHR 0x0A \<and> c \<noteq> CHR 0x0D) (je_show eng (JStr s))"

lemma trim_dropWhile: "trim (dropWhile is_space s) = trim s"
  by (simp add: trim_def)

lemma key_value_url:
  assumes "literal_reads_back eng u"
  shows "\<exists>raw. key_value ''url'' (''url = '' @ je_show eng (JStr u)) = Some raw \<and> parse_toml_string eng raw = Some u"
proof -
  let ?lit = "je_show eng (JStr u)"
  have sp: "\<not> is_space (CHR ''u'')" "\<not> is_space (CHR ''='')" "is_space (CHR '' '')"
    by (simp_all add: is_space_def code_def)
  have "list_all (\<lambda>x. x \<noteq> CHR 0x0A \<and> x \<noteq> CHR 0x0D) (dropWhile is_space ?lit)"
    using assms by (auto simp: literal_reads_back_def list_all_iff dest: set_dropWhileD)
  with sp have "key_value ''url'' (''url = '' @ ?lit) = Some (dropWhile is_space ?lit)"
    by (simp add: key_value_def starts_with_def)
  moreover have "parse_toml_string eng (dropWhile is_space ?lit) = Some u"
    using assms by (simp add: literal_reads_back_def parse_toml_string_def trim_dropWhile)
  ultimately show ?thesis by blast
qed

lemma bare_key_code: "is_bare_key n \<Longrightarrow> c \<in> set n \<Longrightarrow> 45 \<le> code c \<and> code c \<le> 122 \<and> code c \<noteq> 46"
  by (auto simp: is_bare_key_def list_all_iff is_alnum_def is_lower_def is_upper_def is_digit_def code_def
      dest!: bspec)

lemma bare_key_char:
  assumes "is_bare_key n" "c \<in> set n"
  shows "c \<noteq> CHR ''.'' \<and> c \<noteq> CHR ''#'' \<and> c \<noteq> CHR 0x22 \<and> c \<noteq> CHR 0x27 \<and> \<not> is_blank_char c \<and> \<not> is_space c"
  using bare_key_code [OF assms] by (auto simp: is_blank_char_def is_space_def code_def)

lemma comment_start_None: "CHR ''#'' \<notin> set s \<Longrightarrow> comment_start s = None"
  by (induction s) auto

lemma bare_key_trim:
  assumes "is_bare_key n"
  shows "trim n = n" "n \<noteq> []" "dropWhile is_blank_char (n @ s) = n @ s"
    "takeWhile (\<lambda>x. x \<noteq> CHR ''.'') n = n"
proof -
  show ne: "n \<noteq> []" using assms by (simp add: is_bare_key_def)
  then have hd: "hd n \<in> set n" and la: "last n \<in> set n" by simp_all
  have "dropWhile is_space n = n" "dropWhile is_blank_char (n @ s) = n @ s"
    using bare_key_char [OF assms hd] ne by (cases n; simp)+
  with bare_key_char [OF assms la] show "trim n = n" "dropWhile is_blank_char (n @ s) = n @ s"
    by (simp_all add: trim_def strip_trailing_id)
  show "takeWhile (\<lambda>x. x \<noteq> CHR ''.'') n = n"
    unfolding takeWhile_eq_all_conv using bare_key_char [OF assms] by blast
qed

lemma segments_word:
  assumes "is_bare_key n" "takeWhile (\<lambda>x. x \<noteq> CHR ''.'') (n @ s) = n" "after_dot (dropWhile (\<lambda>x. x \<noteq> CHR ''.'') (n @ s)) = Some t"
  shows "header_segments (n @ s) = map_option ((#) n) (header_segments t)"
proof -
  obtain c m where n: "n = c # m" using bare_key_trim(2) [OF assms(1)] by (cases n) auto
  have c: "c \<noteq> CHR 0x22" "c \<noteq> CHR 0x27" using bare_key_char [OF assms(1), of c] by (auto simp: n)
  have "dropWhile is_blank_char (n @ s) = c # (m @ s)" using bare_key_trim(3) [OF assms(1)] by (simp add: n)
  with assms(2,3) bare_key_trim(1,2) [OF assms(1)] c show ?thesis
    by (subst header_segments.simps) (simp add: n)
qed

lemma segments_bare:
  assumes "is_bare_key n"
  shows "header_segments n = Some [n]"
proof -
  have "dropWhile (\<lambda>x. x \<noteq> CHR ''.'') n = []"
    unfolding dropWhile_eq_Nil_conv using bare_key_char [OF assms] by blast
  with segments_word [OF assms, of "[]" "[]"] bare_key_trim(4) [OF assms] show ?thesis
    by (simp add: after_dot_def header_segments.simps [of "[]"])
qed

lemma segments_dot:
  assumes "is_bare_key m"
  shows "header_segments (m @ CHR ''.'' # n) = map_option ((#) m) (header_segments n)"
proof (rule segments_word [OF assms])
  have m: "x \<in> set m \<Longrightarrow> x \<noteq> CHR ''.''" for x using bare_key_char [OF assms] by blast
  show "takeWhile (\<lambda>x. x \<noteq> CHR ''.'') (m @ CHR ''.'' # n) = m"
    using m by (subst takeWhile_append2) auto
  have "dropWhile (\<lambda>x. x \<noteq> CHR ''.'') (m @ CHR ''.'' # n) = CHR ''.'' # n"
    using m by (subst dropWhile_append2) auto
  moreover have "\<not> is_blank_char (CHR ''.'')" by (simp add: is_blank_char_def)
  ultimately show "after_dot (dropWhile (\<lambda>x. x \<noteq> CHR ''.'') (m @ CHR ''.'' # n)) = Some n"
    by (simp add: after_dot_def)
qed

lemma bare_mcp_servers: "is_bare_key mcp_servers"
  by code_simp

lemma gateway_header:
  assumes "is_bare_key n"
  shows "named_header (''[mcp_servers.'' @ n @ '']'') = Some n"
proof -
  let ?l = "''[mcp_servers.'' @ n @ '']''"
  have n: "CHR ''#'' \<notin> set n" using bare_key_char [OF assms] by blast
  have sp: "\<not> is_space (CHR ''['')" "\<not> is_space (CHR '']'')" by (simp_all add: is_space_def code_def)
  have "trim ?l = ?l" using sp by (simp add: trim_def strip_trailing_id)
  moreover have "without_comment ?l = ?l" using n by (simp add: without_comment_def comment_start_None)
  moreover have "header_segments (''mcp_servers.'' @ n) = Some [mcp_servers, n]"
    using segments_dot [OF bare_mcp_servers, of n] segments_bare [OF assms] by (simp add: mcp_servers_def)
  moreover have "ends_with '']'' ?l" by (simp add: ends_with_def starts_with_def)
  ultimately have "parse_table_header ?l = Some [mcp_servers, n]"
    by (simp add: parse_table_header_def starts_with_def butlast_append)
  then show ?thesis
    by (simp add: named_header_def header_of_def is_bracket_def sp starts_with_def server_name_def)
qed

text \<open>The flag stands before the first header, where no entry is.\<close>

definition plain_lines :: "string list \<Rightarrow> bool" where
  "plain_lines ls \<longleftrightarrow> list_all (\<lambda>l. \<not> is_bracket l) ls"

lemma plain_unnamed: "plain_lines ls \<Longrightarrow> listed eng ls = [] \<and> header_names ls = []"
proof -
  assume "plain_lines ls"
  then have "list_all (\<lambda>l. named_header l = None) ls"
    using named_header_bracket by (fastforce simp: plain_lines_def list_all_iff)
  then show ?thesis by (simp add: listed_unnamed header_names_unnamed)
qed

lemma flag_line_plain: "\<not> is_bracket flag_line"
  by code_simp

lemma set_flag_plain: "plain_lines ls \<Longrightarrow> set_flag ls = Some ls' \<Longrightarrow> plain_lines ls'"
  by (induction ls arbitrary: ls') (auto simp: plain_lines_def flag_line_plain split: if_splits)

lemma listed_ensure_flag:
  "listed eng (ensure_flag ls) = listed eng ls \<and> header_names (ensure_flag ls) = header_names ls"
proof -
  let ?b = "takeWhile (\<lambda>l. \<not> is_bracket l) ls" and ?r = "dropWhile (\<lambda>l. \<not> is_bracket l) ls"
  define b' where "b' = (case set_flag ?b of None \<Rightarrow> ?b @ [flag_line, []] | Some xs \<Rightarrow> xs)"
  have b: "plain_lines ?b" by (auto simp: plain_lines_def list_all_iff dest: set_takeWhileD)
  have "\<not> is_bracket []" by (simp add: is_bracket_def starts_with_def)
  with b have b': "plain_lines b'"
    using set_flag_plain [OF b] by (auto simp: b'_def plain_lines_def flag_line_plain split: option.splits)
  have "closes ?r"
  proof (cases ?r)
    case (Cons l r)
    then have "is_bracket l" by (metis hd_dropWhile list.distinct(1) list.sel(1))
    with Cons show ?thesis using blank_not_bracket [of l] by (auto simp: closes_def)
  next
    case Nil
    show ?thesis by (simp only: Nil) (simp add: closes_def)
  qed
  then have q: "silent eng ?r" by (rule closes_quiet)
  have "ensure_flag ls = b' @ ?r" by (simp add: ensure_flag_def b'_def Let_def)
  moreover have "ls = ?b @ ?r" by simp
  ultimately show ?thesis
    using listed_append [OF q] plain_unnamed [OF b, of eng] plain_unnamed [OF b', of eng]
    by (metis append_Nil header_names_append)
qed

lemma listed_block:
  assumes "is_bare_key (sp_name spec)" "sp_url spec \<noteq> []" "literal_reads_back eng (sp_url spec)"
  shows "listed eng (gateway_block eng spec) = [gateway_remote [mcp_servers] None spec]"
    and "closes (gateway_block eng spec @ ls)"
proof -
  define hdr where "hdr = ''[mcp_servers.'' @ sp_name spec @ '']''"
  define line where "line = ''url = '' @ je_show eng (JStr (sp_url spec))"
  obtain more where block: "gateway_block eng spec = hdr # line # more"
    and more: "list_all (\<lambda>l. named_header l = None) more"
  proof
    show "gateway_block eng spec = hdr # line # (case nonempty (sp_bearerTokenEnvVar spec) of
        Some v \<Rightarrow> [''bearer_token_env_var = '' @ toml_string eng v]
      | None \<Rightarrow> (case nonempty (sp_bearerToken spec) of
          Some v \<Rightarrow> [''bearer_token = '' @ toml_string eng v] | None \<Rightarrow> []))"
      using assms(1) by (simp add: gateway_block_def hdr_def line_def toml_key_def toml_string_def)
    have "named_header (CHR ''b'' # s) = None" for s
      by (simp add: named_header_def header_of_def is_bracket_def is_space_def code_def starts_with_def)
    then show "list_all (\<lambda>l. named_header l = None) (case nonempty (sp_bearerTokenEnvVar spec) of
        Some v \<Rightarrow> [''bearer_token_env_var = '' @ toml_string eng v]
      | None \<Rightarrow> (case nonempty (sp_bearerToken spec) of
          Some v \<Rightarrow> [''bearer_token = '' @ toml_string eng v] | None \<Rightarrow> []))"
      by (simp split: option.splits)
  qed
  have h: "named_header hdr = Some (sp_name spec)" using gateway_header [OF assms(1)] by (simp add: hdr_def)
  have l: "\<not> is_bracket line" by (simp add: line_def is_bracket_def is_space_def code_def starts_with_def)
  then have "named_header line = None" by (simp add: named_header_def header_of_def)
  moreover obtain raw where "key_value ''url'' line = Some raw" "parse_toml_string eng raw = Some (sp_url spec)"
    using key_value_url [OF assms(3)] by (auto simp: line_def)
  moreover obtain c u where "sp_url spec = c # u" using assms(2) by (cases "sp_url spec") auto
  ultimately show "listed eng (gateway_block eng spec) = [gateway_remote [mcp_servers] None spec]"
    using h l more by (simp add: block listed_unnamed toml_entry_def nonempty_def gateway_remote_def)
  show "closes (gateway_block eng spec @ ls)"
    using named_header_bracket [OF h] blank_not_bracket [of hdr] by (auto simp: block closes_def)
qed

lemma codex_upsert_entries:
  assumes "is_bare_key (sp_name spec)" "sp_url spec \<noteq> []" "literal_reads_back eng (sp_url spec)"
  shows "gateway_remote [mcp_servers] None spec \<in> set (codex_servers eng (codex_upsert eng spec ls))"
    and "filter (foreign (sp_name spec) [mcp_servers]) (codex_servers eng (codex_upsert eng spec ls)) =
      filter (foreign (sp_name spec) [mcp_servers]) (codex_servers eng ls)"
proof -
  let ?g = "gateway_remote [mcp_servers] None spec" and ?P = "foreign (sp_name spec) [mcp_servers]"
  let ?block = "gateway_block eng spec" and ?ls = "ensure_flag ls"
  have g: "\<not> ?P ?g" by (simp add: foreign_def gateway_remote_def)
  have "?g \<in> set (listed eng (codex_upsert eng spec ls)) \<and>
    filter ?P (listed eng (codex_upsert eng spec ls)) = filter ?P (listed eng ?ls)"
  proof (cases "sp_name spec \<in> set (header_names ?ls)")
    case True
    then obtain t where t: "List.find (\<lambda>t. tt_name t = sp_name spec) (codex_tables ?ls) = Some t"
      "tt_name t = sp_name spec" "table_ok ?ls t" by (rule find_table)
    from t(3) obtain pre hdr body post where s: "?ls = pre @ hdr # body @ post"
      "pre = take (tt_start t) ?ls" "post = drop (Suc (tt_end t)) ?ls"
      "named_header hdr = Some (tt_name t)" "closes post" "list_all (\<lambda>l. named_header l = None) body"
      by (rule table_split)
    obtain es where es: "listed eng (pre @ hdr # body @ post) = listed eng pre @ es @ listed eng post"
      "listed eng (pre @ post) = listed eng pre @ listed eng post"
      "list_all (\<lambda>e. ref_of e = \<lparr>sf_name = tt_name t, sf_container = [mcp_servers]\<rparr>) es"
      using s(4-6) by (rule listed_split)
    have "codex_upsert eng spec ls = pre @ ?block @ post"
      using t(1) s(2,3) by (simp add: codex_upsert_def replace_table_def Let_def)
    moreover have "listed eng (pre @ ?block @ post) = listed eng pre @ ?g # listed eng post"
      using listed_append [OF closes_quiet [OF listed_block(2) [OF assms, of post]], where xs = pre and eng = eng]
        listed_append [OF closes_quiet [OF s(5)], where xs = ?block and eng = eng] listed_block(1) [OF assms] by simp
    moreover have "filter ?P es = []" using es(3) t(2) by (auto simp: filter_empty_conv list_all_iff foreign_def)
    ultimately show ?thesis using es(1) s(1) g by simp
  next
    case False
    then have "List.find (\<lambda>t. tt_name t = sp_name spec) (codex_tables ?ls) = None"
      unfolding find_None_iff table_names [symmetric] by force
    then obtain gap where up: "codex_upsert eng spec ls = ?ls @ gap @ ?block" "gap = [] \<or> gap = [[]]"
      by (auto simp: codex_upsert_def Let_def)
    have "closes (gap @ ?block)"
      using up(2) listed_block(2) [OF assms, of "[]"] by (auto simp: closes_def is_blank_def trim_def)
    moreover have "listed eng (gap @ ?block) = [?g]"
      using up(2) listed_block(1) [OF assms]
      by (auto simp: named_header_def header_of_def is_bracket_def starts_with_def)
    ultimately show ?thesis using listed_append [OF closes_quiet, where ys = "gap @ ?block" and eng = eng and xs = ?ls] up(1) g by simp
  qed
  then show "?g \<in> set (codex_servers eng (codex_upsert eng spec ls))"
    and "filter ?P (codex_servers eng (codex_upsert eng spec ls)) = filter ?P (codex_servers eng ls)"
    by (simp_all add: tables_listed listed_ensure_flag)
qed

end
