(* ===== verification/Migration.thy ===== *)
theory Migration
  imports Client_Documents
begin

text \<open>
  \<^verbatim>\<open>apps/migration-cli/src\<close>: which files the MCP clients of a machine keep their servers in
  (\<^verbatim>\<open>clients.ts\<close>), what is found there (\<^verbatim>\<open>discovery.ts\<close>), the plans that add the gateway and remove
  what it has taken over (\<^verbatim>\<open>plan.ts\<close>), the backups behind them (\<^verbatim>\<open>backup.ts\<close>) and the commands
  (\<^verbatim>\<open>commands.ts\<close>, \<^verbatim>\<open>main.ts\<close>). The printed text is left out; the answers of the gateway and the
  functions of \<open>node:path\<close> are parameters.
\<close>

section \<open>Clients\<close>

text \<open>The functions of \<open>node:path\<close> on the platform of the process.\<close>

record path_library =
  pl_join :: "string list \<Rightarrow> string"
  pl_resolve :: "string \<Rightarrow> string"
  pl_dirname :: "string \<Rightarrow> string"
  pl_basename :: "string \<Rightarrow> string"

datatype config_scope = User_Scope | Project_Scope

record path_context =
  pc_home :: string
  pc_cwd :: string
  pc_platform :: string
  pc_env :: "(string \<times> string) list"

record config_location =
  cl_clientId :: string
  cl_clientLabel :: string
  cl_format :: config_format
  cl_scope :: config_scope
  cl_path :: string
  cl_creatable :: bool
  cl_evidencePath :: "string option"

record client_definition =
  cd_id :: string
  cd_label :: string
  cd_format :: config_format
  cd_envReference :: "(string \<Rightarrow> string) option"
  cd_places :: "path_library \<Rightarrow> path_context \<Rightarrow> (config_scope \<times> string \<times> bool \<times> string option) list"

definition place_location :: "client_definition \<Rightarrow> config_scope \<times> string \<times> bool \<times> string option \<Rightarrow> config_location" where
  "place_location client place = (case place of (scope, path, creatable, evidence) \<Rightarrow>
     \<lparr>cl_clientId = cd_id client, cl_clientLabel = cd_label client, cl_format = cd_format client,
      cl_scope = scope, cl_path = path, cl_creatable = creatable, cl_evidencePath = evidence\<rparr>)"

definition client_locations :: "path_library \<Rightarrow> path_context \<Rightarrow> client_definition \<Rightarrow> config_location list" where
  "client_locations pl ctx client = map (place_location client) (cd_places client pl ctx)"

definition cursor :: client_definition where
  "cursor = \<lparr>cd_id = ''cursor'', cd_label = ''Cursor'', cd_format = Json_Mcp_Servers,
     cd_envReference = Some (\<lambda>v. ''${env:'' @ v @ ''}''),
     cd_places = (\<lambda>pl ctx.
       [(User_Scope, pl_join pl [pc_home ctx, ''.cursor'', ''mcp.json''], True,
          Some (pl_join pl [pc_home ctx, ''.cursor''])),
        (Project_Scope, pl_join pl [pc_cwd ctx, ''.cursor'', ''mcp.json''], False, None)])\<rparr>"

definition claude_code :: client_definition where
  "claude_code = \<lparr>cd_id = ''claude-code'', cd_label = ''Claude Code'', cd_format = Json_Mcp_Servers,
     cd_envReference = Some (\<lambda>v. ''${'' @ v @ ''}''),
     cd_places = (\<lambda>pl ctx.
       [(User_Scope, pl_join pl [pc_home ctx, ''.claude.json''], True,
          Some (pl_join pl [pc_home ctx, ''.claude''])),
        (Project_Scope, pl_join pl [pc_cwd ctx, ''.mcp.json''], False, None)])\<rparr>"

definition desktop_path :: "path_library \<Rightarrow> path_context \<Rightarrow> string" where
  "desktop_path pl ctx =
     (let f = ''claude_desktop_config.json'' in
      if pc_platform ctx = ''darwin''
      then pl_join pl [pc_home ctx, ''Library'', ''Application Support'', ''Claude'', f]
      else if pc_platform ctx = ''win32''
      then pl_join pl [(case map_of (pc_env ctx) ''APPDATA'' of Some a \<Rightarrow> a
             | None \<Rightarrow> pl_join pl [pc_home ctx, ''AppData'', ''Roaming'']), ''Claude'', f]
      else pl_join pl [pc_home ctx, ''.config'', ''Claude'', f])"

definition claude_desktop :: client_definition where
  "claude_desktop = \<lparr>cd_id = ''claude-desktop'', cd_label = ''Claude Desktop'', cd_format = Json_Mcp_Servers,
     cd_envReference = None,
     cd_places = (\<lambda>pl ctx. [(User_Scope, desktop_path pl ctx, False, None)])\<rparr>"

definition codex :: client_definition where
  "codex = \<lparr>cd_id = ''codex'', cd_label = ''Codex'', cd_format = Toml_Codex,
     cd_envReference = Some (\<lambda>v. v),
     cd_places = (\<lambda>pl ctx.
       [(User_Scope, pl_join pl [pc_home ctx, ''.codex'', ''config.toml''], True,
          Some (pl_join pl [pc_home ctx, ''.codex''])),
        (Project_Scope, pl_join pl [pc_cwd ctx, ''.codex'', ''config.toml''], False, None)])\<rparr>"

definition vscode :: client_definition where
  "vscode = \<lparr>cd_id = ''vscode'', cd_label = ''VS Code'', cd_format = Json_Vscode,
     cd_envReference = Some (\<lambda>v. ''${env:'' @ v @ ''}''),
     cd_places = (\<lambda>pl ctx. [(Project_Scope, pl_join pl [pc_cwd ctx, ''.vscode'', ''mcp.json''], False, None)])\<rparr>"

definition clients :: "client_definition list" where
  "clients = [cursor, claude_code, claude_desktop, codex, vscode]"

definition client_by_id :: "string \<Rightarrow> client_definition option" where
  "client_by_id i = List.find (\<lambda>c. cd_id c = i) clients"

text \<open>The first location of each file.\<close>

fun first_paths :: "path_library \<Rightarrow> string list \<Rightarrow> config_location list \<Rightarrow> config_location list" where
  "first_paths pl seen [] = []"
| "first_paths pl seen (l # ls) =
     (let key = pl_resolve pl (cl_path l) in
      if key \<in> set seen then first_paths pl seen ls else l # first_paths pl (key # seen) ls)"

definition candidate_locations :: "path_library \<Rightarrow> path_context \<Rightarrow> string list \<Rightarrow> config_location list" where
  "candidate_locations pl ctx clientIds =
     first_paths pl [] (concat (map (client_locations pl ctx)
       (if clientIds = [] then clients else filter (\<lambda>c. cd_id c \<in> set clientIds) clients)))"

section \<open>The disk\<close>

record backup_entry =
  be_path :: string
  be_copy :: "string option"
  be_existed :: bool

record backup_manifest =
  bm_id :: string
  bm_createdAt :: string
  bm_command :: string
  bm_entries :: "backup_entry list"

text \<open>
  The directory of a backup: the copies in it by name, and its manifest where \<open>JSON.parse\<close> can read
  one. The disk holds the files of the clients apart_paths from the directories under \<open>backups\<close>, which have
  the backups' ids as names; a copy is identified by its name in the directory of its backup.
  \<open>dk_refuses\<close> are the paths that cannot be written.
\<close>

record backup_dir =
  bd_copies :: "(string \<times> string) list"
  bd_manifest :: "backup_manifest option"

record disk =
  dk_files :: "(string \<times> string) list"
  dk_dirs :: "string list"
  dk_backups :: "(string \<times> backup_dir) list"
  dk_refuses :: "string list"
  dk_full :: bool

definition write_file :: "string \<Rightarrow> string \<Rightarrow> disk \<Rightarrow> bool \<times> disk" where
  "write_file path contents d =
     (if path \<in> set (dk_refuses d) then (False, d)
      else (True, d\<lparr>dk_files := map_set (dk_files d) path contents\<rparr>))"

definition remove_file :: "string \<Rightarrow> disk \<Rightarrow> bool \<times> disk" where
  "remove_file path d =
     (if path \<in> set (dk_refuses d) then (False, d)
      else (True, d\<lparr>dk_files := map_delete (dk_files d) path\<rparr>))"

definition accessible :: "string \<Rightarrow> disk \<Rightarrow> bool" where
  "accessible path d \<longleftrightarrow> map_of (dk_files d) path \<noteq> None \<or> path \<in> set (dk_dirs d)"

fun with_ancestors :: "(string \<Rightarrow> string) \<Rightarrow> nat \<Rightarrow> string \<Rightarrow> string list" where
  "with_ancestors dirname 0 path = [path]"
| "with_ancestors dirname (Suc n) path =
     path # (if dirname path = path then [] else with_ancestors dirname n (dirname path))"

definition make_dir :: "path_library \<Rightarrow> string \<Rightarrow> disk \<Rightarrow> disk" where
  "make_dir pl path d = d\<lparr>dk_dirs := unique (dk_dirs d @ with_ancestors (pl_dirname pl) (length path) path)\<rparr>"

section \<open>Discovery\<close>

record loaded_config =
  lc_location :: config_location
  lc_exists :: bool
  lc_error :: "string option"
  lc_document :: "config_document option"
  lc_remote :: "remote_entry list"
  lc_local :: "local_entry list"

definition unloaded :: "config_location \<Rightarrow> bool \<Rightarrow> string option \<Rightarrow> loaded_config" where
  "unloaded loc present err = \<lparr>lc_location = loc, lc_exists = present, lc_error = err,
     lc_document = None, lc_remote = [], lc_local = []\<rparr>"

text \<open>What reading a property of \<open>null\<close> throws.\<close>

definition null_document :: string where
  "null_document = ''Cannot read properties of null (reading '' @ [CHR 0x27] @ ''projects'' @ [CHR 0x27] @ '')''"

definition load_client_config :: "json_engine \<Rightarrow> disk \<Rightarrow> config_location \<Rightarrow> loaded_config" where
  "load_client_config eng d loc =
     (case map_of (dk_files d) (cl_path loc) of
        None \<Rightarrow> unloaded loc False None
      | Some raw \<Rightarrow> (case parse_config_document eng (cl_format loc) raw of
          None \<Rightarrow> unloaded loc True (Some (je_message eng (strip_json_comments raw)))
        | Some doc \<Rightarrow> (case document_servers eng doc of
            None \<Rightarrow> unloaded loc True (Some null_document)
          | Some es \<Rightarrow> \<lparr>lc_location = loc, lc_exists = True, lc_error = None, lc_document = Some doc,
              lc_remote = remote_of es, lc_local = local_of es\<rparr>)))"

definition load_configs :: "json_engine \<Rightarrow> path_library \<Rightarrow> disk \<Rightarrow> path_context \<Rightarrow> string list \<Rightarrow> loaded_config list" where
  "load_configs eng pl d ctx clientIds = map (load_client_config eng d) (candidate_locations pl ctx clientIds)"

record server_source =
  so_clientId :: string
  so_clientLabel :: string
  so_path :: string
  so_name :: string
  so_rawUrl :: string

record discovered_server =
  di_canonicalUrl :: string
  di_suggestedAlias :: string
  di_sources :: "server_source list"

datatype skip_reason = Skipped_Stdio | Skipped_Gateway | Skipped_Unusable_Url

record discovery_state =
  dv_byUrl :: "(string \<times> discovered_server) list"
  dv_skipped :: "(server_source \<times> skip_reason) list"

definition safe_canonical :: "url_parser \<Rightarrow> bool \<Rightarrow> string \<Rightarrow> string option" where
  "safe_canonical parse allowHttp url =
     (if trim url = [] then None
      else case canonicalize_url parse \<lparr>up_allowHttp = allowHttp\<rparr> url of Inl e \<Rightarrow> None | Inr c \<Rightarrow> Some c)"

definition describe :: "loaded_config \<Rightarrow> string \<Rightarrow> string \<Rightarrow> server_source" where
  "describe config name rawUrl =
     \<lparr>so_clientId = cl_clientId (lc_location config), so_clientLabel = cl_clientLabel (lc_location config),
      so_path = cl_path (lc_location config), so_name = name, so_rawUrl = rawUrl\<rparr>"

definition skip_source :: "server_source \<Rightarrow> skip_reason \<Rightarrow> discovery_state \<Rightarrow> discovery_state" where
  "skip_source src reason s = s\<lparr>dv_skipped := dv_skipped s @ [(src, reason)]\<rparr>"

definition add_source :: "string \<Rightarrow> server_source \<Rightarrow> discovery_state \<Rightarrow> discovery_state" where
  "add_source url src s = s\<lparr>dv_byUrl := map_set (dv_byUrl s) url
     (case map_of (dv_byUrl s) url of
        Some server \<Rightarrow> server\<lparr>di_sources := di_sources server @ [src]\<rparr>
      | None \<Rightarrow> \<lparr>di_canonicalUrl = url, di_suggestedAlias = so_name src, di_sources = [src]\<rparr>)\<rparr>"

definition discover_entry ::
  "(string \<Rightarrow> string option) \<Rightarrow> string option \<Rightarrow> loaded_config \<Rightarrow> remote_entry \<Rightarrow> discovery_state \<Rightarrow> discovery_state" where
  "discover_entry canonical gatewayUrl config entry s =
     (let source = describe config (re_name entry) (re_url entry) in
      case canonical (re_url entry) of
        None \<Rightarrow> skip_source source Skipped_Unusable_Url s
      | Some url \<Rightarrow> if gatewayUrl = Some url then skip_source source Skipped_Gateway s
                   else add_source url source s)"

definition discover_config ::
  "(string \<Rightarrow> string option) \<Rightarrow> string option \<Rightarrow> loaded_config \<Rightarrow> discovery_state \<Rightarrow> discovery_state" where
  "discover_config canonical gatewayUrl config s =
     fold (discover_entry canonical gatewayUrl config) (lc_remote config)
       (fold (\<lambda>l. skip_source (describe config (le_name l) (le_command l)) Skipped_Stdio) (lc_local config) s)"

definition discover ::
  "url_parser \<Rightarrow> bool \<Rightarrow> string \<Rightarrow> loaded_config list \<Rightarrow> discovered_server list \<times> (server_source \<times> skip_reason) list" where
  "discover parse allowHttp gatewayMcpUrl configs =
     (let canonical = safe_canonical parse allowHttp;
          s = fold (discover_config canonical (canonical gatewayMcpUrl)) configs \<lparr>dv_byUrl = [], dv_skipped = []\<rparr>
      in (map snd (dv_byUrl s), dv_skipped s))"

section \<open>Plans\<close>

datatype change_action = Create_File | Update_File

record file_change =
  fc_path :: string
  fc_clientId :: string
  fc_clientLabel :: string
  fc_action :: change_action
  fc_contents :: string
  fc_summary :: string

record skipped_location =
  sl_location :: config_location
  sl_reason :: string

record plan =
  pn_changes :: "file_change list"
  pn_skipped :: "skipped_location list"

record install_options =
  in_gatewayMcpUrl :: string
  in_entryName :: string
  in_apiKey :: string
  in_apiKeyEnvVar :: string
  in_inlineKey :: bool
  in_clientIds :: "string list"

text \<open>What the loop does with one configuration: a skip, a change, neither, or an exception.\<close>

datatype plan_step = Skip_Location skipped_location | Change_File file_change | Leave_File | Plan_Throws

definition in_quotes :: "string \<Rightarrow> string" where
  "in_quotes s = [CHR 0x22] @ s @ [CHR 0x22]"

definition skip_because :: "config_location \<Rightarrow> string \<Rightarrow> plan_step" where
  "skip_because loc reason = Skip_Location \<lparr>sl_location = loc, sl_reason = reason\<rparr>"

definition is_installed :: "disk \<Rightarrow> config_location \<Rightarrow> bool" where
  "is_installed d loc = (case cl_evidencePath loc of None \<Rightarrow> True | Some p \<Rightarrow> accessible p d)"

definition install_spec :: "install_options \<Rightarrow> (string \<Rightarrow> string) option \<Rightarrow> gateway_spec" where
  "install_spec opt envReference =
     (let useEnv = \<not> in_inlineKey opt \<and> envReference \<noteq> None;
          reference = (if useEnv then the envReference (in_apiKeyEnvVar opt) else in_apiKey opt) in
      \<lparr>sp_name = in_entryName opt, sp_url = in_gatewayMcpUrl opt, sp_authorization = ''Bearer '' @ reference,
       sp_bearerTokenEnvVar = (if useEnv then Some (in_apiKeyEnvVar opt) else None),
       sp_bearerToken = (if useEnv then None else Some (in_apiKey opt))\<rparr>)"

definition install_document :: "json_engine \<Rightarrow> loaded_config \<Rightarrow> config_document option" where
  "install_document eng config =
     (case lc_document config of
        Some doc \<Rightarrow> Some doc | None \<Rightarrow> parse_config_document eng (cl_format (lc_location config)) [])"

definition install_change :: "json_engine \<Rightarrow> install_options \<Rightarrow> gateway_spec \<Rightarrow> loaded_config \<Rightarrow> plan_step" where
  "install_change eng opt spec config =
     (let loc = lc_location config in
      case install_document eng config of
        None \<Rightarrow> Plan_Throws
      | Some doc \<Rightarrow> (case document_upsert eng spec doc of
          None \<Rightarrow> Plan_Throws
        | Some doc' \<Rightarrow>
            let before = document_serialize eng doc; after = document_serialize eng doc' in
            if lc_exists config \<and> after = before then Leave_File
            else Change_File \<lparr>fc_path = cl_path loc, fc_clientId = cl_clientId loc,
              fc_clientLabel = cl_clientLabel loc,
              fc_action = (if lc_exists config then Update_File else Create_File), fc_contents = after,
              fc_summary = ''add MCP server '' @ in_quotes (in_entryName opt) @ '' pointing at '' @
                in_gatewayMcpUrl opt\<rparr>))"

definition install_step :: "json_engine \<Rightarrow> disk \<Rightarrow> install_options \<Rightarrow> loaded_config \<Rightarrow> plan_step" where
  "install_step eng d opt config =
     (let loc = lc_location config in
      if \<not> lc_exists config \<and> \<not> cl_creatable loc
      then skip_because loc ''no configuration file for this client''
      else if \<not> lc_exists config \<and> cl_clientId loc \<notin> set (in_clientIds opt) \<and> \<not> is_installed d loc
      then skip_because loc (cl_clientLabel loc @ '' does not appear to be installed; pass --client '' @
             cl_clientId loc @ '' to write its configuration anyway'')
      else if lc_exists config \<and> nonempty (lc_error config) \<noteq> None
      then skip_because loc (''could not be parsed: '' @ the (lc_error config))
      else case client_by_id (cl_clientId loc) of
        None \<Rightarrow> Leave_File
      | Some client \<Rightarrow>
          let useEnv = \<not> in_inlineKey opt \<and> cd_envReference client \<noteq> None in
          if \<not> useEnv \<and> \<not> in_inlineKey opt
          then skip_because loc (cl_clientLabel loc @ '' cannot read an environment variable, so the '' @
                 ''gateway key would be stored in plain text; re-run with --inline-key to allow it'')
          else if \<not> useEnv \<and> in_apiKey opt = [] then skip_because loc ''no gateway key to write''
          else install_change eng opt (install_spec opt (cd_envReference client)) config)"

fun collect :: "plan_step list \<Rightarrow> plan option" where
  "collect [] = Some \<lparr>pn_changes = [], pn_skipped = []\<rparr>"
| "collect (st # sts) =
     (case st of
        Plan_Throws \<Rightarrow> None
      | Leave_File \<Rightarrow> collect sts
      | Skip_Location s \<Rightarrow> map_option (\<lambda>p. p\<lparr>pn_skipped := s # pn_skipped p\<rparr>) (collect sts)
      | Change_File c \<Rightarrow> map_option (\<lambda>p. p\<lparr>pn_changes := c # pn_changes p\<rparr>) (collect sts))"

definition plan_install ::
  "json_engine \<Rightarrow> path_library \<Rightarrow> disk \<Rightarrow> path_context \<Rightarrow> install_options \<Rightarrow> plan option" where
  "plan_install eng pl d ctx opt =
     collect (map (install_step eng d opt) (load_configs eng pl d ctx (in_clientIds opt)))"

record prune_options =
  pr_migratedUrls :: "string list"
  pr_canonicalize :: "string \<Rightarrow> string option"
  pr_entryName :: string
  pr_clientIds :: "string list"

definition is_migrated :: "prune_options \<Rightarrow> remote_entry \<Rightarrow> bool" where
  "is_migrated opt entry \<longleftrightarrow> re_name entry \<noteq> pr_entryName opt \<and>
     (case pr_canonicalize opt (re_url entry) of None \<Rightarrow> False | Some u \<Rightarrow> u \<in> set (pr_migratedUrls opt))"

definition remote_ref :: "remote_entry \<Rightarrow> server_ref" where
  "remote_ref entry = \<lparr>sf_name = re_name entry, sf_container = re_container entry\<rparr>"

definition prune_change :: "json_engine \<Rightarrow> loaded_config \<Rightarrow> config_document \<Rightarrow> remote_entry list \<Rightarrow> file_change" where
  "prune_change eng config doc removable =
     (let loc = lc_location config in
      \<lparr>fc_path = cl_path loc, fc_clientId = cl_clientId loc, fc_clientLabel = cl_clientLabel loc,
       fc_action = Update_File,
       fc_contents = document_serialize eng (fold document_remove (map remote_ref removable) doc),
       fc_summary = ''remove '' @ join '', '' (map (\<lambda>e. in_quotes (re_name e)) removable)\<rparr>)"

definition prune_step :: "json_engine \<Rightarrow> prune_options \<Rightarrow> loaded_config \<Rightarrow> plan_step" where
  "prune_step eng opt config =
     (if \<not> lc_exists config then Leave_File
      else case (nonempty (lc_error config), lc_document config) of
        (None, Some doc) \<Rightarrow>
          let removable = filter (is_migrated opt) (lc_remote config) in
          if removable = [] then Leave_File else Change_File (prune_change eng config doc removable)
      | _ \<Rightarrow> skip_because (lc_location config) (''could not be parsed: '' @
               (case lc_error config of None \<Rightarrow> ''unknown error'' | Some m \<Rightarrow> m)))"

definition prune_plan_for :: "json_engine \<Rightarrow> loaded_config list \<Rightarrow> prune_options \<Rightarrow> plan option" where
  "prune_plan_for eng configs opt = collect (map (prune_step eng opt) configs)"

definition plan_prune ::
  "json_engine \<Rightarrow> path_library \<Rightarrow> disk \<Rightarrow> path_context \<Rightarrow> prune_options \<Rightarrow> plan option" where
  "plan_prune eng pl d ctx opt = prune_plan_for eng (load_configs eng pl d ctx (pr_clientIds opt)) opt"

section \<open>Backups\<close>

definition default_state_dir :: "path_library \<Rightarrow> (string \<times> string) list \<Rightarrow> string \<Rightarrow> string" where
  "default_state_dir pl env home =
     (case map_of env ''UAP_HOME'' of Some dir \<Rightarrow> dir | None \<Rightarrow> pl_join pl [home, ''.uap''])"

record backup_set =
  bs_id :: string
  bs_command :: string
  bs_entries :: "backup_entry list"

text \<open>
  The steps answer whether they returned. A disk that is full takes no directory, copy or manifest.
\<close>

definition backup_dir_of :: "disk \<Rightarrow> string \<Rightarrow> backup_dir" where
  "backup_dir_of d i =
     (case map_of (dk_backups d) i of None \<Rightarrow> \<lparr>bd_copies = [], bd_manifest = None\<rparr> | Some b \<Rightarrow> b)"

definition set_backup :: "string \<Rightarrow> backup_dir \<Rightarrow> disk \<Rightarrow> disk" where
  "set_backup i b d = d\<lparr>dk_backups := map_set (dk_backups d) i b\<rparr>"

definition remove_backup :: "string \<Rightarrow> disk \<Rightarrow> disk" where
  "remove_backup i d = d\<lparr>dk_backups := map_delete (dk_backups d) i\<rparr>"

definition open_backup :: "string \<Rightarrow> string \<Rightarrow> disk \<Rightarrow> bool \<times> backup_set \<times> disk" where
  "open_backup i command d =
     (\<not> dk_full d, \<lparr>bs_id = i, bs_command = command, bs_entries = []\<rparr>,
      if dk_full d then d else set_backup i (backup_dir_of d i) d)"

definition copy_name :: "path_library \<Rightarrow> nat \<Rightarrow> string \<Rightarrow> string" where
  "copy_name pl n path = show_nat n @ ''-'' @ pl_basename pl path"

definition add_entry :: "backup_entry \<Rightarrow> backup_set \<Rightarrow> backup_set" where
  "add_entry e s = s\<lparr>bs_entries := bs_entries s @ [e]\<rparr>"

definition write_copy :: "string \<Rightarrow> string \<Rightarrow> string \<Rightarrow> disk \<Rightarrow> bool \<times> disk" where
  "write_copy i name contents d =
     (if dk_full d then (False, d)
      else let b = backup_dir_of d i in
        (True, set_backup i (b\<lparr>bd_copies := map_set (bd_copies b) name contents\<rparr>) d))"

definition capture :: "path_library \<Rightarrow> string \<Rightarrow> backup_set \<times> disk \<Rightarrow> bool \<times> backup_set \<times> disk" where
  "capture pl path sd = (case sd of (s, d) \<Rightarrow>
     if path \<in> be_path ` set (bs_entries s) then (True, s, d)
     else case map_of (dk_files d) path of
       None \<Rightarrow> (True, add_entry \<lparr>be_path = path, be_copy = None, be_existed = False\<rparr> s, d)
     | Some contents \<Rightarrow>
         let name = copy_name pl (length (bs_entries s)) path in
         (case write_copy (bs_id s) name contents d of
            (False, d') \<Rightarrow> (False, s, d')
          | (True, d') \<Rightarrow> (True, add_entry \<lparr>be_path = path, be_copy = Some name, be_existed = True\<rparr> s, d')))"

text \<open>Nothing captured is no backup.\<close>

definition commit_backup :: "string \<Rightarrow> backup_set \<Rightarrow> disk \<Rightarrow> bool \<times> backup_manifest option \<times> disk" where
  "commit_backup now s d =
     (if bs_entries s = [] then (True, None, remove_backup (bs_id s) d)
      else if dk_full d then (False, None, d)
      else let m = \<lparr>bm_id = bs_id s, bm_createdAt = now, bm_command = bs_command s, bm_entries = bs_entries s\<rparr> in
        (True, Some m, set_backup (bs_id s) ((backup_dir_of d (bs_id s))\<lparr>bd_manifest := Some m\<rparr>) d))"

fun apply_plan :: "path_library \<Rightarrow> file_change list \<Rightarrow> backup_set \<times> disk \<Rightarrow> bool \<times> backup_set \<times> disk" where
  "apply_plan pl [] sd = (True, sd)"
| "apply_plan pl (ch # chs) sd =
     (case capture pl (fc_path ch) sd of
        (False, sd') \<Rightarrow> (False, sd')
      | (True, s, d) \<Rightarrow>
          (case write_file (fc_path ch) (fc_contents ch) (make_dir pl (pl_dirname pl (fc_path ch)) d) of
             (False, d') \<Rightarrow> (False, s, d')
           | (True, d') \<Rightarrow> apply_plan pl chs (s, d')))"

definition list_backups :: "disk \<Rightarrow> backup_manifest list" where
  "list_backups d =
     List.map_filter (\<lambda>i. bd_manifest (backup_dir_of d i)) (sort (map fst (dk_backups d)))"

definition restore_entry :: "string \<Rightarrow> backup_entry \<Rightarrow> disk \<Rightarrow> bool \<times> disk" where
  "restore_entry i e d =
     (case (be_existed e, nonempty (be_copy e)) of
        (True, Some name) \<Rightarrow> (case map_of (bd_copies (backup_dir_of d i)) name of
            None \<Rightarrow> (False, d) | Some contents \<Rightarrow> write_file (be_path e) contents d)
      | _ \<Rightarrow> remove_file (be_path e) d)"

fun restore_entries :: "string \<Rightarrow> backup_entry list \<Rightarrow> disk \<Rightarrow> bool \<times> disk" where
  "restore_entries i [] d = (True, d)"
| "restore_entries i (e # es) d =
     (case restore_entry i e d of (False, d') \<Rightarrow> (False, d') | (True, d') \<Rightarrow> restore_entries i es d')"

definition chosen_backup :: "string option \<Rightarrow> disk \<Rightarrow> backup_manifest option" where
  "chosen_backup i d =
     (case nonempty i of
        Some k \<Rightarrow> List.find (\<lambda>m. bm_id m = k) (list_backups d)
      | None \<Rightarrow> (if list_backups d = [] then None else Some (last (list_backups d))))"

definition restore_backup :: "string option \<Rightarrow> disk \<Rightarrow> bool \<times> backup_manifest option \<times> disk" where
  "restore_backup i d =
     (case chosen_backup i d of
        None \<Rightarrow> (True, None, d)
      | Some m \<Rightarrow> (case restore_entries (bm_id m) (bm_entries m) d of
          (False, d') \<Rightarrow> (False, None, d')
        | (True, d') \<Rightarrow> (True, Some m, remove_backup (bm_id m) d')))"

section \<open>Commands\<close>

text \<open>An exit code, or \<open>None\<close> where the command throws; \<open>main\<close> then exits with \<open>EXIT_FAILED\<close>.\<close>

definition exit_ok :: nat where "exit_ok = 0"
definition exit_failed :: nat where "exit_failed = 1"
definition exit_needs_input :: nat where "exit_needs_input = 2"

definition serving :: "string list" where
  "serving = [''CONNECTED'', ''CONNECTED_NON_REFRESHABLE'', ''DEGRADED'']"

text \<open>What the gateway answers; \<open>None\<close> where the request fails.\<close>

record connection_summary =
  cm_status :: string
  cm_mcp_url :: string

record import_item =
  ii_url :: string
  ii_alias :: "string option"

record gateway_plane =
  cp_connections :: "connection_summary list option"
  cp_import :: "import_item list \<Rightarrow> string list option"

text \<open>What the process is given, the arguments and the disk apart_paths.\<close>

record cli_host =
  ho_engine :: json_engine
  ho_paths :: path_library
  ho_parse_url :: url_parser
  ho_cwd :: string
  ho_platform :: string
  ho_gateway :: "string \<Rightarrow> string \<Rightarrow> gateway_plane"
  ho_now :: string
  ho_backup_id :: string

record cli_context =
  cx_paths :: path_context
  cx_stateDir :: string
  cx_json :: bool
  cx_allowHttp :: bool
  cx_clientIds :: "string list"
  cx_entryName :: string

definition run_discovery ::
  "cli_host \<Rightarrow> cli_context \<Rightarrow> string \<Rightarrow> disk \<Rightarrow> discovered_server list \<times> (server_source \<times> skip_reason) list" where
  "run_discovery host ctx gatewayMcpUrl d =
     discover (ho_parse_url host) (cx_allowHttp ctx) gatewayMcpUrl
       (load_configs (ho_engine host) (ho_paths host) d (cx_paths ctx) (cx_clientIds ctx))"

definition import_items :: "discovered_server list \<Rightarrow> import_item list" where
  "import_items servers = map (\<lambda>s. \<lparr>ii_url = di_canonicalUrl s, ii_alias = Some (di_suggestedAlias s)\<rparr>) servers"

text \<open>The outcomes are the statuses the gateway answers for the items.\<close>

definition import_command :: "cli_host \<Rightarrow> cli_context \<Rightarrow> string \<Rightarrow> gateway_plane \<Rightarrow> disk \<Rightarrow> nat option" where
  "import_command host ctx mcpUrl gateway d =
     (let servers = fst (run_discovery host ctx mcpUrl d) in
      if servers = [] then Some exit_ok
      else map_option (\<lambda>outcomes. if ''FAILED'' \<in> set outcomes then exit_failed else exit_ok)
             (cp_import gateway (import_items servers)))"

definition status_command :: "gateway_plane \<Rightarrow> bool \<Rightarrow> nat option" where
  "status_command gateway failOnPending =
     map_option (\<lambda>cs. if failOnPending \<and> (\<exists>c \<in> set cs. cm_status c \<notin> set serving) then exit_failed else exit_ok)
       (cp_connections gateway)"

definition write_plan :: "cli_host \<Rightarrow> string \<Rightarrow> plan \<Rightarrow> bool \<Rightarrow> disk \<Rightarrow> nat option \<times> disk" where
  "write_plan host command p dryRun d =
     (if dryRun \<or> pn_changes p = [] then (Some exit_ok, d)
      else case open_backup (ho_backup_id host) command d of
        (False, s, d0) \<Rightarrow> (None, d0)
      | (True, s, d0) \<Rightarrow> (case apply_plan (ho_paths host) (pn_changes p) (s, d0) of
          (False, s1, d1) \<Rightarrow> (None, d1)
        | (True, s1, d1) \<Rightarrow> (case commit_backup (ho_now host) s1 d1 of
            (False, m, d2) \<Rightarrow> (None, d2) | (True, m, d2) \<Rightarrow> (Some exit_ok, d2))))"

definition install_command :: "cli_host \<Rightarrow> cli_context \<Rightarrow> install_options \<Rightarrow> bool \<Rightarrow> disk \<Rightarrow> nat option \<times> disk" where
  "install_command host ctx opt dryRun d =
     (case plan_install (ho_engine host) (ho_paths host) d (cx_paths ctx) opt of
        None \<Rightarrow> (None, d) | Some p \<Rightarrow> write_plan host ''install'' p dryRun d)"

definition canonicalize :: "url_parser \<Rightarrow> bool \<Rightarrow> string \<Rightarrow> string option" where
  "canonicalize parse allowHttp url =
     (case canonicalize_url parse \<lparr>up_allowHttp = allowHttp\<rparr> url of Inl e \<Rightarrow> None | Inr c \<Rightarrow> Some c)"

definition migrated_urls :: "cli_host \<Rightarrow> cli_context \<Rightarrow> connection_summary list \<Rightarrow> string list" where
  "migrated_urls host ctx cs =
     unique (List.map_filter (\<lambda>c. canonicalize (ho_parse_url host) (cx_allowHttp ctx) (cm_mcp_url c))
       (filter (\<lambda>c. cm_status c \<in> set serving) cs))"

definition prune_command ::
  "cli_host \<Rightarrow> cli_context \<Rightarrow> gateway_plane \<Rightarrow> bool \<Rightarrow> bool \<Rightarrow> disk \<Rightarrow> nat option \<times> disk" where
  "prune_command host ctx gateway dryRun yes d =
     (case cp_connections gateway of
        None \<Rightarrow> (None, d)
      | Some cs \<Rightarrow>
          let migrated = migrated_urls host ctx cs in
          if migrated = [] then (Some exit_ok, d)
          else case plan_prune (ho_engine host) (ho_paths host) d (cx_paths ctx)
              \<lparr>pr_migratedUrls = migrated, pr_canonicalize = canonicalize (ho_parse_url host) (cx_allowHttp ctx),
               pr_entryName = cx_entryName ctx, pr_clientIds = cx_clientIds ctx\<rparr> of
            None \<Rightarrow> (None, d)
          | Some p \<Rightarrow> if pn_changes p \<noteq> [] \<and> \<not> yes \<and> \<not> dryRun then (Some exit_needs_input, d)
                     else write_plan host ''prune'' p dryRun d)"

definition rollback_command :: "string option \<Rightarrow> disk \<Rightarrow> nat option \<times> disk" where
  "rollback_command i d =
     (case restore_backup i d of
        (False, m, d') \<Rightarrow> (None, d') | (True, m, d') \<Rightarrow> (Some exit_ok, d'))"

section \<open>The command line\<close>

definition valueless :: "string list" where
  "valueless = [''inline-key'', ''allow-http'', ''dry-run'', ''yes'', ''json'', ''help'', ''fail-on-pending'']"

definition split_flag :: "string \<Rightarrow> string \<times> string option" where
  "split_flag s = (case index_of (CHR ''='') s of None \<Rightarrow> (s, None) | Some n \<Rightarrow> (take n s, Some (drop (Suc n) s)))"

definition add_flag :: "string \<Rightarrow> string \<Rightarrow> (string \<times> string list) list \<Rightarrow> (string \<times> string list) list" where
  "add_flag name v flags =
     map_set flags name ((case map_of flags name of None \<Rightarrow> [] | Some vs \<Rightarrow> vs) @ [v])"

text \<open>The loop over the arguments: the positional ones and the flags.\<close>

fun scan_args ::
  "string list \<Rightarrow> string list \<Rightarrow> (string \<times> string list) list \<Rightarrow> string list \<times> (string \<times> string list) list" where
  "scan_args [] positional flags = (positional, flags)"
| "scan_args (a # rest) positional flags =
     (if \<not> starts_with ''--'' a then scan_args rest (positional @ [a]) flags
      else case split_flag (drop 2 a) of
        (name, Some v) \<Rightarrow> scan_args rest positional (add_flag name v flags)
      | (name, None) \<Rightarrow>
          if name \<in> set valueless then scan_args rest positional (add_flag name ''true'' flags)
          else (case rest of
                  [] \<Rightarrow> (positional, add_flag name [] flags)
                | v # rest' \<Rightarrow> scan_args rest' positional (add_flag name v flags)))"

record parsed_args =
  pa_command :: string
  pa_flags :: "(string \<times> string list) list"

definition parse_args :: "string list \<Rightarrow> parsed_args" where
  "parse_args argv = (case scan_args argv [] [] of (positional, flags) \<Rightarrow>
     \<lparr>pa_command = (case positional of [] \<Rightarrow> ''help'' | c # _ \<Rightarrow> c), pa_flags = flags\<rparr>)"

definition flag :: "parsed_args \<Rightarrow> string \<Rightarrow> string option" where
  "flag args name = (case map_of (pa_flags args) name of None \<Rightarrow> None
     | Some vs \<Rightarrow> if vs = [] then None else Some (last vs))"

definition enabled :: "parsed_args \<Rightarrow> string \<Rightarrow> bool" where
  "enabled args name \<longleftrightarrow> flag args name = Some ''true''"

text \<open>\<open>a ?? b\<close>.\<close>

definition if_absent :: "'a option \<Rightarrow> 'a option \<Rightarrow> 'a option" where
  "if_absent a b = (case a of None \<Rightarrow> b | Some x \<Rightarrow> a)"

definition with_default :: "'a \<Rightarrow> 'a option \<Rightarrow> 'a" where
  "with_default x v = (case v of None \<Rightarrow> x | Some y \<Rightarrow> y)"

definition path_context_of :: "cli_host \<Rightarrow> (string \<times> string) list \<Rightarrow> string option \<Rightarrow> path_context" where
  "path_context_of host env cwd =
     \<lparr>pc_home = with_default (ho_cwd host) (if_absent (map_of env ''HOME'') (map_of env ''USERPROFILE'')),
      pc_cwd = with_default (ho_cwd host) cwd, pc_platform = ho_platform host, pc_env = env\<rparr>"

definition cli_context_of :: "cli_host \<Rightarrow> (string \<times> string) list \<Rightarrow> parsed_args \<Rightarrow> cli_context" where
  "cli_context_of host env args =
     (let paths = path_context_of host env (nonempty (flag args ''cwd'')) in
      \<lparr>cx_paths = paths, cx_stateDir = default_state_dir (ho_paths host) env (pc_home paths),
       cx_json = enabled args ''json'', cx_allowHttp = enabled args ''allow-http'',
       cx_clientIds = with_default [] (map_of (pa_flags args) ''client''),
       cx_entryName = with_default ''universal-gateway'' (flag args ''name'')\<rparr>)"

definition mcp_url :: "string \<Rightarrow> string" where
  "mcp_url baseUrl = strip_trailing (\<lambda>c. c = CHR ''/'') baseUrl @ ''/mcp''"

definition run :: "cli_host \<Rightarrow> string list \<Rightarrow> (string \<times> string) list \<Rightarrow> disk \<Rightarrow> nat option \<times> disk" where
  "run host argv env d =
     (let args = parse_args argv; command = pa_command args in
      if command = ''help'' \<or> enabled args ''help'' then (Some exit_ok, d)
      else
        let ctx = cli_context_of host env args;
            gatewayUrl = with_default [] (if_absent (flag args ''gateway'') (map_of env ''GATEWAY_URL''));
            apiKey = with_default [] (if_absent (flag args ''api-key'') (map_of env ''GATEWAY_API_KEY''));
            withGateway = (\<lambda>f. if gatewayUrl = [] \<or> apiKey = [] then (None, d)
              else f (ho_gateway host (strip_trailing (\<lambda>c. c = CHR ''/'') gatewayUrl) apiKey))
        in
        if command = ''discover'' then (Some exit_ok, d)
        else if command = ''import''
        then withGateway (\<lambda>gateway. (import_command host ctx (mcp_url gatewayUrl) gateway d, d))
        else if command = ''status''
        then withGateway (\<lambda>gateway. (status_command gateway (enabled args ''fail-on-pending''), d))
        else if command = ''install''
        then withGateway (\<lambda>gateway. install_command host ctx
          \<lparr>in_gatewayMcpUrl = mcp_url gatewayUrl, in_entryName = cx_entryName ctx, in_apiKey = apiKey,
           in_apiKeyEnvVar = with_default ''UAP_GATEWAY_API_KEY'' (flag args ''api-key-env''),
           in_inlineKey = enabled args ''inline-key'', in_clientIds = cx_clientIds ctx\<rparr>
          (enabled args ''dry-run'') d)
        else if command = ''prune''
        then withGateway (\<lambda>gateway.
          prune_command host ctx gateway (enabled args ''dry-run'') (enabled args ''yes'') d)
        else if command = ''rollback'' then rollback_command (nonempty (flag args ''backup-id'')) d
        else if command = ''backups'' then (Some exit_ok, d)
        else (Some exit_failed, d))"

end
