(* ===== verification/Migration_Facts.thy ===== *)
theory Migration_Facts
  imports Migration
begin

text \<open>
  What the command line tool promises: \<open>prune\<close> removes exactly the servers the gateway serves,
  \<open>install\<close> adds one entry and keeps the others, a rollback undoes the last change, the gateway's key
  stays off the disk unless asked for, and discovery groups the servers by their canonical URL.
\<close>

section \<open>Plans\<close>

lemma collect_changes:
  "collect sts = Some p \<Longrightarrow> ch \<in> set (pn_changes p) \<longleftrightarrow> Change_File ch \<in> set sts"
  by (induction sts arbitrary: p) (auto split: plan_step.splits)

lemma remote_of_filter:
  "map remote_ref (filter P (remote_of es)) =
     map ref_of (filter (\<lambda>e. case e of Remote r \<Rightarrow> P r | Local l \<Rightarrow> False) es)"
  by (induction es) (auto simp: remote_of_def map_filter_simps remote_ref_def split: server_entry.splits)

text \<open>The removal of chosen entries, for either kind of document.\<close>

fun valid_document :: "config_document \<Rightarrow> bool" where
  "valid_document (Json_Document d) = valid_json d"
| "valid_document (Codex_Document ls) = valid_codex ls"

lemma fold_json_remove: "fold document_remove rs (Json_Document d) = Json_Document (fold json_remove rs d)"
  by (induction rs arbitrary: d) simp_all

lemma fold_codex_remove: "fold document_remove rs (Codex_Document ls) = Codex_Document (fold codex_remove rs ls)"
  by (induction rs arbitrary: ls) simp_all

lemma json_modify_null: "json_modify f p v = JNull \<longleftrightarrow> v = JNull"
  by (cases p; cases v) (auto split: option.splits json.splits)

lemma fold_json_null: "jd_document (fold json_remove rs d) = JNull \<longleftrightarrow> jd_document d = JNull"
  by (induction rs arbitrary: d) (simp_all add: json_remove_def json_modify_null)

lemma document_remove_chosen:
  assumes "valid_document doc" "document_servers eng doc = Some es"
  shows "document_servers eng (fold document_remove (map ref_of (filter P es)) doc) =
    Some (filter (\<lambda>e. \<not> P e) es)"
proof (cases doc)
  case (Json_Document d)
  with assms have "es = json_servers d" "jd_document d \<noteq> JNull" "valid_json d" by (auto split: if_splits)
  with json_file.remove_chosen [of d P] Json_Document show ?thesis
    by (simp add: fold_json_remove fold_json_null)
next
  case (Codex_Document ls)
  with assms codex_file.remove_chosen [of ls eng P] show ?thesis by (auto simp: fold_codex_remove)
qed

lemma loaded_document:
  assumes "c \<in> set (load_configs eng pl d ctx is)" "lc_document c = Some doc"
  obtains es where "document_servers eng doc = Some es" "lc_remote c = remote_of es"
proof -
  from assms(1) obtain loc where "c = load_client_config eng d loc" by (auto simp: load_configs_def)
  with assms(2) that show ?thesis
    by (cases "map_of (dk_files d) (cl_path loc)")
      (auto simp: load_client_config_def unloaded_def split: option.splits)
qed

text \<open>Whether \<open>prune\<close> takes an entry over.\<close>

definition taken_over :: "prune_options \<Rightarrow> server_entry \<Rightarrow> bool" where
  "taken_over opt e = (case e of Remote r \<Rightarrow> is_migrated opt r | Local l \<Rightarrow> False)"

lemma prune_step_change:
  assumes "prune_step eng opt c = Change_File ch"
  obtains doc where "lc_document c = Some doc"
    "ch = prune_change eng c doc (filter (is_migrated opt) (lc_remote c))"
  using assms that
  by (cases "lc_exists c"; cases "nonempty (lc_error c)"; cases "lc_document c")
    (simp_all add: prune_step_def skip_because_def Let_def split: if_split_asm)

text \<open>
  C31: \<open>uap-migrate prune\<close> removes exactly the direct entries the gateway serves. Each file it changes
  is a file that was loaded, written back from a document whose servers are those of the file, in their order,
  without the remote ones whose canonical URL is served; local servers, the gateway's own entry and
  everything else is kept. Hypothesis: names do not repeat in one map or file.
\<close>

theorem prune_exact:
  assumes "plan_prune eng pl d ctx opt = Some p" "ch \<in> set (pn_changes p)"
    and "list_all (\<lambda>c. case lc_document c of None \<Rightarrow> True | Some doc \<Rightarrow> valid_document doc)
      (load_configs eng pl d ctx (pr_clientIds opt))"
  shows "\<exists>c doc doc' es. c \<in> set (load_configs eng pl d ctx (pr_clientIds opt)) \<and>
    fc_path ch = cl_path (lc_location c) \<and> lc_document c = Some doc \<and>
    fc_contents ch = document_serialize eng doc' \<and> document_servers eng doc = Some es \<and>
    document_servers eng doc' = Some (filter (\<lambda>e. \<not> taken_over opt e) es)"
proof -
  from assms(1,2) obtain c where c: "c \<in> set (load_configs eng pl d ctx (pr_clientIds opt))"
    "prune_step eng opt c = Change_File ch"
    by (auto simp: plan_prune_def prune_plan_for_def collect_changes)
  obtain doc where doc: "lc_document c = Some doc"
    and ch: "ch = prune_change eng c doc (filter (is_migrated opt) (lc_remote c))"
    using c(2) by (rule prune_step_change)
  obtain es where es: "document_servers eng doc = Some es" "lc_remote c = remote_of es"
    using c(1) doc by (rule loaded_document)
  have "valid_document doc" using assms(3) c(1) doc by (auto simp: list_all_iff)
  from document_remove_chosen [OF this es(1), of "taken_over opt"]
  have "document_servers eng (fold document_remove (map remote_ref (filter (is_migrated opt) (lc_remote c))) doc) =
      Some (filter (\<lambda>e. \<not> taken_over opt e) es)"
    by (simp add: es(2) remote_of_filter taken_over_def [abs_def])
  with c(1) doc es(1) show ?thesis by (auto simp: ch prune_change_def Let_def)
qed

section \<open>Installing\<close>

text \<open>Where the gateway's entry is put.\<close>

fun root_container :: "config_document \<Rightarrow> string list" where
  "root_container (Json_Document d) = [jd_rootKey d]"
| "root_container (Codex_Document ls) = [mcp_servers]"

fun gateway_transport :: "config_document \<Rightarrow> string option" where
  "gateway_transport (Json_Document d) = Some ''http''"
| "gateway_transport (Codex_Document ls) = None"

text \<open>A document that can hold the entry: a JSON object, or any Codex file.\<close>

fun holds_servers :: "config_document \<Rightarrow> bool" where
  "holds_servers (Json_Document d) \<longleftrightarrow> is_record (jd_document d)"
| "holds_servers (Codex_Document ls) \<longleftrightarrow> True"

fun proper_root :: "config_document \<Rightarrow> bool" where
  "proper_root (Json_Document d) \<longleftrightarrow> jd_rootKey d \<noteq> ''projects''"
| "proper_root (Codex_Document ls) \<longleftrightarrow> True"

lemma parsed_root: "parse_config_document eng f raw = Some doc \<Longrightarrow> proper_root doc"
  by (cases f) (auto simp: parse_config_document_def parse_json_document_def)

lemma json_upsert_record: "json_upsert spec d = Some d' \<Longrightarrow> is_record (jd_document d) \<Longrightarrow> is_record (jd_document d')"
  by (cases "jd_document d") (auto simp: json_upsert_def Let_def)

lemma trim_nonempty: "trim s \<noteq> [] \<Longrightarrow> s \<noteq> []"
  by (auto simp: trim_def)

lemma document_upsert_entries:
  assumes "document_upsert eng spec doc = Some doc'" "document_servers eng doc = Some es"
    and "proper_root doc" "holds_servers doc"
    and "is_bare_key (sp_name spec)" "trim (sp_url spec) \<noteq> []" "literal_reads_back eng (sp_url spec)"
  shows "\<exists>es'. document_servers eng doc' = Some es' \<and>
    gateway_remote (root_container doc) (gateway_transport doc) spec \<in> set es' \<and>
    filter (foreign (sp_name spec) (root_container doc)) es' = filter (foreign (sp_name spec) (root_container doc)) es"
proof (cases doc)
  case (Json_Document d)
  with assms(1) obtain d' where d': "json_upsert spec d = Some d'" "doc' = Json_Document d'" by auto
  have "is_record (jd_document d')" using json_upsert_record [OF d'(1)] assms(4) Json_Document by simp
  then have "jd_document d' \<noteq> JNull" by (cases "jd_document d'") auto
  with d' json_upsert_entries [of d spec d'] json_upsert_installed [of spec d d'] assms Json_Document
  show ?thesis by (auto split: if_splits)
next
  case (Codex_Document ls)
  with assms codex_upsert_entries [of spec eng ls] trim_nonempty [OF assms(6)] show ?thesis by auto
qed

lemma collect_nothing_else: "collect sts = Some p \<Longrightarrow> Plan_Throws \<notin> set sts"
  by (induction sts arbitrary: p) (auto split: plan_step.splits)

definition install_writes :: "json_engine \<Rightarrow> install_options \<Rightarrow> gateway_spec \<Rightarrow> loaded_config \<Rightarrow> file_change \<Rightarrow> bool" where
  "install_writes eng opt spec c ch \<longleftrightarrow> (\<exists>doc doc'. install_document eng c = Some doc \<and>
     document_upsert eng spec doc = Some doc' \<and> fc_path ch = cl_path (lc_location c) \<and>
     fc_contents ch = document_serialize eng doc')"

lemma install_change_writes:
  "install_change eng opt spec c = Change_File ch \<Longrightarrow> install_writes eng opt spec c ch"
  by (cases "install_document eng c"; cases "document_upsert eng spec (the (install_document eng c))")
    (auto simp: install_change_def install_writes_def Let_def split: if_split_asm)

lemma install_step_writes:
  assumes "install_step eng d opt c = Change_File ch"
  obtains ref where "install_writes eng opt (install_spec opt ref) c ch"
proof -
  have "\<exists>ref. install_change eng opt (install_spec opt ref) c = Change_File ch"
    using assms by (cases "client_by_id (cl_clientId (lc_location c))")
      (auto simp: install_step_def skip_because_def Let_def split: if_split_asm)
  with install_change_writes that show ?thesis by blast
qed

lemma install_document_servers:
  assumes "c \<in> set (load_configs eng pl d ctx is)" "install_document eng c = Some doc"
  shows "proper_root doc \<and> (lc_document c = None \<longrightarrow> holds_servers doc \<and> document_servers eng doc = Some []) \<and>
    (lc_document c \<noteq> None \<longrightarrow> lc_document c = Some doc \<and> document_servers eng doc \<noteq> None)"
proof (cases "lc_document c")
  case None
  with assms(2) have doc: "parse_config_document eng (cl_format (lc_location c)) [] = Some doc"
    by (simp add: install_document_def)
  have "trim [] = []" by (simp add: trim_def)
  with doc parsed_root [OF doc] None show ?thesis
    by (cases "cl_format (lc_location c)")
      (auto simp: parse_config_document_def parse_json_document_def codex_lines_def codex_servers_def codex_tables_def
        map_filter_simps json_servers_def json_containers_def container_entries_def)
next
  case (Some doc')
  from assms(1) obtain loc where c: "c = load_client_config eng d loc" by (auto simp: load_configs_def)
  have "\<exists>raw f. parse_config_document eng f raw = Some doc'"
    using Some c by (cases "map_of (dk_files d) (cl_path loc)")
      (auto simp: load_client_config_def unloaded_def split: option.splits)
  moreover obtain es where "document_servers eng doc' = Some es" using assms(1) Some by (rule loaded_document)
  ultimately show ?thesis using Some assms(2) parsed_root by (auto simp: install_document_def)
qed

text \<open>
  C32: \<open>uap-migrate install\<close> adds the gateway and keeps everything else. Each file of the plan is
  written from a document that has the gateway's entry, under its name and with its URL, and whose other
  servers are those the file had, in their order; a file that does not exist has none. Hypotheses: the entry's name is a
  bare key, the JSON files are objects, and the engine's string literal of the URL can be read back.
\<close>

theorem install_adds_one:
  assumes "plan_install eng pl d ctx opt = Some p" "ch \<in> set (pn_changes p)"
    and "list_all (\<lambda>c. case lc_document c of None \<Rightarrow> True | Some doc \<Rightarrow> holds_servers doc)
      (load_configs eng pl d ctx (in_clientIds opt))"
    and "is_bare_key (in_entryName opt)" "trim (in_gatewayMcpUrl opt) \<noteq> []"
      "literal_reads_back eng (in_gatewayMcpUrl opt)"
  shows "\<exists>c doc' es' entry. c \<in> set (load_configs eng pl d ctx (in_clientIds opt)) \<and>
    fc_path ch = cl_path (lc_location c) \<and> fc_contents ch = document_serialize eng doc' \<and>
    document_servers eng doc' = Some es' \<and> Remote entry \<in> set es' \<and>
    re_name entry = in_entryName opt \<and> re_url entry = in_gatewayMcpUrl opt \<and>
    filter (foreign (in_entryName opt) (re_container entry)) es' =
      filter (foreign (in_entryName opt) (re_container entry))
        (case lc_document c of None \<Rightarrow> [] | Some doc \<Rightarrow> the (document_servers eng doc))"
proof -
  from assms(1,2) obtain c where c: "c \<in> set (load_configs eng pl d ctx (in_clientIds opt))"
    "install_step eng d opt c = Change_File ch"
    by (auto simp: plan_install_def collect_changes)
  obtain ref where "install_writes eng opt (install_spec opt ref) c ch"
    using c(2) by (rule install_step_writes)
  then obtain doc doc' where doc: "install_document eng c = Some doc"
    "document_upsert eng (install_spec opt ref) doc = Some doc'"
    "fc_path ch = cl_path (lc_location c)" "fc_contents ch = document_serialize eng doc'"
    by (auto simp: install_writes_def)
  let ?spec = "install_spec opt ref"
  have sp: "sp_name ?spec = in_entryName opt" "sp_url ?spec = in_gatewayMcpUrl opt"
    by (simp_all add: install_spec_def Let_def)
  note ok = install_document_servers [OF c(1) doc(1)]
  have holds: "holds_servers doc"
    using ok assms(3) c(1) by (cases "lc_document c") (auto simp: list_all_iff)
  obtain es where es: "document_servers eng doc = Some es"
    "es = (case lc_document c of None \<Rightarrow> [] | Some doc \<Rightarrow> the (document_servers eng doc))"
    using ok by (cases "lc_document c") auto
  obtain es' where "document_servers eng doc' = Some es'"
    "gateway_remote (root_container doc) (gateway_transport doc) ?spec \<in> set es'"
    "filter (foreign (sp_name ?spec) (root_container doc)) es' = filter (foreign (sp_name ?spec) (root_container doc)) es"
    using document_upsert_entries [OF doc(2) es(1)] ok holds assms(4-6) by (auto simp: sp)
  with c(1) doc(3,4) es(2) show ?thesis
    by (intro exI [of _ c] exI [of _ doc'] exI [of _ es']) (auto simp: gateway_remote_def sp)
qed

lemma install_change_key: "install_change eng (opt\<lparr>in_apiKey := k\<rparr>) spec c = install_change eng opt spec c"
  by (simp add: install_change_def Let_def cong: option.case_cong if_cong)

lemma install_spec_key: "\<not> in_inlineKey opt \<Longrightarrow> install_spec (opt\<lparr>in_apiKey := k\<rparr>) (Some r) = install_spec opt (Some r)"
  by (simp add: install_spec_def)

lemma install_step_key:
  assumes "\<not> in_inlineKey opt"
  shows "install_step eng d (opt\<lparr>in_apiKey := k\<rparr>) c = install_step eng d opt c"
proof (cases "client_by_id (cl_clientId (lc_location c))")
  case (Some client)
  with assms show ?thesis
    by (cases "cd_envReference client") (simp_all add: install_step_def Let_def install_change_key install_spec_key)
qed (simp add: install_step_def Let_def)

text \<open>
  C33: without \<open>--inline-key\<close> the gateway's key never reaches the disk. What \<open>install\<close> writes, its
  backups included, is the same whatever the key is.
\<close>

theorem key_stays_off_disk:
  assumes "\<not> in_inlineKey opt"
  shows "install_command host ctx (opt\<lparr>in_apiKey := k\<rparr>) dryRun d = install_command host ctx opt dryRun d"
proof -
  have "install_step eng d (opt\<lparr>in_apiKey := k\<rparr>) = install_step eng d opt" for eng
    by (rule ext) (rule install_step_key [OF assms])
  then show ?thesis by (simp add: install_command_def plan_install_def)
qed

section \<open>Discovery\<close>

lemma unique_snoc: "unique (xs @ [x]) = (if x \<in> set xs then unique xs else unique xs @ [x])"
  by (induction xs) auto

lemma map_of_graph: "map_of (map (\<lambda>u. (u, f u)) us) k = (if k \<in> set us then Some (f k) else None)"
  by (induction us) auto

lemma map_set_graph:
  "distinct us \<Longrightarrow> map_set (map (\<lambda>u. (u, f u)) us) k v =
     (if k \<in> set us then map (\<lambda>u. (u, if u = k then v else f u)) us else map (\<lambda>u. (u, f u)) us @ [(k, v)])"
  by (induction us) auto

text \<open>The servers by their definition: per URL the sources that have it, named by the first.\<close>

definition server_of :: "(string \<times> server_source) list \<Rightarrow> string \<Rightarrow> discovered_server" where
  "server_of xs u = (let from = map snd (filter (\<lambda>x. fst x = u) xs) in
     \<lparr>di_canonicalUrl = u, di_suggestedAlias = so_name (hd from), di_sources = from\<rparr>)"

definition grouped :: "(string \<times> server_source) list \<Rightarrow> (string \<times> discovered_server) list" where
  "grouped xs = map (\<lambda>u. (u, server_of xs u)) (unique (map fst xs))"

lemma grouped_snoc:
  assumes "dv_byUrl s = grouped xs"
  shows "dv_byUrl (add_source u src s) = grouped (xs @ [(u, src)])"
proof (cases "u \<in> set (map fst xs)")
  case True
  then have "filter (\<lambda>x. fst x = u) xs \<noteq> []" by (auto simp: filter_empty_conv)
  then have "map snd (filter (\<lambda>x. fst x = u) xs) \<noteq> []" by simp
  with True assms show ?thesis
    by (simp add: add_source_def grouped_def map_of_graph map_set_graph unique_snoc server_of_def Let_def)
next
  case False
  then have "filter (\<lambda>x. fst x = u) xs = []" by (auto simp: filter_empty_conv)
  with False assms show ?thesis
    by (auto simp: add_source_def grouped_def map_of_graph map_set_graph unique_snoc server_of_def Let_def)
qed

text \<open>The entries of a configuration with their canonical URLs, those of the gateway apart_paths.\<close>

definition importable :: "(string \<Rightarrow> string option) \<Rightarrow> string option \<Rightarrow> loaded_config \<Rightarrow> (string \<times> server_source) list" where
  "importable canonical gatewayUrl c = List.map_filter
     (\<lambda>e. case canonical (re_url e) of
        None \<Rightarrow> None
      | Some u \<Rightarrow> if gatewayUrl = Some u then None else Some (u, describe c (re_name e) (re_url e)))
     (lc_remote c)"

lemma describe_remote: "describe (c\<lparr>lc_remote := es\<rparr>) = describe c"
  by (intro ext) (simp add: describe_def)

lemma discover_entries:
  "dv_byUrl s = grouped xs \<Longrightarrow> dv_byUrl (fold (discover_entry canonical gw c) es s) =
     grouped (xs @ importable canonical gw (c\<lparr>lc_remote := es\<rparr>))"
proof (induction es arbitrary: s xs)
  case (Cons e es)
  let ?s = "discover_entry canonical gw c e s"
  define ys where "ys = importable canonical gw (c\<lparr>lc_remote := [e]\<rparr>)"
  have "dv_byUrl ?s = grouped (xs @ ys)"
    using Cons.prems grouped_snoc [OF Cons.prems]
    by (auto simp: ys_def discover_entry_def skip_source_def importable_def map_filter_simps describe_remote
        Let_def split: option.splits)
  moreover have "importable canonical gw (c\<lparr>lc_remote := e # es\<rparr>) = ys @ importable canonical gw (c\<lparr>lc_remote := es\<rparr>)"
    by (auto simp: ys_def importable_def map_filter_simps describe_remote cong: option.case_cong if_cong
        split: option.splits)
  ultimately show ?case using Cons.IH [of ?s "xs @ ys"] by simp
qed (simp add: importable_def map_filter_simps)

lemma skip_locals: "dv_byUrl (fold (\<lambda>l. skip_source (f l) r) ls s) = dv_byUrl s"
  by (induction ls arbitrary: s) (simp_all add: skip_source_def)

lemma discover_configs:
  "dv_byUrl s = grouped xs \<Longrightarrow> dv_byUrl (fold (discover_config canonical gw) cs s) =
     grouped (xs @ concat (map (importable canonical gw) cs))"
proof (induction cs arbitrary: s xs)
  case (Cons c cs)
  have "dv_byUrl (discover_config canonical gw c s) = grouped (xs @ importable canonical gw c)"
    using discover_entries [of _ xs canonical gw c "lc_remote c"] Cons.prems
    by (simp add: discover_config_def skip_locals)
  from Cons.IH [OF this] show ?case by simp
qed simp

text \<open>
  Discovery yields one server per canonical URL. The servers are the distinct canonical URLs of the remote entries of all
  configurations, the gateway's own apart_paths, in the order they first appear; each has all the entries with its URL as
  sources and the name of the first as its alias.
\<close>

theorem discovery_groups:
  "fst (discover parse allowHttp gatewayMcpUrl configs) =
     (let canonical = safe_canonical parse allowHttp;
          found = concat (map (importable canonical (canonical gatewayMcpUrl)) configs)
      in map (server_of found) (unique (map fst found)))"
  using discover_configs [of "\<lparr>dv_byUrl = [], dv_skipped = []\<rparr>" "[]" "safe_canonical parse allowHttp"
      "safe_canonical parse allowHttp gatewayMcpUrl" configs]
  by (simp add: discover_def Let_def) (simp add: grouped_def)

section \<open>Rollback\<close>

lemma map_set_new: "k \<notin> fst ` set es \<Longrightarrow> map_set es k v = es @ [(k, v)]"
  by (induction es) auto

lemma map_set_last: "k \<notin> fst ` set es \<Longrightarrow> map_set (es @ [(k, v)]) k w = es @ [(k, w)]"
  by (induction es) auto

lemma map_delete_last: "k \<notin> fst ` set es \<Longrightarrow> map_delete (es @ [(k, v)]) k = es"
  by (auto simp: map_delete_def filter_id_conv)

lemma map_of_last: "k \<notin> fst ` set es \<Longrightarrow> map_of (es @ [(k, v)]) k = Some v"
  by (induction es) auto

lemma backup_dir_last: "dk_backups d = bs @ [(i, b)] \<Longrightarrow> i \<notin> fst ` set bs \<Longrightarrow> backup_dir_of d i = b"
  unfolding backup_dir_of_def by (simp only:) (subst map_of_last; simp)

lemma copy_name_index:
  assumes "copy_name pl i p = show_nat j @ ''-'' @ b"
  shows "i = j"
proof -
  have head: "takeWhile is_digit (show_nat n @ ''-'' @ s) = show_nat n" for n s
    using show_nat_digits [of n] by (subst takeWhile_append2) (auto simp: is_digit_def code_def)
  from arg_cong [OF assms, of "takeWhile is_digit"] show ?thesis
    by (simp only: copy_name_def head show_nat_inj)
qed

text \<open>What an entry of a backup records of the disk before.\<close>

definition saved :: "disk \<Rightarrow> (string \<times> string) list \<Rightarrow> backup_entry \<Rightarrow> bool" where
  "saved orig copies e \<longleftrightarrow>
     (case map_of (dk_files orig) (be_path e) of
        None \<Rightarrow> \<not> be_existed e
      | Some txt \<Rightarrow> be_existed e \<and> (\<exists>n. be_copy e = Some n \<and> n \<noteq> [] \<and> map_of copies n = Some txt))"

text \<open>Names of copies that were given to the first \<open>k\<close> entries.\<close>

definition numbered :: "nat \<Rightarrow> (string \<times> string) list \<Rightarrow> bool" where
  "numbered k copies \<longleftrightarrow> (\<forall>n \<in> fst ` set copies. \<exists>i b. i < k \<and> n = show_nat i @ ''-'' @ b)"

lemma numbered_Suc: "numbered k copies \<Longrightarrow> numbered (Suc k) copies"
  unfolding numbered_def by (meson less_Suc_eq)

lemma numbered_copy: "numbered k copies \<Longrightarrow> numbered (Suc k) (copies @ [(copy_name pl k p, v)])"
  using numbered_Suc [of k copies] by (auto simp: numbered_def copy_name_def)

lemma numbered_fresh: "numbered k copies \<Longrightarrow> copy_name pl k p \<notin> fst ` set copies"
  using copy_name_index [of pl k p] unfolding numbered_def by blast

text \<open>The disk while a plan is applied: what was not captured is as before, what was is in the backup.\<close>

definition backed_up :: "disk \<Rightarrow> (string \<times> string) list \<Rightarrow> backup_set \<times> disk \<Rightarrow> bool" where
  "backed_up orig copies sd \<longleftrightarrow> (case sd of (s, d) \<Rightarrow>
     dk_refuses d = dk_refuses orig \<and> dk_full d = dk_full orig \<and>
     dk_backups d = dk_backups orig @ [(bs_id s, \<lparr>bd_copies = copies, bd_manifest = None\<rparr>)] \<and>
     (\<forall>p. p \<notin> be_path ` set (bs_entries s) \<longrightarrow> map_of (dk_files d) p = map_of (dk_files orig) p) \<and>
     (\<forall>e \<in> set (bs_entries s). saved orig copies e) \<and>
     numbered (length (bs_entries s)) copies)"

lemma saved_more:
  assumes "saved orig copies e"
  shows "saved orig (copies @ [(n, v)]) e"
proof (cases "map_of (dk_files orig) (be_path e)")
  case (Some old)
  with assms obtain m where "be_existed e" "be_copy e = Some m" "m \<noteq> []" "map_of copies m = Some old"
    by (auto simp: saved_def)
  with Some show ?thesis by (simp add: saved_def)
qed (use assms in \<open>simp add: saved_def\<close>)

lemma capture_backed_up:
  assumes "capture pl path (s, d) = (True, s', d')" "backed_up orig copies (s, d)"
    and fresh: "bs_id s \<notin> fst ` set (dk_backups orig)"
  shows "(\<exists>copies'. backed_up orig copies' (s', d')) \<and> be_path ` set (bs_entries s') = insert path (be_path ` set (bs_entries s)) \<and>
    bs_id s' = bs_id s \<and> bs_command s' = bs_command s"
proof (cases "path \<in> be_path ` set (bs_entries s)")
  case True
  with assms show ?thesis by (auto simp: capture_def)
next
  case False
  with assms(2) have same: "map_of (dk_files d) path = map_of (dk_files orig) path" by (simp add: backed_up_def)
  show ?thesis
  proof (cases "map_of (dk_files d) path")
    case None
    with False assms(1) have s': "s' = add_entry \<lparr>be_path = path, be_copy = None, be_existed = False\<rparr> s" "d' = d"
      by (auto simp: capture_def)
    have "backed_up orig copies (s', d')"
      using assms(2) None same by (auto simp: s' backed_up_def add_entry_def saved_def numbered_Suc)
    then show ?thesis by (auto simp: s' add_entry_def)
  next
    case (Some old)
    let ?n = "copy_name pl (length (bs_entries s)) path"
    have n: "?n \<notin> fst ` set copies" "?n \<noteq> []"
      using assms(2) numbered_fresh by (auto simp: backed_up_def copy_name_def)
    have b: "backup_dir_of d (bs_id s) = \<lparr>bd_copies = copies, bd_manifest = None\<rparr>"
      using assms(2) by (intro backup_dir_last [OF _ fresh]) (simp add: backed_up_def)
    from False Some assms(1) b have full: "\<not> dk_full d"
      and s': "s' = add_entry \<lparr>be_path = path, be_copy = Some ?n, be_existed = True\<rparr> s"
      and d': "d' = set_backup (bs_id s) \<lparr>bd_copies = map_set copies ?n old, bd_manifest = None\<rparr> d"
      by (auto simp: capture_def write_copy_def Let_def split: if_splits)
    have "backed_up orig (copies @ [(?n, old)]) (s', d')"
      unfolding backed_up_def prod.case
    proof (intro conjI ballI allI impI)
      show "dk_backups d' = dk_backups orig @ [(bs_id s', \<lparr>bd_copies = copies @ [(?n, old)], bd_manifest = None\<rparr>)]"
        using assms(2) by (simp add: d' s' add_entry_def set_backup_def backed_up_def map_set_last [OF fresh]
            map_set_new [OF n(1)])
      show "saved orig (copies @ [(?n, old)]) e" if "e \<in> set (bs_entries s')" for e
      proof (cases "e \<in> set (bs_entries s)")
        case True
        with assms(2) saved_more show ?thesis by (simp add: backed_up_def)
      next
        case False
        with that have "e = \<lparr>be_path = path, be_copy = Some ?n, be_existed = True\<rparr>" by (simp add: s' add_entry_def)
        with Some same n map_of_last [OF n(1)] show ?thesis by (simp add: saved_def)
      qed
      show "numbered (length (bs_entries s')) (copies @ [(?n, old)])"
        using assms(2) by (simp add: s' add_entry_def backed_up_def numbered_copy)
    qed (use assms(2) in \<open>auto simp: d' s' add_entry_def set_backup_def backed_up_def\<close>)
    then show ?thesis by (auto simp: s' add_entry_def)
  qed
qed

lemma write_backed_up:
  assumes "write_file path txt (make_dir pl dir d) = (True, d')" "backed_up orig copies (s, d)"
    and "path \<in> be_path ` set (bs_entries s)"
  shows "backed_up orig copies (s, d') \<and> path \<notin> set (dk_refuses orig)"
  using assms by (auto simp: write_file_def make_dir_def backed_up_def split: if_splits)

lemma apply_backed_up:
  assumes "apply_plan pl chs (s, d) = (True, s', d')" "backed_up orig copies (s, d)"
    and "bs_id s \<notin> fst ` set (dk_backups orig)"
    and "\<forall>p \<in> be_path ` set (bs_entries s). p \<notin> set (dk_refuses orig)"
  shows "(\<exists>copies'. backed_up orig copies' (s', d')) \<and>
    be_path ` set (bs_entries s') = fc_path ` set chs \<union> be_path ` set (bs_entries s) \<and>
    (\<forall>p \<in> be_path ` set (bs_entries s'). p \<notin> set (dk_refuses orig)) \<and>
    bs_id s' = bs_id s \<and> bs_command s' = bs_command s"
  using assms
proof (induction chs arbitrary: s d copies)
  case (Cons ch chs)
  obtain s1 d1 where c: "capture pl (fc_path ch) (s, d) = (True, s1, d1)"
    using Cons.prems(1) by (auto split: prod.splits bool.splits)
  note cap = capture_backed_up [OF c Cons.prems(2,3)]
  then obtain copies1 where b1: "backed_up orig copies1 (s1, d1)" by blast
  obtain d2 where w: "write_file (fc_path ch) (fc_contents ch) (make_dir pl (pl_dirname pl (fc_path ch)) d1) = (True, d2)"
    using Cons.prems(1) c by (auto split: prod.splits bool.splits)
  from cap have s1: "be_path ` set (bs_entries s1) = insert (fc_path ch) (be_path ` set (bs_entries s))"
    "bs_id s1 = bs_id s" "bs_command s1 = bs_command s" by simp_all
  then have b2: "backed_up orig copies1 (s1, d2)" "fc_path ch \<notin> set (dk_refuses orig)"
    using write_backed_up [OF w b1] by simp_all
  from c w Cons.prems(1) have run: "apply_plan pl chs (s1, d2) = (True, s', d')" by simp
  have "bs_id s1 \<notin> fst ` set (dk_backups orig)" using Cons.prems(3) by (simp add: s1)
  moreover have "\<forall>p \<in> be_path ` set (bs_entries s1). p \<notin> set (dk_refuses orig)"
    using Cons.prems(4) b2(2) by (simp add: s1)
  ultimately have ih: "(\<exists>copies'. backed_up orig copies' (s', d')) \<and>
    be_path ` set (bs_entries s') = fc_path ` set chs \<union> be_path ` set (bs_entries s1) \<and>
    (\<forall>p \<in> be_path ` set (bs_entries s'). p \<notin> set (dk_refuses orig)) \<and>
    bs_id s' = bs_id s1 \<and> bs_command s' = bs_command s1"
    by (rule Cons.IH [OF run b2(1)])
  show ?case
  proof (intro conjI)
    show "be_path ` set (bs_entries s') = fc_path ` set (ch # chs) \<union> be_path ` set (bs_entries s)"
      using ih by (simp add: s1)
    show "bs_id s' = bs_id s" "bs_command s' = bs_command s" using ih s1 by simp_all
  qed (use ih in blast)+
qed auto

lemma restore_saved:
  assumes "list_all (\<lambda>e. saved orig (bd_copies (backup_dir_of d i)) e \<and> be_path e \<notin> set (dk_refuses d)) es"
  shows "\<exists>d'. restore_entries i es d = (True, d') \<and> dk_backups d' = dk_backups d \<and>
    (\<forall>p. map_of (dk_files d') p = (if p \<in> be_path ` set es then map_of (dk_files orig) p else map_of (dk_files d) p))"
  using assms
proof (induction es arbitrary: d)
  case (Cons e es)
  obtain d1 where d1: "restore_entry i e d = (True, d1)" "dk_backups d1 = dk_backups d" "dk_refuses d1 = dk_refuses d"
    "\<forall>p. map_of (dk_files d1) p = (if p = be_path e then map_of (dk_files orig) p else map_of (dk_files d) p)"
  proof (cases "map_of (dk_files orig) (be_path e)")
    case None
    with Cons.prems that show ?thesis by (simp add: saved_def restore_entry_def remove_file_def)
  next
    case (Some old)
    with Cons.prems obtain c n where "be_existed e" "be_copy e = Some (c # n)"
      "map_of (bd_copies (backup_dir_of d i)) (c # n) = Some old"
      by (auto simp: saved_def neq_Nil_conv)
    with Some Cons.prems that show ?thesis by (simp add: restore_entry_def nonempty_def write_file_def)
  qed
  have "backup_dir_of d1 i = backup_dir_of d i" using d1(2) by (simp add: backup_dir_of_def)
  with Cons.prems d1(3) Cons.IH [of d1] obtain d' where d': "restore_entries i es d1 = (True, d')"
    "dk_backups d' = dk_backups d1"
    "\<forall>p. map_of (dk_files d') p = (if p \<in> be_path ` set es then map_of (dk_files orig) p else map_of (dk_files d1) p)"
    by auto
  with d1 show ?case by (intro exI [of _ d']) auto
qed simp

lemma insort_before: "y \<le> x \<Longrightarrow> insort y (ys @ [x]) = insort y ys @ [x]" for x :: "'a :: linorder"
  by (induction ys) auto

lemma sort_greatest: "\<forall>y \<in> set xs. y \<le> x \<Longrightarrow> sort (xs @ [x]) = sort xs @ [x]" for x :: "'a :: linorder"
  by (induction xs) (auto simp: insort_before)

lemma newest_backup:
  assumes "dk_backups d = bs @ [(i, b)]" "bd_manifest b = Some m" "list_all (\<lambda>k. k < i) (map fst bs)"
  shows "chosen_backup None d = Some m"
proof -
  have i: "i \<notin> fst ` set bs" using assms(3) by (fastforce simp: list_all_iff)
  have "sort (map fst (dk_backups d)) = sort (map fst bs) @ [i]"
    using assms(3) sort_greatest [of "map fst bs" i] by (fastforce simp: assms(1) list_all_iff)
  moreover have "backup_dir_of d i = b" by (rule backup_dir_last [OF assms(1) i])
  ultimately have "list_backups d = List.map_filter (\<lambda>i. bd_manifest (backup_dir_of d i)) (sort (map fst bs)) @ [m]"
    using assms(2) by (simp add: list_backups_def map_filter_append map_filter_simps)
  then show ?thesis by (simp add: chosen_backup_def nonempty_def)
qed

text \<open>
  C30: a rollback undoes the last change. When \<open>install\<close> or \<open>prune\<close> wrote a plan, \<open>uap-migrate rollback\<close> succeeds and
  every file is as it was before: changed files have their contents back, created ones are gone, and the
  backup itself is gone too, so that the next rollback steps further back. Hypothesis: the id of the backup is greater
  than those taken before, as its timestamp makes it.
\<close>

theorem rollback_restores:
  assumes "write_plan host command p False d = (Some ex, d')" "pn_changes p \<noteq> []"
    and "list_all (\<lambda>i. i < ho_backup_id host) (map fst (dk_backups d))"
  shows "\<exists>d''. rollback_command None d' = (Some exit_ok, d'') \<and>
    (\<forall>f. map_of (dk_files d'') f = map_of (dk_files d) f) \<and> dk_backups d'' = dk_backups d"
proof -
  let ?i = "ho_backup_id host"
  have fresh: "?i \<notin> fst ` set (dk_backups d)" using assms(3) by (fastforce simp: list_all_iff)
  define s0 where "s0 = \<lparr>bs_id = ?i, bs_command = command, bs_entries = []\<rparr>"
  define d0 where "d0 = set_backup ?i \<lparr>bd_copies = [], bd_manifest = None\<rparr> d"
  have dir: "backup_dir_of d ?i = \<lparr>bd_copies = [], bd_manifest = None\<rparr>"
    using fresh by (simp add: backup_dir_of_def) (metis map_of_eq_None_iff option.simps(4))
  have "\<not> dk_full d" using assms(1,2) by (auto simp: write_plan_def open_backup_def)
  then have opened: "open_backup ?i command d = (True, s0, d0)" by (simp add: open_backup_def dir s0_def d0_def)
  obtain s1 d1 where ap: "apply_plan (ho_paths host) (pn_changes p) (s0, d0) = (True, s1, d1)"
    using assms(1,2) opened by (auto simp: write_plan_def split: prod.splits bool.splits)
  have "backed_up d [] (s0, d0)"
    by (simp add: backed_up_def s0_def d0_def set_backup_def map_set_new [OF fresh] numbered_def)
  moreover have "bs_id s0 \<notin> fst ` set (dk_backups d)" "\<forall>q \<in> be_path ` set (bs_entries s0). q \<notin> set (dk_refuses d)"
    using fresh by (simp_all add: s0_def)
  ultimately have ok: "(\<exists>copies'. backed_up d copies' (s1, d1)) \<and>
      be_path ` set (bs_entries s1) = fc_path ` set (pn_changes p) \<union> be_path ` set (bs_entries s0) \<and>
      (\<forall>q \<in> be_path ` set (bs_entries s1). q \<notin> set (dk_refuses d)) \<and> bs_id s1 = bs_id s0 \<and> bs_command s1 = bs_command s0"
    by (rule apply_backed_up [OF ap])
  then obtain copies where b: "backed_up d copies (s1, d1)" by blast
  from ok have ids: "bs_id s1 = ?i" "bs_command s1 = command"
    and paths: "be_path ` set (bs_entries s1) = fc_path ` set (pn_changes p)" by (simp_all add: s0_def)
  from ok have writable: "\<forall>q \<in> be_path ` set (bs_entries s1). q \<notin> set (dk_refuses d)" by blast
  define m where "m = \<lparr>bm_id = ?i, bm_createdAt = ho_now host, bm_command = command, bm_entries = bs_entries s1\<rparr>"
  have ne: "bs_entries s1 \<noteq> []" using paths assms(2) by auto
  have full: "\<not> dk_full d1" using b \<open>\<not> dk_full d\<close> by (simp add: backed_up_def)
  have bk: "dk_backups d1 = dk_backups d @ [(?i, \<lparr>bd_copies = copies, bd_manifest = None\<rparr>)]"
    using b ids by (simp add: backed_up_def)
  define b2 where "b2 = \<lparr>bd_copies = copies, bd_manifest = Some m\<rparr>"
  have dir1: "backup_dir_of d1 ?i = \<lparr>bd_copies = copies, bd_manifest = None\<rparr>"
    by (rule backup_dir_last [OF bk fresh])
  have "commit_backup (ho_now host) s1 d1 = (True, Some m, set_backup ?i b2 d1)"
    using ne full by (simp add: commit_backup_def ids dir1 m_def b2_def Let_def)
  then have d': "d' = set_backup ?i b2 d1" using assms(1,2) opened ap by (simp add: write_plan_def)
  have bk': "dk_backups d' = dk_backups d @ [(?i, b2)]" by (simp add: d' set_backup_def bk map_set_last [OF fresh])
  have dir': "backup_dir_of d' ?i = b2" by (rule backup_dir_last [OF bk' fresh])
  have "list_all (\<lambda>e. saved d (bd_copies (backup_dir_of d' ?i)) e \<and> be_path e \<notin> set (dk_refuses d')) (bs_entries s1)"
  proof -
    have "dk_refuses d' = dk_refuses d" using b by (simp add: d' set_backup_def backed_up_def)
    with b writable show ?thesis by (simp add: dir' b2_def list_all_iff backed_up_def)
  qed
  from restore_saved [OF this] obtain d3 where d3: "restore_entries ?i (bs_entries s1) d' = (True, d3)"
    "dk_backups d3 = dk_backups d'" "\<forall>q. map_of (dk_files d3) q =
      (if q \<in> be_path ` set (bs_entries s1) then map_of (dk_files d) q else map_of (dk_files d') q)" by blast
  have "chosen_backup None d' = Some m"
    using bk' assms(3) by (intro newest_backup [of d' "dk_backups d" ?i b2]) (simp_all add: b2_def)
  with d3(1) have "rollback_command None d' = (Some exit_ok, remove_backup ?i d3)"
    by (simp add: rollback_command_def restore_backup_def m_def)
  moreover have "map_of (dk_files (remove_backup ?i d3)) q = map_of (dk_files d) q" for q
    using d3(3) b by (auto simp: remove_backup_def d' set_backup_def backed_up_def)
  moreover have "dk_backups (remove_backup ?i d3) = dk_backups d"
    by (simp add: remove_backup_def d3(2) bk' map_delete_last [OF fresh])
  ultimately show ?thesis by blast
qed

section \<open>A machine with a Codex file\<close>

definition demo_engine :: json_engine where
  "demo_engine = \<lparr>je_parse = (\<lambda>s. if s = [] then None else Some (JStr (butlast (tl s)))),
     je_show = (\<lambda>v. case v of JStr s \<Rightarrow> in_quotes s | _ \<Rightarrow> ''null''), je_pretty = (\<lambda>ind v. ''{}''),
     je_message = (\<lambda>s. ''Unexpected token'')\<rparr>"

definition demo_paths :: path_library where
  "demo_paths = \<lparr>pl_join = join ''/'', pl_resolve = (\<lambda>p. p),
     pl_dirname = (\<lambda>p. rev (tl (dropWhile (\<lambda>c. c \<noteq> CHR ''/'') (rev p)))),
     pl_basename = (\<lambda>p. rev (takeWhile (\<lambda>c. c \<noteq> CHR ''/'') (rev p)))\<rparr>"

definition demo_places :: path_context where
  "demo_places = \<lparr>pc_home = ''/h'', pc_cwd = ''/w'', pc_platform = ''linux'', pc_env = []\<rparr>"

definition demo_file :: string where
  "demo_file = join [CHR 0x0A] [''model = 1'', ''[mcp_servers.docs]'', ''url = '' @ in_quotes ''https://d/mcp'', [],
     ''[mcp_servers.local]'', ''command = '' @ in_quotes ''x'', []]"

definition demo_disk :: disk where
  "demo_disk = \<lparr>dk_files = [(''/h/.codex/config.toml'', demo_file)], dk_dirs = [''/h/.codex''], dk_backups = [],
     dk_refuses = [], dk_full = False\<rparr>"

definition demo_prune :: prune_options where
  "demo_prune = \<lparr>pr_migratedUrls = [''https://d/mcp''], pr_canonicalize = Some, pr_entryName = ''gw'',
     pr_clientIds = [''codex'']\<rparr>"

definition demo_prune_plan :: plan where
  "demo_prune_plan = the (plan_prune demo_engine demo_paths demo_disk demo_places demo_prune)"

definition demo_install :: install_options where
  "demo_install = \<lparr>in_gatewayMcpUrl = ''https://gw/mcp'', in_entryName = ''gw'', in_apiKey = ''secret'',
     in_apiKeyEnvVar = ''KEY'', in_inlineKey = False, in_clientIds = [''codex'']\<rparr>"

definition demo_install_plan :: plan where
  "demo_install_plan = the (plan_install demo_engine demo_paths demo_disk demo_places demo_install)"

definition demo_host :: cli_host where
  "demo_host = \<lparr>ho_engine = demo_engine, ho_paths = demo_paths, ho_parse_url = (\<lambda>s. None), ho_cwd = ''/w'',
     ho_platform = ''linux'', ho_gateway = (\<lambda>u k. \<lparr>cp_connections = None, cp_import = (\<lambda>is. None)\<rparr>),
     ho_now = ''2025-01-01'', ho_backup_id = ''2025''\<rparr>"

definition demo_cli :: cli_context where
  "demo_cli = \<lparr>cx_paths = demo_places, cx_stateDir = ''/h/.uap'', cx_json = False, cx_allowHttp = False,
     cx_clientIds = [''codex''], cx_entryName = ''gw''\<rparr>"

lemma demo_prune_runs:
  "plan_prune demo_engine demo_paths demo_disk demo_places demo_prune = Some demo_prune_plan"
  "hd (pn_changes demo_prune_plan) \<in> set (pn_changes demo_prune_plan)"
  "list_all (\<lambda>c. case lc_document c of None \<Rightarrow> True | Some doc \<Rightarrow> valid_document doc)
     (load_configs demo_engine demo_paths demo_disk demo_places (pr_clientIds demo_prune))"
  by code_simp+

theorem prune_exact_witness:
  "\<exists>c doc doc' es. c \<in> set (load_configs demo_engine demo_paths demo_disk demo_places [''codex'']) \<and>
    fc_path (hd (pn_changes demo_prune_plan)) = cl_path (lc_location c) \<and> lc_document c = Some doc \<and>
    fc_contents (hd (pn_changes demo_prune_plan)) = document_serialize demo_engine doc' \<and>
    document_servers demo_engine doc = Some es \<and>
    document_servers demo_engine doc' = Some (filter (\<lambda>e. \<not> taken_over demo_prune e) es)"
  using prune_exact [OF demo_prune_runs] by (simp add: demo_prune_def)

lemma demo_install_runs:
  "plan_install demo_engine demo_paths demo_disk demo_places demo_install = Some demo_install_plan"
  "hd (pn_changes demo_install_plan) \<in> set (pn_changes demo_install_plan)"
  "list_all (\<lambda>c. case lc_document c of None \<Rightarrow> True | Some doc \<Rightarrow> holds_servers doc)
     (load_configs demo_engine demo_paths demo_disk demo_places (in_clientIds demo_install))"
  "is_bare_key (in_entryName demo_install)" "trim (in_gatewayMcpUrl demo_install) \<noteq> []"
  "literal_reads_back demo_engine (in_gatewayMcpUrl demo_install)"
  by code_simp+

theorem install_adds_one_witness:
  "\<exists>c doc' es' entry. c \<in> set (load_configs demo_engine demo_paths demo_disk demo_places [''codex'']) \<and>
    fc_path (hd (pn_changes demo_install_plan)) = cl_path (lc_location c) \<and>
    fc_contents (hd (pn_changes demo_install_plan)) = document_serialize demo_engine doc' \<and>
    document_servers demo_engine doc' = Some es' \<and> Remote entry \<in> set es' \<and>
    re_name entry = ''gw'' \<and> re_url entry = ''https://gw/mcp'' \<and>
    filter (foreign ''gw'' (re_container entry)) es' = filter (foreign ''gw'' (re_container entry))
      (case lc_document c of None \<Rightarrow> [] | Some doc \<Rightarrow> the (document_servers demo_engine doc))"
  using install_adds_one [OF demo_install_runs] by (simp add: demo_install_def)

theorem key_stays_off_disk_witness:
  "install_command demo_host demo_cli (demo_install\<lparr>in_apiKey := ''other''\<rparr>) False demo_disk =
     install_command demo_host demo_cli demo_install False demo_disk"
  by (rule key_stays_off_disk) (simp add: demo_install_def)

lemma demo_write_runs:
  "write_plan demo_host ''install'' demo_install_plan False demo_disk =
     (Some 0, snd (write_plan demo_host ''install'' demo_install_plan False demo_disk))"
  "pn_changes demo_install_plan \<noteq> []"
  "list_all (\<lambda>i. i < ho_backup_id demo_host) (map fst (dk_backups demo_disk))"
  by code_simp+

theorem rollback_restores_witness:
  "\<exists>d''. rollback_command None (snd (write_plan demo_host ''install'' demo_install_plan False demo_disk)) =
      (Some exit_ok, d'') \<and>
    (\<forall>f. map_of (dk_files d'') f = map_of (dk_files demo_disk) f) \<and> dk_backups d'' = dk_backups demo_disk"
  by (rule rollback_restores [OF demo_write_runs])

end
