(* ===== verification/Spec2Isabelle.thy ===== *)
theory Spec2Isabelle
  imports Canonical_Json Domain Ip_Embedding Rate_Limit Store_Facts Catalogue_Store Locks Vault Gateway_Facts
    Connection_Facts Background_Worker Routes Mcp_Client Migration_Facts
begin

text \<open>
  A verification library for the Universal Agent Protocol gateway: one MCP server to its clients, and a
  client of many MCP servers on their behalf, for which it holds OAuth grants. Paths are relative to
  \<^verbatim>\<open>src/packages/\<close> where nothing else is said.

  \<^bold>\<open>The program.\<close> An HTTP request reaches \<^verbatim>\<open>gateway/src/gateway.ts\<close> (\<open>handle_request\<close>), which finds
  its route (\<open>resolve_route\<close>) and answers what the route throws. A caller is authenticated by a configured
  key or by an access token (\<open>authenticate\<close>, \<open>verify_token\<close>). The routes of \<^verbatim>\<open>gateway/src/routes.ts\<close>
  are the control plane, which manages connections to upstream servers (\<open>create_connection\<close>,
  \<open>sync_catalogue\<close>, \<open>start_authorization\<close> and the others of \<^verbatim>\<open>connection-service.ts\<close>), the OAuth
  callback (\<open>exchange_code\<close> of \<^verbatim>\<open>token-manager.ts\<close>) and the MCP endpoint
  (\<^verbatim>\<open>northbound-server.ts\<close>). There a client has a session (\<open>dsession\<close>), and its requests are handled
  by \<^verbatim>\<open>gateway-handler.ts\<close> (\<open>on_request\<close>): lists are read from the catalogue tables, a tool call is
  admitted by the policy, a validation of its arguments and, where asked for, a confirmation by the
  user, and then goes to the upstream with a token that is refreshed when it is about to expire. What
  leaves the process passes \<open>fetch\<close> of \<^verbatim>\<open>safe-fetch.ts\<close>, which judges every address, redirects included.
  Credentials are stored encrypted (\<^verbatim>\<open>envelope.ts\<close>). Other replicas work on the same
  database. A background worker refreshes tokens, resynchronises catalogues, removes idle sessions and
  re-encrypts credentials.

  \<^bold>\<open>Reading the sources as HOL.\<close>
  A JavaScript string is a list of code units up to 255 (\<^theory_text>\<open>Prelude\<close>); an object is the list of its
  entries in their order; \<open>undefined\<close> and an absent member are \<open>None\<close>. A time is an \<open>int\<close> of
  milliseconds, a JSON number a \<open>rat\<close>, an IPv4 address a \<open>32 word\<close>. An asynchronous method is a
  function from the state of the process and its database (\<open>world\<close>) to what it throws or answers and
  the next state (\<open>io\<close> in \<^theory_text>\<open>Effects\<close>); \<open>try\<close>, \<open>catch\<close> and \<open>finally\<close> are \<open>io_catch\<close> and \<open>io_finally\<close>.
  The statements of a method run in their order; where it awaits the network or a lock, time passes and
  everything that other workers may have done happens (\<open>ev_others\<close> on the database, \<open>ev_meanwhile\<close> on the
  sessions of the process), in any way a theorem does not exclude by a hypothesis. What is not under
  \<^verbatim>\<open>src\<close> is an argument: the record \<open>env\<close> holds name resolution, the answers of peers, random bytes,
  hashes, the cipher, signatures, \<open>URL\<close>, \<open>JSON.parse\<close> and \<open>JSON.stringify\<close>; regular expressions of
  schemas and the formatting of numbers are the record \<open>engines\<close>. A repository is a function on the list
  of rows of its table. Requests that leave are recorded in \<open>wd_sent\<close>, messages to upstreams in
  \<open>wd_calls\<close>, what is put on a client's stream in \<open>wd_written\<close>; theorems on what is done speak of these.

  \<^bold>\<open>The theories\<close>, with the files they model, in the order they build on each other.
  \<^item> \<^theory_text>\<open>Prelude\<close>: library functions of JavaScript; the locales \<open>keyed_collection\<close>, \<open>safe_system\<close> (an
    invariant of a step relation) and \<open>single_winner\<close> (a conditional write succeeds once).
  \<^item> \<^theory_text>\<open>Core\<close>, \<^theory_text>\<open>Canonical_Json\<close>, \<^theory_text>\<open>Domain\<close> (\<^verbatim>\<open>core\<close>): JSON, JSON-RPC, errors,
    negotiation, canonical serialisation, records of the store.
  \<^item> \<^theory_text>\<open>Ip_Rules\<close>, \<^theory_text>\<open>Ip_Embedding\<close>, \<^theory_text>\<open>Url_Policy\<close>, \<^theory_text>\<open>Safe_Fetch\<close> (\<^verbatim>\<open>security\<close>): which
    addresses and origins may be reached.
  \<^item> \<^theory_text>\<open>Rate_Limit\<close>, \<^theory_text>\<open>Locks\<close>, \<^theory_text>\<open>Codec\<close>, \<^theory_text>\<open>Vault\<close> (\<^verbatim>\<open>security\<close>): the token bucket, the
    in-process lock as steps of queueing calls and the lease row of several replicas, encodings,
    envelope encryption.
  \<^item> \<^theory_text>\<open>Store\<close>, \<^theory_text>\<open>Store_Facts\<close>, \<^theory_text>\<open>Catalogue_Store\<close> (\<^verbatim>\<open>storage/src/sql-store.ts\<close>): the repositories.
  \<^item> \<^theory_text>\<open>Effects\<close>, \<^theory_text>\<open>Triples\<close>, \<^theory_text>\<open>Guarded\<close>: the world, the environment, and three ways to speak of a
    method: it keeps an invariant (\<open>keeps\<close>), it sends at most so many requests of a kind (\<open>emits\<close>), it
    answers only what satisfies a predicate (\<open>ensures\<close>).
  \<^item> \<^theory_text>\<open>Token_Client\<close>, \<^theory_text>\<open>Registration\<close>, \<^theory_text>\<open>Discovery\<close>, \<^theory_text>\<open>Challenges\<close>, \<^theory_text>\<open>Token_Manager\<close>,
    \<^theory_text>\<open>Token_Manager_Facts\<close>, \<^theory_text>\<open>Resource_Server\<close> (\<^verbatim>\<open>oauth\<close>): both sides of OAuth.
  \<^item> \<^theory_text>\<open>Sse\<close>, \<^theory_text>\<open>Upstream_Listing\<close>, \<^theory_text>\<open>Mcp_Client\<close> (\<^verbatim>\<open>mcp-client\<close>): event streams, the lists of
    an upstream, the Streamable HTTP client.
  \<^item> \<^theory_text>\<open>Session\<close>, \<^theory_text>\<open>Northbound_Server\<close> (\<^verbatim>\<open>mcp-server\<close>): sessions of clients, the MCP endpoint.
  \<^item> \<^theory_text>\<open>Naming\<close>, \<^theory_text>\<open>Tool_Policy\<close>, \<^theory_text>\<open>Pagination\<close>, \<^theory_text>\<open>Upstream_Sessions\<close>, \<^theory_text>\<open>Gateway_Handler\<close>,
    \<^theory_text>\<open>Gateway_Facts\<close>, \<^theory_text>\<open>Connection_Service\<close>, \<^theory_text>\<open>Connection_Facts\<close> (\<^verbatim>\<open>federation\<close>): published names,
    policy and schema validation, pages, live upstream sessions, the MCP surface, the control plane.
  \<^item> \<^theory_text>\<open>Config\<close>, \<^theory_text>\<open>Gateway\<close>, \<^theory_text>\<open>Routes\<close>, \<^theory_text>\<open>Background_Worker\<close> (\<^verbatim>\<open>gateway\<close>): configuration, who a
    caller is, routing, the HTTP surface, the jobs.
  \<^item> \<^theory_text>\<open>Client_Config\<close>, \<^theory_text>\<open>Client_Documents\<close>, \<^theory_text>\<open>Migration\<close>, \<^theory_text>\<open>Migration_Facts\<close>
    (\<^verbatim>\<open>src/apps/migration-cli\<close>): the files in which MCP clients keep their servers, with the locale
    \<open>server_document\<close> for what removing an entry means in either format; discovery, plans, backups and commands.

  \<^bold>\<open>What the lemmas show.\<close> Each theory proves the properties of its own component right after it; the
  numbered ones are the claims. The main ones: a tool call that reaches an upstream was admitted; nothing
  a member does reaches a connection hidden from the member; an authorization code is sent only after
  all checks of its transaction, and once; a refresh is bounded and keeps the grant; metadata and keys
  come from the issuer they are used for; a redirect never carries credentials to another origin; a call
  that is not repeatable is not replayed; an unauthenticated request to the control plane changes
  nothing; every request of a batch is answered, on a stream or not; what is stored encrypted is bound to its tenant and purpose; a token bucket keeps its budget;
  locks, transactions and token versions have one winner; the migration tool removes only what the gateway
  serves, and its rollback undoes its last change. Theorems with hypotheses are followed by a
  concrete case in which the hypotheses hold (\<open>_witness\<close>).

  \<^bold>\<open>Loops and fuel.\<close> Loops over lists are recursion on the list. The redirects of \<open>request_loop\<close> are
  bounded by \<open>sp_maxRedirects\<close>, the retries of \<open>post_token_loop\<close>, \<open>refresh_loop\<close> and \<open>post_loop\<close> by the
  counts of the code, the pages of \<open>collect_pages\<close> by \<open>max_pages\<close>: these numbers are the sources' own
  and no fuel was added. The search of \<open>tool_name_loop\<close> has no bound in the code; it is a
  \<open>partial_function\<close>, and \<open>tool_name_found\<close> shows that it ends. \<open>take_lines\<close> ends by the length of the buffer,
  \<open>header_segments\<close> by that of the header; \<open>with_ancestors\<close> takes the length of the path, which each parent shortens, as its fuel.

  \<^bold>\<open>Not modelled.\<close>
  Aborts, timeouts and keep-alive timers, as they depend on the scheduler; cancelling is modelled up to
  the abort controller. The four lists of a catalogue are asked one after the other, and requests
  that share a fetch in progress are single requests. The deprecated transport
  (\<^verbatim>\<open>legacy-sse.ts\<close>), SQL text, drivers and schema, logs and metrics, key generation, the text of the
  management page, the start and the shutdown of the process, the text the command line programs
  print and the HTTP requests of the migration tool, and the mock servers of the test suite. Code units
  above 255 are outside the type of strings; where bytes are decoded chunk by chunk (\<open>buffer_text\<close>) a
  parameter stands for each of them. Both ways in which a lock is not had in time, in the queue of the
  process or at the lease, are one (\<open>with_lock\<close>). Metadata of the wrong type is read as absent: a list
  with an entry that is no string (\<open>json_strings\<close>), a secret that is no string (\<open>granted_method\<close>). The
  disk of the migration tool holds readable text files, so a file it may not read or that is no UTF-8
  does not occur, and no server is called \<open>__proto__\<close>, a name JavaScript's objects treat apart.
\<close>

end
